(* ===== verification/Prelude.thy ===== *)
theory Prelude
  imports Complex_Main "HOL-Library.DAList" "HOL-Library.Word" "HOL-Library.Code_Target_Numeral"
begin

text \<open>
  Shared vocabulary of the development: errors and results, Go maps, the clock, values of type
  \<^verbatim>\<open>any\<close>, a stable sort and machine integers, with the simp rules that carry the proofs about them.

  Go's \<^verbatim>\<open>map[K]V\<close> is an association list with pairwise distinct keys (\<^verbatim>\<open>DAList.alist\<close>); the
  order of the list is the order in which a \<^verbatim>\<open>for range\<close> loop visits it.  Go leaves that order
  open, so no definition may rely on it: the step relations of the development may reorder
  every map between two operations (\<open>same_map\<close>), and every claim is stated over arbitrary maps.
  A nil map reads as the empty map.
\<close>

subsection \<open>Errors and results\<close>

text \<open>
  \<open>Err s\<close> is \<^verbatim>\<open>fmt.Errorf(s)\<close> with its operands already substituted; \<open>NotFound s\<close> is
  \<^verbatim>\<open>fmt.Errorf(s + ": %w", ErrNotFound)\<close>, the only errors \<^verbatim>\<open>errors.Is(err, ErrNotFound)\<close> accepts;
  \<open>ErrRune s r\<close> carries a rune printed by \<^verbatim>\<open>%q\<close>; \<open>ErrLib s\<close> is an error handed on from
  a library function named by \<open>s\<close>.
\<close>

datatype error = Err string | NotFound string | ErrRune string nat | ErrLib string

fun is_NotFound :: "error \<Rightarrow> bool" where
  "is_NotFound (NotFound _) = True"
| "is_NotFound _ = False"

type_synonym 'a result = "error + 'a"

definition is_ok :: "'e + 'a \<Rightarrow> bool" where
  "is_ok r = (case r of Inl _ \<Rightarrow> False | Inr _ \<Rightarrow> True)"

lemma is_ok_simps [simp]: "is_ok (Inl e) = False" "is_ok (Inr x) = True"
  by (simp_all add: is_ok_def)

lemma is_ok_iff: "is_ok r \<longleftrightarrow> (\<exists>x. r = Inr x)"
  by (cases r) auto

subsection \<open>Time\<close>

text \<open>
  A \<^verbatim>\<open>time.Time\<close> is the number of nanoseconds since Go's zero time (January 1, year 1, UTC), so
  \<^verbatim>\<open>t.IsZero()\<close> is \<open>t = 0\<close> and \<^verbatim>\<open>t.UTC()\<close>, which only changes the location, is the identity.
  A \<^verbatim>\<open>time.Duration\<close> is a number of nanoseconds.  A function that reads the clock takes the
  reading as an argument.
\<close>

type_synonym time = int
type_synonym duration = int

abbreviation (input) Second :: duration where "Second \<equiv> 1000000000"
abbreviation (input) Minute :: duration where "Minute \<equiv> 60000000000"

definition IsZero :: "time \<Rightarrow> bool" where "IsZero t \<longleftrightarrow> t = 0"
definition Before :: "time \<Rightarrow> time \<Rightarrow> bool" where "Before t u \<longleftrightarrow> t < u"
definition After :: "time \<Rightarrow> time \<Rightarrow> bool" where "After t u \<longleftrightarrow> u < t"

lemmas time_simps [simp] = IsZero_def Before_def After_def

subsection \<open>Go maps\<close>

type_synonym ('k, 'v) gomap = "('k, 'v) alist"

abbreviation gempty :: "('k, 'v) gomap" where "gempty \<equiv> DAList.empty"
abbreviation gget :: "('k, 'v) gomap \<Rightarrow> 'k \<Rightarrow> 'v option" where
  "gget m k \<equiv> DAList.lookup m k"
abbreviation gput :: "('k, 'v) gomap \<Rightarrow> 'k \<Rightarrow> 'v \<Rightarrow> ('k, 'v) gomap" where
  "gput m k v \<equiv> DAList.update k v m"
abbreviation gdel :: "('k, 'v) gomap \<Rightarrow> 'k \<Rightarrow> ('k, 'v) gomap" where
  "gdel m k \<equiv> DAList.delete k m"
abbreviation gentries :: "('k, 'v) gomap \<Rightarrow> ('k \<times> 'v) list" where
  "gentries m \<equiv> DAList.impl_of m"
abbreviation glen :: "('k, 'v) gomap \<Rightarrow> nat" where "glen m \<equiv> size m"

text \<open>The keys and the values in the order a range loop visits them.\<close>

definition gkeys :: "('k, 'v) gomap \<Rightarrow> 'k list" where "gkeys m = map fst (gentries m)"
definition gvals :: "('k, 'v) gomap \<Rightarrow> 'v list" where "gvals m = map snd (gentries m)"

text \<open>\<^verbatim>\<open>for k, v := range m { if P(k, v) { delete(m, k) } }\<close>\<close>

definition grange_del :: "('k \<Rightarrow> 'v \<Rightarrow> bool) \<Rightarrow> ('k, 'v) gomap \<Rightarrow> ('k, 'v) gomap" where
  "grange_del P m = DAList.filter (\<lambda>(k, v). \<not> P k v) m"

text \<open>\<^verbatim>\<open>for k, v := range m { m[k] = f(k, v) }\<close>\<close>

lift_definition grange_set :: "('k \<Rightarrow> 'v \<Rightarrow> 'v) \<Rightarrow> ('k, 'v) gomap \<Rightarrow> ('k, 'v) gomap"
  is "\<lambda>f. List.map (\<lambda>(k, v). (k, f k v))"
  by (simp add: comp_def case_prod_beta)

text \<open>\<^verbatim>\<open>m[p][q]\<close> for a map of maps; a missing inner map reads as empty.\<close>

definition gget2 :: "('p, ('q, 'v) gomap) gomap \<Rightarrow> 'p \<Rightarrow> 'q \<Rightarrow> 'v option" where
  "gget2 m p q = (case gget m p of None \<Rightarrow> None | Some r \<Rightarrow> gget r q)"

text \<open>\<^verbatim>\<open>m[p]\<close> for a map of maps, nil read as empty.\<close>

definition ginner :: "('p, ('q, 'v) gomap) gomap \<Rightarrow> 'p \<Rightarrow> ('q, 'v) gomap" where
  "ginner m p = (case gget m p of None \<Rightarrow> gempty | Some r \<Rightarrow> r)"

text \<open>Two maps that hold the same entries, whatever the order a loop would visit them in.\<close>

definition same_map :: "('k, 'v) gomap \<Rightarrow> ('k, 'v) gomap \<Rightarrow> bool" where
  "same_map m m' \<longleftrightarrow> gget m = gget m'"

lemma gget_eq_entries: "gget m k = Some v \<longleftrightarrow> (k, v) \<in> set (gentries m)"
  by transfer (simp add: map_of_eq_Some_iff)

text \<open>An entry looked up after a filter, when its key and value pass it.\<close>

abbreviation (input) keep_if :: "('k \<times> 'v \<Rightarrow> bool) \<Rightarrow> 'k \<Rightarrow> 'v option \<Rightarrow> 'v option" where
  "keep_if P k e \<equiv> Option.bind e (\<lambda>v. if P (k, v) then Some v else None)"

lemma map_of_kept: "distinct (map fst es) \<Longrightarrow> map_of (filter P es) k = keep_if P k (map_of es k)"
proof (induction es)
  case (Cons e es)
  then show ?case by (cases e) (auto simp: map_of_eq_None_iff rev_image_eqI split: option.splits)
qed simp

lemma map_of_map_val: "map_of (map (\<lambda>(k, v). (k, f k v)) xs) k = map_option (f k) (map_of xs k)"
  by (induction xs) auto

lemma gget_filter: "gget (DAList.filter P m) k = keep_if P k (gget m k)"
  by transfer (simp add: map_of_kept)

lemma gget_grange_del [simp]:
  "gget (grange_del P m) k =
     (case gget m k of None \<Rightarrow> None | Some v \<Rightarrow> if P k v then None else Some v)"
  by (cases "gget m k") (auto simp: grange_del_def gget_filter)

lemma gget_grange_set [simp]: "gget (grange_set f m) k = map_option (f k) (gget m k)"
  by transfer (simp add: map_of_map_val)

text \<open>A table without some of its entries.\<close>

definition shrinks :: "('k, 'v) gomap \<Rightarrow> ('k, 'v) gomap \<Rightarrow> bool" where
  "shrinks t t' \<longleftrightarrow> (\<forall>k v. gget t' k = Some v \<longrightarrow> gget t k = Some v)"

lemma shrinks_simps [simp]: "shrinks t t" "shrinks t gempty" "shrinks t (grange_del P t)"
  by (auto simp: shrinks_def split: option.splits if_splits)

lemma shrinks_trans: "shrinks t t' \<Longrightarrow> shrinks t' t'' \<Longrightarrow> shrinks t t''"
  by (simp add: shrinks_def)

lemma gget_gput [simp]: "gget (gput m k v) k' = (if k = k' then Some v else gget m k')"
  by (rule lookup_update)

lemma gget2_empty [simp]: "gget2 gempty p q = None"
  by (simp add: gget2_def)

lemma gget2_ginner: "gget2 m p q = gget (ginner m p) q"
  by (simp add: gget2_def ginner_def split: option.split)

lemma gget2_gput [simp]:
  "gget2 (gput m p r) p' q = (if p = p' then gget r q else gget2 m p' q)"
  by (simp add: gget2_def)

lemma gget2_gdel [simp]:
  "gget2 (gdel m p) p' q = (if p = p' then None else gget2 m p' q)"
  by (simp add: gget2_def)

lemma ginner_gput [simp]: "ginner (gput m p r) p' = (if p = p' then r else ginner m p')"
  by (simp add: ginner_def)

lemma ginner_gdel [simp]: "ginner (gdel m p) p' = (if p = p' then gempty else ginner m p')"
  by (simp add: ginner_def)

lemma ginner_empty [simp]: "ginner gempty p = gempty"
  by (simp add: ginner_def)

lemma set_gkeys: "set (gkeys m) = {k. gget m k \<noteq> None}"
proof -
  have "k \<in> set (gkeys m) \<longleftrightarrow> (\<exists>v. gget m k = Some v)" for k
    unfolding gget_eq_entries by (force simp: gkeys_def)
  then show ?thesis by auto
qed

lemma set_gkeys_iff [simp]: "k \<in> set (gkeys m) \<longleftrightarrow> (\<exists>v. gget m k = Some v)"
  by (simp add: set_gkeys)

lemma distinct_gkeys [simp]: "distinct (gkeys m)"
  by (simp add: gkeys_def)

lemma set_gvals_iff [simp]: "v \<in> set (gvals m) \<longleftrightarrow> (\<exists>k. gget m k = Some v)"
  unfolding gget_eq_entries by (force simp: gvals_def)

lemma gentries_empty [simp]: "gentries gempty = []"
  by (simp add: empty.rep_eq)

lemma glen_0_iff: "glen m = 0 \<longleftrightarrow> (\<forall>k. gget m k = None)"
proof
  assume "glen m = 0"
  then have "gentries m = []" by (simp add: size_alist_def)
  then show "\<forall>k. gget m k = None"
    by (metis gget_eq_entries empty_iff list.set(1) not_Some_eq)
next
  assume "\<forall>k. gget m k = None"
  then have "set (gentries m) = {}"
    by (metis ex_in_conv gget_eq_entries option.distinct(1) surj_pair)
  then show "glen m = 0" by (simp add: size_alist_def)
qed

lemma glen_card: "glen m = card {k. gget m k \<noteq> None}"
  by (metis distinct_card distinct_gkeys gkeys_def length_map set_gkeys size_alist_def)

lemma glen_1_iff: "glen m = 1 \<longleftrightarrow> (\<exists>k v. gget m k = Some v \<and> (\<forall>k'. k' \<noteq> k \<longrightarrow> gget m k' = None))"
  (is "_ \<longleftrightarrow> ?R")
proof -
  have "glen m = 1 \<longleftrightarrow> (\<exists>k. {k. gget m k \<noteq> None} = {k})"
    by (simp add: glen_card card_1_singleton_iff)
  moreover have "{k. gget m k \<noteq> None} = {k} \<longleftrightarrow>
      (\<exists>v. gget m k = Some v) \<and> (\<forall>k'. k' \<noteq> k \<longrightarrow> gget m k' = None)" for k
    by (auto simp: set_eq_iff)
  ultimately show ?thesis by simp
qed

lemma finite_gget [simp]: "finite {k. gget m k \<noteq> None}"
  by (metis List.finite_set set_gkeys)

subsection \<open>Values of type any\<close>

text \<open>
  The dynamic types the program stores in a \<^verbatim>\<open>map[string]any\<close> and tests with a type switch.
  \<open>VInt\<close> is any of \<^verbatim>\<open>int\<close>, \<^verbatim>\<open>int32\<close> and \<^verbatim>\<open>int64\<close>, which the program treats alike; \<open>VFloat\<close> is a
  finite \<^verbatim>\<open>float64\<close>.  \<open>VNamed\<close> is a value of a defined string type, which \<^verbatim>\<open>case string\<close> does
  not match; a struct is the list of its fields, and a pointer is its target or nil.
\<close>

datatype goval =
    VNil
  | VBool bool
  | VInt int
  | VFloat rat
  | VStr string
  | VStrs "string list"
  | VList "goval list"
  | VMap "(string, goval) gomap"
  | VMaps "(string, goval) gomap list"
  | VNamed string
  | VTime time
  | VStruct "(string \<times> goval) list"

type_synonym anymap = "(string, goval) gomap"

text \<open>A composite literal \<^verbatim>\<open>map[string]any{k: v, ...}\<close>, and a pointer as a value.\<close>

definition mk_map :: "('k \<times> 'v) list \<Rightarrow> ('k, 'v) gomap" where
  "mk_map = foldl (\<lambda>m (k, v). gput m k v) gempty"

lemma gget_mk_map [simp]: "gget (mk_map es) k = map_of (rev es) k"
proof -
  have "gget (foldl (\<lambda>m (k, v). gput m k v) m es) k =
      (case map_of (rev es) k of None \<Rightarrow> gget m k | Some v \<Rightarrow> Some v)" for m :: "('b, 'a) gomap"
    by (induction es arbitrary: m) (auto simp: map_add_def split: option.split)
  then show ?thesis by (simp add: mk_map_def split: option.split)
qed

definition opt_val :: "('a \<Rightarrow> goval) \<Rightarrow> 'a option \<Rightarrow> goval" where
  "opt_val f x = (case x of None \<Rightarrow> VNil | Some a \<Rightarrow> f a)"

subsection \<open>Searching and sorting\<close>

text \<open>The first element a loop finds and returns.\<close>

abbreviation gfind :: "('v \<Rightarrow> bool) \<Rightarrow> ('k, 'v) gomap \<Rightarrow> 'v option" where
  "gfind P m \<equiv> List.find P (gvals m)"

lemma find_Some_in: "List.find P xs = Some x \<Longrightarrow> P x \<and> x \<in> set xs"
  by (metis find_Some_iff nth_mem)

lemma gfind_Some: "gfind P m = Some v \<Longrightarrow> P v \<and> (\<exists>k. gget m k = Some v)"
  by (blast dest: find_Some_in intro: set_gvals_iff [THEN iffD1])

lemma gfind_None: "gfind P m = None \<longleftrightarrow> (\<forall>k v. gget m k = Some v \<longrightarrow> \<not> P v)"
  by (auto simp: find_None_iff)

text \<open>
  \<^verbatim>\<open>sort.SliceStable\<close> with the comparator \<open>lt\<close>.  \<^verbatim>\<open>sort.Slice\<close> may permute equal elements;
  since the slices it sorts come from maps of open order, the stable sort of an arbitrary
  order gives every result it can give.
\<close>

fun insert_by :: "('a \<Rightarrow> 'a \<Rightarrow> bool) \<Rightarrow> 'a \<Rightarrow> 'a list \<Rightarrow> 'a list" where
  "insert_by lt x [] = [x]"
| "insert_by lt x (y # ys) = (if lt y x then y # insert_by lt x ys else x # y # ys)"

definition sort_by :: "('a \<Rightarrow> 'a \<Rightarrow> bool) \<Rightarrow> 'a list \<Rightarrow> 'a list" where
  "sort_by lt xs = foldr (insert_by lt) xs []"

lemma set_insert_by [simp]: "set (insert_by lt x ys) = insert x (set ys)"
  by (induction ys) auto

lemma length_insert_by [simp]: "length (insert_by lt x ys) = Suc (length ys)"
  by (induction ys) auto

lemma distinct_insert_by [simp]: "distinct (insert_by lt x ys) \<longleftrightarrow> x \<notin> set ys \<and> distinct ys"
  by (induction ys) auto

lemma sort_by_simps [simp]:
  "sort_by lt [] = []" "sort_by lt (x # xs) = insert_by lt x (sort_by lt xs)"
  by (simp_all add: sort_by_def)

lemma set_sort_by [simp]: "set (sort_by lt xs) = set xs"
  by (induction xs) auto

lemma length_sort_by [simp]: "length (sort_by lt xs) = length xs"
  by (induction xs) auto

lemma distinct_sort_by [simp]: "distinct (sort_by lt xs) = distinct xs"
  by (induction xs) auto

text \<open>No element is less than one before it, for a comparator that is a strict weak order.\<close>

definition weak_order :: "('a \<Rightarrow> 'a \<Rightarrow> bool) \<Rightarrow> bool" where
  "weak_order lt \<longleftrightarrow> (\<forall>x y. lt x y \<longrightarrow> \<not> lt y x) \<and>
     (\<forall>x y z. \<not> lt y x \<longrightarrow> \<not> lt z y \<longrightarrow> \<not> lt z x)"

lemma sorted_insert_by:
  assumes "weak_order lt" and "sorted_wrt (\<lambda>x y. \<not> lt y x) ys"
  shows "sorted_wrt (\<lambda>x y. \<not> lt y x) (insert_by lt x ys)"
  using assms(2)
proof (induction ys)
  case (Cons y ys)
  show ?case
  proof (cases "lt y x")
    case True
    with assms(1) have "\<not> lt x y" unfolding weak_order_def by blast
    with True Cons show ?thesis by auto
  next
    case False
    have "\<not> lt z x" if "z \<in> set ys" for z
    proof -
      from that Cons.prems have "\<not> lt z y" by simp
      with False assms(1) show ?thesis unfolding weak_order_def by blast
    qed
    with False Cons.prems show ?thesis by auto
  qed
qed simp

lemma sorted_sort_by: "weak_order lt \<Longrightarrow> sorted_wrt (\<lambda>x y. \<not> lt y x) (sort_by lt xs)"
  by (induction xs) (auto intro: sorted_insert_by)

subsection \<open>Machine integers\<close>

text \<open>The value an overflowing 64-bit \<^verbatim>\<open>int\<close> operation leaves.\<close>

definition wrap64 :: "int \<Rightarrow> int" where
  "wrap64 x = (x + 2 ^ 63) mod 2 ^ 64 - 2 ^ 63"

lemma wrap64_id: "- (2 ^ 63) \<le> x \<Longrightarrow> x < 2 ^ 63 \<Longrightarrow> wrap64 x = x"
  by (simp add: wrap64_def)

lemma wrap64_bounds: "- (2 ^ 63) \<le> wrap64 x \<and> wrap64 x < 2 ^ 63"
  by (simp add: wrap64_def)

type_synonym byte = "8 word"

end
