(* ===== verification/GoText.thy ===== *)
theory GoText
  imports Prelude "HOL-Library.Char_ord" "HOL-Library.List_Lexorder"
begin

text \<open>
  The text functions of Go's standard library that the program calls, on Go strings.  A Go
  string is a sequence of bytes, here a list of \<open>char\<close>; loops over a string decode it as UTF-8,
  with \<^verbatim>\<open>RuneError\<close> of width one for an invalid byte.  \<^verbatim>\<open>unicode.IsSpace\<close> is written out.  The
  tables of \<^verbatim>\<open>unicode.ToLower\<close> and \<^verbatim>\<open>unicode.ToUpper\<close>, of simple folding and of the letter and
  number classes are data of the standard library: above ASCII they are the fields of a record
  \<open>unicode\<close> that the functions take as an argument, so that every result holds for any such tables.
\<close>

subsection \<open>UTF-8\<close>

type_synonym rune = nat

definition code :: "char \<Rightarrow> nat" where "code c = of_char c"
definition RuneError :: rune where "RuneError = 65533"

definition is_cont :: "nat \<Rightarrow> bool" where "is_cont b \<longleftrightarrow> 128 \<le> b \<and> b \<le> 191"

text \<open>\<^verbatim>\<open>utf8.DecodeRuneInString\<close>: the first rune and its width in bytes.\<close>

fun DecodeRune :: "string \<Rightarrow> rune \<times> nat" where
  "DecodeRune [] = (RuneError, 0)"
| "DecodeRune (c0 # cs) =
     (let b0 = code c0 in
      if b0 < 128 then (b0, 1)
      else case cs of [] \<Rightarrow> (RuneError, 1)
      | c1 # cs1 \<Rightarrow>
        let b1 = code c1 in
        if 194 \<le> b0 \<and> b0 \<le> 223 then
          if is_cont b1 then ((b0 - 192) * 64 + (b1 - 128), 2) else (RuneError, 1)
        else case cs1 of [] \<Rightarrow> (RuneError, 1)
        | c2 # cs2 \<Rightarrow>
          let b2 = code c2 in
          if 224 \<le> b0 \<and> b0 \<le> 239 then
            if (if b0 = 224 then 160 else 128) \<le> b1 \<and> b1 \<le> (if b0 = 237 then 159 else 191) \<and> is_cont b2
            then ((b0 - 224) * 4096 + (b1 - 128) * 64 + (b2 - 128), 3) else (RuneError, 1)
          else case cs2 of [] \<Rightarrow> (RuneError, 1)
          | c3 # _ \<Rightarrow>
            let b3 = code c3 in
            if 240 \<le> b0 \<and> b0 \<le> 244
               \<and> (if b0 = 240 then 144 else 128) \<le> b1 \<and> b1 \<le> (if b0 = 244 then 143 else 191)
               \<and> is_cont b2 \<and> is_cont b3
            then ((b0 - 240) * 262144 + (b1 - 128) * 4096 + (b2 - 128) * 64 + (b3 - 128), 4)
            else (RuneError, 1))"

text \<open>The runes a loop \<^verbatim>\<open>for _, r := range s\<close> visits; \<^verbatim>\<open>utf8.RuneCountInString\<close> is their number.\<close>

fun runes :: "string \<Rightarrow> rune list" where
  "runes [] = []"
| "runes (c # cs) = (case DecodeRune (c # cs) of (r, w) \<Rightarrow> r # runes (drop (w - 1) cs))"

definition RuneCount :: "string \<Rightarrow> nat" where "RuneCount s = length (runes s)"

definition EncodeRune :: "rune \<Rightarrow> string" where
  "EncodeRune r =
     (if r < 128 then [char_of r]
      else if r < 2048 then [char_of (192 + r div 64), char_of (128 + r mod 64)]
      else if 55296 \<le> r \<and> r \<le> 57343 \<or> 1114111 < r
      then [char_of (239::nat), char_of (191::nat), char_of (189::nat)]
      else if r < 65536 then
        [char_of (224 + r div 4096), char_of (128 + r div 64 mod 64), char_of (128 + r mod 64)]
      else
        [char_of (240 + r div 262144), char_of (128 + r div 4096 mod 64),
         char_of (128 + r div 64 mod 64), char_of (128 + r mod 64)])"

definition ascii :: "string \<Rightarrow> bool" where "ascii s \<longleftrightarrow> list_all (\<lambda>c. code c < 128) s"

lemma ascii_simps [simp]: "ascii []" "ascii (c # s) \<longleftrightarrow> code c < 128 \<and> ascii s"
  by (simp_all add: ascii_def)

lemma ascii_append [simp]: "ascii (s @ t) \<longleftrightarrow> ascii s \<and> ascii t"
  by (simp add: ascii_def)

lemma code_inject [simp]: "code c = code d \<longleftrightarrow> c = d"
  by (metis char_of_char code_def)

lemma code_lt: "code c < 256"
  by (simp add: code_def)

lemma code_char_of [simp]: "n < 256 \<Longrightarrow> code (char_of n) = n"
  by (simp add: code_def)

lemma runes_ascii: "ascii s \<Longrightarrow> runes s = map code s"
  by (induction s) (simp_all add: Let_def)

lemma RuneCount_ascii: "ascii s \<Longrightarrow> RuneCount s = length s"
  by (simp add: RuneCount_def runes_ascii)

subsection \<open>Case\<close>

record unicode =
  uc_lower :: "rune \<Rightarrow> rune"   \<comment> \<open>\<^verbatim>\<open>unicode.ToLower\<close> above ASCII\<close>
  uc_upper :: "rune \<Rightarrow> rune"   \<comment> \<open>\<^verbatim>\<open>unicode.ToUpper\<close> above ASCII\<close>
  uc_fold :: "rune \<Rightarrow> rune"    \<comment> \<open>the least rune of the \<^verbatim>\<open>unicode.SimpleFold\<close> orbit, in lower case\<close>
  uc_letter :: "rune \<Rightarrow> bool"  \<comment> \<open>\<^verbatim>\<open>unicode.IsLetter\<close> above ASCII\<close>
  uc_number :: "rune \<Rightarrow> bool"  \<comment> \<open>\<^verbatim>\<open>unicode.IsNumber\<close> above ASCII\<close>

text \<open>Tables without any cased letter above ASCII, for concrete evaluation.\<close>

definition plain_unicode :: unicode where
  "plain_unicode = \<lparr>uc_lower = (\<lambda>r. r), uc_upper = (\<lambda>r. r), uc_fold = (\<lambda>r. r), uc_letter = (\<lambda>_. False), uc_number = (\<lambda>_. False)\<rparr>"

definition rune_lower :: "unicode \<Rightarrow> rune \<Rightarrow> rune" where
  "rune_lower uc r = (if r < 128 then (if 65 \<le> r \<and> r \<le> 90 then r + 32 else r) else uc_lower uc r)"

definition rune_fold :: "unicode \<Rightarrow> rune \<Rightarrow> rune" where
  "rune_fold uc r = (if r < 128 then (if 65 \<le> r \<and> r \<le> 90 then r + 32 else r) else uc_fold uc r)"

definition ToLower :: "unicode \<Rightarrow> string \<Rightarrow> string" where
  "ToLower uc s = concat (map (\<lambda>r. EncodeRune (rune_lower uc r)) (runes s))"

definition rune_upper :: "unicode \<Rightarrow> rune \<Rightarrow> rune" where
  "rune_upper uc r = (if r < 128 then (if 97 \<le> r \<and> r \<le> 122 then r - 32 else r) else uc_upper uc r)"

definition ToUpper :: "unicode \<Rightarrow> string \<Rightarrow> string" where
  "ToUpper uc s = concat (map (\<lambda>r. EncodeRune (rune_upper uc r)) (runes s))"

definition EqualFold :: "unicode \<Rightarrow> string \<Rightarrow> string \<Rightarrow> bool" where
  "EqualFold uc s t \<longleftrightarrow> map (rune_fold uc) (runes s) = map (rune_fold uc) (runes t)"

definition IsLetter :: "unicode \<Rightarrow> rune \<Rightarrow> bool" where
  "IsLetter uc r = (if r < 128 then 65 \<le> r \<and> r \<le> 90 \<or> 97 \<le> r \<and> r \<le> 122 else uc_letter uc r)"

definition IsNumber :: "unicode \<Rightarrow> rune \<Rightarrow> bool" where
  "IsNumber uc r = (if r < 128 then 48 \<le> r \<and> r \<le> 57 else uc_number uc r)"

definition lower_char :: "char \<Rightarrow> char" where
  "lower_char c = (if 65 \<le> code c \<and> code c \<le> 90 then char_of (code c + 32) else c)"

lemma EqualFold_refl [simp]: "EqualFold uc s s"
  by (simp add: EqualFold_def)

lemma EqualFold_sym: "EqualFold uc s t \<Longrightarrow> EqualFold uc t s"
  by (simp add: EqualFold_def)

lemma EqualFold_trans: "EqualFold uc s t \<Longrightarrow> EqualFold uc t u \<Longrightarrow> EqualFold uc s u"
  by (simp add: EqualFold_def)

lemma ToLower_ascii: "ascii s \<Longrightarrow> ToLower uc s = map lower_char s"
  by (induction s) (auto simp: ToLower_def runes_ascii rune_lower_def EncodeRune_def lower_char_def code_def)

lemma code_lower_char: "code (lower_char c) = (if 65 \<le> code c \<and> code c \<le> 90 then code c + 32 else code c)"
  by (simp add: lower_char_def)

lemma ascii_map_lower: "ascii s \<Longrightarrow> ascii (map lower_char s)"
  by (induction s) (auto simp: code_lower_char)

lemma ToLower_idem_ascii: "ascii s \<Longrightarrow> ToLower uc (ToLower uc s) = ToLower uc s"
  by (simp add: ToLower_ascii ascii_map_lower) (simp add: lower_char_def code_lower_char)

lemma EqualFold_ascii:
  assumes "ascii s" "ascii t"
  shows "EqualFold uc s t \<longleftrightarrow> ToLower uc s = ToLower uc t"
proof -
  have fold: "map (rune_fold uc) (runes u) = map code (map lower_char u)" if "ascii u" for u
    using that by (induction u) (auto simp: rune_fold_def code_lower_char runes_ascii)
  have inj: "map code u = map code v \<longleftrightarrow> u = v" for u v
    by (rule inj_map_eq_map) (simp add: inj_on_def)
  show ?thesis
    using assms by (simp add: EqualFold_def fold ToLower_ascii inj del: map_map)
qed

subsection \<open>White space\<close>

definition IsSpace :: "rune \<Rightarrow> bool" where
  "IsSpace r \<longleftrightarrow> 9 \<le> r \<and> r \<le> 13 \<or> r = 32 \<or> r = 133 \<or> r = 160 \<or> r = 5760 \<or> 8192 \<le> r \<and> r \<le> 8202
     \<or> r = 8232 \<or> r = 8233 \<or> r = 8239 \<or> r = 8287 \<or> r = 12288"

fun TrimLeftSpace :: "string \<Rightarrow> string" where
  "TrimLeftSpace [] = []"
| "TrimLeftSpace (c # cs) =
     (case DecodeRune (c # cs) of (r, w) \<Rightarrow>
        if IsSpace r then TrimLeftSpace (drop (w - 1) cs) else c # cs)"

text \<open>
  \<^verbatim>\<open>utf8.DecodeLastRuneInString\<close> on a non-empty string: the shortest suffix of at most four bytes
  that starts with a byte that is no continuation byte, when it is one whole rune.
\<close>

definition DecodeLastRune :: "string \<Rightarrow> rune \<times> nat" where
  "DecodeLastRune s =
     (case List.find (\<lambda>k. k \<le> length s \<and> \<not> is_cont (code (s ! (length s - k)))) [1, 2, 3, 4] of
        None \<Rightarrow> (RuneError, 1)
      | Some k \<Rightarrow>
          (case DecodeRune (drop (length s - k) s) of (r, w) \<Rightarrow> if w = k then (r, k) else (RuneError, 1)))"

lemma DecodeLastRune_width: "0 < snd (DecodeLastRune s)"
  by (auto simp: DecodeLastRune_def split: option.splits if_splits prod.splits)

function TrimRightSpace :: "string \<Rightarrow> string" where
  "TrimRightSpace s =
     (if s = [] then []
      else case DecodeLastRune s of (r, w) \<Rightarrow>
        if IsSpace r then TrimRightSpace (take (length s - w) s) else s)"
  by pat_completeness auto
termination
proof (relation "measure length")
  fix s r w
  assume "s \<noteq> []" and "(r, w) = DecodeLastRune s"
  then show "(take (length s - w) s, s) \<in> measure length"
    using DecodeLastRune_width[of s] by (simp add: prod_eq_iff)
qed simp

declare TrimRightSpace.simps [simp del]

definition TrimSpace :: "string \<Rightarrow> string" where
  "TrimSpace s = TrimRightSpace (TrimLeftSpace s)"

lemma TrimSpace_Nil [simp]: "TrimSpace [] = []"
  by (simp add: TrimSpace_def TrimRightSpace.simps)

lemma DecodeLastRune_ascii:
  "code c < 128 \<Longrightarrow> DecodeLastRune (s @ [c]) = (code c, 1)"
  by (simp add: DecodeLastRune_def is_cont_def nth_append)

text \<open>A string of printable ASCII characters other than the blank is left alone.\<close>

definition solid :: "string \<Rightarrow> bool" where
  "solid s \<longleftrightarrow> list_all (\<lambda>c. 33 \<le> code c \<and> code c < 128) s"

lemma solid_ascii: "solid s \<Longrightarrow> ascii s"
  by (induction s) (auto simp: solid_def)

lemma TrimRightSpace_solid: "solid s \<Longrightarrow> TrimRightSpace s = s"
proof (cases s rule: rev_cases)
  case (snoc t c)
  assume "solid s"
  with snoc have "33 \<le> code c" "code c < 128" by (auto simp: solid_def)
  with snoc show ?thesis
    by (simp add: TrimRightSpace.simps DecodeLastRune_ascii IsSpace_def)
qed (simp add: TrimRightSpace.simps)

lemma TrimSpace_solid: "solid s \<Longrightarrow> TrimSpace s = s"
proof (cases s)
  case (Cons c cs)
  assume "solid s"
  with Cons have "TrimLeftSpace s = s" by (auto simp: solid_def Let_def IsSpace_def)
  with \<open>solid s\<close> show ?thesis by (simp add: TrimSpace_def TrimRightSpace_solid)
qed simp

text \<open>On ASCII strings the white space is stripped character by character.\<close>

abbreviation (input) blank :: "char \<Rightarrow> bool" where "blank c \<equiv> IsSpace (code c)"

lemma TrimLeftSpace_ascii: "ascii s \<Longrightarrow> TrimLeftSpace s = dropWhile blank s"
  by (induction s) (simp_all add: Let_def)

lemma TrimRightSpace_ascii: "ascii s \<Longrightarrow> TrimRightSpace s = rev (dropWhile blank (rev s))"
proof (induction s rule: rev_induct)
  case (snoc c s)
  then have "code c < 128" "ascii s" by simp_all
  with snoc.IH show ?case
    by (subst TrimRightSpace.simps) (simp add: DecodeLastRune_ascii)
qed (simp add: TrimRightSpace.simps)

lemma ascii_dropWhile: "ascii s \<Longrightarrow> ascii (dropWhile P s)"
  by (induction s) auto

lemma ascii_rev [simp]: "ascii (rev s) \<longleftrightarrow> ascii s"
  by (simp add: ascii_def)

lemma TrimSpace_ascii: "ascii s \<Longrightarrow> TrimSpace s = rev (dropWhile blank (rev (dropWhile blank s)))"
  by (simp add: TrimSpace_def TrimLeftSpace_ascii TrimRightSpace_ascii ascii_dropWhile)

lemma ascii_TrimSpace: "ascii s \<Longrightarrow> ascii (TrimSpace s)"
  by (simp add: TrimSpace_ascii ascii_dropWhile)

text \<open>A rune that is no \<open>RuneError\<close> is decoded from its own bytes, whatever follows them.\<close>

lemma DecodeRune_append:
  assumes "fst (DecodeRune s) \<noteq> RuneError"
  shows "DecodeRune (s @ t) = DecodeRune s"
proof -
  consider "s = []" | a where "s = [a]" | a b where "s = [a, b]" | a b c where "s = [a, b, c]"
    | a b c d u where "s = a # b # c # d # u"
    by (metis list.exhaust)
  then show ?thesis
    using assms by cases (simp_all add: Let_def split: if_splits)
qed

lemma RuneError_no_space: "IsSpace r \<Longrightarrow> r \<noteq> RuneError"
  by (auto simp: IsSpace_def RuneError_def)

definition starts_solid :: "string \<Rightarrow> bool" where
  "starts_solid s \<longleftrightarrow> s = [] \<or> \<not> IsSpace (fst (DecodeRune s))"

definition ends_solid :: "string \<Rightarrow> bool" where
  "ends_solid s \<longleftrightarrow> s = [] \<or> \<not> IsSpace (fst (DecodeLastRune s))"

lemma starts_solid_prefix: "starts_solid (s @ t) \<Longrightarrow> starts_solid s"
  using DecodeRune_append [of s t] RuneError_no_space [of "fst (DecodeRune s)"]
  by (auto simp: starts_solid_def)

lemma TrimLeftSpace_solid: "starts_solid s \<Longrightarrow> TrimLeftSpace s = s"
  by (cases s) (auto simp: starts_solid_def simp del: DecodeRune.simps split: prod.splits)

lemma starts_solid_TrimLeft: "starts_solid (TrimLeftSpace s)"
  by (induction s rule: TrimLeftSpace.induct)
    (auto simp: starts_solid_def simp del: DecodeRune.simps split: prod.splits)

lemma TrimRightSpace_prefix: "\<exists>t. s = TrimRightSpace s @ t"
proof (induction s rule: TrimRightSpace.induct)
  case (1 s)
  show ?case
  proof (cases "s = [] \<or> \<not> IsSpace (fst (DecodeLastRune s))")
    case True
    then show ?thesis by (subst TrimRightSpace.simps) (auto split: prod.splits)
  next
    case False
    obtain r w where d: "DecodeLastRune s = (r, w)" by fastforce
    with 1 [OF _ d [symmetric]] False obtain t
      where "take (length s - w) s = TrimRightSpace (take (length s - w) s) @ t" by auto
    then have "s = TrimRightSpace (take (length s - w) s) @ t @ drop (length s - w) s"
      by (metis append.assoc append_take_drop_id)
    with False d show ?thesis by (subst TrimRightSpace.simps) auto
  qed
qed

lemma ends_solid_TrimRight: "ends_solid (TrimRightSpace s)"
proof (induction s rule: TrimRightSpace.induct)
  case (1 s)
  obtain r w where d: "DecodeLastRune s = (r, w)" by fastforce
  with 1 [OF _ d [symmetric]] show ?case
    by (subst TrimRightSpace.simps) (auto simp: ends_solid_def)
qed

lemma TrimRightSpace_ended: "ends_solid s \<Longrightarrow> TrimRightSpace s = s"
  by (subst TrimRightSpace.simps) (auto simp: ends_solid_def split: prod.splits)

lemma TrimSpace_idem [simp]: "TrimSpace (TrimSpace s) = TrimSpace s"
proof -
  obtain t where "TrimLeftSpace s = TrimSpace s @ t"
    using TrimRightSpace_prefix unfolding TrimSpace_def by blast
  then have "starts_solid (TrimSpace s)" by (metis starts_solid_TrimLeft starts_solid_prefix)
  then show ?thesis
    by (metis TrimLeftSpace_solid TrimRightSpace_ended TrimSpace_def ends_solid_TrimRight)
qed

lemma set_TrimSpace_ascii: "ascii s \<Longrightarrow> set (TrimSpace s) \<subseteq> set s"
  by (auto simp: TrimSpace_ascii dest!: set_dropWhileD)

text \<open>\<^verbatim>\<open>strings.TrimSpace(strings.ToLower(s))\<close>\<close>

definition clean :: "unicode \<Rightarrow> string \<Rightarrow> string" where
  "clean uc s = TrimSpace (ToLower uc s)"

lemma ascii_clean: "ascii s \<Longrightarrow> ascii (clean uc s)"
  by (simp add: clean_def ToLower_ascii ascii_map_lower ascii_TrimSpace)

lemma clean_idem:
  assumes "ascii s"
  shows "clean uc (clean uc s) = clean uc s"
proof -
  have a: "ascii (map lower_char s)" using assms by (rule ascii_map_lower)
  have "lower_char c = c" if "c \<in> set (TrimSpace (map lower_char s))" for c
  proof -
    from that set_TrimSpace_ascii [OF a] have "c \<in> lower_char ` set s" by auto
    then show ?thesis by (auto simp: code_lower_char simp flip: code_inject split: if_splits)
  qed
  then have "map lower_char (TrimSpace (map lower_char s)) = TrimSpace (map lower_char s)"
    by (simp add: map_idI)
  with assms a show ?thesis
    by (simp add: clean_def ToLower_ascii ascii_TrimSpace TrimSpace_idem)
qed

subsection \<open>Substrings\<close>

fun Contains :: "string \<Rightarrow> string \<Rightarrow> bool" where
  "Contains [] sub = (sub = [])"
| "Contains (c # cs) sub = (take (length sub) (c # cs) = sub \<or> Contains cs sub)"

definition HasPrefix :: "string \<Rightarrow> string \<Rightarrow> bool" where
  "HasPrefix s p \<longleftrightarrow> take (length p) s = p"

definition HasSuffix :: "string \<Rightarrow> string \<Rightarrow> bool" where
  "HasSuffix s p \<longleftrightarrow> length p \<le> length s \<and> drop (length s - length p) s = p"

definition TrimSuffix :: "string \<Rightarrow> string \<Rightarrow> string" where
  "TrimSuffix s p = (if HasSuffix s p then take (length s - length p) s else s)"

text \<open>\<^verbatim>\<open>strings.Split(s, sep)\<close> for a separator of one byte.\<close>

fun Split :: "string \<Rightarrow> char \<Rightarrow> string list" where
  "Split [] sep = [[]]"
| "Split (c # cs) sep =
     (if c = sep then [] # Split cs sep
      else case Split cs sep of [] \<Rightarrow> [[c]] | p # ps \<Rightarrow> (c # p) # ps)"

lemma HasPrefix_append: "HasPrefix s p \<longleftrightarrow> (\<exists>t. s = p @ t)"
  by (metis HasPrefix_def append_eq_conv_conj append_take_drop_id)

lemma HasSuffix_append: "HasSuffix s p \<longleftrightarrow> (\<exists>t. s = t @ p)"
  by (auto simp: HasSuffix_def) (metis append_take_drop_id)

lemma TrimSuffix_append [simp]: "TrimSuffix (t @ p) p = t"
  by (simp add: TrimSuffix_def HasSuffix_def)

lemma Contains_iff: "Contains s sub \<longleftrightarrow> (\<exists>a b. s = a @ sub @ b)"
proof (induction s)
  case (Cons c cs)
  have "take (length sub) (c # cs) = sub \<longleftrightarrow> (\<exists>b. c # cs = sub @ b)"
    by (metis HasPrefix_append HasPrefix_def)
  with Cons show ?case by (auto simp: Cons_eq_append_conv)
qed auto

subsection \<open>Numbers and hexadecimal\<close>

text \<open>\<^verbatim>\<open>strconv.Itoa\<close> and the verb \<^verbatim>\<open>%d\<close>.\<close>

fun digits :: "nat \<Rightarrow> string" where
  "digits n = (if n < 10 then [char_of (48 + n)] else digits (n div 10) @ [char_of (48 + n mod 10)])"

declare digits.simps [simp del]

definition Itoa :: "int \<Rightarrow> string" where
  "Itoa i = (if i < 0 then CHR ''-'' # digits (nat (- i)) else digits (nat i))"

definition undigits :: "string \<Rightarrow> nat" where
  "undigits s = foldl (\<lambda>a c. a * 10 + (code c - 48)) 0 s"

lemma undigits_digits: "undigits (digits n) = n"
proof (induction n rule: digits.induct)
  case (1 n)
  show ?case
  proof (cases "n < 10")
    case True
    then show ?thesis by (simp add: undigits_def digits.simps)
  next
    case False
    have "n mod 10 < 10" by simp
    then have "code (char_of (48 + n mod 10)) = 48 + n mod 10" by (intro code_char_of) arith
    with False 1 show ?thesis
      by (simp add: undigits_def digits.simps[of n])
  qed
qed

lemma digits_inject [simp]: "digits m = digits n \<longleftrightarrow> m = n"
  by (metis undigits_digits)

lemma Itoa_inject_nonneg: "0 \<le> i \<Longrightarrow> 0 \<le> j \<Longrightarrow> Itoa i = Itoa j \<longleftrightarrow> i = j"
  by (simp add: Itoa_def) (metis nat_0_le)

lemma digits_chars: "c \<in> set (digits n) \<Longrightarrow> 48 \<le> code c \<and> code c < 58"
proof (induction n rule: digits.induct)
  case (1 n)
  have m: "n mod 10 < 10" by simp
  show ?case
  proof (cases "n < 10")
    case True
    with "1.prems" show ?thesis by (simp add: digits.simps[of n])
  next
    case False
    with "1.prems" have "c \<in> set (digits (n div 10)) \<or> c = char_of (48 + n mod 10)"
      by (auto simp: digits.simps[of n])
    with "1.IH" False m show ?thesis by auto
  qed
qed

lemma digits_nonempty [simp]: "digits n \<noteq> []"
  by (simp add: digits.simps[of n])

text \<open>\<^verbatim>\<open>strconv.Atoi\<close>: an optional sign, decimal digits, and a value that fits an \<^verbatim>\<open>int\<close>.\<close>

definition is_digit :: "char \<Rightarrow> bool" where "is_digit c \<longleftrightarrow> 48 \<le> code c \<and> code c \<le> 57"

definition parse_digits :: "string \<Rightarrow> int option" where
  "parse_digits s =
     (if s \<noteq> [] \<and> list_all is_digit s then Some (foldl (\<lambda>a c. a * 10 + (int (code c) - 48)) 0 s) else None)"

definition Atoi :: "string \<Rightarrow> int option" where
  "Atoi s =
     (let v = (case s of
            [] \<Rightarrow> None
          | c # cs \<Rightarrow>
              if c = CHR ''-'' then map_option uminus (parse_digits cs)
              else if c = CHR ''+'' then parse_digits cs
              else parse_digits s)
      in case v of None \<Rightarrow> None
         | Some n \<Rightarrow> if - (2 ^ 63) \<le> n \<and> n < 2 ^ 63 then Some n else None)"

definition hexdigit :: "nat \<Rightarrow> char" where
  "hexdigit n = (if n < 10 then char_of (48 + n) else char_of (87 + n))"

definition hexval :: "char \<Rightarrow> nat option" where
  "hexval c = (let n = code c in
     if 48 \<le> n \<and> n \<le> 57 then Some (n - 48)
     else if 97 \<le> n \<and> n \<le> 102 then Some (n - 87)
     else if 65 \<le> n \<and> n \<le> 70 then Some (n - 55)
     else None)"

text \<open>\<^verbatim>\<open>hex.EncodeToString\<close> and \<^verbatim>\<open>hex.DecodeString\<close>.\<close>

fun HexEncode :: "byte list \<Rightarrow> string" where
  "HexEncode [] = []"
| "HexEncode (b # bs) = hexdigit (unat b div 16) # hexdigit (unat b mod 16) # HexEncode bs"

fun HexDecode :: "string \<Rightarrow> byte list result" where
  "HexDecode [] = Inr []"
| "HexDecode [c] = Inl (ErrLib ''hex'')"
| "HexDecode (c # d # cs) =
     (case (hexval c, hexval d) of
        (Some x, Some y) \<Rightarrow>
          (case HexDecode cs of Inl e \<Rightarrow> Inl e | Inr bs \<Rightarrow> Inr (of_nat (x * 16 + y) # bs))
      | _ \<Rightarrow> Inl (ErrLib ''hex''))"

lemma hexval_hexdigit: "n < 16 \<Longrightarrow> hexval (hexdigit n) = Some n"
  by (auto simp: hexval_def hexdigit_def Let_def)

lemma hexdigit_code: "n < 16 \<Longrightarrow> code (hexdigit n) \<noteq> 45 \<and> 48 \<le> code (hexdigit n) \<and> code (hexdigit n) < 103"
  by (auto simp: hexdigit_def)

lemma unat_byte_lt: "unat (b :: byte) < 256"
  by (rule order_less_le_trans [OF unsigned_less]) simp

lemma unat_byte_nibbles: "unat (b :: byte) div 16 < 16" "unat b mod 16 < 16"
  using unat_byte_lt[of b] by auto

lemma HexDecode_HexEncode: "HexDecode (HexEncode bs) = Inr bs"
  by (induction bs) (simp_all add: hexval_hexdigit unat_byte_nibbles)

lemma length_HexEncode [simp]: "length (HexEncode bs) = 2 * length bs"
  by (induction bs) simp_all

lemma HexEncode_append: "HexEncode (as @ bs) = HexEncode as @ HexEncode bs"
  by (induction as) simp_all

lemma HexEncode_chars:
  "c \<in> set (HexEncode bs) \<Longrightarrow> code c \<noteq> 45 \<and> 48 \<le> code c \<and> code c < 103"
proof (induction bs)
  case (Cons b bs)
  then show ?case
    using hexdigit_code[OF unat_byte_nibbles(1)[of b]] hexdigit_code[OF unat_byte_nibbles(2)[of b]]
    by auto
qed simp

lemma HexEncode_inject [simp]: "HexEncode as = HexEncode bs \<longleftrightarrow> as = bs"
  by (metis HexDecode_HexEncode sum.inject(2))

text \<open>The bytes of a Go string and the string of some bytes.\<close>

definition bytes_of :: "string \<Rightarrow> byte list" where "bytes_of s = map (\<lambda>c. of_nat (code c)) s"
definition string_of :: "byte list \<Rightarrow> string" where "string_of bs = map (\<lambda>b. char_of (unat b)) bs"

lemma bytes_of_string_of [simp]: "bytes_of (string_of bs) = bs"
  by (induction bs) (simp_all add: bytes_of_def string_of_def unat_byte_lt)

lemma string_of_bytes_of [simp]: "string_of (bytes_of s) = s"
proof -
  have "char_of (unat (of_nat (code c) :: byte)) = c" for c
    using code_lt[of c] by (simp add: unat_of_nat code_def)
  then show ?thesis by (induction s) (simp_all add: bytes_of_def string_of_def)
qed

lemma bytes_of_inject [simp]: "bytes_of s = bytes_of t \<longleftrightarrow> s = t"
  by (metis string_of_bytes_of)

lemma length_bytes_of [simp]: "length (bytes_of s) = length s"
  by (simp add: bytes_of_def)

end
