(* ===== verification/GoCrypto.thy ===== *)
theory GoCrypto
  imports GoText
begin

unbundle bit_operations_syntax

text \<open>
  The hashing and encoding functions of Go's standard library that the program calls:
  \<^verbatim>\<open>crypto/sha256\<close> (FIPS 180-4), \<^verbatim>\<open>encoding/base64\<close> in its raw URL alphabet, and big-endian
  integers.  They are executable, so identifiers and token hashes of the model are the values
  the program computes.  Random bytes are arguments of the functions that draw them.
\<close>

subsection \<open>SHA-256\<close>

type_synonym w32 = "32 word"

text \<open>The round constants and the initial hash value of FIPS 180-4, in decimal.\<close>

definition sha_K :: "w32 list" where
  "sha_K = [
    1116352408, 1899447441, 3049323471, 3921009573, 961987163, 1508970993, 2453635748, 2870763221,
    3624381080, 310598401, 607225278, 1426881987, 1925078388, 2162078206, 2614888103, 3248222580,
    3835390401, 4022224774, 264347078, 604807628, 770255983, 1249150122, 1555081692, 1996064986,
    2554220882, 2821834349, 2952996808, 3210313671, 3336571891, 3584528711, 113926993, 338241895,
    666307205, 773529912, 1294757372, 1396182291, 1695183700, 1986661051, 2177026350, 2456956037,
    2730485921, 2820302411, 3259730800, 3345764771, 3516065817, 3600352804, 4094571909, 275423344,
    430227734, 506948616, 659060556, 883997877, 958139571, 1322822218, 1537002063, 1747873779,
    1955562222, 2024104815, 2227730452, 2361852424, 2428436474, 2756734187, 3204031479, 3329325298]"

definition sha_H0 :: "w32 list" where
  "sha_H0 = [
    1779033703, 3144134277, 1013904242, 2773480762, 1359893119, 2600822924, 528734635, 1541459225]"

definition be32 :: "byte list \<Rightarrow> w32" where
  "be32 bs = foldl (\<lambda>a b. push_bit 8 a OR ucast b) 0 bs"

definition be_bytes :: "nat \<Rightarrow> nat \<Rightarrow> byte list" where
  "be_bytes k n = map (\<lambda>i. of_nat (n div 256 ^ (k - 1 - i))) [0..<k]"

text \<open>The first 16 words of the message schedule are the block, read four bytes at a time.\<close>

fun words_of :: "byte list \<Rightarrow> w32 list" where
  "words_of (a # b # c # d # bs) = be32 [a, b, c, d] # words_of bs"
| "words_of _ = []"

definition sig0 :: "w32 \<Rightarrow> w32" where
  "sig0 x = word_rotr 7 x XOR word_rotr 18 x XOR drop_bit 3 x"
definition sig1 :: "w32 \<Rightarrow> w32" where
  "sig1 x = word_rotr 17 x XOR word_rotr 19 x XOR drop_bit 10 x"
definition Sig0 :: "w32 \<Rightarrow> w32" where
  "Sig0 x = word_rotr 2 x XOR word_rotr 13 x XOR word_rotr 22 x"
definition Sig1 :: "w32 \<Rightarrow> w32" where
  "Sig1 x = word_rotr 6 x XOR word_rotr 11 x XOR word_rotr 25 x"

text \<open>The schedule is built backwards: the most recent word is the head.\<close>

fun sha_extend :: "nat \<Rightarrow> w32 list \<Rightarrow> w32 list" where
  "sha_extend 0 ws = ws"
| "sha_extend (Suc n) ws =
     sha_extend n ((sig1 (ws ! 1) + ws ! 6 + sig0 (ws ! 14) + ws ! 15) # ws)"

definition sha_schedule :: "w32 list \<Rightarrow> w32 list" where
  "sha_schedule block = rev (sha_extend 48 (rev block))"

fun sha_round :: "w32 list \<Rightarrow> w32 \<times> w32 \<Rightarrow> w32 list" where
  "sha_round [a, b, c, d, e, f, g, h] (k, w) =
     (let t1 = h + Sig1 e + ((e AND f) XOR (NOT e AND g)) + k + w;
          t2 = Sig0 a + ((a AND b) XOR (a AND c) XOR (b AND c))
      in [t1 + t2, a, b, c, d + t1, e, f, g])"
| "sha_round hs _ = hs"

definition sha_block :: "w32 list \<Rightarrow> w32 list \<Rightarrow> w32 list" where
  "sha_block hs block = map2 (+) hs (foldl sha_round hs (zip sha_K (sha_schedule block)))"

fun sha_blocks :: "nat \<Rightarrow> w32 list \<Rightarrow> w32 list \<Rightarrow> w32 list" where
  "sha_blocks 0 hs ws = hs"
| "sha_blocks (Suc n) hs ws = sha_blocks n (sha_block hs (take 16 ws)) (drop 16 ws)"

definition sha_pad :: "byte list \<Rightarrow> byte list" where
  "sha_pad bs = bs @ [0x80] @ replicate ((119 - length bs mod 64) mod 64) 0 @ be_bytes 8 (8 * length bs)"

definition sha256 :: "byte list \<Rightarrow> byte list" where
  "sha256 bs =
     (let m = sha_pad bs
      in concat (map (\<lambda>w. be_bytes 4 (unat w)) (sha_blocks (length m div 64) sha_H0 (words_of m))))"

lemma length_be_bytes [simp]: "length (be_bytes k n) = k"
  by (simp add: be_bytes_def)

lemma length_sha_round: "length (sha_round hs kw) = length hs"
  by (induction hs kw rule: sha_round.induct) (simp_all add: Let_def)

lemma length_foldl_sha_round: "length (foldl sha_round hs kws) = length hs"
  by (induction kws arbitrary: hs) (simp_all add: length_sha_round)

lemma length_sha_blocks: "length (sha_blocks n hs ws) = length hs"
  by (induction n arbitrary: hs ws) (simp_all add: sha_block_def length_foldl_sha_round)

lemma length_concat_be_bytes: "length (concat (map (\<lambda>w. be_bytes k (f w)) ws)) = k * length ws"
  by (induction ws) simp_all

lemma length_sha256 [simp]: "length (sha256 bs) = 32"
  by (simp add: sha256_def Let_def length_concat_be_bytes length_sha_blocks sha_H0_def)

subsection \<open>Base64 in the raw URL alphabet\<close>

definition b64url :: "nat \<Rightarrow> char" where
  "b64url n = (if n < 26 then char_of (65 + n) else if n < 52 then char_of (71 + n)
     else if n < 62 then char_of (n - 4) else if n = 62 then CHR ''-'' else CHR ''_'')"

text \<open>\<^verbatim>\<open>base64.RawURLEncoding.EncodeToString\<close>.\<close>

fun Base64RawURL :: "byte list \<Rightarrow> string" where
  "Base64RawURL (a # b # c # bs) =
     (let x = unat a; y = unat b; z = unat c in
      b64url (x div 4) # b64url (x mod 4 * 16 + y div 16) # b64url (y mod 16 * 4 + z div 64)
        # b64url (z mod 64) # Base64RawURL bs)"
| "Base64RawURL [a, b] =
     (let x = unat a; y = unat b in
      [b64url (x div 4), b64url (x mod 4 * 16 + y div 16), b64url (y mod 16 * 4)])"
| "Base64RawURL [a] = (let x = unat a in [b64url (x div 4), b64url (x mod 4 * 16)])"
| "Base64RawURL [] = []"

lemma length_Base64RawURL: "length (Base64RawURL bs) = (4 * length bs + 2) div 3"
  by (induction bs rule: Base64RawURL.induct) (simp_all add: Let_def)

lemma b64url_inject: "m < 64 \<Longrightarrow> n < 64 \<Longrightarrow> b64url m = b64url n \<longleftrightarrow> m = n"
proof -
  have val: "code (b64url k) = (if k < 26 then 65 + k else if k < 52 then 71 + k
      else if k < 62 then k - 4 else if k = 62 then 45 else 95)" if "k < 64" for k
    using that by (auto simp: b64url_def) (simp_all add: code_def)
  assume "m < 64" "n < 64"
  then show ?thesis
    unfolding code_inject[symmetric] by (auto simp: val split: if_splits)
qed

end
