(* ===== verification/GoCodec.thy ===== *)
theory GoCodec
  imports GoCrypto
begin

text \<open>
  More of Go's standard library, for passwords and one-time codes: \<^verbatim>\<open>crypto/sha1\<close> and
  \<^verbatim>\<open>crypto/hmac\<close>, \<^verbatim>\<open>encoding/base64\<close> in its raw standard alphabet and \<^verbatim>\<open>encoding/base32\<close> without
  padding, both with their decoders, \<^verbatim>\<open>strings.Cut\<close>, and the escapes of \<^verbatim>\<open>net/url\<close>.  The locale
  \<open>byte_text\<close> is what an encoder and its decoder promise each other.
\<close>

subsection \<open>Numbers in text\<close>

lemma is_digit_digits: "list_all is_digit (digits n)"
  by (auto simp: list_all_iff is_digit_def dest!: digits_chars)

lemma foldl_undigits:
  "list_all is_digit s \<Longrightarrow>
    foldl (\<lambda>a c. a * 10 + (int (code c) - 48)) (int a) s = int (foldl (\<lambda>a c. a * 10 + (code c - 48)) a s)"
proof (induction s arbitrary: a)
  case (Cons c s)
  then have "int a * 10 + (int (code c) - 48) = int (a * 10 + (code c - 48))" by (simp add: is_digit_def of_nat_diff)
  with Cons show ?case by (simp only: foldl_Cons list.pred_inject)
qed simp

lemma parse_digits_digits [simp]: "parse_digits (digits n) = Some (int n)"
  using foldl_undigits [OF is_digit_digits [of n], of 0] undigits_digits [of n]
  by (simp add: parse_digits_def is_digit_digits undigits_def)

lemma Atoi_Itoa:
  assumes "0 \<le> n" "n < 2 ^ 63" shows "Atoi (Itoa n) = Some n"
proof -
  obtain c cs where d: "digits (nat n) = c # cs" by (meson digits_nonempty list.exhaust)
  with digits_chars [of c "nat n"] have "c \<noteq> CHR ''-''" "c \<noteq> CHR ''+''" by (auto simp: code_def)
  with assms d parse_digits_digits [of "nat n"] show ?thesis by (simp add: Atoi_def Itoa_def Let_def)
qed

text \<open>\<^verbatim>\<open>strings.Cut(s, sep)\<close> for a separator of one byte.\<close>

definition Cut :: "string \<Rightarrow> char \<Rightarrow> string \<times> string \<times> bool" where
  "Cut s sep = (case dropWhile (\<lambda>c. c \<noteq> sep) s of [] \<Rightarrow> (s, [], False)
     | _ # t \<Rightarrow> (takeWhile (\<lambda>c. c \<noteq> sep) s, t, True))"

lemma Cut_append: "sep \<notin> set a \<Longrightarrow> Cut (a @ sep # b) sep = (a, b, True)"
proof (induction a)
  case (Cons c a)
  then show ?case by (auto simp: Cut_def split: list.splits)
qed (simp add: Cut_def)

lemma Split_append: "sep \<notin> set a \<Longrightarrow> Split (a @ sep # b) sep = a # Split b sep"
  by (induction a) auto

lemma Split_single: "sep \<notin> set a \<Longrightarrow> Split a sep = [a]"
  by (induction a) auto

subsection \<open>SHA-1 and HMAC\<close>

text \<open>\<^verbatim>\<open>bits.RotateLeft32\<close>\<close>

definition RotateLeft32 :: "nat \<Rightarrow> w32 \<Rightarrow> w32" where
  "RotateLeft32 k x = push_bit k x OR drop_bit (32 - k) x"

fun sha1_extend :: "nat \<Rightarrow> w32 list \<Rightarrow> w32 list" where
  "sha1_extend 0 ws = ws"
| "sha1_extend (Suc n) ws =
     sha1_extend n (RotateLeft32 1 (ws ! 2 XOR ws ! 7 XOR ws ! 13 XOR ws ! 15) # ws)"

definition sha1_schedule :: "w32 list \<Rightarrow> w32 list" where
  "sha1_schedule block = rev (sha1_extend 64 (rev block))"

definition sha1_f :: "nat \<Rightarrow> w32 \<Rightarrow> w32 \<Rightarrow> w32 \<Rightarrow> w32" where
  "sha1_f t b c d =
     (if t < 20 then (b AND c) XOR (NOT b AND d)
      else if t < 40 \<or> 60 \<le> t then b XOR c XOR d
      else (b AND c) XOR (b AND d) XOR (c AND d))"

definition sha1_k :: "nat \<Rightarrow> w32" where
  "sha1_k t = (if t < 20 then 1518500249 else if t < 40 then 1859775393 else if t < 60 then 2400959708 else 3395469782)"

fun sha1_round :: "w32 list \<Rightarrow> nat \<times> w32 \<Rightarrow> w32 list" where
  "sha1_round [a, b, c, d, e] (t, w) =
     [RotateLeft32 5 a + sha1_f t b c d + e + sha1_k t + w, a, RotateLeft32 30 b, c, d]"
| "sha1_round hs _ = hs"

definition sha1_block :: "w32 list \<Rightarrow> w32 list \<Rightarrow> w32 list" where
  "sha1_block hs block = map2 (+) hs (foldl sha1_round hs (zip [0..<80] (sha1_schedule block)))"

fun sha1_blocks :: "nat \<Rightarrow> w32 list \<Rightarrow> w32 list \<Rightarrow> w32 list" where
  "sha1_blocks 0 hs ws = hs"
| "sha1_blocks (Suc n) hs ws = sha1_blocks n (sha1_block hs (take 16 ws)) (drop 16 ws)"

definition sha1 :: "byte list \<Rightarrow> byte list" where
  "sha1 bs =
     (let m = sha_pad bs
      in concat (map (\<lambda>w. be_bytes 4 (unat w))
           (sha1_blocks (length m div 64) [1732584193, 4023233417, 2562383102, 271733878, 3285377520] (words_of m))))"

text \<open>\<^verbatim>\<open>hmac.New(sha1.New, key)\<close>, then one \<^verbatim>\<open>Write\<close> and \<^verbatim>\<open>Sum\<close>.\<close>

definition hmac_sha1 :: "byte list \<Rightarrow> byte list \<Rightarrow> byte list" where
  "hmac_sha1 key msg =
     (let key = (if 64 < length key then sha1 key else key);
          key = key @ replicate (64 - length key) 0
      in sha1 (map (\<lambda>b. b XOR 0x5c) key @ sha1 (map (\<lambda>b. b XOR 0x36) key @ msg)))"

lemma length_sha1_round: "length (sha1_round hs tw) = length hs"
  by (induction hs tw rule: sha1_round.induct) simp_all

lemma length_foldl_sha1_round: "length (foldl sha1_round hs tws) = length hs"
  by (induction tws arbitrary: hs) (simp_all add: length_sha1_round)

lemma length_sha1_blocks: "length (sha1_blocks n hs ws) = length hs"
  by (induction n arbitrary: hs ws) (simp_all add: sha1_block_def length_foldl_sha1_round)

lemma length_sha1 [simp]: "length (sha1 bs) = 20"
  by (simp add: sha1_def Let_def length_concat_be_bytes length_sha1_blocks)

lemma length_hmac_sha1 [simp]: "length (hmac_sha1 key msg) = 20"
  by (simp add: hmac_sha1_def Let_def)


subsection \<open>Bytes as text\<close>

locale byte_text =
  fixes enc :: "byte list \<Rightarrow> string" and dec :: "string \<Rightarrow> byte list result" and letter :: "char \<Rightarrow> bool"
  assumes round_trip: "dec (enc bs) = Inr bs"
    and letters: "c \<in> set (enc bs) \<Longrightarrow> letter c"
begin

lemma enc_inject: "enc as = enc bs \<longleftrightarrow> as = bs"
  by (metis round_trip sum.inject(2))

lemma no_letter: "\<not> letter c \<Longrightarrow> c \<notin> set (enc bs)"
  using letters by blast

end

definition strip_newlines :: "string \<Rightarrow> string" where
  "strip_newlines s = filter (\<lambda>c. c \<noteq> CHR 0x0A \<and> c \<noteq> CHR 0x0D) s"

lemma of_nat_byte:
  assumes "n mod 256 = unat b" shows "of_nat n = (b :: byte)"
proof -
  have "unat (of_nat n :: byte) = unat b" using assms by (simp add: unat_of_nat)
  then show ?thesis by (simp add: word_unat_eq_iff)
qed

text \<open>\<^verbatim>\<open>base64.RawStdEncoding\<close>: the raw URL form with the last two letters exchanged.\<close>

definition b64std :: "char \<Rightarrow> char" where
  "b64std c = (if c = CHR ''-'' then CHR ''+'' else if c = CHR ''_'' then CHR ''/'' else c)"

definition Base64RawStd :: "byte list \<Rightarrow> string" where
  "Base64RawStd bs = map b64std (Base64RawURL bs)"

definition b64val :: "char \<Rightarrow> nat option" where
  "b64val c =
     (let n = code c in
      if 65 \<le> n \<and> n \<le> 90 then Some (n - 65) else if 97 \<le> n \<and> n \<le> 122 then Some (n - 71)
      else if 48 \<le> n \<and> n \<le> 57 then Some (n + 4) else if n = 43 then Some 62 else if n = 47 then Some 63 else None)"

fun b64_bytes :: "nat list \<Rightarrow> byte list option" where
  "b64_bytes (a # b # c # d # vs) =
     map_option ((@) [of_nat (a * 4 + b div 16), of_nat (b * 16 + c div 4), of_nat (c * 64 + d)]) (b64_bytes vs)"
| "b64_bytes [a, b, c] = Some [of_nat (a * 4 + b div 16), of_nat (b * 16 + c div 4)]"
| "b64_bytes [a, b] = Some [of_nat (a * 4 + b div 16)]"
| "b64_bytes [a] = None"
| "b64_bytes [] = Some []"

definition Base64RawStdDecode :: "string \<Rightarrow> byte list result" where
  "Base64RawStdDecode s =
     (case those (map b64val (strip_newlines s)) of None \<Rightarrow> Inl (ErrLib ''base64'')
      | Some vs \<Rightarrow> (case b64_bytes vs of None \<Rightarrow> Inl (ErrLib ''base64'') | Some bs \<Rightarrow> Inr bs))"

lemma b64val_letter:
  assumes "n < 64" shows "b64val (b64std (b64url n)) = Some n"
proof -
  have "list_all (\<lambda>n. b64val (b64std (b64url n)) = Some n) [0..<64]" by code_simp
  with assms show ?thesis by (simp add: list_all_iff)
qed

fun b64_values :: "byte list \<Rightarrow> nat list" where
  "b64_values (a # b # c # bs) =
     (let x = unat a; y = unat b; z = unat c in
      x div 4 # (x mod 4 * 16 + y div 16) # (y mod 16 * 4 + z div 64) # z mod 64 # b64_values bs)"
| "b64_values [a, b] = (let x = unat a; y = unat b in [x div 4, x mod 4 * 16 + y div 16, y mod 16 * 4])"
| "b64_values [a] = (let x = unat a in [x div 4, x mod 4 * 16])"
| "b64_values [] = []"

lemma Base64RawURL_values: "Base64RawURL bs = map b64url (b64_values bs)"
  by (induction bs rule: b64_values.induct) (simp_all add: Let_def)

lemma b64_values_bound: "n \<in> set (b64_values bs) \<Longrightarrow> n < 64"
proof (induction bs rule: b64_values.induct)
  case (1 a b c bs)
  with unat_byte_lt [of a] unat_byte_lt [of b] unat_byte_lt [of c] show ?case by (auto simp: Let_def)
next
  case (2 a b)
  with unat_byte_lt [of a] unat_byte_lt [of b] show ?case by (auto simp: Let_def)
next
  case (3 a)
  with unat_byte_lt [of a] show ?case by (auto simp: Let_def)
qed simp

lemma b64_group:
  fixes x y z :: nat assumes "x < 256" "y < 256" "z < 256"
  shows "(x div 4 * 4 + (x mod 4 * 16 + y div 16) div 16) mod 256 = x"
    and "((x mod 4 * 16 + y div 16) * 16 + (y mod 16 * 4 + z div 64) div 4) mod 256 = y"
    and "((y mod 16 * 4 + z div 64) * 64 + z mod 64) mod 256 = z"
proof -
  have d: "(q * k + r) div k = q" if "r < k" for q k r :: nat using that by simp
  have y: "(x mod 4 * 16 + y div 16) div 16 = x mod 4" using assms(2) by (intro d) simp
  have z: "(y mod 16 * 4 + z div 64) div 4 = y mod 16" using assms(3) by (intro d) simp
  show "(x div 4 * 4 + (x mod 4 * 16 + y div 16) div 16) mod 256 = x" unfolding y using assms(1) by simp
  have "(x mod 4 * 16 + y div 16) * 16 + y mod 16 = y + x mod 4 * 256" by (simp add: algebra_simps)
  then show "((x mod 4 * 16 + y div 16) * 16 + (y mod 16 * 4 + z div 64) div 4) mod 256 = y"
    unfolding z using assms(2) by simp
  have "(y mod 16 * 4 + z div 64) * 64 + z mod 64 = z + y mod 16 * 256" by (simp add: algebra_simps)
  then show "((y mod 16 * 4 + z div 64) * 64 + z mod 64) mod 256 = z" using assms(3) by simp
qed

lemma b64_round: "b64_bytes (b64_values bs) = Some bs"
proof (induction bs rule: b64_values.induct)
  case (1 a b c bs)
  note g = b64_group [OF unat_byte_lt [of a] unat_byte_lt [of b] unat_byte_lt [of c], THEN of_nat_byte]
  show ?case by (simp only: b64_values.simps b64_bytes.simps Let_def g 1 [OF refl refl refl] option.map append.simps)
next
  case (2 a b)
  note g = b64_group [OF unat_byte_lt [of a] unat_byte_lt [of b], of 0]
  show ?case using g(1,2) [THEN of_nat_byte] by (simp only: b64_values.simps b64_bytes.simps Let_def) simp
next
  case (3 a)
  note g = b64_group [OF unat_byte_lt [of a], of 0 0]
  show ?case using g(1) [THEN of_nat_byte] by (simp only: b64_values.simps b64_bytes.simps Let_def) simp
qed simp

lemma those_map_Some: "(\<And>x. x \<in> set xs \<Longrightarrow> f (g x) = Some x) \<Longrightarrow> those (map f (map g xs)) = Some xs"
  by (induction xs) auto

definition b64_letter :: "char \<Rightarrow> bool" where "b64_letter c \<longleftrightarrow> b64val c \<noteq> None"

lemma b64_letters: "c \<in> set (Base64RawStd bs) \<Longrightarrow> b64_letter c"
  by (auto simp: Base64RawStd_def Base64RawURL_values b64_letter_def b64val_letter dest!: b64_values_bound)

lemma strip_newlines_id: "(\<And>c. c \<in> set s \<Longrightarrow> c \<noteq> CHR 0x0A \<and> c \<noteq> CHR 0x0D) \<Longrightarrow> strip_newlines s = s"
  by (simp add: strip_newlines_def)

interpretation base64: byte_text Base64RawStd Base64RawStdDecode b64_letter
proof
  fix bs
  have "strip_newlines (Base64RawStd bs) = Base64RawStd bs"
    by (rule strip_newlines_id) (auto dest!: b64_letters simp: b64_letter_def b64val_def code_def)
  moreover have "those (map b64val (Base64RawStd bs)) = Some (b64_values bs)"
    using those_map_Some [of "b64_values bs" b64val "\<lambda>n. b64std (b64url n)"] b64val_letter b64_values_bound
    by (auto simp: Base64RawStd_def Base64RawURL_values comp_def)
  ultimately show "Base64RawStdDecode (Base64RawStd bs) = Inr bs"
    by (simp add: Base64RawStdDecode_def b64_round)
qed (rule b64_letters)

text \<open>\<^verbatim>\<open>base64.StdEncoding\<close>, with padding.\<close>

definition Base64Std :: "byte list \<Rightarrow> string" where
  "Base64Std bs = (let s = Base64RawStd bs in s @ replicate ((4 - length s mod 4) mod 4) CHR ''='')"

definition Base64StdDecode :: "string \<Rightarrow> byte list result" where
  "Base64StdDecode s =
     (let t = strip_newlines s in
      if length t mod 4 \<noteq> 0 then Inl (ErrLib ''base64'')
      else Base64RawStdDecode (if HasSuffix t ''=='' then take (length t - 2) t
                               else if HasSuffix t ''='' then take (length t - 1) t else t))"

lemma length_b64_values: "length (b64_values bs) mod 4 \<noteq> 1"
  by (induction bs rule: b64_values.induct) (simp_all add: Let_def)

lemma Base64RawStd_no_pad: "CHR ''='' \<notin> set (Base64RawStd bs)"
  using b64_letters [of "CHR ''=''" bs] by (auto simp: b64_letter_def b64val_def code_def)

lemma padded_suffix:
  assumes "CHR ''='' \<notin> set s"
  shows "\<not> HasSuffix s ''=''" "\<not> HasSuffix s ''==''" "\<not> HasSuffix (s @ ''='') ''==''"
    "HasSuffix (s @ ''='') ''=''" "HasSuffix (s @ ''=='') ''==''"
proof -
  show "\<not> HasSuffix s ''=''" "\<not> HasSuffix s ''==''" using assms by (auto simp: HasSuffix_append)
  have "s @ ''='' = (t @ ''='') @ ''='' \<Longrightarrow> False" for t using assms by (simp only: append_same_eq) simp
  then show "\<not> HasSuffix (s @ ''='') ''==''" by (auto simp: HasSuffix_append)
  show "HasSuffix (s @ ''='') ''=''" "HasSuffix (s @ ''=='') ''==''" unfolding HasSuffix_append by blast+
qed

interpretation base64_padded: byte_text Base64Std Base64StdDecode "\<lambda>c. b64_letter c \<or> c = CHR ''=''"
proof
  fix bs
  let ?s = "Base64RawStd bs"
  define k where "k = (4 - length ?s mod 4) mod 4"
  have len: "length ?s mod 4 \<noteq> 1" using length_b64_values [of bs] by (simp add: Base64RawStd_def Base64RawURL_values)
  define r where "r = length ?s mod 4"
  have "r < 4" by (simp add: r_def)
  with len have r: "r = 0 \<or> r = 2 \<or> r = 3" unfolding r_def by linarith
  then have k: "k = 0 \<or> k = 1 \<or> k = 2" unfolding k_def r_def [symmetric] by auto
  have "(length ?s + k) mod 4 = (r + k) mod 4" by (simp add: r_def mod_simps)
  also from r have "\<dots> = 0" unfolding k_def r_def [symmetric] by auto
  finally have m: "(length ?s + k) mod 4 = 0" .
  have nl: "strip_newlines (?s @ replicate k CHR ''='') = ?s @ replicate k CHR ''=''"
    by (rule strip_newlines_id) (auto dest!: b64_letters simp: b64_letter_def b64val_def code_def)
  note s = padded_suffix [OF Base64RawStd_no_pad [of bs]]
  from k have "Base64StdDecode (?s @ replicate k CHR ''='') = Base64RawStdDecode ?s"
  proof (elim disjE)
    assume "k = 0"
    with nl m s show ?thesis by (simp add: Base64StdDecode_def)
  next
    assume 1: "k = 1"
    have "?s @ replicate k CHR ''='' = ?s @ ''=''" by (simp add: 1)
    with nl m s show ?thesis by (simp add: Base64StdDecode_def 1)
  next
    assume 2: "k = 2"
    have "?s @ replicate k CHR ''='' = ?s @ ''==''" by (simp add: 2 numeral_2_eq_2)
    with nl m s show ?thesis by (simp add: Base64StdDecode_def 2)
  qed
  then show "Base64StdDecode (Base64Std bs) = Inr bs"
    by (simp add: Base64Std_def Let_def k_def base64.round_trip)
next
  fix c bs
  assume "c \<in> set (Base64Std bs)"
  then show "b64_letter c \<or> c = CHR ''=''" by (auto simp: Base64Std_def Let_def dest: b64_letters)
qed


text \<open>
  \<^verbatim>\<open>base32.StdEncoding.WithPadding(base32.NoPadding)\<close>.  A last group of one, three or six letters
  is accepted and holds no byte.  The decoder would take the byte 255 for padding; the program
  only decodes the result of \<^verbatim>\<open>strings.ToUpper\<close>, which is UTF-8 and has no such byte.
\<close>

definition b32letter :: "nat \<Rightarrow> char" where
  "b32letter n = (if n < 26 then char_of (65 + n) else char_of (24 + n))"

definition b32val :: "char \<Rightarrow> nat option" where
  "b32val c =
     (let n = code c in if 65 \<le> n \<and> n \<le> 90 then Some (n - 65) else if 50 \<le> n \<and> n \<le> 55 then Some (n - 24) else None)"

fun b32_values :: "byte list \<Rightarrow> nat list" where
  "b32_values (a # b # c # d # e # bs) =
     (let v = unat a; w = unat b; x = unat c; y = unat d; z = unat e in
      [v div 8, v mod 8 * 4 + w div 64, w mod 64 div 2, w mod 2 * 16 + x div 16, x mod 16 * 2 + y div 128,
       y mod 128 div 4, y mod 4 * 8 + z div 32, z mod 32] @ b32_values bs)"
| "b32_values [a, b, c, d] =
     (let v = unat a; w = unat b; x = unat c; y = unat d in
      [v div 8, v mod 8 * 4 + w div 64, w mod 64 div 2, w mod 2 * 16 + x div 16, x mod 16 * 2 + y div 128,
       y mod 128 div 4, y mod 4 * 8])"
| "b32_values [a, b, c] =
     (let v = unat a; w = unat b; x = unat c in
      [v div 8, v mod 8 * 4 + w div 64, w mod 64 div 2, w mod 2 * 16 + x div 16, x mod 16 * 2])"
| "b32_values [a, b] =
     (let v = unat a; w = unat b in [v div 8, v mod 8 * 4 + w div 64, w mod 64 div 2, w mod 2 * 16])"
| "b32_values [a] = (let v = unat a in [v div 8, v mod 8 * 4])"
| "b32_values [] = []"

definition Base32 :: "byte list \<Rightarrow> string" where "Base32 bs = map b32letter (b32_values bs)"

fun b32_bytes :: "nat list \<Rightarrow> byte list" where
  "b32_bytes (a # b # c # d # e # f # g # h # vs) =
     [of_nat (a * 8 + b div 4), of_nat (b * 64 + c * 2 + d div 16), of_nat (d * 16 + e div 2),
      of_nat (e * 128 + f * 4 + g div 8), of_nat (g * 32 + h)] @ b32_bytes vs"
| "b32_bytes [a, b, c, d, e, f, g] =
     [of_nat (a * 8 + b div 4), of_nat (b * 64 + c * 2 + d div 16), of_nat (d * 16 + e div 2),
      of_nat (e * 128 + f * 4 + g div 8)]"
| "b32_bytes [a, b, c, d, e] =
     [of_nat (a * 8 + b div 4), of_nat (b * 64 + c * 2 + d div 16), of_nat (d * 16 + e div 2)]"
| "b32_bytes [a, b, c, d] = [of_nat (a * 8 + b div 4), of_nat (b * 64 + c * 2 + d div 16)]"
| "b32_bytes [a, b] = [of_nat (a * 8 + b div 4)]"
| "b32_bytes _ = []"

definition Base32Decode :: "string \<Rightarrow> byte list result" where
  "Base32Decode s =
     (case those (map b32val (strip_newlines s)) of None \<Rightarrow> Inl (ErrLib ''base32'') | Some vs \<Rightarrow> Inr (b32_bytes vs))"

definition b32_letter :: "char \<Rightarrow> bool" where "b32_letter c \<longleftrightarrow> b32val c \<noteq> None"

lemma b32val_letter:
  assumes "n < 32" shows "b32val (b32letter n) = Some n"
proof -
  have "list_all (\<lambda>n. b32val (b32letter n) = Some n) [0..<32]" by code_simp
  with assms show ?thesis by (simp add: list_all_iff)
qed

lemma b32_values_bound: "n \<in> set (b32_values bs) \<Longrightarrow> n < 32"
proof (induction bs rule: b32_values.induct)
  case (1 a b c d e bs)
  with unat_byte_lt [of a] unat_byte_lt [of b] unat_byte_lt [of c] unat_byte_lt [of d] unat_byte_lt [of e]
  show ?case by (auto simp: Let_def)
next
  case (2 a b c d)
  with unat_byte_lt [of a] unat_byte_lt [of b] unat_byte_lt [of c] unat_byte_lt [of d] show ?case by (auto simp: Let_def)
next
  case (3 a b c)
  with unat_byte_lt [of a] unat_byte_lt [of b] unat_byte_lt [of c] show ?case by (auto simp: Let_def)
next
  case (4 a b)
  with unat_byte_lt [of a] unat_byte_lt [of b] show ?case by (auto simp: Let_def)
next
  case (5 a)
  with unat_byte_lt [of a] show ?case by (auto simp: Let_def)
qed simp

lemma b32_group:
  fixes v w x y z :: nat assumes "v < 256" "w < 256" "x < 256" "y < 256" "z < 256"
  shows "(v div 8 * 8 + (v mod 8 * 4 + w div 64) div 4) mod 256 = v"
    and "((v mod 8 * 4 + w div 64) * 64 + w mod 64 div 2 * 2 + (w mod 2 * 16 + x div 16) div 16) mod 256 = w"
    and "((w mod 2 * 16 + x div 16) * 16 + (x mod 16 * 2 + y div 128) div 2) mod 256 = x"
    and "((x mod 16 * 2 + y div 128) * 128 + y mod 128 div 4 * 4 + (y mod 4 * 8 + z div 32) div 8) mod 256 = y"
    and "((y mod 4 * 8 + z div 32) * 32 + z mod 32) mod 256 = z"
proof -
  have d: "(q * k + r) div k = q" if "r < k" for q k r :: nat using that by simp
  have w: "(v mod 8 * 4 + w div 64) div 4 = v mod 8" using assms(2) by (intro d) simp
  have x: "(w mod 2 * 16 + x div 16) div 16 = w mod 2" using assms(3) by (intro d) simp
  have y: "(x mod 16 * 2 + y div 128) div 2 = x mod 16" using assms(4) by (intro d) simp
  have z: "(y mod 4 * 8 + z div 32) div 8 = y mod 4" using assms(5) by (intro d) simp
  show "(v div 8 * 8 + (v mod 8 * 4 + w div 64) div 4) mod 256 = v" unfolding w using assms(1) by simp
  have split: "n mod (k * l) div l * l + n mod l = n mod (k * l)" for n k l :: nat
    by (metis div_mult_mod_eq mod_mult_right_eq mod_mod_cancel dvd_triv_right)
  have lin: "(V * j + a) * k + p + q = n + V * 256" if "p + q = r" "a * k + r = n" "j * k = 256"
    for V j k a p q r n :: nat using that by (simp add: algebra_simps flip: that)
  have sw: "w mod 64 div 2 * 2 + w mod 2 = w mod 64" using split [of w 32 2] by simp
  have sy: "y mod 128 div 4 * 4 + y mod 4 = y mod 128" using split [of y 32 4] by simp
  have ew: "(v mod 8 * 4 + w div 64) * 64 + w mod 64 div 2 * 2 + w mod 2 = w + v mod 8 * 256"
    by (rule lin [OF sw div_mult_mod_eq]) simp_all
  show "((v mod 8 * 4 + w div 64) * 64 + w mod 64 div 2 * 2 + (w mod 2 * 16 + x div 16) div 16) mod 256 = w"
    unfolding x ew using assms(2) by simp
  have "(w mod 2 * 16 + x div 16) * 16 + x mod 16 = x + w mod 2 * 256" by (simp add: algebra_simps)
  then show "((w mod 2 * 16 + x div 16) * 16 + (x mod 16 * 2 + y div 128) div 2) mod 256 = x"
    unfolding y using assms(3) by simp
  have ey: "(x mod 16 * 2 + y div 128) * 128 + y mod 128 div 4 * 4 + y mod 4 = y + x mod 16 * 256"
    by (rule lin [OF sy div_mult_mod_eq]) simp_all
  show "((x mod 16 * 2 + y div 128) * 128 + y mod 128 div 4 * 4 + (y mod 4 * 8 + z div 32) div 8) mod 256 = y"
    unfolding z ey using assms(4) by simp
  have "(y mod 4 * 8 + z div 32) * 32 + z mod 32 = z + y mod 4 * 256" by (simp add: algebra_simps)
  then show "((y mod 4 * 8 + z div 32) * 32 + z mod 32) mod 256 = z" using assms(5) by simp
qed

lemma b32_round: "b32_bytes (b32_values bs) = bs"
proof (induction bs rule: b32_values.induct)
  case (1 a b c d e bs)
  note g = b32_group [OF unat_byte_lt [of a] unat_byte_lt [of b] unat_byte_lt [of c] unat_byte_lt [of d]
      unat_byte_lt [of e], THEN of_nat_byte]
  show ?case
    by (simp only: b32_values.simps b32_bytes.simps Let_def g 1 [OF refl refl refl refl refl] append.simps)
next
  case (2 a b c d)
  note g = b32_group [OF unat_byte_lt [of a] unat_byte_lt [of b] unat_byte_lt [of c] unat_byte_lt [of d], of 0]
  show ?case using g(1-4) [THEN of_nat_byte] by (simp only: b32_values.simps b32_bytes.simps Let_def) simp
next
  case (3 a b c)
  note g = b32_group [OF unat_byte_lt [of a] unat_byte_lt [of b] unat_byte_lt [of c], of 0 0]
  show ?case using g(1-3) [THEN of_nat_byte] by (simp only: b32_values.simps b32_bytes.simps Let_def) simp
next
  case (4 a b)
  note g = b32_group [OF unat_byte_lt [of a] unat_byte_lt [of b], of 0 0 0]
  show ?case using g(1,2) [THEN of_nat_byte] by (simp only: b32_values.simps b32_bytes.simps Let_def) simp
next
  case (5 a)
  note g = b32_group [OF unat_byte_lt [of a], of 0 0 0 0]
  show ?case using g(1) [THEN of_nat_byte] by (simp only: b32_values.simps b32_bytes.simps Let_def) simp
qed simp

lemma b32_letters: "c \<in> set (Base32 bs) \<Longrightarrow> b32_letter c"
  by (auto simp: Base32_def b32_letter_def b32val_letter dest!: b32_values_bound)

interpretation base32: byte_text Base32 Base32Decode b32_letter
proof
  fix bs
  have "strip_newlines (Base32 bs) = Base32 bs"
    by (rule strip_newlines_id) (auto dest!: b32_letters simp: b32_letter_def b32val_def code_def)
  moreover have "those (map b32val (Base32 bs)) = Some (b32_values bs)"
    using those_map_Some [of "b32_values bs" b32val b32letter] b32val_letter b32_values_bound
    by (auto simp: Base32_def)
  ultimately show "Base32Decode (Base32 bs) = Inr bs" by (simp add: Base32Decode_def b32_round)
qed (rule b32_letters)

subsection \<open>Escapes in URLs\<close>

definition upper_hexdigit :: "nat \<Rightarrow> char" where
  "upper_hexdigit n = (if n < 10 then char_of (48 + n) else char_of (55 + n))"

definition unreserved :: "char \<Rightarrow> bool" where
  "unreserved c \<longleftrightarrow> (let n = code c in
     48 \<le> n \<and> n \<le> 57 \<or> 65 \<le> n \<and> n \<le> 90 \<or> 97 \<le> n \<and> n \<le> 122 \<or> c \<in> set ''-_.~'')"

definition percent :: "char \<Rightarrow> string" where
  "percent c = [CHR ''%'', upper_hexdigit (code c div 16), upper_hexdigit (code c mod 16)]"

text \<open>\<^verbatim>\<open>url.QueryEscape\<close> and \<^verbatim>\<open>url.PathEscape\<close>.\<close>

definition QueryEscape :: "string \<Rightarrow> string" where
  "QueryEscape s = concat (map (\<lambda>c. if unreserved c then [c] else if c = CHR '' '' then ''+'' else percent c) s)"

definition PathEscape :: "string \<Rightarrow> string" where
  "PathEscape s = concat (map (\<lambda>c. if unreserved c \<or> c \<in> set ''$&+:=@'' then [c] else percent c) s)"

subsection \<open>Dates\<close>

text \<open>
  \<^verbatim>\<open>t.UTC().Format(time.RFC3339)\<close> of a time in the years 1 to 9999.  The calendar runs in eras of
  400 years that start on a first of March, so that the leap day ends a year.
\<close>

definition civil_date :: "int \<Rightarrow> int \<times> int \<times> int" where
  "civil_date days =
     (let z = days + 306; era = z div 146097; doe = z mod 146097;
          yoe = (doe - doe div 1460 + doe div 36524 - doe div 146096) div 365;
          doy = doe - (365 * yoe + yoe div 4 - yoe div 100);
          mp = (5 * doy + 2) div 153; day = doy - (153 * mp + 2) div 5 + 1;
          month = (if mp < 10 then mp + 3 else mp - 9)
      in (yoe + era * 400 + (if month \<le> 2 then 1 else 0), month, day))"

definition padded :: "nat \<Rightarrow> int \<Rightarrow> string" where
  "padded width n = (let s = Itoa n in replicate (width - length s) CHR ''0'' @ s)"

definition rfc3339 :: "int \<Rightarrow> string" where
  "rfc3339 t =
     (let secs = t div 1000000000; tod = secs mod 86400 in
      case civil_date (secs div 86400) of (y, mo, d) \<Rightarrow>
        padded 4 y @ ''-'' @ padded 2 mo @ ''-'' @ padded 2 d @ ''T'' @ padded 2 (tod div 3600) @ '':''
          @ padded 2 (tod div 60 mod 60) @ '':'' @ padded 2 (tod mod 60) @ ''Z'')"

end
