(* ===== verification/Identity.thy ===== *)
theory Identity
  imports GoCrypto
begin

text \<open>
  The package \<^verbatim>\<open>core/internal/identity\<close>: UUIDs (\<^verbatim>\<open>uuid.go\<close>), user names (\<^verbatim>\<open>username.go\<close>),
  and passports, profiles and players (\<^verbatim>\<open>player.go\<close>).  Fields carry a two-letter prefix for
  their struct and otherwise the name they have in the source.
\<close>

subsection \<open>UUIDs\<close>

text \<open>A \<^verbatim>\<open>[16]byte\<close> is a list of bytes; every function here returns one of length 16.\<close>

type_synonym UUID = "byte list"

definition zero_UUID :: UUID where "zero_UUID = replicate 16 0"

text \<open>\<^verbatim>\<open>copy(uuid[:], bytes)\<close> into a zero array.\<close>

definition copy16 :: "byte list \<Rightarrow> UUID" where
  "copy16 bs = take 16 (bs @ replicate 16 0)"

text \<open>The two assignments that stamp the version and the variant of a UUID.\<close>

definition stamp_UUID :: "byte \<Rightarrow> UUID \<Rightarrow> UUID" where
  "stamp_UUID version u =
     (let u' = u[6 := (u ! 6 AND 0x0f) OR version] in u'[8 := (u' ! 8 AND 0x3f) OR 0x80])"

text \<open>\<open>rnd\<close> is what \<^verbatim>\<open>rand.Read\<close> filled in, \<open>None\<close> if it failed.\<close>

definition RandomProfileUUID :: "byte list option \<Rightarrow> UUID result" where
  "RandomProfileUUID rnd =
     (case rnd of None \<Rightarrow> Inl (ErrLib ''rand'') | Some bs \<Rightarrow> Inr (stamp_UUID 0x40 (copy16 bs)))"

definition offlinePassportNamespaceSeed :: string where
  "offlinePassportNamespaceSeed = ''authman:offline-passport-uuid:v1''"

definition offlineNamespacedUUID :: "unicode \<Rightarrow> string \<Rightarrow> string \<Rightarrow> string \<Rightarrow> UUID" where
  "offlineNamespacedUUID uc seed marker value =
     (let input = ToLower uc (TrimSpace value);
          sum = sha256 (bytes_of seed @ [0] @ bytes_of marker @ [0] @ bytes_of input)
      in stamp_UUID 0x80 (copy16 (take 16 sum)))"

definition OfflinePassportUUID :: "unicode \<Rightarrow> string \<Rightarrow> UUID" where
  "OfflinePassportUUID uc normalizedOfflineName =
     offlineNamespacedUUID uc offlinePassportNamespaceSeed ''passport'' normalizedOfflineName"

definition ParseUUID :: "string \<Rightarrow> UUID result" where
  "ParseUUID value =
     (let compact = filter (\<lambda>c. c \<noteq> CHR ''-'') (TrimSpace value) in
      if length compact \<noteq> 32 then Inl (Err ''uuid must contain 32 hex characters'')
      else case HexDecode compact of Inl e \<Rightarrow> Inl e | Inr bytes \<Rightarrow> Inr (copy16 bytes))"

definition UUID_String :: "UUID \<Rightarrow> string" where
  "UUID_String u =
     (let hexed = HexEncode u in
      take 8 hexed @ ''-'' @ take 4 (drop 8 hexed) @ ''-'' @ take 4 (drop 12 hexed) @ ''-'' @
      take 4 (drop 16 hexed) @ ''-'' @ take 12 (drop 20 hexed))"

definition UUID_Compact :: "UUID \<Rightarrow> string" where
  "UUID_Compact u = HexEncode u"

text \<open>The version nibble of a UUID.\<close>

definition uuid_version :: "UUID \<Rightarrow> nat" where "uuid_version u = unat (drop_bit 4 (u ! 6))"
definition uuid_variant :: "UUID \<Rightarrow> nat" where "uuid_variant u = unat (drop_bit 6 (u ! 8))"

lemma length_copy16 [simp]: "length (copy16 bs) = 16"
  by (simp add: copy16_def)

lemma copy16_id [simp]: "length bs = 16 \<Longrightarrow> copy16 bs = bs"
  by (simp add: copy16_def)

lemma length_stamp_UUID [simp]: "length (stamp_UUID v u) = length u"
  by (simp add: stamp_UUID_def Let_def)

lemma length_OfflinePassportUUID [simp]: "length (OfflinePassportUUID uc s) = 16"
  by (simp add: OfflinePassportUUID_def offlineNamespacedUUID_def Let_def)

lemma length_RandomProfileUUID: "RandomProfileUUID rnd = Inr u \<Longrightarrow> length u = 16"
  by (auto simp: RandomProfileUUID_def split: option.splits)

lemma nibble_or: "drop_bit 4 ((b AND 0x0f) OR (0x40::byte)) = 4" "drop_bit 4 ((b AND 0x0f) OR (0x80::byte)) = 8"
  by (intro bit_word_eqI; simp add: bit_simps; auto simp: less_Suc_eq numeral_eq_Suc)+

lemma variant_or: "drop_bit 6 ((b AND 0x3f) OR (0x80::byte)) = 2"
  by (intro bit_word_eqI; simp add: bit_simps; auto simp: less_Suc_eq numeral_eq_Suc)

lemma version_stamp:
  "length u = 16 \<Longrightarrow> uuid_version (stamp_UUID 0x40 u) = 4"
  "length u = 16 \<Longrightarrow> uuid_version (stamp_UUID 0x80 u) = 8"
  "length u = 16 \<Longrightarrow> uuid_variant (stamp_UUID v u) = 2"
  by (simp_all add: uuid_version_def uuid_variant_def stamp_UUID_def Let_def nibble_or variant_or)

lemma version_RandomProfileUUID: "RandomProfileUUID rnd = Inr u \<Longrightarrow> uuid_version u = 4"
  by (auto simp: RandomProfileUUID_def version_stamp split: option.splits)

lemma version_OfflinePassportUUID: "uuid_version (OfflinePassportUUID uc s) = 8"
  by (simp add: OfflinePassportUUID_def offlineNamespacedUUID_def Let_def version_stamp)

lemma UUID_String_split:
  assumes "length u = 16"
  obtains a b c d e where "HexEncode u = a @ b @ c @ d @ e"
    and "UUID_String u = a @ ''-'' @ b @ ''-'' @ c @ ''-'' @ d @ ''-'' @ e"
proof -
  let ?h = "HexEncode u"
  have step: "drop k ?h = take n (drop k ?h) @ drop (k + n) ?h" for k n
    by (metis add.commute append_take_drop_id drop_drop)
  have "take 12 (drop 20 ?h) = drop 20 ?h" using assms by simp
  then have "?h = take 8 ?h @ take 4 (drop 8 ?h) @ take 4 (drop 12 ?h) @ take 4 (drop 16 ?h) @ take 12 (drop 20 ?h)"
    using step [of 0 8] step [of 8 4] step [of 12 4] step [of 16 4] by simp
  then show thesis
    by (rule that) (simp add: UUID_String_def Let_def)
qed

lemma filter_dash_HexEncode:
  "HexEncode u = a @ b @ c @ d @ e \<Longrightarrow>
   filter (\<lambda>x. x \<noteq> CHR ''-'') (a @ ''-'' @ b @ ''-'' @ c @ ''-'' @ d @ ''-'' @ e) = HexEncode u"
proof -
  assume h: "HexEncode u = a @ b @ c @ d @ e"
  have "filter (\<lambda>x. x \<noteq> CHR ''-'') (HexEncode u) = HexEncode u"
  proof (rule filter_True, rule ballI)
    fix x assume "x \<in> set (HexEncode u)"
    then have "code x \<noteq> 45" by (blast dest: HexEncode_chars)
    then show "x \<noteq> CHR ''-''" by (auto simp: code_def)
  qed
  with h show ?thesis by simp
qed

lemma solid_HexEncode: "solid (HexEncode u)"
  unfolding solid_def list_all_iff by (fastforce dest: HexEncode_chars)

lemma solid_append: "solid (s @ t) \<longleftrightarrow> solid s \<and> solid t"
  by (simp add: solid_def)

lemma solid_Cons: "solid (c # s) \<longleftrightarrow> 33 \<le> code c \<and> code c < 128 \<and> solid s"
  by (simp add: solid_def)

lemma solid_UUID_String: "length u = 16 \<Longrightarrow> solid (UUID_String u)"
proof -
  assume "length u = 16"
  then obtain a b c d e where h: "HexEncode u = a @ b @ c @ d @ e"
    and s: "UUID_String u = a @ ''-'' @ b @ ''-'' @ c @ ''-'' @ d @ ''-'' @ e"
    by (rule UUID_String_split)
  have "33 \<le> code CHR ''-'' \<and> code CHR ''-'' < 128" by (simp add: code_def)
  with h s solid_HexEncode [of u] show ?thesis by (simp add: solid_append solid_Cons)
qed

lemma ParseUUID_String: "length u = 16 \<Longrightarrow> ParseUUID (UUID_String u) = Inr u"
proof -
  assume len: "length u = 16"
  then obtain a b c d e where h: "HexEncode u = a @ b @ c @ d @ e"
    and s: "UUID_String u = a @ ''-'' @ b @ ''-'' @ c @ ''-'' @ d @ ''-'' @ e"
    by (rule UUID_String_split)
  have "filter (\<lambda>x. x \<noteq> CHR ''-'') (UUID_String u) = HexEncode u"
    unfolding s by (rule filter_dash_HexEncode[OF h])
  with len show ?thesis
    by (simp add: ParseUUID_def Let_def TrimSpace_solid solid_UUID_String HexDecode_HexEncode)
qed

lemma ParseUUID_Compact: "length u = 16 \<Longrightarrow> ParseUUID (UUID_Compact u) = Inr u"
proof -
  assume "length u = 16"
  have "filter (\<lambda>x. x \<noteq> CHR ''-'') (HexEncode u) = HexEncode u"
    using filter_dash_HexEncode[of u "HexEncode u" "[]" "[]" "[]" "[]"] by simp
  with \<open>length u = 16\<close> show ?thesis
    by (simp add: ParseUUID_def Let_def UUID_Compact_def TrimSpace_solid solid_HexEncode HexDecode_HexEncode)
qed

lemma UUID_String_inject:
  "length u = 16 \<Longrightarrow> length v = 16 \<Longrightarrow> UUID_String u = UUID_String v \<longleftrightarrow> u = v"
  by (metis ParseUUID_String sum.inject(2))

lemma UUID_String_nonempty [simp]: "UUID_String u \<noteq> []"
  by (simp add: UUID_String_def Let_def)

subsection \<open>User names\<close>

abbreviation (input) OfflineNameMinLength :: nat where "OfflineNameMinLength \<equiv> 3"
abbreviation (input) OfflineNameMaxLength :: nat where "OfflineNameMaxLength \<equiv> 16"
abbreviation (input) ProtocolNameMinLength :: nat where "ProtocolNameMinLength \<equiv> 1"
abbreviation (input) ProtocolNameMaxLength :: nat where "ProtocolNameMaxLength \<equiv> 16"

definition reservedOfflineNames :: "string list" where
  "reservedOfflineNames =
     [''admin'', ''root'', ''system'', ''mojang'', ''minecraft'', ''authman'', ''console'']"

record OfflineName =
  on_Raw :: string
  on_Normalized :: string
  on_Protocol :: string

definition isOfflineNameRune :: "rune \<Rightarrow> bool" where
  "isOfflineNameRune r \<longleftrightarrow> 97 \<le> r \<and> r \<le> 122 \<or> 65 \<le> r \<and> r \<le> 90 \<or> 48 \<le> r \<and> r \<le> 57 \<or> r = 95"

definition isProtocolNameRune :: "unicode \<Rightarrow> rune \<Rightarrow> bool" where
  "isProtocolNameRune uc r \<longleftrightarrow> isOfflineNameRune r \<or> IsLetter uc r \<or> IsNumber uc r"

definition normalizeName ::
  "unicode \<Rightarrow> string \<Rightarrow> string \<Rightarrow> nat \<Rightarrow> nat \<Rightarrow> (rune \<Rightarrow> bool) \<Rightarrow> OfflineName result" where
  "normalizeName uc raw label minLength maxLength validRune =
     (let name = TrimSpace raw in
      if name \<noteq> raw then Inl (Err (label @ '' must not contain leading or trailing whitespace''))
      else if RuneCount name < minLength \<or> maxLength < RuneCount name then
        Inl (Err (label @ '' length must be between '' @ Itoa (int minLength) @ '' and ''
             @ Itoa (int maxLength) @ '' characters''))
      else case List.find (\<lambda>r. \<not> validRune r) (runes name) of
        Some r \<Rightarrow> Inl (ErrRune (label @ '' contains invalid character '') r)
      | None \<Rightarrow>
          let normalized = ToLower uc name in
          if normalized \<in> set reservedOfflineNames then Inl (Err (label @ '' is reserved''))
          else Inr \<lparr>on_Raw = name, on_Normalized = normalized, on_Protocol = name\<rparr>)"

definition NormalizeOfflineName :: "unicode \<Rightarrow> string \<Rightarrow> OfflineName result" where
  "NormalizeOfflineName uc raw =
     normalizeName uc raw ''offline username'' OfflineNameMinLength OfflineNameMaxLength isOfflineNameRune"

definition NormalizeProtocolName :: "unicode \<Rightarrow> string \<Rightarrow> OfflineName result" where
  "NormalizeProtocolName uc raw =
     normalizeName uc raw ''profile protocol name'' ProtocolNameMinLength ProtocolNameMaxLength (isProtocolNameRune uc)"

lemma normalizeName_Inr:
  "normalizeName uc raw label lo hi P = Inr n \<longleftrightarrow>
     TrimSpace raw = raw \<and> lo \<le> RuneCount raw \<and> RuneCount raw \<le> hi \<and> (\<forall>r\<in>set (runes raw). P r) \<and>
     ToLower uc raw \<notin> set reservedOfflineNames \<and>
     n = \<lparr>on_Raw = raw, on_Normalized = ToLower uc raw, on_Protocol = raw\<rparr>"
  by (auto simp: normalizeName_def Let_def find_None_iff split: option.splits dest: find_Some_in)

lemma DecodeRune_small:
  "DecodeRune (c # cs) = (r, w) \<Longrightarrow> r < 128 \<Longrightarrow> code c < 128 \<and> w = 1"
  by (auto simp: Let_def RuneError_def is_cont_def split: if_splits list.splits)

lemma ascii_runes: "(\<And>r. r \<in> set (runes s) \<Longrightarrow> r < 128) \<Longrightarrow> ascii s"
proof (induction s rule: runes.induct)
  case (2 c cs)
  obtain r w where rw: "DecodeRune (c # cs) = (r, w)" by (cases "DecodeRune (c # cs)")
  with "2.prems" [of r] have "r < 128" by simp
  with rw have cw: "code c < 128 \<and> w = 1" by (rule DecodeRune_small)
  have "ascii cs"
    using "2.IH" [OF rw[symmetric]] "2.prems" rw cw by simp
  with cw show ?case by simp
qed simp

text \<open>The characters an offline name is made of.\<close>

definition offline_char :: "char \<Rightarrow> bool" where "offline_char c \<longleftrightarrow> isOfflineNameRune (code c)"

lemma offline_runes: "(\<forall>r\<in>set (runes s). isOfflineNameRune r) \<longleftrightarrow> (\<forall>c\<in>set s. offline_char c)"
proof
  assume v: "\<forall>r\<in>set (runes s). isOfflineNameRune r"
  then have "ascii s" by (intro ascii_runes) (auto simp: isOfflineNameRune_def)
  with v show "\<forall>c\<in>set s. offline_char c" by (simp add: runes_ascii offline_char_def)
next
  assume v: "\<forall>c\<in>set s. offline_char c"
  then have "ascii s" by (fastforce simp: ascii_def list_all_iff offline_char_def isOfflineNameRune_def)
  with v show "\<forall>r\<in>set (runes s). isOfflineNameRune r" by (simp add: runes_ascii offline_char_def)
qed

lemma offline_solid: "\<forall>c\<in>set s. offline_char c \<Longrightarrow> solid s"
  by (fastforce simp: solid_def list_all_iff offline_char_def isOfflineNameRune_def)

lemma NormalizeOfflineName_Inr:
  "NormalizeOfflineName uc raw = Inr n \<longleftrightarrow>
     (\<forall>c\<in>set raw. offline_char c) \<and> 3 \<le> length raw \<and> length raw \<le> 16 \<and>
     map lower_char raw \<notin> set reservedOfflineNames \<and>
     n = \<lparr>on_Raw = raw, on_Normalized = map lower_char raw, on_Protocol = raw\<rparr>"
proof -
  have *: "ascii raw \<and> TrimSpace raw = raw" if "\<forall>c\<in>set raw. offline_char c"
    using that by (blast intro: TrimSpace_solid solid_ascii offline_solid)
  show ?thesis
    unfolding NormalizeOfflineName_def normalizeName_Inr offline_runes
    using * by (auto simp: RuneCount_ascii ToLower_ascii)
qed

lemma on_Normalized_offline:
  "NormalizeOfflineName uc raw = Inr n \<Longrightarrow> on_Normalized n = ToLower uc raw \<and> on_Raw n = raw \<and> on_Protocol n = raw"
  by (auto simp: NormalizeOfflineName_def normalizeName_Inr)

subsection \<open>Passports, profiles and players\<close>

text \<open>
  \<^verbatim>\<open>PlayerKind\<close>, \<^verbatim>\<open>PassportStatus\<close> and \<^verbatim>\<open>ProfileStatus\<close> are string types in the source, with the
  constants below, so any string can occur.
\<close>

type_synonym PlayerKind = string
type_synonym PassportStatus = string
type_synonym ProfileStatus = string

abbreviation (input) PlayerKindPremium :: PlayerKind where "PlayerKindPremium \<equiv> ''premium''"
abbreviation (input) PlayerKindOffline :: PlayerKind where "PlayerKindOffline \<equiv> ''offline''"
abbreviation (input) PassportKindPremium :: PlayerKind where "PassportKindPremium \<equiv> PlayerKindPremium"
abbreviation (input) PassportKindOffline :: PlayerKind where "PassportKindOffline \<equiv> PlayerKindOffline"
abbreviation (input) PassportStatusActive :: PassportStatus where "PassportStatusActive \<equiv> ''active''"
abbreviation (input) PassportStatusLocked :: PassportStatus where "PassportStatusLocked \<equiv> ''locked''"
abbreviation (input) PassportStatusDeleted :: PassportStatus where "PassportStatusDeleted \<equiv> ''deleted''"
abbreviation (input) ProfileStatusActive :: ProfileStatus where "ProfileStatusActive \<equiv> ''active''"
abbreviation (input) ProfileStatusLocked :: ProfileStatus where "ProfileStatusLocked \<equiv> ''locked''"
abbreviation (input) ProfileStatusArchived :: ProfileStatus where "ProfileStatusArchived \<equiv> ''archived''"

record IPGeoLocale =
  gl_Country :: string
  gl_Region :: string
  gl_City :: string

record IPGeo =
  ge_IP :: string
  ge_CountryCode :: string
  ge_ISP :: string
  ge_ASN :: string
  ge_Locales :: "(string, IPGeoLocale) gomap"

record ProfileProperty =
  pr_Name :: string
  pr_Value :: string
  pr_Signature :: string

record Passport =
  pp_ID :: string
  pp_Kind :: PlayerKind
  pp_UUID :: UUID
  pp_PremiumUUID :: "UUID option"
  pp_Username :: string
  pp_UsernameNormalized :: string
  pp_RawOfflineName :: string
  pp_Status :: PassportStatus
  pp_SkinSource :: string
  pp_RegistrationServer :: string
  pp_LastSeenServer :: string
  pp_LastSeenAt :: "time option"
  pp_LastSeenIP :: string
  pp_LastSeenGeo :: "IPGeo option"
  pp_Attributes :: anymap
  pp_CreatedAt :: time
  pp_UpdatedAt :: time

record Profile =
  pf_ID :: string
  pf_UUID :: UUID
  pf_ProtocolName :: string
  pf_NormalizedName :: string
  pf_DisplayName :: string
  pf_Status :: ProfileStatus
  pf_SkinSource :: string
  pf_ProfileProperties :: "ProfileProperty list"
  pf_CreatedFromPassport :: string
  pf_LastSeenServer :: string
  pf_LastSeenAt :: "time option"
  pf_LastSeenIP :: string
  pf_LastSeenGeo :: "IPGeo option"
  pf_Attributes :: anymap
  pf_CreatedAt :: time
  pf_UpdatedAt :: time

record ProfilePassportLink =
  ln_ProfileID :: string
  ln_PassportID :: string
  ln_IsPrimary :: bool
  ln_LinkedAt :: time

record PassportProfile =
  lk_Passport :: Passport
  lk_Profile :: Profile
  lk_Link :: ProfilePassportLink

record Player =
  pl_ID :: string
  pl_Kind :: PlayerKind
  pl_UUID :: UUID
  pl_PremiumUUID :: "UUID option"
  pl_RawOfflineName :: string
  pl_NormalizedName :: string
  pl_ProtocolName :: string
  pl_Locked :: bool
  pl_ProfileProperties :: "ProfileProperty list"
  pl_RegistrationServer :: string
  pl_LastSeenServer :: string
  pl_LastSeenAt :: "time option"
  pl_LastSeenIP :: string
  pl_LastSeenGeo :: "IPGeo option"

text \<open>The zero values Go reads for a missing map entry.\<close>

definition zero_Passport :: Passport where
  "zero_Passport = \<lparr>pp_ID = [], pp_Kind = [], pp_UUID = zero_UUID, pp_PremiumUUID = None,
     pp_Username = [], pp_UsernameNormalized = [], pp_RawOfflineName = [], pp_Status = [],
     pp_SkinSource = [], pp_RegistrationServer = [], pp_LastSeenServer = [], pp_LastSeenAt = None,
     pp_LastSeenIP = [], pp_LastSeenGeo = None, pp_Attributes = gempty, pp_CreatedAt = 0, pp_UpdatedAt = 0\<rparr>"

definition zero_Profile :: Profile where
  "zero_Profile = \<lparr>pf_ID = [], pf_UUID = zero_UUID, pf_ProtocolName = [], pf_NormalizedName = [],
     pf_DisplayName = [], pf_Status = [], pf_SkinSource = [], pf_ProfileProperties = [],
     pf_CreatedFromPassport = [], pf_LastSeenServer = [], pf_LastSeenAt = None, pf_LastSeenIP = [],
     pf_LastSeenGeo = None, pf_Attributes = gempty, pf_CreatedAt = 0, pf_UpdatedAt = 0\<rparr>"

definition zero_Player :: Player where
  "zero_Player = \<lparr>pl_ID = [], pl_Kind = [], pl_UUID = zero_UUID, pl_PremiumUUID = None,
     pl_RawOfflineName = [], pl_NormalizedName = [], pl_ProtocolName = [], pl_Locked = False,
     pl_ProfileProperties = [], pl_RegistrationServer = [], pl_LastSeenServer = [],
     pl_LastSeenAt = None, pl_LastSeenIP = [], pl_LastSeenGeo = None\<rparr>"

definition zero_Link :: ProfilePassportLink where
  "zero_Link = \<lparr>ln_ProfileID = [], ln_PassportID = [], ln_IsPrimary = False, ln_LinkedAt = 0\<rparr>"

definition NewOfflinePlayer :: "unicode \<Rightarrow> string \<Rightarrow> string \<Rightarrow> byte list option \<Rightarrow> Player result" where
  "NewOfflinePlayer uc ident rawName rnd =
     (case NormalizeOfflineName uc rawName of Inl e \<Rightarrow> Inl e
      | Inr name \<Rightarrow>
          case RandomProfileUUID rnd of Inl e \<Rightarrow> Inl e
          | Inr uuid \<Rightarrow>
              Inr (zero_Player\<lparr>pl_ID := ident, pl_Kind := PlayerKindOffline, pl_UUID := uuid,
                     pl_RawOfflineName := on_Raw name, pl_NormalizedName := on_Normalized name,
                     pl_ProtocolName := on_Protocol name\<rparr>))"

definition NewOfflinePassport :: "unicode \<Rightarrow> string \<Rightarrow> time \<Rightarrow> Passport result" where
  "NewOfflinePassport uc rawName now =
     (case NormalizeOfflineName uc rawName of Inl e \<Rightarrow> Inl e
      | Inr name \<Rightarrow>
          let uuid = OfflinePassportUUID uc (on_Normalized name) in
          Inr (zero_Passport\<lparr>pp_ID := UUID_String uuid, pp_Kind := PassportKindOffline, pp_UUID := uuid,
                 pp_Username := on_Raw name, pp_UsernameNormalized := on_Normalized name,
                 pp_RawOfflineName := on_Raw name, pp_Status := PassportStatusActive,
                 pp_SkinSource := ''upstream'', pp_CreatedAt := now, pp_UpdatedAt := now\<rparr>))"

definition NewOfflineProfile ::
  "unicode \<Rightarrow> string \<Rightarrow> string \<Rightarrow> byte list option \<Rightarrow> time \<Rightarrow> Profile result" where
  "NewOfflineProfile uc protocolName createdFromPassport rnd now =
     (case NormalizeProtocolName uc protocolName of Inl e \<Rightarrow> Inl e
      | Inr name \<Rightarrow>
          case RandomProfileUUID rnd of Inl e \<Rightarrow> Inl e
          | Inr uuid \<Rightarrow>
              Inr (zero_Profile\<lparr>pf_ID := UUID_String uuid, pf_UUID := uuid,
                     pf_ProtocolName := on_Protocol name, pf_NormalizedName := on_Normalized name,
                     pf_DisplayName := on_Protocol name, pf_Status := ProfileStatusActive,
                     pf_SkinSource := ''passport'', pf_CreatedFromPassport := createdFromPassport,
                     pf_CreatedAt := now, pf_UpdatedAt := now\<rparr>))"

definition NewPremiumPlayer :: "string \<Rightarrow> string \<Rightarrow> UUID \<Rightarrow> ProfileProperty list \<Rightarrow> Player" where
  "NewPremiumPlayer ident name uuid properties =
     zero_Player\<lparr>pl_ID := ident, pl_Kind := PlayerKindPremium, pl_UUID := uuid, pl_PremiumUUID := Some uuid,
       pl_NormalizedName := name, pl_ProtocolName := name, pl_ProfileProperties := properties\<rparr>"

definition NewPremiumPassport :: "unicode \<Rightarrow> string \<Rightarrow> UUID \<Rightarrow> time \<Rightarrow> Passport" where
  "NewPremiumPassport uc name uuid now =
     zero_Passport\<lparr>pp_ID := UUID_String uuid, pp_Kind := PassportKindPremium, pp_UUID := uuid,
       pp_PremiumUUID := Some uuid, pp_Username := name,
       pp_UsernameNormalized := ToLower uc (TrimSpace name), pp_Status := PassportStatusActive,
       pp_SkinSource := ''upstream'', pp_CreatedAt := now, pp_UpdatedAt := now\<rparr>"

definition NewPremiumProfile ::
  "unicode \<Rightarrow> string \<Rightarrow> ProfileProperty list \<Rightarrow> string \<Rightarrow> byte list option \<Rightarrow> time \<Rightarrow> Profile result" where
  "NewPremiumProfile uc name properties createdFromPassport rnd now =
     (case NormalizeProtocolName uc name of Inl e \<Rightarrow> Inl e
      | Inr protocol \<Rightarrow>
          case RandomProfileUUID rnd of Inl e \<Rightarrow> Inl e
          | Inr uuid \<Rightarrow>
              Inr (zero_Profile\<lparr>pf_ID := UUID_String uuid, pf_UUID := uuid,
                     pf_ProtocolName := on_Protocol protocol, pf_NormalizedName := on_Normalized protocol,
                     pf_DisplayName := on_Protocol protocol, pf_Status := ProfileStatusActive,
                     pf_SkinSource := ''passport'', pf_ProfileProperties := properties,
                     pf_CreatedFromPassport := createdFromPassport,
                     pf_CreatedAt := now, pf_UpdatedAt := now\<rparr>))"

definition PlayerFromPassportProfile :: "Passport \<Rightarrow> Profile \<Rightarrow> Player" where
  "PlayerFromPassportProfile passport profile =
     (let locked = (pp_Status passport = PassportStatusLocked \<or> pf_Status profile = ProfileStatusLocked) in
      \<lparr>pl_ID = pf_ID profile, pl_Kind = pp_Kind passport, pl_UUID = pf_UUID profile,
       pl_PremiumUUID = pp_PremiumUUID passport, pl_RawOfflineName = pp_RawOfflineName passport,
       pl_NormalizedName = pf_NormalizedName profile, pl_ProtocolName = pf_ProtocolName profile,
       pl_Locked = locked, pl_ProfileProperties = pf_ProfileProperties profile,
       pl_RegistrationServer = pp_RegistrationServer passport,
       pl_LastSeenServer = pf_LastSeenServer profile, pl_LastSeenAt = pf_LastSeenAt profile,
       pl_LastSeenIP = pf_LastSeenIP profile, pl_LastSeenGeo = pf_LastSeenGeo profile\<rparr>)"

definition PlayerFromPassportProfileLink :: "PassportProfile \<Rightarrow> Player" where
  "PlayerFromPassportProfileLink pp = PlayerFromPassportProfile (lk_Passport pp) (lk_Profile pp)"

text \<open>\<open>None\<close> is the nil error.  The message of the last case prints the kind with \<^verbatim>\<open>%q\<close>.\<close>

definition ValidateIsolation :: "Player \<Rightarrow> error option" where
  "ValidateIsolation p =
     (if pl_Kind p = PlayerKindOffline then
        (if pl_PremiumUUID p \<noteq> None then Some (Err ''offline player must not have premium uuid'')
         else if pl_RawOfflineName p = [] \<or> pl_ProtocolName p = []
         then Some (Err ''offline player must have offline names'')
         else None)
      else if pl_Kind p = PlayerKindPremium then
        (if pl_PremiumUUID p = None then Some (Err ''premium player must have premium uuid'')
         else if pl_RawOfflineName p \<noteq> [] then Some (Err ''premium player must not have raw offline name'')
         else if pl_ProtocolName p = [] then Some (Err ''premium protocol name is required'')
         else None)
      else Some (Err (''unknown player kind '' @ pl_Kind p)))"

lemma NewOfflinePassport_Inr:
  "NewOfflinePassport uc raw now = Inr p \<Longrightarrow>
     pp_ID p = UUID_String (OfflinePassportUUID uc (pp_UsernameNormalized p)) \<and>
     pp_Kind p = PassportKindOffline \<and> pp_UUID p = OfflinePassportUUID uc (pp_UsernameNormalized p) \<and>
     pp_UsernameNormalized p = ToLower uc raw \<and> pp_RawOfflineName p = raw \<and> pp_PremiumUUID p = None"
  by (auto simp: NewOfflinePassport_def Let_def zero_Passport_def on_Normalized_offline split: sum.splits)

lemma NewOfflineProfile_Inr:
  "NewOfflineProfile uc name q rnd now = Inr p \<Longrightarrow>
     \<exists>u. RandomProfileUUID rnd = Inr u \<and> pf_ID p = UUID_String u \<and> pf_UUID p = u \<and>
       pf_CreatedFromPassport p = q \<and> pf_ProtocolName p = name \<and> name \<noteq> []"
  by (auto simp: NewOfflineProfile_def NormalizeProtocolName_def normalizeName_Inr RuneCount_def split: sum.splits)

lemma NewPremiumProfile_Inr:
  "NewPremiumProfile uc name props q rnd now = Inr p \<Longrightarrow>
     \<exists>u. RandomProfileUUID rnd = Inr u \<and> pf_ID p = UUID_String u \<and> pf_UUID p = u \<and>
       pf_CreatedFromPassport p = q \<and> pf_ProtocolName p = name \<and> name \<noteq> []"
  by (auto simp: NewPremiumProfile_def NormalizeProtocolName_def normalizeName_Inr RuneCount_def split: sum.splits)

lemma pl_ID_PlayerFromPassportProfile [simp]: "pl_ID (PlayerFromPassportProfile q p) = pf_ID p"
  by (simp add: PlayerFromPassportProfile_def Let_def)
subsection \<open>Properties\<close>

lemma hexval_lower: "hexval (lower_char c) = hexval c"
  by (auto simp: hexval_def code_lower_char Let_def)

lemma hexval_Some: "hexval c = Some n \<longleftrightarrow> lower_char c = hexdigit n \<and> n < 16"
proof
  assume h: "hexval c = Some n"
  then show "lower_char c = hexdigit n \<and> n < 16"
    by (auto simp: hexval_def hexdigit_def lower_char_def Let_def simp flip: code_inject split: if_splits)
next
  assume "lower_char c = hexdigit n \<and> n < 16"
  then show "hexval c = Some n" using hexval_hexdigit [of n] hexval_lower [of c] by simp
qed

lemma HexDecode_iff: "HexDecode s = Inr bs \<longleftrightarrow> map lower_char s = HexEncode bs"
proof (induction s arbitrary: bs rule: HexDecode.induct)
  case 1
  show ?case by (cases bs) auto
next
  case (2 c)
  show ?case by (cases bs) auto
next
  case (3 c d cs)
  show ?case
  proof
    assume "HexDecode (c # d # cs) = Inr bs"
    then obtain x y bs' where x: "hexval c = Some x" "hexval d = Some y" "HexDecode cs = Inr bs'"
      "bs = of_nat (x * 16 + y) # bs'"
      by (auto split: option.splits sum.splits)
    moreover from this have xy: "x < 16" "y < 16" by (simp_all add: hexval_Some)
    moreover from xy have u: "unat (of_nat (x * 16 + y) :: byte) = x * 16 + y"
      by (subst unat_of_nat) simp
    ultimately show "map lower_char (c # d # cs) = HexEncode bs"
      using "3.IH" [OF refl x(1,2), of bs'] by (simp add: hexval_Some del: of_nat_add of_nat_mult)
  next
    assume h: "map lower_char (c # d # cs) = HexEncode bs"
    then obtain b bs' where b: "bs = b # bs'" by (cases bs) auto
    with h have "hexval c = Some (unat b div 16)" "hexval d = Some (unat b mod 16)" "map lower_char cs = HexEncode bs'"
      by (auto simp: hexval_Some unat_byte_nibbles)
    with "3.IH" [OF refl this(1,2), of bs'] b show "HexDecode (c # d # cs) = Inr bs" by simp
  qed
qed

text \<open>
  A text is a UUID exactly when, without its surrounding space and its dashes and in lower
  case, it is the compact form of the UUID; in particular printing and parsing are inverse.
\<close>

theorem ParseUUID_exact:
  "(ParseUUID s = Inr u) =
   (length u = 16 \<and> map lower_char (filter (\<lambda>c. c \<noteq> CHR ''-'') (TrimSpace s)) = UUID_Compact u)"
proof -
  let ?c = "filter (\<lambda>c. c \<noteq> CHR ''-'') (TrimSpace s)"
  have len: "length bs = 16 \<longleftrightarrow> length ?c = 32" if "map lower_char ?c = HexEncode bs" for bs
    using arg_cong [OF that, of length] by auto
  show ?thesis
  proof (cases "HexDecode ?c")
    case (Inl e)
    then have "map lower_char ?c \<noteq> HexEncode u" using HexDecode_iff [of ?c u] by simp
    with Inl show ?thesis by (simp add: ParseUUID_def Let_def UUID_Compact_def)
  next
    case (Inr bs)
    then have "map lower_char ?c = HexEncode bs" by (simp add: HexDecode_iff)
    with Inr len [OF this] show ?thesis by (auto simp: ParseUUID_def Let_def UUID_Compact_def)
  qed
qed

text \<open>
  Every UUID is read back from its dashed and from its compact form, with any letter case.
\<close>

theorem UUID_text_roundtrip:
  assumes "length u = 16"
  shows "ParseUUID (UUID_String u) = Inr u \<and> ParseUUID (UUID_Compact u) = Inr u \<and>
    length (UUID_String u) = 36"
  using ParseUUID_String [OF assms] ParseUUID_Compact [OF assms] assms
  by (simp add: UUID_String_def Let_def)

lemma UUID_text_roundtrip_witness:
  "ParseUUID (UUID_String zero_UUID) = Inr zero_UUID"
  using UUID_text_roundtrip [of zero_UUID] by (simp add: zero_UUID_def)

text \<open>
  An offline user name is accepted exactly when it has 3 to 16 characters, all of them ASCII
  letters, digits or underscores, and is not reserved up to case; it is normalized to lower case.
\<close>

theorem NormalizeOfflineName_exact:
  "(NormalizeOfflineName uc raw = Inr n) =
   (list_all (\<lambda>c. isOfflineNameRune (code c)) raw \<and> 3 \<le> length raw \<and> length raw \<le> 16 \<and>
    map lower_char raw \<notin> {''admin'', ''root'', ''system'', ''mojang'', ''minecraft'', ''authman'', ''console''} \<and>
    n = \<lparr>on_Raw = raw, on_Normalized = map lower_char raw, on_Protocol = raw\<rparr>)"
  by (simp add: NormalizeOfflineName_Inr list_all_iff offline_char_def reservedOfflineNames_def)

text \<open>
  The passport of an offline name does not depend on the letter case of the name, and its
  identifier is never that of a profile, whose UUID is random.
\<close>

theorem offline_identity:
  assumes "NewOfflinePassport uc raw t = Inr p" and "NewOfflinePassport uc raw' t' = Inr p'"
    and "map lower_char raw = map lower_char raw'" and "NewOfflineProfile uc name (pp_ID p) rnd now = Inr pf"
  shows "pp_ID p = pp_ID p' \<and> pp_UUID p = pp_UUID p' \<and> pf_ID pf \<noteq> pp_ID p \<and>
    uuid_version (pp_UUID p) = 8 \<and> uuid_version (pf_UUID pf) = 4"
proof -
  obtain n where n: "NormalizeOfflineName uc raw = Inr n" using assms(1)
    by (auto simp: NewOfflinePassport_def split: sum.splits)
  obtain n' where n': "NormalizeOfflineName uc raw' = Inr n'" using assms(2)
    by (auto simp: NewOfflinePassport_def split: sum.splits)
  have "on_Normalized n = on_Normalized n'" using n n' assms(3) by (auto simp: NormalizeOfflineName_Inr)
  then have eq: "pp_ID p = pp_ID p'" "pp_UUID p = pp_UUID p'"
    using assms(1,2) n n' by (auto simp: NewOfflinePassport_def Let_def)
  note p = NewOfflinePassport_Inr [OF assms(1)]
  from NewOfflineProfile_Inr [OF assms(4)] obtain u where u: "RandomProfileUUID rnd = Inr u" "pf_ID pf = UUID_String u" "pf_UUID pf = u"
    by blast
  have v: "uuid_version (pp_UUID p) = 8" using p by (simp add: version_OfflinePassportUUID)
  have "pf_ID pf \<noteq> pp_ID p"
  proof
    assume "pf_ID pf = pp_ID p"
    then have "u = pp_UUID p"
      using p u length_RandomProfileUUID [OF u(1)] by (simp add: UUID_String_inject)
    with v version_RandomProfileUUID [OF u(1)] show False by simp
  qed
  with eq v version_RandomProfileUUID [OF u(1)] u(3) show ?thesis by simp
qed

lemma offline_identity_witness:
  "pp_ID (projr (NewOfflinePassport plain_unicode ''Alice'' 1)) = pp_ID (projr (NewOfflinePassport plain_unicode ''ALICE'' 2))"
proof -
  have n: "NormalizeOfflineName plain_unicode ''Alice'' = Inr \<lparr>on_Raw = ''Alice'', on_Normalized = ''alice'', on_Protocol = ''Alice''\<rparr>"
    "NormalizeOfflineName plain_unicode ''ALICE'' = Inr \<lparr>on_Raw = ''ALICE'', on_Normalized = ''alice'', on_Protocol = ''ALICE''\<rparr>"
    "map lower_char ''Alice'' = map lower_char ''ALICE''"
    "NormalizeProtocolName plain_unicode ''Alice'' = Inr \<lparr>on_Raw = ''Alice'', on_Normalized = ''alice'', on_Protocol = ''Alice''\<rparr>"
    by code_simp+
  obtain p p' where p: "NewOfflinePassport plain_unicode ''Alice'' 1 = Inr p" "NewOfflinePassport plain_unicode ''ALICE'' 2 = Inr p'"
    unfolding NewOfflinePassport_def n sum.case Let_def by blast
  obtain pf where "NewOfflineProfile plain_unicode ''Alice'' (pp_ID p) (Some []) 3 = Inr pf"
    unfolding NewOfflineProfile_def n RandomProfileUUID_def option.case sum.case Let_def by blast
  from offline_identity [OF p n(3) this] p show ?thesis by simp
qed

end
