(* ===== verification/Auth.thy ===== *)
theory Auth
  imports GoCrypto
begin

text \<open>
  The package \<^verbatim>\<open>core/internal/auth\<close>: opaque tokens and their hashes (\<^verbatim>\<open>token.go\<close>), sessions
  (\<^verbatim>\<open>session.go\<close>), one-time portal links (\<^verbatim>\<open>link.go\<close>), transfer grants (\<^verbatim>\<open>transfer.go\<close>) and the
  password policy (\<^verbatim>\<open>password.go\<close>).  A constructor takes the bytes \<^verbatim>\<open>rand.Read\<close> gave it, \<open>None\<close>
  when that failed.  The locale \<open>one_shot\<close> states what a token that may be used once promises;
  the store interprets it for portal links and for transfer grants.
\<close>

subsection \<open>Tokens\<close>

definition NewOpaqueToken :: "nat \<Rightarrow> byte list option \<Rightarrow> string result" where
  "NewOpaqueToken n rnd =
     (if n < 16 then Inl (Err ''token must contain at least 16 random bytes'')
      else case rnd of None \<Rightarrow> Inl (ErrLib ''rand'')
      | Some raw \<Rightarrow> Inr (Base64RawURL (take n (raw @ replicate n 0))))"

definition HashToken :: "string \<Rightarrow> string \<Rightarrow> string" where
  "HashToken scope token = HexEncode (sha256 (bytes_of scope @ [0] @ bytes_of token))"

definition TokenFingerprint :: "string \<Rightarrow> string" where
  "TokenFingerprint token = take 12 (HashToken ''fingerprint'' token)"

text \<open>\<^verbatim>\<open>subtle.ConstantTimeCompare\<close> is equality of the two byte sequences.\<close>

definition ConstantTimeTokenEqual :: "unicode \<Rightarrow> string \<Rightarrow> string \<Rightarrow> string \<Rightarrow> bool" where
  "ConstantTimeTokenEqual uc scope token expectedHash \<longleftrightarrow>
     HashToken scope token = ToLower uc expectedHash"

lemma length_HashToken [simp]: "length (HashToken scope token) = 64"
  by (simp add: HashToken_def)

lemma HashToken_nonempty [simp]: "HashToken scope token \<noteq> []"
  by (metis length_HashToken length_greater_0_conv zero_less_numeral)

lemma lower_char_hexdigit: "n < 16 \<Longrightarrow> lower_char (hexdigit n) = hexdigit n"
  by (auto simp: lower_char_def hexdigit_def)

lemma ToLower_HexEncode: "ToLower uc (HexEncode bs) = HexEncode bs"
proof -
  have "map lower_char (HexEncode bs) = HexEncode bs"
    by (induction bs) (simp_all add: lower_char_hexdigit unat_byte_nibbles)
  moreover have "ascii (HexEncode bs)"
    unfolding ascii_def list_all_iff by (fastforce dest: HexEncode_chars)
  ultimately show ?thesis by (simp add: ToLower_ascii)
qed

lemma ConstantTimeTokenEqual_HashToken:
  "ConstantTimeTokenEqual uc scope token (HashToken scope' token') \<longleftrightarrow>
     HashToken scope token = HashToken scope' token'"
  by (simp add: ConstantTimeTokenEqual_def HashToken_def ToLower_HexEncode)

text \<open>
  Tokens of different scopes never share the hashed message: a scope is the part before the
  first zero byte, and no scope of the program contains one.
\<close>

lemma scope_separation:
  assumes "0 \<notin> set (bytes_of s)" "0 \<notin> set (bytes_of s')"
    and "bytes_of s @ [0] @ bytes_of t = bytes_of s' @ [0] @ bytes_of t'"
  shows "s = s' \<and> t = t'"
proof -
  have split: "takeWhile (\<lambda>b. b \<noteq> 0) (bytes_of u @ [0] @ v) = bytes_of u" if "0 \<notin> set (bytes_of u)"
    for u v using that by (subst takeWhile_append2) auto
  from split [OF assms(1), of "bytes_of t"] split [OF assms(2), of "bytes_of t'"] assms(3)
  have "bytes_of s = bytes_of s'" by simp
  with assms(3) show ?thesis by simp
qed

subsection \<open>Sessions\<close>

type_synonym SessionKind = string

abbreviation (input) SessionAdmin :: SessionKind where "SessionAdmin \<equiv> ''admin''"
abbreviation (input) SessionPlayer :: SessionKind where "SessionPlayer \<equiv> ''player''"

record Session =
  se_ID :: string
  se_Kind :: SessionKind
  se_SubjectID :: string
  se_SelectedProfileID :: string
  se_CSRFToken :: string
  se_CreatedAt :: time
  se_ExpiresAt :: time

definition NewSession ::
  "SessionKind \<Rightarrow> string \<Rightarrow> duration \<Rightarrow> time \<Rightarrow> byte list option \<Rightarrow> byte list option \<Rightarrow>
   (Session \<times> string \<times> string) result" where
  "NewSession kind subjectID ttl now rnd1 rnd2 =
     (case NewOpaqueToken 32 rnd1 of Inl e \<Rightarrow> Inl e
      | Inr sessionToken \<Rightarrow>
          case NewOpaqueToken 32 rnd2 of Inl e \<Rightarrow> Inl e
          | Inr csrf \<Rightarrow>
              Inr (\<lparr>se_ID = HashToken ''session'' sessionToken, se_Kind = kind, se_SubjectID = subjectID,
                    se_SelectedProfileID = [], se_CSRFToken = HashToken ''csrf'' csrf,
                    se_CreatedAt = now, se_ExpiresAt = now + ttl\<rparr>, sessionToken, csrf))"

definition Session_Expired :: "Session \<Rightarrow> time \<Rightarrow> bool" where
  "Session_Expired s now \<longleftrightarrow> \<not> Before now (se_ExpiresAt s)"

definition Session_VerifyCSRF :: "unicode \<Rightarrow> Session \<Rightarrow> string \<Rightarrow> bool" where
  "Session_VerifyCSRF uc s csrf \<longleftrightarrow> ConstantTimeTokenEqual uc ''csrf'' csrf (se_CSRFToken s)"

lemma NewSession_verifies:
  "NewSession kind sub ttl now r1 r2 = Inr (s, tok, csrf) \<Longrightarrow>
     Session_VerifyCSRF uc s csrf \<and> se_ID s = HashToken ''session'' tok \<and>
     (\<forall>t. Session_Expired s t \<longleftrightarrow> now + ttl \<le> t)"
  by (auto simp: NewSession_def Session_VerifyCSRF_def Session_Expired_def
      ConstantTimeTokenEqual_HashToken split: sum.splits)

subsection \<open>Portal links\<close>

type_synonym PortalLinkStatus = string

abbreviation (input) PortalLinkActive :: PortalLinkStatus where "PortalLinkActive \<equiv> ''active''"
abbreviation (input) PortalLinkUsed :: PortalLinkStatus where "PortalLinkUsed \<equiv> ''used''"
abbreviation (input) PortalLinkRevoked :: PortalLinkStatus where "PortalLinkRevoked \<equiv> ''revoked''"

record PortalLink =
  li_ID :: string
  li_Kind :: string
  li_PlayerID :: string
  li_SuggestedProfileID :: string
  li_ServerID :: string
  li_IssuedByNodeID :: string
  li_TokenHash :: string
  li_Status :: PortalLinkStatus
  li_CreatedAt :: time
  li_ExpiresAt :: time
  li_UsedAt :: "time option"
  li_RevokedAt :: "time option"

datatype PortalLinkVerifyResult =
    PortalLinkVerifyOK
  | PortalLinkVerifyExpired
  | PortalLinkVerifyUsed
  | PortalLinkVerifyRevoked
  | PortalLinkVerifyNotFound

definition NewPortalLink ::
  "string \<Rightarrow> string \<Rightarrow> string \<Rightarrow> duration \<Rightarrow> time \<Rightarrow> byte list option \<Rightarrow> (PortalLink \<times> string) result" where
  "NewPortalLink kind playerID serverID ttl now rnd =
     (case NewOpaqueToken 32 rnd of Inl e \<Rightarrow> Inl e
      | Inr token \<Rightarrow>
          Inr (\<lparr>li_ID = HashToken ''portal-link-id'' token, li_Kind = kind, li_PlayerID = playerID,
                li_SuggestedProfileID = [], li_ServerID = serverID, li_IssuedByNodeID = [],
                li_TokenHash = HashToken ''portal-link'' token, li_Status = PortalLinkActive,
                li_CreatedAt = now, li_ExpiresAt = now + ttl, li_UsedAt = None, li_RevokedAt = None\<rparr>, token))"

definition PortalLink_Verify :: "unicode \<Rightarrow> PortalLink \<Rightarrow> string \<Rightarrow> time \<Rightarrow> PortalLinkVerifyResult" where
  "PortalLink_Verify uc l token now =
     (if li_Status l = PortalLinkUsed then PortalLinkVerifyUsed
      else if li_Status l = PortalLinkRevoked then PortalLinkVerifyRevoked
      else if \<not> Before now (li_ExpiresAt l) then PortalLinkVerifyExpired
      else if \<not> ConstantTimeTokenEqual uc ''portal-link'' token (li_TokenHash l) then PortalLinkVerifyNotFound
      else PortalLinkVerifyOK)"

lemma PortalLink_Verify_new:
  "NewPortalLink k p s ttl now rnd = Inr (l, token) \<Longrightarrow>
     PortalLink_Verify uc l token t = (if t < now + ttl then PortalLinkVerifyOK else PortalLinkVerifyExpired)"
  by (auto simp: NewPortalLink_def PortalLink_Verify_def ConstantTimeTokenEqual_HashToken split: sum.splits)

subsection \<open>Transfer grants\<close>

record TransferGrant =
  tg_ID :: string
  tg_PlayerID :: string
  tg_PassportID :: string
  tg_ServerID :: string
  tg_PortalNodeID :: string
  tg_PortalSource :: string
  tg_RemoteIP :: string
  tg_GateNodeID :: string
  tg_TokenHash :: string
  tg_UUID :: string
  tg_ProtocolName :: string
  tg_TargetHost :: string
  tg_TargetPort :: int
  tg_CreatedAt :: time
  tg_ExpiresAt :: time
  tg_ConsumedAt :: "time option"

definition NewTransferGrant ::
  "string \<Rightarrow> string \<Rightarrow> string \<Rightarrow> string \<Rightarrow> string \<Rightarrow> string \<Rightarrow> string \<Rightarrow> string \<Rightarrow> string \<Rightarrow> int \<Rightarrow>
   duration \<Rightarrow> time \<Rightarrow> byte list option \<Rightarrow> (TransferGrant \<times> string) result" where
  "NewTransferGrant playerID passportID serverID portalNodeID portalSource remoteIP uuid protocolName
     targetHost targetPort ttl now rnd =
     (case NewOpaqueToken 32 rnd of Inl e \<Rightarrow> Inl e
      | Inr token \<Rightarrow>
          Inr (\<lparr>tg_ID = HashToken ''transfer-grant-id'' token, tg_PlayerID = playerID,
                tg_PassportID = passportID, tg_ServerID = serverID, tg_PortalNodeID = portalNodeID,
                tg_PortalSource = portalSource, tg_RemoteIP = remoteIP, tg_GateNodeID = [],
                tg_TokenHash = HashToken ''transfer-grant'' token, tg_UUID = uuid,
                tg_ProtocolName = protocolName, tg_TargetHost = targetHost, tg_TargetPort = targetPort,
                tg_CreatedAt = now, tg_ExpiresAt = now + ttl, tg_ConsumedAt = None\<rparr>, token))"

definition TransferGrantHash :: "string \<Rightarrow> string" where
  "TransferGrantHash token = HashToken ''transfer-grant'' token"

lemma NewTransferGrant_Inr:
  "NewTransferGrant pl pp sv pn ps ip u nm h p ttl now rnd = Inr (g, token) \<Longrightarrow>
     tg_TokenHash g = TransferGrantHash token \<and> tg_ConsumedAt g = None \<and> tg_ExpiresAt g = now + ttl"
  by (auto simp: NewTransferGrant_def TransferGrantHash_def split: sum.splits)

subsection \<open>Password policy\<close>

record PasswordPolicy =
  po_MinLength :: int
  po_MaxLength :: int

definition DefaultPasswordPolicy :: PasswordPolicy where
  "DefaultPasswordPolicy = \<lparr>po_MinLength = 8, po_MaxLength = 128\<rparr>"

text \<open>\<open>None\<close> is the nil error; the length is in bytes.\<close>

definition ValidatePassword :: "string \<Rightarrow> PasswordPolicy \<Rightarrow> error option" where
  "ValidatePassword password policy =
     (let lo = (if po_MinLength policy = 0 then po_MinLength DefaultPasswordPolicy else po_MinLength policy);
          hi = (if po_MaxLength policy = 0 then po_MaxLength DefaultPasswordPolicy else po_MaxLength policy)
      in if int (length password) < lo then Some (Err ''password is too short'')
         else if hi < int (length password) then Some (Err ''password is too long'')
         else None)"

lemma ValidatePassword_default:
  "ValidatePassword pw DefaultPasswordPolicy = None \<longleftrightarrow> 8 \<le> length pw \<and> length pw \<le> 128"
  by (auto simp: ValidatePassword_def DefaultPasswordPolicy_def Let_def)

subsection \<open>Tokens that may be used once\<close>

text \<open>
  \<open>use s k t\<close> attempts to use the token stored under \<open>k\<close> at time \<open>t\<close>; \<open>spent s k\<close> says that
  the token has been used.  A provider promises that a successful use spends the token and that
  a spent token is refused and stays spent.  Then at most one of any sequence of attempts
  succeeds, however attempts on other tokens are interleaved.
\<close>

text \<open>How many of a sequence of attempts, on whatever tokens, succeed in using the token \<open>k\<close>.\<close>

fun successes ::
  "('s \<Rightarrow> 'k \<Rightarrow> 'a \<Rightarrow> 's \<times> 'g result) \<Rightarrow> 's \<Rightarrow> ('k \<times> 'a) list \<Rightarrow> 'k \<Rightarrow> nat" where
  "successes use s [] k = 0"
| "successes use s ((k', a) # es) k =
     (case use s k' a of (s', r) \<Rightarrow> (if k' = k \<and> is_ok r then 1 else 0) + successes use s' es k)"

locale one_shot =
  fixes use :: "'s \<Rightarrow> 'k \<Rightarrow> 'a \<Rightarrow> 's \<times> 'g result"
    and spent :: "'s \<Rightarrow> 'k \<Rightarrow> bool"
  assumes use_spends: "use s k a = (s', Inr g) \<Longrightarrow> spent s' k"
    and spent_refused: "spent s k \<Longrightarrow> \<not> is_ok (snd (use s k a))"
    and spent_stays: "spent s k \<Longrightarrow> spent (fst (use s k' a)) k"
begin

lemma successes_spent: "spent s k \<Longrightarrow> successes use s es k = 0"
proof (induction es arbitrary: s)
  case (Cons e es)
  obtain k' a where e: "e = (k', a)" by (cases e)
  obtain s' r where u: "use s k' a = (s', r)" by (cases "use s k' a")
  have "spent s' k" using spent_stays [OF Cons.prems, of k' a] u by simp
  then have "successes use s' es k = 0" by (rule Cons.IH)
  moreover have "\<not> (k' = k \<and> is_ok r)" using spent_refused [OF Cons.prems, of a] u by auto
  ultimately show ?case using u e by simp
qed simp

lemma successes_le_1: "successes use s es k \<le> 1"
proof (induction es arbitrary: s)
  case (Cons e es)
  obtain k' a where e: "e = (k', a)" by (cases e)
  obtain s' r where u: "use s k' a = (s', r)" by (cases "use s k' a")
  show ?case
  proof (cases "k' = k \<and> is_ok r")
    case True
    then obtain g where "r = Inr g" by (auto simp: is_ok_iff)
    with True u have "spent s' k" using use_spends by blast
    with True u e show ?thesis by (simp add: successes_spent)
  next
    case False
    with Cons.IH [of s'] u e show ?thesis by auto
  qed
qed simp

end
subsection \<open>Properties\<close>

text \<open>
  A new portal link is accepted with its token until it expires and never later; a token
  is refused once the link is used or revoked, and one with another hash at any time.
\<close>

theorem portal_link_lifecycle:
  assumes "NewPortalLink kind q s ttl now rnd = Inr (l, token)"
  shows "(PortalLink_Verify uc l token t = PortalLinkVerifyOK) = (t < now + ttl) \<and>
    PortalLink_Verify uc (l\<lparr>li_Status := PortalLinkUsed\<rparr>) token t = PortalLinkVerifyUsed \<and>
    PortalLink_Verify uc (l\<lparr>li_Status := PortalLinkRevoked\<rparr>) token t = PortalLinkVerifyRevoked \<and>
    (PortalLink_Verify uc l guess t = PortalLinkVerifyOK) =
      (t < now + ttl \<and> HashToken ''portal-link'' guess = HashToken ''portal-link'' token)"
  using assms
  by (auto simp: NewPortalLink_def PortalLink_Verify_def ConstantTimeTokenEqual_HashToken split: sum.splits)

lemma portal_link_lifecycle_witness:
  "case NewPortalLink ''register'' ''q'' ''s'' 60 100 (Some [1, 2, 3]) of Inl _ \<Rightarrow> False
   | Inr (l, token) \<Rightarrow> PortalLink_Verify plain_unicode l token 159 = PortalLinkVerifyOK \<and>
       PortalLink_Verify plain_unicode l token 160 \<noteq> PortalLinkVerifyOK"
proof -
  obtain l token where l: "NewPortalLink ''register'' ''q'' ''s'' 60 100 (Some [1, 2, 3]) = Inr (l, token)"
    by (simp add: NewPortalLink_def NewOpaqueToken_def)
  from portal_link_lifecycle [OF l, of plain_unicode 159] portal_link_lifecycle [OF l, of plain_unicode 160] l
  show ?thesis by simp
qed

text \<open>
  A new session is stored under the hash of its token and not under the token, accepts the
  CSRF token issued with it and no token of another hash, and has expired exactly from its end on.
\<close>

theorem session_lifecycle:
  assumes "NewSession kind sub ttl now r1 r2 = Inr (s, token, csrf)"
  shows "se_ID s = HashToken ''session'' token \<and> Session_VerifyCSRF uc s csrf \<and>
    Session_VerifyCSRF uc s guess = (HashToken ''csrf'' guess = HashToken ''csrf'' csrf) \<and>
    Session_Expired s t = (now + ttl \<le> t) \<and> se_SelectedProfileID s = [] \<and> se_Kind s = kind"
  using NewSession_verifies [OF assms, of uc] assms
  by (auto simp: NewSession_def Session_VerifyCSRF_def ConstantTimeTokenEqual_HashToken split: sum.splits)

lemma session_lifecycle_witness:
  "case NewSession ''player'' ''q'' 60 100 (Some [1]) (Some [2]) of Inl _ \<Rightarrow> False
   | Inr (s, token, csrf) \<Rightarrow> Session_VerifyCSRF plain_unicode s csrf \<and> Session_Expired s 160 \<and> \<not> Session_Expired s 159"
proof -
  obtain s token csrf where s: "NewSession ''player'' ''q'' 60 100 (Some [1]) (Some [2]) = Inr (s, token, csrf)"
    by (simp add: NewSession_def NewOpaqueToken_def)
  from session_lifecycle [OF s, of plain_unicode _ 159] session_lifecycle [OF s, of plain_unicode _ 160] s
  show ?thesis by auto
qed

end
