(* ===== verification/AuthSecrets.thy ===== *)
theory AuthSecrets
  imports Auth GoCodec
begin

text \<open>
  The secrets a user presents: passwords hashed with Argon2id (\<^verbatim>\<open>password.go\<close>) and time-based
  one-time codes (\<^verbatim>\<open>totp.go\<close>).  \<^verbatim>\<open>argon2.IDKey\<close> is third-party code: the functions take it as the
  argument \<open>idkey\<close>, of which they rely on nothing but that it is a function.  It panics when the
  number of rounds or of threads is zero; the outer \<open>None\<close> of a result is a panic.
\<close>

subsection \<open>Password hashes\<close>

record Argon2idParams =
  ar_MemoryKiB :: w32
  ar_Iterations :: w32
  ar_Parallelism :: byte
  ar_SaltLength :: int
  ar_KeyLength :: w32

definition DefaultArgon2idParams :: Argon2idParams where
  "DefaultArgon2idParams =
     \<lparr>ar_MemoryKiB = 64 * 1024, ar_Iterations = 3, ar_Parallelism = 1, ar_SaltLength = 16, ar_KeyLength = 32\<rparr>"

type_synonym argon2 = "byte list \<Rightarrow> byte list \<Rightarrow> w32 \<Rightarrow> w32 \<Rightarrow> byte \<Rightarrow> w32 \<Rightarrow> byte list"

definition argon2_format :: "Argon2idParams \<Rightarrow> string \<Rightarrow> string \<Rightarrow> string" where
  "argon2_format params encodedSalt encodedHash =
     ''$argon2id$v=19$m='' @ Itoa (uint (ar_MemoryKiB params)) @ '',t='' @ Itoa (uint (ar_Iterations params))
       @ '',p='' @ Itoa (uint (ar_Parallelism params)) @ ''$'' @ encodedSalt @ ''$'' @ encodedHash"

text \<open>\<open>rnd\<close> is what \<^verbatim>\<open>rand.Read\<close> put into the salt; \<^verbatim>\<open>make\<close> panics for a negative length.\<close>

definition HashPassword :: "argon2 \<Rightarrow> string \<Rightarrow> Argon2idParams \<Rightarrow> byte list option \<Rightarrow> string result option" where
  "HashPassword idkey password params rnd =
     (let params = (if ar_MemoryKiB params = 0 then DefaultArgon2idParams else params) in
      case ValidatePassword password DefaultPasswordPolicy of Some e \<Rightarrow> Some (Inl e)
      | None \<Rightarrow>
          if ar_SaltLength params < 0 then None
          else case rnd of None \<Rightarrow> Some (Inl (ErrLib ''rand''))
          | Some raw \<Rightarrow>
              let n = nat (ar_SaltLength params); salt = take n (raw @ replicate n 0) in
              if ar_Iterations params = 0 \<or> ar_Parallelism params = 0 then None
              else
                let hash = idkey (bytes_of password) salt (ar_Iterations params) (ar_MemoryKiB params)
                      (ar_Parallelism params) (ar_KeyLength params)
                in Some (Inr (argon2_format params (Base64RawStd salt) (Base64RawStd hash))))"

text \<open>The loop over \<^verbatim>\<open>m=..,t=..,p=..\<close>; the conversions keep the low bits of the number.\<close>

fun parse_params :: "string list \<Rightarrow> Argon2idParams \<Rightarrow> Argon2idParams result" where
  "parse_params [] params = Inr params"
| "parse_params (part # parts) params =
     (case Cut part (CHR ''='') of (key, value, ok) \<Rightarrow>
        if \<not> ok then Inl (Err ''invalid argon2id parameter'')
        else case Atoi value of None \<Rightarrow> Inl (ErrLib ''Atoi'')
        | Some n \<Rightarrow>
            if key = ''m'' then parse_params parts (params\<lparr>ar_MemoryKiB := word_of_int n\<rparr>)
            else if key = ''t'' then parse_params parts (params\<lparr>ar_Iterations := word_of_int n\<rparr>)
            else if key = ''p'' then parse_params parts (params\<lparr>ar_Parallelism := word_of_int n\<rparr>)
            else Inl (Err (''unknown argon2id parameter '' @ key)))"

definition parseArgon2id :: "string \<Rightarrow> (Argon2idParams \<times> byte list \<times> byte list) result" where
  "parseArgon2id encoded =
     (let parts = Split encoded (CHR ''$'') in
      if length parts \<noteq> 6 \<or> parts ! 1 \<noteq> ''argon2id'' \<or> parts ! 2 \<noteq> ''v=19''
      then Inl (Err ''invalid argon2id hash format'')
      else
        let paramParts = Split (parts ! 3) (CHR '','') in
        if length paramParts \<noteq> 3 then Inl (Err ''invalid argon2id parameter format'')
        else case parse_params paramParts \<lparr>ar_MemoryKiB = 0, ar_Iterations = 0, ar_Parallelism = 0,
                    ar_SaltLength = 0, ar_KeyLength = 0\<rparr> of Inl e \<Rightarrow> Inl e
        | Inr params \<Rightarrow>
            case Base64RawStdDecode (parts ! 4) of Inl e \<Rightarrow> Inl e
            | Inr salt \<Rightarrow>
                case Base64RawStdDecode (parts ! 5) of Inl e \<Rightarrow> Inl e
                | Inr hash \<Rightarrow>
                    Inr (params\<lparr>ar_SaltLength := int (length salt), ar_KeyLength := of_nat (length hash)\<rparr>, salt, hash))"

definition VerifyPassword :: "argon2 \<Rightarrow> string \<Rightarrow> string \<Rightarrow> bool result option" where
  "VerifyPassword idkey password encoded =
     (case parseArgon2id encoded of Inl e \<Rightarrow> Some (Inl e)
      | Inr (params, salt, expected) \<Rightarrow>
          if ar_Iterations params = 0 \<or> ar_Parallelism params = 0 then None
          else
            let actual = idkey (bytes_of password) salt (ar_Iterations params) (ar_MemoryKiB params)
                  (ar_Parallelism params) (of_nat (length expected))
            in Some (Inr (actual = expected)))"

subsection \<open>Time-based one-time codes\<close>

abbreviation (input) TOTPStepSeconds :: int where "TOTPStepSeconds \<equiv> 30"
abbreviation (input) TOTPDigits :: nat where "TOTPDigits \<equiv> 6"

definition NewTOTPSecret :: "byte list option \<Rightarrow> string result" where
  "NewTOTPSecret rnd =
     (case rnd of None \<Rightarrow> Inl (ErrLib ''rand'')
      | Some raw \<Rightarrow>
          Inr (rev (dropWhile (\<lambda>c. c = CHR ''='') (rev (Base32 (take 20 (raw @ replicate 20 0)))))))"

text \<open>\<^verbatim>\<open>url.Values.Encode\<close> sorts by key.\<close>

definition TOTPAuthURL :: "string \<Rightarrow> string \<Rightarrow> string \<Rightarrow> string" where
  "TOTPAuthURL issuer account secret =
     ''otpauth://totp/'' @ PathEscape (issuer @ '':'' @ account) @ ''?algorithm=SHA1&digits='' @ Itoa (int TOTPDigits)
       @ ''&issuer='' @ QueryEscape issuer @ ''&period='' @ Itoa TOTPStepSeconds @ ''&secret='' @ QueryEscape secret"

text \<open>The verb \<^verbatim>\<open>%06d\<close>.\<close>

definition pad6 :: "nat \<Rightarrow> string" where
  "pad6 n = (let s = digits n in replicate (6 - length s) (CHR ''0'') @ s)"

definition totpCode :: "unicode \<Rightarrow> string \<Rightarrow> int \<Rightarrow> string" where
  "totpCode uc secret counter =
     (case Base32Decode (ToUpper uc secret) of Inl _ \<Rightarrow> []
      | Inr key \<Rightarrow>
          let msg = be_bytes 8 (nat (counter mod 2 ^ 64));
              sum = hmac_sha1 key msg;
              offset = unat (sum ! (length sum - 1) AND 0x0f);
              b = (\<lambda>i. ucast (sum ! (offset + i)) :: w32);
              value = push_bit 24 (b 0 AND 0x7f) OR push_bit 16 (b 1 AND 0xff) OR push_bit 8 (b 2 AND 0xff) OR (b 3 AND 0xff)
          in pad6 (unat (value mod 1000000)))"

text \<open>\<^verbatim>\<open>t.Unix()\<close>, and \<^verbatim>\<open>/\<close>, which truncates towards zero.\<close>

definition Unix :: "time \<Rightarrow> int" where "Unix t = t div 1000000000 - 62135596800"

definition quot :: "int \<Rightarrow> int \<Rightarrow> int" where "quot a b = sgn a * sgn b * (\<bar>a\<bar> div \<bar>b\<bar>)"

definition VerifyTOTP :: "unicode \<Rightarrow> string \<Rightarrow> string \<Rightarrow> time \<Rightarrow> bool" where
  "VerifyTOTP uc secret code0 now =
     (let code0 = TrimSpace (filter (\<lambda>c. c \<noteq> CHR '' '') code0) in
      if length code0 \<noteq> TOTPDigits then False
      else
        let counter = quot (Unix now) TOTPStepSeconds
        in list_ex (\<lambda>drift. code0 = totpCode uc secret (counter + drift)) [-1, 0, 1])"


subsection \<open>A password is verified against its hash\<close>

lemma Itoa_uint:
  fixes w :: "'a::len word" assumes "LENGTH('a) \<le> 32"
  shows "Atoi (Itoa (uint w)) = Some (uint w)" and "c \<in> set (Itoa (uint w)) \<Longrightarrow> 48 \<le> code c \<and> code c < 58"
proof -
  have "uint w < 2 ^ LENGTH('a)" by (rule uint_lt2p)
  also have "(2::int) ^ LENGTH('a) \<le> 2 ^ 63" using assms by (intro power_increasing) auto
  finally show "Atoi (Itoa (uint w)) = Some (uint w)" by (intro Atoi_Itoa) simp_all
  show "48 \<le> code c \<and> code c < 58" if "c \<in> set (Itoa (uint w))"
    using that digits_chars [of c "nat (uint w)"] by (simp add: Itoa_def not_less)
qed

lemma no_number:
  fixes w :: "'a::len word" assumes "LENGTH('a) \<le> 32" "code c < 48 \<or> 58 \<le> code c"
  shows "c \<notin> set (Itoa (uint w))"
  using Itoa_uint(2) [OF assms(1), of c w] assms(2) by auto

lemma parse_format:
  "parseArgon2id (argon2_format params (Base64RawStd salt) (Base64RawStd hash)) =
     Inr (params\<lparr>ar_SaltLength := int (length salt), ar_KeyLength := of_nat (length hash)\<rparr>, salt, hash)"
proof -
  let ?m = "''m='' @ Itoa (uint (ar_MemoryKiB params))"
  let ?t = "''t='' @ Itoa (uint (ar_Iterations params))"
  let ?p = "''p='' @ Itoa (uint (ar_Parallelism params))"
  let ?ps = "?m @ CHR '','' # ?t @ CHR '','' # ?p"
  have c: "code (CHR ''$'') = 36" "code (CHR '','') = 44" "code (CHR ''='') = 61" by (simp_all add: code_def)
  have no: "d \<notin> set (Itoa (uint (ar_MemoryKiB params)))" "d \<notin> set (Itoa (uint (ar_Iterations params)))"
    "d \<notin> set (Itoa (uint (ar_Parallelism params)))" if "d \<in> {CHR ''$'', CHR '','', CHR ''=''}" for d
  proof -
    from that c have "code d < 48 \<or> 58 \<le> code d" by auto
    then show "d \<notin> set (Itoa (uint (ar_MemoryKiB params)))" "d \<notin> set (Itoa (uint (ar_Iterations params)))"
      "d \<notin> set (Itoa (uint (ar_Parallelism params)))" by (simp_all add: no_number)
  qed
  have b: "CHR ''$'' \<notin> set (Base64RawStd bs)" for bs
    by (rule base64.no_letter) (simp add: b64_letter_def b64val_def code_def)
  have n: "CHR ''$'' \<notin> set []" "CHR ''$'' \<notin> set ''argon2id''" "CHR ''$'' \<notin> set ''v=19''" "CHR ''$'' \<notin> set ?ps"
    by (simp_all add: no)
  have n': "CHR '','' \<notin> set ?m" "CHR '','' \<notin> set ?t" "CHR '','' \<notin> set ?p" by (simp_all add: no)
  define ps where "ps = ?ps"
  have fmt: "argon2_format params s h =
      [] @ CHR ''$'' # ''argon2id'' @ CHR ''$'' # ''v=19'' @ CHR ''$'' # ?ps @ CHR ''$'' # s @ CHR ''$'' # h" for s h
    by (simp add: argon2_format_def)
  have parts: "Split (argon2_format params (Base64RawStd salt) (Base64RawStd hash)) (CHR ''$'') =
      [[], ''argon2id'', ''v=19'', ps, Base64RawStd salt, Base64RawStd hash]"
    unfolding fmt ps_def Split_append [OF n(1)] Split_append [OF n(2)] Split_append [OF n(3)] Split_append [OF n(4)]
      Split_append [OF b] Split_single [OF b] ..
  have params: "Split ps (CHR '','') = [?m, ?t, ?p]"
    unfolding ps_def Split_append [OF n'(1)] Split_append [OF n'(2)] Split_single [OF n'(3)] ..
  have cut: "Cut (a # CHR ''='' # v) (CHR ''='') = ([a], v, True)" if "a \<noteq> CHR ''=''" for a v
    using that by (simp add: Cut_def)
  show ?thesis
    unfolding parseArgon2id_def Let_def parts
    by (simp add: params cut Itoa_uint base64.round_trip)
qed

lemma HashPassword_format:
  assumes "HashPassword idkey pw params rnd = Some (Inr enc)"
  obtains q salt where "ar_Iterations q \<noteq> 0" "ar_Parallelism q \<noteq> 0" "q = (if ar_MemoryKiB params = 0 then DefaultArgon2idParams else params)"
    "enc = argon2_format q (Base64RawStd salt) (Base64RawStd (idkey (bytes_of pw) salt (ar_Iterations q) (ar_MemoryKiB q)
       (ar_Parallelism q) (ar_KeyLength q)))" "length salt = nat (ar_SaltLength q)"
  using assms by (auto simp: HashPassword_def Let_def split: option.splits if_splits)


definition sample_idkey :: argon2 where
  "sample_idkey p s t m n k = take (unat k) (s @ p @ replicate (unat k) 0)"



subsection \<open>One-time codes are accepted in their window\<close>

lemma length_digits: "n < 10 ^ k \<Longrightarrow> 0 < k \<Longrightarrow> length (digits n) \<le> k"
proof (induction n arbitrary: k rule: digits.induct)
  case (1 n)
  show ?case
  proof (cases "n < 10")
    case False
    with "1.prems" obtain j where k: "k = Suc j" "0 < j" by (cases k; cases "k - 1") auto
    with "1.prems" have "n div 10 < 10 ^ j" by auto
    with "1.IH" [OF False] k False show ?thesis by (subst digits.simps) auto
  qed (use "1.prems" in \<open>simp add: digits.simps [of n]\<close>)
qed

lemma pad6:
  assumes "n < 1000000" shows "length (pad6 n) = 6" and "list_all is_digit (pad6 n)"
proof -
  have "length (digits n) \<le> 6" using assms by (intro length_digits) simp_all
  then show "length (pad6 n) = 6" by (simp add: pad6_def Let_def)
  show "list_all is_digit (pad6 n)"
    using is_digit_digits [of n] by (auto simp: pad6_def Let_def list_all_iff is_digit_def code_def)
qed

lemma totpCode_digits:
  assumes "is_ok (Base32Decode (ToUpper uc secret))"
  shows "length (totpCode uc secret c) = 6" and "list_all is_digit (totpCode uc secret c)"
proof -
  have "unat (v mod 1000000) < 1000000" for v :: w32
    by (simp add: unat_mod)
  with assms show "length (totpCode uc secret c) = 6" "list_all is_digit (totpCode uc secret c)"
    by (auto simp: totpCode_def is_ok_iff Let_def intro!: pad6)
qed

lemma digits_solid: "list_all is_digit s \<Longrightarrow> solid s"
  by (auto simp: list_all_iff solid_def is_digit_def)

lemma runes_letters: "list_all b32_letter s \<Longrightarrow> ascii s"
  by (induction s) (auto simp: b32_letter_def b32val_def Let_def split: if_splits)

lemma ToUpper_letters:
  assumes "list_all b32_letter s" shows "ToUpper uc s = s" and "ToUpper uc (ToLower uc s) = s"
proof -
  have up: "EncodeRune (rune_upper uc (code c)) = [c]" "EncodeRune (rune_upper uc (code (lower_char c))) = [c]"
    if "b32_letter c" for c
    using that by (auto simp: b32_letter_def b32val_def Let_def rune_upper_def EncodeRune_def code_lower_char
        split: if_splits) (simp_all add: code_def)
  have asc: "ascii s" using assms by (rule runes_letters)
  show "ToUpper uc s = s"
    using assms asc by (induction s) (simp_all add: ToUpper_def runes_ascii up)
  show "ToUpper uc (ToLower uc s) = s"
    unfolding ToLower_ascii [OF asc] ToUpper_def runes_ascii [OF ascii_map_lower [OF asc]]
    using assms by (induction s) (simp_all add: up)
qed

lemma NewTOTPSecret_letters:
  assumes "NewTOTPSecret rnd = Inr secret"
  shows "\<exists>key. secret = Base32 key" and "list_all b32_letter secret"
proof -
  obtain raw where s: "secret = rev (dropWhile (\<lambda>c. c = CHR ''='') (rev (Base32 (take 20 (raw @ replicate 20 0)))))"
    using assms by (auto simp: NewTOTPSecret_def split: option.splits)
  have id: "CHR ''='' \<notin> set xs \<Longrightarrow> dropWhile (\<lambda>c. c = CHR ''='') xs = xs" for xs
    by (cases xs) auto
  have "dropWhile (\<lambda>c. c = CHR ''='') (rev (Base32 bs)) = rev (Base32 bs)" for bs
    by (rule id, simp, rule base32.no_letter) (simp add: b32_letter_def b32val_def code_def)
  with s show "\<exists>key. secret = Base32 key" by auto
  then show "list_all b32_letter secret" by (auto simp: list_all_iff intro: b32_letters)
qed

text \<open>
  With a secret the program has issued, a code is accepted exactly when, spaces aside, it is the
  code of the current step of thirty seconds, the one before or the one after; so a code is accepted
  for at least thirty seconds before and after it was computed.  Every code has six digits, and
  a secret typed in lower case gives the same codes.
\<close>

theorem totp_window:
  assumes "NewTOTPSecret rnd = Inr secret" and "0 \<le> Unix now"
  shows "(VerifyTOTP uc secret entered now \<longleftrightarrow>
      (\<exists>c. \<bar>c - Unix now div 30\<bar> \<le> 1 \<and> TrimSpace (filter (\<lambda>c. c \<noteq> CHR '' '') entered) = totpCode uc secret c)) \<and>
    (0 \<le> Unix t \<and> \<bar>Unix now - Unix t\<bar> \<le> 30 \<longrightarrow> VerifyTOTP uc secret (totpCode uc secret (Unix t div 30)) now) \<and>
    length (totpCode uc secret c) = 6 \<and> list_all is_digit (totpCode uc secret c) \<and>
    totpCode uc (ToLower uc secret) c = totpCode uc secret c"
proof -
  note letters = NewTOTPSecret_letters(2) [OF assms(1)]
  have "is_ok (Base32Decode (ToUpper uc secret))"
    using NewTOTPSecret_letters [OF assms(1)] by (auto simp: ToUpper_letters base32.round_trip)
  note code = totpCode_digits [OF this]
  have window: "(\<exists>c. \<bar>c - k\<bar> \<le> 1 \<and> P c) \<longleftrightarrow> P (k - 1) \<or> P k \<or> P (k + 1)" for k and P :: "int \<Rightarrow> bool"
  proof -
    have "\<bar>c - k\<bar> \<le> 1 \<longleftrightarrow> c = k - 1 \<or> c = k \<or> c = k + 1" for c by arith
    then show ?thesis by auto
  qed
  have exact: "VerifyTOTP uc secret e now \<longleftrightarrow>
      (\<exists>c. \<bar>c - Unix now div 30\<bar> \<le> 1 \<and> TrimSpace (filter (\<lambda>c. c \<noteq> CHR '' '') e) = totpCode uc secret c)" for e
    using assms(2) code(1) by (auto simp: VerifyTOTP_def Let_def window quot_def sgn_if)
  have "TrimSpace (filter (\<lambda>c. c \<noteq> CHR '' '') (totpCode uc secret c)) = totpCode uc secret c" for c
  proof -
    have "filter (\<lambda>c. c \<noteq> CHR '' '') (totpCode uc secret c) = totpCode uc secret c"
      using code(2) [of c] by (auto simp: filter_id_conv list_all_iff is_digit_def code_def)
    then show ?thesis by (simp add: TrimSpace_solid digits_solid code(2))
  qed
  moreover have "\<bar>Unix t div 30 - Unix now div 30\<bar> \<le> 1" if "0 \<le> Unix t" "\<bar>Unix now - Unix t\<bar> \<le> 30"
    using that assms(2) by linarith
  ultimately have "VerifyTOTP uc secret (totpCode uc secret (Unix t div 30)) now"
    if "0 \<le> Unix t" "\<bar>Unix now - Unix t\<bar> \<le> 30"
    using that unfolding exact by blast
  moreover have "totpCode uc (ToLower uc secret) c = totpCode uc secret c"
    by (simp add: totpCode_def ToUpper_letters [OF letters])
  ultimately show ?thesis using exact code by blast
qed

lemma totp_window_witness:
  "VerifyTOTP plain_unicode ''AAAQEAYEAUDAOCAJBIFQYDIOB4IBCEQT''
    (totpCode plain_unicode ''AAAQEAYEAUDAOCAJBIFQYDIOB4IBCEQT'' (1700000000 div 30)) ((1700000025 + 62135596800) * 1000000000)"
proof -
  let ?now = "(1700000025 + 62135596800) * 1000000000" and ?t = "(1700000000 + 62135596800) * 1000000000"
  have s: "NewTOTPSecret (Some [0, 1, 2, 3, 4, 5, 6, 7, 8, 9, 10, 11, 12, 13, 14, 15, 16, 17, 18, 19]) =
      Inr ''AAAQEAYEAUDAOCAJBIFQYDIOB4IBCEQT''" by code_simp
  have u: "Unix ?now = 1700000025" "Unix ?t = 1700000000" by (simp_all add: Unix_def)
  have "0 \<le> Unix ?now" "0 \<le> Unix ?t \<and> \<bar>Unix ?now - Unix ?t\<bar> \<le> 30" unfolding u by simp_all
  with totp_window [OF s, of ?now plain_unicode "[]" ?t 0] show ?thesis unfolding u by blast
qed

end
