(* ===== verification/Wire.thy ===== *)
theory Wire
  imports GoCrypto
begin

text \<open>
  The package \<^verbatim>\<open>limbo/internal/protocol/wire\<close>: the byte formats of the Minecraft protocol.  A
  reader takes the bytes still unread and returns a value with the bytes left after it, or an
  error; a writer returns the bytes it appends.  The source's writers only fail when the
  underlying \<^verbatim>\<open>io.Writer\<close> does, which is outside the model.  Values have the width they have in
  Go, as words: \<^verbatim>\<open>int32\<close> is \<open>32 word\<close> read with \<open>sint\<close>; a float is its IEEE 754 bit pattern.

  The locale \<open>codec\<close> is the contract of a format: reading what was written gives the value
  back and leaves the following bytes alone.  Every format of the package interprets it.
\<close>

type_synonym 'a reader = "byte list \<Rightarrow> ('a \<times> byte list) result"

text \<open>\<^verbatim>\<open>io.ReadFull\<close> of \<open>n\<close> bytes.\<close>

definition ReadFull :: "nat \<Rightarrow> byte list reader" where
  "ReadFull n bs = (if length bs < n then Inl (ErrLib ''EOF'') else Inr (take n bs, drop n bs))"

fun read_many :: "nat \<Rightarrow> 'a reader \<Rightarrow> 'a list reader" where
  "read_many 0 dec bs = Inr ([], bs)"
| "read_many (Suc n) dec bs =
     (case dec bs of Inl e \<Rightarrow> Inl e
      | Inr (x, bs') \<Rightarrow>
          case read_many n dec bs' of Inl e \<Rightarrow> Inl e | Inr (xs, bs'') \<Rightarrow> Inr (x # xs, bs''))"

locale codec =
  fixes enc :: "'a \<Rightarrow> byte list"
    and dec :: "'a reader"
    and ok :: "'a \<Rightarrow> bool"
  assumes dec_enc: "ok x \<Longrightarrow> dec (enc x @ rest) = Inr (x, rest)"
begin

lemma dec_enc_exact: "ok x \<Longrightarrow> dec (enc x) = Inr (x, [])"
  using dec_enc [of x "[]"] by simp

lemma enc_prefix_free: "ok x \<Longrightarrow> ok y \<Longrightarrow> enc x @ r = enc y @ r' \<Longrightarrow> x = y \<and> r = r'"
  by (metis dec_enc prod.inject sum.inject(2))

lemma read_many_enc:
  "list_all ok xs \<Longrightarrow> read_many (length xs) dec (concat (map enc xs) @ rest) = Inr (xs, rest)"
  by (induction xs) (simp_all add: dec_enc)

end

subsection \<open>Fixed-width numbers\<close>

definition be_val :: "byte list \<Rightarrow> nat" where
  "be_val bs = foldl (\<lambda>a b. a * 256 + unat b) 0 bs"

lemma be_bytes_Suc: "be_bytes (Suc k) n = be_bytes k (n div 256) @ [of_nat n]"
proof -
  have "(n div 256) div 256 ^ (k - 1 - i) = n div 256 ^ (k - i)" if "i < k" for i
    using that by (simp add: div_mult2_eq [symmetric] power_Suc [symmetric] Suc_diff_Suc del: power_Suc)
  then show ?thesis by (simp add: be_bytes_def)
qed

lemma be_val_be_bytes: "be_val (be_bytes k n) = n mod 256 ^ k"
proof (induction k arbitrary: n)
  case 0
  show ?case by (simp add: be_bytes_def be_val_def)
next
  case (Suc k)
  have "be_val (be_bytes (Suc k) n) = be_val (be_bytes k (n div 256)) * 256 + n mod 256"
    by (simp add: be_bytes_Suc be_val_def unat_of_nat)
  also have "\<dots> = n mod 256 ^ Suc k"
    unfolding Suc.IH by (simp add: mod_mult2_eq algebra_simps)
  finally show ?case .
qed

definition WriteByte :: "byte \<Rightarrow> byte list" where "WriteByte b = [b]"
definition WriteBool :: "bool \<Rightarrow> byte list" where "WriteBool v = (if v then WriteByte 1 else WriteByte 0)"
definition WriteShort :: "16 word \<Rightarrow> byte list" where "WriteShort v = be_bytes 2 (unat v)"
definition WriteUnsignedShort :: "16 word \<Rightarrow> byte list" where "WriteUnsignedShort v = be_bytes 2 (unat v)"
definition WriteInt :: "32 word \<Rightarrow> byte list" where "WriteInt v = be_bytes 4 (unat v)"
definition WriteFloat :: "32 word \<Rightarrow> byte list" where "WriteFloat bits = be_bytes 4 (unat bits)"
definition WriteDouble :: "64 word \<Rightarrow> byte list" where "WriteDouble bits = be_bytes 8 (unat bits)"
definition WriteLong :: "64 word \<Rightarrow> byte list" where "WriteLong v = be_bytes 8 (unat v)"

definition ReadUnsignedShort :: "16 word reader" where
  "ReadUnsignedShort bs =
     (case ReadFull 2 bs of Inl e \<Rightarrow> Inl e | Inr (buf, rest) \<Rightarrow> Inr (of_nat (be_val buf), rest))"

definition ReadLong :: "64 word reader" where
  "ReadLong bs =
     (case ReadFull 8 bs of Inl e \<Rightarrow> Inl e | Inr (buf, rest) \<Rightarrow> Inr (of_nat (be_val buf), rest))"

text \<open>The packed block position: 26 bits of x, 26 of z, 12 of y.\<close>

definition pack_position :: "32 word \<Rightarrow> 32 word \<Rightarrow> 32 word \<Rightarrow> 64 word" where
  "pack_position x y z =
     push_bit 38 (ucast (x AND 0x3ffffff)) OR push_bit 12 (ucast (z AND 0x3ffffff)) OR ucast (y AND 0xfff)"

definition WritePosition :: "32 word \<Rightarrow> 32 word \<Rightarrow> 32 word \<Rightarrow> byte list" where
  "WritePosition x y z = WriteLong (pack_position x y z)"

lemma ReadFull_append [simp]: "length buf = n \<Longrightarrow> ReadFull n (buf @ rest) = Inr (buf, rest)"
  by (simp add: ReadFull_def)

lemma unat_16_lt: "unat (v :: 16 word) < 65536"
  by (rule order_less_le_trans [OF unsigned_less]) simp

lemma unat_64_lt: "unat (v :: 64 word) < 256 ^ 8"
  by (rule order_less_le_trans [OF unsigned_less]) simp

interpretation short_codec: codec WriteUnsignedShort ReadUnsignedShort "\<lambda>_. True"
  by unfold_locales
    (simp add: ReadUnsignedShort_def WriteUnsignedShort_def be_val_be_bytes unat_16_lt)

interpretation long_codec: codec WriteLong ReadLong "\<lambda>_. True"
  by unfold_locales
    (use unat_64_lt in \<open>simp add: ReadLong_def WriteLong_def be_val_be_bytes\<close>)

text \<open>A coordinate in its signed range is recovered by sign extension of its field.\<close>

lemma position_fields:
  "ucast (pack_position x y z) AND (0xfff :: 32 word) = y AND 0xfff"
  "ucast (drop_bit 12 (pack_position x y z)) AND (0x3ffffff :: 32 word) = z AND 0x3ffffff"
  "ucast (drop_bit 38 (pack_position x y z)) AND (0x3ffffff :: 32 word) = x AND 0x3ffffff"
proof -
  have m: "(0x3ffffff :: 32 word) = mask 26" "(0xfff :: 32 word) = mask 12"
    by (simp_all add: mask_eq_exp_minus_1)
  show "ucast (pack_position x y z) AND (0xfff :: 32 word) = y AND 0xfff"
    unfolding pack_position_def m by (rule bit_word_eqI) (auto simp: bit_simps)
  show "ucast (drop_bit 12 (pack_position x y z)) AND (0x3ffffff :: 32 word) = z AND 0x3ffffff"
    unfolding pack_position_def m by (rule bit_word_eqI) (auto simp: bit_simps)
  show "ucast (drop_bit 38 (pack_position x y z)) AND (0x3ffffff :: 32 word) = x AND 0x3ffffff"
    unfolding pack_position_def m by (rule bit_word_eqI) (auto simp: bit_simps)
qed

subsection \<open>VarInts\<close>

abbreviation (input) MaxVarIntBytes :: nat where "MaxVarIntBytes \<equiv> 5"

function ReadVarIntLoop :: "nat \<Rightarrow> 32 word \<Rightarrow> (32 word) reader" where
  "ReadVarIntLoop shift v bs =
     (if shift < 35 then
        (case bs of [] \<Rightarrow> Inl (ErrLib ''EOF'')
         | b # bs' \<Rightarrow>
             let v' = v OR push_bit shift (ucast (b AND 0x7f)) in
             if b AND 0x80 = 0 then Inr (v', bs') else ReadVarIntLoop (shift + 7) v' bs')
      else Inl (Err ''minecraft varint exceeds 5 bytes''))"
  by pat_completeness auto
termination
  by (relation "measure (\<lambda>(shift, v, bs). 35 - shift)") auto

declare ReadVarIntLoop.simps [simp del]

definition ReadVarInt :: "(32 word) reader" where
  "ReadVarInt bs = ReadVarIntLoop 0 0 bs"

lemma high_bits: "u AND NOT 0x7f = 0 \<longleftrightarrow> unat (u :: 32 word) < 128"
proof -
  have m: "(0x7f :: 32 word) = mask 7" by (simp add: mask_eq_exp_minus_1)
  have "u AND NOT 0x7f = 0 \<longleftrightarrow> take_bit 7 u = u"
    unfolding m by (auto simp: bit_eq_iff bit_simps)
  also have "\<dots> \<longleftrightarrow> unat u < 2 ^ 7"
    by (simp add: word_unat_eq_iff unsigned_take_bit_eq take_bit_nat_eq_self_iff)
  finally show ?thesis by simp
qed

lemma high_bits_num: "u AND - 128 = 0 \<longleftrightarrow> unat (u :: 32 word) < 128"
  using high_bits [of u] by simp

lemma unat_drop_bit_7: "unat (drop_bit 7 (u :: 32 word)) = unat u div 128"
  by (simp add: drop_bit_eq_div unat_div)

lemma drop_bit_7_less: "u AND NOT 0x7f \<noteq> 0 \<Longrightarrow> unat (drop_bit 7 (u :: 32 word)) < unat u"
  by (simp add: high_bits_num unat_drop_bit_7)

function WriteVarInt :: "32 word \<Rightarrow> byte list" where
  "WriteVarInt u =
     (if u AND NOT 0x7f = 0 then [ucast u]
      else ucast (u AND 0x7f OR 0x80) # WriteVarInt (drop_bit 7 u))"
  by pat_completeness auto
termination
  by (relation "measure unat") (simp_all add: drop_bit_7_less)

declare WriteVarInt.simps [simp del]

fun VarIntLenLoop :: "nat \<Rightarrow> nat \<Rightarrow> 32 word \<Rightarrow> nat" where
  "VarIntLenLoop 0 i u = MaxVarIntBytes"
| "VarIntLenLoop (Suc n) i u = (if u AND NOT 0x7f = 0 then i else VarIntLenLoop n (i + 1) (drop_bit 7 u))"

definition VarIntLen :: "32 word \<Rightarrow> nat" where
  "VarIntLen u = VarIntLenLoop (MaxVarIntBytes - 1) 1 u"

lemma bit_128: "bit (128 :: nat) n \<longleftrightarrow> n = 7" "bit (128 :: int) n \<longleftrightarrow> n = 7"
proof -
  have "(128 :: nat) = 2 ^ 7" "(128 :: int) = 2 ^ 7" by simp_all
  then show "bit (128 :: nat) n \<longleftrightarrow> n = 7" "bit (128 :: int) n \<longleftrightarrow> n = 7"
    by (simp_all only: bit_exp_iff) auto
qed

lemma last_byte:
  assumes "u AND NOT 0x7f = (0 :: 32 word)"
  shows "(ucast u :: byte) AND 0x80 = 0" and "ucast ((ucast u :: byte) AND 0x7f) = u"
proof -
  have m: "(0x7f :: byte) = mask 7" "(0x80 :: byte) = push_bit 7 1" "(0x7f :: 32 word) = mask 7"
    by (simp_all add: mask_eq_exp_minus_1)
  have b: "\<not> bit u n" if "7 \<le> n" for n
  proof
    assume "bit u n"
    moreover from this have "n < 32" using bit_imp_le_length by force
    moreover have "\<forall>n<32. bit u n \<longrightarrow> n < 7"
      using assms unfolding m by (simp add: bit_eq_iff bit_simps)
    ultimately show False using that by auto
  qed
  show "(ucast u :: byte) AND 0x80 = 0"
    unfolding m by (rule bit_word_eqI) (auto simp: bit_simps b bit_128)
  show "ucast ((ucast u :: byte) AND 0x7f) = u"
    unfolding m using b by (intro bit_word_eqI) (auto simp: bit_simps not_le [symmetric])
qed

lemma mid_byte:
  "(ucast ((u :: 32 word) AND 0x7f OR 0x80) :: byte) AND 0x80 \<noteq> 0"
  "ucast ((ucast ((u :: 32 word) AND 0x7f OR 0x80) :: byte) AND 0x7f) = u AND 0x7f"
proof -
  have m: "(0x7f :: byte) = mask 7" "(0x80 :: byte) = push_bit 7 1"
    "(0x7f :: 32 word) = mask 7"
    by (simp_all add: mask_eq_exp_minus_1)
  have "bit ((ucast (u AND 0x7f OR 0x80) :: byte) AND 0x80) 7"
    unfolding m by (simp add: bit_simps bit_128)
  then show "(ucast (u AND 0x7f OR 0x80) :: byte) AND 0x80 \<noteq> 0" by auto
  show "ucast ((ucast (u AND 0x7f OR 0x80) :: byte) AND 0x7f) = u AND 0x7f"
    unfolding m by (rule bit_word_eqI) (auto simp: bit_simps bit_128)
qed

lemma accumulate_bits:
  "((v :: 32 word) OR push_bit s (u AND 0x7f)) OR push_bit (s + 7) (drop_bit 7 u) = v OR push_bit s u"
proof -
  have m: "(0x7f :: 32 word) = mask 7" by (simp add: mask_eq_exp_minus_1)
  have *: "7 + (n - (s + 7)) = n - s" if "s + 7 \<le> n" for n
    using that by arith
  have "bit (push_bit s (u AND mask 7) OR push_bit (s + 7) (drop_bit 7 u)) n = bit (push_bit s u) n" for n
  proof (cases "s + 7 \<le> n")
    case True
    then have "s \<le> n" "\<not> n - s < 7" by arith+
    with True show ?thesis by (simp add: bit_simps *)
  next
    case False
    then have "s \<le> n \<Longrightarrow> n - s < 7" by arith
    with False show ?thesis by (auto simp: bit_simps)
  qed
  then have "push_bit s (u AND mask 7) OR push_bit (s + 7) (drop_bit 7 u) = push_bit s u"
    by (rule bit_eqI)
  then show ?thesis unfolding m by (simp only: or.assoc)
qed

lemma ReadVarIntLoop_WriteVarInt:
  "unat u < 2 ^ (35 - shift) \<Longrightarrow> shift < 35 \<Longrightarrow>
   ReadVarIntLoop shift v (WriteVarInt u @ rest) = Inr (v OR push_bit shift u, rest)"
proof (induction u arbitrary: shift v rule: WriteVarInt.induct)
  case (1 u)
  show ?case
  proof (cases "u AND NOT 0x7f = 0")
    case True
    with "1.prems" show ?thesis
      using last_byte [OF True]
      by (subst WriteVarInt.simps, subst ReadVarIntLoop.simps) (simp add: Let_def)
  next
    case False
    then have u: "128 \<le> unat u" unfolding high_bits by simp
    have "shift + 7 < 35"
    proof (rule ccontr)
      assume "\<not> shift + 7 < 35"
      then have "(2::nat) ^ (35 - shift) \<le> 2 ^ 7" by (intro power_increasing) auto
      with u "1.prems" show False by simp
    qed
    moreover from this have "(2::nat) ^ (35 - shift) = 2 ^ (35 - (shift + 7)) * 128"
    proof -
      have "35 - shift = (35 - (shift + 7)) + 7" using \<open>shift + 7 < 35\<close> by arith
      then show ?thesis by (simp only: power_add) simp
    qed
    with "1.prems" have "unat (drop_bit 7 u) < 2 ^ (35 - (shift + 7))"
      by (simp add: unat_drop_bit_7 less_mult_imp_div_less)
    ultimately have "ReadVarIntLoop (shift + 7) v' (WriteVarInt (drop_bit 7 u) @ rest) =
        Inr (v' OR push_bit (shift + 7) (drop_bit 7 u), rest)" for v'
      by (intro "1.IH" [OF False])
    with False "1.prems" mid_byte [of u] show ?thesis
      by (subst WriteVarInt.simps, subst ReadVarIntLoop.simps)
        (simp add: Let_def accumulate_bits del: push_bit_and)
  qed
qed

lemma ReadVarInt_WriteVarInt: "ReadVarInt (WriteVarInt u @ rest) = Inr (u, rest)"
proof -
  have "unat u < 2 ^ 35"
    by (rule order_less_le_trans [OF unsigned_less]) simp
  then show ?thesis
    by (simp add: ReadVarInt_def ReadVarIntLoop_WriteVarInt)
qed

interpretation varint_codec: codec WriteVarInt ReadVarInt "\<lambda>_. True"
  by unfold_locales (rule ReadVarInt_WriteVarInt)

lemma VarIntLenLoop_WriteVarInt:
  "unat u < 128 ^ Suc n \<Longrightarrow> 0 < i \<Longrightarrow> i + n = MaxVarIntBytes \<Longrightarrow> VarIntLenLoop n i u = i - 1 + length (WriteVarInt u)"
proof (induction n arbitrary: i u)
  case 0
  then show ?case
    by (subst WriteVarInt.simps) (simp add: high_bits_num)
next
  case (Suc n)
  then have "unat (drop_bit 7 u) < 128 ^ Suc n"
    by (simp add: unat_drop_bit_7 less_mult_imp_div_less)
  moreover have "0 < length (WriteVarInt w)" for w
    by (subst WriteVarInt.simps) simp
  moreover have "n < 5" using Suc.prems by simp
  ultimately show ?case
    using Suc.IH [of "drop_bit 7 u" "i + 1"] Suc.prems(2,3)
    by (subst WriteVarInt.simps) (auto simp: high_bits_num)
qed

lemma VarIntLen_WriteVarInt: "VarIntLen u = length (WriteVarInt u)"
proof -
  have "unat u < 128 ^ 5"
    by (rule order_less_le_trans [OF unsigned_less]) simp
  then show ?thesis
    by (simp add: VarIntLen_def VarIntLenLoop_WriteVarInt)
qed

lemma VarIntLenLoop_bounds: "1 \<le> i \<Longrightarrow> i + n \<le> 5 \<Longrightarrow> 1 \<le> VarIntLenLoop n i u \<and> VarIntLenLoop n i u \<le> 5"
  by (induction n i u rule: VarIntLenLoop.induct) auto

lemma length_WriteVarInt: "1 \<le> length (WriteVarInt u) \<and> length (WriteVarInt u) \<le> 5"
  unfolding VarIntLen_WriteVarInt [symmetric] VarIntLen_def
  by (rule VarIntLenLoop_bounds) simp_all

subsection \<open>Packets\<close>

record packet =
  pk_ID :: "32 word"
  pk_Data :: "byte list"

definition packet_limit :: "32 word \<Rightarrow> int" where
  "packet_limit maxSize = (if sint maxSize \<le> 0 then 2097152 else sint maxSize)"

definition ReadPacket :: "32 word \<Rightarrow> packet reader" where
  "ReadPacket maxSize bs =
     (let maxSize = packet_limit maxSize in
      case ReadVarInt bs of Inl e \<Rightarrow> Inl e
      | Inr (len, bs') \<Rightarrow>
          if sint len < 0 \<or> maxSize < sint len then Inl (Err ''minecraft packet length outside limit'')
          else
            (case ReadFull (nat (sint len)) bs' of Inl e \<Rightarrow> Inl e
             | Inr (frame, rest) \<Rightarrow>
                 (case ReadVarInt frame of Inl e \<Rightarrow> Inl e
                  | Inr (ident, body) \<Rightarrow> Inr (\<lparr>pk_ID = ident, pk_Data = body\<rparr>, rest))))"

definition WritePacket :: "packet \<Rightarrow> byte list" where
  "WritePacket p =
     (let body = WriteVarInt (pk_ID p) @ pk_Data p in
      WriteVarInt (of_nat (length body)) @ body)"

definition packet_fits :: "32 word \<Rightarrow> packet \<Rightarrow> bool" where
  "packet_fits maxSize p \<longleftrightarrow> int (VarIntLen (pk_ID p) + length (pk_Data p)) \<le> packet_limit maxSize"

lemma sint_32_lt: "sint (w :: 32 word) < 2 ^ 31"
  using sint_lt [of w] by simp

lemma sint_of_nat_32: "n < 2 ^ 31 \<Longrightarrow> sint (of_nat n :: 32 word) = int n"
  by (simp add: signed_of_nat signed_take_bit_int_eq_self)

lemma packet_limit_less: "packet_limit maxSize < 2 ^ 31"
  using sint_32_lt [of maxSize] by (simp add: packet_limit_def)

interpretation packet_codec: codec WritePacket "ReadPacket maxSize" "packet_fits maxSize"
proof
  fix p rest
  assume fits: "packet_fits maxSize p"
  define body where "body = WriteVarInt (pk_ID p) @ pk_Data p"
  from fits have len: "int (length body) \<le> packet_limit maxSize"
    by (simp add: packet_fits_def body_def VarIntLen_WriteVarInt)
  with packet_limit_less [of maxSize] have "sint (of_nat (length body) :: 32 word) = int (length body)"
    by (intro sint_of_nat_32) simp
  moreover have "ReadVarInt body = Inr (pk_ID p, pk_Data p)"
    unfolding body_def by (rule ReadVarInt_WriteVarInt)
  ultimately show "ReadPacket maxSize (WritePacket p @ rest) = Inr (p, rest)"
    using len
    by (simp add: ReadPacket_def WritePacket_def Let_def ReadVarInt_WriteVarInt flip: body_def)
qed

subsection \<open>Strings\<close>

definition ReadString :: "32 word \<Rightarrow> string reader" where
  "ReadString maxChars bs =
     (case ReadVarInt bs of Inl e \<Rightarrow> Inl e
      | Inr (len, bs') \<Rightarrow>
          if sint len < 0 \<or> sint (maxChars * 4) < sint len then Inl (Err ''minecraft string byte length outside limit'')
          else
            (case ReadFull (nat (sint len)) bs' of Inl e \<Rightarrow> Inl e
             | Inr (buf, rest) \<Rightarrow> Inr (string_of buf, rest)))"

definition WriteString :: "string \<Rightarrow> byte list" where
  "WriteString value = WriteVarInt (of_nat (length value)) @ bytes_of value"

definition string_fits :: "32 word \<Rightarrow> string \<Rightarrow> bool" where
  "string_fits maxChars s \<longleftrightarrow> int (length s) \<le> sint (maxChars * 4)"

interpretation string_codec: codec WriteString "ReadString maxChars" "string_fits maxChars"
proof
  fix s rest
  assume fits: "string_fits maxChars s"
  then have "sint (of_nat (length s) :: 32 word) = int (length s)"
    using sint_32_lt [of "maxChars * 4"] by (intro sint_of_nat_32) (simp add: string_fits_def)
  with fits show "ReadString maxChars (WriteString s @ rest) = Inr (s, rest)"
    by (simp add: ReadString_def WriteString_def ReadVarInt_WriteVarInt string_fits_def)
qed
subsection \<open>Properties\<close>

text \<open>
  A stream of VarInts is read back as it was written, each takes the number of bytes
  computed for it in advance, and the whole at most five bytes per value.
\<close>

theorem varint_stream_roundtrip:
  "read_many (length us) ReadVarInt (concat (map WriteVarInt us) @ rest) = Inr (us, rest) \<and>
   length (concat (map WriteVarInt us)) = sum_list (map VarIntLen us) \<and>
   length us \<le> length (concat (map WriteVarInt us)) \<and>
   length (concat (map WriteVarInt us)) \<le> 5 * length us"
proof -
  have "length us \<le> length (concat (map WriteVarInt us)) \<and> length (concat (map WriteVarInt us)) \<le> 5 * length us"
  proof (induction us)
    case (Cons u us)
    with length_WriteVarInt [of u] show ?case by simp
  qed simp
  moreover have "read_many (length us) ReadVarInt (concat (map WriteVarInt us) @ rest) = Inr (us, rest)"
    by (rule varint_codec.read_many_enc) (simp add: list_all_iff)
  moreover have "VarIntLen = (\<lambda>u. length (WriteVarInt u))" by (rule ext) (rule VarIntLen_WriteVarInt)
  ultimately show ?thesis by (simp add: length_concat comp_def)
qed

text \<open>
  C33: Packets within the size limit, written one after another, are read back as they were, and
  no other bytes are consumed.
\<close>

theorem packet_stream_roundtrip:
  assumes "list_all (packet_fits maxSize) ps"
  shows "read_many (length ps) (ReadPacket maxSize) (concat (map WritePacket ps) @ rest) = Inr (ps, rest)"
  using assms by (rule packet_codec.read_many_enc)

lemma packet_stream_roundtrip_witness:
  "read_many 2 (ReadPacket 0) (concat (map WritePacket [\<lparr>pk_ID = 0, pk_Data = [1, 2]\<rparr>, \<lparr>pk_ID = 300, pk_Data = []\<rparr>]) @ [7]) =
   Inr ([\<lparr>pk_ID = 0, pk_Data = [1, 2]\<rparr>, \<lparr>pk_ID = 300, pk_Data = []\<rparr>], [7])"
proof -
  have "list_all (packet_fits 0) [\<lparr>pk_ID = 0, pk_Data = [1, 2]\<rparr>, \<lparr>pk_ID = 300, pk_Data = []\<rparr>]" by code_simp
  from packet_stream_roundtrip [OF this, of "[7]"] show ?thesis by (simp add: numeral_2_eq_2)
qed

text \<open>
  A packet longer than the limit is refused before its body is read.
\<close>

theorem ReadPacket_oversized:
  assumes "\<not> packet_fits maxSize p" and "VarIntLen (pk_ID p) + length (pk_Data p) < 2 ^ 31"
  shows "ReadPacket maxSize (WritePacket p @ rest) = Inl (Err ''minecraft packet length outside limit'')"
proof -
  define body where "body = WriteVarInt (pk_ID p) @ pk_Data p"
  have "sint (of_nat (length body) :: 32 word) = int (length body)"
    using assms(2) by (intro sint_of_nat_32) (simp add: body_def VarIntLen_WriteVarInt)
  with assms(1) show ?thesis
    by (simp add: ReadPacket_def WritePacket_def Let_def ReadVarInt_WriteVarInt packet_fits_def VarIntLen_WriteVarInt
        body_def)
qed

lemma ReadPacket_oversized_witness:
  "ReadPacket 2 (WritePacket \<lparr>pk_ID = 0, pk_Data = [1, 2]\<rparr> @ [7]) = Inl (Err ''minecraft packet length outside limit'')"
  by (rule ReadPacket_oversized) code_simp+

text \<open>
  C34: A string is read back as it was written when its bytes are within four times the character
  limit, and is refused otherwise.
\<close>

theorem ReadString_WriteString:
  assumes "length s < 2 ^ 31"
  shows "ReadString maxChars (WriteString s @ rest) =
    (if int (length s) \<le> sint (maxChars * 4) then Inr (s, rest)
     else Inl (Err ''minecraft string byte length outside limit''))"
proof (cases "string_fits maxChars s")
  case True
  from string_codec.dec_enc [OF this] True show ?thesis by (simp add: string_fits_def)
next
  case False
  with sint_of_nat_32 [OF assms] show ?thesis
    by (simp add: ReadString_def WriteString_def ReadVarInt_WriteVarInt string_fits_def)
qed

lemma ReadString_WriteString_witness: "ReadString 1 (WriteString ''abc'' @ [7]) = Inr (''abc'', [7])"
  using ReadString_WriteString [of "''abc''" 1 "[7]"] by simp

text \<open>
  The eight bytes of a position hold the low 26 bits of x and z and the low 12 bits of y, and
  nothing else: two positions are written alike exactly when these bits agree.
\<close>

theorem WritePosition_exact:
  "(WritePosition x y z = WritePosition x' y' z') =
   (x AND 0x3ffffff = x' AND 0x3ffffff \<and> y AND 0xfff = y' AND 0xfff \<and> z AND 0x3ffffff = z' AND 0x3ffffff)"
proof
  assume "WritePosition x y z = WritePosition x' y' z'"
  then have "pack_position x y z = pack_position x' y' z'"
    unfolding WritePosition_def using long_codec.enc_prefix_free [of "pack_position x y z" "[]" "pack_position x' y' z'" "[]"] by simp
  then show "x AND 0x3ffffff = x' AND 0x3ffffff \<and> y AND 0xfff = y' AND 0xfff \<and> z AND 0x3ffffff = z' AND 0x3ffffff"
    by (metis position_fields)
qed (simp add: WritePosition_def pack_position_def)

end
