(* ===== verification/Rbac.thy ===== *)
theory Rbac
  imports GoText
begin

text \<open>
  The package \<^verbatim>\<open>core/internal/rbac\<close>: the permission catalogue, the built-in roles, the
  normalisation of grants and the permission check.  The last part says what a grant means
  (\<open>grants\<close>) and proves the check equivalent to it, and normalisation harmless.
\<close>

datatype permission =
  Permission (pe_Key: string) (pe_Group: string) (pe_Label: string) (pe_Description: string)

record role =
  ro_ID :: string
  ro_Name :: string
  ro_Description :: string
  ro_Permissions :: "string list"
  ro_System :: bool
  ro_CreatedAt :: time
  ro_UpdatedAt :: time

definition Catalog :: "permission list" where
  "Catalog =
  [Permission ''admin.overview.read'' ''overview'' ''View overview''
     ''Read dashboard metrics and recent activity.'',
   Permission ''players.read'' ''players'' ''View players''
     ''Read player lists, identity details, sessions, and extension data.'',
   Permission ''players.lock'' ''players'' ''Lock players''
     ''Lock and unlock player accounts.'',
   Permission ''players.password.reset'' ''players'' ''Reset offline passwords''
     ''Generate or set replacement credentials for offline players.'',
   Permission ''players.portal_link.create'' ''players'' ''Create portal links''
     ''Generate one-time player portal login links.'',
   Permission ''nodes.read'' ''nodes'' ''View Authman nodes''
     ''Read registered login portal and downstream node heartbeats.'',
   Permission ''nodes.write'' ''nodes'' ''Manage Authman nodes''
     ''Create, disable, rotate, and revoke node credentials.'',
   Permission ''mojang.read'' ''mojang'' ''View Mojang upstream''
     ''Read Mojang route health, cache state, and proxy events.'',
   Permission ''mojang.write'' ''mojang'' ''Manage Mojang proxies''
     ''Create and delete HTTP/SOCKS5 Mojang upstream routes.'',
   Permission ''servers.read'' ''servers'' ''View downstream servers''
     ''Read downstream portal contexts and theme settings.'',
   Permission ''servers.write'' ''servers'' ''Manage downstream servers''
     ''Create, update, and delete downstream server portal contexts.'',
   Permission ''extensions.read'' ''extensions'' ''View extensions''
     ''Read extension schemas and player-visible data providers.'',
   Permission ''audit.read'' ''audit'' ''View audit log''
     ''Read central audit events across Authman.'',
   Permission ''settings.read'' ''settings'' ''View settings''
     ''Read administrator, role, system, and security settings.'',
   Permission ''admin.users.read'' ''settings'' ''View administrators''
     ''Read administrator identities and role assignments.'',
   Permission ''admin.users.write'' ''settings'' ''Manage administrators''
     ''Create and modify administrator identities and roles.'',
   Permission ''admin.users.security.write'' ''security'' ''Manage administrator MFA''
     ''Disable administrator TOTP and remove administrator passkeys.'',
   Permission ''admin.roles.read'' ''settings'' ''View roles''
     ''Read role definitions and permission grants.'',
   Permission ''admin.roles.write'' ''settings'' ''Manage roles''
     ''Modify editable role permission grants.'',
   Permission ''system.read'' ''settings'' ''View system summary''
     ''Read runtime version, database, and feature-flag status.'',
   Permission ''security.read'' ''security'' ''View security settings''
     ''Read email, SMTP, and multi-factor authentication settings.'',
   Permission ''security.write'' ''security'' ''Manage security settings''
     ''Modify email, SMTP, and multi-factor authentication settings.'',
   Permission ''external_api.read'' ''settings'' ''View external API tokens''
     ''Read player-panel API token metadata and usage statistics.'',
   Permission ''external_api.write'' ''settings'' ''Manage external API tokens''
     ''Create, disable, and revoke player-panel API tokens.'',
   Permission ''external_api.delete'' ''settings'' ''Delete external API tokens''
     ''Permanently delete revoked player-panel API token records.'']"

definition catalogKeys :: "string list" where
  "catalogKeys = map pe_Key Catalog"

definition DefaultRoles :: "time \<Rightarrow> role list" where
  "DefaultRoles now =
   [\<lparr>ro_ID = ''owner'', ro_Name = ''Owner'',
     ro_Description = ''Full access to Authman. The bootstrap owner role is immutable.'',
     ro_Permissions = [''*''],
     ro_System = True, ro_CreatedAt = now, ro_UpdatedAt = now\<rparr>,
    \<lparr>ro_ID = ''admin'', ro_Name = ''Admin'',
     ro_Description = ''Operational access for day-to-day Authman administration.'',
     ro_Permissions =
      [''admin.overview.read'', ''players.read'', ''players.lock'',
       ''players.password.reset'', ''players.portal_link.create'', ''nodes.read'',
       ''nodes.write'', ''mojang.read'', ''mojang.write'',
       ''servers.read'', ''servers.write'', ''extensions.read'',
       ''audit.read'', ''settings.read'', ''admin.users.read'',
       ''admin.roles.read'', ''system.read'', ''security.read'',
       ''external_api.read'', ''external_api.write'', ''external_api.delete''],
     ro_System = False, ro_CreatedAt = now, ro_UpdatedAt = now\<rparr>,
    \<lparr>ro_ID = ''auditor'', ro_Name = ''Auditor'',
     ro_Description = ''Read-only access for operational review and audit.'',
     ro_Permissions =
      [''admin.overview.read'', ''players.read'', ''nodes.read'',
       ''mojang.read'', ''servers.read'', ''extensions.read'',
       ''audit.read'', ''settings.read'', ''admin.users.read'',
       ''admin.roles.read'', ''system.read'', ''security.read'',
       ''external_api.read''],
     ro_System = False, ro_CreatedAt = now, ro_UpdatedAt = now\<rparr>]"

definition DefaultRole :: "time \<Rightarrow> string \<Rightarrow> role option" where
  "DefaultRole now ident = List.find (\<lambda>r. ro_ID r = ident) (DefaultRoles now)"

text \<open>\<^verbatim>\<open>RoleID\<close> keeps the ASCII characters of role names; every kept rune is one byte.\<close>

definition role_rune :: "rune \<Rightarrow> bool" where
  "role_rune r \<longleftrightarrow> (code (CHR ''a'') \<le> r \<and> r \<le> code (CHR ''z'')) \<or>
     (code (CHR ''0'') \<le> r \<and> r \<le> code (CHR ''9'')) \<or>
     r = code (CHR ''.'') \<or> r = code (CHR ''_'') \<or> r = code (CHR ''-'')"

definition RoleID :: "unicode \<Rightarrow> string \<Rightarrow> string" where
  "RoleID uc input = concat (map EncodeRune (filter role_rune (runes (TrimSpace (ToLower uc input)))))"

fun NormalizePermissionsLoop :: "unicode \<Rightarrow> string list \<Rightarrow> string list \<Rightarrow> string list" where
  "NormalizePermissionsLoop uc out [] = out"
| "NormalizePermissionsLoop uc out (permission # input) =
     (let permission = clean uc permission in
      if permission = [] then NormalizePermissionsLoop uc out input
      else if permission \<noteq> ''*'' \<and> \<not> HasSuffix permission ''.*'' \<and> permission \<notin> set catalogKeys
      then NormalizePermissionsLoop uc out input
      else if permission \<in> set out then NormalizePermissionsLoop uc out input
      else NormalizePermissionsLoop uc (out @ [permission]) input)"

definition NormalizePermissions :: "unicode \<Rightarrow> string list \<Rightarrow> string list" where
  "NormalizePermissions uc input = sort (NormalizePermissionsLoop uc [] input)"

definition merge_role :: "unicode \<Rightarrow> (string, role) gomap \<Rightarrow> role \<Rightarrow> (string, role) gomap" where
  "merge_role uc byID r =
     (let r = (case gget byID (ro_ID r) of None \<Rightarrow> r
          | Some base \<Rightarrow>
              r\<lparr>ro_Name := (if ro_Name r = [] then ro_Name base else ro_Name r),
                ro_Description := (if ro_Description r = [] then ro_Description base else ro_Description r),
                ro_System := ro_System base\<rparr>);
          r = r\<lparr>ro_Permissions := NormalizePermissions uc (ro_Permissions r)\<rparr>
      in gput byID (ro_ID r) r)"

definition default_role_map :: "time \<Rightarrow> (string, role) gomap" where
  "default_role_map now = foldl (\<lambda>m r. gput m (ro_ID r) r) gempty (DefaultRoles now)"

definition MergeDefaultRoles :: "unicode \<Rightarrow> time \<Rightarrow> role list \<Rightarrow> role list" where
  "MergeDefaultRoles uc now stored =
     sort_by (\<lambda>a b. ro_ID a < ro_ID b) (gvals (foldl (merge_role uc) (default_role_map now) stored))"

fun HasPermissionLoop :: "unicode \<Rightarrow> string \<Rightarrow> string list \<Rightarrow> bool" where
  "HasPermissionLoop uc permission [] = False"
| "HasPermissionLoop uc permission (grant # rest) =
     (let grant = clean uc grant in
      if grant = ''*'' \<or> grant = permission then True
      else if HasSuffix grant ''.*'' \<and> HasPrefix permission (TrimSuffix grant ''.*'' @ ''.'') then True
      else HasPermissionLoop uc permission rest)"

definition HasPermission :: "unicode \<Rightarrow> string list \<Rightarrow> string \<Rightarrow> bool" where
  "HasPermission uc grants permission = HasPermissionLoop uc (clean uc permission) grants"

subsection \<open>What a grant means\<close>

definition grants :: "string \<Rightarrow> string \<Rightarrow> bool" where
  "grants g p \<longleftrightarrow> g = ''*'' \<or> g = p \<or> (\<exists>q r. g = q @ ''.*'' \<and> p = q @ ''.'' @ r)"

lemma wildcard_iff:
  "HasSuffix g ''.*'' \<and> HasPrefix p (TrimSuffix g ''.*'' @ ''.'') \<longleftrightarrow>
     (\<exists>q r. g = q @ ''.*'' \<and> p = q @ ''.'' @ r)"
proof
  assume "HasSuffix g ''.*'' \<and> HasPrefix p (TrimSuffix g ''.*'' @ ''.'')"
  then obtain q where "g = q @ ''.*''" and "HasPrefix p (TrimSuffix g ''.*'' @ ''.'')"
    by (auto simp: HasSuffix_append)
  then show "\<exists>q r. g = q @ ''.*'' \<and> p = q @ ''.'' @ r"
    by (auto simp: HasPrefix_append)
qed (auto simp: HasSuffix_append HasPrefix_append)

lemma HasPermissionLoop_Cons:
  "HasPermissionLoop uc p (g # gs) \<longleftrightarrow> grants (clean uc g) p \<or> HasPermissionLoop uc p gs"
  unfolding grants_def wildcard_iff [symmetric] by (simp add: Let_def) blast

lemma HasPermissionLoop_iff:
  "HasPermissionLoop uc p gs \<longleftrightarrow> (\<exists>g\<in>set gs. grants (clean uc g) p)"
  by (induction gs) (simp_all add: HasPermissionLoop_Cons del: HasPermissionLoop.simps(2))

lemma HasPermission_iff: "HasPermission uc gs p \<longleftrightarrow> (\<exists>g\<in>set gs. grants (clean uc g) (clean uc p))"
  by (simp add: HasPermission_def HasPermissionLoop_iff)

text \<open>A grant the normaliser keeps: everything, a wildcard, or a key of the catalogue.\<close>

definition admissible :: "string \<Rightarrow> bool" where
  "admissible g \<longleftrightarrow> g \<noteq> [] \<and> (g = ''*'' \<or> HasSuffix g ''.*'' \<or> g \<in> set catalogKeys)"

lemma NormalizePermissionsLoop_Cons:
  "NormalizePermissionsLoop uc out (p # input) =
     NormalizePermissionsLoop uc
       (if admissible (clean uc p) \<and> clean uc p \<notin> set out then out @ [clean uc p] else out) input"
  unfolding NormalizePermissionsLoop.simps Let_def admissible_def
  by (cases "clean uc p = []"; cases "clean uc p = ''*''"; cases "HasSuffix (clean uc p) ''.*''";
      cases "clean uc p \<in> set catalogKeys"; cases "clean uc p \<in> set out") simp_all

lemma set_NormalizePermissionsLoop:
  "set (NormalizePermissionsLoop uc out input) = set out \<union> {clean uc p |p. p \<in> set input \<and> admissible (clean uc p)}"
proof (induction input arbitrary: out)
  case (Cons p input)
  show ?case
    unfolding NormalizePermissionsLoop_Cons Cons.IH by auto
qed simp

lemma distinct_NormalizePermissionsLoop:
  "distinct out \<Longrightarrow> distinct (NormalizePermissionsLoop uc out input)"
proof (induction input arbitrary: out)
  case (Cons p input)
  show ?case
    unfolding NormalizePermissionsLoop_Cons by (rule Cons.IH) (use Cons.prems in auto)
qed simp

lemma set_NormalizePermissions:
  "set (NormalizePermissions uc input) = {clean uc p |p. p \<in> set input \<and> admissible (clean uc p)}"
  by (simp add: NormalizePermissions_def set_NormalizePermissionsLoop)

lemma NormalizePermissions_sorted:
  "sorted (NormalizePermissions uc input)" "distinct (NormalizePermissions uc input)"
  by (simp_all add: NormalizePermissions_def distinct_NormalizePermissionsLoop)
lemma catalogKeys_nonempty: "[] \<notin> set catalogKeys"
  by code_simp

text \<open>
  C28: A set of grants allows a permission exactly when one of them, up to case and surrounding
  space, is the star, the permission itself, or a wildcard over a prefix of it that ends at a dot.
\<close>

theorem HasPermission_exact:
  "HasPermission uc gs p = (\<exists>g\<in>set gs. clean uc g = ''*'' \<or> clean uc g = clean uc p \<or>
     (\<exists>q r. clean uc g = q @ ''.*'' \<and> clean uc p = q @ ''.'' @ r))"
  by (simp add: HasPermission_iff grants_def)

text \<open>
  Normalizing a role's permissions gives a sorted list without duplicates that grants exactly
  the permissions of the catalogue the role granted before.
\<close>

theorem NormalizePermissions_faithful:
  assumes "list_all ascii gs" and "clean uc p \<in> set catalogKeys"
  shows "HasPermission uc (NormalizePermissions uc gs) p = HasPermission uc gs p \<and>
    sorted (NormalizePermissions uc gs) \<and> distinct (NormalizePermissions uc gs) \<and>
    NormalizePermissions uc (NormalizePermissions uc gs) = NormalizePermissions uc gs"
proof (intro conjI)
  have idem: "clean uc (clean uc g) = clean uc g" if "g \<in> set gs" for g
    using assms(1) that by (intro clean_idem) (simp add: list_all_iff)
  have ne: "clean uc p \<noteq> []" using assms(2) catalogKeys_nonempty by metis
  have adm: "admissible (clean uc g)" if "grants (clean uc g) (clean uc p)" for g
    using that assms(2) ne unfolding grants_def admissible_def by (auto simp: HasSuffix_append)
  show "HasPermission uc (NormalizePermissions uc gs) p = HasPermission uc gs p"
    unfolding HasPermission_iff set_NormalizePermissions using idem adm by force
  show "sorted (NormalizePermissions uc gs)" "distinct (NormalizePermissions uc gs)"
    by (rule NormalizePermissions_sorted)+
  have "set (NormalizePermissions uc (NormalizePermissions uc gs)) = set (NormalizePermissions uc gs)"
    unfolding set_NormalizePermissions
  proof (intro set_eqI iffI)
    fix x assume "x \<in> {clean uc p |p. p \<in> {clean uc p |p. p \<in> set gs \<and> admissible (clean uc p)} \<and> admissible (clean uc p)}"
    then show "x \<in> {clean uc p |p. p \<in> set gs \<and> admissible (clean uc p)}" using idem by auto
  next
    fix x assume "x \<in> {clean uc p |p. p \<in> set gs \<and> admissible (clean uc p)}"
    then obtain g where "x = clean uc g" "g \<in> set gs" "admissible x" by blast
    moreover from this have "clean uc x = x" using idem by simp
    ultimately show "x \<in> {clean uc p |p. p \<in> {clean uc p |p. p \<in> set gs \<and> admissible (clean uc p)} \<and> admissible (clean uc p)}"
      by (intro CollectI exI [of _ x]) auto
  qed
  then show "NormalizePermissions uc (NormalizePermissions uc gs) = NormalizePermissions uc gs"
    by (intro sorted_distinct_set_unique NormalizePermissions_sorted)
qed

lemma NormalizePermissions_faithful_witness:
  "HasPermission plain_unicode (NormalizePermissions plain_unicode ['' Players.* '', ''bogus'']) ''players.read''"
proof -
  have "list_all ascii ['' Players.* '', ''bogus'']" "clean plain_unicode ''players.read'' \<in> set catalogKeys"
    "HasPermission plain_unicode ['' Players.* '', ''bogus''] ''players.read''"
    by code_simp+
  with NormalizePermissions_faithful [OF this(1,2)] show ?thesis by blast
qed

end
