(* ===== verification/MojangPool.thy ===== *)
theory MojangPool
  imports GoText
begin

text \<open>
  \<^verbatim>\<open>core/internal/mojang/routes.go\<close>: the pool of upstream routes, its weighted rotation, the
  cool-down of a failing route and the log of its last 100 events.  The transport is the
  HTTP client, outside the model: a function from routes to the error it returned, if any.
  The clock field \<^verbatim>\<open>Now\<close> of the pool is the argument \<open>now\<close>; \<^verbatim>\<open>Execute\<close> reads it once, and the
  events it records carry that reading.
\<close>

type_synonym RouteKind = string
type_synonym RouteState = string

abbreviation (input) RouteHealthy :: RouteState where "RouteHealthy \<equiv> ''healthy''"
abbreviation (input) RouteCoolingDown :: RouteState where "RouteCoolingDown \<equiv> ''cooling_down''"
abbreviation (input) RouteFailed :: RouteState where "RouteFailed \<equiv> ''failed''"
abbreviation (input) RouteDisabled :: RouteState where "RouteDisabled \<equiv> ''disabled''"

record Route =
  rt_ID :: string
  rt_Kind :: RouteKind
  rt_URL :: string
  rt_Weight :: int
  rt_Disabled :: bool
  rt_State :: RouteState
  rt_CooldownUntil :: time
  rt_RequestCount :: int
  rt_FailureCount :: int
  rt_RateLimitCount :: int
  rt_LastFailureError :: string

record MojangEvent =
  me_ID :: string
  me_ProxyID :: string
  me_EventType :: string
  me_RetryAfter :: duration
  me_Error :: string
  me_CreatedAt :: time

text \<open>
  What the pool asks of a transport error: its text, whether it wraps \<^verbatim>\<open>ErrRateLimited\<close>, and the
  \<^verbatim>\<open>RetryAfter\<close> of a \<^verbatim>\<open>RateLimitError\<close> in its chain.
\<close>

record transport_error =
  te_Error :: string
  te_RateLimited :: bool
  te_RetryAfter :: "duration option"

type_synonym transport = "Route \<Rightarrow> transport_error option"

record Pool =
  po_Routes :: "Route list"
  po_FailureCooldown :: duration
  po_cursor :: nat
  po_nextEventID :: nat
  po_events :: "MojangEvent list"

datatype exec_error = AllRoutesFailed "transport_error option" \<comment> \<open>\<open>None\<close>: no route was tried, \<^verbatim>\<open>ErrRouteUnavailable\<close>\<close>

definition update_route :: "nat \<Rightarrow> (Route \<Rightarrow> Route) \<Rightarrow> Pool \<Rightarrow> Pool" where
  "update_route i f p =
     (if i < length (po_Routes p) then p\<lparr>po_Routes := (po_Routes p)[i := f (po_Routes p ! i)]\<rparr> else p)"

definition route_weight :: "Route \<Rightarrow> nat" where
  "route_weight r = (if rt_Weight r \<le> 0 then 1 else nat (rt_Weight r))"

definition weighted_order :: "Route list \<Rightarrow> nat list" where
  "weighted_order rs = concat (map (\<lambda>i. replicate (route_weight (rs ! i)) i) [0..<length rs])"

definition executionOrder :: "Pool \<Rightarrow> Pool \<times> nat list" where
  "executionOrder p =
     (let weighted = weighted_order (po_Routes p) in
      if weighted = [] then (p, [])
      else let start = po_cursor p mod length weighted in
        (p\<lparr>po_cursor := (po_cursor p + 1) mod length weighted\<rparr>, drop start weighted @ take start weighted))"

definition hasFallbackRoute :: "Pool \<Rightarrow> nat \<Rightarrow> time \<Rightarrow> bool" where
  "hasFallbackRoute p failedIndex now =
     list_ex (\<lambda>i. i \<noteq> failedIndex \<and> \<not> rt_Disabled (po_Routes p ! i)
         \<and> \<not> After (rt_CooldownUntil (po_Routes p ! i)) now) [0..<length (po_Routes p)]"

definition recordEvent :: "time \<Rightarrow> nat \<Rightarrow> MojangEvent \<Rightarrow> Pool \<Rightarrow> Pool" where
  "recordEvent clock i e p =
     (if length (po_Routes p) \<le> i then p
      else
        let n = po_nextEventID p + 1;
            e = e\<lparr>me_ID := ''mojang-event-'' @ Itoa (int n), me_ProxyID := rt_ID (po_Routes p ! i)\<rparr>;
            e = (if IsZero (me_CreatedAt e) then e\<lparr>me_CreatedAt := clock\<rparr> else e)
        in p\<lparr>po_nextEventID := n, po_events := take 100 (e # po_events p)\<rparr>)"

definition failure_cooldown :: "Pool \<Rightarrow> transport_error \<Rightarrow> duration" where
  "failure_cooldown p err =
     (let cooldown = (if po_FailureCooldown p = 0 then 30 * Second else po_FailureCooldown p);
          cooldown = (if te_RateLimited err then cooldown * 2 else cooldown)
      in case te_RetryAfter err of None \<Rightarrow> cooldown | Some d \<Rightarrow> if cooldown < d then d else cooldown)"

definition failure_event :: "Pool \<Rightarrow> transport_error \<Rightarrow> time \<Rightarrow> MojangEvent" where
  "failure_event p err now =
     (let base = (if po_FailureCooldown p = 0 then 30 * Second else po_FailureCooldown p);
          base = (if te_RateLimited err then base * 2 else base)
      in \<lparr>me_ID = [], me_ProxyID = [],
          me_EventType = (if te_RateLimited err then ''rate_limited'' else ''network_error''),
          me_RetryAfter = (case te_RetryAfter err of None \<Rightarrow> 0 | Some d \<Rightarrow> if base < d then d else 0),
          me_Error = te_Error err, me_CreatedAt = now\<rparr>)"

definition markFailure :: "nat \<Rightarrow> transport_error \<Rightarrow> time \<Rightarrow> bool \<Rightarrow> Pool \<Rightarrow> Pool" where
  "markFailure i err now cool p =
     recordEvent now i (failure_event p err now)
       (update_route i (\<lambda>r. r\<lparr>
          rt_FailureCount := rt_FailureCount r + 1,
          rt_LastFailureError := te_Error err,
          rt_RateLimitCount := rt_RateLimitCount r + (if te_RateLimited err then 1 else 0),
          rt_CooldownUntil := (if cool then now + failure_cooldown p err else 0),
          rt_State := (if cool then RouteCoolingDown else RouteFailed)\<rparr>) p)"

text \<open>The loop over the execution order; \<open>tried\<close> is the set of indices already visited.\<close>

fun ExecuteLoop ::
  "transport \<Rightarrow> time \<Rightarrow> nat list \<Rightarrow> nat list \<Rightarrow> transport_error option \<Rightarrow> Pool \<Rightarrow> Pool \<times> (exec_error + Route)" where
  "ExecuteLoop t now [] tried lastErr p = (p, Inl (AllRoutesFailed lastErr))"
| "ExecuteLoop t now (i # order) tried lastErr p =
     (if i \<in> set tried then ExecuteLoop t now order tried lastErr p
      else
        let tried = i # tried; route = po_Routes p ! i in
        if rt_Disabled route
        then ExecuteLoop t now order tried lastErr (update_route i (\<lambda>r. r\<lparr>rt_State := RouteDisabled\<rparr>) p)
        else if After (rt_CooldownUntil route) now then ExecuteLoop t now order tried lastErr p
        else
          let p = update_route i (\<lambda>r. r\<lparr>rt_RequestCount := rt_RequestCount r + 1\<rparr>) p in
          case t route of
            Some err \<Rightarrow>
              ExecuteLoop t now order tried (Some err) (markFailure i err now (hasFallbackRoute p i now) p)
          | None \<Rightarrow>
              let p = (if rt_State route \<noteq> [] \<and> rt_State route \<noteq> RouteHealthy
                       then recordEvent now i \<lparr>me_ID = [], me_ProxyID = [], me_EventType = ''recovered'',
                              me_RetryAfter = 0, me_Error = [], me_CreatedAt = now\<rparr> p
                       else p);
                  p = update_route i (\<lambda>r. r\<lparr>rt_State := RouteHealthy, rt_FailureCount := 0,
                        rt_LastFailureError := []\<rparr>) p
              in (p, Inr (po_Routes p ! i)))"

definition Execute :: "transport \<Rightarrow> time \<Rightarrow> Pool \<Rightarrow> Pool \<times> (exec_error + Route)" where
  "Execute t now p = (case executionOrder p of (p, order) \<Rightarrow> ExecuteLoop t now order [] None p)"

datatype status_error = RateLimited | RouteUnavailable

definition ErrorFromStatus :: "int \<Rightarrow> status_error option" where
  "ErrorFromStatus status =
     (if status = 429 then Some RateLimited else if 500 \<le> status then Some RouteUnavailable else None)"

subsection \<open>The order of a round\<close>

lemma route_weight_pos [simp]: "0 < route_weight r"
  by (simp add: route_weight_def)

lemma set_weighted_order [simp]: "set (weighted_order rs) = {..<length rs}"
  by (auto simp: weighted_order_def)

lemma weighted_order_eq_Nil [simp]: "weighted_order rs = [] \<longleftrightarrow> rs = []"
  by (metis atLeast0LessThan atLeastLessThan_empty_iff length_0_conv lessThan_iff list.set(1) not_gr_zero set_empty set_weighted_order lessThan_0)

lemma executionOrder_fields:
  assumes "executionOrder p = (p', order)"
  shows "po_Routes p' = po_Routes p" "po_events p' = po_events p" "po_nextEventID p' = po_nextEventID p"
    "po_FailureCooldown p' = po_FailureCooldown p" "set order = {..<length (po_Routes p)}"
proof -
  let ?w = "weighted_order (po_Routes p)"
  have "set (drop k ?w @ take k ?w) = set ?w" for k
    by (metis Un_commute append_take_drop_id set_append)
  with assms show "po_Routes p' = po_Routes p" "po_events p' = po_events p"
    "po_nextEventID p' = po_nextEventID p" "po_FailureCooldown p' = po_FailureCooldown p"
    "set order = {..<length (po_Routes p)}"
    by (auto simp: executionOrder_def Let_def split: if_splits)
qed

lemma count_weighted_order:
  "i < length rs \<Longrightarrow> count_list (weighted_order rs) i = route_weight (rs ! i)"
proof -
  have "count_list (concat (map (\<lambda>i. replicate (f i) i) [a..<b])) i = (if a \<le> i \<and> i < b then f i else 0)" for f a b
  proof (induction b)
    case (Suc b)
    have r: "count_list (replicate n x) i = (if x = i then n else 0)" for n x
      by (induction n) auto
    from Suc show ?case by (cases "a \<le> b") (auto simp: r less_Suc_eq)
  qed simp
  moreover assume "i < length rs"
  ultimately show ?thesis by (simp add: weighted_order_def)
qed


subsection \<open>A round\<close>

lemma update_route_nth [simp]:
  "length (po_Routes (update_route i f p)) = length (po_Routes p)"
  "j \<noteq> i \<Longrightarrow> po_Routes (update_route i f p) ! j = po_Routes p ! j"
  "i < length (po_Routes p) \<Longrightarrow> po_Routes (update_route i f p) ! i = f (po_Routes p ! i)"
  by (simp_all add: update_route_def)

lemma recordEvent_Routes [simp]: "po_Routes (recordEvent c i e p) = po_Routes p"
  by (simp add: recordEvent_def Let_def)

lemma markFailure_nth [simp]:
  "length (po_Routes (markFailure i err now cool p)) = length (po_Routes p)"
  "j \<noteq> i \<Longrightarrow> po_Routes (markFailure i err now cool p) ! j = po_Routes p ! j"
  by (simp_all add: markFailure_def)

text \<open>A route that can serve: enabled and not cooling down.\<close>

definition usable :: "time \<Rightarrow> Route \<Rightarrow> bool" where
  "usable now r \<longleftrightarrow> \<not> rt_Disabled r \<and> rt_CooldownUntil r \<le> now"

text \<open>
  The route that answers was not tried before, could serve, and did; it is returned with its
  failures cleared.
\<close>

lemma ExecuteLoop_Inr:
  "ExecuteLoop t now order tried e p = (p', Inr r) \<Longrightarrow> set order \<subseteq> {..<length (po_Routes p)} \<Longrightarrow>
   \<exists>i \<in> set order - set tried. usable now (po_Routes p ! i) \<and> t (po_Routes p ! i) = None \<and>
      r = (po_Routes p ! i)\<lparr>rt_RequestCount := rt_RequestCount (po_Routes p ! i) + 1,
            rt_State := RouteHealthy, rt_FailureCount := 0, rt_LastFailureError := []\<rparr>"
proof (induction t now order tried e p rule: ExecuteLoop.induct)
  case (2 t now i order tried e p)
  have i: "i < length (po_Routes p)" and sub: "set order \<subseteq> {..<length (po_Routes p)}"
    using "2.prems" by auto
  consider "i \<in> set tried" | "i \<notin> set tried" "rt_Disabled (po_Routes p ! i)"
    | "i \<notin> set tried" "\<not> rt_Disabled (po_Routes p ! i)" "now < rt_CooldownUntil (po_Routes p ! i)"
    | "i \<notin> set tried" "usable now (po_Routes p ! i)"
    unfolding usable_def using not_le by blast
  then show ?case
  proof cases
    case 4
    then have u: "\<not> rt_Disabled (po_Routes p ! i)" "\<not> now < rt_CooldownUntil (po_Routes p ! i)"
      by (auto simp: usable_def)
    show ?thesis
    proof (cases "t (po_Routes p ! i)")
      case None
      with "2.prems"(1) 4 u i have "r = (po_Routes p ! i)\<lparr>rt_RequestCount := rt_RequestCount (po_Routes p ! i) + 1,
            rt_State := RouteHealthy, rt_FailureCount := 0, rt_LastFailureError := []\<rparr>"
        by (auto simp: Let_def split: if_splits)
      with 4 None show ?thesis by (intro bexI [of _ i]) auto
    next
      case (Some err)
      let ?p = "update_route i (\<lambda>r. r\<lparr>rt_RequestCount := rt_RequestCount r + 1\<rparr>) p"
      let ?q = "markFailure i err now (hasFallbackRoute ?p i now) ?p"
      from "2.prems"(1) 4(1) u Some have "ExecuteLoop t now order (i # tried) (Some err) ?q = (p', Inr r)"
        by (simp add: Let_def)
      moreover have "set order \<subseteq> {..<length (po_Routes ?q)}" using sub by simp
      ultimately obtain j where j: "j \<in> set order - set (i # tried)" and
        *: "usable now (po_Routes ?q ! j) \<and> t (po_Routes ?q ! j) = None \<and>
           r = (po_Routes ?q ! j)\<lparr>rt_RequestCount := rt_RequestCount (po_Routes ?q ! j) + 1,
            rt_State := RouteHealthy, rt_FailureCount := 0, rt_LastFailureError := []\<rparr>"
        using "2.IH"(4) [OF 4(1) refl refl u(1) _ refl Some] u(2) by (auto simp del: set_simps)
      from j have "po_Routes ?q ! j = po_Routes p ! j" by simp
      with j * show ?thesis by auto
    qed
  next
    case 1
    with "2.prems"(1) have "ExecuteLoop t now order tried e p = (p', Inr r)" by simp
    from "2.IH"(1) [OF 1 this sub] show ?thesis by auto
  next
    case 2
    let ?q = "update_route i (\<lambda>r. r\<lparr>rt_State := RouteDisabled\<rparr>) p"
    from "2.prems"(1) 2 have "ExecuteLoop t now order (i # tried) e ?q = (p', Inr r)" by simp
    from "2.IH"(2) [OF 2(1) refl refl 2(2) this] sub obtain j where "j \<in> set order - set (i # tried)"
      and *: "usable now (po_Routes ?q ! j) \<and> t (po_Routes ?q ! j) = None \<and>
           r = (po_Routes ?q ! j)\<lparr>rt_RequestCount := rt_RequestCount (po_Routes ?q ! j) + 1,
            rt_State := RouteHealthy, rt_FailureCount := 0, rt_LastFailureError := []\<rparr>"
      by auto
    then have "po_Routes ?q ! j = po_Routes p ! j" by simp
    with * \<open>j \<in> _\<close> show ?thesis by auto
  next
    case 3
    with "2.prems"(1) have "ExecuteLoop t now order (i # tried) e p = (p', Inr r)" by simp
    from "2.IH"(3) [OF 3(1) refl refl 3(2) _ this sub] 3(3) show ?thesis by auto
  qed
qed simp

text \<open>When some untried route could serve and would, the round succeeds.\<close>

lemma ExecuteLoop_complete:
  "j \<in> set order - set tried \<Longrightarrow> usable now (po_Routes p ! j) \<Longrightarrow> t (po_Routes p ! j) = None \<Longrightarrow>
   set order \<subseteq> {..<length (po_Routes p)} \<Longrightarrow> is_ok (snd (ExecuteLoop t now order tried e p))"
proof (induction t now order tried e p rule: ExecuteLoop.induct)
  case (2 t now i order tried e p)
  have i: "i < length (po_Routes p)" and sub: "set order \<subseteq> {..<length (po_Routes p)}"
    using "2.prems" by auto
  show ?case
  proof (cases "i \<in> set tried")
    case True
    with "2.prems" have "j \<in> set order - set tried" by auto
    from "2.IH"(1) [OF True this "2.prems"(2,3) sub] True show ?thesis by simp
  next
    case new: False
    show ?thesis
    proof (cases "j = i")
      case True
      with "2.prems"(2,3) new show ?thesis by (auto simp: usable_def Let_def)
    next
      case False
      with "2.prems"(1) have j: "j \<in> set order - set (i # tried)" by auto
      consider "rt_Disabled (po_Routes p ! i)"
        | "\<not> rt_Disabled (po_Routes p ! i)" "After (rt_CooldownUntil (po_Routes p ! i)) now"
        | "\<not> rt_Disabled (po_Routes p ! i)" "\<not> After (rt_CooldownUntil (po_Routes p ! i)) now"
        by blast
      then show ?thesis
      proof cases
        case 1
        from "2.IH"(2) [OF new refl refl 1 j] "2.prems"(2,3) False sub 1 new show ?thesis by simp
      next
        case 2
        from "2.IH"(3) [OF new refl refl 2 j] "2.prems"(2,3) sub 2 new show ?thesis by simp
      next
        case 3
        show ?thesis
        proof (cases "t (po_Routes p ! i)")
          case None
          with 3 new show ?thesis by (simp add: Let_def)
        next
          case (Some err)
          from "2.IH"(4) [OF new refl refl 3 refl Some j] "2.prems"(2,3) False sub 3 new Some
          show ?thesis by (simp add: Let_def)
        qed
      qed
    qed
  qed
qed simp

lemma Execute_complete:
  assumes "r \<in> set (po_Routes p)" "usable now r" "t r = None"
  shows "is_ok (snd (Execute t now p))"
proof -
  obtain p' order where o: "executionOrder p = (p', order)" by (cases "executionOrder p")
  from assms(1) obtain j where "j < length (po_Routes p)" "po_Routes p ! j = r"
    by (auto simp: in_set_conv_nth)
  with assms executionOrder_fields [OF o] show ?thesis
    unfolding Execute_def o prod.case by (intro ExecuteLoop_complete [of j]) simp_all
qed

lemma Execute_Inr:
  assumes "Execute t now p = (p', Inr r)"
  obtains r0 where "r0 \<in> set (po_Routes p)" "usable now r0" "t r0 = None"
    "r = r0\<lparr>rt_RequestCount := rt_RequestCount r0 + 1, rt_State := RouteHealthy,
           rt_FailureCount := 0, rt_LastFailureError := []\<rparr>"
proof -
  obtain q order where o: "executionOrder p = (q, order)" by (cases "executionOrder p")
  note f = executionOrder_fields [OF o]
  from assms have "ExecuteLoop t now order [] None q = (p', Inr r)"
    unfolding Execute_def o by simp
  from ExecuteLoop_Inr [OF this] f obtain i where "i < length (po_Routes p)"
    "usable now (po_Routes p ! i)" "t (po_Routes p ! i) = None"
    "r = (po_Routes p ! i)\<lparr>rt_RequestCount := rt_RequestCount (po_Routes p ! i) + 1,
            rt_State := RouteHealthy, rt_FailureCount := 0, rt_LastFailureError := []\<rparr>"
    by auto
  then show thesis by (intro that [of "po_Routes p ! i"]) auto
qed

subsection \<open>The event log\<close>

definition events_ok :: "Pool \<Rightarrow> bool" where
  "events_ok p \<longleftrightarrow> length (po_events p) \<le> 100"

lemma events_ok_update_route [simp]: "events_ok (update_route i f p) = events_ok p"
  by (simp add: events_ok_def update_route_def)

lemma events_ok_recordEvent [simp]: "events_ok p \<Longrightarrow> events_ok (recordEvent c i e p)"
  by (simp add: events_ok_def recordEvent_def Let_def)

lemma events_ok_markFailure [simp]: "events_ok p \<Longrightarrow> events_ok (markFailure i err now cool p)"
  by (simp add: markFailure_def)

lemma ExecuteLoop_events_ok: "events_ok p \<Longrightarrow> events_ok (fst (ExecuteLoop t now order tried e p))"
  by (induction t now order tried e p rule: ExecuteLoop.induct)
    (auto simp: Let_def split: option.split)

lemma Execute_events_ok: "events_ok p \<Longrightarrow> events_ok (fst (Execute t now p))"
proof -
  assume ok: "events_ok p"
  obtain q order where o: "executionOrder p = (q, order)" by (cases "executionOrder p")
  from ok executionOrder_fields [OF o] have "events_ok q" by (simp add: events_ok_def)
  then show ?thesis unfolding Execute_def o by (simp add: ExecuteLoop_events_ok)
qed
subsection \<open>Rotation\<close>

text \<open>The route index the next round starts with, and the state it leaves.\<close>

definition first_of_round :: "Pool \<Rightarrow> nat" where "first_of_round p = hd (snd (executionOrder p))"
definition next_round :: "Pool \<Rightarrow> Pool" where "next_round p = fst (executionOrder p)"

lemma next_round_iterate:
  assumes "po_Routes p \<noteq> []" "po_cursor p < length (weighted_order (po_Routes p))"
  shows "po_Routes ((next_round ^^ k) p) = po_Routes p \<and>
    po_cursor ((next_round ^^ k) p) = (po_cursor p + k) mod length (weighted_order (po_Routes p))"
proof (induction k)
  case (Suc k)
  with assms show ?case
    by (simp add: next_round_def executionOrder_def Let_def mod_simps)
qed (use assms in simp)

lemma first_of_round_nth:
  assumes "po_Routes p \<noteq> []" "po_cursor p < length (weighted_order (po_Routes p))"
  shows "first_of_round p = weighted_order (po_Routes p) ! po_cursor p"
  using assms by (simp add: first_of_round_def executionOrder_def Let_def hd_append hd_drop_conv_nth)

text \<open>
  C29: A round succeeds exactly when some route that is enabled and not cooling down answers; the
  route it returns is such a route, counted once more and with its failures cleared.
\<close>

theorem Execute_correct:
  "case snd (Execute t now p) of
     Inr r \<Rightarrow> \<exists>r0\<in>set (po_Routes p). \<not> rt_Disabled r0 \<and> rt_CooldownUntil r0 \<le> now \<and> t r0 = None \<and>
       r = r0\<lparr>rt_RequestCount := rt_RequestCount r0 + 1, rt_State := RouteHealthy,
              rt_FailureCount := 0, rt_LastFailureError := []\<rparr>
   | Inl _ \<Rightarrow> \<not> (\<exists>r0\<in>set (po_Routes p). \<not> rt_Disabled r0 \<and> rt_CooldownUntil r0 \<le> now \<and> t r0 = None)"
proof (cases "Execute t now p")
  case (Pair p' res)
  show ?thesis
  proof (cases res)
    case (Inl e)
    have "\<not> (\<exists>r0\<in>set (po_Routes p). usable now r0 \<and> t r0 = None)"
    proof
      assume "\<exists>r0\<in>set (po_Routes p). usable now r0 \<and> t r0 = None"
      then have "is_ok (snd (Execute t now p))" using Execute_complete by blast
      then show False using Pair Inl by simp
    qed
    with Pair Inl show ?thesis by (simp add: usable_def)
  next
    case (Inr r)
    with Pair have "Execute t now p = (p', Inr r)" by simp
    from this show ?thesis
      by (rule Execute_Inr) (use Pair Inr in \<open>auto simp: usable_def\<close>)
  qed
qed

text \<open>
  C30: The rotation is fair: over as many rounds as the weights add up to, every route is the first
  one tried exactly as often as its weight says.
\<close>

theorem rotation_fair:
  assumes "i < length (po_Routes p)" and "po_cursor p < length (weighted_order (po_Routes p))"
  shows "count_list (map (\<lambda>k. first_of_round ((next_round ^^ k) p)) [0..<length (weighted_order (po_Routes p))]) i =
    route_weight (po_Routes p ! i)"
proof -
  let ?w = "weighted_order (po_Routes p)"
  have ne: "po_Routes p \<noteq> []" using assms(1) by auto
  have first: "first_of_round ((next_round ^^ k) p) = ?w ! ((po_cursor p + k) mod length ?w)" for k
  proof -
    have "po_cursor ((next_round ^^ k) p) < length (weighted_order (po_Routes ((next_round ^^ k) p)))"
      using next_round_iterate [OF ne assms(2), of k] le_less_trans [OF le0 assms(2)] by simp
    with ne show ?thesis
      using next_round_iterate [OF ne assms(2), of k] by (subst first_of_round_nth) simp_all
  qed
  have "map (\<lambda>k. first_of_round ((next_round ^^ k) p)) [0..<length ?w] = rotate (po_cursor p) ?w"
    unfolding first by (rule nth_equalityI) (simp_all add: nth_rotate)
  moreover have "count_list (rotate n xs) i = count_list xs i" for n and xs :: "nat list"
    unfolding rotate_drop_take count_list_append
    by (metis add.commute append_take_drop_id count_list_append)
  ultimately show ?thesis by (simp add: count_weighted_order [OF assms(1)])
qed
definition sample_route :: "string \<Rightarrow> int \<Rightarrow> Route" where
  "sample_route ident w = \<lparr>rt_ID = ident, rt_Kind = [], rt_URL = [], rt_Weight = w, rt_Disabled = False, rt_State = [],
     rt_CooldownUntil = 0, rt_RequestCount = 0, rt_FailureCount = 0, rt_RateLimitCount = 0, rt_LastFailureError = []\<rparr>"

definition sample_pool :: Pool where
  "sample_pool = \<lparr>po_Routes = [sample_route ''a'' 1, sample_route ''b'' 2], po_FailureCooldown = 0, po_cursor = 1,
     po_nextEventID = 0, po_events = []\<rparr>"

lemma rotation_fair_witness:
  "count_list (map (\<lambda>k. first_of_round ((next_round ^^ k) sample_pool)) [0..<3]) 1 = 2"
proof -
  have p: "1 < length (po_Routes sample_pool)" "po_cursor sample_pool < length (weighted_order (po_Routes sample_pool))"
    "length (weighted_order (po_Routes sample_pool)) = 3" "route_weight (po_Routes sample_pool ! 1) = 2"
    by code_simp+
  from rotation_fair [OF p(1,2)] show ?thesis unfolding p(3,4) .
qed

end
