(* ===== verification/StoreTypes.thy ===== *)
theory StoreTypes
  imports Identity Auth Rbac MojangPool
begin

text \<open>
  The data of the store: the structs of \<^verbatim>\<open>core/internal/store/store.go\<close>, the audit event of
  \<^verbatim>\<open>core/internal/audit\<close>, the extension schema of \<^verbatim>\<open>core/internal/extensions\<close>, and the state
  \<open>memory\<close> of the in-memory store with its 39 tables (\<^verbatim>\<open>memory.go\<close>, lines 20-109).

  Fields carry a two-letter prefix for their struct.  A slice or pointer held by a struct is its
  value, so the \<^verbatim>\<open>clone\<close> functions of the source, which only break aliasing, are identities; a nil
  slice is the empty list.  The passkey credential of the \<^verbatim>\<open>webauthn\<close> library is an opaque type.
\<close>

subsection \<open>Audit events\<close>

type_synonym ActorType = string
type_synonym TargetType = string

record Event =
  ev_ID :: string
  ev_Occurred :: time
  ev_SchemaVersion :: int
  ev_Category :: string
  ev_Outcome :: string
  ev_Source :: string
  ev_SessionID :: string
  ev_CorrelationID :: string
  ev_ActorType :: ActorType
  ev_ActorID :: string
  ev_Target :: TargetType
  ev_TargetID :: string
  ev_Type :: string
  ev_Details :: anymap

text \<open>The bytes before the first \<^verbatim>\<open>.\<close>, when there is one past the start.\<close>

definition CategoryFromType :: "string \<Rightarrow> string" where
  "CategoryFromType eventType =
     (let eventType = TrimSpace eventType in
      if eventType = [] then ''unknown''
      else
        let idx = length (takeWhile (\<lambda>c. c \<noteq> CHR ''.'') eventType) in
        if idx < length eventType \<and> 0 < idx then take idx eventType else eventType)"

definition NewEvent ::
  "time \<Rightarrow> ActorType \<Rightarrow> string \<Rightarrow> TargetType \<Rightarrow> string \<Rightarrow> string \<Rightarrow> anymap \<Rightarrow> Event" where
  "NewEvent now actorType actorID target targetID eventType details =
     \<lparr>ev_ID = [], ev_Occurred = now, ev_SchemaVersion = 1, ev_Category = CategoryFromType eventType,
      ev_Outcome = [], ev_Source = [], ev_SessionID = [], ev_CorrelationID = [],
      ev_ActorType = actorType, ev_ActorID = actorID, ev_Target = target, ev_TargetID = targetID,
      ev_Type = eventType, ev_Details = details\<rparr>"

subsection \<open>Extension schemas\<close>

type_synonym Visibility = string
type_synonym FieldType = string

abbreviation (input) VisibilityPrivate :: Visibility where "VisibilityPrivate \<equiv> ''private''"
abbreviation (input) VisibilityPlayerVisible :: Visibility where "VisibilityPlayerVisible \<equiv> ''player_visible''"
abbreviation (input) VisibilityPublic :: Visibility where "VisibilityPublic \<equiv> ''public''"

record Field =
  fi_Key :: string
  fi_Label :: string
  fi_Type :: FieldType
  fi_Visibility :: Visibility
  fi_Tone :: string
  fi_Safe :: bool

record Schema =
  sc_Version :: int
  sc_Title :: string
  sc_Fields :: "Field list"

subsection \<open>The records of the store\<close>

typedecl Credential

type_synonym NodeActionType = string
type_synonym BanScope = string
type_synonym ExternalAPITokenStatus = string
type_synonym IPGeoSourceType = string
type_synonym IPGeoSourceStatus = string

abbreviation (input) NodeActionDisconnect :: NodeActionType where "NodeActionDisconnect \<equiv> ''disconnect''"
abbreviation (input) NodeActionPresenceCheck :: NodeActionType where "NodeActionPresenceCheck \<equiv> ''presence_check''"
abbreviation (input) BanScopePassport :: BanScope where "BanScopePassport \<equiv> ''passport''"
abbreviation (input) BanScopeProfile :: BanScope where "BanScopeProfile \<equiv> ''profile''"
abbreviation (input) ExternalAPITokenActive :: ExternalAPITokenStatus where "ExternalAPITokenActive \<equiv> ''active''"
abbreviation (input) ExternalAPITokenDisabled :: ExternalAPITokenStatus where "ExternalAPITokenDisabled \<equiv> ''disabled''"
abbreviation (input) ExternalAPITokenRevoked :: ExternalAPITokenStatus where "ExternalAPITokenRevoked \<equiv> ''revoked''"
abbreviation (input) IPGeoSourceUpload :: IPGeoSourceType where "IPGeoSourceUpload \<equiv> ''upload''"
abbreviation (input) IPGeoSourcePending :: IPGeoSourceStatus where "IPGeoSourcePending \<equiv> ''pending''"
abbreviation (input) IPGeoSourceReady :: IPGeoSourceStatus where "IPGeoSourceReady \<equiv> ''ready''"

record DownstreamServer =
  ds_ID :: string
  ds_Slug :: string
  ds_DisplayName :: string
  ds_Status :: string
  ds_RegistrationOpen :: bool
  ds_PortalTheme :: anymap
  ds_PortalConfig :: anymap
  ds_ExtensionProviders :: "string list"
  ds_CreatedAt :: time
  ds_UpdatedAt :: time

record DownstreamServerPrivilegedPassport =
  dp_ServerID :: string
  dp_PassportID :: string
  dp_Privileges :: "string list"
  dp_CreatedBy :: string
  dp_CreatedAt :: time
  dp_Passport :: Passport

record DownstreamServerStatus =
  dt_ServerID :: string
  dt_NodeID :: string
  dt_OnlinePlayers :: int
  dt_MaxPlayers :: int
  dt_Source :: string
  dt_ReportedAt :: time
  dt_UpdatedAt :: time

record LimboBlueprint =
  lb_ID :: string
  lb_Name :: string
  lb_Description :: string
  lb_Filename :: string
  lb_ContentType :: string
  lb_SizeBytes :: int
  lb_SHA256 :: string
  lb_Schematic :: "byte list"
  lb_Preview :: anymap
  lb_Config :: anymap
  lb_CreatedAt :: time
  lb_UpdatedAt :: time

record LimboProtocolBundle =
  lp_NodeID :: string
  lp_Name :: string
  lp_Version :: string
  lp_Filename :: string
  lp_ContentType :: string
  lp_SizeBytes :: int
  lp_SHA256 :: string
  lp_Protocols :: "int list"
  lp_MinecraftVersions :: "string list"
  lp_Archive :: "byte list"
  lp_CreatedAt :: time
  lp_UpdatedAt :: time

record LimboProtocolStatus =
  lt_NodeID :: string
  lt_Name :: string
  lt_Version :: string
  lt_SHA256 :: string
  lt_Protocols :: "int list"
  lt_MinecraftVersions :: "string list"
  lt_LastError :: string
  lt_ReportedAt :: time
  lt_UpdatedAt :: time

record VelocityRuntimeRelease =
  vr_ID :: string
  vr_Version :: string
  vr_APIVersion :: int
  vr_Entrypoint :: string
  vr_Filename :: string
  vr_ContentType :: string
  vr_SizeBytes :: int
  vr_SHA256 :: string
  vr_Artifact :: "byte list"
  vr_CreatedAt :: time
  vr_UpdatedAt :: time

record VelocityRuntimeStatus =
  vs_NodeID :: string
  vs_State :: string
  vs_APIVersion :: int
  vs_Version :: string
  vs_SHA256 :: string
  vs_TargetVersion :: string
  vs_TargetSHA256 :: string
  vs_LastError :: string
  vs_ReportedAt :: time
  vs_UpdatedAt :: time

record ProfileSkin =
  sk_ProfileID :: string
  sk_Model :: string
  sk_SkinPNG :: "byte list"
  sk_SkinContentType :: string
  sk_SkinSHA256 :: string
  sk_CapePNG :: "byte list"
  sk_CapeContentType :: string
  sk_CapeSHA256 :: string
  sk_ElytraPNG :: "byte list"
  sk_ElytraContentType :: string
  sk_ElytraSHA256 :: string
  sk_CreatedAt :: time
  sk_UpdatedAt :: time

record PassportSkin =
  ps_PassportID :: string
  ps_Model :: string
  ps_SkinPNG :: "byte list"
  ps_SkinContentType :: string
  ps_SkinSHA256 :: string
  ps_CapePNG :: "byte list"
  ps_CapeContentType :: string
  ps_CapeSHA256 :: string
  ps_ElytraPNG :: "byte list"
  ps_ElytraContentType :: string
  ps_ElytraSHA256 :: string
  ps_CreatedAt :: time
  ps_UpdatedAt :: time

record ProfilePassportBinding =
  bi_Passport :: Passport
  bi_Link :: ProfilePassportLink

record ExtensionPlayerData =
  ed_ID :: string
  ed_ServerID :: string
  ed_PlayerID :: string
  ed_Provider :: string
  ed_Schema :: Schema
  ed_Values :: anymap
  ed_Visibility :: Visibility
  ed_Source :: string
  ed_CreatedAt :: time
  ed_UpdatedAt :: time

record AuditEventQuery =
  aq_ActorType :: string
  aq_TargetType :: string
  aq_EventType :: string
  aq_RelatedIDs :: "string list"
  aq_Since :: "time option"
  aq_Until :: "time option"
  aq_Page :: int
  aq_PageSize :: int

record IdentityListQuery =
  iq_Search :: string
  iq_Kind :: string
  iq_Status :: string
  iq_Binding :: string
  iq_Sort :: string
  iq_Dir :: string
  iq_Page :: int
  iq_PageSize :: int

record PlayerPresence =
  pc_ID :: string
  pc_PassportID :: string
  pc_ProfileID :: string
  pc_ServerID :: string
  pc_NodeID :: string
  pc_ProtocolName :: string
  pc_UUID :: string
  pc_RemoteAddr :: string
  pc_ConnectedAt :: time
  pc_LastSeenAt :: time
  pc_EndedAt :: "time option"
  pc_EndReason :: string

record NodeAction =
  na_ID :: string
  na_NodeID :: string
  na_Type :: NodeActionType
  na_PresenceID :: string
  na_PassportID :: string
  na_ProfileID :: string
  na_UUID :: string
  na_ProtocolName :: string
  na_Reason :: string
  na_CreatedAt :: time
  na_ExpiresAt :: "time option"
  na_AckedAt :: "time option"

record PlayerBan =
  ba_ID :: string
  ba_Scope :: BanScope
  ba_TargetID :: string
  ba_Reason :: string
  ba_CreatedBy :: string
  ba_CreatedAt :: time
  ba_ExpiresAt :: "time option"
  ba_RevokedBy :: string
  ba_RevokedAt :: "time option"
  ba_RevokeReason :: string

record OfflineCredential =
  oc_PlayerID :: string
  oc_PassportID :: string
  oc_PasswordHash :: string
  oc_EncryptedPassword :: string
  oc_PasswordKeyFingerprint :: string
  oc_PasswordUpdatedAt :: "time option"
  oc_FailedAttempts :: int
  oc_LockedUntil :: "time option"

definition zero_OfflineCredential :: OfflineCredential where
  "zero_OfflineCredential = \<lparr>oc_PlayerID = [], oc_PassportID = [], oc_PasswordHash = [], oc_EncryptedPassword = [], oc_PasswordKeyFingerprint = [], oc_PasswordUpdatedAt = None, oc_FailedAttempts = 0, oc_LockedUntil = None\<rparr>"

record PassportCredential =
  pa_PassportID :: string
  pa_PasswordHash :: string
  pa_EncryptedPassword :: string
  pa_PasswordKeyFingerprint :: string
  pa_PasswordUpdatedAt :: "time option"
  pa_FailedAttempts :: int
  pa_LockedUntil :: "time option"

record PortalAuthCache =
  ac_PassportID :: string
  ac_RemoteIP :: string
  ac_CreatedAt :: time
  ac_LastUsedAt :: time
  ac_ExpiresAt :: time

record AdminUser =
  au_ID :: string
  au_Username :: string
  au_Email :: string
  au_PasswordHash :: string
  au_Role :: string
  au_Status :: string
  au_CreatedAt :: time
  au_UpdatedAt :: time

record AdminProfile =
  af_AdminID :: string
  af_Username :: string
  af_Email :: string
  af_AvatarURL :: string
  af_CreatedAt :: time
  af_UpdatedAt :: time

record AdminSecurity =
  as_AdminID :: string
  as_TOTPEnabled :: bool
  as_TOTPSecret :: string
  as_MFARequirement :: string
  as_PreferredLocale :: string
  as_PreferredTheme :: string
  as_CreatedAt :: time
  as_UpdatedAt :: time

record AdminPasskey =
  ak_ID :: string
  ak_AdminID :: string
  ak_Name :: string
  ak_Credential :: Credential
  ak_CreatedAt :: time
  ak_LastUsedAt :: "time option"

record PendingAdminMFA =
  am_ID :: string
  am_AdminID :: string
  am_WebAuthnSessionJSON :: "byte list"
  am_ExpiresAt :: time

record AdminTrustedDevice =
  ad_ID :: string
  ad_AdminID :: string
  ad_TokenHash :: string
  ad_UserAgent :: string
  ad_CreatedAt :: time
  ad_ExpiresAt :: time

record AdminPasswordReset =
  ar_ID :: string
  ar_AdminID :: string
  ar_TokenHash :: string
  ar_CreatedAt :: time
  ar_ExpiresAt :: time
  ar_UsedAt :: "time option"

record ExternalAPIToken =
  et_ID :: string
  et_Name :: string
  et_TokenHash :: string
  et_TokenFingerprint :: string
  et_Status :: ExternalAPITokenStatus
  et_CreatedBy :: string
  et_CallCount :: int
  et_LastUsedAt :: "time option"
  et_LastUsedIP :: string
  et_LastUsedPath :: string
  et_CreatedAt :: time
  et_UpdatedAt :: time

record IPGeoSource =
  is_ID :: string
  is_CatalogID :: string
  is_Name :: string
  is_Type :: IPGeoSourceType
  is_Format :: string
  is_DataFamily :: string
  is_SourceURL :: string
  is_GitHubRepository :: string
  is_AssetPattern :: string
  is_Homepage :: string
  is_License :: string
  is_Enabled :: bool
  is_Weight :: int
  is_AutoUpdate :: bool
  is_UpdateIntervalHours :: int
  is_StorageFilename :: string
  is_OriginalFilename :: string
  is_ContentType :: string
  is_SHA256 :: string
  is_SizeBytes :: int
  is_Version :: string
  is_ETag :: string
  is_LastModified :: string
  is_Status :: IPGeoSourceStatus
  is_LastError :: string
  is_Fields :: "string list"
  is_SupportsIPv4 :: bool
  is_SupportsIPv6 :: bool
  is_LastCheckedAt :: "time option"
  is_LastUpdatedAt :: "time option"
  is_NextCheckAt :: "time option"
  is_CreatedAt :: time
  is_UpdatedAt :: time


subsection \<open>The state of the store\<close>

record memory =
  nextID :: int
  nextAuditID :: int
  passportsByID :: "(string, Passport) gomap"
  profilesByID :: "(string, Profile) gomap"
  passportByUsername :: "(string, string) gomap"
  profileLinks :: "(string, (string, ProfilePassportLink) gomap) gomap"
  profilesByPassport :: "(string, (string, unit) gomap) gomap"
  playersByID :: "(string, Player) gomap"
  offlineByNormalized :: "(string, string) gomap"
  credentialsByPlayer :: "(string, OfflineCredential) gomap"
  portalAuthCache :: "(string, PortalAuthCache) gomap"
  sessionsByID :: "(string, Session) gomap"
  portalLinksByToken :: "(string, PortalLink) gomap"
  auditEvents :: "Event list"
  mojangRoutes :: "(string, Route) gomap"
  ipGeoSources :: "(string, IPGeoSource) gomap"
  systemSettings :: "(string, anymap) gomap"
  presencesByID :: "(string, PlayerPresence) gomap"
  bansByID :: "(string, PlayerBan) gomap"
  nodeActionsByID :: "(string, NodeAction) gomap"
  downstreamServers :: "(string, DownstreamServer) gomap"
  downstreamStatus :: "(string, DownstreamServerStatus) gomap"
  downstreamPrivileges :: "(string, (string, DownstreamServerPrivilegedPassport) gomap) gomap"
  limboBlueprints :: "(string, LimboBlueprint) gomap"
  limboProtocolBundles :: "(string, LimboProtocolBundle) gomap"
  limboProtocolStatus :: "(string, LimboProtocolStatus) gomap"
  velocityRuntimeReleases :: "(string, VelocityRuntimeRelease) gomap"
  velocityRuntimeStatus :: "(string, VelocityRuntimeStatus) gomap"
  profileSkins :: "(string, ProfileSkin) gomap"
  premiumTextures :: "(string, ProfileProperty list) gomap"
  passportSkins :: "(string, PassportSkin) gomap"
  transferGrants :: "(string, TransferGrant) gomap"
  extensionData :: "(string, ExtensionPlayerData) gomap"
  adminRoles :: "(string, role) gomap"
  adminUsers :: "(string, AdminUser) gomap"
  adminProfiles :: "(string, AdminProfile) gomap"
  adminSecurity :: "(string, AdminSecurity) gomap"
  adminPasskeys :: "(string, AdminPasskey) gomap"
  pendingAdminMFAs :: "(string, PendingAdminMFA) gomap"
  adminTrustedDevices :: "(string, AdminTrustedDevice) gomap"
  adminPasswordResets :: "(string, AdminPasswordReset) gomap"
  externalAPITokens :: "(string, ExternalAPIToken) gomap"

definition NewMemory :: memory where
  "NewMemory = \<lparr>nextID = 0,
     nextAuditID = 0,
     passportsByID = gempty,
     profilesByID = gempty,
     passportByUsername = gempty,
     profileLinks = gempty,
     profilesByPassport = gempty,
     playersByID = gempty,
     offlineByNormalized = gempty,
     credentialsByPlayer = gempty,
     portalAuthCache = gempty,
     sessionsByID = gempty,
     portalLinksByToken = gempty,
     auditEvents = [],
     mojangRoutes = gempty,
     ipGeoSources = gempty,
     systemSettings = gempty,
     presencesByID = gempty,
     bansByID = gempty,
     nodeActionsByID = gempty,
     downstreamServers = gempty,
     downstreamStatus = gempty,
     downstreamPrivileges = gempty,
     limboBlueprints = gempty,
     limboProtocolBundles = gempty,
     limboProtocolStatus = gempty,
     velocityRuntimeReleases = gempty,
     velocityRuntimeStatus = gempty,
     profileSkins = gempty,
     premiumTextures = gempty,
     passportSkins = gempty,
     transferGrants = gempty,
     extensionData = gempty,
     adminRoles = gempty,
     adminUsers = gempty,
     adminProfiles = gempty,
     adminSecurity = gempty,
     adminPasskeys = gempty,
     pendingAdminMFAs = gempty,
     adminTrustedDevices = gempty,
     adminPasswordResets = gempty,
     externalAPITokens = gempty\<rparr>"

end
