(* ===== verification/StoreIdentity.thy ===== *)
theory StoreIdentity
  imports StoreTypes
begin

text \<open>
  The identity tables of the in-memory store (\<^verbatim>\<open>memory.go\<close>, \<^verbatim>\<open>passport_only.go\<close> and
  \<^verbatim>\<open>passport_skin_source.go\<close>): passports, profiles, the links between them, the player view
  derived from both, skins, credentials and the portal authentication cache.

  A method that only reads is a function of the state; one that writes returns the new state
  with its result, also when the result is an error.  Every method of the source runs under the
  store's mutex, so each is one atomic step.  A clock reading or the random bytes of a fresh UUID
  are arguments, one per call of \<^verbatim>\<open>time.Now\<close> or \<^verbatim>\<open>rand.Read\<close>.  The inner maps of \<^verbatim>\<open>profileLinks\<close> and
  \<^verbatim>\<open>profilesByPassport\<close> are shared references in the source; a write through such a reference is a
  write to the outer map here.
\<close>

subsection \<open>Small helpers\<close>

abbreviation (input) PassportSkinSourceUpstream :: string where "PassportSkinSourceUpstream \<equiv> ''upstream''"
abbreviation (input) PassportSkinSourceCustom :: string where "PassportSkinSourceCustom \<equiv> ''custom''"

definition NormalizePassportSkinSource :: "unicode \<Rightarrow> PlayerKind \<Rightarrow> string \<Rightarrow> string" where
  "NormalizePassportSkinSource uc kind value =
     (let v = ToLower uc (TrimSpace value) in
      if v = PassportSkinSourceCustom then PassportSkinSourceCustom
      else if v \<in> {''mojang'', ''default'', PassportSkinSourceUpstream} then PassportSkinSourceUpstream
      else PassportSkinSourceUpstream)"

text \<open>\<^verbatim>\<open>m[k]\<close> with the zero value for a missing key.\<close>

definition passport_at :: "memory \<Rightarrow> string \<Rightarrow> Passport" where
  "passport_at m i = (case gget (passportsByID m) i of None \<Rightarrow> zero_Passport | Some p \<Rightarrow> p)"

definition profile_at :: "memory \<Rightarrow> string \<Rightarrow> Profile" where
  "profile_at m i = (case gget (profilesByID m) i of None \<Rightarrow> zero_Profile | Some p \<Rightarrow> p)"

abbreviation links_of :: "memory \<Rightarrow> string \<Rightarrow> (string, ProfilePassportLink) gomap" where
  "links_of m profileID \<equiv> ginner (profileLinks m) profileID"

abbreviation link_of :: "memory \<Rightarrow> string \<Rightarrow> string \<Rightarrow> ProfilePassportLink option" where
  "link_of m profileID passportID \<equiv> gget2 (profileLinks m) profileID passportID"

abbreviation profiles_of :: "memory \<Rightarrow> string \<Rightarrow> (string, unit) gomap" where
  "profiles_of m passportID \<equiv> ginner (profilesByPassport m) passportID"

text \<open>\<^verbatim>\<open>m.profileLinks[profileID][passportID] = link\<close>\<close>

definition put_link :: "string \<Rightarrow> string \<Rightarrow> ProfilePassportLink \<Rightarrow> memory \<Rightarrow> memory" where
  "put_link profileID passportID l m =
     m\<lparr>profileLinks := gput (profileLinks m) profileID (gput (links_of m profileID) passportID l)\<rparr>"

text \<open>\<^verbatim>\<open>delete(m[p], q); if len(m[p]) == 0 { delete(m, p) }\<close>\<close>

definition del_inner :: "('p, ('q, 'v) gomap) gomap \<Rightarrow> 'p \<Rightarrow> 'q \<Rightarrow> ('p, ('q, 'v) gomap) gomap" where
  "del_inner m p q =
     (let r = gdel (ginner m p) q in if glen r = 0 then gdel m p else gput m p r)"

text \<open>
  The loop that keeps the earliest link, ties broken by \<open>key\<close>; a link without a profile ID
  stands for "none yet".
\<close>

definition prefer_link ::
  "(ProfilePassportLink \<Rightarrow> string) \<Rightarrow> ProfilePassportLink \<Rightarrow> ProfilePassportLink \<Rightarrow> ProfilePassportLink" where
  "prefer_link key selected link =
     (if ln_ProfileID selected = [] \<or> Before (ln_LinkedAt link) (ln_LinkedAt selected) \<or>
         (ln_LinkedAt link = ln_LinkedAt selected \<and> key link < key selected)
      then link else selected)"

definition select_link ::
  "(ProfilePassportLink \<Rightarrow> string) \<Rightarrow> ProfilePassportLink list \<Rightarrow> ProfilePassportLink" where
  "select_link key ls = foldl (prefer_link key) zero_Link ls"

subsection \<open>Links between profiles and passports\<close>

definition referenceProfileLinkLocked :: "memory \<Rightarrow> string \<Rightarrow> ProfilePassportLink option" where
  "referenceProfileLinkLocked m profileID =
     (let ls = links_of m profileID in
      if glen ls = 0 then None
      else
        case (case gget (profilesByID m) profileID of None \<Rightarrow> None
              | Some profile \<Rightarrow>
                  if pf_CreatedFromPassport profile \<noteq> [] then gget ls (pf_CreatedFromPassport profile)
                  else None) of
          Some link \<Rightarrow> Some link
        | None \<Rightarrow> Some (select_link ln_PassportID (gvals ls)))"

text \<open>The state after \<^verbatim>\<open>refreshProfilePlayerLocked\<close>, and the player it returns.\<close>

definition refreshed_player :: "memory \<Rightarrow> string \<Rightarrow> Player option" where
  "refreshed_player m profileID =
     (case referenceProfileLinkLocked m profileID of None \<Rightarrow> None
      | Some link \<Rightarrow>
          Some (PlayerFromPassportProfile (passport_at m (ln_PassportID link)) (profile_at m profileID)))"

definition refreshProfilePlayerLocked :: "string \<Rightarrow> memory \<Rightarrow> memory \<times> Player" where
  "refreshProfilePlayerLocked profileID m =
     (case refreshed_player m profileID of
        None \<Rightarrow> (m\<lparr>playersByID := gdel (playersByID m) profileID\<rparr>, zero_Player)
      | Some player \<Rightarrow> (m\<lparr>playersByID := gput (playersByID m) (pl_ID player) player\<rparr>, player))"

definition refreshPassportPlayersLocked :: "string \<Rightarrow> memory \<Rightarrow> memory" where
  "refreshPassportPlayersLocked passportID m =
     foldl (\<lambda>m profileID. fst (refreshProfilePlayerLocked profileID m)) m (gkeys (profiles_of m passportID))"

definition primaryProfileForPassportLocked :: "memory \<Rightarrow> string \<Rightarrow> Profile result" where
  "primaryProfileForPassportLocked m passportID =
     (let ids = gkeys (profiles_of m passportID) in
      case List.find (\<lambda>profileID.
             (case link_of m profileID passportID of None \<Rightarrow> False | Some link \<Rightarrow> ln_IsPrimary link)
             \<and> gget (profilesByID m) profileID \<noteq> None) ids of
        Some profileID \<Rightarrow> Inr (profile_at m profileID)
      | None \<Rightarrow>
          case List.find (\<lambda>profileID. gget (profilesByID m) profileID \<noteq> None) ids of
            Some profileID \<Rightarrow> Inr (profile_at m profileID)
          | None \<Rightarrow> Inl (NotFound ''profile not found''))"

definition clear_primary_step :: "string \<Rightarrow> memory \<Rightarrow> string \<Rightarrow> memory" where
  "clear_primary_step passportID m profileID =
     (case link_of m profileID passportID of
        Some link \<Rightarrow>
          if ln_IsPrimary link then put_link profileID passportID (link\<lparr>ln_IsPrimary := False\<rparr>) m else m
      | None \<Rightarrow> m)"

definition clearPrimaryProfileLocked :: "string \<Rightarrow> memory \<Rightarrow> memory" where
  "clearPrimaryProfileLocked passportID m =
     foldl (clear_primary_step passportID) m (gkeys (profiles_of m passportID))"

definition promotePrimaryProfileLocked :: "string \<Rightarrow> memory \<Rightarrow> memory" where
  "promotePrimaryProfileLocked passportID m =
     (let selected = select_link ln_ProfileID
            (List.map_filter (\<lambda>profileID. link_of m profileID passportID) (gkeys (profiles_of m passportID)))
      in
      if ln_ProfileID selected = [] then m
      else
        let m = put_link (ln_ProfileID selected) passportID (selected\<lparr>ln_IsPrimary := True\<rparr>) m in
        case gget (passportsByID m) passportID of
          None \<Rightarrow> m
        | Some passport \<Rightarrow>
            if pp_Kind passport = PassportKindOffline
            then m\<lparr>offlineByNormalized := gput (offlineByNormalized m) (pp_UsernameNormalized passport) (ln_ProfileID selected)\<rparr>
            else m)"

definition linkProfileLocked :: "time \<Rightarrow> Passport \<Rightarrow> Profile \<Rightarrow> bool \<Rightarrow> memory \<Rightarrow> memory \<times> PassportProfile" where
  "linkProfileLocked now passport profile primary m =
     (let profileID = pf_ID profile; passportID = pp_ID passport;
          existing = link_of m profileID passportID;
          primary = (primary \<or> (case existing of None \<Rightarrow> False | Some l \<Rightarrow> ln_IsPrimary l)
                     \<or> \<not> is_ok (primaryProfileForPassportLocked m passportID));
          m = (if primary then clearPrimaryProfileLocked passportID m else m);
          link = \<lparr>ln_ProfileID = profileID, ln_PassportID = passportID, ln_IsPrimary = primary,
                  ln_LinkedAt = (case existing of None \<Rightarrow> now | Some l \<Rightarrow> ln_LinkedAt l)\<rparr>;
          m = put_link profileID passportID link m;
          m = m\<lparr>profilesByPassport := gput (profilesByPassport m) passportID (gput (profiles_of m passportID) profileID ())\<rparr>;
          m = fst (refreshProfilePlayerLocked profileID m);
          m = (if pp_Kind passport = PassportKindOffline \<and> primary
               then m\<lparr>offlineByNormalized := gput (offlineByNormalized m) (pp_UsernameNormalized passport) profileID\<rparr>
               else m)
      in (m, \<lparr>lk_Passport = passport, lk_Profile = profile, lk_Link = link\<rparr>))"

definition unlinkProfileLocked :: "string \<Rightarrow> string \<Rightarrow> bool \<Rightarrow> memory \<Rightarrow> memory \<times> unit result" where
  "unlinkProfileLocked profileID passportID promoteReplacement m =
     (case link_of m profileID passportID of
        None \<Rightarrow> (m, Inl (NotFound ''profile link not found''))
      | Some link \<Rightarrow>
          let m = m\<lparr>profileLinks := del_inner (profileLinks m) profileID passportID\<rparr>;
              m = (if glen (links_of m profileID) = 0
                   then m\<lparr>playersByID := gdel (playersByID m) profileID\<rparr>
                   else fst (refreshProfilePlayerLocked profileID m));
              m = (if gget (profilesByPassport m) passportID = None then m
                   else m\<lparr>profilesByPassport := del_inner (profilesByPassport m) passportID profileID\<rparr>);
              m = (case gget (passportsByID m) passportID of
                     Some passport \<Rightarrow>
                       if pp_Kind passport = PassportKindOffline
                          \<and> gget (offlineByNormalized m) (pp_UsernameNormalized passport) = Some profileID
                       then m\<lparr>offlineByNormalized := gdel (offlineByNormalized m) (pp_UsernameNormalized passport)\<rparr>
                       else m
                   | None \<Rightarrow> m);
              m = (if promoteReplacement \<and> ln_IsPrimary link then promotePrimaryProfileLocked passportID m else m)
          in (m, Inr ()))"

definition storePassportProfileLocked ::
  "unicode \<Rightarrow> time \<Rightarrow> Passport \<Rightarrow> Profile \<Rightarrow> bool \<Rightarrow> memory \<Rightarrow> memory \<times> PassportProfile" where
  "storePassportProfileLocked uc now passport profile primary m =
     (let passport = passport\<lparr>pp_SkinSource := NormalizePassportSkinSource uc (pp_Kind passport) (pp_SkinSource passport)\<rparr>;
          m = m\<lparr>passportsByID := gput (passportsByID m) (pp_ID passport) passport\<rparr>;
          m = (if pp_Kind passport = PassportKindOffline
               then m\<lparr>passportByUsername := gput (passportByUsername m) (pp_UsernameNormalized passport) (pp_ID passport)\<rparr>
               else m);
          m = m\<lparr>profilesByID := gput (profilesByID m) (pf_ID profile) profile\<rparr>
      in linkProfileLocked now passport profile primary m)"

end
