(* ===== verification/StorePlayers.thy ===== *)
theory StorePlayers
  imports StoreIdentity
begin

text \<open>
  The operations of the in-memory store on passports and profiles: registration, premium
  upserts, binding and unbinding, status changes, renames and deletion with everything that
  refers to the deleted passport or profile.
\<close>

subsection \<open>Registration\<close>

definition new_credential :: "string \<Rightarrow> string \<Rightarrow> string \<Rightarrow> string \<Rightarrow> OfflineCredential" where
  "new_credential passportID passwordHash encryptedPassword keyFingerprint =
     zero_OfflineCredential\<lparr>oc_PlayerID := passportID, oc_PassportID := passportID,
       oc_PasswordHash := passwordHash, oc_EncryptedPassword := encryptedPassword,
       oc_PasswordKeyFingerprint := keyFingerprint\<rparr>"

definition CreateOfflinePassportProfile ::
  "unicode \<Rightarrow> string \<Rightarrow> string \<Rightarrow> string \<Rightarrow> string \<Rightarrow> string \<Rightarrow> time \<Rightarrow> time \<Rightarrow> time \<Rightarrow> byte list option \<Rightarrow>
   memory \<Rightarrow> memory \<times> PassportProfile result" where
  "CreateOfflinePassportProfile uc rawName protocolName passwordHash encryptedPassword keyFingerprint
     now1 now2 now3 rnd m =
     (case NormalizeOfflineName uc rawName of Inl e \<Rightarrow> (m, Inl e)
      | Inr name \<Rightarrow>
          let protocolName = (if TrimSpace protocolName = [] then rawName else protocolName) in
          if gget (passportByUsername m) (on_Normalized name) \<noteq> None
          then (m, Inl (Err ''offline passport already exists''))
          else
            case NewOfflinePassport uc rawName now1 of Inl e \<Rightarrow> (m, Inl e)
            | Inr passport \<Rightarrow>
                (case NormalizeProtocolName uc protocolName of Inl e \<Rightarrow> (m, Inl e)
                 | Inr normalizedProfileName \<Rightarrow>
                     (case NewOfflineProfile uc (on_Protocol normalizedProfileName) (pp_ID passport) rnd now2 of
                        Inl e \<Rightarrow> (m, Inl e)
                      | Inr profile \<Rightarrow>
                          (case storePassportProfileLocked uc now3 passport profile True m of (m, pp) \<Rightarrow>
                             (m\<lparr>credentialsByPlayer := gput (credentialsByPlayer m) (pp_ID passport)
                                  (new_credential (pp_ID passport) passwordHash encryptedPassword keyFingerprint)\<rparr>,
                              Inr pp)))))"

definition CreateOfflinePassport ::
  "unicode \<Rightarrow> string \<Rightarrow> string \<Rightarrow> string \<Rightarrow> string \<Rightarrow> time \<Rightarrow> memory \<Rightarrow> memory \<times> Passport result" where
  "CreateOfflinePassport uc rawName passwordHash encryptedPassword keyFingerprint now m =
     (case NormalizeOfflineName uc rawName of Inl e \<Rightarrow> (m, Inl e)
      | Inr name \<Rightarrow>
          if gget (passportByUsername m) (on_Normalized name) \<noteq> None
          then (m, Inl (Err ''offline passport already exists''))
          else
            case NewOfflinePassport uc rawName now of Inl e \<Rightarrow> (m, Inl e)
            | Inr passport \<Rightarrow>
                let passport = passport\<lparr>pp_SkinSource := NormalizePassportSkinSource uc (pp_Kind passport) (pp_SkinSource passport)\<rparr>
                in (m\<lparr>passportsByID := gput (passportsByID m) (pp_ID passport) passport,
                      passportByUsername := gput (passportByUsername m) (pp_UsernameNormalized passport) (pp_ID passport),
                      credentialsByPlayer := gput (credentialsByPlayer m) (pp_ID passport)
                        (new_credential (pp_ID passport) passwordHash encryptedPassword keyFingerprint)\<rparr>,
                    Inr passport))"

definition premium_with_uuid :: "UUID \<Rightarrow> Passport \<Rightarrow> bool" where
  "premium_with_uuid uuid p \<longleftrightarrow> pp_Kind p = PassportKindPremium \<and> UUID_String (pp_UUID p) = UUID_String uuid"

definition UpsertPremiumPassport ::
  "unicode \<Rightarrow> string \<Rightarrow> UUID \<Rightarrow> time \<Rightarrow> memory \<Rightarrow> memory \<times> Passport result" where
  "UpsertPremiumPassport uc name uuid now m =
     (let username = TrimSpace name in
      if username = [] then (m, Inl (Err ''premium name is required''))
      else
        case List.find (\<lambda>(ident, passport). premium_with_uuid uuid passport) (gentries (passportsByID m)) of
          Some (ident, passport) \<Rightarrow>
            let passport = passport\<lparr>pp_Username := username, pp_UsernameNormalized := ToLower uc username,
                  pp_UpdatedAt := now\<rparr>
            in (m\<lparr>passportsByID := gput (passportsByID m) ident passport\<rparr>, Inr passport)
        | None \<Rightarrow>
            let passport = NewPremiumPassport uc username uuid now;
                passport = passport\<lparr>pp_SkinSource := NormalizePassportSkinSource uc (pp_Kind passport) (pp_SkinSource passport)\<rparr>
            in (m\<lparr>passportsByID := gput (passportsByID m) (pp_ID passport) passport\<rparr>, Inr passport))"

definition UpsertPremiumPassportProfile ::
  "unicode \<Rightarrow> string \<Rightarrow> UUID \<Rightarrow> ProfileProperty list \<Rightarrow> time \<Rightarrow> time \<Rightarrow> time \<Rightarrow> byte list option \<Rightarrow>
   memory \<Rightarrow> memory \<times> PassportProfile result" where
  "UpsertPremiumPassportProfile uc name uuid properties now1 now2 now3 rnd m =
     (let protocolName = TrimSpace name in
      if protocolName = [] then (m, Inl (Err ''premium name is required''))
      else
        case gfind (premium_with_uuid uuid) (passportsByID m) of
          Some passport \<Rightarrow>
            let passport = passport\<lparr>pp_Username := protocolName, pp_UsernameNormalized := ToLower uc protocolName,
                  pp_UpdatedAt := now1\<rparr>;
                m = m\<lparr>passportsByID := gput (passportsByID m) (pp_ID passport) passport\<rparr>
            in (case primaryProfileForPassportLocked m (pp_ID passport) of Inl e \<Rightarrow> (m, Inl e)
                | Inr profile \<Rightarrow>
                    let profile = profile\<lparr>pf_ProfileProperties := properties, pf_UpdatedAt := now2\<rparr>;
                        player = PlayerFromPassportProfile passport profile;
                        m = m\<lparr>profilesByID := gput (profilesByID m) (pf_ID profile) profile,
                              playersByID := gput (playersByID m) (pl_ID player) player\<rparr>
                    in (m, Inr \<lparr>lk_Passport = passport, lk_Profile = profile,
                           lk_Link = (case link_of m (pf_ID profile) (pp_ID passport) of
                                        None \<Rightarrow> zero_Link | Some l \<Rightarrow> l)\<rparr>))
        | None \<Rightarrow>
            let passport = NewPremiumPassport uc protocolName uuid now1 in
            (case NormalizeProtocolName uc protocolName of Inl e \<Rightarrow> (m, Inl e)
             | Inr normalizedProfileName \<Rightarrow>
                 (case NewPremiumProfile uc (on_Protocol normalizedProfileName) properties (pp_ID passport) rnd now2 of
                    Inl e \<Rightarrow> (m, Inl e)
                  | Inr profile \<Rightarrow>
                      (case storePassportProfileLocked uc now3 passport profile True m of (m, pp) \<Rightarrow> (m, Inr pp)))))"

definition SetPassportPremiumTextures :: "string \<Rightarrow> ProfileProperty list \<Rightarrow> memory \<Rightarrow> memory" where
  "SetPassportPremiumTextures passportID properties m =
     (if properties = [] then m
      else m\<lparr>premiumTextures := gput (premiumTextures m) passportID properties\<rparr>)"

definition GetPassportPremiumTextures :: "memory \<Rightarrow> string \<Rightarrow> ProfileProperty list" where
  "GetPassportPremiumTextures m passportID =
     (case gget (premiumTextures m) passportID of None \<Rightarrow> [] | Some ps \<Rightarrow> ps)"

definition CreateProfile :: "Profile \<Rightarrow> byte list option \<Rightarrow> time \<Rightarrow> memory \<Rightarrow> memory \<times> Profile result" where
  "CreateProfile profile rnd now m =
     (case (if pf_UUID profile = zero_UUID then RandomProfileUUID rnd else Inr (pf_UUID profile)) of
        Inl e \<Rightarrow> (m, Inl e)
      | Inr uuid \<Rightarrow>
          let profile = profile\<lparr>pf_UUID := uuid, pf_ID := UUID_String uuid,
                pf_Status := (if pf_Status profile = [] then ProfileStatusActive else pf_Status profile),
                pf_SkinSource := (if pf_SkinSource profile = [] then ''passport'' else pf_SkinSource profile),
                pf_CreatedAt := (if IsZero (pf_CreatedAt profile) then now else pf_CreatedAt profile),
                pf_UpdatedAt := now\<rparr>
          in (m\<lparr>profilesByID := gput (profilesByID m) (pf_ID profile) profile\<rparr>, Inr profile))"

definition CreateOfflinePlayer ::
  "unicode \<Rightarrow> string \<Rightarrow> string \<Rightarrow> time \<Rightarrow> time \<Rightarrow> time \<Rightarrow> byte list option \<Rightarrow> memory \<Rightarrow> memory \<times> Player result" where
  "CreateOfflinePlayer uc rawName passwordHash now1 now2 now3 rnd m =
     (case CreateOfflinePassportProfile uc rawName rawName passwordHash [] [] now1 now2 now3 rnd m of
        (m, Inl e) \<Rightarrow> (m, Inl e)
      | (m, Inr pp) \<Rightarrow> (m, Inr (PlayerFromPassportProfileLink pp)))"

definition UpsertPremiumPlayer ::
  "unicode \<Rightarrow> string \<Rightarrow> UUID \<Rightarrow> ProfileProperty list \<Rightarrow> time \<Rightarrow> time \<Rightarrow> time \<Rightarrow> byte list option \<Rightarrow>
   memory \<Rightarrow> memory \<times> Player result" where
  "UpsertPremiumPlayer uc name uuid properties now1 now2 now3 rnd m =
     (case UpsertPremiumPassportProfile uc name uuid properties now1 now2 now3 rnd m of
        (m, Inl e) \<Rightarrow> (m, Inl e)
      | (m, Inr pp) \<Rightarrow> (m, Inr (PlayerFromPassportProfileLink pp)))"

subsection \<open>Binding\<close>

definition name_taken :: "memory \<Rightarrow> string \<Rightarrow> string \<Rightarrow> string \<Rightarrow> bool" where
  "name_taken m passportID profileID normalized =
     list_ex (\<lambda>candidateID. candidateID \<noteq> profileID \<and>
         (case gget (profilesByID m) candidateID of None \<Rightarrow> False
          | Some candidate \<Rightarrow> pf_NormalizedName candidate = normalized))
       (gkeys (profiles_of m passportID))"

definition BindProfileToPassport ::
  "string \<Rightarrow> string \<Rightarrow> bool \<Rightarrow> time \<Rightarrow> memory \<Rightarrow> memory \<times> PassportProfile result" where
  "BindProfileToPassport profileID passportID primary now m =
     (case gget (passportsByID m) passportID of None \<Rightarrow> (m, Inl (NotFound ''passport not found''))
      | Some passport \<Rightarrow>
          (case gget (profilesByID m) profileID of None \<Rightarrow> (m, Inl (NotFound ''profile not found''))
           | Some profile \<Rightarrow>
               if pp_Status passport = PassportStatusDeleted then (m, Inl (Err ''passport is deleted''))
               else if name_taken m passportID profileID (pf_NormalizedName profile)
               then (m, Inl (Err ''profile protocol name already exists for passport''))
               else (case linkProfileLocked now passport profile primary m of (m, pp) \<Rightarrow> (m, Inr pp))))"

definition UnbindProfileFromPassport :: "string \<Rightarrow> string \<Rightarrow> memory \<Rightarrow> memory \<times> unit result" where
  "UnbindProfileFromPassport profileID passportID m =
     unlinkProfileLocked (TrimSpace profileID) (TrimSpace passportID) True m"

fun unlink_all :: "string \<Rightarrow> bool \<Rightarrow> string list \<Rightarrow> memory \<Rightarrow> memory \<times> unit result" where
  "unlink_all profileID promote [] m = (m, Inr ())"
| "unlink_all profileID promote (passportID # ids) m =
     (case unlinkProfileLocked profileID passportID promote m of
        (m, Inl e) \<Rightarrow> (m, Inl e)
      | (m, Inr _) \<Rightarrow> unlink_all profileID promote ids m)"

definition UnbindProfile :: "string \<Rightarrow> memory \<Rightarrow> memory \<times> unit result" where
  "UnbindProfile profileID m =
     (let profileID = TrimSpace profileID; links = links_of m profileID in
      if glen links = 0 then (m, Inl (NotFound ''profile link not found''))
      else unlink_all profileID True (gkeys links) m)"

subsection \<open>Status and identity\<close>

text \<open>The loop that drops a passport from every server's privilege table, and empty tables.\<close>

definition drop_privileges ::
  "string \<Rightarrow> (string, (string, 'v) gomap) gomap \<Rightarrow> (string, (string, 'v) gomap) gomap" where
  "drop_privileges passportID t =
     grange_del (\<lambda>_ rows. glen rows = 0) (grange_set (\<lambda>_ rows. gdel rows passportID) t)"

definition cleanupDeletedPassportReferencesLocked :: "string \<Rightarrow> memory \<Rightarrow> memory" where
  "cleanupDeletedPassportReferencesLocked passportID m =
     (let passportID = TrimSpace passportID in
      if passportID = [] then m
      else m\<lparr>downstreamPrivileges := drop_privileges passportID (downstreamPrivileges m)\<rparr>)"

definition SetPassportStatus ::
  "string \<Rightarrow> PassportStatus \<Rightarrow> time \<Rightarrow> memory \<Rightarrow> memory \<times> Passport result" where
  "SetPassportStatus ident status now m =
     (case gget (passportsByID m) ident of None \<Rightarrow> (m, Inl (NotFound ''passport not found''))
      | Some passport \<Rightarrow>
          let passport = passport\<lparr>pp_Status := status, pp_UpdatedAt := now\<rparr>;
              m = m\<lparr>passportsByID := gput (passportsByID m) ident passport\<rparr>;
              m = (if status = PassportStatusDeleted then cleanupDeletedPassportReferencesLocked ident m else m);
              m = refreshPassportPlayersLocked (pp_ID passport) m
          in (m, Inr passport))"

definition SetProfileStatus ::
  "string \<Rightarrow> ProfileStatus \<Rightarrow> time \<Rightarrow> memory \<Rightarrow> memory \<times> Profile result" where
  "SetProfileStatus ident status now m =
     (case gget (profilesByID m) ident of None \<Rightarrow> (m, Inl (NotFound ''profile not found''))
      | Some profile \<Rightarrow>
          let profile = profile\<lparr>pf_Status := status, pf_UpdatedAt := now\<rparr>;
              m = m\<lparr>profilesByID := gput (profilesByID m) ident profile\<rparr>;
              m = fst (refreshProfilePlayerLocked (pf_ID profile) m)
          in (m, Inr profile))"

definition UpdateProfileIdentity ::
  "unicode \<Rightarrow> string \<Rightarrow> string \<Rightarrow> time \<Rightarrow> memory \<Rightarrow> memory \<times> Profile result" where
  "UpdateProfileIdentity uc ident protocolName now m =
     (case NormalizeProtocolName uc protocolName of Inl e \<Rightarrow> (m, Inl e)
      | Inr name \<Rightarrow>
          (case gget (profilesByID m) (TrimSpace ident) of None \<Rightarrow> (m, Inl (NotFound ''profile not found''))
           | Some profile \<Rightarrow>
               if list_ex (\<lambda>passportID. name_taken m passportID (pf_ID profile) (on_Normalized name))
                    (gkeys (links_of m (pf_ID profile)))
               then (m, Inl (Err ''profile protocol name already exists for passport''))
               else
                 let profile = profile\<lparr>pf_ProtocolName := on_Protocol name, pf_NormalizedName := on_Normalized name,
                       pf_DisplayName := on_Protocol name, pf_UpdatedAt := now\<rparr>;
                     m = m\<lparr>profilesByID := gput (profilesByID m) (pf_ID profile) profile\<rparr>;
                     m = (if 0 < glen (links_of m (pf_ID profile))
                          then fst (refreshProfilePlayerLocked (pf_ID profile) m) else m)
                 in (m, Inr profile)))"

definition SetPlayerLocked :: "string \<Rightarrow> bool \<Rightarrow> time \<Rightarrow> memory \<Rightarrow> memory \<times> Player result" where
  "SetPlayerLocked ident locked now m =
     (case gget (passportsByID m) ident of
        Some passport \<Rightarrow>
          let passport = passport\<lparr>pp_Status := (if locked then PassportStatusLocked else PassportStatusActive),
                pp_UpdatedAt := now\<rparr>;
              m = m\<lparr>passportsByID := gput (passportsByID m) ident passport\<rparr>;
              m = refreshPassportPlayersLocked ident m
          in (case primaryProfileForPassportLocked m ident of Inl e \<Rightarrow> (m, Inl e)
              | Inr profile \<Rightarrow> (m, Inr (PlayerFromPassportProfile passport profile)))
      | None \<Rightarrow>
          (case gget (profilesByID m) ident of None \<Rightarrow> (m, Inl (NotFound ''player not found''))
           | Some profile \<Rightarrow>
               let profile = profile\<lparr>pf_Status := (if locked then ProfileStatusLocked else ProfileStatusActive),
                     pf_UpdatedAt := now\<rparr>;
                   m = m\<lparr>profilesByID := gput (profilesByID m) ident profile\<rparr>
               in (case refreshProfilePlayerLocked ident m of (m, player) \<Rightarrow> (m, Inr player))))"

definition RecordPlayerSeen ::
  "string \<Rightarrow> string \<Rightarrow> string \<Rightarrow> string \<Rightarrow> IPGeo option \<Rightarrow> time \<Rightarrow> memory \<Rightarrow> memory" where
  "RecordPlayerSeen passportID profileID serverID ip geo now m =
     (let passportID = TrimSpace passportID; profileID = TrimSpace profileID;
          serverID = TrimSpace serverID; ip = TrimSpace ip;
          links = links_of m profileID;
          passportID = (if passportID = [] \<and> profileID \<noteq> [] \<and> glen links = 1 then hd (gkeys links) else passportID);
          m = (if passportID = [] then m
               else case gget (passportsByID m) passportID of None \<Rightarrow> m
                 | Some passport \<Rightarrow>
                     m\<lparr>passportsByID := gput (passportsByID m) passportID
                         (passport\<lparr>pp_LastSeenServer := serverID, pp_LastSeenAt := Some now,
                            pp_LastSeenIP := ip, pp_LastSeenGeo := geo, pp_UpdatedAt := now\<rparr>)\<rparr>)
      in
      if profileID \<noteq> [] then
        (case gget (profilesByID m) profileID of None \<Rightarrow> m
         | Some profile \<Rightarrow>
             fst (refreshProfilePlayerLocked profileID
               (m\<lparr>profilesByID := gput (profilesByID m) profileID
                   (profile\<lparr>pf_LastSeenServer := serverID, pf_LastSeenAt := Some now,
                      pf_LastSeenIP := ip, pf_LastSeenGeo := geo, pf_UpdatedAt := now\<rparr>)\<rparr>)))
      else if passportID \<noteq> [] then refreshPassportPlayersLocked passportID m
      else m)"

subsection \<open>Deletion\<close>

text \<open>The presence an action names, when \<open>P\<close> holds of it.\<close>

definition presence_sat :: "memory \<Rightarrow> (PlayerPresence \<Rightarrow> bool) \<Rightarrow> string \<Rightarrow> bool" where
  "presence_sat m P presenceID =
     (case gget (presencesByID m) presenceID of None \<Rightarrow> False | Some presence \<Rightarrow> P presence)"

definition deleteProfileLocked :: "string \<Rightarrow> bool \<Rightarrow> memory \<Rightarrow> memory \<times> Profile result" where
  "deleteProfileLocked profileID promoteReplacement m =
     (case gget (profilesByID m) profileID of None \<Rightarrow> (m, Inl (NotFound ''profile not found''))
      | Some profile \<Rightarrow>
          let ofProfile = (\<lambda>presence. pc_ProfileID presence = profileID);
              gone = presence_sat m ofProfile;
              passportIDs = gkeys (links_of m profileID);
              m = m\<lparr>presencesByID := grange_del (\<lambda>_. ofProfile) (presencesByID m)\<rparr>
          in
          case unlink_all profileID promoteReplacement passportIDs m of
            (m, Inl e) \<Rightarrow> (m, Inl e)
          | (m, Inr _) \<Rightarrow>
              (m\<lparr>profilesByID := gdel (profilesByID m) profileID,
                 profileSkins := gdel (profileSkins m) profileID,
                 playersByID := gdel (playersByID m) profileID,
                 sessionsByID := grange_set (\<lambda>_ s. if se_SelectedProfileID s = profileID
                     then s\<lparr>se_SelectedProfileID := []\<rparr> else s) (sessionsByID m),
                 transferGrants := grange_del (\<lambda>_ g. tg_PlayerID g = profileID) (transferGrants m),
                 extensionData := grange_del (\<lambda>_ d. ed_PlayerID d = profileID) (extensionData m),
                 bansByID := grange_del (\<lambda>_ b. ba_Scope b = BanScopeProfile \<and> ba_TargetID b = profileID) (bansByID m),
                 nodeActionsByID := grange_del (\<lambda>_ a. na_ProfileID a = profileID \<or>
                     na_UUID a = UUID_String (pf_UUID profile) \<or> gone (na_PresenceID a)) (nodeActionsByID m)\<rparr>,
               Inr profile))"

definition DeleteProfile :: "string \<Rightarrow> memory \<Rightarrow> memory \<times> Profile result" where
  "DeleteProfile ident m = deleteProfileLocked (TrimSpace ident) True m"

text \<open>The loop of \<^verbatim>\<open>DeletePassport\<close> over the passport's profiles.\<close>

fun drop_profiles :: "string \<Rightarrow> string list \<Rightarrow> memory \<Rightarrow> memory \<times> unit result" where
  "drop_profiles passportID [] m = (m, Inr ())"
| "drop_profiles passportID (profileID # ids) m =
     (if glen (links_of m profileID) = 1 then
        (case deleteProfileLocked profileID False m of
           (m, Inl e) \<Rightarrow> (m, Inl e)
         | (m, Inr _) \<Rightarrow> drop_profiles passportID ids m)
      else
        (case unlinkProfileLocked profileID passportID False m of
           (m, Inl e) \<Rightarrow> (m, Inl e)
         | (m, Inr _) \<Rightarrow> drop_profiles passportID ids m))"

definition purge_passport :: "string \<Rightarrow> Passport \<Rightarrow> memory \<Rightarrow> memory" where
  "purge_passport passportID passport m =
     (let ofPassport = (\<lambda>presence. pc_PassportID presence = passportID);
          gone = presence_sat m ofPassport
      in
      m\<lparr>profilesByPassport := gdel (profilesByPassport m) passportID,
        passportsByID := gdel (passportsByID m) passportID,
        passportByUsername := gdel (passportByUsername m) (pp_UsernameNormalized passport),
        credentialsByPlayer := gdel (credentialsByPlayer m) passportID,
        passportSkins := gdel (passportSkins m) passportID,
        premiumTextures := gdel (premiumTextures m) passportID,
        sessionsByID := grange_del (\<lambda>_ s. se_Kind s = SessionPlayer \<and> se_SubjectID s = passportID) (sessionsByID m),
        portalLinksByToken := grange_del (\<lambda>_ l. li_PlayerID l = passportID) (portalLinksByToken m),
        bansByID := grange_del (\<lambda>_ b. ba_Scope b = BanScopePassport \<and> ba_TargetID b = passportID) (bansByID m),
        presencesByID := grange_del (\<lambda>_. ofPassport) (presencesByID m),
        nodeActionsByID := grange_del (\<lambda>_ a. na_PassportID a = passportID \<or> gone (na_PresenceID a)) (nodeActionsByID m),
        transferGrants := grange_del (\<lambda>_ g. tg_PassportID g = passportID) (transferGrants m),
        portalAuthCache := grange_del (\<lambda>_ c. ac_PassportID c = passportID) (portalAuthCache m),
        downstreamPrivileges := drop_privileges passportID (downstreamPrivileges m)\<rparr>)"

definition DeletePassport :: "string \<Rightarrow> memory \<Rightarrow> memory \<times> Passport result" where
  "DeletePassport ident m =
     (let passportID = TrimSpace ident in
      case gget (passportsByID m) passportID of None \<Rightarrow> (m, Inl (NotFound ''passport not found''))
      | Some passport \<Rightarrow>
          (case drop_profiles passportID (gkeys (profiles_of m passportID)) m of
             (m, Inl e) \<Rightarrow> (m, Inl e)
           | (m, Inr _) \<Rightarrow> (purge_passport passportID passport m, Inr passport)))"

definition FactoryResetPlayerData :: "memory \<Rightarrow> memory" where
  "FactoryResetPlayerData m =
     m\<lparr>passportsByID := gempty, profilesByID := gempty, passportByUsername := gempty,
       profileLinks := gempty, profilesByPassport := gempty, playersByID := gempty,
       offlineByNormalized := gempty, credentialsByPlayer := gempty,
       sessionsByID := grange_del (\<lambda>_ s. se_Kind s = SessionPlayer) (sessionsByID m),
       portalLinksByToken := gempty, auditEvents := [], presencesByID := gempty, bansByID := gempty,
       nodeActionsByID := grange_del (\<lambda>_ a. na_PassportID a \<noteq> [] \<or> na_ProfileID a \<noteq> [] \<or> na_PresenceID a \<noteq> [])
         (nodeActionsByID m),
       downstreamPrivileges := gempty, downstreamStatus := gempty, profileSkins := gempty,
       premiumTextures := gempty, passportSkins := gempty, transferGrants := gempty,
       extensionData := gempty\<rparr>"

subsection \<open>Skins\<close>

definition GetProfileSkin :: "memory \<Rightarrow> string \<Rightarrow> ProfileSkin result" where
  "GetProfileSkin m profileID =
     (case gget (profileSkins m) (TrimSpace profileID) of
        None \<Rightarrow> Inl (NotFound ''profile skin not found'') | Some skin \<Rightarrow> Inr skin)"

definition SetProfileSkin ::
  "string \<Rightarrow> ProfileSkin \<Rightarrow> ProfileProperty list \<Rightarrow> time \<Rightarrow> memory \<Rightarrow> memory \<times> Profile result" where
  "SetProfileSkin profileID skin properties now m =
     (let profileID = TrimSpace profileID in
      case gget (profilesByID m) profileID of None \<Rightarrow> (m, Inl (NotFound ''profile not found''))
      | Some profile \<Rightarrow>
          let skin = skin\<lparr>sk_ProfileID := profileID,
                sk_Model := (if sk_Model skin \<noteq> ''slim'' then ''wide'' else sk_Model skin),
                sk_SkinContentType := (if sk_SkinContentType skin = [] then ''image/png'' else sk_SkinContentType skin),
                sk_CreatedAt := (if IsZero (sk_CreatedAt skin) then now else sk_CreatedAt skin),
                sk_UpdatedAt := now\<rparr>;
              profile = profile\<lparr>pf_SkinSource := ''custom'', pf_ProfileProperties := properties, pf_UpdatedAt := now\<rparr>;
              m = m\<lparr>profileSkins := gput (profileSkins m) profileID skin,
                    profilesByID := gput (profilesByID m) profileID profile\<rparr>
          in (fst (refreshProfilePlayerLocked profileID m), Inr profile))"

definition DeleteProfileSkin ::
  "string \<Rightarrow> ProfileProperty list \<Rightarrow> string \<Rightarrow> time \<Rightarrow> memory \<Rightarrow> memory \<times> Profile result" where
  "DeleteProfileSkin profileID properties skinSource now m =
     (let profileID = TrimSpace profileID in
      case gget (profilesByID m) profileID of None \<Rightarrow> (m, Inl (NotFound ''profile not found''))
      | Some profile \<Rightarrow>
          let skinSource = (if skinSource \<noteq> ''mojang'' then ''none'' else skinSource);
              profile = profile\<lparr>pf_SkinSource := skinSource, pf_ProfileProperties := properties, pf_UpdatedAt := now\<rparr>;
              m = m\<lparr>profileSkins := gdel (profileSkins m) profileID,
                    profilesByID := gput (profilesByID m) profileID profile\<rparr>
          in (fst (refreshProfilePlayerLocked profileID m), Inr profile))"

definition SetProfileSkinSource ::
  "string \<Rightarrow> string \<Rightarrow> ProfileProperty list \<Rightarrow> time \<Rightarrow> memory \<Rightarrow> memory \<times> Profile result" where
  "SetProfileSkinSource profileID skinSource properties now m =
     (let profileID = TrimSpace profileID in
      case gget (profilesByID m) profileID of None \<Rightarrow> (m, Inl (NotFound ''profile not found''))
      | Some profile \<Rightarrow>
          let source = (if TrimSpace skinSource \<in> {''passport'', ''mojang'', ''custom'', ''none''}
                        then TrimSpace skinSource else ''passport'');
              profile = profile\<lparr>pf_SkinSource := source, pf_ProfileProperties := properties, pf_UpdatedAt := now\<rparr>;
              m = m\<lparr>profilesByID := gput (profilesByID m) profileID profile\<rparr>
          in (fst (refreshProfilePlayerLocked profileID m), Inr profile))"

definition GetPassportSkin :: "memory \<Rightarrow> string \<Rightarrow> PassportSkin result" where
  "GetPassportSkin m passportID =
     (case gget (passportSkins m) (TrimSpace passportID) of
        None \<Rightarrow> Inl (NotFound ''passport skin not found'') | Some skin \<Rightarrow> Inr skin)"

definition SetPassportSkin ::
  "string \<Rightarrow> PassportSkin \<Rightarrow> time \<Rightarrow> memory \<Rightarrow> memory \<times> Passport result" where
  "SetPassportSkin passportID skin now m =
     (let passportID = TrimSpace passportID in
      case gget (passportsByID m) passportID of None \<Rightarrow> (m, Inl (NotFound ''passport not found''))
      | Some passport \<Rightarrow>
          let skin = skin\<lparr>ps_PassportID := passportID,
                ps_Model := (if ps_Model skin \<noteq> ''slim'' then ''wide'' else ps_Model skin),
                ps_SkinContentType := (if ps_SkinContentType skin = [] then ''image/png'' else ps_SkinContentType skin),
                ps_CreatedAt := (if IsZero (ps_CreatedAt skin) then now else ps_CreatedAt skin),
                ps_UpdatedAt := now\<rparr>;
              passport = passport\<lparr>pp_SkinSource := PassportSkinSourceCustom, pp_UpdatedAt := now\<rparr>
          in (m\<lparr>passportSkins := gput (passportSkins m) passportID skin,
                passportsByID := gput (passportsByID m) passportID passport\<rparr>, Inr passport))"

definition SetPassportSkinSource ::
  "unicode \<Rightarrow> string \<Rightarrow> string \<Rightarrow> time \<Rightarrow> memory \<Rightarrow> memory \<times> Passport result" where
  "SetPassportSkinSource uc passportID skinSource now m =
     (let passportID = TrimSpace passportID in
      case gget (passportsByID m) passportID of None \<Rightarrow> (m, Inl (NotFound ''passport not found''))
      | Some passport \<Rightarrow>
          let passport = passport\<lparr>pp_SkinSource := NormalizePassportSkinSource uc (pp_Kind passport) skinSource,
                pp_UpdatedAt := now\<rparr>
          in (m\<lparr>passportsByID := gput (passportsByID m) passportID passport\<rparr>, Inr passport))"

definition DeletePassportSkin :: "string \<Rightarrow> time \<Rightarrow> memory \<Rightarrow> memory \<times> Passport result" where
  "DeletePassportSkin passportID now m =
     (let passportID = TrimSpace passportID in
      case gget (passportsByID m) passportID of None \<Rightarrow> (m, Inl (NotFound ''passport not found''))
      | Some passport \<Rightarrow>
          let passport = passport\<lparr>pp_SkinSource := PassportSkinSourceUpstream, pp_UpdatedAt := now\<rparr>
          in (m\<lparr>passportSkins := gdel (passportSkins m) passportID,
                passportsByID := gput (passportsByID m) passportID passport\<rparr>, Inr passport))"

end
