(* ===== verification/StoreAccess.thy ===== *)
theory StoreAccess
  imports StorePlayers
begin

text \<open>
  Offline credentials with their lock-out, the portal authentication cache, and the look-ups of
  the identity tables.  \<^verbatim>\<open>GetPassportCredential\<close> and \<^verbatim>\<open>GetOfflineCredential\<close> take the lock several
  times, so they take one state per critical section: other operations may run in between.
\<close>

subsection \<open>Credentials\<close>

text \<open>The only key of a map of one entry, which the loop of the source returns.\<close>

definition passportIDForCredentialLocked :: "memory \<Rightarrow> string \<Rightarrow> string" where
  "passportIDForCredentialLocked m ident =
     (if gget (credentialsByPlayer m) ident \<noteq> None then ident
      else
        let links = links_of m ident in
        if glen links = 1 then hd (gkeys links) else ident)"

definition passportCredentialFromOffline :: "OfflineCredential \<Rightarrow> PassportCredential" where
  "passportCredentialFromOffline c =
     \<lparr>pa_PassportID = (if oc_PassportID c = [] then oc_PlayerID c else oc_PassportID c),
      pa_PasswordHash = oc_PasswordHash c, pa_EncryptedPassword = oc_EncryptedPassword c,
      pa_PasswordKeyFingerprint = oc_PasswordKeyFingerprint c, pa_PasswordUpdatedAt = oc_PasswordUpdatedAt c,
      pa_FailedAttempts = oc_FailedAttempts c, pa_LockedUntil = oc_LockedUntil c\<rparr>"

definition RecordOfflineLoginFailure :: "string \<Rightarrow> time \<Rightarrow> memory \<Rightarrow> memory \<times> OfflineCredential result" where
  "RecordOfflineLoginFailure playerID now m =
     (let passportID = passportIDForCredentialLocked m playerID in
      case gget (credentialsByPlayer m) passportID of
        None \<Rightarrow> (m, Inl (NotFound ''offline credential not found''))
      | Some c \<Rightarrow>
          let c = c\<lparr>oc_FailedAttempts := oc_FailedAttempts c + 1\<rparr>;
              c = (if 5 \<le> oc_FailedAttempts c then c\<lparr>oc_LockedUntil := Some (now + 15 * Minute)\<rparr> else c);
              c = c\<lparr>oc_PlayerID := passportID, oc_PassportID := passportID\<rparr>
          in (m\<lparr>credentialsByPlayer := gput (credentialsByPlayer m) passportID c\<rparr>, Inr c))"

definition RecordOfflineLoginSuccess :: "string \<Rightarrow> memory \<Rightarrow> memory \<times> unit result" where
  "RecordOfflineLoginSuccess playerID m =
     (let passportID = passportIDForCredentialLocked m playerID in
      case gget (credentialsByPlayer m) passportID of
        None \<Rightarrow> (m, Inl (NotFound ''offline credential not found''))
      | Some c \<Rightarrow>
          let c = c\<lparr>oc_FailedAttempts := 0, oc_LockedUntil := None, oc_PlayerID := passportID,
                oc_PassportID := passportID\<rparr>
          in (m\<lparr>credentialsByPlayer := gput (credentialsByPlayer m) passportID c\<rparr>, Inr ()))"

definition RecordPassportLoginFailure :: "string \<Rightarrow> time \<Rightarrow> memory \<Rightarrow> memory \<times> PassportCredential result" where
  "RecordPassportLoginFailure passportID now m =
     (case RecordOfflineLoginFailure passportID now m of
        (m, Inl e) \<Rightarrow> (m, Inl e) | (m, Inr c) \<Rightarrow> (m, Inr (passportCredentialFromOffline c)))"

definition RecordPassportLoginSuccess :: "string \<Rightarrow> memory \<Rightarrow> memory \<times> unit result" where
  "RecordPassportLoginSuccess passportID m = RecordOfflineLoginSuccess passportID m"

definition UpdateOfflinePassword ::
  "string \<Rightarrow> string \<Rightarrow> string \<Rightarrow> string \<Rightarrow> time \<Rightarrow> memory \<Rightarrow> memory \<times> unit result" where
  "UpdateOfflinePassword ident passwordHash encryptedPassword keyFingerprint now m =
     (let links = links_of m ident in
      if gget (passportsByID m) ident = None \<and> glen links \<noteq> 1 then (m, Inl (NotFound ''player not found''))
      else
        let passportID = (if gget (passportsByID m) ident = None then hd (gkeys links) else ident) in
        if pp_Kind (passport_at m passportID) \<noteq> PassportKindOffline
        then (m, Inl (Err ''player is not offline''))
        else
          let c = (case gget (credentialsByPlayer m) passportID of None \<Rightarrow> zero_OfflineCredential | Some c \<Rightarrow> c);
              c = c\<lparr>oc_PlayerID := passportID, oc_PassportID := passportID, oc_PasswordHash := passwordHash,
                oc_EncryptedPassword := encryptedPassword, oc_PasswordKeyFingerprint := keyFingerprint,
                oc_PasswordUpdatedAt := Some now, oc_FailedAttempts := 0, oc_LockedUntil := None\<rparr>
          in (m\<lparr>credentialsByPlayer := gput (credentialsByPlayer m) passportID c,
                portalAuthCache := grange_del (\<lambda>key _. HasPrefix key (passportID @ [CHR 0x00])) (portalAuthCache m)\<rparr>,
              Inr ()))"

definition UpdatePassportPassword ::
  "string \<Rightarrow> string \<Rightarrow> string \<Rightarrow> string \<Rightarrow> time \<Rightarrow> memory \<Rightarrow> memory \<times> unit result" where
  "UpdatePassportPassword passportID = UpdateOfflinePassword passportID"

definition SetPassportPasswordRecovery ::
  "string \<Rightarrow> string \<Rightarrow> string \<Rightarrow> time \<Rightarrow> memory \<Rightarrow> memory \<times> unit result" where
  "SetPassportPasswordRecovery passportID encryptedPassword keyFingerprint now m =
     (let passportID = passportIDForCredentialLocked m passportID in
      case gget (credentialsByPlayer m) passportID of
        None \<Rightarrow> (m, Inl (NotFound ''offline credential not found''))
      | Some c \<Rightarrow>
          let c = c\<lparr>oc_PlayerID := passportID, oc_PassportID := passportID,
                oc_EncryptedPassword := encryptedPassword, oc_PasswordKeyFingerprint := keyFingerprint,
                oc_PasswordUpdatedAt := Some now\<rparr>
          in (m\<lparr>credentialsByPlayer := gput (credentialsByPlayer m) passportID c\<rparr>, Inr ()))"

subsection \<open>The portal authentication cache\<close>

definition portalAuthCacheKey :: "string \<Rightarrow> string \<Rightarrow> string" where
  "portalAuthCacheKey passportID remoteIP = TrimSpace passportID @ [CHR 0x00] @ TrimSpace remoteIP"

definition RememberPortalAuthCache ::
  "string \<Rightarrow> string \<Rightarrow> duration \<Rightarrow> time \<Rightarrow> memory \<Rightarrow> memory \<times> PortalAuthCache result" where
  "RememberPortalAuthCache passportID remoteIP ttl now m =
     (let passportID = TrimSpace passportID; remoteIP = TrimSpace remoteIP in
      if passportID = [] \<or> remoteIP = []
      then (m, Inl (Err ''portal auth cache passport and remote ip are required''))
      else if ttl \<le> 0 then (m, Inl (Err ''portal auth cache ttl must be positive''))
      else if gget (passportsByID m) passportID = None then (m, Inl (NotFound ''passport not found''))
      else
        let key = portalAuthCacheKey passportID remoteIP;
            cache = \<lparr>ac_PassportID = passportID, ac_RemoteIP = remoteIP,
              ac_CreatedAt = (case gget (portalAuthCache m) key of None \<Rightarrow> now | Some e \<Rightarrow> ac_CreatedAt e),
              ac_LastUsedAt = now, ac_ExpiresAt = now + ttl\<rparr>
        in (m\<lparr>portalAuthCache := gput (portalAuthCache m) key cache\<rparr>, Inr cache))"

definition UsePortalAuthCache ::
  "string \<Rightarrow> string \<Rightarrow> time \<Rightarrow> memory \<Rightarrow> memory \<times> PortalAuthCache option" where
  "UsePortalAuthCache passportID remoteIP now m =
     (let passportID = TrimSpace passportID; remoteIP = TrimSpace remoteIP in
      if passportID = [] \<or> remoteIP = [] then (m, None)
      else
        let key = portalAuthCacheKey passportID remoteIP in
        case gget (portalAuthCache m) key of
          None \<Rightarrow> (m\<lparr>portalAuthCache := gdel (portalAuthCache m) key\<rparr>, None)
        | Some cache \<Rightarrow>
            if \<not> Before now (ac_ExpiresAt cache)
            then (m\<lparr>portalAuthCache := gdel (portalAuthCache m) key\<rparr>, None)
            else
              let cache = cache\<lparr>ac_LastUsedAt := now\<rparr>
              in (m\<lparr>portalAuthCache := gput (portalAuthCache m) key cache\<rparr>, Some cache))"

subsection \<open>Look-ups\<close>

definition GetPassportByID :: "memory \<Rightarrow> string \<Rightarrow> Passport result" where
  "GetPassportByID m ident =
     (case gget (passportsByID m) ident of None \<Rightarrow> Inl (NotFound ''passport not found'') | Some p \<Rightarrow> Inr p)"

definition GetPassportByUsername :: "unicode \<Rightarrow> memory \<Rightarrow> string \<Rightarrow> Passport result" where
  "GetPassportByUsername uc m username =
     (case NormalizeOfflineName uc username of Inl e \<Rightarrow> Inl e
      | Inr name \<Rightarrow>
          (case gget (passportByUsername m) (on_Normalized name) of
             None \<Rightarrow> Inl (NotFound ''passport not found'')
           | Some ident \<Rightarrow> Inr (passport_at m ident)))"

definition GetProfileByID :: "memory \<Rightarrow> string \<Rightarrow> Profile result" where
  "GetProfileByID m ident =
     (case gget (profilesByID m) ident of None \<Rightarrow> Inl (NotFound ''profile not found'') | Some p \<Rightarrow> Inr p)"

text \<open>The loop stops at the second match.\<close>

definition unique_match :: "string \<Rightarrow> string \<Rightarrow> 'a list \<Rightarrow> 'a result" where
  "unique_match ambiguous missing ms =
     (case ms of [] \<Rightarrow> Inl (NotFound missing) | [x] \<Rightarrow> Inr x | _ \<Rightarrow> Inl (NotFound ambiguous))"

definition GetProfileByProtocolName :: "unicode \<Rightarrow> memory \<Rightarrow> string \<Rightarrow> Profile result" where
  "GetProfileByProtocolName uc m protocolName =
     (if ToLower uc (TrimSpace protocolName) = [] then Inl (Err ''protocol name is required'')
      else unique_match ''profile protocol name is ambiguous'' ''profile not found''
        (filter (\<lambda>p. EqualFold uc (pf_ProtocolName p) protocolName) (gvals (profilesByID m))))"

definition GetPassportForProfile :: "memory \<Rightarrow> string \<Rightarrow> Passport result" where
  "GetPassportForProfile m profileID =
     (case referenceProfileLinkLocked m profileID of
        None \<Rightarrow> Inl (NotFound ''profile link not found'')
      | Some link \<Rightarrow>
          (case gget (passportsByID m) (ln_PassportID link) of
             None \<Rightarrow> Inl (NotFound ''passport not found'') | Some p \<Rightarrow> Inr p))"

definition GetProfilePassportBinding :: "memory \<Rightarrow> string \<Rightarrow> string \<Rightarrow> ProfilePassportBinding result" where
  "GetProfilePassportBinding m profileID passportID =
     (case link_of m (TrimSpace profileID) (TrimSpace passportID) of
        None \<Rightarrow> Inl (NotFound ''profile link not found'')
      | Some link \<Rightarrow>
          (case gget (passportsByID m) (ln_PassportID link) of
             None \<Rightarrow> Inl (NotFound ''passport not found'')
           | Some p \<Rightarrow> Inr \<lparr>bi_Passport = p, bi_Link = link\<rparr>))"

definition ListPassportsForProfile :: "memory \<Rightarrow> string \<Rightarrow> ProfilePassportBinding list" where
  "ListPassportsForProfile m profileID =
     sort_by (\<lambda>a b. if ln_LinkedAt (bi_Link a) = ln_LinkedAt (bi_Link b)
          then pp_ID (bi_Passport a) < pp_ID (bi_Passport b)
          else Before (ln_LinkedAt (bi_Link a)) (ln_LinkedAt (bi_Link b)))
       (List.map_filter (\<lambda>(passportID, link).
          map_option (\<lambda>p. \<lparr>bi_Passport = p, bi_Link = link\<rparr>) (gget (passportsByID m) passportID))
        (gentries (links_of m (TrimSpace profileID))))"

definition GetPrimaryProfileForPassport :: "memory \<Rightarrow> string \<Rightarrow> Profile result" where
  "GetPrimaryProfileForPassport m passportID = primaryProfileForPassportLocked m passportID"

definition link_primary :: "memory \<Rightarrow> string \<Rightarrow> string \<Rightarrow> bool" where
  "link_primary m profileID passportID =
     (case link_of m profileID passportID of None \<Rightarrow> False | Some l \<Rightarrow> ln_IsPrimary l)"

definition ListProfilesForPassport :: "memory \<Rightarrow> string \<Rightarrow> Profile list" where
  "ListProfilesForPassport m passportID =
     sort_by (\<lambda>a b.
         let pi = link_primary m (pf_ID a) passportID; pj = link_primary m (pf_ID b) passportID in
         if pi \<noteq> pj then pi else pf_ProtocolName a < pf_ProtocolName b)
       (List.map_filter (gget (profilesByID m)) (gkeys (profiles_of m passportID)))"

definition ListPassports :: "memory \<Rightarrow> Passport list" where
  "ListPassports m = gvals (passportsByID m)"

definition ListProfiles :: "memory \<Rightarrow> Profile list" where
  "ListProfiles m = gvals (profilesByID m)"

definition ListPlayers :: "memory \<Rightarrow> Player list" where
  "ListPlayers m = gvals (playersByID m)"

definition GetPremiumPassportByUsername :: "unicode \<Rightarrow> memory \<Rightarrow> string \<Rightarrow> Passport result" where
  "GetPremiumPassportByUsername uc m username =
     (let normalized = ToLower uc (TrimSpace username) in
      if normalized = [] then Inl (Err ''username is required'')
      else case gfind (\<lambda>p. pp_Kind p = PassportKindPremium \<and> pp_UsernameNormalized p = normalized) (passportsByID m) of
        Some p \<Rightarrow> Inr p | None \<Rightarrow> Inl (NotFound ''passport not found''))"

definition GetOfflinePlayer :: "unicode \<Rightarrow> memory \<Rightarrow> string \<Rightarrow> Player result" where
  "GetOfflinePlayer uc m rawName =
     (case NormalizeOfflineName uc rawName of Inl e \<Rightarrow> Inl e
      | Inr name \<Rightarrow>
          (case gget (offlineByNormalized m) (on_Normalized name) of
             None \<Rightarrow> Inl (NotFound ''offline player not found'')
           | Some ident \<Rightarrow> Inr (case gget (playersByID m) ident of None \<Rightarrow> zero_Player | Some p \<Rightarrow> p)))"

definition GetPlayerByProtocolName :: "unicode \<Rightarrow> memory \<Rightarrow> string \<Rightarrow> Player result" where
  "GetPlayerByProtocolName uc m protocolName =
     (if ToLower uc (TrimSpace protocolName) = [] then Inl (Err ''protocol name is required'')
      else unique_match ''player protocol name is ambiguous'' ''player not found''
        (filter (\<lambda>p. EqualFold uc (pl_ProtocolName p) protocolName) (gvals (playersByID m))))"

definition PremiumNameExists :: "unicode \<Rightarrow> memory \<Rightarrow> string \<Rightarrow> bool" where
  "PremiumNameExists uc m rawName =
     (case NormalizeOfflineName uc rawName of Inl e \<Rightarrow> False
      | Inr name \<Rightarrow>
          gfind (\<lambda>p. pp_Kind p = PassportKindPremium
              \<and> EqualFold uc (pp_UsernameNormalized p) (on_Normalized name)) (passportsByID m) \<noteq> None)"

definition GetPlayerByID :: "memory \<Rightarrow> string \<Rightarrow> Player result" where
  "GetPlayerByID m ident =
     (case gget (playersByID m) ident of
        Some player \<Rightarrow> Inr player
      | None \<Rightarrow>
          (case gget (passportsByID m) ident of
             None \<Rightarrow> Inl (NotFound ''player not found'')
           | Some passport \<Rightarrow>
               (case primaryProfileForPassportLocked m ident of Inl e \<Rightarrow> Inl e
                | Inr profile \<Rightarrow> Inr (PlayerFromPassportProfile passport profile))))"

definition GetPassportCredential ::
  "unicode \<Rightarrow> memory \<Rightarrow> memory \<Rightarrow> string \<Rightarrow> (Passport \<times> PassportCredential) result" where
  "GetPassportCredential uc m1 m2 username =
     (case GetPassportByUsername uc m1 username of Inl e \<Rightarrow> Inl e
      | Inr passport \<Rightarrow>
          (case gget (credentialsByPlayer m2) (pp_ID passport) of
             None \<Rightarrow> Inl (NotFound ''passport credential not found'')
           | Some c \<Rightarrow> Inr (passport, passportCredentialFromOffline c)))"

definition GetOfflineCredential ::
  "unicode \<Rightarrow> memory \<Rightarrow> memory \<Rightarrow> memory \<Rightarrow> string \<Rightarrow> (Player \<times> OfflineCredential) result" where
  "GetOfflineCredential uc m1 m2 m3 rawName =
     (case GetOfflinePlayer uc m1 rawName of Inl e \<Rightarrow> Inl e
      | Inr player \<Rightarrow>
          (case GetPassportForProfile m2 (pl_ID player) of Inl e \<Rightarrow> Inl e
           | Inr passport \<Rightarrow>
               (case gget (credentialsByPlayer m3) (pp_ID passport) of
                  None \<Rightarrow> Inl (NotFound ''offline credential not found'')
                | Some c \<Rightarrow> Inr (player, c))))"

subsection \<open>Paged listings\<close>

definition compareOptionalTime :: "time option \<Rightarrow> time option \<Rightarrow> int" where
  "compareOptionalTime a b =
     (case a of
        None \<Rightarrow> (case b of None \<Rightarrow> 0 | Some _ \<Rightarrow> - 1)
      | Some s \<Rightarrow> (case b of None \<Rightarrow> 1 | Some t \<Rightarrow> if s = t then 0 else if Before s t then - 1 else 1))"

definition compareTimeDesc :: "time \<Rightarrow> time \<Rightarrow> int" where
  "compareTimeDesc a b = (if a = b then 0 else if After a b then - 1 else 1)"

definition compareStrings :: "string \<Rightarrow> string \<Rightarrow> int" where
  "compareStrings a b = (if a = b then 0 else if a < b then - 1 else 1)"

definition sortPassportsPage :: "unicode \<Rightarrow> string \<Rightarrow> string \<Rightarrow> Passport list \<Rightarrow> Passport list" where
  "sortPassportsPage uc key dir =
     sort_by (\<lambda>a b.
       let cmp =
         (if key = ''username'' then compareStrings (ToLower uc (pp_Username a)) (ToLower uc (pp_Username b))
          else if key = ''kind'' then compareStrings (pp_Kind a) (pp_Kind b)
          else if key = ''status'' then compareStrings (pp_Status a) (pp_Status b)
          else if key = ''uuid'' then compareStrings (UUID_String (pp_UUID a)) (UUID_String (pp_UUID b))
          else if key = ''lastSeen'' then compareOptionalTime (pp_LastSeenAt a) (pp_LastSeenAt b)
          else compareTimeDesc (pp_CreatedAt a) (pp_CreatedAt b))
       in if dir = ''desc'' then 0 < cmp else cmp < 0)"

definition sortProfilesPage :: "unicode \<Rightarrow> string \<Rightarrow> string \<Rightarrow> Profile list \<Rightarrow> Profile list" where
  "sortProfilesPage uc key dir =
     sort_by (\<lambda>a b.
       let cmp =
         (if key = ''protocol'' then compareStrings (ToLower uc (pf_ProtocolName a)) (ToLower uc (pf_ProtocolName b))
          else if key = ''uuid'' then compareStrings (UUID_String (pf_UUID a)) (UUID_String (pf_UUID b))
          else if key = ''status'' then compareStrings (pf_Status a) (pf_Status b)
          else if key = ''lastSeen'' then compareOptionalTime (pf_LastSeenAt a) (pf_LastSeenAt b)
          else compareStrings (ToLower uc (pf_ProtocolName a)) (ToLower uc (pf_ProtocolName b)))
       in if dir = ''desc'' then 0 < cmp else cmp < 0)"

text \<open>The bounds of a page, with the wrap-around of the 64-bit product and sum.\<close>

definition listQueryBounds :: "int \<Rightarrow> int \<Rightarrow> int \<Rightarrow> int \<times> int" where
  "listQueryBounds len page pageSize =
     (let page = (if page \<le> 0 then 1 else page);
          pageSize = (if pageSize \<le> 0 then 25 else if 100 < pageSize then 100 else pageSize);
          start = wrap64 ((page - 1) * pageSize)
      in if len \<le> start then (len, len)
         else let stop = wrap64 (start + pageSize) in (start, if len < stop then len else stop))"

text \<open>\<^verbatim>\<open>xs[start:end]\<close>, \<open>None\<close> where the source panics.\<close>

definition slice_of :: "'a list \<Rightarrow> int \<times> int \<Rightarrow> 'a list option" where
  "slice_of xs b =
     (case b of (start, stop) \<Rightarrow>
        if 0 \<le> start \<and> start \<le> stop \<and> stop \<le> int (length xs)
        then Some (take (nat stop - nat start) (drop (nat start) xs)) else None)"

definition passport_matches :: "unicode \<Rightarrow> IdentityListQuery \<Rightarrow> Passport \<Rightarrow> bool" where
  "passport_matches uc query p =
     (let search = ToLower uc (TrimSpace (iq_Search query)) in
      (iq_Kind query = [] \<or> pp_Kind p = iq_Kind query) \<and>
      (iq_Status query = [] \<or> pp_Status p = iq_Status query) \<and>
      (search = [] \<or>
       list_ex (\<lambda>s. Contains (ToLower uc s) search)
         [pp_ID p, pp_Username p, pp_UsernameNormalized p, UUID_String (pp_UUID p), UUID_Compact (pp_UUID p)]))"

definition ListPassportsPage ::
  "unicode \<Rightarrow> memory \<Rightarrow> IdentityListQuery \<Rightarrow> (Passport list \<times> nat) option" where
  "ListPassportsPage uc m query =
     (let filtered = sortPassportsPage uc (iq_Sort query) (iq_Dir query)
            (filter (passport_matches uc query) (gvals (passportsByID m)))
      in map_option (\<lambda>rows. (rows, length filtered))
           (slice_of filtered (listQueryBounds (int (length filtered)) (iq_Page query) (iq_PageSize query))))"

definition profile_matches :: "unicode \<Rightarrow> memory \<Rightarrow> IdentityListQuery \<Rightarrow> Profile \<Rightarrow> bool" where
  "profile_matches uc m query p =
     (let search = ToLower uc (TrimSpace (iq_Search query));
          bound = (0 < glen (links_of m (pf_ID p)))
      in
      (iq_Status query = [] \<or> pf_Status p = iq_Status query) \<and>
      \<not> (iq_Binding query = ''bound'' \<and> \<not> bound) \<and>
      \<not> (iq_Binding query = ''unbound'' \<and> bound) \<and>
      (search = [] \<or>
       list_ex (\<lambda>s. Contains (ToLower uc s) search)
         [pf_ID p, pf_ProtocolName p, pf_NormalizedName p, UUID_String (pf_UUID p), UUID_Compact (pf_UUID p)] \<or>
       list_ex (\<lambda>passportID. Contains (ToLower uc (pp_Username (passport_at m passportID))) search)
         (gkeys (links_of m (pf_ID p)))))"

definition ListProfilesPage ::
  "unicode \<Rightarrow> memory \<Rightarrow> IdentityListQuery \<Rightarrow> (Profile list \<times> nat) option" where
  "ListProfilesPage uc m query =
     (let filtered = sortProfilesPage uc (iq_Sort query) (iq_Dir query)
            (filter (profile_matches uc m query) (gvals (profilesByID m)))
      in map_option (\<lambda>rows. (rows, length filtered))
           (slice_of filtered (listQueryBounds (int (length filtered)) (iq_Page query) (iq_PageSize query))))"

subsection \<open>Pages\<close>

definition page_size :: "int \<Rightarrow> nat" where
  "page_size n = nat (if n \<le> 0 then 25 else if 100 < n then 100 else n)"

lemma page_size_bounds: "0 < page_size n" "page_size n \<le> 100"
  by (auto simp: page_size_def)

lemma slice_listQueryBounds:
  assumes "k * page_size n + page_size n < 2 ^ 63" and "length xs < 2 ^ 63"
  shows "slice_of xs (listQueryBounds (int (length xs)) (int k + 1) n) =
    Some (take (page_size n) (drop (k * page_size n) xs))"
proof -
  let ?s = "int (page_size n)"
  have s: "(if n \<le> 0 then 25 else if 100 < n then 100 else n) = ?s" by (simp add: page_size_def)
  have "int (k * page_size n + page_size n) < 2 ^ 63"
    using assms(1) by (metis of_nat_less_numeral_power_cancel_iff)
  then have bound: "int k * ?s + ?s < 2 ^ 63" by simp
  have w: "wrap64 (int k * ?s) = int k * ?s" "wrap64 (int k * ?s + ?s) = int k * ?s + ?s"
  proof -
    have ge: "0 \<le> int k * ?s" "0 \<le> ?s" by simp_all
    show "wrap64 (int k * ?s) = int k * ?s" by (rule wrap64_id) (use bound ge in linarith)+
    show "wrap64 (int k * ?s + ?s) = int k * ?s + ?s" by (rule wrap64_id) (use bound ge in linarith)+
  qed
  have b: "listQueryBounds (int (length xs)) (int k + 1) n =
      (if int (length xs) \<le> int k * ?s then (int (length xs), int (length xs))
       else (int k * ?s, if int (length xs) < int k * ?s + ?s then int (length xs) else int k * ?s + ?s))"
    by (simp add: listQueryBounds_def Let_def s w del: of_nat_mult)
  show ?thesis
  proof (cases "int (length xs) \<le> int k * ?s")
    case True
    then have "length xs \<le> k * page_size n" by (simp flip: of_nat_mult)
    with True show ?thesis by (simp add: b slice_of_def)
  next
    case False
    then have f: "k * page_size n < length xs" by (simp flip: of_nat_mult)
    show ?thesis
    proof (cases "int (length xs) < int k * ?s + ?s")
      case True
      then have "length xs < k * page_size n + page_size n" by (simp flip: of_nat_mult of_nat_add)
      then have "take (length xs - k * page_size n) (drop (k * page_size n) xs) = take (page_size n) (drop (k * page_size n) xs)"
        by simp
      with True False f show ?thesis by (simp add: b slice_of_def nat_mult_distrib)
    next
      case F: False
      then have "k * page_size n + page_size n \<le> length xs" by (simp flip: of_nat_mult of_nat_add)
      then have "int k * ?s + ?s \<le> int (length xs)" by (simp flip: of_nat_mult of_nat_add)
      moreover have "nat (int k * ?s + ?s) - nat (int k * ?s) = page_size n"
        by (simp flip: of_nat_mult of_nat_add)
      ultimately show ?thesis using False F by (simp add: b slice_of_def nat_mult_distrib)
    qed
  qed
qed

lemma concat_pages: "concat (map (\<lambda>k. take n (drop (k * n) xs)) [0..<j]) = take (j * n) xs"
proof (induction j)
  case (Suc j)
  have "Suc j * n = j * n + n" by simp
  with Suc show ?case by (simp only: take_add upt_Suc) simp
qed simp

lemma foldl_failures:
  assumes "gget (credentialsByPlayer m) q = Some c" and "ts \<noteq> []"
  shows "\<exists>c'. gget (credentialsByPlayer (foldl (\<lambda>m t. fst (RecordPassportLoginFailure q t m)) m ts)) q = Some c' \<and>
    oc_FailedAttempts c' = oc_FailedAttempts c + int (length ts) \<and> oc_PasswordHash c' = oc_PasswordHash c \<and>
    oc_LockedUntil c' = (if 5 \<le> oc_FailedAttempts c + int (length ts) then Some (last ts + 15 * Minute) else oc_LockedUntil c)"
  using assms(2)
proof (induction ts rule: rev_nonempty_induct)
  case (single t)
  show ?case
    by (simp add: RecordPassportLoginFailure_def RecordOfflineLoginFailure_def passportIDForCredentialLocked_def assms(1) Let_def)
next
  case (snoc t ts)
  let ?m = "foldl (\<lambda>m t. fst (RecordPassportLoginFailure q t m)) m ts"
  obtain c' where c': "gget (credentialsByPlayer ?m) q = Some c'" "oc_FailedAttempts c' = oc_FailedAttempts c + int (length ts)"
    "oc_PasswordHash c' = oc_PasswordHash c"
    "oc_LockedUntil c' = (if 5 \<le> oc_FailedAttempts c + int (length ts) then Some (last ts + 15 * Minute) else oc_LockedUntil c)"
    using snoc.IH by blast
  then show ?case
    by (simp add: RecordPassportLoginFailure_def RecordOfflineLoginFailure_def passportIDForCredentialLocked_def Let_def)
qed

subsection \<open>Properties\<close>

text \<open>
  C25: Failed logins are counted without loss, and from the fifth on each locks the account until
  fifteen minutes after it; fewer leave the lock as it was.  A successful login clears both.
\<close>

theorem login_lockout:
  assumes "gget (credentialsByPlayer m) q = Some c" and "ts \<noteq> []"
    and "m' = foldl (\<lambda>m t. fst (RecordPassportLoginFailure q t m)) m ts"
  shows "\<exists>c'. gget (credentialsByPlayer m') q = Some c' \<and> oc_FailedAttempts c' = oc_FailedAttempts c + int (length ts) \<and>
    oc_PasswordHash c' = oc_PasswordHash c \<and>
    oc_LockedUntil c' = (if 5 \<le> oc_FailedAttempts c + int (length ts) then Some (last ts + 15 * Minute) else oc_LockedUntil c) \<and>
    snd (RecordPassportLoginSuccess q m') = Inr () \<and>
    map_option (\<lambda>c. (oc_FailedAttempts c, oc_LockedUntil c, oc_PasswordHash c))
      (gget (credentialsByPlayer (fst (RecordPassportLoginSuccess q m'))) q) = Some (0, None, oc_PasswordHash c)"
proof -
  obtain c' where c': "gget (credentialsByPlayer m') q = Some c'" "oc_FailedAttempts c' = oc_FailedAttempts c + int (length ts)"
    "oc_PasswordHash c' = oc_PasswordHash c"
    "oc_LockedUntil c' = (if 5 \<le> oc_FailedAttempts c + int (length ts) then Some (last ts + 15 * Minute) else oc_LockedUntil c)"
    using foldl_failures [OF assms(1,2)] unfolding assms(3) by blast
  then have "snd (RecordPassportLoginSuccess q m') = Inr ()"
    "map_option (\<lambda>c. (oc_FailedAttempts c, oc_LockedUntil c, oc_PasswordHash c))
      (gget (credentialsByPlayer (fst (RecordPassportLoginSuccess q m'))) q) = Some (0, None, oc_PasswordHash c)"
    by (simp_all add: RecordPassportLoginSuccess_def RecordOfflineLoginSuccess_def passportIDForCredentialLocked_def Let_def)
  with c' show ?thesis by blast
qed

lemma login_lockout_witness:
  "map_option oc_LockedUntil (gget (credentialsByPlayer (foldl (\<lambda>m t. fst (RecordPassportLoginFailure ''q'' t m))
     (NewMemory\<lparr>credentialsByPlayer := gput gempty ''q'' (new_credential ''q'' ''h'' [] [])\<rparr>) [1, 2, 3, 4, 5])) ''q'')
   = Some (Some (5 + 15 * Minute))"
  using login_lockout [OF _ _ refl, of "NewMemory\<lparr>credentialsByPlayer := gput gempty ''q'' (new_credential ''q'' ''h'' [] [])\<rparr>"
      "''q''" "new_credential ''q'' ''h'' [] []" "[1, 2, 3, 4, 5]"]
  by (auto simp: new_credential_def zero_OfflineCredential_def)

text \<open>
  Changing an offline passport's password forgets every address that was remembered for it:
  no later portal request is accepted without the new password.
\<close>

theorem password_change_forgets_addresses:
  assumes "gget (passportsByID m) q = Some pp" "TrimSpace q = q"
    and "UpdatePassportPassword q h e k t m = (m', Inr ())"
  shows "snd (UsePortalAuthCache q ip now m') = None \<and>
    (\<exists>c. gget (credentialsByPlayer m') q = Some c \<and> oc_PasswordHash c = h \<and> oc_FailedAttempts c = 0 \<and> oc_LockedUntil c = None)"
proof -
  have m': "portalAuthCache m' = grange_del (\<lambda>key _. HasPrefix key (q @ [CHR 0x00])) (portalAuthCache m)"
    and c: "\<exists>c. gget (credentialsByPlayer m') q = Some c \<and> oc_PasswordHash c = h \<and> oc_FailedAttempts c = 0 \<and> oc_LockedUntil c = None"
    using assms(1,3) by (auto simp: UpdatePassportPassword_def UpdateOfflinePassword_def Let_def split: if_splits)
  have "HasPrefix (portalAuthCacheKey q (TrimSpace ip)) (q @ [CHR 0x00])"
    by (simp add: portalAuthCacheKey_def assms(2) HasPrefix_def)
  then have "gget (portalAuthCache m') (portalAuthCacheKey q (TrimSpace ip)) = None"
    unfolding m' by (simp split: option.split)
  then have "snd (UsePortalAuthCache q ip now m') = None"
    by (simp add: UsePortalAuthCache_def Let_def assms(2))
  with c show ?thesis by blast
qed

definition sample_offline :: memory where
  "sample_offline = NewMemory\<lparr>passportsByID := gput gempty ''q'' (zero_Passport\<lparr>pp_ID := ''q'', pp_Kind := PassportKindOffline\<rparr>)\<rparr>"

lemma password_change_forgets_addresses_witness:
  "snd (UsePortalAuthCache ''q'' ''ip'' 6 (fst (UpdatePassportPassword ''q'' ''h'' [] [] 5 sample_offline))) = None"
proof -
  have "is_ok (snd (UpdatePassportPassword ''q'' ''h'' [] [] 5 sample_offline))" "TrimSpace ''q'' = ''q''" by code_simp+
  then obtain m' where m': "UpdatePassportPassword ''q'' ''h'' [] [] 5 sample_offline = (m', Inr ())"
    by (cases "UpdatePassportPassword ''q'' ''h'' [] [] 5 sample_offline") (auto simp: is_ok_iff)
  have "gget (passportsByID sample_offline) ''q'' = Some (zero_Passport\<lparr>pp_ID := ''q'', pp_Kind := PassportKindOffline\<rparr>)"
    by (simp add: sample_offline_def)
  from password_change_forgets_addresses [OF this \<open>TrimSpace ''q'' = ''q''\<close> m'] show ?thesis by (simp add: m')
qed

text \<open>
  While the map of passports is visited in one order, the pages of a passport listing partition it; Go
  visits it in another order at every call, so rows with equal keys may change pages.  As long as the page number times the page
  size fits an int, each page is returned, and the pages together are the matching passports, each
  once, in the order of the sort.
\<close>

theorem ListPassportsPage_partition:
  assumes "length (gvals (passportsByID m)) \<le> j * page_size (iq_PageSize query)" "j * 100 + 100 < 2 ^ 63"
    and all: "all = sortPassportsPage uc (iq_Sort query) (iq_Dir query) (filter (passport_matches uc query) (gvals (passportsByID m)))"
  shows "\<exists>pages. map (\<lambda>k. ListPassportsPage uc m (query\<lparr>iq_Page := int k + 1\<rparr>)) [0..<j] = map (\<lambda>p. Some (p, length all)) pages \<and>
    concat pages = all \<and> set all = {p. passport_matches uc query p \<and> (\<exists>i. gget (passportsByID m) i = Some p)} \<and>
    length all = length (filter (passport_matches uc query) (gvals (passportsByID m)))"
proof (intro exI conjI)
  let ?n = "page_size (iq_PageSize query)"
  let ?page = "\<lambda>k. take ?n (drop (k * ?n) all)"
  have len: "length all = length (filter (passport_matches uc query) (gvals (passportsByID m)))"
    by (simp add: all sortPassportsPage_def)
  then have le: "length all \<le> j * ?n"
    using assms(1) length_filter_le [of "passport_matches uc query" "gvals (passportsByID m)"] by linarith
  have jn: "j * ?n \<le> j * 100" using page_size_bounds(2) by (rule mult_le_mono2)
  have "slice_of all (listQueryBounds (int (length all)) (int k + 1) (iq_PageSize query)) = Some (?page k)" if "k < j" for k
  proof (rule slice_listQueryBounds)
    have "k * ?n \<le> j * ?n" using that by simp
    then show "k * ?n + ?n < 2 ^ 63" using jn assms(2) page_size_bounds(2) [of "iq_PageSize query"] by linarith
    show "length all < 2 ^ 63" using le jn assms(2) by linarith
  qed
  moreover have "passport_matches uc (query\<lparr>iq_Page := i\<rparr>) = passport_matches uc query" for i
    by (simp add: passport_matches_def fun_eq_iff)
  ultimately show "map (\<lambda>k. ListPassportsPage uc m (query\<lparr>iq_Page := int k + 1\<rparr>)) [0..<j] =
      map (\<lambda>p. Some (p, length all)) (map ?page [0..<j])"
    by (auto simp: ListPassportsPage_def Let_def all [symmetric])
  show "concat (map ?page [0..<j]) = all" using le by (simp add: concat_pages)
  show "set all = {p. passport_matches uc query p \<and> (\<exists>i. gget (passportsByID m) i = Some p)}"
    by (auto simp: all sortPassportsPage_def)
  show "length all = length (filter (passport_matches uc query) (gvals (passportsByID m)))" by (rule len)
qed

definition sample_query :: IdentityListQuery where
  "sample_query = \<lparr>iq_Search = [], iq_Kind = [], iq_Status = [], iq_Binding = [], iq_Sort = ''username'', iq_Dir = [],
     iq_Page = 7, iq_PageSize = 10\<rparr>"

lemma ListPassportsPage_partition_witness:
  "\<exists>pages. map (\<lambda>k. ListPassportsPage plain_unicode sample_offline
      (sample_query\<lparr>iq_Page := int k + 1\<rparr>)) [0..<1] = map (\<lambda>p. Some (p, 1)) pages"
proof -
  have "length (gvals (passportsByID sample_offline)) \<le> 1 * page_size (iq_PageSize sample_query)"
    "length (sortPassportsPage plain_unicode (iq_Sort sample_query) (iq_Dir sample_query)
       (filter (passport_matches plain_unicode sample_query) (gvals (passportsByID sample_offline)))) = 1" by code_simp+
  note l = this
  have "(1::nat) * 100 + 100 < 2 ^ 63" by simp
  from ListPassportsPage_partition [OF l(1) this refl, of plain_unicode, unfolded l(2)] show ?thesis by blast
qed

text \<open>
  A page number whose product with the page size overflows makes a listing panic: the start
  of the page wraps around to a negative index.
\<close>

theorem ListPassportsPage_overflow:
  "ListPassportsPage uc m (query\<lparr>iq_Page := 368934881474191034, iq_PageSize := 25\<rparr>) = None"
  by (simp add: ListPassportsPage_def listQueryBounds_def slice_of_def wrap64_def Let_def)

end
