(* ===== verification/StoreTokens.thy ===== *)
theory StoreTokens
  imports StoreTypes
begin

text \<open>
  Sessions, one-time portal links, transfer grants and external API tokens of the in-memory
  store.  Portal links and transfer grants interpret the contract \<open>one_shot\<close> of \<^verbatim>\<open>Auth\<close>: whatever
  sequence of attempts is made, a token is used at most once.
\<close>

subsection \<open>Sessions\<close>

definition SaveSession :: "Session \<Rightarrow> memory \<Rightarrow> memory" where
  "SaveSession s m = m\<lparr>sessionsByID := gput (sessionsByID m) (se_ID s) s\<rparr>"

definition GetSession :: "memory \<Rightarrow> string \<Rightarrow> Session result" where
  "GetSession m ident =
     (case gget (sessionsByID m) ident of None \<Rightarrow> Inl (NotFound ''session not found'') | Some s \<Rightarrow> Inr s)"

definition UpdateSession :: "Session \<Rightarrow> memory \<Rightarrow> memory \<times> unit result" where
  "UpdateSession s m =
     (if gget (sessionsByID m) (se_ID s) = None then (m, Inl (NotFound ''session not found''))
      else (m\<lparr>sessionsByID := gput (sessionsByID m) (se_ID s) s\<rparr>, Inr ()))"

definition DeleteSession :: "string \<Rightarrow> memory \<Rightarrow> memory" where
  "DeleteSession ident m = m\<lparr>sessionsByID := gdel (sessionsByID m) ident\<rparr>"

subsection \<open>Portal links\<close>

definition SavePortalLink :: "PortalLink \<Rightarrow> memory \<Rightarrow> memory" where
  "SavePortalLink l m = m\<lparr>portalLinksByToken := gput (portalLinksByToken m) (li_TokenHash l) l\<rparr>"

definition GetPortalLink :: "memory \<Rightarrow> string \<Rightarrow> PortalLink result" where
  "GetPortalLink m tokenHash =
     (case gget (portalLinksByToken m) tokenHash of
        None \<Rightarrow> Inl (NotFound ''portal link not found'') | Some l \<Rightarrow> Inr l)"

definition ListPortalLinksForPassport :: "memory \<Rightarrow> string \<Rightarrow> PortalLink list" where
  "ListPortalLinksForPassport m passportID =
     take 100 (sort_by (\<lambda>a b. After (li_CreatedAt a) (li_CreatedAt b))
       (filter (\<lambda>l. li_PlayerID l = passportID) (gvals (portalLinksByToken m))))"

definition MarkPortalLinkUsed :: "string \<Rightarrow> time \<Rightarrow> memory \<Rightarrow> memory \<times> PortalLink result" where
  "MarkPortalLinkUsed tokenHash now m =
     (case gget (portalLinksByToken m) tokenHash of
        None \<Rightarrow> (m, Inl (NotFound ''portal link not found''))
      | Some l \<Rightarrow>
          if li_Status l \<noteq> PortalLinkActive \<or> \<not> Before now (li_ExpiresAt l)
          then (m, Inl (NotFound ''portal link is not active''))
          else
            let l = l\<lparr>li_Status := PortalLinkUsed, li_UsedAt := Some now\<rparr>
            in (m\<lparr>portalLinksByToken := gput (portalLinksByToken m) tokenHash l\<rparr>, Inr l))"

definition RevokePortalLink :: "string \<Rightarrow> time \<Rightarrow> memory \<Rightarrow> memory \<times> PortalLink result" where
  "RevokePortalLink ident now m =
     (case List.find (\<lambda>(tokenHash, l). li_ID l = ident \<and> li_Status l = PortalLinkActive) (gentries (portalLinksByToken m)) of
        Some (tokenHash, l) \<Rightarrow>
          let l = l\<lparr>li_Status := PortalLinkRevoked, li_RevokedAt := Some now\<rparr>
          in (m\<lparr>portalLinksByToken := gput (portalLinksByToken m) tokenHash l\<rparr>, Inr l)
      | None \<Rightarrow> (m, Inl (NotFound ''active portal link not found'')))"

definition link_spent :: "memory \<Rightarrow> string \<Rightarrow> bool" where
  "link_spent m tokenHash =
     (case gget (portalLinksByToken m) tokenHash of None \<Rightarrow> False | Some l \<Rightarrow> li_Status l = PortalLinkUsed)"

lemma MarkPortalLinkUsed_Inr:
  "MarkPortalLinkUsed h now m = (m', Inr l') \<longleftrightarrow>
     (\<exists>l. gget (portalLinksByToken m) h = Some l \<and> li_Status l = PortalLinkActive \<and> now < li_ExpiresAt l \<and>
        l' = l\<lparr>li_Status := PortalLinkUsed, li_UsedAt := Some now\<rparr> \<and>
        m' = m\<lparr>portalLinksByToken := gput (portalLinksByToken m) h l'\<rparr>)"
  by (auto simp: MarkPortalLinkUsed_def Let_def split: option.splits)

lemma MarkPortalLinkUsed_Inl: "MarkPortalLinkUsed h now m = (m', Inl e) \<Longrightarrow> m' = m"
  by (auto simp: MarkPortalLinkUsed_def Let_def split: option.splits if_splits)

interpretation portal_link: one_shot "\<lambda>m h now. MarkPortalLinkUsed h now m" link_spent
proof
  fix m h now m' l
  assume "MarkPortalLinkUsed h now m = (m', Inr l)"
  then show "link_spent m' h" by (auto simp: MarkPortalLinkUsed_Inr link_spent_def)
next
  fix m h now
  assume "link_spent m h"
  then show "\<not> is_ok (snd (MarkPortalLinkUsed h now m))"
    by (auto simp: link_spent_def MarkPortalLinkUsed_def split: option.splits)
next
  fix m h h' now
  assume spent: "link_spent m h"
  show "link_spent (fst (MarkPortalLinkUsed h' now m)) h"
  proof (cases "MarkPortalLinkUsed h' now m")
    case (Pair m' r)
    show ?thesis
      unfolding Pair fst_conv
      by (cases r) (use Pair spent in \<open>auto simp: MarkPortalLinkUsed_Inr link_spent_def dest: MarkPortalLinkUsed_Inl\<close>)
  qed
qed

subsection \<open>Transfer grants\<close>

definition SaveTransferGrant :: "TransferGrant \<Rightarrow> memory \<Rightarrow> memory" where
  "SaveTransferGrant g m = m\<lparr>transferGrants := gput (transferGrants m) (tg_TokenHash g) g\<rparr>"

text \<open>The loop keeps the latest pending grant; a grant without an ID stands for "none yet".\<close>

definition pending_grant :: "unicode \<Rightarrow> string \<Rightarrow> string \<Rightarrow> time \<Rightarrow> TransferGrant \<Rightarrow> bool" where
  "pending_grant uc serverID protocolName now g \<longleftrightarrow>
     tg_ConsumedAt g = None \<and> tg_ServerID g = serverID \<and> EqualFold uc (tg_ProtocolName g) protocolName \<and>
     Before now (tg_ExpiresAt g)"

definition latest_grant :: "TransferGrant option \<Rightarrow> TransferGrant \<Rightarrow> TransferGrant option" where
  "latest_grant selected g =
     (case selected of None \<Rightarrow> Some g
      | Some s \<Rightarrow> if tg_ID s = [] \<or> After (tg_CreatedAt g) (tg_CreatedAt s) then Some g else selected)"

definition GetPendingTransferGrantByProtocolName ::
  "unicode \<Rightarrow> memory \<Rightarrow> string \<Rightarrow> string \<Rightarrow> time \<Rightarrow> TransferGrant result" where
  "GetPendingTransferGrantByProtocolName uc m serverID protocolName now =
     (let serverID = TrimSpace serverID; protocolName = TrimSpace protocolName in
      if serverID = [] \<or> protocolName = [] then Inl (NotFound ''transfer grant not found'')
      else
        case foldl latest_grant None
               (filter (pending_grant uc serverID protocolName now) (gvals (transferGrants m))) of
          None \<Rightarrow> Inl (NotFound ''transfer grant not found'')
        | Some g \<Rightarrow> if tg_ID g = [] then Inl (NotFound ''transfer grant not found'') else Inr g)"

definition portalGrantSourceAllowed :: "unicode \<Rightarrow> TransferGrant \<Rightarrow> string list \<Rightarrow> bool" where
  "portalGrantSourceAllowed uc g allowed =
     (if HasPrefix (TrimSpace (tg_PortalSource g)) ''downstream-command:'' then True
      else if allowed = [] then True
      else list_ex (\<lambda>item. let source = TrimSpace item in
             source \<noteq> [] \<and> (EqualFold uc source (tg_PortalSource g) \<or> EqualFold uc source (tg_PortalNodeID g))) allowed)"

record consume_args =
  ca_serverID :: string
  ca_uuid :: string
  ca_protocolName :: string
  ca_gateNodeID :: string
  ca_allowedPortalSources :: "string list"
  ca_now :: time

definition ConsumeTransferGrant ::
  "unicode \<Rightarrow> string \<Rightarrow> consume_args \<Rightarrow> memory \<Rightarrow> memory \<times> TransferGrant result" where
  "ConsumeTransferGrant uc tokenHash a m =
     (case gget (transferGrants m) tokenHash of
        None \<Rightarrow> (m, Inl (NotFound ''transfer grant not found''))
      | Some g \<Rightarrow>
          if tg_ConsumedAt g \<noteq> None then (m, Inl (Err ''transfer grant already consumed''))
          else if \<not> Before (ca_now a) (tg_ExpiresAt g) then (m, Inl (Err ''transfer grant expired''))
          else if tg_ServerID g \<noteq> ca_serverID a then (m, Inl (Err ''transfer grant target mismatch''))
          else if tg_UUID g \<noteq> ca_uuid a then (m, Inl (Err ''transfer grant uuid mismatch''))
          else if \<not> EqualFold uc (tg_ProtocolName g) (ca_protocolName a)
          then (m, Inl (Err ''transfer grant protocol name mismatch''))
          else if \<not> portalGrantSourceAllowed uc g (ca_allowedPortalSources a)
          then (m, Inl (Err ''transfer grant portal source denied''))
          else
            let g = g\<lparr>tg_GateNodeID := ca_gateNodeID a, tg_ConsumedAt := Some (ca_now a)\<rparr>
            in (m\<lparr>transferGrants := gput (transferGrants m) tokenHash g\<rparr>, Inr g))"

definition grant_spent :: "memory \<Rightarrow> string \<Rightarrow> bool" where
  "grant_spent m tokenHash =
     (case gget (transferGrants m) tokenHash of None \<Rightarrow> False | Some g \<Rightarrow> tg_ConsumedAt g \<noteq> None)"

text \<open>What a grant must satisfy for the arguments of a consumption.\<close>

definition grant_matches :: "unicode \<Rightarrow> consume_args \<Rightarrow> TransferGrant \<Rightarrow> bool" where
  "grant_matches uc a g \<longleftrightarrow> tg_ConsumedAt g = None \<and> ca_now a < tg_ExpiresAt g \<and> tg_ServerID g = ca_serverID a \<and>
     tg_UUID g = ca_uuid a \<and> EqualFold uc (tg_ProtocolName g) (ca_protocolName a) \<and>
     portalGrantSourceAllowed uc g (ca_allowedPortalSources a)"

lemma ConsumeTransferGrant_Inr:
  "ConsumeTransferGrant uc h a m = (m', Inr g') \<longleftrightarrow>
     (\<exists>g. gget (transferGrants m) h = Some g \<and> grant_matches uc a g \<and>
        g' = g\<lparr>tg_GateNodeID := ca_gateNodeID a, tg_ConsumedAt := Some (ca_now a)\<rparr> \<and>
        m' = m\<lparr>transferGrants := gput (transferGrants m) h g'\<rparr>)"
  by (cases "gget (transferGrants m) h")
    (auto simp: ConsumeTransferGrant_def grant_matches_def Let_def)

lemma ConsumeTransferGrant_Inl: "ConsumeTransferGrant uc h a m = (m', Inl e) \<Longrightarrow> m' = m"
  by (auto simp: ConsumeTransferGrant_def Let_def split: option.splits if_splits)

interpretation transfer_grant: one_shot "\<lambda>m h a. ConsumeTransferGrant uc h a m" grant_spent
proof
  fix m h a m' g
  assume "ConsumeTransferGrant uc h a m = (m', Inr g)"
  then show "grant_spent m' h" by (auto simp: ConsumeTransferGrant_Inr grant_spent_def)
next
  fix m h a
  assume "grant_spent m h"
  then show "\<not> is_ok (snd (ConsumeTransferGrant uc h a m))"
    by (auto simp: grant_spent_def ConsumeTransferGrant_def split: option.splits)
next
  fix m h h' a
  assume spent: "grant_spent m h"
  show "grant_spent (fst (ConsumeTransferGrant uc h' a m)) h"
  proof (cases "ConsumeTransferGrant uc h' a m")
    case (Pair m' r)
    show ?thesis
      unfolding Pair fst_conv
      by (cases r) (use Pair spent in \<open>auto simp: ConsumeTransferGrant_Inr grant_spent_def dest: ConsumeTransferGrant_Inl\<close>)
  qed
qed

subsection \<open>External API tokens\<close>

definition ListExternalAPITokens :: "memory \<Rightarrow> ExternalAPIToken list" where
  "ListExternalAPITokens m = sort_by (\<lambda>a b. After (et_CreatedAt a) (et_CreatedAt b)) (gvals (externalAPITokens m))"

definition GetExternalAPIToken :: "memory \<Rightarrow> string \<Rightarrow> ExternalAPIToken result" where
  "GetExternalAPIToken m ident =
     (case gget (externalAPITokens m) ident of
        None \<Rightarrow> Inl (NotFound ''external api token not found'') | Some t \<Rightarrow> Inr t)"

definition CreateExternalAPIToken :: "ExternalAPIToken \<Rightarrow> time \<Rightarrow> memory \<Rightarrow> memory \<times> ExternalAPIToken" where
  "CreateExternalAPIToken t now m =
     (let n = nextID m + 1;
          t = t\<lparr>et_ID := ''extapi-'' @ Itoa n, et_CreatedAt := now, et_UpdatedAt := now,
            et_Status := (if et_Status t = [] then ExternalAPITokenActive else et_Status t)\<rparr>
      in (m\<lparr>nextID := n, externalAPITokens := gput (externalAPITokens m) (et_ID t) t\<rparr>, t))"

definition UpdateExternalAPIToken :: "ExternalAPIToken \<Rightarrow> time \<Rightarrow> memory \<Rightarrow> memory \<times> ExternalAPIToken result" where
  "UpdateExternalAPIToken t now m =
     (case gget (externalAPITokens m) (et_ID t) of
        None \<Rightarrow> (m, Inl (NotFound ''external api token not found''))
      | Some existing \<Rightarrow>
          let existing = existing\<lparr>et_Name := et_Name t, et_Status := et_Status t, et_UpdatedAt := now\<rparr>
          in (m\<lparr>externalAPITokens := gput (externalAPITokens m) (et_ID t) existing\<rparr>, Inr existing))"

definition DeleteExternalAPIToken :: "string \<Rightarrow> memory \<Rightarrow> memory \<times> unit result" where
  "DeleteExternalAPIToken ident m =
     (if gget (externalAPITokens m) ident = None then (m, Inl (NotFound ''external api token not found''))
      else (m\<lparr>externalAPITokens := gdel (externalAPITokens m) ident\<rparr>, Inr ()))"

definition AuthenticateExternalAPIToken ::
  "unicode \<Rightarrow> string \<Rightarrow> time \<Rightarrow> string \<Rightarrow> string \<Rightarrow> memory \<Rightarrow> memory \<times> ExternalAPIToken result" where
  "AuthenticateExternalAPIToken uc rawToken now clientIP path m =
     (case List.find (\<lambda>(ident, t). ConstantTimeTokenEqual uc ''external-api'' rawToken (et_TokenHash t))
             (gentries (externalAPITokens m)) of
        None \<Rightarrow> (m, Inl (NotFound ''external api token not found''))
      | Some (ident, t) \<Rightarrow>
          if et_Status t \<noteq> ExternalAPITokenActive
          then (m, Inl (NotFound ''external api token disabled''))
          else
            let t = t\<lparr>et_CallCount := et_CallCount t + 1, et_LastUsedAt := Some now,
                  et_LastUsedIP := TrimSpace clientIP, et_LastUsedPath := TrimSpace path, et_UpdatedAt := now\<rparr>
            in (m\<lparr>externalAPITokens := gput (externalAPITokens m) ident t\<rparr>, Inr t))"

lemma AuthenticateExternalAPIToken_Inr:
  assumes "AuthenticateExternalAPIToken uc raw now ip path m = (m', Inr t')"
  obtains ident t where "gget (externalAPITokens m) ident = Some t"
    "HashToken ''external-api'' raw = ToLower uc (et_TokenHash t)" "et_Status t = ExternalAPITokenActive"
    "t' = t\<lparr>et_CallCount := et_CallCount t + 1, et_LastUsedAt := Some now,
            et_LastUsedIP := TrimSpace ip, et_LastUsedPath := TrimSpace path, et_UpdatedAt := now\<rparr>"
    "m' = m\<lparr>externalAPITokens := gput (externalAPITokens m) ident t'\<rparr>"
proof (cases "List.find (\<lambda>(ident, t). ConstantTimeTokenEqual uc ''external-api'' raw (et_TokenHash t))
             (gentries (externalAPITokens m))")
  case None
  with assms show thesis by (simp add: AuthenticateExternalAPIToken_def)
next
  case (Some e)
  then obtain ident t where e: "e = (ident, t)" by (cases e)
  from find_Some_in [OF Some] e have "gget (externalAPITokens m) ident = Some t"
    "HashToken ''external-api'' raw = ToLower uc (et_TokenHash t)"
    by (simp_all add: gget_eq_entries ConstantTimeTokenEqual_def)
  with assms Some e show thesis
    by (intro that) (auto simp: AuthenticateExternalAPIToken_def Let_def split: if_splits)
qed

lemma AuthenticateExternalAPIToken_unknown:
  assumes "\<forall>ident t. gget (externalAPITokens m) ident = Some t \<longrightarrow>
      \<not> ConstantTimeTokenEqual uc ''external-api'' raw (et_TokenHash t)"
  shows "AuthenticateExternalAPIToken uc raw now ip path m = (m, Inl (NotFound ''external api token not found''))"
proof -
  have "List.find (\<lambda>(ident, t). ConstantTimeTokenEqual uc ''external-api'' raw (et_TokenHash t))
      (gentries (externalAPITokens m)) = None"
    using assms by (auto simp: find_None_iff gget_eq_entries)
  then show ?thesis by (simp add: AuthenticateExternalAPIToken_def)
qed
subsection \<open>Where usable tokens come from\<close>

text \<open>A pending grant or an active link of \<open>m'\<close> is one of \<open>m\<close>, unless it is being saved.\<close>

definition grants_from :: "memory \<Rightarrow> memory \<Rightarrow> bool" where
  "grants_from m m' \<longleftrightarrow> (\<forall>h g. gget (transferGrants m') h = Some g \<longrightarrow> tg_ConsumedAt g = None \<longrightarrow>
     gget (transferGrants m) h = Some g \<or> tg_TokenHash g = h \<and> m' = SaveTransferGrant g m)"

definition links_from :: "memory \<Rightarrow> memory \<Rightarrow> bool" where
  "links_from m m' \<longleftrightarrow> (\<forall>h l. gget (portalLinksByToken m') h = Some l \<longrightarrow> li_Status l = PortalLinkActive \<longrightarrow>
     gget (portalLinksByToken m) h = Some l \<or> li_TokenHash l = h \<and> m' = SavePortalLink l m)"

lemma grants_from_Save: "grants_from m (SaveTransferGrant g m)"
  by (auto simp: grants_from_def SaveTransferGrant_def)

lemma links_from_Save: "links_from m (SavePortalLink l m)"
  by (auto simp: links_from_def SavePortalLink_def)

lemma grants_from_Consume: "grants_from m (fst (ConsumeTransferGrant uc h a m))"
  by (auto simp: grants_from_def ConsumeTransferGrant_def Let_def split: option.split)

lemma links_from_Mark: "links_from m (fst (MarkPortalLinkUsed h t m))"
  by (auto simp: links_from_def MarkPortalLinkUsed_def Let_def split: option.split)

lemma links_from_Revoke: "links_from m (fst (RevokePortalLink i t m))"
  by (auto simp: links_from_def RevokePortalLink_def Let_def split: option.split)

subsection \<open>Properties\<close>

text \<open>
  Of any sequence of attempts to consume transfer grants, whatever their arguments, at most
  one consumes a given grant; the same holds for portal links.
\<close>

theorem single_use:
  "successes (\<lambda>m h a. ConsumeTransferGrant uc h a m) m es h \<le> 1 \<and>
   successes (\<lambda>m h t. MarkPortalLinkUsed h t m) m' es' h' \<le> 1"
  by (rule conjI, rule transfer_grant.successes_le_1, rule portal_link.successes_le_1)

text \<open>
  A transfer grant is consumed exactly when it is stored, unconsumed, unexpired, for the
  server, UUID and, up to case, the name of the player, and from an allowed portal; it is then
  marked with the node and the time, and a refusal leaves the store as it was.
\<close>

theorem ConsumeTransferGrant_exact:
  "case ConsumeTransferGrant uc h a m of
     (m', Inr g') \<Rightarrow> \<exists>g. gget (transferGrants m) h = Some g \<and> tg_ConsumedAt g = None \<and> ca_now a < tg_ExpiresAt g \<and>
       tg_ServerID g = ca_serverID a \<and> tg_UUID g = ca_uuid a \<and> EqualFold uc (tg_ProtocolName g) (ca_protocolName a) \<and>
       portalGrantSourceAllowed uc g (ca_allowedPortalSources a) \<and>
       g' = g\<lparr>tg_GateNodeID := ca_gateNodeID a, tg_ConsumedAt := Some (ca_now a)\<rparr> \<and>
       m' = m\<lparr>transferGrants := gput (transferGrants m) h g'\<rparr>
   | (m', Inl _) \<Rightarrow> m' = m \<and> \<not> (\<exists>g. gget (transferGrants m) h = Some g \<and> grant_matches uc a g)"
proof (cases "ConsumeTransferGrant uc h a m")
  case (Pair m' r)
  show ?thesis
  proof (cases r)
    case (Inl e)
    have "\<not> (\<exists>g. gget (transferGrants m) h = Some g \<and> grant_matches uc a g)"
      using Pair Inl ConsumeTransferGrant_Inr [of uc h a m] by auto
    with Pair Inl ConsumeTransferGrant_Inl [of uc h a m m' e] show ?thesis by simp
  next
    case (Inr g')
    with Pair have "ConsumeTransferGrant uc h a m = (m', Inr g')" by simp
    then show ?thesis unfolding ConsumeTransferGrant_Inr grant_matches_def using Pair Inr by auto
  qed
qed

text \<open>
  An external API call with a secret is accepted exactly when a stored token has its hash and
  the token selected is active, which holds whenever all stored tokens of that hash are; the
  token is counted once more and is the only thing changed, and a refusal changes nothing.
\<close>

theorem AuthenticateExternalAPIToken_exact:
  "case AuthenticateExternalAPIToken uc raw now ip path m of
     (m', Inr t') \<Rightarrow> \<exists>i t. gget (externalAPITokens m) i = Some t \<and>
       HashToken ''external-api'' raw = ToLower uc (et_TokenHash t) \<and> et_Status t = ExternalAPITokenActive \<and>
       t' = t\<lparr>et_CallCount := et_CallCount t + 1, et_LastUsedAt := Some now, et_LastUsedIP := TrimSpace ip,
             et_LastUsedPath := TrimSpace path, et_UpdatedAt := now\<rparr> \<and>
       m' = m\<lparr>externalAPITokens := gput (externalAPITokens m) i t'\<rparr>
   | (m', Inl _) \<Rightarrow> m' = m \<and>
       \<not> ((\<exists>i t. gget (externalAPITokens m) i = Some t \<and> HashToken ''external-api'' raw = ToLower uc (et_TokenHash t)) \<and>
          \<not> (\<exists>i t. gget (externalAPITokens m) i = Some t \<and> HashToken ''external-api'' raw = ToLower uc (et_TokenHash t) \<and>
               et_Status t \<noteq> ExternalAPITokenActive))"
proof (cases "AuthenticateExternalAPIToken uc raw now ip path m")
  case (Pair m' r)
  show ?thesis
  proof (cases r)
    case (Inl e)
    have m: "m' = m"
      using Pair Inl by (auto simp: AuthenticateExternalAPIToken_def Let_def split: option.splits if_splits)
    let ?find = "List.find (\<lambda>(ident, t). ConstantTimeTokenEqual uc ''external-api'' raw (et_TokenHash t)) (gentries (externalAPITokens m))"
    show ?thesis
    proof (cases ?find)
      case None
      then have "\<not> (\<exists>i t. gget (externalAPITokens m) i = Some t \<and> HashToken ''external-api'' raw = ToLower uc (et_TokenHash t))"
        by (auto simp: find_None_iff gget_eq_entries ConstantTimeTokenEqual_def)
      with Pair Inl m show ?thesis by simp
    next
      case (Some e)
      obtain i t where e: "e = (i, t)" by (cases e)
      from find_Some_in [OF Some] e have t: "gget (externalAPITokens m) i = Some t"
        "HashToken ''external-api'' raw = ToLower uc (et_TokenHash t)"
        by (simp_all add: gget_eq_entries ConstantTimeTokenEqual_def)
      have "et_Status t \<noteq> ExternalAPITokenActive"
        using Pair Inl unfolding AuthenticateExternalAPIToken_def Some e by (auto simp: Let_def split: if_splits)
      with t have "\<exists>i t. gget (externalAPITokens m) i = Some t \<and> HashToken ''external-api'' raw = ToLower uc (et_TokenHash t) \<and>
               et_Status t \<noteq> ExternalAPITokenActive" by blast
      with Pair Inl m show ?thesis by simp
    qed
  next
    case (Inr t')
    with Pair have "AuthenticateExternalAPIToken uc raw now ip path m = (m', Inr t')" by simp
    then show ?thesis
      by (rule AuthenticateExternalAPIToken_Inr) (use Pair Inr in auto)
  qed
qed

end
