(* ===== verification/StoreModeration.thy ===== *)
theory StoreModeration
  imports StoreAccess
begin

text \<open>
  Presences, node actions, bans and the audit log of the in-memory store, with the invariants
  that each of their operations keeps.  An identifier the store hands out is its prefix with the
  next value of the counter.
\<close>

subsection \<open>Presences\<close>

definition ListProfilePresences :: "memory \<Rightarrow> string \<Rightarrow> PlayerPresence list" where
  "ListProfilePresences m profileID =
     filter (\<lambda>p. pc_ProfileID p = profileID \<and> pc_EndedAt p = None) (gvals (presencesByID m))"

definition ListPassportPresences :: "memory \<Rightarrow> string \<Rightarrow> PlayerPresence list" where
  "ListPassportPresences m passportID =
     filter (\<lambda>p. pc_PassportID p = passportID \<and> pc_EndedAt p = None) (gvals (presencesByID m))"

definition ListActivePresences :: "memory \<Rightarrow> int \<Rightarrow> PlayerPresence list" where
  "ListActivePresences m limit =
     (let active = filter (\<lambda>p. pc_EndedAt p = None) (gvals (presencesByID m)) in
      if 0 < limit then take (nat limit) active else active)"

definition CountActivePresencesForServer :: "memory \<Rightarrow> string \<Rightarrow> nat" where
  "CountActivePresencesForServer m serverID =
     (let serverID = TrimSpace serverID in
      length (filter (\<lambda>p. pc_ServerID p = serverID \<and> pc_EndedAt p = None) (gvals (presencesByID m))))"

definition UpsertPresence :: "PlayerPresence \<Rightarrow> time \<Rightarrow> memory \<Rightarrow> memory \<times> PlayerPresence result" where
  "UpsertPresence p now m =
     (let m' = (if pc_ID p = [] then m\<lparr>nextID := nextID m + 1\<rparr> else m);
          p = (if pc_ID p = [] then p\<lparr>pc_ID := ''presence-'' @ Itoa (nextID m')\<rparr> else p);
          p = (if IsZero (pc_ConnectedAt p) then p\<lparr>pc_ConnectedAt := now\<rparr> else p);
          p = (if IsZero (pc_LastSeenAt p) then p\<lparr>pc_LastSeenAt := now\<rparr> else p)
      in
      if gfind (\<lambda>e. pc_EndedAt e = None \<and> pc_ID e \<noteq> pc_ID p \<and> pc_ProfileID e = pc_ProfileID p
           \<and> pc_ServerID e = pc_ServerID p) (presencesByID m') \<noteq> None
      then (m', Inl (Err ''profile already online on server''))
      else (m'\<lparr>presencesByID := gput (presencesByID m') (pc_ID p) p\<rparr>, Inr p))"

definition end_presence :: "string \<Rightarrow> time \<Rightarrow> PlayerPresence \<Rightarrow> PlayerPresence" where
  "end_presence reason endedAt p = p\<lparr>pc_EndedAt := Some endedAt, pc_EndReason := TrimSpace reason\<rparr>"

definition EndPresence :: "string \<Rightarrow> string \<Rightarrow> time \<Rightarrow> memory \<Rightarrow> memory \<times> PlayerPresence result" where
  "EndPresence ident reason endedAt m =
     (case gget (presencesByID m) ident of None \<Rightarrow> (m, Inl (NotFound ''presence not found''))
      | Some p \<Rightarrow>
          let p = end_presence reason endedAt p
          in (m\<lparr>presencesByID := gput (presencesByID m) ident p\<rparr>, Inr p))"

definition endPresencesLocked ::
  "(PlayerPresence \<Rightarrow> bool) \<Rightarrow> string \<Rightarrow> time \<Rightarrow> memory \<Rightarrow> memory \<times> nat" where
  "endPresencesLocked match reason endedAt m =
     (m\<lparr>presencesByID := grange_set (\<lambda>_ p. if pc_EndedAt p = None \<and> match p
          then end_presence reason endedAt p else p) (presencesByID m)\<rparr>,
      length (filter (\<lambda>p. pc_EndedAt p = None \<and> match p) (gvals (presencesByID m))))"

definition EndProfilePresences :: "string \<Rightarrow> string \<Rightarrow> time \<Rightarrow> memory \<Rightarrow> memory \<times> nat" where
  "EndProfilePresences profileID = endPresencesLocked (\<lambda>p. pc_ProfileID p = profileID)"

definition EndPassportPresences :: "string \<Rightarrow> string \<Rightarrow> time \<Rightarrow> memory \<Rightarrow> memory \<times> nat" where
  "EndPassportPresences passportID = endPresencesLocked (\<lambda>p. pc_PassportID p = passportID)"

subsection \<open>Node actions\<close>

definition EnqueueNodeAction :: "NodeAction \<Rightarrow> time \<Rightarrow> memory \<Rightarrow> memory \<times> NodeAction result" where
  "EnqueueNodeAction a now m =
     (if TrimSpace (na_NodeID a) = [] then (m, Inl (Err ''node action node id is required''))
      else
        let a = (if na_Type a = [] then a\<lparr>na_Type := NodeActionDisconnect\<rparr> else a);
            m' = (if TrimSpace (na_ID a) = [] then m\<lparr>nextID := nextID m + 1\<rparr> else m);
            a = (if TrimSpace (na_ID a) = [] then a\<lparr>na_ID := ''node-action-'' @ Itoa (nextID m')\<rparr> else a);
            a = (if IsZero (na_CreatedAt a) then a\<lparr>na_CreatedAt := now\<rparr> else a)
        in (m'\<lparr>nodeActionsByID := gput (nodeActionsByID m') (na_ID a) a\<rparr>, Inr a))"

definition pending_action :: "string \<Rightarrow> time \<Rightarrow> NodeAction \<Rightarrow> bool" where
  "pending_action nodeID now a \<longleftrightarrow> na_NodeID a = nodeID \<and> na_AckedAt a = None \<and>
     (case na_ExpiresAt a of None \<Rightarrow> True | Some e \<Rightarrow> After e now)"

definition ListPendingNodeActions :: "memory \<Rightarrow> string \<Rightarrow> time \<Rightarrow> int \<Rightarrow> NodeAction list" where
  "ListPendingNodeActions m nodeID now limit =
     (let nodeID = TrimSpace nodeID; limit = (if limit \<le> 0 then 50 else limit)
      in take (nat limit) (filter (pending_action nodeID now) (gvals (nodeActionsByID m))))"

definition ack_step :: "string \<Rightarrow> time \<Rightarrow> memory \<times> nat \<Rightarrow> string \<Rightarrow> memory \<times> nat" where
  "ack_step nodeID now s ident =
     (case s of (m, count) \<Rightarrow>
        (case gget (nodeActionsByID m) ident of None \<Rightarrow> (m, count)
         | Some a \<Rightarrow>
             if na_NodeID a \<noteq> nodeID \<or> na_AckedAt a \<noteq> None then (m, count)
             else (m\<lparr>nodeActionsByID := gput (nodeActionsByID m) ident (a\<lparr>na_AckedAt := Some now\<rparr>)\<rparr>, count + 1)))"

definition AckNodeActions :: "string \<Rightarrow> string list \<Rightarrow> time \<Rightarrow> memory \<Rightarrow> memory \<times> nat" where
  "AckNodeActions nodeID ids now m =
     (let nodeID = TrimSpace nodeID in
      if ids = [] then (m, 0)
      else foldl (ack_step nodeID now) (m, 0) (remdups (filter (\<lambda>i. i \<noteq> []) (map TrimSpace ids))))"

subsection \<open>Bans\<close>

definition banActive :: "PlayerBan \<Rightarrow> time \<Rightarrow> bool" where
  "banActive b now =
     (if ba_RevokedAt b \<noteq> None then False
      else case ba_ExpiresAt b of None \<Rightarrow> True | Some e \<Rightarrow> After e now)"

definition ListBans :: "memory \<Rightarrow> BanScope \<Rightarrow> string \<Rightarrow> bool \<Rightarrow> time \<Rightarrow> PlayerBan list" where
  "ListBans m scope targetID includeInactive now =
     filter (\<lambda>b. ba_Scope b = scope \<and> ba_TargetID b = targetID \<and> (includeInactive \<or> banActive b now))
       (gvals (bansByID m))"

definition CreateBan :: "PlayerBan \<Rightarrow> time \<Rightarrow> memory \<Rightarrow> memory \<times> PlayerBan" where
  "CreateBan b now m =
     (let m' = (if ba_ID b = [] then m\<lparr>nextID := nextID m + 1\<rparr> else m);
          b = (if ba_ID b = [] then b\<lparr>ba_ID := ''ban-'' @ Itoa (nextID m')\<rparr> else b);
          b = (if IsZero (ba_CreatedAt b) then b\<lparr>ba_CreatedAt := now\<rparr> else b)
      in (m'\<lparr>bansByID := gput (bansByID m') (ba_ID b) b\<rparr>, b))"

definition GetBan :: "memory \<Rightarrow> string \<Rightarrow> PlayerBan result" where
  "GetBan m ident =
     (case gget (bansByID m) (TrimSpace ident) of None \<Rightarrow> Inl (NotFound ''ban not found'') | Some b \<Rightarrow> Inr b)"

definition ExtendBan :: "string \<Rightarrow> time \<Rightarrow> memory \<Rightarrow> memory \<times> PlayerBan result" where
  "ExtendBan ident expiresAt m =
     (case gget (bansByID m) (TrimSpace ident) of None \<Rightarrow> (m, Inl (NotFound ''ban not found''))
      | Some b \<Rightarrow>
          let b = b\<lparr>ba_ExpiresAt := Some expiresAt\<rparr>
          in (m\<lparr>bansByID := gput (bansByID m) ident b\<rparr>, Inr b))"

definition RevokeBan :: "string \<Rightarrow> string \<Rightarrow> string \<Rightarrow> time \<Rightarrow> memory \<Rightarrow> memory \<times> PlayerBan result" where
  "RevokeBan ident revokedBy reason now m =
     (case gget (bansByID m) ident of None \<Rightarrow> (m, Inl (NotFound ''ban not found''))
      | Some b \<Rightarrow>
          let b = b\<lparr>ba_RevokedAt := Some now, ba_RevokedBy := TrimSpace revokedBy, ba_RevokeReason := TrimSpace reason\<rparr>
          in (m\<lparr>bansByID := gput (bansByID m) ident b\<rparr>, Inr b))"

definition ActiveBanFor :: "memory \<Rightarrow> string \<Rightarrow> string \<Rightarrow> time \<Rightarrow> PlayerBan option" where
  "ActiveBanFor m passportID profileID now =
     (case gfind (\<lambda>b. ba_Scope b = BanScopePassport \<and> ba_TargetID b = passportID \<and> banActive b now) (bansByID m) of
        Some b \<Rightarrow> Some b
      | None \<Rightarrow> gfind (\<lambda>b. ba_Scope b = BanScopeProfile \<and> ba_TargetID b = profileID \<and> banActive b now) (bansByID m))"

subsection \<open>The audit log\<close>

definition AppendAuditEvent :: "Event \<Rightarrow> memory \<Rightarrow> memory \<times> Event" where
  "AppendAuditEvent e m =
     (let n = nextAuditID m + 1; e = e\<lparr>ev_ID := ''audit-'' @ Itoa n\<rparr>
      in (m\<lparr>nextAuditID := n, auditEvents := auditEvents m @ [e]\<rparr>, e))"

definition GetAuditEvent :: "memory \<Rightarrow> string \<Rightarrow> Event result" where
  "GetAuditEvent m ident =
     (case List.find (\<lambda>e. ev_ID e = ident) (auditEvents m) of
        None \<Rightarrow> Inl (NotFound ''audit event not found'') | Some e \<Rightarrow> Inr e)"

definition ListAuditEvents :: "memory \<Rightarrow> int \<Rightarrow> Event list" where
  "ListAuditEvents m limit =
     (let limit = (if limit \<le> 0 then 100 else if 5000 < limit then 5000 else limit)
      in take (nat limit) (rev (auditEvents m)))"

fun detail_matches :: "string set \<Rightarrow> goval \<Rightarrow> bool" where
  "detail_matches ids (VStr s) = (s \<in> ids)"
| "detail_matches ids (VStrs ss) = list_ex (\<lambda>s. s \<in> ids) ss"
| "detail_matches ids (VList vs) = list_ex (\<lambda>v. case v of VStr s \<Rightarrow> s \<in> ids | _ \<Rightarrow> False) vs"
| "detail_matches ids _ = False"

definition memoryAuditEventMatchesIDs :: "Event \<Rightarrow> string set \<Rightarrow> bool" where
  "memoryAuditEventMatchesIDs e ids \<longleftrightarrow> ev_ActorID e \<in> ids \<or> ev_TargetID e \<in> ids \<or>
     list_ex (detail_matches ids) (gvals (ev_Details e))"

definition audit_matches :: "unicode \<Rightarrow> AuditEventQuery \<Rightarrow> Event \<Rightarrow> bool" where
  "audit_matches uc query e \<longleftrightarrow>
     (let related = set (filter (\<lambda>i. i \<noteq> []) (map TrimSpace (aq_RelatedIDs query))) in
      (aq_ActorType query = [] \<or> ev_ActorType e = aq_ActorType query) \<and>
      (aq_TargetType query = [] \<or> ev_Target e = aq_TargetType query) \<and>
      (aq_EventType query = [] \<or> Contains (ToLower uc (ev_Type e)) (ToLower uc (aq_EventType query))) \<and>
      (case aq_Since query of None \<Rightarrow> True | Some t \<Rightarrow> \<not> Before (ev_Occurred e) t) \<and>
      (case aq_Until query of None \<Rightarrow> True | Some t \<Rightarrow> \<not> After (ev_Occurred e) t) \<and>
      (related = {} \<or> memoryAuditEventMatchesIDs e related))"

text \<open>The bounds are those of \<^verbatim>\<open>listQueryBounds\<close>, written out in the source.\<close>

definition ListAuditEventsPage :: "unicode \<Rightarrow> memory \<Rightarrow> AuditEventQuery \<Rightarrow> (Event list \<times> nat) option" where
  "ListAuditEventsPage uc m query =
     (let page = (if aq_Page query \<le> 0 then 1 else aq_Page query);
          pageSize = (if aq_PageSize query \<le> 0 then 25 else if 100 < aq_PageSize query then 100 else aq_PageSize query);
          filtered = filter (audit_matches uc query) (rev (auditEvents m));
          len = int (length filtered);
          start = wrap64 ((page - 1) * pageSize)
      in
      if len \<le> start then Some ([], length filtered)
      else
        let stop = wrap64 (start + pageSize); stop = (if len < stop then len else stop)
        in map_option (\<lambda>rows. (rows, length filtered)) (slice_of filtered (start, stop)))"

subsection \<open>At most one presence of a profile on a server\<close>

definition active_on :: "string \<Rightarrow> string \<Rightarrow> PlayerPresence \<Rightarrow> bool" where
  "active_on profileID serverID p \<longleftrightarrow> pc_EndedAt p = None \<and> pc_ProfileID p = profileID \<and> pc_ServerID p = serverID"

definition presences_ok :: "memory \<Rightarrow> bool" where
  "presences_ok m \<longleftrightarrow> (\<forall>i p. gget (presencesByID m) i = Some p \<longrightarrow> pc_ID p = i) \<and>
     (\<forall>i j p p'. gget (presencesByID m) i = Some p \<longrightarrow> gget (presencesByID m) j = Some p' \<longrightarrow>
        pc_EndedAt p = None \<longrightarrow> active_on (pc_ProfileID p) (pc_ServerID p) p' \<longrightarrow> i = j)"

lemma presences_ok_subset:
  assumes "presences_ok m"
    and "\<And>i p. gget (presencesByID m') i = Some p \<Longrightarrow> \<exists>q. gget (presencesByID m) i = Some q \<and> pc_ID p = pc_ID q \<and>
      (pc_EndedAt p = None \<longrightarrow> p = q)"
  shows "presences_ok m'"
  unfolding presences_ok_def
proof (intro conjI allI impI)
  fix i p assume "gget (presencesByID m') i = Some p"
  from assms(2) [OF this] assms(1) show "pc_ID p = i" unfolding presences_ok_def by metis
next
  fix i j p p' assume p: "gget (presencesByID m') i = Some p" "gget (presencesByID m') j = Some p'"
    and act: "pc_EndedAt p = None" "active_on (pc_ProfileID p) (pc_ServerID p) p'"
  from assms(2) [OF p(1)] act(1) have "gget (presencesByID m) i = Some p" by auto
  moreover from assms(2) [OF p(2)] act(2) have "gget (presencesByID m) j = Some p'" by (auto simp: active_on_def)
  ultimately show "i = j" using assms(1) act unfolding presences_ok_def by blast
qed

lemma UpsertPresence_Inr:
  assumes "UpsertPresence p now m = (m', Inr p')"
  shows "pc_ID p' = (if pc_ID p = [] then ''presence-'' @ Itoa (nextID m + 1) else pc_ID p)"
    and "pc_ProfileID p' = pc_ProfileID p" "pc_ServerID p' = pc_ServerID p" "pc_EndedAt p' = pc_EndedAt p"
    and "presencesByID m' = gput (presencesByID m) (pc_ID p') p'"
    and "\<And>i e. gget (presencesByID m) i = Some e \<Longrightarrow> pc_ID e \<noteq> pc_ID p' \<Longrightarrow>
      \<not> active_on (pc_ProfileID p) (pc_ServerID p) e"
  using assms by (auto simp: UpsertPresence_def Let_def active_on_def gfind_None split: if_splits) (metis option.distinct(1))+

lemma UpsertPresence_Inl:
  assumes "UpsertPresence p now m = (m', Inl e)"
  shows "presencesByID m' = presencesByID m"
  using assms by (auto simp: UpsertPresence_def Let_def split: if_splits)

lemma presences_ok_Upsert:
  assumes ok: "presences_ok m" shows "presences_ok (fst (UpsertPresence p now m))"
proof (cases "UpsertPresence p now m")
  case (Pair m' r)
  show ?thesis
  proof (cases r)
    case (Inl e)
    with ok Pair show ?thesis by (simp add: presences_ok_def UpsertPresence_Inl)
  next
    case (Inr p')
    note u = UpsertPresence_Inr [OF Pair [unfolded Inr]]
    show ?thesis
      unfolding Pair fst_conv presences_ok_def u(5)
    proof (intro conjI allI impI)
      fix i x assume "gget (gput (presencesByID m) (pc_ID p') p') i = Some x"
      with ok show "pc_ID x = i" by (auto simp: presences_ok_def split: if_splits)
    next
      fix i j x y
      assume x: "gget (gput (presencesByID m) (pc_ID p') p') i = Some x"
        and y: "gget (gput (presencesByID m) (pc_ID p') p') j = Some y"
        and act: "pc_EndedAt x = None" "active_on (pc_ProfileID x) (pc_ServerID x) y"
      have other: "False" if "gget (presencesByID m) k = Some z" "k \<noteq> pc_ID p'"
        "active_on (pc_ProfileID p') (pc_ServerID p') z" for k z
        using u(6) [OF that(1)] that ok by (auto simp: presences_ok_def u(2,3))
      consider "i = pc_ID p'" "j = pc_ID p'" | "i = pc_ID p'" "j \<noteq> pc_ID p'" | "i \<noteq> pc_ID p'" "j = pc_ID p'"
        | "i \<noteq> pc_ID p'" "j \<noteq> pc_ID p'" by blast
      then show "i = j"
      proof cases
        case 2
        with x y act other [of j y] show ?thesis by auto
      next
        case 3
        with x y act other [of i x] show ?thesis by (auto simp: active_on_def)
      next
        case 4
        with x y act ok show ?thesis by (auto simp: presences_ok_def)
      qed simp
    qed
  qed
qed

lemma presences_ok_End:
  assumes ok: "presences_ok m" shows "presences_ok (fst (EndPresence i reason t m))"
  by (rule presences_ok_subset [OF ok])
    (auto simp: EndPresence_def end_presence_def Let_def split: option.splits if_splits)

lemma presences_ok_endPresences:
  assumes ok: "presences_ok m" shows "presences_ok (fst (endPresencesLocked match reason t m))"
  by (rule presences_ok_subset [OF ok])
    (auto simp: endPresencesLocked_def end_presence_def split: if_splits)

lemma gvals_grange_set: "gvals (grange_set f m) = map (\<lambda>(k, v). f k v) (gentries m)"
  by (simp add: gvals_def grange_set.rep_eq comp_def case_prod_beta)

lemma gvals_entries: "gvals m = map snd (gentries m)"
  by (simp add: gvals_def)

lemma endPresences_effect:
  assumes "endPresencesLocked match reason t m = (m', n)"
    and keep: "\<And>p. match (end_presence reason t p) = match p"
  shows "filter (\<lambda>p. match p \<and> pc_EndedAt p = None) (gvals (presencesByID m')) = []"
    and "n = length (filter (\<lambda>p. match p \<and> pc_EndedAt p = None) (gvals (presencesByID m)))"
    and "filter (\<lambda>p. \<not> match p) (gvals (presencesByID m')) = filter (\<lambda>p. \<not> match p) (gvals (presencesByID m))"
proof -
  let ?f = "\<lambda>_ p. if pc_EndedAt p = None \<and> match p then end_presence reason t p else p"
  have m': "presencesByID m' = grange_set ?f (presencesByID m)" and n: "n = length (filter (\<lambda>p. pc_EndedAt p = None \<and> match p) (gvals (presencesByID m)))"
    using assms(1) by (auto simp: endPresencesLocked_def)
  show "n = length (filter (\<lambda>p. match p \<and> pc_EndedAt p = None) (gvals (presencesByID m)))"
    unfolding n by (simp add: conj_commute)
  show "filter (\<lambda>p. match p \<and> pc_EndedAt p = None) (gvals (presencesByID m')) = []"
    unfolding m' gvals_grange_set by (auto simp: filter_empty_conv end_presence_def)
  have "filter (\<lambda>p. \<not> match p) (map (\<lambda>(k, p). ?f k p) xs) = filter (\<lambda>p. \<not> match p) (map snd xs)" for xs :: "(string \<times> PlayerPresence) list"
    by (induction xs) (auto simp: keep split: if_splits)
  then show "filter (\<lambda>p. \<not> match p) (gvals (presencesByID m')) = filter (\<lambda>p. \<not> match p) (gvals (presencesByID m))"
    unfolding m' gvals_grange_set by (simp only: gvals_entries)
qed

subsection \<open>Acknowledging actions\<close>

text \<open>The acknowledgement that the loop applies to the actions it finds pending.\<close>

definition acked :: "string \<Rightarrow> time \<Rightarrow> NodeAction option \<Rightarrow> NodeAction option" where
  "acked nodeID now e = (case e of None \<Rightarrow> None
     | Some a \<Rightarrow> Some (if na_NodeID a = nodeID \<and> na_AckedAt a = None then a\<lparr>na_AckedAt := Some now\<rparr> else a))"

definition unacked :: "string \<Rightarrow> memory \<Rightarrow> string \<Rightarrow> bool" where
  "unacked nodeID m i \<longleftrightarrow> (\<exists>a. gget (nodeActionsByID m) i = Some a \<and> na_NodeID a = nodeID \<and> na_AckedAt a = None)"

lemma ack_steps:
  assumes "distinct ids" and "foldl (ack_step nodeID now) (m, c) ids = (m', n)"
  shows "gget (nodeActionsByID m') i =
      (if i \<in> set ids then acked nodeID now (gget (nodeActionsByID m) i) else gget (nodeActionsByID m) i)"
    and "n = c + length (filter (unacked nodeID m) ids)"
    and "m' = m\<lparr>nodeActionsByID := nodeActionsByID m'\<rparr>"
proof -
  have "gget (nodeActionsByID m') i =
      (if i \<in> set ids then acked nodeID now (gget (nodeActionsByID m) i) else gget (nodeActionsByID m) i) \<and>
    n = c + length (filter (unacked nodeID m) ids) \<and> m' = m\<lparr>nodeActionsByID := nodeActionsByID m'\<rparr>"
    using assms
  proof (induction ids arbitrary: m c)
    case (Cons j ids)
    obtain m1 c1 where s: "ack_step nodeID now (m, c) j = (m1, c1)" by (cases "ack_step nodeID now (m, c) j")
    then have m1: "gget (nodeActionsByID m1) k = (if k = j then acked nodeID now (gget (nodeActionsByID m) j) else gget (nodeActionsByID m) k)"
      and c1: "c1 = c + (if unacked nodeID m j then 1 else 0)" and rest: "m1 = m\<lparr>nodeActionsByID := nodeActionsByID m1\<rparr>" for k
      by (auto simp: ack_step_def acked_def unacked_def split: option.splits if_splits)
    have same: "filter (unacked nodeID m1) ids = filter (unacked nodeID m) ids"
      using Cons.prems(1) by (intro filter_cong) (auto simp: unacked_def m1)
    from Cons.prems s have ih: "gget (nodeActionsByID m') i =
      (if i \<in> set ids then acked nodeID now (gget (nodeActionsByID m1) i) else gget (nodeActionsByID m1) i) \<and>
      n = c1 + length (filter (unacked nodeID m1) ids) \<and> m' = m1\<lparr>nodeActionsByID := nodeActionsByID m'\<rparr>"
      by (intro Cons.IH) auto
    then have "m' = m\<lparr>nodeActionsByID := nodeActionsByID m'\<rparr>" by (subst (asm) rest) simp
    with ih Cons.prems(1) show ?case unfolding same m1 c1 by auto
  qed simp
  then show "gget (nodeActionsByID m') i =
      (if i \<in> set ids then acked nodeID now (gget (nodeActionsByID m) i) else gget (nodeActionsByID m) i)"
    "n = c + length (filter (unacked nodeID m) ids)" "m' = m\<lparr>nodeActionsByID := nodeActionsByID m'\<rparr>" by simp_all
qed

abbreviation ack_ids :: "string list \<Rightarrow> string list" where
  "ack_ids ids \<equiv> remdups (filter (\<lambda>i. i \<noteq> []) (map TrimSpace ids))"

lemma AckNodeActions_eq:
  assumes "AckNodeActions nodeID ids now m = (m', n)"
  shows "gget (nodeActionsByID m') i =
      (if i \<in> set (ack_ids ids) then acked (TrimSpace nodeID) now (gget (nodeActionsByID m) i) else gget (nodeActionsByID m) i)"
    and "n = length (filter (unacked (TrimSpace nodeID) m) (ack_ids ids))"
    and "m' = m\<lparr>nodeActionsByID := nodeActionsByID m'\<rparr>"
proof -
  from assms have f: "foldl (ack_step (TrimSpace nodeID) now) (m, 0) (ack_ids ids) = (m', n)"
    by (simp add: AckNodeActions_def Let_def split: if_splits)
  from ack_steps(1) [OF distinct_remdups f, of i] ack_steps(2,3) [OF distinct_remdups f]
  show "gget (nodeActionsByID m') i =
      (if i \<in> set (ack_ids ids) then acked (TrimSpace nodeID) now (gget (nodeActionsByID m) i) else gget (nodeActionsByID m) i)"
    "n = length (filter (unacked (TrimSpace nodeID) m) (ack_ids ids))" "m' = m\<lparr>nodeActionsByID := nodeActionsByID m'\<rparr>"
    by simp_all
qed

subsection \<open>The bans in force\<close>

lemma ActiveBanFor_None:
  "ActiveBanFor m q p now = None \<longleftrightarrow> (\<forall>i b. gget (bansByID m) i = Some b \<longrightarrow> banActive b now \<longrightarrow>
     \<not> (ba_Scope b = BanScopePassport \<and> ba_TargetID b = q) \<and> \<not> (ba_Scope b = BanScopeProfile \<and> ba_TargetID b = p))"
  by (auto simp: ActiveBanFor_def gfind_None split: option.split dest!: gfind_Some)

lemma ActiveBanFor_Some:
  assumes "ActiveBanFor m q p now = Some b"
  shows "\<exists>i. gget (bansByID m) i = Some b" and "banActive b now"
    and "ba_Scope b = BanScopePassport \<and> ba_TargetID b = q \<or> ba_Scope b = BanScopeProfile \<and> ba_TargetID b = p"
  using assms by (auto simp: ActiveBanFor_def split: option.splits dest!: gfind_Some)

subsection \<open>Audit identifiers\<close>

text \<open>The log is in the order of its numbers, none of which has been reached by the counter.\<close>

definition audit_ok :: "memory \<Rightarrow> bool" where
  "audit_ok m \<longleftrightarrow> (\<exists>ns. map ev_ID (auditEvents m) = map (\<lambda>n. ''audit-'' @ Itoa n) ns \<and>
     sorted_wrt (<) ns \<and> (\<forall>n\<in>set ns. 0 \<le> n \<and> n \<le> nextAuditID m)) \<and> 0 \<le> nextAuditID m"

lemma audit_ok_Append: "audit_ok m \<Longrightarrow> audit_ok (fst (AppendAuditEvent e m))"
proof -
  assume "audit_ok m"
  then obtain ns where ns: "map ev_ID (auditEvents m) = map (\<lambda>n. ''audit-'' @ Itoa n) ns" "sorted_wrt (<) ns"
    "\<forall>n\<in>set ns. 0 \<le> n \<and> n \<le> nextAuditID m" and "0 \<le> nextAuditID m" by (auto simp: audit_ok_def)
  then have "sorted_wrt (<) (ns @ [nextAuditID m + 1])"
    "\<forall>n\<in>set (ns @ [nextAuditID m + 1]). 0 \<le> n \<and> n \<le> nextAuditID m + 1"
    "map ev_ID (auditEvents (fst (AppendAuditEvent e m))) = map (\<lambda>n. ''audit-'' @ Itoa n) (ns @ [nextAuditID m + 1])"
    by (auto simp: sorted_wrt_append AppendAuditEvent_def Let_def)
  with \<open>0 \<le> nextAuditID m\<close> show ?thesis
    unfolding audit_ok_def by (intro conjI exI [of _ "ns @ [nextAuditID m + 1]"]) (simp_all add: AppendAuditEvent_def Let_def)
qed

subsection \<open>Properties\<close>

text \<open>
  Ending the presences of a profile leaves it none that is active, returns how many were
  active before, and leaves the presences of every other profile as they were.
\<close>

theorem EndProfilePresences_ends_all:
  assumes "EndProfilePresences p reason t m = (m', n)"
  shows "ListProfilePresences m' p = [] \<and> n = length (ListProfilePresences m p) \<and>
    (\<forall>p'. p' \<noteq> p \<longrightarrow> ListProfilePresences m' p' = ListProfilePresences m p')"
proof (intro conjI allI impI)
  from assms have e: "endPresencesLocked (\<lambda>pc. pc_ProfileID pc = p) reason t m = (m', n)"
    by (simp add: EndProfilePresences_def)
  note eff = endPresences_effect [OF e, simplified end_presence_def, simplified]
  show "ListProfilePresences m' p = []" "n = length (ListProfilePresences m p)"
    using eff(1,2) by (simp_all add: ListProfilePresences_def)
  fix p' assume "p' \<noteq> p"
  then have "ListProfilePresences x p' = filter (\<lambda>pc. pc_ProfileID pc = p' \<and> pc_EndedAt pc = None)
      (filter (\<lambda>pc. pc_ProfileID pc \<noteq> p) (gvals (presencesByID x)))" for x
    by (auto simp: ListProfilePresences_def intro!: filter_cong)
  then show "ListProfilePresences m' p' = ListProfilePresences m p'" by (simp only: eff(3))
qed

lemma EndProfilePresences_ends_all_witness:
  "ListProfilePresences (fst (EndProfilePresences ''p'' ''bye'' 5 NewMemory)) ''p'' = []"
  using EndProfilePresences_ends_all [of "''p''" "''bye''" 5 NewMemory
      "fst (EndProfilePresences ''p'' ''bye'' 5 NewMemory)" "snd (EndProfilePresences ''p'' ''bye'' 5 NewMemory)"]
  by simp

text \<open>
  Acknowledging actions is idempotent: it acknowledges the pending actions among the given
  identifiers that belong to the node and counts them, none of them is pending any more, and the
  same acknowledgement again changes nothing and counts nothing.
\<close>

theorem AckNodeActions_idempotent:
  assumes "AckNodeActions nodeID ids now m = (m1, n)"
  shows "n = length (filter (unacked (TrimSpace nodeID) m) (ack_ids ids)) \<and>
    (\<forall>i\<in>set (ack_ids ids). \<not> unacked (TrimSpace nodeID) m1 i) \<and>
    snd (AckNodeActions nodeID ids now' m1) = 0 \<and>
    (\<forall>i. gget (nodeActionsByID (fst (AckNodeActions nodeID ids now' m1))) i = gget (nodeActionsByID m1) i)"
proof -
  note a = AckNodeActions_eq [OF assms]
  have none: "\<not> unacked (TrimSpace nodeID) m1 i" if "i \<in> set (ack_ids ids)" for i
    using that unfolding unacked_def a(1) by (auto simp: acked_def split: option.splits if_splits)
  obtain m2 n2 where m2: "AckNodeActions nodeID ids now' m1 = (m2, n2)" by (cases "AckNodeActions nodeID ids now' m1")
  note b = AckNodeActions_eq [OF m2]
  have "n2 = 0" using none unfolding b(2) by (simp add: filter_empty_conv)
  moreover have "gget (nodeActionsByID m2) i = gget (nodeActionsByID m1) i" for i
    unfolding b(1) using none [of i] by (auto simp: acked_def unacked_def split: option.splits)
  ultimately show ?thesis using a(2) none m2 by simp
qed

text \<open>
  A player is banned exactly when some stored ban names the passport or the profile, has
  not been revoked and has not expired; and what is reported is such a ban.
\<close>

theorem ActiveBanFor_correct:
  "(ActiveBanFor m q p now \<noteq> None) =
     (\<exists>i b. gget (bansByID m) i = Some b \<and> ba_RevokedAt b = None \<and>
        (case ba_ExpiresAt b of None \<Rightarrow> True | Some e \<Rightarrow> now < e) \<and>
        (ba_Scope b = BanScopePassport \<and> ba_TargetID b = q \<or> ba_Scope b = BanScopeProfile \<and> ba_TargetID b = p)) \<and>
   ActiveBanFor m q p now \<in> insert None (Some ` {b. \<exists>i. gget (bansByID m) i = Some b \<and> banActive b now})"
proof -
  have act: "banActive b now \<longleftrightarrow> ba_RevokedAt b = None \<and> (case ba_ExpiresAt b of None \<Rightarrow> True | Some e \<Rightarrow> now < e)" for b
    by (auto simp: banActive_def split: option.splits)
  have "ActiveBanFor m q p now \<in> insert None (Some ` {b. \<exists>i. gget (bansByID m) i = Some b \<and> banActive b now})"
    using ActiveBanFor_Some(1,2) [of m q p now] by (cases "ActiveBanFor m q p now") auto
  moreover have "(ActiveBanFor m q p now \<noteq> None) =
     (\<exists>i b. gget (bansByID m) i = Some b \<and> banActive b now \<and>
        (ba_Scope b = BanScopePassport \<and> ba_TargetID b = q \<or> ba_Scope b = BanScopeProfile \<and> ba_TargetID b = p))"
    unfolding ActiveBanFor_None by blast
  ultimately show ?thesis unfolding act by (simp only: conj_assoc)
qed

text \<open>
  Extending a ban under an identifier with surrounding space leaves the ban itself as it
  was and stores the extended ban under the untrimmed identifier, so the ban's own expiry is
  unchanged and a revocation by its identifier leaves the copy in force.
\<close>

theorem ExtendBan_untrimmed:
  assumes "TrimSpace i \<noteq> i" "gget (bansByID m) (TrimSpace i) = Some b" "ba_RevokedAt b = None" "now < t"
    and "RevokeBan (TrimSpace i) who why now (fst (ExtendBan i t m)) = (m', r)"
  shows "gget (bansByID (fst (ExtendBan i t m))) (TrimSpace i) = Some b \<and> is_ok r \<and>
    gget (bansByID m') i = Some (b\<lparr>ba_ExpiresAt := Some t\<rparr>) \<and> banActive (b\<lparr>ba_ExpiresAt := Some t\<rparr>) now"
  using assms by (auto simp: ExtendBan_def RevokeBan_def Let_def banActive_def)

definition sample_ban :: PlayerBan where
  "sample_ban = \<lparr>ba_ID = ''b'', ba_Scope = BanScopePassport, ba_TargetID = ''q'', ba_Reason = [], ba_CreatedBy = [],
    ba_CreatedAt = 1, ba_ExpiresAt = Some 10, ba_RevokedBy = [], ba_RevokedAt = None, ba_RevokeReason = []\<rparr>"

lemma ExtendBan_untrimmed_witness:
  "gget (bansByID (fst (ExtendBan '' b'' 20 (NewMemory\<lparr>bansByID := gput gempty ''b'' sample_ban\<rparr>)))) ''b'' = Some sample_ban"
proof -
  have t: "TrimSpace '' b'' = ''b''" by code_simp
  from ExtendBan_untrimmed [of "'' b''" "NewMemory\<lparr>bansByID := gput gempty ''b'' sample_ban\<rparr>" sample_ban 5 20 "[]" "[]",
      OF _ _ _ _ surjective_pairing] show ?thesis
    by (simp add: t sample_ban_def)
qed

lemma AckNodeActions_idempotent_witness:
  "snd (AckNodeActions ''n'' [''a''] 6 (fst (AckNodeActions ''n'' [''a''] 5 NewMemory))) = 0"
  using AckNodeActions_idempotent [of "''n''" "[''a'']" 5 NewMemory
      "fst (AckNodeActions ''n'' [''a''] 5 NewMemory)" "snd (AckNodeActions ''n'' [''a''] 5 NewMemory)" 6]
  by simp

end
