(* ===== verification/Downstream.thy ===== *)
theory Downstream
  imports StoreTypes
begin

text \<open>
  \<^verbatim>\<open>core/internal/store/downstream.go\<close>: a downstream server's portal configuration is a map of
  dynamic values; \<open>normalizeDownstreamServer\<close> fills in the defaults and
  \<open>DownstreamTargetFromServer\<close> reads the typed, clamped target a node is sent.
\<close>

subsection \<open>Reading dynamic values\<close>

definition stringFromAny :: "goval option \<Rightarrow> string \<Rightarrow> string" where
  "stringFromAny v fallback =
     (case v of Some (VStr s) \<Rightarrow> if TrimSpace s = [] then fallback else s | _ \<Rightarrow> fallback)"

text \<open>
  \<^verbatim>\<open>int(f)\<close> drops the fraction; outside the range of \<^verbatim>\<open>int\<close> the result is left to the
  implementation, and is the least \<^verbatim>\<open>int\<close> on amd64.
\<close>

definition int_of_float :: "rat \<Rightarrow> int" where
  "int_of_float f =
     (let n = (if 0 \<le> f then \<lfloor>f\<rfloor> else \<lceil>f\<rceil>) in
      if - (2 ^ 63) \<le> n \<and> n < 2 ^ 63 then n else - (2 ^ 63))"

definition intFromAny :: "goval option \<Rightarrow> int \<Rightarrow> int" where
  "intFromAny v fallback =
     (case v of
        Some (VInt n) \<Rightarrow> n
      | Some (VFloat f) \<Rightarrow> int_of_float f
      | Some (VStr s) \<Rightarrow> (case Atoi (TrimSpace s) of Some n \<Rightarrow> n | None \<Rightarrow> fallback)
      | _ \<Rightarrow> fallback)"

definition boolFromAny :: "unicode \<Rightarrow> goval option \<Rightarrow> bool \<Rightarrow> bool" where
  "boolFromAny uc v fallback =
     (case v of
        Some (VBool b) \<Rightarrow> b
      | Some (VStr s) \<Rightarrow>
          let t = ToLower uc (TrimSpace s) in
          if t \<in> {''true'', ''yes'', ''1''} then True
          else if t \<in> {''false'', ''no'', ''0''} then False
          else fallback
      | _ \<Rightarrow> fallback)"

definition stringSliceFromAny :: "goval option \<Rightarrow> string list" where
  "stringSliceFromAny v =
     (case v of
        Some (VStrs ss) \<Rightarrow> ss
      | Some (VList vs) \<Rightarrow>
          concat (map (\<lambda>x. case x of VStr s \<Rightarrow> (if TrimSpace s \<noteq> [] then [TrimSpace s] else []) | _ \<Rightarrow> []) vs)
      | Some (VStr s) \<Rightarrow>
          if TrimSpace s = [] then [] else filter (\<lambda>t. t \<noteq> []) (map TrimSpace (Split s CHR '',''))
      | _ \<Rightarrow> [])"

definition mapSliceFromAny :: "goval option \<Rightarrow> anymap list" where
  "mapSliceFromAny v =
     (case v of
        Some (VMaps ms) \<Rightarrow> ms
      | Some (VList vs) \<Rightarrow> concat (map (\<lambda>x. case x of VMap m \<Rightarrow> [m] | _ \<Rightarrow> []) vs)
      | _ \<Rightarrow> [])"

subsection \<open>Lines of a MiniMessage\<close>

text \<open>
  The regular expression \<^verbatim>\<open>(?i)\r\n|\r|\n|<\s*(?:newline|br)\s*/?>\<close>: the length of its match at
  the start of the string, alternatives tried in this order.
\<close>

definition re_space :: "char \<Rightarrow> bool" where "re_space c \<longleftrightarrow> code c \<in> {9, 10, 12, 13, 32}"

definition fold_prefix :: "string \<Rightarrow> string \<Rightarrow> bool" where
  "fold_prefix word s \<longleftrightarrow> map lower_char (take (length word) s) = word"

definition match_tag_end :: "string \<Rightarrow> nat option" where
  "match_tag_end s =
     (let w = length (takeWhile re_space s) in
      case drop w s of
        c # cs \<Rightarrow>
          if c = CHR ''>'' then Some (w + 1)
          else if c = CHR ''/'' then (case cs of d # _ \<Rightarrow> if d = CHR ''>'' then Some (w + 2) else None | [] \<Rightarrow> None)
          else None
      | [] \<Rightarrow> None)"

definition match_break :: "string \<Rightarrow> nat option" where
  "match_break s =
     (case s of [] \<Rightarrow> None
      | c # cs \<Rightarrow>
          if code c = 13 then (case cs of d # _ \<Rightarrow> if code d = 10 then Some 2 else Some 1 | [] \<Rightarrow> Some 1)
          else if code c = 10 then Some 1
          else if c = CHR ''<'' then
            let w = length (takeWhile re_space cs); t = drop w cs in
            if fold_prefix ''newline'' t then map_option (\<lambda>n. 1 + w + 7 + n) (match_tag_end (drop 7 t))
            else if fold_prefix ''br'' t then map_option (\<lambda>n. 1 + w + 2 + n) (match_tag_end (drop 2 t))
            else None
          else None)"

text \<open>The offsets of the successive matches, from left to right.\<close>

function break_offsets :: "nat \<Rightarrow> string \<Rightarrow> nat list" where
  "break_offsets i [] = []"
| "break_offsets i (c # cs) =
     (case match_break (c # cs) of
        None \<Rightarrow> break_offsets (i + 1) cs
      | Some n \<Rightarrow> i # break_offsets (i + n) (drop (n - 1) cs))"
  by pat_completeness auto
termination
  by (relation "measure (\<lambda>(i, s). length s)") auto

definition LimitMiniMessageLines :: "string \<Rightarrow> int \<Rightarrow> string" where
  "LimitMiniMessageLines value maxLines =
     (if value = [] \<or> maxLines \<le> 0 then []
      else
        let offsets = break_offsets 0 value in
        if int (length offsets) < maxLines then value else take (offsets ! (nat maxLines - 1)) value)"

subsection \<open>Defaults\<close>

abbreviation (input) DefaultTransferGrantTTLSeconds :: int where "DefaultTransferGrantTTLSeconds \<equiv> 45"
abbreviation (input) DefaultDownstreamPort :: int where "DefaultDownstreamPort \<equiv> 25565"
abbreviation (input) DefaultMOTDMaxLines :: int where "DefaultMOTDMaxLines \<equiv> 2"
abbreviation (input) DefaultMinDownstreamProtocol :: int where "DefaultMinDownstreamProtocol \<equiv> 771"

text \<open>\<^verbatim>\<open>if _, ok := c[k]; !ok { c[k] = v }\<close>\<close>

definition put_default :: "string \<Rightarrow> goval \<Rightarrow> anymap \<Rightarrow> anymap" where
  "put_default k v c = (if gget c k = None then gput c k v else c)"

definition normalizePortalConfig :: "unicode \<Rightarrow> bool \<Rightarrow> string \<Rightarrow> anymap \<Rightarrow> anymap" where
  "normalizePortalConfig uc registrationOpen displayName c =
     (let c = put_default ''registration_strategy'' (if registrationOpen then VStr ''open'' else VStr ''closed'') c;
          c = put_default ''show_in_global'' (VBool True) c;
          c = put_default ''host'' (VStr ''127.0.0.1'') c;
          c = put_default ''port'' (VInt DefaultDownstreamPort) c;
          c = put_default ''transfer_host'' (VStr (stringFromAny (gget c ''host'') ''127.0.0.1'')) c;
          c = put_default ''transfer_port'' (VInt (intFromAny (gget c ''port'') DefaultDownstreamPort)) c;
          c = put_default ''motd'' (VStr displayName) c;
          c = put_default ''server_icon'' (VStr []) c;
          c = put_default ''gate_enabled''
                (if gget c ''grant_required'' \<noteq> None then VBool (boolFromAny uc (gget c ''grant_required'') True)
                 else VBool True) c;
          c = put_default ''grant_required'' (VBool (boolFromAny uc (gget c ''gate_enabled'') True)) c;
          c = put_default ''grant_ttl_seconds'' (VInt DefaultTransferGrantTTLSeconds) c;
          c = put_default ''allowed_portal_sources'' (VStrs []) c;
          c = put_default ''portal_hosts'' (VStrs []) c;
          c = put_default ''limbo_blueprint_id'' (VStr []) c;
          c = put_default ''min_protocol_version'' (VInt DefaultMinDownstreamProtocol) c;
          c = put_default ''max_protocol_version'' (VInt 0) c;
          c = put_default ''resource_pack_enabled'' (VBool False) c;
          c = put_default ''resource_pack_required'' (VBool False) c;
          c = put_default ''resource_packs'' (VMaps []) c
      in c)"

definition normalizeDownstreamServer :: "unicode \<Rightarrow> DownstreamServer \<Rightarrow> DownstreamServer" where
  "normalizeDownstreamServer uc server =
     (let slug = (if ds_Slug server = [] then ds_ID server else ds_Slug server);
          displayName = (if ds_DisplayName server = [] then slug else ds_DisplayName server)
      in server\<lparr>ds_Slug := slug, ds_DisplayName := displayName,
           ds_Status := (if ds_Status server = [] then ''active'' else ds_Status server),
           ds_PortalTheme := gempty,
           ds_PortalConfig := normalizePortalConfig uc (ds_RegistrationOpen server) displayName (ds_PortalConfig server)\<rparr>)"

record DownstreamTarget =
  dg_ServerID :: string
  dg_Slug :: string
  dg_DisplayName :: string
  dg_Status :: string
  dg_Host :: string
  dg_Port :: int
  dg_TransferHost :: string
  dg_TransferPort :: int
  dg_MOTD :: string
  dg_ServerIcon :: string
  dg_GateEnabled :: bool
  dg_GrantTTLSeconds :: int
  dg_AllowedPortalSources :: "string list"
  dg_RegistrationOpen :: bool
  dg_ExtensionProviders :: "string list"
  dg_MinProtocolVersion :: int
  dg_MaxProtocolVersion :: int
  dg_ResourcePackEnabled :: bool
  dg_ResourcePackRequired :: bool
  dg_ResourcePacks :: "anymap list"

definition valid_port :: "int \<Rightarrow> bool" where "valid_port p \<longleftrightarrow> 0 < p \<and> p \<le> 65535"

definition DownstreamTargetFromServer :: "unicode \<Rightarrow> DownstreamServer \<Rightarrow> DownstreamTarget" where
  "DownstreamTargetFromServer uc server =
     (let server = normalizeDownstreamServer uc server;
          c = gget (ds_PortalConfig server);
          host = TrimSpace (stringFromAny (c ''host'') ''127.0.0.1'');
          host = (if host = [] then ''127.0.0.1'' else host);
          port = intFromAny (c ''port'') DefaultDownstreamPort;
          port = (if port \<le> 0 \<or> 65535 < port then DefaultDownstreamPort else port);
          transferHost = TrimSpace (stringFromAny (c ''transfer_host'') host);
          transferHost = (if transferHost = [] then host else transferHost);
          transferPort = intFromAny (c ''transfer_port'') port;
          transferPort = (if transferPort \<le> 0 \<or> 65535 < transferPort then port else transferPort);
          ttl = intFromAny (c ''grant_ttl_seconds'') DefaultTransferGrantTTLSeconds;
          ttl = (if ttl < 5 then 5 else ttl);
          ttl = (if 300 < ttl then 300 else ttl);
          motd = TrimSpace (stringFromAny (c ''motd'') (ds_DisplayName server));
          motd = (if motd = [] then ds_DisplayName server else motd);
          motd = LimitMiniMessageLines motd DefaultMOTDMaxLines;
          serverIcon = TrimSpace (stringFromAny (c ''server_icon'') [])
      in \<lparr>dg_ServerID = ds_ID server, dg_Slug = ds_Slug server, dg_DisplayName = ds_DisplayName server,
          dg_Status = ds_Status server, dg_Host = host, dg_Port = port, dg_TransferHost = transferHost,
          dg_TransferPort = transferPort, dg_MOTD = motd, dg_ServerIcon = serverIcon,
          dg_GateEnabled = boolFromAny uc (c ''grant_required'') (boolFromAny uc (c ''gate_enabled'') True),
          dg_GrantTTLSeconds = ttl, dg_AllowedPortalSources = stringSliceFromAny (c ''allowed_portal_sources''),
          dg_RegistrationOpen = ds_RegistrationOpen server, dg_ExtensionProviders = ds_ExtensionProviders server,
          dg_MinProtocolVersion = intFromAny (c ''min_protocol_version'') DefaultMinDownstreamProtocol,
          dg_MaxProtocolVersion = intFromAny (c ''max_protocol_version'') 0,
          dg_ResourcePackEnabled = boolFromAny uc (c ''resource_pack_enabled'') False,
          dg_ResourcePackRequired = boolFromAny uc (c ''resource_pack_required'') False,
          dg_ResourcePacks = mapSliceFromAny (c ''resource_packs'')\<rparr>)"

definition DownstreamTargetData :: "DownstreamTarget \<Rightarrow> anymap" where
  "DownstreamTargetData t =
     mk_map
       [(''server_id'', VStr (dg_ServerID t)), (''slug'', VStr (dg_Slug t)),
        (''display_name'', VStr (dg_DisplayName t)), (''status'', VStr (dg_Status t)),
        (''host'', VStr (dg_Host t)), (''port'', VInt (dg_Port t)),
        (''transfer_host'', VStr (dg_TransferHost t)), (''transfer_port'', VInt (dg_TransferPort t)),
        (''motd'', VStr (dg_MOTD t)), (''server_icon'', VStr (dg_ServerIcon t)),
        (''grant_required'', VBool (dg_GateEnabled t)), (''gate_enabled'', VBool (dg_GateEnabled t)),
        (''grant_ttl_seconds'', VInt (dg_GrantTTLSeconds t)),
        (''allowed_portal_sources'', VStrs (dg_AllowedPortalSources t)),
        (''registration_open'', VBool (dg_RegistrationOpen t)),
        (''extension_providers'', VStrs (dg_ExtensionProviders t)),
        (''min_protocol_version'', VInt (dg_MinProtocolVersion t)),
        (''max_protocol_version'', VInt (dg_MaxProtocolVersion t)),
        (''resource_pack_enabled'', VBool (dg_ResourcePackEnabled t)),
        (''resource_pack_required'', VBool (dg_ResourcePackRequired t)),
        (''resource_packs'', VMaps (dg_ResourcePacks t))]"
subsection \<open>Lines\<close>

lemma takeWhile_take:
  "length (takeWhile P (take j s)) = min j (length (takeWhile P s))"
  by (induction s arbitrary: j) (auto simp: take_Cons' min_def split: if_splits)

lemma match_tag_end_take: "match_tag_end s = Some n \<Longrightarrow> n \<le> j \<Longrightarrow> match_tag_end (take j s) = Some n"
proof -
  assume m: "match_tag_end s = Some n" and n: "n \<le> j"
  let ?w = "length (takeWhile re_space s)"
  from m obtain c cs where d: "drop ?w s = c # cs" by (auto simp: match_tag_end_def Let_def split: list.splits)
  from m d have w: "?w < n" by (auto simp: match_tag_end_def Let_def split: if_splits list.splits)
  with n have t: "length (takeWhile re_space (take j s)) = ?w" by (simp add: takeWhile_take)
  have "drop ?w (take j s) = take (j - ?w) (c # cs)" by (simp add: drop_take d)
  with m d n w show ?thesis
    by (auto simp: match_tag_end_def Let_def t take_Cons' split: if_splits list.splits)
qed

lemma match_tag_end_untake: "match_tag_end (take j s) = Some n \<Longrightarrow> match_tag_end s = Some n \<and> n \<le> j"
proof -
  assume m: "match_tag_end (take j s) = Some n"
  let ?w = "length (takeWhile re_space (take j s))"
  from m obtain c cs where d: "drop ?w (take j s) = c # cs" by (auto simp: match_tag_end_def Let_def split: list.splits)
  then have "?w < j" by (metis drop_all length_take list.distinct(1) min.cobounded2 not_le order_trans)
  then have w: "length (takeWhile re_space s) = ?w" by (simp add: takeWhile_take min_def split: if_splits)
  obtain cs' where "drop ?w s = c # cs'" and "cs = take (j - ?w - 1) cs'" using d \<open>?w < j\<close>
    by (cases "drop ?w s") (auto simp: drop_take take_Cons')
  with m d w \<open>?w < j\<close> show ?thesis
    by (auto simp: match_tag_end_def Let_def take_Cons' split: if_splits list.splits)
qed

lemma fold_prefix_take: "length word \<le> j \<Longrightarrow> fold_prefix word (take j s) = fold_prefix word s"
  by (simp add: fold_prefix_def min_absorb1)

lemma fold_prefix_short: "j < length word \<Longrightarrow> \<not> fold_prefix word (take j s)"
  by (auto simp: fold_prefix_def dest: arg_cong [where f = length])

lemma fold_prefix_hd: "fold_prefix (w # ws) s \<Longrightarrow> \<exists>c cs. s = c # cs \<and> lower_char c = w"
  by (cases s) (auto simp: fold_prefix_def)

text \<open>The part of the match after the angle bracket and the spaces.\<close>

definition match_tag :: "string \<Rightarrow> nat option" where
  "match_tag t =
     (if fold_prefix ''newline'' t then map_option (\<lambda>n. 7 + n) (match_tag_end (drop 7 t))
      else if fold_prefix ''br'' t then map_option (\<lambda>n. 2 + n) (match_tag_end (drop 2 t))
      else None)"

lemma match_tag_words: "fold_prefix ''newline'' t \<Longrightarrow> \<not> fold_prefix ''br'' t"
  by (auto dest!: fold_prefix_hd)

lemma match_tag_take: "match_tag t = Some n \<Longrightarrow> n \<le> j \<Longrightarrow> match_tag (take j t) = Some n"
  using match_tag_words [of "take j t"]
  by (auto simp: match_tag_def fold_prefix_take drop_take match_tag_end_take split: if_splits)

lemma match_tag_untake: "match_tag (take j t) = Some n \<Longrightarrow> match_tag t = Some n \<and> n \<le> j"
proof -
  assume m: "match_tag (take j t) = Some n"
  consider "fold_prefix ''newline'' (take j t)" | "\<not> fold_prefix ''newline'' (take j t)" "fold_prefix ''br'' (take j t)"
    using m by (auto simp: match_tag_def split: if_splits)
  then show ?thesis
  proof cases
    case 1
    then have "7 \<le> j" using fold_prefix_short [of j "''newline''" t] by fastforce
    with 1 m show ?thesis
      by (auto simp: match_tag_def fold_prefix_take drop_take dest!: match_tag_end_untake)
  next
    case 2
    then have j: "2 \<le> j" using fold_prefix_short [of j "''br''" t] by fastforce
    with 2 have "fold_prefix ''br'' t" by (simp add: fold_prefix_take)
    with 2 m j show ?thesis using match_tag_words [of t]
      by (auto simp: match_tag_def fold_prefix_take drop_take dest!: match_tag_end_untake)
  qed
qed

lemma match_break_tag:
  "match_break (CHR ''<'' # cs) =
     (let w = length (takeWhile re_space cs) in map_option (\<lambda>n. 1 + w + n) (match_tag (drop w cs)))"
  by (auto simp: match_break_def match_tag_def Let_def code_def map_option_case split: option.split)

lemma match_tag_pos: "match_tag t = Some n \<Longrightarrow> 0 < n"
  by (auto simp: match_tag_def split: if_splits)

lemma match_break_tag_take:
  "match_break (CHR ''<'' # cs) = Some n \<Longrightarrow> n \<le> Suc j \<Longrightarrow> match_break (CHR ''<'' # take j cs) = Some n"
  by (auto simp: match_break_tag Let_def takeWhile_take drop_take min_def intro!: match_tag_take dest: match_tag_pos)

lemma match_break_tag_untake:
  "match_break (CHR ''<'' # take j cs) = Some n \<Longrightarrow> match_break (CHR ''<'' # cs) = Some n"
proof -
  assume m: "match_break (CHR ''<'' # take j cs) = Some n"
  let ?w = "length (takeWhile re_space (take j cs))"
  from m obtain k where k: "match_tag (take (j - ?w) (drop ?w cs)) = Some k" "n = 1 + ?w + k"
    by (auto simp: match_break_tag Let_def drop_take)
  then have "take (j - ?w) (drop ?w cs) \<noteq> []" by (auto simp: match_tag_def fold_prefix_def)
  then have "?w < j" by auto
  then have "length (takeWhile re_space cs) = ?w" by (simp add: takeWhile_take min_def split: if_splits)
  with match_tag_untake [OF k(1)] k(2) show ?thesis by (simp add: match_break_tag Let_def)
qed

lemma match_break_char:
  "c \<noteq> CHR ''<'' \<Longrightarrow> match_break (c # cs) =
     (if code c = 13 then (case cs of d # _ \<Rightarrow> if code d = 10 then Some 2 else Some 1 | [] \<Rightarrow> Some 1)
      else if code c = 10 then Some 1 else None)"
  by (simp add: match_break_def)

text \<open>Cutting the string after a match keeps the match and makes no other.\<close>

lemma match_break_take: "match_break s = Some n \<Longrightarrow> n \<le> j \<Longrightarrow> match_break (take j s) = Some n"
proof (cases s)
  case (Cons c cs)
  assume m: "match_break s = Some n" and n: "n \<le> j"
  have j: "j = Suc (j - 1)" if "0 < n" using n that by simp
  have "0 < n" using m Cons by (auto simp: match_break_def Let_def split: if_splits list.splits)
  note j = j [OF this]
  show ?thesis
  proof (cases "c = CHR ''<''")
    case True
    with m n Cons show ?thesis by (subst j) (simp add: match_break_tag_take)
  next
    case False
    with m n Cons show ?thesis
      by (subst j) (cases cs, auto simp: match_break_char take_Cons' split: if_splits)
  qed
qed (simp add: match_break_def)

lemma match_break_take_None: "match_break (c # cs) = None \<Longrightarrow> match_break (c # take j cs) = None"
proof (cases "c = CHR ''<''")
  case True
  assume none: "match_break (c # cs) = None"
  show ?thesis
  proof (rule ccontr)
    assume "match_break (c # take j cs) \<noteq> None"
    then obtain n where "match_break (c # take j cs) = Some n" by blast
    with match_break_tag_untake [of j cs n] True none show False by simp
  qed
qed (cases cs, auto simp: match_break_char split: if_splits)

lemma break_offsets_ge: "k \<in> set (break_offsets i s) \<Longrightarrow> i \<le> k"
  by (induction i s rule: break_offsets.induct) (fastforce split: option.splits)+

lemma break_offsets_take:
  "k < length (break_offsets i s) \<Longrightarrow>
   break_offsets i (take (break_offsets i s ! k - i) s) = take k (break_offsets i s)"
proof (induction i s arbitrary: k rule: break_offsets.induct)
  case (2 i c cs)
  show ?case
  proof (cases "match_break (c # cs)")
    case None
    let ?os = "break_offsets (i + 1) cs"
    have k: "k < length ?os" using "2.prems" None by simp
    then have "i + 1 \<le> ?os ! k" by (intro break_offsets_ge [of _ _ cs]) simp
    then have "?os ! k - i = Suc (?os ! k - (i + 1))" by simp
    with "2.IH"(1) [OF None k] None show ?thesis
      by (simp add: match_break_take_None)
  next
    case (Some n)
    have pos: "0 < n" using Some by (auto simp: match_break_def Let_def split: if_splits list.splits)
    let ?os = "break_offsets (i + n) (drop (n - 1) cs)"
    show ?thesis
    proof (cases k)
      case 0
      with Some show ?thesis by simp
    next
      case (Suc k')
      have k: "k' < length ?os" using "2.prems" Some Suc by simp
      then have ge: "i + n \<le> ?os ! k'" by (intro break_offsets_ge [of _ _ "drop (n - 1) cs"]) simp
      define j where "j = ?os ! k' - i"
      have j: "n \<le> j" "j = Suc (j - 1)" "?os ! k' - (i + n) = j - n" using ge pos by (auto simp: j_def)
      have t: "take j (c # cs) = c # take (j - 1) cs" using j(2) by (metis take_Suc_Cons)
      have m: "match_break (c # take (j - 1) cs) = Some n"
        using match_break_take [OF Some j(1)] t by simp
      have "drop (n - 1) (take (j - 1) cs) = take (j - n) (drop (n - 1) cs)"
        using pos j(1) by (simp add: drop_take)
      with "2.IH"(2) [OF Some k] j(3) m
      have "break_offsets i (c # take (j - 1) cs) = i # take k' ?os" by simp
      moreover have "take (break_offsets i (c # cs) ! k - i) (c # cs) = c # take (j - 1) cs"
        using t Some Suc by (simp add: j_def)
      ultimately show ?thesis using Some Suc by simp
    qed
  qed
qed simp

subsection \<open>Defaults never overwrite\<close>

lemma gget_put_default [simp]:
  "gget (put_default k v c) k' = (case gget c k' of Some x \<Rightarrow> Some x | None \<Rightarrow> if k = k' then Some v else None)"
  by (auto simp: put_default_def split: option.split)

lemma put_default_present: "gget c k \<noteq> None \<Longrightarrow> put_default k v c = c"
  by (auto simp: put_default_def)

lemma normalizePortalConfig_keeps: "gget c k = Some v \<Longrightarrow> gget (normalizePortalConfig uc r n c) k = Some v"
  unfolding normalizePortalConfig_def Let_def by (simp only: gget_put_default option.case)

lemma put_default_member [simp]: "gget (put_default k v c) k' = None \<longleftrightarrow> gget c k' = None \<and> k \<noteq> k'"
  by (auto split: option.split)

lemma normalizePortalConfig_keys:
  "list_all (\<lambda>k. gget (normalizePortalConfig uc r n c) k \<noteq> None)
     [''registration_strategy'', ''show_in_global'', ''host'', ''port'', ''transfer_host'', ''transfer_port'', ''motd'',
      ''server_icon'', ''gate_enabled'', ''grant_required'', ''grant_ttl_seconds'', ''allowed_portal_sources'',
      ''portal_hosts'', ''limbo_blueprint_id'', ''min_protocol_version'', ''max_protocol_version'',
      ''resource_pack_enabled'', ''resource_pack_required'', ''resource_packs'']"
  unfolding normalizePortalConfig_def Let_def list.pred_inject put_default_member by simp

lemma normalizePortalConfig_idem:
  "normalizePortalConfig uc r n (normalizePortalConfig uc r' n' c) = normalizePortalConfig uc r' n' c"
proof -
  define d where "d = normalizePortalConfig uc r' n' c"
  have "list_all (\<lambda>k. \<forall>v. put_default k v d = d)
     [''registration_strategy'', ''show_in_global'', ''host'', ''port'', ''transfer_host'', ''transfer_port'', ''motd'',
      ''server_icon'', ''gate_enabled'', ''grant_required'', ''grant_ttl_seconds'', ''allowed_portal_sources'',
      ''portal_hosts'', ''limbo_blueprint_id'', ''min_protocol_version'', ''max_protocol_version'',
      ''resource_pack_enabled'', ''resource_pack_required'', ''resource_packs'']"
    by (rule list.pred_mono_strong [OF normalizePortalConfig_keys [of uc r' n' c, folded d_def]])
      (blast intro: put_default_present)
  then have "normalizePortalConfig uc r n d = d"
    unfolding list.pred_inject normalizePortalConfig_def Let_def by (simp only: simp_thms)
  then show ?thesis unfolding d_def .
qed

subsection \<open>Properties\<close>

text \<open>
  A message limited to a positive number of lines is a prefix of the message with fewer line
  breaks than that number, and is the message itself when that has few enough; whatever markup
  the breaks are written in.
\<close>

theorem LimitMiniMessageLines_bound:
  assumes "0 < n"
  shows "int (length (break_offsets 0 (LimitMiniMessageLines s n))) < n \<and>
    (\<exists>t. s = LimitMiniMessageLines s n @ t) \<and>
    (LimitMiniMessageLines s n = s) = (int (length (break_offsets 0 s)) < n)"
proof -
  let ?os = "break_offsets 0 s"
  show ?thesis
  proof (cases "int (length ?os) < n")
    case True
    with assms show ?thesis by (auto simp: LimitMiniMessageLines_def Let_def)
  next
    case False
    then have s: "s \<noteq> []" using assms by auto
    have k: "nat n - 1 < length ?os" using False assms by linarith
    have l: "LimitMiniMessageLines s n = take (?os ! (nat n - 1)) s"
      using False assms s by (simp add: LimitMiniMessageLines_def Let_def)
    have "int (length (break_offsets 0 (LimitMiniMessageLines s n))) < n"
      using break_offsets_take [OF k] assms k by (simp add: l)
    moreover from this have "LimitMiniMessageLines s n \<noteq> s" using False by auto
    moreover have "\<exists>t. s = LimitMiniMessageLines s n @ t" unfolding l by (metis append_take_drop_id)
    ultimately show ?thesis using False by simp
  qed
qed

lemma LimitMiniMessageLines_bound_witness:
  "LimitMiniMessageLines ''a<br>b< NewLine />c'' 2 = ''a<br>b'' \<and>
   int (length (break_offsets 0 (LimitMiniMessageLines ''a<br>b< NewLine />c'' 2))) < 2"
proof -
  have "LimitMiniMessageLines ''a<br>b< NewLine />c'' 2 = ''a<br>b''" by code_simp
  with LimitMiniMessageLines_bound [of 2 "''a<br>b< NewLine />c''"] show ?thesis by simp
qed

text \<open>
  The target computed from a stored server, whatever its configuration holds, has non-empty
  hosts, ports in range and a grant lifetime between 5 and 300 seconds.
\<close>

theorem DownstreamTarget_bounds:
  "dg_Host (DownstreamTargetFromServer uc s) \<noteq> [] \<and> dg_TransferHost (DownstreamTargetFromServer uc s) \<noteq> [] \<and>
   dg_Port (DownstreamTargetFromServer uc s) \<in> {1..65535} \<and>
   dg_TransferPort (DownstreamTargetFromServer uc s) \<in> {1..65535} \<and>
   dg_GrantTTLSeconds (DownstreamTargetFromServer uc s) \<in> {5..300}"
proof (intro conjI)
  show "dg_Host (DownstreamTargetFromServer uc s) \<noteq> []" "dg_TransferHost (DownstreamTargetFromServer uc s) \<noteq> []"
    "dg_Port (DownstreamTargetFromServer uc s) \<in> {1..65535}" "dg_TransferPort (DownstreamTargetFromServer uc s) \<in> {1..65535}"
    "dg_GrantTTLSeconds (DownstreamTargetFromServer uc s) \<in> {5..300}"
    unfolding DownstreamTargetFromServer_def Let_def DownstreamTarget.select_convs by auto
qed

text \<open>
  Normalizing a server keeps every configuration entry it has, whatever its value, and
  normalizing once more changes nothing, even when the server has been opened or closed since.
\<close>

theorem normalizeDownstreamServer_stable:
  "shrinks (ds_PortalConfig (normalizeDownstreamServer uc s)) (ds_PortalConfig s) \<and>
   normalizeDownstreamServer uc (normalizeDownstreamServer uc s) = normalizeDownstreamServer uc s \<and>
   ds_PortalConfig (normalizeDownstreamServer uc ((normalizeDownstreamServer uc s)\<lparr>ds_RegistrationOpen := b\<rparr>)) =
     ds_PortalConfig (normalizeDownstreamServer uc s)"
proof -
  define c where "c = normalizePortalConfig uc (ds_RegistrationOpen s) (if ds_DisplayName s = [] then
      (if ds_Slug s = [] then ds_ID s else ds_Slug s) else ds_DisplayName s) (ds_PortalConfig s)"
  have idem: "normalizePortalConfig uc r n c = c" for r n
    unfolding c_def by (rule normalizePortalConfig_idem)
  have s: "normalizeDownstreamServer uc s = s\<lparr>ds_Slug := (if ds_Slug s = [] then ds_ID s else ds_Slug s),
      ds_DisplayName := (if ds_DisplayName s = [] then (if ds_Slug s = [] then ds_ID s else ds_Slug s) else ds_DisplayName s),
      ds_Status := (if ds_Status s = [] then ''active'' else ds_Status s), ds_PortalTheme := gempty, ds_PortalConfig := c\<rparr>"
    by (simp add: normalizeDownstreamServer_def Let_def c_def)
  have "normalizeDownstreamServer uc (normalizeDownstreamServer uc s) = normalizeDownstreamServer uc s"
    unfolding s by (simp add: normalizeDownstreamServer_def Let_def idem)
  moreover have "ds_PortalConfig (normalizeDownstreamServer uc ((normalizeDownstreamServer uc s)\<lparr>ds_RegistrationOpen := b\<rparr>)) = c"
    unfolding s by (simp add: normalizeDownstreamServer_def Let_def idem)
  moreover have "shrinks (ds_PortalConfig (normalizeDownstreamServer uc s)) (ds_PortalConfig s)"
    unfolding s by (simp add: shrinks_def c_def normalizePortalConfig_keeps)
  ultimately show ?thesis by (simp add: s)
qed

end
