(* ===== verification/StoreCatalog.thy ===== *)
theory StoreCatalog
  imports StoreAccess Downstream
begin

text \<open>
  The catalogue tables of the in-memory store: upstream routes, IP geolocation sources, system
  settings, downstream servers with their status and privilege lists, limbo blueprints, protocol
  bundles, Velocity releases and extension data.  The locale \<open>keyed_table\<close> is the contract of a
  table whose records name their own identifier, \<open>dated_table\<close> that of one whose records keep the
  time of their creation; routes, geolocation sources, blueprints, bundles and releases interpret
  them.
\<close>

subsection \<open>Routes, geolocation sources and settings\<close>

definition ListMojangRoutes :: "memory \<Rightarrow> Route list" where
  "ListMojangRoutes m = gvals (mojangRoutes m)"

definition GetMojangRoute :: "memory \<Rightarrow> string \<Rightarrow> Route result" where
  "GetMojangRoute m ident =
     (case gget (mojangRoutes m) (TrimSpace ident) of
        None \<Rightarrow> Inl (NotFound ''mojang route not found'') | Some r \<Rightarrow> Inr r)"

definition UpsertMojangRoute :: "Route \<Rightarrow> memory \<Rightarrow> memory \<times> Route result" where
  "UpsertMojangRoute r m = (m\<lparr>mojangRoutes := gput (mojangRoutes m) (rt_ID r) r\<rparr>, Inr r)"

definition DeleteMojangRoute :: "string \<Rightarrow> memory \<Rightarrow> memory \<times> unit result" where
  "DeleteMojangRoute ident m =
     (if gget (mojangRoutes m) ident = None then (m, Inl (NotFound ''mojang route not found''))
      else (m\<lparr>mojangRoutes := gdel (mojangRoutes m) ident\<rparr>, Inr ()))"

definition ListIPGeoSources :: "memory \<Rightarrow> IPGeoSource list" where
  "ListIPGeoSources m = sort_by (\<lambda>a b. Before (is_CreatedAt a) (is_CreatedAt b)) (gvals (ipGeoSources m))"

definition GetIPGeoSource :: "memory \<Rightarrow> string \<Rightarrow> IPGeoSource result" where
  "GetIPGeoSource m ident =
     (case gget (ipGeoSources m) (TrimSpace ident) of
        None \<Rightarrow> Inl (NotFound ''IP geolocation source not found'') | Some s \<Rightarrow> Inr s)"

definition UpsertIPGeoSource :: "IPGeoSource \<Rightarrow> time \<Rightarrow> memory \<Rightarrow> memory \<times> IPGeoSource result" where
  "UpsertIPGeoSource s now m =
     (let s = s\<lparr>is_CreatedAt :=
            (case gget (ipGeoSources m) (is_ID s) of
               Some existing \<Rightarrow> is_CreatedAt existing
             | None \<Rightarrow> if IsZero (is_CreatedAt s) then now else is_CreatedAt s)\<rparr>;
          s = s\<lparr>is_UpdatedAt := now\<rparr>
      in (m\<lparr>ipGeoSources := gput (ipGeoSources m) (is_ID s) s\<rparr>, Inr s))"

definition DeleteIPGeoSource :: "string \<Rightarrow> memory \<Rightarrow> memory \<times> unit result" where
  "DeleteIPGeoSource ident m =
     (let ident = TrimSpace ident in
      if gget (ipGeoSources m) ident = None then (m, Inl (NotFound ''IP geolocation source not found''))
      else (m\<lparr>ipGeoSources := gdel (ipGeoSources m) ident\<rparr>, Inr ()))"

definition GetSystemSetting :: "memory \<Rightarrow> string \<Rightarrow> anymap result" where
  "GetSystemSetting m key =
     (case gget (systemSettings m) (TrimSpace key) of
        None \<Rightarrow> Inl (NotFound ''system setting not found'') | Some v \<Rightarrow> Inr v)"

definition SetSystemSetting :: "string \<Rightarrow> anymap \<Rightarrow> memory \<Rightarrow> memory \<times> unit result" where
  "SetSystemSetting key v m =
     (let key = TrimSpace key in
      if key = [] then (m, Inl (Err ''system setting key is required''))
      else (m\<lparr>systemSettings := gput (systemSettings m) key v\<rparr>, Inr ()))"

subsection \<open>Downstream servers\<close>

definition ListDownstreamServers :: "memory \<Rightarrow> DownstreamServer list" where
  "ListDownstreamServers m = gvals (downstreamServers m)"

definition GetDownstreamServer :: "memory \<Rightarrow> string \<Rightarrow> DownstreamServer result" where
  "GetDownstreamServer m idOrSlug =
     (case gfind (\<lambda>s. ds_ID s = idOrSlug \<or> ds_Slug s = idOrSlug) (downstreamServers m) of
        None \<Rightarrow> Inl (NotFound ''downstream server not found'') | Some s \<Rightarrow> Inr s)"

definition UpsertDownstreamServer ::
  "unicode \<Rightarrow> DownstreamServer \<Rightarrow> byte list option \<Rightarrow> time \<Rightarrow> memory \<Rightarrow> memory \<times> DownstreamServer result" where
  "UpsertDownstreamServer uc server rnd now m =
     (case (if ds_ID server = [] then
              (case RandomProfileUUID rnd of Inl e \<Rightarrow> Inl e
               | Inr uuid \<Rightarrow> Inr (server\<lparr>ds_ID := UUID_String uuid, ds_CreatedAt := now\<rparr>))
            else Inr
              (case gget (downstreamServers m) (ds_ID server) of None \<Rightarrow> server
               | Some existing \<Rightarrow>
                   if \<not> IsZero (ds_CreatedAt existing) then server\<lparr>ds_CreatedAt := ds_CreatedAt existing\<rparr> else server)) of
        Inl e \<Rightarrow> (m, Inl e)
      | Inr server \<Rightarrow>
          let server = (if IsZero (ds_CreatedAt server) then server\<lparr>ds_CreatedAt := now\<rparr> else server);
              server = server\<lparr>ds_UpdatedAt := now\<rparr>;
              server = normalizeDownstreamServer uc server
          in (m\<lparr>downstreamServers := gput (downstreamServers m) (ds_ID server) server\<rparr>, Inr server))"

definition DeleteDownstreamServer :: "string \<Rightarrow> memory \<Rightarrow> memory \<times> unit result" where
  "DeleteDownstreamServer ident m =
     (if gget (downstreamServers m) ident = None then (m, Inl (NotFound ''downstream server not found''))
      else (m\<lparr>downstreamServers := gdel (downstreamServers m) ident,
              downstreamPrivileges := gdel (downstreamPrivileges m) ident,
              downstreamStatus := gdel (downstreamStatus m) ident\<rparr>, Inr ()))"

definition GetDownstreamServerStatus :: "memory \<Rightarrow> string \<Rightarrow> DownstreamServerStatus option" where
  "GetDownstreamServerStatus m serverID = gget (downstreamStatus m) (TrimSpace serverID)"

definition UpsertDownstreamServerStatus ::
  "DownstreamServerStatus \<Rightarrow> time \<Rightarrow> memory \<Rightarrow> memory \<times> DownstreamServerStatus result" where
  "UpsertDownstreamServerStatus st now m =
     (let st = st\<lparr>dt_ServerID := TrimSpace (dt_ServerID st)\<rparr> in
      if dt_ServerID st = [] then (m, Inl (Err ''downstream server status server id is required''))
      else if gget (downstreamServers m) (dt_ServerID st) = None
      then (m, Inl (NotFound ''downstream server not found''))
      else
        let st = st\<lparr>dt_ReportedAt := (if IsZero (dt_ReportedAt st) then now else dt_ReportedAt st),
              dt_UpdatedAt := now,
              dt_Source := (if dt_Source st = [] then ''heartbeat'' else dt_Source st),
              dt_OnlinePlayers := (if dt_OnlinePlayers st < 0 then 0 else dt_OnlinePlayers st),
              dt_MaxPlayers := (if dt_MaxPlayers st < 0 then 0 else dt_MaxPlayers st)\<rparr>
        in (m\<lparr>downstreamStatus := gput (downstreamStatus m) (dt_ServerID st) st\<rparr>, Inr st))"

definition ListDownstreamServerPrivilegedPassports ::
  "unicode \<Rightarrow> memory \<Rightarrow> string \<Rightarrow> IdentityListQuery \<Rightarrow>
   (DownstreamServerPrivilegedPassport list \<times> nat) result option" where
  "ListDownstreamServerPrivilegedPassports uc m serverID query =
     (if gget (downstreamServers m) serverID = None
      then Some (Inl (NotFound ''downstream server not found''))
      else
        let rows = List.map_filter (\<lambda>(passportID, allow).
              (case gget (passportsByID m) passportID of None \<Rightarrow> None
               | Some passport \<Rightarrow>
                   if passport_matches uc query passport then Some (allow\<lparr>dp_Passport := passport\<rparr>) else None))
              (gentries (ginner (downstreamPrivileges m) serverID));
            rows = sort_by (\<lambda>a b. ToLower uc (pp_Username (dp_Passport a)) < ToLower uc (pp_Username (dp_Passport b))) rows
        in map_option (\<lambda>page. Inr (page, length rows))
             (slice_of rows (listQueryBounds (int (length rows)) (iq_Page query) (iq_PageSize query))))"

definition AddDownstreamServerPrivilegedPassport ::
  "string \<Rightarrow> string \<Rightarrow> string \<Rightarrow> time \<Rightarrow> memory \<Rightarrow> memory \<times> DownstreamServerPrivilegedPassport result" where
  "AddDownstreamServerPrivilegedPassport serverID passportID createdBy now m =
     (let serverID = TrimSpace serverID; passportID = TrimSpace passportID in
      if gget (downstreamServers m) serverID = None then (m, Inl (NotFound ''downstream server not found''))
      else
        case gget (passportsByID m) passportID of None \<Rightarrow> (m, Inl (NotFound ''passport not found''))
        | Some passport \<Rightarrow>
            if pp_Status passport = PassportStatusDeleted then (m, Inl (Err ''passport is deleted''))
            else
              let rows = ginner (downstreamPrivileges m) serverID in
              case gget rows passportID of
                Some existing \<Rightarrow> (m, Inr (existing\<lparr>dp_Passport := passport\<rparr>))
              | None \<Rightarrow>
                  let allow = \<lparr>dp_ServerID = serverID, dp_PassportID = passportID,
                        dp_Privileges = [''maintenance_join''], dp_CreatedBy = TrimSpace createdBy,
                        dp_CreatedAt = now, dp_Passport = passport\<rparr>
                  in (m\<lparr>downstreamPrivileges := gput (downstreamPrivileges m) serverID (gput rows passportID allow)\<rparr>,
                      Inr allow))"

definition RemoveDownstreamServerPrivilegedPassport :: "string \<Rightarrow> string \<Rightarrow> memory \<Rightarrow> memory \<times> unit result" where
  "RemoveDownstreamServerPrivilegedPassport serverID passportID m =
     (let serverID = TrimSpace serverID; passportID = TrimSpace passportID in
      if gget (downstreamServers m) serverID = None then (m, Inl (NotFound ''downstream server not found''))
      else if gget2 (downstreamPrivileges m) serverID passportID = None
      then (m, Inl (NotFound ''downstream server passport allow not found''))
      else (m\<lparr>downstreamPrivileges := gput (downstreamPrivileges m) serverID
                (gdel (ginner (downstreamPrivileges m) serverID) passportID)\<rparr>, Inr ()))"

definition DownstreamServerHasPrivilegedPassport :: "memory \<Rightarrow> string \<Rightarrow> string \<Rightarrow> bool" where
  "DownstreamServerHasPrivilegedPassport m serverID passportID \<longleftrightarrow>
     gget2 (downstreamPrivileges m) (TrimSpace serverID) (TrimSpace passportID) \<noteq> None"

subsection \<open>Blueprints, bundles and releases\<close>

definition ListLimboBlueprints :: "memory \<Rightarrow> LimboBlueprint list" where
  "ListLimboBlueprints m = gvals (limboBlueprints m)"

definition GetLimboBlueprint :: "memory \<Rightarrow> string \<Rightarrow> LimboBlueprint result" where
  "GetLimboBlueprint m ident =
     (case gget (limboBlueprints m) ident of
        None \<Rightarrow> Inl (NotFound ''limbo blueprint not found'') | Some b \<Rightarrow> Inr b)"

definition UpsertLimboBlueprint :: "LimboBlueprint \<Rightarrow> time \<Rightarrow> memory \<Rightarrow> memory \<times> LimboBlueprint result" where
  "UpsertLimboBlueprint b now m =
     (let fresh = (TrimSpace (lb_ID b) = []);
          m' = (if fresh then m\<lparr>nextID := nextID m + 1\<rparr> else m);
          b = (if fresh then b\<lparr>lb_ID := ''limbo-blueprint-'' @ Itoa (nextID m'), lb_CreatedAt := now\<rparr>
               else case gget (limboBlueprints m) (lb_ID b) of None \<Rightarrow> b
                 | Some existing \<Rightarrow>
                     if \<not> IsZero (lb_CreatedAt existing) then b\<lparr>lb_CreatedAt := lb_CreatedAt existing\<rparr> else b);
          b = (if IsZero (lb_CreatedAt b) then b\<lparr>lb_CreatedAt := now\<rparr> else b);
          b = b\<lparr>lb_UpdatedAt := now\<rparr>
      in (m'\<lparr>limboBlueprints := gput (limboBlueprints m') (lb_ID b) b\<rparr>, Inr b))"

definition DeleteLimboBlueprint :: "string \<Rightarrow> memory \<Rightarrow> memory \<times> unit result" where
  "DeleteLimboBlueprint ident m =
     (if gget (limboBlueprints m) ident = None then (m, Inl (NotFound ''limbo blueprint not found''))
      else (m\<lparr>limboBlueprints := gdel (limboBlueprints m) ident\<rparr>, Inr ()))"

definition GetLimboProtocolBundle :: "memory \<Rightarrow> string \<Rightarrow> LimboProtocolBundle result" where
  "GetLimboProtocolBundle m nodeID =
     (case gget (limboProtocolBundles m) (TrimSpace nodeID) of
        None \<Rightarrow> Inl (NotFound ''limbo protocol bundle not found'') | Some b \<Rightarrow> Inr b)"

definition UpsertLimboProtocolBundle ::
  "LimboProtocolBundle \<Rightarrow> time \<Rightarrow> memory \<Rightarrow> memory \<times> LimboProtocolBundle result" where
  "UpsertLimboProtocolBundle b now m =
     (let b = b\<lparr>lp_NodeID := TrimSpace (lp_NodeID b)\<rparr> in
      if lp_NodeID b = [] then (m, Inl (Err ''limbo protocol bundle node id is required''))
      else
        let b = (case gget (limboProtocolBundles m) (lp_NodeID b) of None \<Rightarrow> b
                 | Some existing \<Rightarrow> b\<lparr>lp_CreatedAt := lp_CreatedAt existing\<rparr>);
            b = (if IsZero (lp_CreatedAt b) then b\<lparr>lp_CreatedAt := now\<rparr> else b);
            b = b\<lparr>lp_UpdatedAt := now\<rparr>
        in (m\<lparr>limboProtocolBundles := gput (limboProtocolBundles m) (lp_NodeID b) b\<rparr>, Inr b))"

definition DeleteLimboProtocolBundle :: "string \<Rightarrow> memory \<Rightarrow> memory \<times> unit result" where
  "DeleteLimboProtocolBundle nodeID m =
     (let nodeID = TrimSpace nodeID in
      if gget (limboProtocolBundles m) nodeID = None then (m, Inl (NotFound ''limbo protocol bundle not found''))
      else (m\<lparr>limboProtocolBundles := gdel (limboProtocolBundles m) nodeID\<rparr>, Inr ()))"

definition GetLimboProtocolStatus :: "memory \<Rightarrow> string \<Rightarrow> LimboProtocolStatus result" where
  "GetLimboProtocolStatus m nodeID =
     (case gget (limboProtocolStatus m) (TrimSpace nodeID) of
        None \<Rightarrow> Inl (NotFound ''limbo protocol status not found'') | Some s \<Rightarrow> Inr s)"

definition UpsertLimboProtocolStatus ::
  "LimboProtocolStatus \<Rightarrow> time \<Rightarrow> memory \<Rightarrow> memory \<times> LimboProtocolStatus result" where
  "UpsertLimboProtocolStatus s now m =
     (let s = s\<lparr>lt_NodeID := TrimSpace (lt_NodeID s)\<rparr> in
      if lt_NodeID s = [] then (m, Inl (Err ''limbo protocol status node id is required''))
      else
        let s = s\<lparr>lt_UpdatedAt := now\<rparr>;
            s = (if IsZero (lt_ReportedAt s) then s\<lparr>lt_ReportedAt := lt_UpdatedAt s\<rparr> else s)
        in (m\<lparr>limboProtocolStatus := gput (limboProtocolStatus m) (lt_NodeID s) s\<rparr>, Inr s))"

definition ListVelocityRuntimeReleases :: "memory \<Rightarrow> VelocityRuntimeRelease list" where
  "ListVelocityRuntimeReleases m =
     sort_by (\<lambda>a b. After (vr_CreatedAt a) (vr_CreatedAt b)) (gvals (velocityRuntimeReleases m))"

definition GetVelocityRuntimeRelease :: "memory \<Rightarrow> string \<Rightarrow> VelocityRuntimeRelease result" where
  "GetVelocityRuntimeRelease m ident =
     (case gget (velocityRuntimeReleases m) (TrimSpace ident) of
        None \<Rightarrow> Inl (NotFound ''velocity runtime release not found'') | Some r \<Rightarrow> Inr r)"

definition UpsertVelocityRuntimeRelease ::
  "VelocityRuntimeRelease \<Rightarrow> time \<Rightarrow> memory \<Rightarrow> memory \<times> VelocityRuntimeRelease result" where
  "UpsertVelocityRuntimeRelease r now m =
     (let r = r\<lparr>vr_ID := TrimSpace (vr_ID r)\<rparr> in
      if vr_ID r = [] then (m, Inl (Err ''velocity runtime release id is required''))
      else
        let r = (case gget (velocityRuntimeReleases m) (vr_ID r) of None \<Rightarrow> r
                 | Some existing \<Rightarrow> r\<lparr>vr_CreatedAt := vr_CreatedAt existing\<rparr>);
            r = (if IsZero (vr_CreatedAt r) then r\<lparr>vr_CreatedAt := now\<rparr> else r);
            r = r\<lparr>vr_UpdatedAt := now\<rparr>
        in (m\<lparr>velocityRuntimeReleases := gput (velocityRuntimeReleases m) (vr_ID r) r\<rparr>, Inr r))"

definition DeleteVelocityRuntimeRelease :: "string \<Rightarrow> memory \<Rightarrow> memory \<times> unit result" where
  "DeleteVelocityRuntimeRelease ident m =
     (let ident = TrimSpace ident in
      if gget (velocityRuntimeReleases m) ident = None then (m, Inl (NotFound ''velocity runtime release not found''))
      else (m\<lparr>velocityRuntimeReleases := gdel (velocityRuntimeReleases m) ident\<rparr>, Inr ()))"

definition GetVelocityRuntimeStatus :: "memory \<Rightarrow> string \<Rightarrow> VelocityRuntimeStatus result" where
  "GetVelocityRuntimeStatus m nodeID =
     (case gget (velocityRuntimeStatus m) (TrimSpace nodeID) of
        None \<Rightarrow> Inl (NotFound ''velocity runtime status not found'') | Some s \<Rightarrow> Inr s)"

definition UpsertVelocityRuntimeStatus ::
  "VelocityRuntimeStatus \<Rightarrow> time \<Rightarrow> memory \<Rightarrow> memory \<times> VelocityRuntimeStatus result" where
  "UpsertVelocityRuntimeStatus s now m =
     (let s = s\<lparr>vs_NodeID := TrimSpace (vs_NodeID s)\<rparr> in
      if vs_NodeID s = [] then (m, Inl (Err ''velocity runtime status node id is required''))
      else
        let s = s\<lparr>vs_UpdatedAt := now\<rparr>;
            s = (if IsZero (vs_ReportedAt s) then s\<lparr>vs_ReportedAt := vs_UpdatedAt s\<rparr> else s)
        in (m\<lparr>velocityRuntimeStatus := gput (velocityRuntimeStatus m) (vs_NodeID s) s\<rparr>, Inr s))"

subsection \<open>Extension data\<close>

definition ListExtensionPlayerData :: "memory \<Rightarrow> string \<Rightarrow> string \<Rightarrow> bool \<Rightarrow> ExtensionPlayerData list" where
  "ListExtensionPlayerData m playerID serverSlug includePrivate =
     filter (\<lambda>r. ed_PlayerID r = playerID \<and> (serverSlug = [] \<or> ed_ServerID r = serverSlug) \<and>
         (includePrivate \<or> ed_Visibility r \<noteq> ''private'')) (gvals (extensionData m))"

definition UpsertExtensionPlayerData ::
  "ExtensionPlayerData \<Rightarrow> time \<Rightarrow> memory \<Rightarrow> memory \<times> ExtensionPlayerData result" where
  "UpsertExtensionPlayerData d now m =
     (let d = (if ed_ID d = [] then d\<lparr>ed_ID := ed_ServerID d @ '':'' @ ed_PlayerID d @ '':'' @ ed_Provider d\<rparr> else d);
          d = (case gget (extensionData m) (ed_ID d) of None \<Rightarrow> d
               | Some existing \<Rightarrow>
                   if \<not> IsZero (ed_CreatedAt existing) then d\<lparr>ed_CreatedAt := ed_CreatedAt existing\<rparr> else d);
          d = (if IsZero (ed_CreatedAt d) then d\<lparr>ed_CreatedAt := now\<rparr> else d);
          d = d\<lparr>ed_UpdatedAt := now,
                ed_Visibility := (if ed_Visibility d = [] then ''player_visible'' else ed_Visibility d),
                ed_Source := (if ed_Source d = [] then ''node_api'' else ed_Source d)\<rparr>
      in (m\<lparr>extensionData := gput (extensionData m) (ed_ID d) d\<rparr>, Inr d))"

subsection \<open>The contract of a keyed table\<close>

text \<open>
  Records with an identifier.  \<open>norm\<close> is what reading makes of an identifier, \<open>proper\<close> says of a
  record given to \<open>store\<close> that it names its own identifier in the form reading will look for.
\<close>

locale keyed_table =
  fixes tbl :: "memory \<Rightarrow> (string, 'r) gomap"
    and key :: "'r \<Rightarrow> string"
    and fetch :: "memory \<Rightarrow> string \<Rightarrow> 'r result"
    and store :: "'r \<Rightarrow> time \<Rightarrow> memory \<Rightarrow> memory \<times> 'r result"
    and remove :: "string \<Rightarrow> memory \<Rightarrow> memory \<times> unit result"
    and norm :: "string \<Rightarrow> string"
    and proper :: "'r \<Rightarrow> bool"
  assumes fetch_law: "fetch m k = Inr r \<longleftrightarrow> gget (tbl m) (norm k) = Some r"
    and store_law: "store r now m = (m', Inr r') \<Longrightarrow> tbl m' = gput (tbl m) (key r') r'"
    and store_fails: "store r now m = (m', Inl e) \<Longrightarrow> m' = m"
    and key_law: "proper r \<Longrightarrow> store r now m = (m', Inr r') \<Longrightarrow> key r' = norm (key r) \<and> norm (key r') = key r'"
    and remove_law: "norm k = k \<Longrightarrow> remove k m = (m', x) \<Longrightarrow>
      (is_ok x \<longleftrightarrow> gget (tbl m) k \<noteq> None) \<and> tbl m' = (if is_ok x then gdel (tbl m) k else tbl m)"
begin

lemma fetch_store:
  assumes "store r now m = (m', Inr r')"
  shows "fetch m' k = Inr q \<longleftrightarrow> (if norm k = key r' then q = r' else fetch m k = Inr q)"
  using store_law [OF assms] by (auto simp: fetch_law)

lemma read_back: "proper r \<Longrightarrow> store r now m = (m', Inr r') \<Longrightarrow> fetch m' (key r) = Inr r'"
  by (simp add: fetch_store key_law)

lemma fetch_remove:
  assumes "norm k = k" "remove k m = (m', Inr ())"
  shows "fetch m' k' = Inr q \<longleftrightarrow> norm k' \<noteq> k \<and> fetch m k' = Inr q"
  using remove_law [OF assms] by (auto simp: fetch_law)

lemma remove_iff: "norm k = k \<Longrightarrow> is_ok (snd (remove k m)) \<longleftrightarrow> is_ok (fetch m k)"
  using remove_law [of k m "fst (remove k m)" "snd (remove k m)"]
  by (auto simp: is_ok_iff fetch_law)

lemma remove_twice:
  assumes "norm k = k"
  shows "\<not> is_ok (snd (remove k (fst (remove k m))))"
proof -
  let ?m = "fst (remove k m)"
  have "gget (tbl ?m) k = None"
    using remove_law [OF assms, of m ?m "snd (remove k m)"] by (auto split: if_splits)
  then show ?thesis
    using remove_law [OF assms, of ?m "fst (remove k ?m)" "snd (remove k ?m)"] by auto
qed

end

text \<open>Records that carry the time of their creation and of their last change.\<close>

locale dated_table = keyed_table +
  fixes created :: "'a \<Rightarrow> time" and updated :: "'a \<Rightarrow> time"
  assumes created_law: "proper r \<Longrightarrow> store r now m = (m', Inr r') \<Longrightarrow> gget (tbl m) (key r') = Some old \<Longrightarrow>
      created old \<noteq> 0 \<Longrightarrow> created r' = created old"
    and updated_law: "store r now m = (m', Inr r') \<Longrightarrow> updated r' = now"
begin

abbreviation saves :: "('a \<times> time) list \<Rightarrow> memory \<Rightarrow> memory" where
  "saves rs m \<equiv> foldl (\<lambda>m (r, now). fst (store r now m)) m rs"

lemma created_store:
  assumes "proper r" "fetch m k = Inr old" "created old \<noteq> 0"
  shows "\<exists>r'. fetch (fst (store r now m)) k = Inr r' \<and> created r' = created old"
proof (cases "store r now m")
  case (Pair m' x)
  show ?thesis
  proof (cases x)
    case (Inl e)
    with Pair have "m' = m" by (auto dest: store_fails)
    with Pair assms(2) show ?thesis by simp
  next
    case (Inr r')
    with Pair have st: "store r now m = (m', Inr r')" by simp
    with assms show ?thesis
      by (cases "norm k = key r'") (auto simp: fetch_law store_law [OF st] intro!: created_law [OF _ st])
  qed
qed

lemma created_saves:
  assumes "list_all (\<lambda>(r, now). proper r) rs" "fetch m k = Inr old" "created old \<noteq> 0"
  shows "\<exists>r'. fetch (saves rs m) k = Inr r' \<and> created r' = created old"
  using assms
proof (induction rs arbitrary: m old)
  case (Cons e rs)
  obtain r now where e: "e = (r, now)" by fastforce
  with Cons.prems created_store [of r m k old now] obtain r'
    where "fetch (fst (store r now m)) k = Inr r'" "created r' = created old" by auto
  with Cons.IH [of "fst (store r now m)" r'] Cons.prems e show ?case by auto
qed simp

end

interpretation mojang_route: keyed_table mojangRoutes rt_ID GetMojangRoute "\<lambda>r _ m. UpsertMojangRoute r m" DeleteMojangRoute
    TrimSpace "\<lambda>r. TrimSpace (rt_ID r) = rt_ID r"
  by unfold_locales
    (auto simp: GetMojangRoute_def UpsertMojangRoute_def DeleteMojangRoute_def split: option.splits if_splits)

interpretation ip_geo_source: dated_table ipGeoSources is_ID GetIPGeoSource UpsertIPGeoSource DeleteIPGeoSource
    TrimSpace "\<lambda>s. TrimSpace (is_ID s) = is_ID s" is_CreatedAt is_UpdatedAt
  by unfold_locales
    (auto simp: GetIPGeoSource_def UpsertIPGeoSource_def DeleteIPGeoSource_def Let_def split: option.splits if_splits)

interpretation limbo_blueprint: dated_table limboBlueprints lb_ID GetLimboBlueprint UpsertLimboBlueprint DeleteLimboBlueprint
    "\<lambda>k. k" "\<lambda>b. TrimSpace (lb_ID b) \<noteq> []" lb_CreatedAt lb_UpdatedAt
  by unfold_locales
    (auto simp: GetLimboBlueprint_def UpsertLimboBlueprint_def DeleteLimboBlueprint_def Let_def split: option.splits if_splits)

interpretation limbo_protocol_bundle: dated_table limboProtocolBundles lp_NodeID GetLimboProtocolBundle
    UpsertLimboProtocolBundle DeleteLimboProtocolBundle TrimSpace "\<lambda>_. True" lp_CreatedAt lp_UpdatedAt
  by unfold_locales
    (auto simp: GetLimboProtocolBundle_def UpsertLimboProtocolBundle_def DeleteLimboProtocolBundle_def Let_def
      split: option.splits if_splits)

interpretation velocity_release: dated_table velocityRuntimeReleases vr_ID GetVelocityRuntimeRelease
    UpsertVelocityRuntimeRelease DeleteVelocityRuntimeRelease TrimSpace "\<lambda>_. True" vr_CreatedAt vr_UpdatedAt
  by unfold_locales
    (auto simp: GetVelocityRuntimeRelease_def UpsertVelocityRuntimeRelease_def DeleteVelocityRuntimeRelease_def Let_def
      split: option.splits if_splits)

subsection \<open>Properties of the tables\<close>

text \<open>
  A Velocity release that is saved is read back under its identifier, surrounding space aside,
  and no other release changes; however many releases are saved afterwards it keeps the time of its
  creation; once deleted it is not found and cannot be deleted again.
\<close>

theorem velocity_release_lifecycle:
  assumes "UpsertVelocityRuntimeRelease v now m = (m1, Inr v1)"
  shows "(\<forall>k w. GetVelocityRuntimeRelease m1 k = Inr w \<longleftrightarrow>
        (if TrimSpace k = TrimSpace (vr_ID v) then w = v1 else GetVelocityRuntimeRelease m k = Inr w)) \<and>
    (vr_CreatedAt v1 \<noteq> 0 \<longrightarrow>
      (\<exists>w. GetVelocityRuntimeRelease (foldl (\<lambda>m (r, t). fst (UpsertVelocityRuntimeRelease r t m)) m1 vs) (vr_ID v) = Inr w \<and>
        vr_CreatedAt w = vr_CreatedAt v1)) \<and>
    (let (m2, x) = DeleteVelocityRuntimeRelease (vr_ID v) m1 in
      is_ok x \<and> \<not> is_ok (GetVelocityRuntimeRelease m2 (vr_ID v)) \<and> \<not> is_ok (snd (DeleteVelocityRuntimeRelease (vr_ID v) m2)))"
proof (intro conjI impI)
  note law = velocity_release.key_law [OF TrueI assms] and read = velocity_release.read_back [OF TrueI assms]
  show "\<forall>k w. GetVelocityRuntimeRelease m1 k = Inr w \<longleftrightarrow>
        (if TrimSpace k = TrimSpace (vr_ID v) then w = v1 else GetVelocityRuntimeRelease m k = Inr w)"
    using velocity_release.fetch_store [OF assms] law by simp
  show "\<exists>w. GetVelocityRuntimeRelease (foldl (\<lambda>m (r, t). fst (UpsertVelocityRuntimeRelease r t m)) m1 vs) (vr_ID v) = Inr w \<and>
        vr_CreatedAt w = vr_CreatedAt v1" if "vr_CreatedAt v1 \<noteq> 0"
    using read that by (intro velocity_release.created_saves) (simp_all add: list_all_iff)
  have del: "DeleteVelocityRuntimeRelease k m = DeleteVelocityRuntimeRelease (TrimSpace k) m" for k m
    by (simp add: DeleteVelocityRuntimeRelease_def)
  have fetch: "GetVelocityRuntimeRelease m k = GetVelocityRuntimeRelease m (TrimSpace k)" for k m
    by (simp add: GetVelocityRuntimeRelease_def)
  obtain m2 x where m2: "DeleteVelocityRuntimeRelease (TrimSpace (vr_ID v)) m1 = (m2, x)" by fastforce
  with velocity_release.remove_iff [of "TrimSpace (vr_ID v)" m1] read have "x = Inr ()"
    by (auto simp: fetch [symmetric] is_ok_iff)
  with m2 velocity_release.fetch_remove [of "TrimSpace (vr_ID v)" m1 m2 "vr_ID v"]
    velocity_release.remove_twice [of "TrimSpace (vr_ID v)" m1]
  show "let (m2, x) = DeleteVelocityRuntimeRelease (vr_ID v) m1 in
      is_ok x \<and> \<not> is_ok (GetVelocityRuntimeRelease m2 (vr_ID v)) \<and> \<not> is_ok (snd (DeleteVelocityRuntimeRelease (vr_ID v) m2))"
    by (simp add: del [of "vr_ID v"] is_ok_iff)
qed

definition sample_release :: VelocityRuntimeRelease where
  "sample_release = \<lparr>vr_ID = '' r1 '', vr_Version = ''1'', vr_APIVersion = 1, vr_Entrypoint = [], vr_Filename = [],
    vr_ContentType = [], vr_SizeBytes = 0, vr_SHA256 = [], vr_Artifact = [], vr_CreatedAt = 0, vr_UpdatedAt = 0\<rparr>"

lemma velocity_release_lifecycle_witness:
  "\<exists>w. GetVelocityRuntimeRelease (fst (UpsertVelocityRuntimeRelease sample_release 9
      (fst (UpsertVelocityRuntimeRelease sample_release 5 NewMemory)))) '' r1 '' = Inr w \<and> vr_CreatedAt w = 5"
proof -
  let ?m1 = "fst (UpsertVelocityRuntimeRelease sample_release 5 NewMemory)"
  let ?v1 = "projr (snd (UpsertVelocityRuntimeRelease sample_release 5 NewMemory))"
  have "snd (UpsertVelocityRuntimeRelease sample_release 5 NewMemory) = Inr ?v1" "vr_CreatedAt ?v1 = 5"
    "vr_ID sample_release = '' r1 ''"
    by code_simp+
  then have "UpsertVelocityRuntimeRelease sample_release 5 NewMemory = (?m1, Inr ?v1)" "vr_CreatedAt ?v1 = 5"
    "vr_ID sample_release = '' r1 ''"
    by (simp_all add: prod_eq_iff)
  with velocity_release_lifecycle [of sample_release 5 NewMemory ?m1 ?v1 "[(sample_release, 9)]"]
  show ?thesis by simp
qed

end
