(* ===== verification/StoreAdmin.thy ===== *)
theory StoreAdmin
  imports StoreTypes
begin

text \<open>
  Administrators in the in-memory store: users, profiles, roles, security settings, passkeys,
  pending second factors, trusted devices and password resets.  The invariant \<open>admins_ok\<close> says
  that user names and e-mail addresses identify users up to case.
\<close>

subsection \<open>Users\<close>

definition ListAdminUsers :: "memory \<Rightarrow> AdminUser list" where
  "ListAdminUsers m = map (\<lambda>u. u\<lparr>au_PasswordHash := []\<rparr>) (gvals (adminUsers m))"

definition GetAdminUser :: "memory \<Rightarrow> string \<Rightarrow> AdminUser result" where
  "GetAdminUser m ident =
     (case gget (adminUsers m) ident of None \<Rightarrow> Inl (NotFound ''admin user not found'') | Some u \<Rightarrow> Inr u)"

definition FindAdminUserByIdentifier :: "unicode \<Rightarrow> memory \<Rightarrow> string \<Rightarrow> AdminUser result" where
  "FindAdminUserByIdentifier uc m identifier =
     (let identifier = TrimSpace identifier in
      case gfind (\<lambda>u. EqualFold uc (au_Username u) identifier
             \<or> (au_Email u \<noteq> [] \<and> EqualFold uc (au_Email u) identifier)) (adminUsers m) of
        None \<Rightarrow> Inl (NotFound ''admin user not found'') | Some u \<Rightarrow> Inr u)"

text \<open>The clash test of the three writers.\<close>

definition admin_clash :: "unicode \<Rightarrow> string \<Rightarrow> string \<Rightarrow> AdminUser \<Rightarrow> bool" where
  "admin_clash uc username email other \<longleftrightarrow>
     EqualFold uc (au_Username other) username \<or> (email \<noteq> [] \<and> EqualFold uc (au_Email other) email)"

definition CreateAdminUser :: "unicode \<Rightarrow> AdminUser \<Rightarrow> time \<Rightarrow> memory \<Rightarrow> memory \<times> AdminUser result" where
  "CreateAdminUser uc user now m =
     (if gfind (admin_clash uc (au_Username user) (au_Email user)) (adminUsers m) \<noteq> None
      then (m, Inl (Err ''admin user already exists''))
      else
        let n = nextID m + 1;
            user = user\<lparr>au_ID := ''admin-'' @ Itoa n, au_CreatedAt := now, au_UpdatedAt := now,
              au_Status := (if au_Status user = [] then ''active'' else au_Status user)\<rparr>
        in (m\<lparr>nextID := n, adminUsers := gput (adminUsers m) (au_ID user) user\<rparr>,
            Inr (user\<lparr>au_PasswordHash := []\<rparr>)))"

definition UpdateAdminUserProfile ::
  "unicode \<Rightarrow> string \<Rightarrow> string \<Rightarrow> string \<Rightarrow> time \<Rightarrow> memory \<Rightarrow> memory \<times> AdminUser result" where
  "UpdateAdminUserProfile uc ident username email now m =
     (case gget (adminUsers m) ident of None \<Rightarrow> (m, Inl (NotFound ''admin user not found''))
      | Some user \<Rightarrow>
          if gfind (\<lambda>other. au_ID other \<noteq> ident \<and> admin_clash uc username email other) (adminUsers m) \<noteq> None
          then (m, Inl (Err ''admin user already exists''))
          else
            let user = user\<lparr>au_Username := username, au_Email := email, au_UpdatedAt := now\<rparr>
            in (m\<lparr>adminUsers := gput (adminUsers m) ident user\<rparr>, Inr (user\<lparr>au_PasswordHash := []\<rparr>)))"

definition UpdateAdminUser :: "unicode \<Rightarrow> AdminUser \<Rightarrow> time \<Rightarrow> memory \<Rightarrow> memory \<times> AdminUser result" where
  "UpdateAdminUser uc user now m =
     (case gget (adminUsers m) (au_ID user) of None \<Rightarrow> (m, Inl (NotFound ''admin user not found''))
      | Some existing \<Rightarrow>
          if gfind (\<lambda>other. au_ID other \<noteq> au_ID user \<and> admin_clash uc (au_Username user) (au_Email user) other)
               (adminUsers m) \<noteq> None
          then (m, Inl (Err ''admin user already exists''))
          else
            let existing = existing\<lparr>au_Username := au_Username user, au_Email := au_Email user,
                  au_Role := au_Role user, au_Status := au_Status user, au_UpdatedAt := now\<rparr>
            in (m\<lparr>adminUsers := gput (adminUsers m) (au_ID user) existing\<rparr>, Inr (existing\<lparr>au_PasswordHash := []\<rparr>)))"

definition UpdateAdminUserPassword :: "string \<Rightarrow> string \<Rightarrow> time \<Rightarrow> memory \<Rightarrow> memory \<times> unit result" where
  "UpdateAdminUserPassword ident passwordHash now m =
     (case gget (adminUsers m) ident of None \<Rightarrow> (m, Inl (NotFound ''admin user not found''))
      | Some user \<Rightarrow>
          (m\<lparr>adminUsers := gput (adminUsers m) ident (user\<lparr>au_PasswordHash := passwordHash, au_UpdatedAt := now\<rparr>)\<rparr>,
           Inr ()))"

subsection \<open>Profiles, roles and security settings\<close>

definition GetAdminProfile :: "memory \<Rightarrow> string \<Rightarrow> AdminProfile result" where
  "GetAdminProfile m adminID =
     (case gget (adminProfiles m) adminID of None \<Rightarrow> Inl (NotFound ''admin profile not found'') | Some p \<Rightarrow> Inr p)"

definition UpsertAdminProfile :: "AdminProfile \<Rightarrow> time \<Rightarrow> memory \<Rightarrow> memory \<times> AdminProfile result" where
  "UpsertAdminProfile p now m =
     (if af_AdminID p = [] then (m, Inl (Err ''admin id is required''))
      else
        let p = (case gget (adminProfiles m) (af_AdminID p) of None \<Rightarrow> p
                 | Some existing \<Rightarrow>
                     if \<not> IsZero (af_CreatedAt existing) then p\<lparr>af_CreatedAt := af_CreatedAt existing\<rparr> else p);
            p = (if IsZero (af_CreatedAt p) then p\<lparr>af_CreatedAt := now\<rparr> else p);
            p = p\<lparr>af_UpdatedAt := now\<rparr>
        in (m\<lparr>adminProfiles := gput (adminProfiles m) (af_AdminID p) p\<rparr>, Inr p))"

definition ListAdminRoles :: "unicode \<Rightarrow> time \<Rightarrow> memory \<Rightarrow> role list" where
  "ListAdminRoles uc now m = MergeDefaultRoles uc now (gvals (adminRoles m))"

definition UpsertAdminRole :: "unicode \<Rightarrow> role \<Rightarrow> time \<Rightarrow> time \<Rightarrow> memory \<Rightarrow> memory \<times> role result" where
  "UpsertAdminRole uc r now now' m =
     (case (case DefaultRole now' (ro_ID r) of None \<Rightarrow> Inr r
            | Some base \<Rightarrow>
                if ro_System base then Inl (Err ''system role cannot be modified'')
                else Inr (r\<lparr>ro_Name := (if ro_Name r = [] then ro_Name base else ro_Name r),
                       ro_Description := (if ro_Description r = [] then ro_Description base else ro_Description r)\<rparr>)) of
        Inl e \<Rightarrow> (m, Inl e)
      | Inr r \<Rightarrow>
          let r = (case gget (adminRoles m) (ro_ID r) of None \<Rightarrow> r
                   | Some existing \<Rightarrow>
                       if \<not> IsZero (ro_CreatedAt existing) then r\<lparr>ro_CreatedAt := ro_CreatedAt existing\<rparr> else r);
              r = (if IsZero (ro_CreatedAt r) then r\<lparr>ro_CreatedAt := now\<rparr> else r);
              r = r\<lparr>ro_UpdatedAt := now, ro_System := False,
                    ro_Permissions := NormalizePermissions uc (ro_Permissions r)\<rparr>
          in (m\<lparr>adminRoles := gput (adminRoles m) (ro_ID r) r\<rparr>, Inr r))"

definition DeleteAdminRole :: "unicode \<Rightarrow> string \<Rightarrow> time \<Rightarrow> memory \<Rightarrow> memory \<times> unit result" where
  "DeleteAdminRole uc ident now m =
     (let ident = RoleID uc ident in
      if (case DefaultRole now ident of None \<Rightarrow> False | Some base \<Rightarrow> ro_System base)
      then (m, Inl (Err ''system role cannot be deleted''))
      else if gget (adminRoles m) ident = None then (m, Inl (NotFound ''role not found''))
      else if gfind (\<lambda>u. au_Role u = ident) (adminUsers m) \<noteq> None then (m, Inl (Err ''role is still assigned''))
      else (m\<lparr>adminRoles := gdel (adminRoles m) ident\<rparr>, Inr ()))"

definition defaultAdminSecurity :: "string \<Rightarrow> AdminSecurity" where
  "defaultAdminSecurity adminID =
     \<lparr>as_AdminID = adminID, as_TOTPEnabled = False, as_TOTPSecret = [], as_MFARequirement = ''new_device'',
      as_PreferredLocale = ''system'', as_PreferredTheme = ''system'', as_CreatedAt = 0, as_UpdatedAt = 0\<rparr>"

definition GetAdminSecurity :: "memory \<Rightarrow> string \<Rightarrow> AdminSecurity" where
  "GetAdminSecurity m adminID =
     (case gget (adminSecurity m) adminID of None \<Rightarrow> defaultAdminSecurity adminID | Some s \<Rightarrow> s)"

definition UpsertAdminSecurity :: "AdminSecurity \<Rightarrow> time \<Rightarrow> memory \<Rightarrow> memory \<times> AdminSecurity result" where
  "UpsertAdminSecurity s now m =
     (if as_AdminID s = [] then (m, Inl (Err ''admin id is required''))
      else
        let s = (case gget (adminSecurity m) (as_AdminID s) of None \<Rightarrow> s
                 | Some existing \<Rightarrow>
                     if \<not> IsZero (as_CreatedAt existing) then s\<lparr>as_CreatedAt := as_CreatedAt existing\<rparr> else s);
            s = (if IsZero (as_CreatedAt s) then s\<lparr>as_CreatedAt := now\<rparr> else s);
            s = (if as_MFARequirement s = [] then s\<lparr>as_MFARequirement := ''new_device''\<rparr> else s);
            s = s\<lparr>as_UpdatedAt := now\<rparr>
        in (m\<lparr>adminSecurity := gput (adminSecurity m) (as_AdminID s) s\<rparr>, Inr s))"

subsection \<open>Second factors\<close>

definition ListAdminPasskeys :: "memory \<Rightarrow> string \<Rightarrow> AdminPasskey list" where
  "ListAdminPasskeys m adminID = filter (\<lambda>k. ak_AdminID k = adminID) (gvals (adminPasskeys m))"

definition CreateAdminPasskey :: "AdminPasskey \<Rightarrow> time \<Rightarrow> memory \<Rightarrow> memory \<times> AdminPasskey" where
  "CreateAdminPasskey k now m =
     (let n = nextID m + 1; k = k\<lparr>ak_ID := ''passkey-'' @ Itoa n, ak_CreatedAt := now\<rparr>
      in (m\<lparr>nextID := n, adminPasskeys := gput (adminPasskeys m) (ak_ID k) k\<rparr>, k))"

definition UpdateAdminPasskeyCredential :: "string \<Rightarrow> Credential \<Rightarrow> time \<Rightarrow> memory \<Rightarrow> memory \<times> unit result" where
  "UpdateAdminPasskeyCredential ident credential lastUsedAt m =
     (case gget (adminPasskeys m) ident of None \<Rightarrow> (m, Inl (NotFound ''passkey not found''))
      | Some k \<Rightarrow>
          (m\<lparr>adminPasskeys := gput (adminPasskeys m) ident (k\<lparr>ak_Credential := credential, ak_LastUsedAt := Some lastUsedAt\<rparr>)\<rparr>,
           Inr ()))"

definition DeleteAdminPasskey :: "string \<Rightarrow> string \<Rightarrow> memory \<Rightarrow> memory \<times> unit result" where
  "DeleteAdminPasskey adminID ident m =
     (case gget (adminPasskeys m) ident of None \<Rightarrow> (m, Inl (NotFound ''passkey not found''))
      | Some k \<Rightarrow>
          if ak_AdminID k \<noteq> adminID then (m, Inl (NotFound ''passkey not found''))
          else (m\<lparr>adminPasskeys := gdel (adminPasskeys m) ident\<rparr>, Inr ()))"

definition SavePendingAdminMFA :: "PendingAdminMFA \<Rightarrow> memory \<Rightarrow> memory \<times> PendingAdminMFA" where
  "SavePendingAdminMFA p m =
     (let n = nextID m + 1; p = p\<lparr>am_ID := ''mfa-'' @ Itoa n\<rparr>
      in (m\<lparr>nextID := n, pendingAdminMFAs := gput (pendingAdminMFAs m) (am_ID p) p\<rparr>, p))"

definition GetPendingAdminMFA :: "memory \<Rightarrow> string \<Rightarrow> PendingAdminMFA result" where
  "GetPendingAdminMFA m ident =
     (case gget (pendingAdminMFAs m) ident of None \<Rightarrow> Inl (NotFound ''pending mfa not found'') | Some p \<Rightarrow> Inr p)"

definition DeletePendingAdminMFA :: "string \<Rightarrow> memory \<Rightarrow> memory" where
  "DeletePendingAdminMFA ident m = m\<lparr>pendingAdminMFAs := gdel (pendingAdminMFAs m) ident\<rparr>"

definition CreateAdminTrustedDevice :: "AdminTrustedDevice \<Rightarrow> time \<Rightarrow> memory \<Rightarrow> memory \<times> AdminTrustedDevice" where
  "CreateAdminTrustedDevice d now m =
     (let n = nextID m + 1; d = d\<lparr>ad_ID := ''trusted-'' @ Itoa n, ad_CreatedAt := now\<rparr>
      in (m\<lparr>nextID := n, adminTrustedDevices := gput (adminTrustedDevices m) (ad_ID d) d\<rparr>, d))"

definition GetAdminTrustedDevice :: "memory \<Rightarrow> string \<Rightarrow> time \<Rightarrow> AdminTrustedDevice result" where
  "GetAdminTrustedDevice m tokenHash now =
     (case gfind (\<lambda>d. ad_TokenHash d = tokenHash \<and> Before now (ad_ExpiresAt d)) (adminTrustedDevices m) of
        None \<Rightarrow> Inl (NotFound ''trusted device not found'') | Some d \<Rightarrow> Inr d)"

definition SaveAdminPasswordReset :: "AdminPasswordReset \<Rightarrow> time \<Rightarrow> memory \<Rightarrow> memory \<times> AdminPasswordReset" where
  "SaveAdminPasswordReset r now m =
     (let n = nextID m + 1;
          r = r\<lparr>ar_ID := ''admin-reset-'' @ Itoa n,
                ar_CreatedAt := (if IsZero (ar_CreatedAt r) then now else ar_CreatedAt r)\<rparr>
      in (m\<lparr>nextID := n, adminPasswordResets := gput (adminPasswordResets m) (ar_ID r) r\<rparr>, r))"

definition GetAdminPasswordReset :: "memory \<Rightarrow> string \<Rightarrow> time \<Rightarrow> AdminPasswordReset result" where
  "GetAdminPasswordReset m tokenHash now =
     (case gfind (\<lambda>r. ar_TokenHash r = tokenHash \<and> ar_UsedAt r = None \<and> Before now (ar_ExpiresAt r)) (adminPasswordResets m) of
        None \<Rightarrow> Inl (NotFound ''password reset not found'') | Some r \<Rightarrow> Inr r)"

definition MarkAdminPasswordResetUsed :: "string \<Rightarrow> time \<Rightarrow> memory \<Rightarrow> memory \<times> unit result" where
  "MarkAdminPasswordResetUsed ident now m =
     (case gget (adminPasswordResets m) ident of None \<Rightarrow> (m, Inl (NotFound ''password reset not found''))
      | Some r \<Rightarrow> (m\<lparr>adminPasswordResets := gput (adminPasswordResets m) ident (r\<lparr>ar_UsedAt := Some now\<rparr>)\<rparr>, Inr ()))"

subsection \<open>Users are identified by name and by address\<close>

text \<open>No two users share a name or a non-empty address, up to case; every identifier was handed
  out by the counter.\<close>

definition admins_ok :: "unicode \<Rightarrow> memory \<Rightarrow> bool" where
  "admins_ok uc m \<longleftrightarrow>
     (\<forall>i u. gget (adminUsers m) i = Some u \<longrightarrow> au_ID u = i \<and> (\<exists>n. i = ''admin-'' @ Itoa n \<and> 0 \<le> n \<and> n \<le> nextID m)) \<and>
     (\<forall>i j u v. gget (adminUsers m) i = Some u \<longrightarrow> gget (adminUsers m) j = Some v \<longrightarrow>
        admin_clash uc (au_Username u) (au_Email u) v \<longrightarrow> i = j) \<and> 0 \<le> nextID m"

lemma EqualFold_Nil: "EqualFold uc s [] \<longleftrightarrow> s = []"
  by (cases s) (simp_all add: EqualFold_def split: prod.split)

lemma admin_clash_iff:
  "admin_clash uc (au_Username u) (au_Email u) v \<longleftrightarrow> EqualFold uc (au_Username v) (au_Username u) \<or>
     au_Email u \<noteq> [] \<and> au_Email v \<noteq> [] \<and> EqualFold uc (au_Email v) (au_Email u)"
proof (cases "au_Email v = []")
  case True
  have "EqualFold uc [] (au_Email u) \<Longrightarrow> au_Email u = []" by (drule EqualFold_sym) (simp only: EqualFold_Nil)
  with True show ?thesis by (auto simp: admin_clash_def)
qed (simp add: admin_clash_def)

lemma admin_clash_sym:
  assumes "admin_clash uc (au_Username u) (au_Email u) v" shows "admin_clash uc (au_Username v) (au_Email v) u"
  using assms unfolding admin_clash_iff by (blast intro: EqualFold_sym)

lemma admins_ok_mono:
  assumes ok: "admins_ok uc m" and same: "adminUsers m' = adminUsers m" and le: "nextID m \<le> nextID m'"
  shows "admins_ok uc m'"
proof -
  have "\<exists>n. i = ''admin-'' @ Itoa n \<and> 0 \<le> n \<and> n \<le> nextID m'" if u: "gget (adminUsers m) i = Some u" for i u
  proof -
    obtain n where "i = ''admin-'' @ Itoa n" "0 \<le> n" "n \<le> nextID m"
      using ok u unfolding admins_ok_def by blast
    with le show ?thesis by (intro exI [of _ n]) simp
  qed
  moreover have "0 \<le> nextID m'" using ok le by (simp add: admins_ok_def)
  ultimately show ?thesis using ok unfolding admins_ok_def same by blast
qed

text \<open>Storing a user that clashes with no other.\<close>

lemma admins_ok_put:
  assumes ok: "admins_ok uc m" and m': "adminUsers m' = gput (adminUsers m) (au_ID u) u" "nextID m \<le> nextID m'"
    and id: "\<exists>n. au_ID u = ''admin-'' @ Itoa n \<and> 0 \<le> n \<and> n \<le> nextID m'"
    and no: "\<And>j v. gget (adminUsers m) j = Some v \<Longrightarrow> j \<noteq> au_ID u \<Longrightarrow> \<not> admin_clash uc (au_Username u) (au_Email u) v"
  shows "admins_ok uc m'"
  unfolding admins_ok_def m'(1)
proof (intro conjI allI impI)
  have keys: "au_ID v = i \<and> (\<exists>n. i = ''admin-'' @ Itoa n \<and> 0 \<le> n \<and> n \<le> nextID m)"
    if "gget (adminUsers m) i = Some v" for i v
    using ok that unfolding admins_ok_def by blast
  fix i v assume v: "gget (gput (adminUsers m) (au_ID u) u) i = Some v"
  show "au_ID v = i" using v keys [of i v] by (auto split: if_splits)
  show "\<exists>n. i = ''admin-'' @ Itoa n \<and> 0 \<le> n \<and> n \<le> nextID m'"
    using v keys [of i v] id m'(2) order_trans by (cases "i = au_ID u") fastforce+
next
  fix i j v w
  assume v: "gget (gput (adminUsers m) (au_ID u) u) i = Some v"
    and w: "gget (gput (adminUsers m) (au_ID u) u) j = Some w"
    and clash: "admin_clash uc (au_Username v) (au_Email v) w"
  show "i = j"
  proof (cases "i = au_ID u"; cases "j = au_ID u")
    assume "i = au_ID u" "j \<noteq> au_ID u"
    with v w clash no [of j w] show ?thesis by simp
  next
    assume "i \<noteq> au_ID u" "j = au_ID u"
    with v w admin_clash_sym [OF clash] no [of i v] show ?thesis by simp
  next
    assume "i \<noteq> au_ID u" "j \<noteq> au_ID u"
    with v w clash ok show ?thesis unfolding admins_ok_def by simp
  qed simp
next
  show "0 \<le> nextID m'" using ok m'(2) unfolding admins_ok_def by simp
qed

lemma admins_ok_Create:
  assumes ok: "admins_ok uc m" shows "admins_ok uc (fst (CreateAdminUser uc user now m))"
proof (cases "gfind (admin_clash uc (au_Username user) (au_Email user)) (adminUsers m)")
  case None
  let ?u = "user\<lparr>au_ID := ''admin-'' @ Itoa (nextID m + 1), au_CreatedAt := now, au_UpdatedAt := now,
      au_Status := (if au_Status user = [] then ''active'' else au_Status user)\<rparr>"
  have "0 \<le> nextID m" using ok by (simp add: admins_ok_def)
  then show ?thesis
    using None
    by (intro admins_ok_put [OF ok, where u = ?u])
      (auto simp: CreateAdminUser_def Let_def gfind_None intro!: exI [of _ "nextID m + 1"])
qed (use ok in \<open>simp add: CreateAdminUser_def\<close>)

lemma admins_ok_keep:
  assumes ok: "admins_ok uc m" and i: "gget (adminUsers m) i = Some u" and id: "au_ID u' = au_ID u"
    and no: "\<And>j v. gget (adminUsers m) j = Some v \<Longrightarrow> au_ID v \<noteq> i \<Longrightarrow> \<not> admin_clash uc (au_Username u') (au_Email u') v"
  shows "admins_ok uc (m\<lparr>adminUsers := gput (adminUsers m) i u'\<rparr>)"
proof (rule admins_ok_put [OF ok])
  have keys: "gget (adminUsers m) j = Some v \<Longrightarrow> au_ID v = j \<and> (\<exists>n. j = ''admin-'' @ Itoa n \<and> 0 \<le> n \<and> n \<le> nextID m)" for j v
    using ok unfolding admins_ok_def by blast
  with i id have ui: "au_ID u' = i" by simp
  then show "adminUsers (m\<lparr>adminUsers := gput (adminUsers m) i u'\<rparr>) = gput (adminUsers m) (au_ID u') u'" by simp
  show "\<exists>n. au_ID u' = ''admin-'' @ Itoa n \<and> 0 \<le> n \<and> n \<le> nextID (m\<lparr>adminUsers := gput (adminUsers m) i u'\<rparr>)"
    using keys [OF i] ui by simp
  show "\<not> admin_clash uc (au_Username u') (au_Email u') v" if "gget (adminUsers m) j = Some v" "j \<noteq> au_ID u'" for j v
    using no [OF that(1)] keys [OF that(1)] that(2) ui by simp
qed simp

lemma admins_ok_UpdateProfile:
  assumes ok: "admins_ok uc m" shows "admins_ok uc (fst (UpdateAdminUserProfile uc i name email now m))"
proof (cases "gget (adminUsers m) i")
  case (Some u)
  then show ?thesis
    using ok admins_ok_keep [OF ok Some, of "u\<lparr>au_Username := name, au_Email := email, au_UpdatedAt := now\<rparr>"]
    by (auto simp: UpdateAdminUserProfile_def Let_def gfind_None)
qed (use ok in \<open>simp add: UpdateAdminUserProfile_def\<close>)

lemma admins_ok_Update:
  assumes ok: "admins_ok uc m" shows "admins_ok uc (fst (UpdateAdminUser uc user now m))"
proof (cases "gget (adminUsers m) (au_ID user)")
  case (Some u)
  then show ?thesis
    using ok admins_ok_keep [OF ok Some, of "u\<lparr>au_Username := au_Username user, au_Email := au_Email user,
        au_Role := au_Role user, au_Status := au_Status user, au_UpdatedAt := now\<rparr>"]
    by (auto simp: UpdateAdminUser_def Let_def gfind_None)
qed (use ok in \<open>simp add: UpdateAdminUser_def\<close>)

lemma admins_ok_Password:
  assumes ok: "admins_ok uc m" shows "admins_ok uc (fst (UpdateAdminUserPassword i h now m))"
proof (cases "gget (adminUsers m) i")
  case (Some u)
  have "\<not> admin_clash uc (au_Username u) (au_Email u) v" if "gget (adminUsers m) j = Some v" "au_ID v \<noteq> i" for j v
    using ok Some that unfolding admins_ok_def by blast
  with Some show ?thesis
    using admins_ok_keep [OF ok Some, of "u\<lparr>au_PasswordHash := h, au_UpdatedAt := now\<rparr>"]
    by (auto simp: UpdateAdminUserPassword_def)
qed (use ok in \<open>simp add: UpdateAdminUserPassword_def\<close>)
subsection \<open>The owner role\<close>

text \<open>Roles are stored under their identifier, and the owner role, the only system role, never is.\<close>

definition roles_ok :: "memory \<Rightarrow> bool" where
  "roles_ok m \<longleftrightarrow> (\<forall>i r. gget (adminRoles m) i = Some r \<longrightarrow> ro_ID r = i \<and> i \<noteq> ''owner'')"

lemma DefaultRole_owner: "\<exists>r. DefaultRole now ''owner'' = Some r \<and> ro_System r"
  by (simp add: DefaultRole_def DefaultRoles_def)

lemma roles_ok_Upsert: "roles_ok m \<Longrightarrow> roles_ok (fst (UpsertAdminRole uc r now now' m))"
  using DefaultRole_owner [of now']
  by (cases "ro_ID r = ''owner''") (auto simp: roles_ok_def UpsertAdminRole_def Let_def split: option.split if_splits)

lemma roles_ok_Delete: "roles_ok m \<Longrightarrow> roles_ok (fst (DeleteAdminRole uc i now m))"
  by (auto simp: roles_ok_def DeleteAdminRole_def Let_def)

lemma merge_roles_owner:
  "\<forall>r\<in>set rs. ro_ID r \<noteq> ''owner'' \<Longrightarrow> \<forall>i r. gget byID i = Some r \<longrightarrow> ro_ID r = i \<Longrightarrow>
   gget (foldl (merge_role uc) byID rs) ''owner'' = gget byID ''owner'' \<and>
   (\<forall>i r. gget (foldl (merge_role uc) byID rs) i = Some r \<longrightarrow> ro_ID r = i)"
proof (induction rs arbitrary: byID)
  case (Cons r rs)
  have "gget (merge_role uc byID r) ''owner'' = gget byID ''owner''" "\<forall>i x. gget (merge_role uc byID r) i = Some x \<longrightarrow> ro_ID x = i"
    using Cons.prems by (auto simp: merge_role_def Let_def split: option.split)
  with Cons.IH [of "merge_role uc byID r"] Cons.prems(1) show ?case by simp
qed simp

lemma ListAdminRoles_owner:
  assumes "roles_ok m"
  shows "(r \<in> set (ListAdminRoles uc now m) \<and> ro_ID r = ''owner'') = (DefaultRole now ''owner'' = Some r)"
proof -
  let ?d = "default_role_map now" and ?rs = "gvals (adminRoles m)"
  have d: "\<forall>i r. gget ?d i = Some r \<longrightarrow> ro_ID r = i" "gget ?d ''owner'' = DefaultRole now ''owner''"
    by (simp_all add: default_role_map_def DefaultRoles_def DefaultRole_def)
  have "\<forall>r\<in>set ?rs. ro_ID r \<noteq> ''owner''" using assms by (auto simp: roles_ok_def)
  note m = merge_roles_owner [OF this d(1), of uc]
  then have "(\<exists>i. gget (foldl (merge_role uc) ?d ?rs) i = Some r) \<and> ro_ID r = ''owner'' \<longleftrightarrow> DefaultRole now ''owner'' = Some r"
    unfolding d(2) [symmetric] using d(1) by metis
  then show ?thesis by (simp add: ListAdminRoles_def MergeDefaultRoles_def)
qed

end
