(* ===== verification/NodeRegistry.thy ===== *)
theory NodeRegistry
  imports Auth
begin

text \<open>
  \<^verbatim>\<open>core/internal/node/registry.go\<close>: the registry of login portal and downstream nodes.  Every
  method but \<^verbatim>\<open>Heartbeat\<close> is one critical section.  \<^verbatim>\<open>Heartbeat\<close> authenticates under the read lock
  and writes under the write lock, so it takes the states the two sections run on; they differ
  when another method runs in between.  A nil \<^verbatim>\<open>RuntimeConfig\<close> is the empty map, so \<^verbatim>\<open>cloneNode\<close> is
  the identity.  The last part says which tokens authenticate, and what a heartbeat that was
  overtaken by another method writes back.
\<close>

record Node =
  no_ID :: string
  no_ServerID :: string
  no_Mode :: string
  no_Name :: string
  no_TokenHash :: string
  no_TokenFingerprint :: string
  no_InstanceFingerprint :: string
  no_PluginVersion :: string
  no_VelocityVersion :: string
  no_Disabled :: bool
  no_RuntimeConfig :: anymap
  no_CreatedAt :: time
  no_LastHeartbeatAt :: "time option"

record Registration =
  rn_Mode :: string
  rn_Kind :: string
  rn_Name :: string
  rn_ServerID :: string
  rn_InstanceFingerprint :: string
  rn_AccessFingerprint :: string
  rn_PluginVersion :: string
  rn_VelocityVersion :: string

record HeartbeatMetadata =
  hm_InstanceFingerprint :: string
  hm_PluginVersion :: string
  hm_VelocityVersion :: string

record Registry =
  rg_nextID :: int
  rg_nodes :: "(string, Node) gomap"

definition NewRegistry :: Registry where
  "NewRegistry = \<lparr>rg_nextID = 0, rg_nodes = gempty\<rparr>"

definition NormalizeKind :: "unicode \<Rightarrow> string \<Rightarrow> string" where
  "NormalizeKind uc value =
     (let v = ToLower uc (TrimSpace value) in
      if v \<in> {''limbo'', ''limbo_portal'', ''portal''} then ''limbo_portal''
      else if v \<in> {''downstream'', ''downstream_velocity'', ''velocity'', ''gate''} then ''downstream_velocity''
      else ''downstream_velocity'')"

definition NormalizeMode :: "unicode \<Rightarrow> string \<Rightarrow> string" where
  "NormalizeMode uc value = NormalizeKind uc value"

definition IsLimboPortal :: "unicode \<Rightarrow> string \<Rightarrow> bool" where
  "IsLimboPortal uc value \<longleftrightarrow> NormalizeKind uc value = ''limbo_portal''"

definition IsDownstreamVelocity :: "unicode \<Rightarrow> string \<Rightarrow> bool" where
  "IsDownstreamVelocity uc value \<longleftrightarrow> NormalizeKind uc value = ''downstream_velocity''"

text \<open>An enabled downstream node of the server.\<close>

definition serves :: "unicode \<Rightarrow> string \<Rightarrow> Node \<Rightarrow> bool" where
  "serves uc serverID n \<longleftrightarrow>
     \<not> no_Disabled n \<and> NormalizeKind uc (no_Mode n) = ''downstream_velocity'' \<and> no_ServerID n = serverID"

definition CreateKindForServer ::
  "unicode \<Rightarrow> string \<Rightarrow> string \<Rightarrow> string \<Rightarrow> time \<Rightarrow> byte list option \<Rightarrow> Registry \<Rightarrow> Registry \<times> (Node \<times> string) result" where
  "CreateKindForServer uc name kind serverID now rnd r =
     (if name = [] then (r, Inl (Err ''node name is required''))
      else
        let kind = NormalizeKind uc kind; serverID = TrimSpace serverID;
            serverID = (if serverID = [] \<and> kind = ''downstream_velocity'' then ''default'' else serverID)
        in
        case NewOpaqueToken 32 rnd of Inl e \<Rightarrow> (r, Inl e)
        | Inr token \<Rightarrow>
            if kind = ''downstream_velocity'' \<and> gfind (serves uc serverID) (rg_nodes r) \<noteq> None
            then (r, Inl (Err ''downstream server already has a node''))
            else
              let n = rg_nextID r + 1;
                  node = \<lparr>no_ID = ''node-'' @ Itoa n, no_ServerID = serverID, no_Mode = kind, no_Name = name,
                    no_TokenHash = HashToken ''node'' token, no_TokenFingerprint = TokenFingerprint token,
                    no_InstanceFingerprint = [], no_PluginVersion = [], no_VelocityVersion = [],
                    no_Disabled = False, no_RuntimeConfig = gempty, no_CreatedAt = now, no_LastHeartbeatAt = None\<rparr>
              in (r\<lparr>rg_nextID := n, rg_nodes := gput (rg_nodes r) (no_ID node) node\<rparr>, Inr (node, token)))"

definition CreateKind ::
  "unicode \<Rightarrow> string \<Rightarrow> string \<Rightarrow> time \<Rightarrow> byte list option \<Rightarrow> Registry \<Rightarrow> Registry \<times> (Node \<times> string) result" where
  "CreateKind uc name kind = CreateKindForServer uc name kind []"

definition Create ::
  "unicode \<Rightarrow> string \<Rightarrow> time \<Rightarrow> byte list option \<Rightarrow> Registry \<Rightarrow> Registry \<times> (Node \<times> string) result" where
  "Create uc name = CreateKind uc name ''downstream_velocity''"

definition Authenticate :: "unicode \<Rightarrow> Registry \<Rightarrow> string \<Rightarrow> Node result" where
  "Authenticate uc r token =
     (case gfind (\<lambda>n. \<not> no_Disabled n \<and> ConstantTimeTokenEqual uc ''node'' token (no_TokenHash n)) (rg_nodes r) of
        None \<Rightarrow> Inl (Err ''node token is invalid'') | Some n \<Rightarrow> Inr n)"

definition Rotate :: "string \<Rightarrow> byte list option \<Rightarrow> Registry \<Rightarrow> Registry \<times> (Node \<times> string) result" where
  "Rotate ident rnd r =
     (case NewOpaqueToken 32 rnd of Inl e \<Rightarrow> (r, Inl e)
      | Inr token \<Rightarrow>
          (case gget (rg_nodes r) ident of None \<Rightarrow> (r, Inl (Err ''node not found''))
           | Some node \<Rightarrow>
               if no_Disabled node then (r, Inl (Err ''node is revoked''))
               else
                 let node = node\<lparr>no_TokenHash := HashToken ''node'' token, no_TokenFingerprint := TokenFingerprint token\<rparr>
                 in (r\<lparr>rg_nodes := gput (rg_nodes r) ident node\<rparr>, Inr (node, token))))"

text \<open>The write of \<^verbatim>\<open>Heartbeat\<close>, on the copy of the node that \<^verbatim>\<open>Authenticate\<close> returned.\<close>

definition heartbeat_finish :: "Node \<Rightarrow> HeartbeatMetadata \<Rightarrow> time \<Rightarrow> Registry \<Rightarrow> Registry \<times> Node" where
  "heartbeat_finish node md now r =
     (let fp = TrimSpace (hm_InstanceFingerprint md); pv = TrimSpace (hm_PluginVersion md);
          vv = TrimSpace (hm_VelocityVersion md);
          node = (if no_InstanceFingerprint node = [] \<and> fp \<noteq> [] then node\<lparr>no_InstanceFingerprint := fp\<rparr> else node);
          node = (if pv \<noteq> [] then node\<lparr>no_PluginVersion := pv\<rparr> else node);
          node = (if vv \<noteq> [] then node\<lparr>no_VelocityVersion := vv\<rparr> else node);
          node = node\<lparr>no_LastHeartbeatAt := Some now\<rparr>
      in (r\<lparr>rg_nodes := gput (rg_nodes r) (no_ID node) node\<rparr>, node))"

text \<open>\<^verbatim>\<open>Heartbeat\<close> with its two critical sections run on the states \<open>r1\<close> and \<open>r2\<close>.\<close>

definition Heartbeat ::
  "unicode \<Rightarrow> string \<Rightarrow> HeartbeatMetadata \<Rightarrow> time \<Rightarrow> Registry \<Rightarrow> Registry \<Rightarrow> Registry \<times> Node result" where
  "Heartbeat uc token md now r1 r2 =
     (case Authenticate uc r1 token of Inl e \<Rightarrow> (r2, Inl e)
      | Inr node \<Rightarrow> (case heartbeat_finish node md now r2 of (r, node) \<Rightarrow> (r, Inr node)))"

definition registration_kind :: "unicode \<Rightarrow> Registration \<Rightarrow> string" where
  "registration_kind uc reg =
     (if rn_Kind reg = [] then NormalizeKind uc (rn_Mode reg) else NormalizeKind uc (rn_Kind reg))"

definition registration_server :: "unicode \<Rightarrow> Registration \<Rightarrow> string" where
  "registration_server uc reg =
     (let serverID = TrimSpace (rn_ServerID reg) in
      if serverID = [] \<and> registration_kind uc reg = ''downstream_velocity'' then ''default'' else serverID)"

definition Register :: "unicode \<Rightarrow> Registration \<Rightarrow> time \<Rightarrow> Registry \<Rightarrow> Registry \<times> Node result" where
  "Register uc reg now r =
     (if rn_InstanceFingerprint reg = [] then (r, Inl (Err ''instance fingerprint is required''))
      else
        let name = (if rn_Name reg = [] then ''node-'' @ take 8 (rn_InstanceFingerprint reg) else rn_Name reg);
            kind = registration_kind uc reg;
            serverID = registration_server uc reg
        in
        case List.find (\<lambda>(ident, node). no_InstanceFingerprint node = rn_InstanceFingerprint reg) (gentries (rg_nodes r)) of
          Some (ident, node) \<Rightarrow>
            if no_Disabled node then (r, Inl (Err ''node is revoked''))
            else
              let node = node\<lparr>no_Name := name, no_Mode := kind, no_ServerID := serverID,
                    no_TokenFingerprint := rn_AccessFingerprint reg, no_PluginVersion := rn_PluginVersion reg,
                    no_VelocityVersion := rn_VelocityVersion reg, no_LastHeartbeatAt := Some now\<rparr>
              in (r\<lparr>rg_nodes := gput (rg_nodes r) ident node\<rparr>, Inr node)
        | None \<Rightarrow>
            if kind = ''downstream_velocity'' \<and> gfind (serves uc serverID) (rg_nodes r) \<noteq> None
            then (r, Inl (Err ''downstream server already has a node''))
            else
              let n = rg_nextID r + 1;
                  node = \<lparr>no_ID = ''node-'' @ Itoa n, no_ServerID = serverID, no_Mode = kind, no_Name = name,
                    no_TokenHash = [], no_TokenFingerprint = rn_AccessFingerprint reg,
                    no_InstanceFingerprint = rn_InstanceFingerprint reg, no_PluginVersion = rn_PluginVersion reg,
                    no_VelocityVersion = rn_VelocityVersion reg, no_Disabled = False, no_RuntimeConfig = gempty,
                    no_CreatedAt = now, no_LastHeartbeatAt = Some now\<rparr>
              in (r\<lparr>rg_nextID := n, rg_nodes := gput (rg_nodes r) (no_ID node) node\<rparr>, Inr node))"

definition List_nodes :: "Registry \<Rightarrow> Node list" where
  "List_nodes r = gvals (rg_nodes r)"

definition Get :: "Registry \<Rightarrow> string \<Rightarrow> Node result" where
  "Get r ident = (case gget (rg_nodes r) ident of None \<Rightarrow> Inl (Err ''node not found'') | Some n \<Rightarrow> Inr n)"

definition Update :: "string \<Rightarrow> string \<Rightarrow> anymap \<Rightarrow> Registry \<Rightarrow> Registry \<times> Node result" where
  "Update ident name runtime r =
     (case gget (rg_nodes r) ident of None \<Rightarrow> (r, Inl (Err ''node not found''))
      | Some node \<Rightarrow>
          let node = (if TrimSpace name \<noteq> [] then node\<lparr>no_Name := TrimSpace name\<rparr> else node);
              node = node\<lparr>no_RuntimeConfig := runtime\<rparr>
          in (r\<lparr>rg_nodes := gput (rg_nodes r) ident node\<rparr>, Inr node))"

definition Delete :: "string \<Rightarrow> Registry \<Rightarrow> Registry \<times> unit result" where
  "Delete ident r =
     (case gget (rg_nodes r) ident of None \<Rightarrow> (r, Inl (Err ''node not found''))
      | Some node \<Rightarrow>
          (r\<lparr>rg_nodes := gput (rg_nodes r) ident (node\<lparr>no_Disabled := True, no_TokenHash := [], no_TokenFingerprint := []\<rparr>)\<rparr>,
           Inr ()))"
subsection \<open>Which tokens authenticate\<close>

definition has_token :: "unicode \<Rightarrow> string \<Rightarrow> Node \<Rightarrow> bool" where
  "has_token uc token n \<longleftrightarrow> \<not> no_Disabled n \<and> HashToken ''node'' token = ToLower uc (no_TokenHash n)"

lemma Authenticate_gfind: "Authenticate uc r token =
    (case gfind (has_token uc token) (rg_nodes r) of None \<Rightarrow> Inl (Err ''node token is invalid'') | Some n \<Rightarrow> Inr n)"
  by (simp add: Authenticate_def has_token_def [abs_def] ConstantTimeTokenEqual_def)

lemma Authenticate_ok: "is_ok (Authenticate uc r token) \<longleftrightarrow> (\<exists>i n. gget (rg_nodes r) i = Some n \<and> has_token uc token n)"
proof (cases "gfind (has_token uc token) (rg_nodes r)")
  case None
  then have "\<not> (\<exists>i n. gget (rg_nodes r) i = Some n \<and> has_token uc token n)" unfolding gfind_None by blast
  with None show ?thesis by (simp add: Authenticate_gfind)
next
  case (Some n)
  with gfind_Some [OF Some] show ?thesis by (auto simp: Authenticate_gfind)
qed

lemma Authenticate_Inr:
  "Authenticate uc r token = Inr n \<Longrightarrow> has_token uc token n \<and> (\<exists>i. gget (rg_nodes r) i = Some n)"
  by (auto simp: Authenticate_gfind split: option.splits dest: gfind_Some)

text \<open>Nodes are stored under their identifiers, which the counter has handed out.\<close>

definition nodes_ok :: "Registry \<Rightarrow> bool" where
  "nodes_ok r \<longleftrightarrow> (\<forall>i n. gget (rg_nodes r) i = Some n \<longrightarrow> no_ID n = i \<and> (\<exists>k. i = ''node-'' @ Itoa k \<and> 0 \<le> k \<and> k \<le> rg_nextID r)) \<and>
     0 \<le> rg_nextID r"

lemma nodes_ok_keep:
  assumes "nodes_ok r" "gget (rg_nodes r) i = Some n" "no_ID n' = no_ID n"
  shows "nodes_ok (r\<lparr>rg_nodes := gput (rg_nodes r) i n'\<rparr>)"
  using assms by (auto simp: nodes_ok_def)

lemma nodes_ok_add:
  assumes "nodes_ok r" "no_ID n = ''node-'' @ Itoa (rg_nextID r + 1)"
  shows "nodes_ok (r\<lparr>rg_nextID := rg_nextID r + 1, rg_nodes := gput (rg_nodes r) (no_ID n) n\<rparr>)"
  using assms by (fastforce simp: nodes_ok_def)

lemma nodes_ok_Create: "nodes_ok r \<Longrightarrow> nodes_ok (fst (CreateKindForServer uc name kind s now rnd r))"
  using nodes_ok_add [of r] by (auto simp: CreateKindForServer_def Let_def split: sum.split)

lemma nodes_ok_Rotate: "nodes_ok r \<Longrightarrow> nodes_ok (fst (Rotate i rnd r))"
  by (auto simp: Rotate_def Let_def nodes_ok_keep split: sum.split option.split)

lemma nodes_ok_Update: "nodes_ok r \<Longrightarrow> nodes_ok (fst (Update i name cfg r))"
  by (auto simp: Update_def Let_def nodes_ok_keep split: option.split)

lemma nodes_ok_Delete: "nodes_ok r \<Longrightarrow> nodes_ok (fst (Delete i r))"
  by (auto simp: Delete_def nodes_ok_keep split: option.split)

lemma nodes_ok_Register: "nodes_ok r \<Longrightarrow> nodes_ok (fst (Register uc reg now r))"
proof (cases "List.find (\<lambda>(ident, node). no_InstanceFingerprint node = rn_InstanceFingerprint reg) (gentries (rg_nodes r))")
  case None
  assume "nodes_ok r"
  with None nodes_ok_add [OF this] show ?thesis by (auto simp: Register_def Let_def)
next
  case (Some e)
  assume ok: "nodes_ok r"
  obtain i n where e: "e = (i, n)" by (cases e)
  with find_Some_in [OF Some] have "gget (rg_nodes r) i = Some n" by (simp add: gget_eq_entries)
  with ok Some e show ?thesis by (auto simp: Register_def Let_def nodes_ok_keep)
qed

lemma heartbeat_finish_ID: "no_ID (snd (heartbeat_finish n md now r)) = no_ID n"
  "no_TokenHash (snd (heartbeat_finish n md now r)) = no_TokenHash n"
  "no_Disabled (snd (heartbeat_finish n md now r)) = no_Disabled n"
  by (simp_all add: heartbeat_finish_def Let_def)

lemma heartbeat_finish_nodes:
  "rg_nodes (fst (heartbeat_finish n md now r)) = gput (rg_nodes r) (no_ID n) (snd (heartbeat_finish n md now r))"
  by (simp add: heartbeat_finish_def Let_def)

text \<open>
  The registry with the heartbeats that have authenticated and not yet written; any other method
  may run between the two sections of one.
\<close>

inductive registry_reachable :: "unicode \<Rightarrow> Registry \<Rightarrow> Node list \<Rightarrow> bool" for uc where
  init: "registry_reachable uc NewRegistry []"
| create: "registry_reachable uc r ps \<Longrightarrow> registry_reachable uc (fst (CreateKindForServer uc name kind s now rnd r)) ps"
| register: "registry_reachable uc r ps \<Longrightarrow> registry_reachable uc (fst (Register uc reg now r)) ps"
| rotate: "registry_reachable uc r ps \<Longrightarrow> registry_reachable uc (fst (Rotate i rnd r)) ps"
| update: "registry_reachable uc r ps \<Longrightarrow> registry_reachable uc (fst (Update i name cfg r)) ps"
| delete: "registry_reachable uc r ps \<Longrightarrow> registry_reachable uc (fst (Delete i r)) ps"
| heartbeat_begin: "registry_reachable uc r ps \<Longrightarrow> Authenticate uc r token = Inr n \<Longrightarrow> registry_reachable uc r (n # ps)"
| heartbeat_end: "registry_reachable uc r ps \<Longrightarrow> n \<in> set ps \<Longrightarrow>
    registry_reachable uc (fst (heartbeat_finish n md now r)) (remove1 n ps)"

definition known :: "Registry \<Rightarrow> Node \<Rightarrow> bool" where
  "known r n \<longleftrightarrow> (\<exists>k. no_ID n = ''node-'' @ Itoa k \<and> 0 \<le> k \<and> k \<le> rg_nextID r)"

lemma known_mono: "known r n \<Longrightarrow> rg_nextID r \<le> rg_nextID r' \<Longrightarrow> known r' n"
  unfolding known_def by (meson order_trans)

lemma rg_nextID_mono:
  "rg_nextID r \<le> rg_nextID (fst (CreateKindForServer uc name kind s now rnd r))"
  "rg_nextID r \<le> rg_nextID (fst (Register uc reg now r))" "rg_nextID (fst (Rotate i rnd r)) = rg_nextID r"
  "rg_nextID (fst (Update i name cfg r)) = rg_nextID r" "rg_nextID (fst (Delete i r)) = rg_nextID r"
  "rg_nextID (fst (heartbeat_finish n md now r)) = rg_nextID r"
  by (auto simp: CreateKindForServer_def Register_def Rotate_def Update_def Delete_def heartbeat_finish_def Let_def
      split: sum.split option.split)

lemma nodes_ok_heartbeat: "nodes_ok r \<Longrightarrow> known r n \<Longrightarrow> nodes_ok (fst (heartbeat_finish n md now r))"
  using heartbeat_finish_ID(1) [of n md now r]
  by (auto simp: nodes_ok_def known_def heartbeat_finish_nodes rg_nextID_mono)

lemma registry_reachable_ok:
  "registry_reachable uc r ps \<Longrightarrow> nodes_ok r \<and> (\<forall>n\<in>set ps. known r n)"
proof (induction rule: registry_reachable.induct)
  case init
  show ?case by (simp add: nodes_ok_def NewRegistry_def)
next
  case (heartbeat_begin r ps token n)
  from Authenticate_Inr [OF heartbeat_begin.hyps(2)] heartbeat_begin.IH have "known r n"
    by (auto simp: nodes_ok_def known_def)
  with heartbeat_begin.IH show ?case by simp
next
  case (heartbeat_end r ps n md now)
  then have "nodes_ok (fst (heartbeat_finish n md now r))" by (simp add: nodes_ok_heartbeat)
  with heartbeat_end show ?case
    by (auto simp: known_def rg_nextID_mono dest: in_set_remove1 [THEN iffD1, rotated] notin_set_remove1)
qed (auto simp: nodes_ok_Create nodes_ok_Register nodes_ok_Rotate nodes_ok_Update nodes_ok_Delete rg_nextID_mono
    intro: known_mono)

subsection \<open>Properties\<close>

lemma ToLower_HashToken: "ToLower uc (HashToken scope token) = HashToken scope token"
  by (simp add: HashToken_def ToLower_HexEncode)

text \<open>
  C31: Rotating the token of a node replaces it and deleting the node revokes it: when no other node
  has the hash of the old token, the new token authenticates after the rotation, the old one does
  not unless the two have the same hash, nor does it after a deletion.
\<close>

theorem node_token_lifecycle:
  assumes node: "gget (rg_nodes r) i = Some n" "has_token uc old n"
    and alone: "\<forall>j x. gget (rg_nodes r) j = Some x \<longrightarrow> has_token uc old x \<longrightarrow> j = i"
    and rot: "Rotate i rnd r = (r', Inr (n', token))"
  shows "is_ok (Authenticate uc r old) \<and> is_ok (Authenticate uc r' token) \<and>
    is_ok (Authenticate uc r' old) = (HashToken ''node'' old = HashToken ''node'' token) \<and>
    \<not> is_ok (Authenticate uc (fst (Delete i r)) old)"
proof -
  have r': "r' = r\<lparr>rg_nodes := gput (rg_nodes r) i n'\<rparr>" and n': "no_TokenHash n' = HashToken ''node'' token" "no_Disabled n' = False"
    using rot node(1) by (auto simp: Rotate_def Let_def split: sum.splits if_splits)
  have t: "has_token uc t n' \<longleftrightarrow> HashToken ''node'' t = HashToken ''node'' token" for t
    using n' by (simp add: has_token_def ToLower_HashToken)
  have "is_ok (Authenticate uc r' token)" "is_ok (Authenticate uc r' old) = (HashToken ''node'' old = HashToken ''node'' token)"
    unfolding Authenticate_ok r' using alone by (auto simp: t split: if_splits)
  moreover have "\<not> is_ok (Authenticate uc (fst (Delete i r)) old)"
    unfolding Authenticate_ok using alone node(1) by (auto simp: Delete_def has_token_def split: if_splits)
  moreover have "is_ok (Authenticate uc r old)" unfolding Authenticate_ok using node by blast
  ultimately show ?thesis by blast
qed

text \<open>A registry with one node, for the witnesses.\<close>

definition sample_node :: "string \<Rightarrow> Node" where
  "sample_node token = \<lparr>no_ID = ''node-1'', no_ServerID = ''default'', no_Mode = ''downstream_velocity'', no_Name = ''n'',
     no_TokenHash = HashToken ''node'' token, no_TokenFingerprint = TokenFingerprint token, no_InstanceFingerprint = [],
     no_PluginVersion = [], no_VelocityVersion = [], no_Disabled = False, no_RuntimeConfig = gempty, no_CreatedAt = 1,
     no_LastHeartbeatAt = None\<rparr>"

definition sample_token :: string where "sample_token = Base64RawURL (replicate 32 0)"

definition sample_registry :: Registry where
  "sample_registry = fst (CreateKindForServer plain_unicode ''n'' ''gate'' [] 1 (Some []) NewRegistry)"

lemma sample_registry_eq: "sample_registry = \<lparr>rg_nextID = 1, rg_nodes = gput gempty ''node-1'' (sample_node sample_token)\<rparr>"
proof -
  have "NormalizeKind plain_unicode ''gate'' = ''downstream_velocity''" "''node-'' @ Itoa 1 = ''node-1''" "TrimSpace [] = []"
    "gfind (serves plain_unicode ''default'') (gempty :: (string, Node) gomap) = None"
    by code_simp+
  then show ?thesis
    by (simp add: sample_registry_def CreateKindForServer_def NewRegistry_def NewOpaqueToken_def Let_def sample_node_def
        sample_token_def)
qed

lemma sample_registry_reachable: "registry_reachable plain_unicode sample_registry []"
  unfolding sample_registry_def by (intro registry_reachable.intros)

lemma sample_registry_token:
  "gget (rg_nodes sample_registry) ''node-1'' = Some (sample_node sample_token)" "has_token uc sample_token (sample_node sample_token)"
  by (simp_all add: sample_registry_eq sample_node_def has_token_def ToLower_HashToken)

lemma sample_registry_only: "gget (rg_nodes sample_registry) i = Some n \<Longrightarrow> i = ''node-1'' \<and> n = sample_node sample_token"
  by (simp add: sample_registry_eq split: if_splits)

lemma node_token_lifecycle_witness:
  "is_ok (Authenticate plain_unicode sample_registry sample_token) \<and>
   \<not> is_ok (Authenticate plain_unicode (fst (Delete ''node-1'' sample_registry)) sample_token)"
proof -
  obtain r' n' token where rot: "Rotate ''node-1'' (Some [7]) sample_registry = (r', Inr (n', token))"
    by (simp add: Rotate_def NewOpaqueToken_def sample_registry_token) (simp add: sample_node_def Let_def)
  have "\<forall>j x. gget (rg_nodes sample_registry) j = Some x \<longrightarrow> has_token plain_unicode sample_token x \<longrightarrow> j = ''node-1''"
    using sample_registry_only by blast
  from node_token_lifecycle [OF sample_registry_token this rot] show ?thesis by blast
qed

text \<open>
  C39: A heartbeat that authenticated before a node was deleted and writes after it brings the node
  back: it is enabled again and its revoked token authenticates.
\<close>

theorem Heartbeat_resurrects:
  assumes "registry_reachable uc r ps" and "Authenticate uc r token = Inr n"
  shows "\<not> no_Disabled n \<and>
    (case gget (rg_nodes (fst (Delete (no_ID n) r))) (no_ID n) of None \<Rightarrow> False | Some n' \<Rightarrow> no_Disabled n') \<and>
    (case Heartbeat uc token md now r (fst (Delete (no_ID n) r)) of
       (r', Inr n') \<Rightarrow> gget (rg_nodes r') (no_ID n) = Some n' \<and> \<not> no_Disabled n' \<and> is_ok (Authenticate uc r' token)
     | (r', Inl _) \<Rightarrow> False)"
proof -
  from Authenticate_Inr [OF assms(2)] obtain i where t: "has_token uc token n" and i: "gget (rg_nodes r) i = Some n" by blast
  with registry_reachable_ok [OF assms(1)] have id: "no_ID n = i" unfolding nodes_ok_def by blast
  have en: "\<not> no_Disabled n" using t by (simp add: has_token_def)
  let ?r = "fst (Delete (no_ID n) r)"
  obtain r' n' where h: "heartbeat_finish n md now ?r = (r', n')" by (cases "heartbeat_finish n md now ?r")
  have n': "no_ID n' = i" "no_Disabled n' = no_Disabled n" "no_TokenHash n' = no_TokenHash n"
    using heartbeat_finish_ID [of n md now ?r] h id by simp_all
  have r': "rg_nodes r' = gput (rg_nodes ?r) i n'" using heartbeat_finish_nodes [of n md now ?r] h id by simp
  have "has_token uc token n'" using t n' by (simp add: has_token_def)
  then have "is_ok (Authenticate uc r' token)" unfolding Authenticate_ok r' by auto
  with r' n' en h show ?thesis
    by (simp add: Heartbeat_def assms(2) id) (simp add: Delete_def i)
qed

lemma Heartbeat_resurrects_witness:
  "is_ok (Authenticate plain_unicode (fst (Heartbeat plain_unicode sample_token
     \<lparr>hm_InstanceFingerprint = [], hm_PluginVersion = [], hm_VelocityVersion = []\<rparr> 9
     sample_registry (fst (Delete ''node-1'' sample_registry)))) sample_token)"
proof -
  have "is_ok (Authenticate plain_unicode sample_registry sample_token)"
    unfolding Authenticate_ok using sample_registry_token by blast
  then obtain n where n: "Authenticate plain_unicode sample_registry sample_token = Inr n" by (auto simp: is_ok_iff)
  have "n = sample_node sample_token" using Authenticate_Inr [OF n] sample_registry_only by blast
  then have "no_ID n = ''node-1''" by (simp add: sample_node_def)
  with Heartbeat_resurrects [OF sample_registry_reachable n, of "\<lparr>hm_InstanceFingerprint = [], hm_PluginVersion = [], hm_VelocityVersion = []\<rparr>" 9]
  show ?thesis by (auto split: prod.splits sum.splits)
qed

text \<open>
  A registration with the fingerprint of a known node moves the node to the server it names
  without the check that the server has no node: two enabled nodes then serve it.
\<close>

theorem Register_second_node:
  assumes n: "List.find (\<lambda>(ident, node). no_InstanceFingerprint node = rn_InstanceFingerprint reg) (gentries (rg_nodes r)) = Some (i, n)"
    and reg: "rn_InstanceFingerprint reg \<noteq> []" "registration_kind uc reg = ''downstream_velocity''" "\<not> no_Disabled n"
    and other: "gget (rg_nodes r) j = Some x" "j \<noteq> i" "serves uc (registration_server uc reg) x"
  shows "\<exists>y. gget (rg_nodes (fst (Register uc reg now r))) i = Some y \<and> serves uc (registration_server uc reg) y \<and>
    gget (rg_nodes (fst (Register uc reg now r))) j = Some x"
proof -
  have "NormalizeKind uc (registration_kind uc reg) = ''downstream_velocity''"
  proof -
    have "ascii ''downstream_velocity''" "map lower_char ''downstream_velocity'' = ''downstream_velocity''"
      "TrimSpace ''downstream_velocity'' = ''downstream_velocity''" by code_simp+
    then show ?thesis unfolding reg(2) by (simp add: NormalizeKind_def ToLower_ascii)
  qed
  with assms show ?thesis by (simp add: Register_def Let_def serves_def)
qed

end
