(* ===== verification/RateLimit.thy ===== *)
theory RateLimit
  imports GoText
begin

text \<open>
  \<^verbatim>\<open>limbo/rate_limit.go\<close>: the per-address fixed-window limiter of status requests.  A remote
  address is its \<^verbatim>\<open>String()\<close>, \<open>None\<close> for a nil address; the clock reading of \<^verbatim>\<open>Allow\<close> is an
  argument, since \<^verbatim>\<open>Allow\<close> takes it before the mutex: requests that race for the mutex may come with
  readings out of order, which the statements on runs in order of time leave aside.  The last part bounds what any address is granted in any span of one window.
\<close>

record RateLimitConfig =
  rc_Requests :: int
  rc_Window :: duration

record rateLimitEntry =
  re_count :: int
  re_reset :: time

record RateLimiter =
  rl_requests :: int
  rl_window :: duration
  rl_entries :: "(string, rateLimitEntry) gomap"

definition NewRateLimiter :: "RateLimitConfig \<Rightarrow> RateLimiter" where
  "NewRateLimiter cfg =
     \<lparr>rl_requests = (if rc_Requests cfg \<le> 0 then 60 else rc_Requests cfg),
      rl_window = (if rc_Window cfg \<le> 0 then Second else rc_Window cfg),
      rl_entries = gempty\<rparr>"

subsection \<open>The key of an address\<close>

definition index_of :: "char \<Rightarrow> string \<Rightarrow> nat option" where
  "index_of c s = (let i = length (takeWhile (\<lambda>d. d \<noteq> c) s) in if i < length s then Some i else None)"

definition last_index_of :: "char \<Rightarrow> string \<Rightarrow> nat option" where
  "last_index_of c s = map_option (\<lambda>i. length s - 1 - i) (index_of c (rev s))"

text \<open>\<^verbatim>\<open>net.SplitHostPort\<close>: the host, or \<open>None\<close> for its errors.\<close>

definition SplitHost :: "string \<Rightarrow> string option" where
  "SplitHost s =
     (case last_index_of CHR '':'' s of None \<Rightarrow> None
      | Some i \<Rightarrow>
          (case (if hd s = CHR ''['' then
                   (case index_of CHR '']'' s of None \<Rightarrow> None
                    | Some e \<Rightarrow> if e + 1 = i then Some (take (e - 1) (drop 1 s), 1, e + 1) else None)
                 else if CHR '':'' \<in> set (take i s) then None
                 else Some (take i s, 0, 0)) of
             None \<Rightarrow> None
           | Some (host, j, k) \<Rightarrow>
               if CHR ''['' \<in> set (drop j s) \<or> CHR '']'' \<in> set (drop k s) then None else Some host))"

definition rateLimitKey :: "string option \<Rightarrow> string" where
  "rateLimitKey remote =
     (case remote of None \<Rightarrow> [] | Some s \<Rightarrow> (case SplitHost s of Some host \<Rightarrow> host | None \<Rightarrow> s))"

subsection \<open>The limiter\<close>

definition cleanup :: "time \<Rightarrow> RateLimiter \<Rightarrow> RateLimiter" where
  "cleanup now l = l\<lparr>rl_entries := grange_del (\<lambda>_ e. \<not> Before now (re_reset e)) (rl_entries l)\<rparr>"

text \<open>\<^verbatim>\<open>Allow\<close> for the key of the remote address.\<close>

definition AllowKey :: "string \<Rightarrow> time \<Rightarrow> RateLimiter \<Rightarrow> RateLimiter \<times> bool" where
  "AllowKey key now l =
     (let entry = (case gget (rl_entries l) key of None \<Rightarrow> \<lparr>re_count = 0, re_reset = 0\<rparr> | Some e \<Rightarrow> e);
          entry = (if IsZero (re_reset entry) \<or> \<not> Before now (re_reset entry)
                   then \<lparr>re_count = 0, re_reset = now + rl_window l\<rparr> else entry)
      in
      if rl_requests l \<le> re_count entry
      then (l\<lparr>rl_entries := gput (rl_entries l) key entry\<rparr>, False)
      else
        let entry = entry\<lparr>re_count := re_count entry + 1\<rparr>;
            l = l\<lparr>rl_entries := gput (rl_entries l) key entry\<rparr>
        in (if rl_requests l * 32 < int (glen (rl_entries l)) then cleanup now l else l, True))"

definition Allow :: "string option \<Rightarrow> time \<Rightarrow> RateLimiter option \<Rightarrow> RateLimiter option \<times> bool" where
  "Allow remote now l =
     (case l of None \<Rightarrow> (None, True)
      | Some l \<Rightarrow> (case AllowKey (rateLimitKey remote) now l of (l, ok) \<Rightarrow> (Some l, ok)))"

text \<open>How many requests of \<open>key\<close> at times from \<open>t\<close> up to \<open>t + W\<close> a sequence of requests is granted.\<close>

fun granted :: "string \<Rightarrow> time \<Rightarrow> duration \<Rightarrow> (string \<times> time) list \<Rightarrow> RateLimiter \<Rightarrow> nat" where
  "granted key t W [] l = 0"
| "granted key t W ((k, s) # reqs) l =
     (case AllowKey k s l of (l', ok) \<Rightarrow>
        (if ok \<and> k = key \<and> t \<le> s \<and> s < t + W then 1 else 0) + granted key t W reqs l')"

definition limiter_ok :: "RateLimiter \<Rightarrow> bool" where
  "limiter_ok l \<longleftrightarrow> 0 < rl_requests l \<and> 0 < rl_window l \<and>
     (\<forall>k e. gget (rl_entries l) k = Some e \<longrightarrow> 0 \<le> re_count e \<and> re_count e \<le> rl_requests l)"

lemma AllowKey_config [simp]:
  "rl_requests (fst (AllowKey k s l)) = rl_requests l" "rl_window (fst (AllowKey k s l)) = rl_window l"
  by (simp_all add: AllowKey_def Let_def cleanup_def)

text \<open>The entry of a key, expired at \<open>s\<close> or missing, and what a request makes of it.\<close>

definition current :: "RateLimiter \<Rightarrow> string \<Rightarrow> time \<Rightarrow> rateLimitEntry" where
  "current l k s =
     (case gget (rl_entries l) k of
        Some e \<Rightarrow> if re_reset e = 0 \<or> re_reset e \<le> s then \<lparr>re_count = 0, re_reset = s + rl_window l\<rparr> else e
      | None \<Rightarrow> \<lparr>re_count = 0, re_reset = s + rl_window l\<rparr>)"

lemma AllowKey_current:
  "AllowKey k s l =
     (let e = current l k s in
      if rl_requests l \<le> re_count e then (l\<lparr>rl_entries := gput (rl_entries l) k e\<rparr>, False)
      else
        let l' = l\<lparr>rl_entries := gput (rl_entries l) k (e\<lparr>re_count := re_count e + 1\<rparr>)\<rparr>
        in (if rl_requests l * 32 < int (glen (rl_entries l')) then cleanup s l' else l', True))"
  by (auto simp: AllowKey_def current_def Let_def split: option.split)

lemma current_reset: "0 < rl_window l \<Longrightarrow> s < re_reset (current l k s)"
  by (auto simp: current_def split: option.split)

lemma AllowKey_allowed: "snd (AllowKey k s l) \<longleftrightarrow> re_count (current l k s) < rl_requests l"
  by (auto simp: AllowKey_current Let_def)

lemma AllowKey_own:
  assumes "0 < rl_window l"
  shows "gget (rl_entries (fst (AllowKey k s l))) k =
     Some (if snd (AllowKey k s l) then (current l k s)\<lparr>re_count := re_count (current l k s) + 1\<rparr> else current l k s)"
  using current_reset [OF assms, of s k]
  by (auto simp: AllowKey_current Let_def cleanup_def)

lemma AllowKey_other:
  assumes "k' \<noteq> k"
  shows "gget (rl_entries (fst (AllowKey k' s l))) k = gget (rl_entries l) k \<or>
    (\<exists>e. gget (rl_entries l) k = Some e \<and> re_reset e \<le> s \<and> gget (rl_entries (fst (AllowKey k' s l))) k = None)"
  using assms by (cases "gget (rl_entries l) k") (auto simp: AllowKey_current Let_def cleanup_def)

lemma limiter_ok_AllowKey:
  assumes "limiter_ok l"
  shows "limiter_ok (fst (AllowKey k s l))"
proof -
  have c: "0 \<le> re_count (current l k s) \<and> re_count (current l k s) \<le> rl_requests l"
    using assms by (auto simp: limiter_ok_def current_def split: option.split)
  have "0 \<le> re_count e \<and> re_count e \<le> rl_requests l"
    if "gget (rl_entries (fst (AllowKey k s l))) k' = Some e" for k' e
  proof (cases "k' = k")
    case True
    with that assms c show ?thesis
      by (auto simp: AllowKey_own limiter_ok_def AllowKey_allowed split: if_splits)
  next
    case False
    then have "k \<noteq> k'" by simp
    from AllowKey_other [OF this, of s l] that assms show ?thesis
      by (auto simp: limiter_ok_def)
  qed
  with assms show ?thesis by (simp add: limiter_ok_def)
qed

subsection \<open>The bound\<close>

text \<open>
  What a key can still be granted at times from \<open>t\<close> up to \<open>t + W\<close> when no request comes before
  time \<open>n\<close>: the rest of the window that is open, and one whole window if that one closes inside.
\<close>

definition budget :: "time \<Rightarrow> time \<Rightarrow> RateLimiter \<Rightarrow> string \<Rightarrow> int" where
  "budget t n l key =
     (let R = rl_requests l; W = rl_window l in
      if t + W \<le> n then 0
      else case gget (rl_entries l) key of
        Some e \<Rightarrow>
          if t + W \<le> re_reset e then R - re_count e
          else if t < re_reset e \<and> n < re_reset e then 2 * R - re_count e
          else if t \<le> n then R else 2 * R
      | None \<Rightarrow> if t \<le> n then R else 2 * R)"

lemma budget_nonneg: "limiter_ok l \<Longrightarrow> 0 \<le> budget t n l key"
  by (fastforce simp: budget_def limiter_ok_def Let_def split: option.split)

lemma budget_le: "limiter_ok l \<Longrightarrow> budget t n l key \<le> 2 * rl_requests l"
  by (fastforce simp: budget_def limiter_ok_def Let_def split: option.split)

lemma budget_other:
  assumes "k \<noteq> key" "limiter_ok l" "n \<le> s"
  shows "budget t s (fst (AllowKey k s l)) key \<le> budget t n l key"
  using AllowKey_other [OF assms(1), of s l] assms(2,3)
  by (fastforce simp: budget_def Let_def limiter_ok_def split: option.split)

lemma budget_own:
  assumes ok: "limiter_ok l" and "0 \<le> n" "n \<le> s"
  shows "(if snd (AllowKey key s l) \<and> t \<le> s \<and> s < t + rl_window l then 1 else 0)
      + budget t s (fst (AllowKey key s l)) key \<le> budget t n l key"
proof -
  have w: "0 < rl_window l" and R: "0 < rl_requests l" using ok by (simp_all add: limiter_ok_def)
  show ?thesis
  proof (cases "gget (rl_entries l) key")
    case None
    with assms w R show ?thesis
      by (auto simp: budget_def Let_def AllowKey_own AllowKey_allowed current_def)
  next
    case (Some e)
    with ok have "0 \<le> re_count e" "re_count e \<le> rl_requests l" by (auto simp: limiter_ok_def)
    with Some assms w R show ?thesis
      by (auto simp: budget_def Let_def AllowKey_own AllowKey_allowed current_def)
  qed
qed

lemma granted_budget:
  assumes "limiter_ok l" "0 \<le> n" "sorted (map snd reqs)" "\<forall>r\<in>set reqs. n \<le> snd r"
  shows "int (granted key t (rl_window l) reqs l) \<le> budget t n l key"
  using assms
proof (induction reqs arbitrary: l n)
  case Nil
  then show ?case by (simp add: budget_nonneg)
next
  case (Cons r reqs)
  obtain k s where r: "r = (k, s)" by (cases r)
  obtain l' ok where a: "AllowKey k s l = (l', ok)" by (cases "AllowKey k s l")
  have l': "l' = fst (AllowKey k s l)" and okd: "ok = snd (AllowKey k s l)" using a by simp_all
  have n: "n \<le> s" using Cons.prems r by simp
  have "int (granted key t (rl_window l') reqs l') \<le> budget t s l' key"
    using Cons.prems r n by (intro Cons.IH) (auto simp: l' limiter_ok_AllowKey)
  moreover have "rl_window l' = rl_window l" by (simp add: l')
  moreover have "(if ok \<and> k = key \<and> t \<le> s \<and> s < t + rl_window l then 1 else 0) + budget t s l' key \<le> budget t n l key"
  proof (cases "k = key")
    case True
    with budget_own [OF Cons.prems(1,2) n, of key t] show ?thesis by (simp add: l' okd)
  next
    case False
    with budget_other [OF False Cons.prems(1) n, of t] show ?thesis by (simp add: l')
  qed
  ultimately show ?case using a r by auto
qed
lemma limiter_ok_New: "limiter_ok (NewRateLimiter cfg)"
  by (simp add: limiter_ok_def NewRateLimiter_def)

subsection \<open>Independence of addresses\<close>

text \<open>Two limiters that decide alike about a key from time \<open>n\<close> on.\<close>

definition alike :: "string \<Rightarrow> time \<Rightarrow> RateLimiter \<Rightarrow> RateLimiter \<Rightarrow> bool" where
  "alike key n l l' \<longleftrightarrow> rl_requests l = rl_requests l' \<and> rl_window l = rl_window l' \<and>
     (gget (rl_entries l) key = gget (rl_entries l') key \<or>
      (case gget (rl_entries l) key of None \<Rightarrow> True | Some e \<Rightarrow> re_reset e \<le> n) \<and>
      (case gget (rl_entries l') key of None \<Rightarrow> True | Some e \<Rightarrow> re_reset e \<le> n))"

lemma alike_current: "alike key n l l' \<Longrightarrow> n \<le> s \<Longrightarrow> current l key s = current l' key s"
  by (auto simp: alike_def current_def split: option.splits)

lemma alike_own:
  assumes "alike key n l l'" "n \<le> s" "0 < rl_window l"
  shows "snd (AllowKey key s l) = snd (AllowKey key s l') \<and>
    alike key s (fst (AllowKey key s l)) (fst (AllowKey key s l'))"
proof -
  have w: "0 < rl_window l'" using assms(1,3) by (simp add: alike_def)
  have r: "rl_requests l = rl_requests l'" using assms(1) by (simp add: alike_def)
  note c = alike_current [OF assms(1,2)]
  have "snd (AllowKey key s l) = snd (AllowKey key s l')" by (simp add: AllowKey_allowed c r)
  with assms(1) show ?thesis
    by (simp add: alike_def AllowKey_own [OF assms(3)] AllowKey_own [OF w] c)
qed

lemma alike_other:
  assumes "alike key n l l'" "n \<le> s" "k \<noteq> key"
  shows "alike key s (fst (AllowKey k s l)) l'"
  using AllowKey_other [OF assms(3), of s l] assms(1,2)
  by (auto simp: alike_def split: option.splits)

text \<open>The answers to the requests of one key, in a sequence of requests.\<close>

fun answers :: "string \<Rightarrow> (string \<times> time) list \<Rightarrow> RateLimiter \<Rightarrow> bool list" where
  "answers key [] l = []"
| "answers key ((k, s) # reqs) l =
     (case AllowKey k s l of (l', ok) \<Rightarrow> (if k = key then [ok] else []) @ answers key reqs l')"

lemma answers_alike:
  "alike key n l l' \<Longrightarrow> 0 < rl_window l \<Longrightarrow> sorted (map snd reqs) \<Longrightarrow> list_all (\<lambda>r. n \<le> snd r) reqs \<Longrightarrow>
   answers key reqs l = answers key (filter (\<lambda>r. fst r = key) reqs) l'"
proof (induction reqs arbitrary: n l l')
  case (Cons r reqs)
  obtain k s where r: "r = (k, s)" by (cases r)
  have n: "n \<le> s" and later: "list_all (\<lambda>r. s \<le> snd r) reqs" and "sorted (map snd reqs)"
    using Cons.prems r by (auto simp: list_all_iff)
  note IH = Cons.IH [OF _ _ this(3) later]
  show ?case
  proof (cases "k = key")
    case True
    note o = alike_own [OF Cons.prems(1) n Cons.prems(2)]
    have "answers key reqs (fst (AllowKey key s l)) =
        answers key (filter (\<lambda>r. fst r = key) reqs) (fst (AllowKey key s l'))"
      using o Cons.prems(2) by (intro IH) simp_all
    with True r o show ?thesis by (simp add: case_prod_unfold)
  next
    case False
    have "answers key reqs (fst (AllowKey k s l)) = answers key (filter (\<lambda>r. fst r = key) reqs) l'"
      using alike_other [OF Cons.prems(1) n False] Cons.prems(2) by (intro IH) simp_all
    with False r show ?thesis by (simp add: case_prod_unfold)
  qed
qed simp

text \<open>
  C32: From a new limiter, whatever requests come in order of time, no address is granted more
  than twice the configured number of requests in any span of one window.
\<close>

theorem rate_limit_bound:
  assumes "sorted (map snd reqs)" and "list_all (\<lambda>r. 0 \<le> snd r) reqs"
  shows "int (granted key t (rl_window (NewRateLimiter cfg)) reqs (NewRateLimiter cfg)) \<le>
    2 * rl_requests (NewRateLimiter cfg)"
proof -
  have "int (granted key t (rl_window (NewRateLimiter cfg)) reqs (NewRateLimiter cfg)) \<le>
      budget t 0 (NewRateLimiter cfg) key"
    using assms by (intro granted_budget limiter_ok_New) (simp_all add: list_all_iff)
  also have "\<dots> \<le> 2 * rl_requests (NewRateLimiter cfg)" by (rule budget_le [OF limiter_ok_New])
  finally show ?thesis .
qed

lemma rate_limit_bound_witness:
  "int (granted ''a'' 9 (rl_window (NewRateLimiter \<lparr>rc_Requests = 1, rc_Window = 10\<rparr>))
      [(''a'', 9), (''b'', 9), (''a'', 19)] (NewRateLimiter \<lparr>rc_Requests = 1, rc_Window = 10\<rparr>)) \<le> 2"
  using rate_limit_bound [of "[(''a'', 9), (''b'', 9), (''a'', 19)]" "''a''" 9 "\<lparr>rc_Requests = 1, rc_Window = 10\<rparr>"]
  by (simp add: NewRateLimiter_def)

text \<open>
  When requests come in order of time, an address is not affected by the requests of others: its
  answers are those of a limiter that sees its own requests only, although entries are dropped when
  many addresses are recorded.
\<close>

theorem rate_limit_independent:
  assumes "sorted (map snd reqs)" and "list_all (\<lambda>r. 0 \<le> snd r) reqs"
  shows "answers key reqs (NewRateLimiter cfg) =
    answers key (filter (\<lambda>r. fst r = key) reqs) (NewRateLimiter cfg)"
proof (rule answers_alike [OF _ _ assms])
  show "alike key 0 (NewRateLimiter cfg) (NewRateLimiter cfg)" by (simp add: alike_def)
  show "0 < rl_window (NewRateLimiter cfg)" using limiter_ok_New [of cfg] by (simp add: limiter_ok_def)
qed

lemma rate_limit_independent_witness:
  "answers ''a'' [(''a'', 9), (''b'', 9), (''a'', 12)] (NewRateLimiter \<lparr>rc_Requests = 1, rc_Window = 10\<rparr>) =
   [True, False]"
proof -
  have "answers ''a'' [(''a'', 9), (''a'', 12)] (NewRateLimiter \<lparr>rc_Requests = 1, rc_Window = 10\<rparr>) = [True, False]"
    by code_simp
  with rate_limit_independent [of "[(''a'', 9), (''b'', 9), (''a'', 12)]" "''a''" "\<lparr>rc_Requests = 1, rc_Window = 10\<rparr>"]
  show ?thesis by simp
qed

end
