(* ===== verification/StoreInv.thy ===== *)
theory StoreInv
  imports StoreAccess
begin

text \<open>
  What the identity tables of the store always satisfy: links and their reverse index agree,
  every link points at an existing profile and passport, a passport with profiles has exactly
  one primary, the player view holds exactly the linked profiles, the name indexes point where
  they should, and only offline passports have credentials.  The first part computes the tables
  after each of the locked helpers; the second shows that every operation keeps the invariant.
\<close>

subsection \<open>Nested tables\<close>

definition no_empty :: "('p, ('q, 'v) gomap) gomap \<Rightarrow> bool" where
  "no_empty t \<longleftrightarrow> (\<forall>p r. gget t p = Some r \<longrightarrow> glen r \<noteq> 0)"

lemma glen_ginner_0: "glen (ginner t p) = 0 \<longleftrightarrow> (\<forall>q. gget2 t p q = None)"
  by (simp add: glen_0_iff gget2_ginner)

lemma gget2_del_inner [simp]:
  "gget2 (del_inner t p q) p' q' = (if p' = p \<and> q' = q then None else gget2 t p' q')"
proof (cases "glen (gdel (ginner t p) q) = 0")
  case True
  then have "gget2 t p x = None" if "x \<noteq> q" for x
    using that by (auto simp: glen_0_iff gget2_ginner split: if_splits)
  with True show ?thesis by (auto simp: del_inner_def Let_def)
next
  case False
  then show ?thesis by (auto simp: del_inner_def Let_def gget2_ginner)
qed

lemma no_empty_del_inner: "no_empty t \<Longrightarrow> no_empty (del_inner t p q)"
  by (auto simp: no_empty_def del_inner_def Let_def)

lemma no_empty_gput: "no_empty t \<Longrightarrow> gget r q \<noteq> None \<Longrightarrow> no_empty (gput t p r)"
  by (auto simp: no_empty_def glen_0_iff)

lemma no_empty_gdel: "no_empty t \<Longrightarrow> no_empty (gdel t p)"
  by (simp add: no_empty_def)

lemma no_empty_member: "no_empty t \<Longrightarrow> gget t p \<noteq> None \<longleftrightarrow> (\<exists>q. gget2 t p q \<noteq> None)"
  by (auto simp: no_empty_def gget2_def glen_0_iff split: option.splits)

subsection \<open>The link that is selected\<close>

definition precedes :: "(ProfilePassportLink \<Rightarrow> string) \<Rightarrow> ProfilePassportLink \<Rightarrow> ProfilePassportLink \<Rightarrow> bool" where
  "precedes key a b \<longleftrightarrow> ln_LinkedAt a < ln_LinkedAt b \<or> (ln_LinkedAt a = ln_LinkedAt b \<and> key a \<le> key b)"

lemma precedes_refl [simp]: "precedes key a a"
  by (simp add: precedes_def)

lemma precedes_trans: "precedes key a b \<Longrightarrow> precedes key b c \<Longrightarrow> precedes key a c"
  by (auto simp: precedes_def)

lemma precedes_antisym: "precedes key a b \<Longrightarrow> precedes key b a \<Longrightarrow> key a = key b"
  by (auto simp: precedes_def)

lemma prefer_link_set: "ln_ProfileID s \<noteq> [] \<Longrightarrow>
    prefer_link key s l \<in> {s, l} \<and> precedes key (prefer_link key s l) s \<and> precedes key (prefer_link key s l) l"
  by (auto simp: prefer_link_def precedes_def not_less)

lemma foldl_prefer_link:
  "ln_ProfileID s \<noteq> [] \<Longrightarrow> \<forall>l\<in>set ls. ln_ProfileID l \<noteq> [] \<Longrightarrow>
     foldl (prefer_link key) s ls \<in> insert s (set ls) \<and>
     (\<forall>l\<in>insert s (set ls). precedes key (foldl (prefer_link key) s ls) l)"
proof (induction ls arbitrary: s)
  case (Cons l ls)
  let ?s = "prefer_link key s l"
  have p: "?s \<in> {s, l}" "precedes key ?s s" "precedes key ?s l"
    using prefer_link_set [OF Cons.prems(1)] by blast+
  with Cons.prems have "ln_ProfileID ?s \<noteq> []" by auto
  with Cons have IH: "foldl (prefer_link key) ?s ls \<in> insert ?s (set ls)"
    "\<And>x. x \<in> insert ?s (set ls) \<Longrightarrow> precedes key (foldl (prefer_link key) ?s ls) x" by auto
  with p show ?case by (auto intro: precedes_trans)
qed simp

lemma select_link_min:
  assumes "ls \<noteq> []" "\<forall>l\<in>set ls. ln_ProfileID l \<noteq> []"
  shows "select_link key ls \<in> set ls" "\<And>l. l \<in> set ls \<Longrightarrow> precedes key (select_link key ls) l"
proof -
  obtain l ls' where ls: "ls = l # ls'" using assms(1) by (cases ls) auto
  have "prefer_link key zero_Link l = l" by (simp add: prefer_link_def zero_Link_def)
  with assms ls show "select_link key ls \<in> set ls" "\<And>l. l \<in> set ls \<Longrightarrow> precedes key (select_link key ls) l"
    using foldl_prefer_link [where s = l and ls = ls' and key = key] by (auto simp: select_link_def)
qed

lemma select_link_Nil: "ln_ProfileID (select_link key []) = []"
  by (simp add: select_link_def zero_Link_def)

text \<open>The choice does not depend on the order in which the links are visited.\<close>

lemma select_link_cong:
  assumes "set ls = set ls'" "\<forall>l\<in>set ls. ln_ProfileID l \<noteq> []" "inj_on key (set ls)"
  shows "select_link key ls = select_link key ls'"
proof (cases "ls = []")
  case True
  with assms show ?thesis by simp
next
  case False
  with assms(1) have "ls' \<noteq> []" by auto
  with False assms have "key (select_link key ls) = key (select_link key ls')"
    using select_link_min [where ls = ls and key = key] select_link_min [where ls = ls' and key = key] by (metis precedes_antisym)
  with False \<open>ls' \<noteq> []\<close> assms show ?thesis
    using select_link_min(1) [where ls = ls and key = key] select_link_min(1) [where ls = ls' and key = key] by (metis inj_onD)
qed


subsection \<open>Frames\<close>

text \<open>\<open>m'\<close> differs from \<open>m\<close> in the link tables and the views derived from them only.\<close>

definition links_only :: "memory \<Rightarrow> memory \<Rightarrow> bool" where
  "links_only m m' \<longleftrightarrow> m' = m\<lparr>profileLinks := profileLinks m', profilesByPassport := profilesByPassport m',
     playersByID := playersByID m', offlineByNormalized := offlineByNormalized m'\<rparr>"

lemma links_onlyI:
  "m' = m\<lparr>profileLinks := a, profilesByPassport := b, playersByID := c, offlineByNormalized := d\<rparr> \<Longrightarrow> links_only m m'"
  by (simp add: links_only_def)

lemma links_onlyE:
  assumes "links_only m m'"
  obtains a b c d where
    "m' = m\<lparr>profileLinks := a, profilesByPassport := b, playersByID := c, offlineByNormalized := d\<rparr>"
  using assms unfolding links_only_def by blast

lemma links_only_refl [simp]: "links_only m m"
  by (simp add: links_only_def)

lemma links_only_trans: "links_only m m' \<Longrightarrow> links_only m' m'' \<Longrightarrow> links_only m m''"
  by (elim links_onlyE) (auto intro!: links_onlyI)

lemma links_only_fields:
  assumes "links_only m m'"
  shows "passportsByID m' = passportsByID m" "profilesByID m' = profilesByID m"
    "passportByUsername m' = passportByUsername m" "credentialsByPlayer m' = credentialsByPlayer m"
    "presencesByID m' = presencesByID m" "bansByID m' = bansByID m" "nodeActionsByID m' = nodeActionsByID m"
    "sessionsByID m' = sessionsByID m" "transferGrants m' = transferGrants m"
    "portalLinksByToken m' = portalLinksByToken m" "portalAuthCache m' = portalAuthCache m"
    "profileSkins m' = profileSkins m" "passportSkins m' = passportSkins m"
    "extensionData m' = extensionData m" "premiumTextures m' = premiumTextures m"
    "downstreamPrivileges m' = downstreamPrivileges m"
  using assms by (elim links_onlyE, simp)+

lemma passport_at_links_only [simp]: "links_only m m' \<Longrightarrow> passport_at m' q = passport_at m q"
  by (simp add: passport_at_def links_only_fields)

lemma put_link_fields [simp]:
  "profilesByPassport (put_link p q l m) = profilesByPassport m" "playersByID (put_link p q l m) = playersByID m"
  "offlineByNormalized (put_link p q l m) = offlineByNormalized m"
  "link_of (put_link p q l m) p' q' = (if p' = p \<and> q' = q then Some l else link_of m p' q')"
  by (simp_all add: put_link_def gget2_ginner)

lemma links_only_put_link [simp]: "links_only m (put_link p q l m)"
  by (simp add: put_link_def links_only_def)

lemma no_empty_put_link: "no_empty (profileLinks m) \<Longrightarrow> no_empty (profileLinks (put_link p q l m))"
  by (auto simp: put_link_def intro!: no_empty_gput [where q = q])

subsection \<open>The helpers on the tables\<close>

definition unprimary :: "ProfilePassportLink \<Rightarrow> ProfilePassportLink" where
  "unprimary l = l\<lparr>ln_IsPrimary := False\<rparr>"

lemma unprimary_simps [simp]:
  "ln_ProfileID (unprimary l) = ln_ProfileID l" "ln_PassportID (unprimary l) = ln_PassportID l"
  "ln_LinkedAt (unprimary l) = ln_LinkedAt l" "\<not> ln_IsPrimary (unprimary l)"
  by (simp_all add: unprimary_def)

lemma clear_primary_step_eq:
  "profilesByPassport (clear_primary_step q m p) = profilesByPassport m"
  "playersByID (clear_primary_step q m p) = playersByID m"
  "offlineByNormalized (clear_primary_step q m p) = offlineByNormalized m"
  "links_only m (clear_primary_step q m p)"
  "no_empty (profileLinks m) \<Longrightarrow> no_empty (profileLinks (clear_primary_step q m p))"
  "link_of (clear_primary_step q m p) p' q' =
     (if p' = p \<and> q' = q then map_option unprimary (link_of m p q) else link_of m p' q')"
  by (auto simp: clear_primary_step_def no_empty_put_link unprimary_def split: option.split)

lemma foldl_clear_primary:
  "profilesByPassport (foldl (clear_primary_step q) m ps) = profilesByPassport m"
  "playersByID (foldl (clear_primary_step q) m ps) = playersByID m"
  "offlineByNormalized (foldl (clear_primary_step q) m ps) = offlineByNormalized m"
  "no_empty (profileLinks m) \<Longrightarrow> no_empty (profileLinks (foldl (clear_primary_step q) m ps))"
  by (induction ps arbitrary: m) (auto simp: clear_primary_step_eq)

lemma foldl_clear_primary_only: "links_only m (foldl (clear_primary_step q) m ps)"
  by (induction ps arbitrary: m) (auto intro: links_only_trans [OF clear_primary_step_eq(4)])

lemma foldl_clear_primary_link:
  "link_of (foldl (clear_primary_step q) m ps) p' q' =
     (if p' \<in> set ps \<and> q' = q then map_option unprimary (link_of m p' q') else link_of m p' q')"
proof (induction ps arbitrary: m)
  case (Cons p ps)
  have "map_option unprimary (map_option unprimary x) = map_option unprimary x" for x
    by (cases x) (simp_all add: unprimary_def)
  with Cons show ?case by (auto simp: clear_primary_step_eq)
qed simp

lemma clearPrimary_eq:
  "profilesByPassport (clearPrimaryProfileLocked q m) = profilesByPassport m"
  "playersByID (clearPrimaryProfileLocked q m) = playersByID m"
  "offlineByNormalized (clearPrimaryProfileLocked q m) = offlineByNormalized m"
  "no_empty (profileLinks m) \<Longrightarrow> no_empty (profileLinks (clearPrimaryProfileLocked q m))"
  "links_only m (clearPrimaryProfileLocked q m)"
  by (simp_all add: clearPrimaryProfileLocked_def foldl_clear_primary foldl_clear_primary_only)

lemma clearPrimary_link:
  assumes "link_of m p' q \<noteq> None \<longrightarrow> gget2 (profilesByPassport m) q p' \<noteq> None"
  shows "link_of (clearPrimaryProfileLocked q m) p' q' =
     (if q' = q then map_option unprimary (link_of m p' q) else link_of m p' q')"
  unfolding clearPrimaryProfileLocked_def foldl_clear_primary_link
  using assms by (cases "link_of m p' q") (auto simp: gget2_ginner)

subsection \<open>The invariant\<close>

definition offline_passport :: "memory \<Rightarrow> string \<Rightarrow> string \<Rightarrow> bool" where
  "offline_passport m q n \<longleftrightarrow> (\<exists>pp. gget (passportsByID m) q = Some pp \<and> pp_Kind pp = PassportKindOffline \<and>
     pp_UsernameNormalized pp = n)"

definition link_keys :: "memory \<Rightarrow> bool" where
  "link_keys m \<longleftrightarrow> (\<forall>p q l. link_of m p q = Some l \<longrightarrow> ln_ProfileID l = p \<and> ln_PassportID l = q)"

definition link_sym :: "memory \<Rightarrow> bool" where
  "link_sym m \<longleftrightarrow> (\<forall>p q. link_of m p q \<noteq> None \<longleftrightarrow> gget2 (profilesByPassport m) q p \<noteq> None)"

definition link_targets :: "memory \<Rightarrow> bool" where
  "link_targets m \<longleftrightarrow> (\<forall>p q. link_of m p q \<noteq> None \<longrightarrow>
     gget (profilesByID m) p \<noteq> None \<and> gget (passportsByID m) q \<noteq> None)"

definition is_primary :: "memory \<Rightarrow> string \<Rightarrow> string \<Rightarrow> bool" where
  "is_primary m p q \<longleftrightarrow> (\<exists>l. link_of m p q = Some l \<and> ln_IsPrimary l)"

lemma is_primary_code [code]:
  "is_primary m p q = (case link_of m p q of None \<Rightarrow> False | Some l \<Rightarrow> ln_IsPrimary l)"
  by (auto simp: is_primary_def split: option.split)

definition one_primary :: "memory \<Rightarrow> bool" where
  "one_primary m \<longleftrightarrow> (\<forall>q p p'. is_primary m p q \<longrightarrow> is_primary m p' q \<longrightarrow> p = p')"

text \<open>Passports of \<open>X\<close> are about to be deleted and may have lost their primary.\<close>

definition has_primary :: "string set \<Rightarrow> memory \<Rightarrow> bool" where
  "has_primary X m \<longleftrightarrow> (\<forall>p q. q \<notin> X \<longrightarrow> link_of m p q \<noteq> None \<longrightarrow> (\<exists>p'. is_primary m p' q))"

definition ids_ok :: "memory \<Rightarrow> bool" where
  "ids_ok m \<longleftrightarrow> (\<forall>i p. gget (profilesByID m) i = Some p \<longrightarrow> pf_ID p = i \<and> i \<noteq> []) \<and>
     (\<forall>i q. gget (passportsByID m) i = Some q \<longrightarrow> pp_ID q = i \<and> i \<noteq> [])"

definition players_ok :: "memory \<Rightarrow> bool" where
  "players_ok m \<longleftrightarrow> (\<forall>p. gget (playersByID m) p \<noteq> None \<longleftrightarrow> (\<exists>q. link_of m p q \<noteq> None)) \<and>
     (\<forall>p pl. gget (playersByID m) p = Some pl \<longrightarrow> pl_ID pl = p)"

definition names_ok :: "unicode \<Rightarrow> memory \<Rightarrow> bool" where
  "names_ok uc m \<longleftrightarrow>
     (\<forall>q n. offline_passport m q n \<longrightarrow> q = UUID_String (OfflinePassportUUID uc n)) \<and>
     (\<forall>n q. gget (passportByUsername m) n = Some q \<longrightarrow> offline_passport m q n) \<and>
     (\<forall>q pp. gget (passportsByID m) q = Some pp \<longrightarrow> pp_Kind pp = PassportKindOffline \<or>
        pp_Kind pp = PassportKindPremium \<and> q = UUID_String (pp_UUID pp) \<and>
        length (pp_UUID pp) = 16 \<and> uuid_version (pp_UUID pp) \<noteq> 8)"

definition offline_ok :: "memory \<Rightarrow> bool" where
  "offline_ok m \<longleftrightarrow> (\<forall>n p. gget (offlineByNormalized m) n = Some p \<longleftrightarrow>
     (\<exists>q. offline_passport m q n \<and> is_primary m p q))"

definition credentials_ok :: "memory \<Rightarrow> bool" where
  "credentials_ok m \<longleftrightarrow> (\<forall>q. gget (credentialsByPlayer m) q \<noteq> None \<longrightarrow> (\<exists>n. offline_passport m q n))"

definition tables_ok :: "string set \<Rightarrow> memory \<Rightarrow> bool" where
  "tables_ok X m \<longleftrightarrow> link_keys m \<and> link_sym m \<and> no_empty (profileLinks m) \<and> no_empty (profilesByPassport m) \<and>
     link_targets m \<and> one_primary m \<and> has_primary X m \<and> ids_ok m \<and> players_ok m"

definition identity_inv :: "unicode \<Rightarrow> string set \<Rightarrow> memory \<Rightarrow> bool" where
  "identity_inv uc X m \<longleftrightarrow> tables_ok X m \<and> names_ok uc m \<and> offline_ok m \<and> credentials_ok m"

lemma tables_okD:
  assumes "tables_ok X m"
  shows "link_keys m" "link_sym m" "no_empty (profileLinks m)" "no_empty (profilesByPassport m)"
    "link_targets m" "one_primary m" "has_primary X m" "ids_ok m" "players_ok m"
  using assms by (simp_all add: tables_ok_def)

lemma identity_invD:
  assumes "identity_inv uc X m"
  shows "tables_ok X m" "names_ok uc m" "offline_ok m" "credentials_ok m"
  using assms by (simp_all add: identity_inv_def)

lemma is_primary_NewMemory [simp]: "\<not> is_primary NewMemory p q"
  by (simp add: is_primary_def NewMemory_def)

lemma identity_inv_NewMemory: "identity_inv uc X NewMemory"
  by (auto simp: identity_inv_def tables_ok_def link_keys_def link_sym_def no_empty_def link_targets_def
      one_primary_def has_primary_def ids_ok_def players_ok_def names_ok_def offline_ok_def credentials_ok_def
      offline_passport_def) (simp_all add: NewMemory_def)

text \<open>An offline passport is the only one with its normalized name.\<close>

lemma offline_passport_unique:
  "names_ok uc m \<Longrightarrow> offline_passport m q n \<Longrightarrow> offline_passport m q' n \<Longrightarrow> q = q'"
  unfolding names_ok_def by metis

lemma offline_passport_fun: "offline_passport m q n \<Longrightarrow> offline_passport m q n' \<Longrightarrow> n = n'"
  by (auto simp: offline_passport_def)

lemma offline_passport_cong: "passportsByID m' = passportsByID m \<Longrightarrow> offline_passport m' q n = offline_passport m q n"
  by (simp add: offline_passport_def)

subsection \<open>The player view\<close>

lemma referenceProfileLinkLocked_None:
  "referenceProfileLinkLocked m p = None \<longleftrightarrow> (\<forall>q. link_of m p q = None)"
proof -
  have "referenceProfileLinkLocked m p = None \<longleftrightarrow> glen (links_of m p) = 0"
    by (simp add: referenceProfileLinkLocked_def Let_def split: option.split)
  then show ?thesis unfolding glen_ginner_0 .
qed

lemma refresh_fields:
  "links_only m (fst (refreshProfilePlayerLocked p m))"
  "profileLinks (fst (refreshProfilePlayerLocked p m)) = profileLinks m"
  "profilesByPassport (fst (refreshProfilePlayerLocked p m)) = profilesByPassport m"
  "offlineByNormalized (fst (refreshProfilePlayerLocked p m)) = offlineByNormalized m"
  by (auto simp: refreshProfilePlayerLocked_def links_only_def split: option.split)

text \<open>The player view, refreshed for the profile \<open>p\<close>.\<close>

lemma refresh_players:
  assumes "gget (profilesByID m) p = Some pf" "pf_ID pf = p"
  shows "gget (playersByID (fst (refreshProfilePlayerLocked p m))) i =
     (if i = p then refreshed_player m p else gget (playersByID m) i)"
  using assms
  by (auto simp: refreshProfilePlayerLocked_def refreshed_player_def profile_at_def split: option.split)

lemma refreshed_player_Some:
  "refreshed_player m p = Some pl \<Longrightarrow> gget (profilesByID m) p = Some pf \<Longrightarrow> pl_ID pl = pf_ID pf"
  by (auto simp: refreshed_player_def profile_at_def split: option.splits)

lemma refreshed_player_None: "refreshed_player m p = None \<longleftrightarrow> (\<forall>q. link_of m p q = None)"
  unfolding referenceProfileLinkLocked_None [symmetric]
  by (cases "referenceProfileLinkLocked m p") (simp_all add: refreshed_player_def)

lemma refreshed_player_cong:
  assumes "profileLinks m' = profileLinks m" "profilesByID m' = profilesByID m" "passportsByID m' = passportsByID m"
  shows "refreshed_player m' i = refreshed_player m i"
  unfolding refreshed_player_def referenceProfileLinkLocked_def passport_at_def profile_at_def assms ..

subsection \<open>Linking\<close>

text \<open>
  The tables after \<open>linkProfileLocked\<close>: the new link replaces what was there, and when it is
  primary every other link of the passport ceases to be.
\<close>

lemma primaryProfile_ok:
  assumes "tables_ok X m"
  shows "is_ok (primaryProfileForPassportLocked m q) \<longleftrightarrow> (\<exists>p. link_of m p q \<noteq> None)"
proof -
  have "is_ok (primaryProfileForPassportLocked m q) \<longleftrightarrow>
      (\<exists>p. gget2 (profilesByPassport m) q p \<noteq> None \<and> gget (profilesByID m) p \<noteq> None)"
    by (auto simp: primaryProfileForPassportLocked_def Let_def gget2_ginner find_None_iff split: option.splits
        dest!: find_Some_in)
  also have "\<dots> \<longleftrightarrow> (\<exists>p. link_of m p q \<noteq> None)"
    using tables_okD(2,5) [OF assms] unfolding link_sym_def link_targets_def by metis
  finally show ?thesis .
qed

text \<open>Whether the new link is primary.\<close>

definition becomes_primary :: "memory \<Rightarrow> string \<Rightarrow> string \<Rightarrow> bool \<Rightarrow> bool" where
  "becomes_primary m p q primary \<longleftrightarrow> primary \<or> is_primary m p q \<or> (\<forall>p'. link_of m p' q = None)"

definition new_link :: "time \<Rightarrow> memory \<Rightarrow> string \<Rightarrow> string \<Rightarrow> bool \<Rightarrow> ProfilePassportLink" where
  "new_link now m p q primary =
     \<lparr>ln_ProfileID = p, ln_PassportID = q, ln_IsPrimary = becomes_primary m p q primary,
      ln_LinkedAt = (case link_of m p q of None \<Rightarrow> now | Some l \<Rightarrow> ln_LinkedAt l)\<rparr>"

lemma linkProfileLocked_eq:
  assumes ok: "tables_ok X m" and pf: "gget (profilesByID m) (pf_ID profile) = Some pf0"
    and r: "linkProfileLocked now passport profile primary m = (m', pp)"
  shows "lk_Link pp = new_link now m (pf_ID profile) (pp_ID passport) primary"
    and "lk_Passport pp = passport" and "lk_Profile pp = profile"
    and "links_only m m'"
    and "link_of m' p' q' =
      (if p' = pf_ID profile \<and> q' = pp_ID passport then Some (new_link now m p' q' primary)
       else if q' = pp_ID passport \<and> becomes_primary m (pf_ID profile) q' primary
       then map_option unprimary (link_of m p' q') else link_of m p' q')"
    and "gget2 (profilesByPassport m') q' p' =
      (if p' = pf_ID profile \<and> q' = pp_ID passport then Some () else gget2 (profilesByPassport m) q' p')"
    and "no_empty (profileLinks m')" and "no_empty (profilesByPassport m')"
    and "gget (playersByID m') p' =
      (if p' = pf_ID profile then refreshed_player m' p' else gget (playersByID m) p')"
    and "gget (offlineByNormalized m') n =
      (if pp_Kind passport = PassportKindOffline \<and> becomes_primary m (pf_ID profile) (pp_ID passport) primary
          \<and> n = pp_UsernameNormalized passport
       then Some (pf_ID profile) else gget (offlineByNormalized m) n)"
proof -
  let ?p = "pf_ID profile" and ?q = "pp_ID passport"
  let ?b = "becomes_primary m ?p ?q primary"
  let ?l = "new_link now m ?p ?q primary"
  define m1 where "m1 = (if ?b then clearPrimaryProfileLocked ?q m else m)"
  define m2 where "m2 = put_link ?p ?q ?l m1"
  define m3 where "m3 = m2\<lparr>profilesByPassport := gput (profilesByPassport m2) ?q (gput (profiles_of m2 ?q) ?p ())\<rparr>"
  define m4 where "m4 = fst (refreshProfilePlayerLocked ?p m3)"
  define m5 where "m5 = (if pp_Kind passport = PassportKindOffline \<and> ?b
      then m4\<lparr>offlineByNormalized := gput (offlineByNormalized m4) (pp_UsernameNormalized passport) ?p\<rparr> else m4)"
  have b: "(primary \<or> (case link_of m ?p ?q of None \<Rightarrow> False | Some l \<Rightarrow> ln_IsPrimary l)
      \<or> \<not> is_ok (primaryProfileForPassportLocked m ?q)) = ?b"
    unfolding primaryProfile_ok [OF ok] becomes_primary_def
    by (auto simp: is_primary_def split: option.splits)
  have r': "linkProfileLocked now passport profile primary m =
      (m5, \<lparr>lk_Passport = passport, lk_Profile = profile, lk_Link = ?l\<rparr>)"
    unfolding linkProfileLocked_def Let_def b
    by (simp add: m1_def m2_def m3_def m4_def m5_def new_link_def)
  with r have m': "m' = m5" and pp: "pp = \<lparr>lk_Passport = passport, lk_Profile = profile, lk_Link = ?l\<rparr>"
    by simp_all
  show "lk_Link pp = ?l" "lk_Passport pp = passport" "lk_Profile pp = profile" by (simp_all add: pp)
  have o1: "links_only m m1" by (simp add: m1_def clearPrimary_eq)
  have o3: "links_only m m3"
    by (rule links_only_trans [OF o1]) (simp add: m3_def m2_def links_only_def put_link_def)
  have o4: "links_only m m4"
    unfolding m4_def by (rule links_only_trans [OF o3 refresh_fields(1)])
  have "links_only m4 m5" by (simp add: m5_def links_only_def)
  with o4 show "links_only m m'" unfolding m' by (rule links_only_trans)
  have l5: "profileLinks m5 = profileLinks m3" "profilesByPassport m5 = profilesByPassport m3"
    by (simp_all add: m5_def m4_def refresh_fields)
  have l1: "link_of m1 p' q' = (if q' = ?q \<and> ?b then map_option unprimary (link_of m p' q') else link_of m p' q')" for p' q'
    using tables_okD(2) [OF ok] by (simp add: m1_def clearPrimary_link link_sym_def)
  have l3: "link_of m3 p' q' = (if p' = ?p \<and> q' = ?q then Some ?l else link_of m1 p' q')" for p' q'
    by (simp add: m3_def m2_def)
  show "link_of m' p' q' =
      (if p' = ?p \<and> q' = ?q then Some (new_link now m p' q' primary)
       else if q' = ?q \<and> becomes_primary m ?p q' primary
       then map_option unprimary (link_of m p' q') else link_of m p' q')"
    unfolding m' l5 l3 l1 by auto
  have pb1: "profilesByPassport m2 = profilesByPassport m"
    by (simp add: m2_def m1_def clearPrimary_eq)
  show "gget2 (profilesByPassport m') q' p' =
      (if p' = ?p \<and> q' = ?q then Some () else gget2 (profilesByPassport m) q' p')"
    unfolding m' l5 by (simp add: m3_def pb1 gget2_ginner)
  show "no_empty (profileLinks m')"
    unfolding m' l5 using tables_okD(3) [OF ok]
    by (simp add: m3_def m2_def m1_def no_empty_put_link clearPrimary_eq)
  show "no_empty (profilesByPassport m')"
    unfolding m' l5 using tables_okD(4) [OF ok]
    by (auto simp: m3_def pb1 intro!: no_empty_gput [where q = ?p])
  have ids: "pf_ID pf0 = ?p" using tables_okD(8) [OF ok] pf by (simp add: ids_ok_def)
  have pf3: "gget (profilesByID m3) ?p = Some pf0"
    using o3 pf by (simp add: links_only_fields)
  have rp: "refreshed_player m5 i = refreshed_player m3 i" for i
    by (rule refreshed_player_cong)
      (simp_all add: m5_def m4_def refresh_fields links_only_fields [OF refresh_fields(1)])
  have pl3: "playersByID m3 = playersByID m" by (simp add: m3_def m2_def m1_def clearPrimary_eq)
  show "gget (playersByID m') p' = (if p' = ?p then refreshed_player m' p' else gget (playersByID m) p')"
    unfolding m' rp by (simp add: m5_def m4_def refresh_players [OF pf3 ids] pl3)
  have of3: "offlineByNormalized m3 = offlineByNormalized m" by (simp add: m3_def m2_def m1_def clearPrimary_eq)
  show "gget (offlineByNormalized m') n =
      (if pp_Kind passport = PassportKindOffline \<and> ?b \<and> n = pp_UsernameNormalized passport
       then Some ?p else gget (offlineByNormalized m) n)"
    unfolding m' by (auto simp: m5_def m4_def refresh_fields of3)
qed

lemma identity_inv_link:
  assumes inv: "identity_inv uc X m"
    and q: "gget (passportsByID m) (pp_ID passport) = Some passport"
    and p: "gget (profilesByID m) (pf_ID profile) = Some profile"
    and r: "linkProfileLocked now passport profile primary m = (m', pp)"
  shows "identity_inv uc X m'"
proof -
  note ok = identity_invD(1) [OF inv]
  note e = linkProfileLocked_eq [OF ok p r]
  let ?p = "pf_ID profile" and ?q = "pp_ID passport"
  let ?b = "becomes_primary m ?p ?q primary"
  note f = links_only_fields [OF e(4)]
  have prim: "is_primary m' p' q' \<longleftrightarrow> (if q' = ?q \<and> ?b then p' = ?p else is_primary m p' q')" for p' q'
    unfolding is_primary_def e(5)
    by (auto simp: new_link_def becomes_primary_def is_primary_def)
  have linked: "link_of m' p' q' \<noteq> None \<longleftrightarrow> (p' = ?p \<and> q' = ?q) \<or> link_of m p' q' \<noteq> None" for p' q'
    unfolding e(5) by auto
  have "link_keys m'"
    using tables_okD(1) [OF ok] unfolding link_keys_def e(5)
    by (auto simp: new_link_def split: if_splits)
  moreover have "link_sym m'"
    using tables_okD(2) [OF ok] unfolding link_sym_def e(6) linked by auto
  moreover have "link_targets m'"
    using tables_okD(5) [OF ok] p q unfolding link_targets_def linked f by auto
  moreover have "one_primary m'"
    using tables_okD(6) [OF ok] unfolding one_primary_def prim by metis
  moreover have "has_primary X m'"
    unfolding has_primary_def
  proof (intro allI impI)
    fix p' q' assume "q' \<notin> X" "link_of m' p' q' \<noteq> None"
    then consider "q' = ?q" ?b | "link_of m p' q' \<noteq> None" "\<not> (q' = ?q \<and> ?b)"
      | "q' = ?q" "\<not> ?b"
      unfolding linked by blast
    then show "\<exists>p'. is_primary m' p' q'"
    proof cases
      case 1 then show ?thesis by (auto simp: prim)
    next
      case 2 then show ?thesis
        using tables_okD(7) [OF ok] \<open>q' \<notin> X\<close> unfolding has_primary_def prim by auto
    next
      case 3
      then obtain x where "link_of m x q' \<noteq> None" by (auto simp: becomes_primary_def)
      with 3 show ?thesis
        using tables_okD(7) [OF ok] \<open>q' \<notin> X\<close> unfolding has_primary_def prim by auto
    qed
  qed
  moreover have "ids_ok m'"
    using tables_okD(8) [OF ok] unfolding ids_ok_def f .
  moreover have "players_ok m'"
  proof -
    obtain pl where pl: "refreshed_player m' ?p = Some pl"
      using linked [of ?p ?q] refreshed_player_None [of m' ?p] by (cases "refreshed_player m' ?p") auto
    have "gget (profilesByID m') ?p = Some profile" using p f by simp
    from refreshed_player_Some [OF pl this] have id: "pl_ID pl = ?p" .
    have "gget (playersByID m') i \<noteq> None \<longleftrightarrow> (\<exists>q'. link_of m' i q' \<noteq> None)" for i
    proof (cases "i = ?p")
      case True
      with pl linked [of ?p ?q] show ?thesis by (auto simp: e(9))
    next
      case False
      with tables_okD(9) [OF ok] show ?thesis by (simp add: e(9) linked players_ok_def del: not_None_eq)
    qed
    moreover have "pl_ID pl' = i" if "gget (playersByID m') i = Some pl'" for i pl'
      using that pl id tables_okD(9) [OF ok] by (auto simp: e(9) players_ok_def split: if_splits)
    ultimately show ?thesis by (simp add: players_ok_def)
  qed
  ultimately have "tables_ok X m'" using e(7,8) by (simp add: tables_ok_def)
  moreover have "names_ok uc m'"
    using identity_invD(2) [OF inv] unfolding names_ok_def f offline_passport_cong [OF f(1)] .
  moreover have "credentials_ok m'"
    using identity_invD(4) [OF inv] unfolding credentials_ok_def f offline_passport_cong [OF f(1)] .
  moreover have "offline_ok m'"
    unfolding offline_ok_def offline_passport_cong [OF f(1)] prim e(10)
  proof (intro allI)
    fix n x
    have off: "gget (offlineByNormalized m) n = Some x \<longleftrightarrow> (\<exists>q. offline_passport m q n \<and> is_primary m x q)"
      using identity_invD(3) [OF inv] by (simp add: offline_ok_def)
    have this_off: "offline_passport m ?q n' \<longleftrightarrow> pp_Kind passport = PassportKindOffline \<and> pp_UsernameNormalized passport = n'" for n'
      using q by (simp add: offline_passport_def)
    note uniq = offline_passport_unique [OF identity_invD(2) [OF inv]]
    show "(if pp_Kind passport = PassportKindOffline \<and> ?b \<and> n = pp_UsernameNormalized passport then Some ?p
          else gget (offlineByNormalized m) n) = Some x \<longleftrightarrow>
        (\<exists>q. offline_passport m q n \<and> (if q = ?q \<and> ?b then x = ?p else is_primary m x q))"
    proof (cases "offline_passport m ?q n \<and> ?b")
      case True
      have "(\<exists>q. offline_passport m q n \<and> (if q = ?q \<and> ?b then x = ?p else is_primary m x q)) \<longleftrightarrow> x = ?p"
      proof
        assume "\<exists>q. offline_passport m q n \<and> (if q = ?q \<and> ?b then x = ?p else is_primary m x q)"
        then obtain q where q: "offline_passport m q n" "if q = ?q \<and> ?b then x = ?p else is_primary m x q" by blast
        from uniq [OF q(1)] True have "q = ?q" by blast
        with q(2) True show "x = ?p" by simp
      qed (use True in auto)
      moreover from True this_off have "pp_Kind passport = PassportKindOffline \<and> ?b \<and> n = pp_UsernameNormalized passport" by simp
      ultimately show ?thesis by auto
    next
      case False
      then have "\<not> (pp_Kind passport = PassportKindOffline \<and> ?b \<and> n = pp_UsernameNormalized passport)"
        unfolding this_off by blast
      moreover have "(\<exists>q. offline_passport m q n \<and> (if q = ?q \<and> ?b then x = ?p else is_primary m x q)) \<longleftrightarrow>
          (\<exists>q. offline_passport m q n \<and> is_primary m x q)"
        by (intro arg_cong [where f = Ex] ext) (use False in auto)
      ultimately show ?thesis by (simp only: if_False off)
    qed
  qed
  ultimately show ?thesis by (simp add: identity_inv_def)
qed

subsection \<open>Unlinking\<close>

lemma set_map_filter: "y \<in> set (List.map_filter f xs) \<longleftrightarrow> (\<exists>x\<in>set xs. f x = Some y)"
  by (induction xs) (auto simp: List.map_filter_simps split: option.splits)

definition set_primary :: "ProfilePassportLink \<Rightarrow> ProfilePassportLink" where
  "set_primary l = l\<lparr>ln_IsPrimary := True\<rparr>"

lemma set_primary_simps [simp]:
  "ln_ProfileID (set_primary l) = ln_ProfileID l" "ln_PassportID (set_primary l) = ln_PassportID l"
  "ln_LinkedAt (set_primary l) = ln_LinkedAt l" "ln_IsPrimary (set_primary l)"
  by (simp_all add: set_primary_def)

text \<open>The profile that \<open>promotePrimaryProfileLocked\<close> makes the primary of a passport.\<close>

definition earliest :: "memory \<Rightarrow> string \<Rightarrow> string \<Rightarrow> bool" where
  "earliest m q s \<longleftrightarrow> (\<exists>l. link_of m s q = Some l \<and>
     (\<forall>p' l'. link_of m p' q = Some l' \<longrightarrow> precedes ln_ProfileID l l'))"

definition index_offline :: "string \<Rightarrow> string \<Rightarrow> memory \<Rightarrow> memory" where
  "index_offline q p m =
     (case gget (passportsByID m) q of None \<Rightarrow> m
      | Some pp \<Rightarrow> if pp_Kind pp = PassportKindOffline
          then m\<lparr>offlineByNormalized := gput (offlineByNormalized m) (pp_UsernameNormalized pp) p\<rparr> else m)"

lemma index_offline_fields [simp]:
  "profileLinks (index_offline q p m) = profileLinks m"
  "profilesByPassport (index_offline q p m) = profilesByPassport m"
  "playersByID (index_offline q p m) = playersByID m"
  "links_only m (index_offline q p m)"
  "gget (offlineByNormalized (index_offline q p m)) n =
     (if offline_passport m q n then Some p else gget (offlineByNormalized m) n)"
  by (auto simp: index_offline_def links_only_def offline_passport_def split: option.split)

lemma promote_none:
  assumes "link_sym m" "\<forall>p. link_of m p q = None"
  shows "promotePrimaryProfileLocked q m = m"
proof -
  have "List.map_filter (\<lambda>p. link_of m p q) (gkeys (profiles_of m q)) = []"
    using assms(2) by (simp add: List.map_filter_def)
  then show ?thesis by (simp add: promotePrimaryProfileLocked_def Let_def select_link_Nil)
qed

lemma promote_some:
  assumes keys: "link_keys m" and sym: "link_sym m" and tg: "link_targets m" and ids: "ids_ok m"
    and ex: "link_of m p0 q \<noteq> None"
  obtains s l where "earliest m q s" "link_of m s q = Some l"
    "promotePrimaryProfileLocked q m = index_offline q s (put_link s q (set_primary l) m)"
proof -
  let ?ls = "List.map_filter (\<lambda>p. link_of m p q) (gkeys (profiles_of m q))"
  have set_ls: "l \<in> set ?ls \<longleftrightarrow> (\<exists>p. link_of m p q = Some l)" for l
  proof -
    have "gget (profiles_of m q) p \<noteq> None \<longleftrightarrow> link_of m p q \<noteq> None" for p
      using sym by (simp add: link_sym_def gget2_ginner)
    then show ?thesis unfolding set_map_filter by auto
  qed
  have ne: "ln_ProfileID l \<noteq> []" if "l \<in> set ?ls" for l
  proof -
    from that obtain p where p: "link_of m p q = Some l" unfolding set_ls ..
    with tg obtain pf where "gget (profilesByID m) p = Some pf" by (auto simp: link_targets_def)
    with ids have "p \<noteq> []" by (simp add: ids_ok_def)
    with keys p show ?thesis by (simp add: link_keys_def)
  qed
  have "?ls \<noteq> []" using ex set_ls by fastforce
  define l where "l = select_link ln_ProfileID ?ls"
  have l: "l \<in> set ?ls" "\<And>l'. l' \<in> set ?ls \<Longrightarrow> precedes ln_ProfileID l l'"
    unfolding l_def using select_link_min [OF \<open>?ls \<noteq> []\<close>] ne by blast+
  from l(1) obtain s where s: "link_of m s q = Some l" unfolding set_ls ..
  with keys have ls: "ln_ProfileID l = s" by (simp add: link_keys_def)
  have "earliest m q s" unfolding earliest_def using s l(2) set_ls by blast
  moreover have "promotePrimaryProfileLocked q m = index_offline q s (put_link s q (set_primary l) m)"
    using ne [OF l(1)] unfolding promotePrimaryProfileLocked_def Let_def index_offline_def l_def [symmetric] ls set_primary_def
    by simp
  ultimately show thesis using s that by blast
qed

text \<open>
  The tables after \<open>unlinkProfileLocked\<close>; \<open>sel\<close> is the profile promoted to primary, if any.
\<close>

lemma unlinkProfileLocked_eq:
  assumes ok: "tables_ok X m" and l: "link_of m p q = Some l"
    and r: "unlinkProfileLocked p q promote m = (m', res)"
  obtains sel where "res = Inr ()" "links_only m m'"
    "sel = None \<longleftrightarrow> \<not> (promote \<and> ln_IsPrimary l \<and> (\<exists>p'. p' \<noteq> p \<and> link_of m p' q \<noteq> None))"
    "\<And>s. sel = Some s \<Longrightarrow> s \<noteq> p \<and> (\<exists>ls. link_of m s q = Some ls \<and>
        (\<forall>p' l'. p' \<noteq> p \<longrightarrow> link_of m p' q = Some l' \<longrightarrow> precedes ln_ProfileID ls l'))"
    "\<And>p' q'. link_of m' p' q' = (if p' = p \<and> q' = q then None
        else if q' = q \<and> sel = Some p' then map_option set_primary (link_of m p' q') else link_of m p' q')"
    "\<And>p' q'. gget2 (profilesByPassport m') q' p' =
        (if p' = p \<and> q' = q then None else gget2 (profilesByPassport m) q' p')"
    "no_empty (profileLinks m')" "no_empty (profilesByPassport m')"
    "\<And>i. i \<noteq> p \<Longrightarrow> gget (playersByID m') i = gget (playersByID m) i"
    "gget (playersByID m') p \<noteq> None \<longleftrightarrow> (\<exists>q'. q' \<noteq> q \<and> link_of m p q' \<noteq> None)"
    "\<And>pl. gget (playersByID m') p = Some pl \<Longrightarrow> pl_ID pl = p"
    "\<And>n. gget (offlineByNormalized m') n =
        (if \<not> offline_passport m q n then gget (offlineByNormalized m) n
         else case sel of Some s \<Rightarrow> Some s
           | None \<Rightarrow> if gget (offlineByNormalized m) n = Some p then None else gget (offlineByNormalized m) n)"
proof -
  define m1 where "m1 = m\<lparr>profileLinks := del_inner (profileLinks m) p q\<rparr>"
  define m2 where "m2 = (if glen (links_of m1 p) = 0 then m1\<lparr>playersByID := gdel (playersByID m1) p\<rparr>
      else fst (refreshProfilePlayerLocked p m1))"
  define m3 where "m3 = m2\<lparr>profilesByPassport := del_inner (profilesByPassport m2) q p\<rparr>"
  define m4 where "m4 = (case gget (passportsByID m3) q of
       Some pp \<Rightarrow> if pp_Kind pp = PassportKindOffline \<and> gget (offlineByNormalized m3) (pp_UsernameNormalized pp) = Some p
         then m3\<lparr>offlineByNormalized := gdel (offlineByNormalized m3) (pp_UsernameNormalized pp)\<rparr> else m3
     | None \<Rightarrow> m3)"
  define m5 where "m5 = (if promote \<and> ln_IsPrimary l then promotePrimaryProfileLocked q m4 else m4)"
  have o1: "links_only m m1" by (simp add: m1_def links_only_def)
  have o2: "links_only m m2"
    by (rule links_only_trans [OF o1]) (simp add: m2_def refresh_fields, simp add: links_only_def)
  have o3: "links_only m m3"
    by (rule links_only_trans [OF o2]) (simp add: m3_def links_only_def)
  have o4: "links_only m m4"
    by (rule links_only_trans [OF o3]) (simp add: m4_def links_only_def split: option.split)
  note f3 = links_only_fields [OF o3] and f4 = links_only_fields [OF o4]
  have t2: "profileLinks m2 = profileLinks m1" "profilesByPassport m2 = profilesByPassport m"
    "offlineByNormalized m2 = offlineByNormalized m"
    by (simp_all add: m2_def refresh_fields) (simp_all add: m1_def)
  have t4: "profileLinks m4 = profileLinks m1" "profilesByPassport m4 = del_inner (profilesByPassport m) q p"
    "playersByID m4 = playersByID m2"
    by (auto simp: m4_def m3_def t2 split: option.split)
  have lk1: "link_of m1 p' q' = (if p' = p \<and> q' = q then None else link_of m p' q')" for p' q'
    by (simp add: m1_def)
  have "gget (profilesByPassport m2) q \<noteq> None"
  proof -
    have "gget2 (profilesByPassport m) q p \<noteq> None"
      using tables_okD(2) [OF ok] l unfolding link_sym_def by (metis option.distinct(1))
    then show ?thesis by (auto simp: t2 gget2_def split: option.splits)
  qed
  then have c: "(if gget (profilesByPassport m2) q = None then m2
      else m2\<lparr>profilesByPassport := del_inner (profilesByPassport m2) q p\<rparr>) = m3"
    by (auto simp: m3_def)
  have run: "unlinkProfileLocked p q promote m = (m5, Inr ())"
    unfolding unlinkProfileLocked_def l option.case Let_def m1_def [symmetric] m2_def [symmetric] c
      m4_def [symmetric] m5_def [symmetric] ..
  then have m': "m' = m5" and res: "res = Inr ()" using r by simp_all
  have lk4: "link_of m4 p' q' = (if p' = p \<and> q' = q then None else link_of m p' q')" for p' q'
    unfolding t4 lk1 ..
  have pb4: "gget2 (profilesByPassport m4) q' p' = (if p' = p \<and> q' = q then None else gget2 (profilesByPassport m) q' p')" for p' q'
    unfolding t4 by auto
  have keys4: "link_keys m4" using tables_okD(1) [OF ok] by (simp add: link_keys_def lk4)
  have sym4: "link_sym m4" using tables_okD(2) [OF ok] by (simp add: link_sym_def lk4 pb4)
  have tg4: "link_targets m4" using tables_okD(5) [OF ok] by (simp add: link_targets_def lk4 f4)
  have ids4: "ids_ok m4" using tables_okD(8) [OF ok] by (simp add: ids_ok_def f4)
  have ne4: "no_empty (profileLinks m4)" "no_empty (profilesByPassport m4)"
    unfolding t4 using tables_okD(3,4) [OF ok] by (simp_all add: m1_def no_empty_del_inner)
  have off4: "gget (offlineByNormalized m4) n = (if offline_passport m q n \<and> gget (offlineByNormalized m) n = Some p
      then None else gget (offlineByNormalized m) n)" for n
    by (auto simp: m4_def m3_def t2 links_only_fields [OF o2] offline_passport_def split: option.split)
  obtain pf where pf: "gget (profilesByID m) p = Some pf"
    using tables_okD(5) [OF ok] l by (fastforce simp: link_targets_def)
  then have pf1: "gget (profilesByID m1) p = Some pf" "pf_ID pf = p"
    using tables_okD(8) [OF ok] by (simp_all add: m1_def ids_ok_def)
  have pl2: "gget (playersByID m2) i = (if i = p then refreshed_player m1 p else gget (playersByID m) i)" for i
  proof (cases "glen (links_of m1 p) = 0")
    case True
    then have "refreshed_player m1 p = None" unfolding refreshed_player_None glen_ginner_0 .
    with True show ?thesis by (auto simp: m2_def m1_def)
  next
    case False
    then show ?thesis by (simp add: m2_def refresh_players [OF pf1]) (simp add: m1_def)
  qed
  have oth4: "gget (playersByID m4) i = gget (playersByID m) i" if "i \<noteq> p" for i
    using that by (simp add: t4 pl2)
  have own4: "gget (playersByID m4) p \<noteq> None \<longleftrightarrow> (\<exists>q'. q' \<noteq> q \<and> link_of m p q' \<noteq> None)"
    by (simp add: t4 pl2 refreshed_player_None lk1 del: not_None_eq) auto
  have id4: "pl_ID pl = p" if "gget (playersByID m4) p = Some pl" for pl
    using that refreshed_player_Some [of m1 p pl pf] pf1 by (simp add: t4 pl2)
  show thesis
  proof (cases "promote \<and> ln_IsPrimary l \<and> (\<exists>p'. p' \<noteq> p \<and> link_of m p' q \<noteq> None)")
    case False
    have "m5 = m4"
    proof (cases "promote \<and> ln_IsPrimary l")
      case True
      with False have "\<forall>p'. link_of m4 p' q = None" by (auto simp: lk4)
      with promote_none [OF sym4] show ?thesis by (simp add: m5_def)
    qed (auto simp: m5_def)
    with m' have "m' = m4" by simp
    show thesis
      by (rule that [of None])
        (use False res o4 ne4 oth4 own4 id4 in \<open>auto simp: \<open>m' = m4\<close> lk4 pb4 off4\<close>)
  next
    case True
    then obtain p0 where "p0 \<noteq> p" "link_of m p0 q \<noteq> None" by blast
    then have "link_of m4 p0 q \<noteq> None" by (simp add: lk4)
    from promote_some [OF keys4 sym4 tg4 ids4 this] obtain s ls where s: "earliest m4 q s" "link_of m4 s q = Some ls"
      "promotePrimaryProfileLocked q m4 = index_offline q s (put_link s q (set_primary ls) m4)" by blast
    with True have m5: "m5 = index_offline q s (put_link s q (set_primary ls) m4)" by (simp add: m5_def)
    have sp: "s \<noteq> p" "link_of m s q = Some ls" using s(2) by (auto simp: lk4 split: if_splits)
    have offp: "offline_passport (put_link s q (set_primary ls) m4) q n = offline_passport m q n" for n
      by (simp add: offline_passport_def put_link_def f4)
    have "links_only m m5"
      unfolding m5 by (rule links_only_trans [OF o4 links_only_trans [OF links_only_put_link index_offline_fields(4)]])
    moreover have "precedes ln_ProfileID ls l'" if "p' \<noteq> p" "link_of m p' q = Some l'" for p' l'
    proof -
      from s(1) obtain k where "link_of m4 s q = Some k"
        "\<And>p' l'. link_of m4 p' q = Some l' \<Longrightarrow> precedes ln_ProfileID k l'"
        unfolding earliest_def by blast
      moreover have "link_of m4 p' q = Some l'" using that by (simp add: lk4)
      ultimately show ?thesis using s(2) by simp
    qed
    moreover have "no_empty (profileLinks m5)" unfolding m5 by (simp add: no_empty_put_link ne4)
    moreover have "no_empty (profilesByPassport m5)" unfolding m5 by (simp add: ne4)
    ultimately show thesis
      by (intro that [of "Some s"])
        (use True res sp oth4 own4 id4 in \<open>auto simp: m' m5 lk4 pb4 off4 offp\<close>)
  qed
qed

lemma unlinkProfileLocked_missing:
  "link_of m p q = None \<Longrightarrow> unlinkProfileLocked p q promote m = (m, Inl (NotFound ''profile link not found''))"
  by (simp add: unlinkProfileLocked_def)

lemma has_primary_mono: "has_primary X m \<Longrightarrow> X \<subseteq> Y \<Longrightarrow> has_primary Y m"
  unfolding has_primary_def by blast

lemma identity_inv_mono: "identity_inv uc X m \<Longrightarrow> X \<subseteq> Y \<Longrightarrow> identity_inv uc Y m"
  using has_primary_mono by (auto simp: identity_inv_def tables_ok_def)

lemma identity_inv_unlink:
  assumes inv: "identity_inv uc X m" and r: "unlinkProfileLocked p q promote m = (m', res)"
    and X: "X \<subseteq> Y" "\<not> promote \<Longrightarrow> q \<in> Y"
  shows "identity_inv uc Y m'"
proof (cases "link_of m p q")
  case None
  with r inv X(1) show ?thesis by (auto simp: unlinkProfileLocked_missing intro: identity_inv_mono)
next
  case (Some l)
  note ok = identity_invD(1) [OF inv]
  obtain sel where
    only: "links_only m m'" and
    sel_None: "sel = None \<longleftrightarrow> \<not> (promote \<and> ln_IsPrimary l \<and> (\<exists>p'. p' \<noteq> p \<and> link_of m p' q \<noteq> None))" and
    sel_Some: "\<And>s. sel = Some s \<Longrightarrow> s \<noteq> p \<and> (\<exists>ls. link_of m s q = Some ls \<and>
        (\<forall>p' l'. p' \<noteq> p \<longrightarrow> link_of m p' q = Some l' \<longrightarrow> precedes ln_ProfileID ls l'))" and
    lk: "\<And>p' q'. link_of m' p' q' = (if p' = p \<and> q' = q then None
        else if q' = q \<and> sel = Some p' then map_option set_primary (link_of m p' q') else link_of m p' q')" and
    pb: "\<And>p' q'. gget2 (profilesByPassport m') q' p' =
        (if p' = p \<and> q' = q then None else gget2 (profilesByPassport m) q' p')" and
    ne: "no_empty (profileLinks m')" "no_empty (profilesByPassport m')" and
    pl: "\<And>i. i \<noteq> p \<Longrightarrow> gget (playersByID m') i = gget (playersByID m) i"
      "gget (playersByID m') p \<noteq> None \<longleftrightarrow> (\<exists>q'. q' \<noteq> q \<and> link_of m p q' \<noteq> None)"
      "\<And>pl. gget (playersByID m') p = Some pl \<Longrightarrow> pl_ID pl = p" and
    off: "\<And>n. gget (offlineByNormalized m') n =
        (if \<not> offline_passport m q n then gget (offlineByNormalized m) n
         else case sel of Some s \<Rightarrow> Some s
           | None \<Rightarrow> if gget (offlineByNormalized m) n = Some p then None else gget (offlineByNormalized m) n)"
    by (rule unlinkProfileLocked_eq [OF ok Some r]) (rule that; assumption)
  note f = links_only_fields [OF only]
  have linked: "link_of m' p' q' \<noteq> None \<longleftrightarrow> \<not> (p' = p \<and> q' = q) \<and> link_of m p' q' \<noteq> None" for p' q'
    unfolding lk by auto
  have prim: "is_primary m' p' q' \<longleftrightarrow>
      (if p' = p \<and> q' = q then False else if q' = q \<and> sel = Some p' then True else is_primary m p' q')" for p' q'
    using sel_Some [of p'] unfolding is_primary_def lk by auto
  have was_primary: "ln_IsPrimary l" if "sel = Some s" for s
    using that sel_None by auto
  have only_p: "p' = p" if "ln_IsPrimary l" "is_primary m p' q" for p'
    using that Some tables_okD(6) [OF ok] unfolding one_primary_def is_primary_def by blast
  have "link_keys m'"
    using tables_okD(1) [OF ok] unfolding link_keys_def lk by (auto split: if_splits)
  moreover have "link_sym m'"
    using tables_okD(2) [OF ok] unfolding link_sym_def linked pb by auto
  moreover have "link_targets m'"
    using tables_okD(5) [OF ok] unfolding link_targets_def linked f by blast
  moreover have "one_primary m'"
    unfolding one_primary_def
  proof (intro allI impI)
    fix q' x y assume "is_primary m' x q'" "is_primary m' y q'"
    then show "x = y"
      using tables_okD(6) [OF ok] only_p was_primary unfolding prim one_primary_def
      by (auto split: if_splits)
  qed
  moreover have "has_primary Y m'"
    unfolding has_primary_def
  proof (intro allI impI)
    fix x q' assume q': "q' \<notin> Y" and x: "link_of m' x q' \<noteq> None"
    with X(1) linked obtain y where y: "is_primary m y q'"
      using tables_okD(7) [OF ok] unfolding has_primary_def by blast
    show "\<exists>p'. is_primary m' p' q'"
    proof (cases "q' = q \<and> y = p")
      case True
      with y Some q' X(2) have "promote \<and> ln_IsPrimary l" by (auto simp: is_primary_def)
      moreover have "x \<noteq> p \<and> link_of m x q \<noteq> None" using x True unfolding linked by blast
      ultimately have "sel \<noteq> None" using sel_None by blast
      then obtain s where "sel = Some s" by blast
      with True sel_Some [of s] show ?thesis by (auto simp: prim)
    next
      case False
      with y show ?thesis by (auto simp: prim)
    qed
  qed
  moreover have "ids_ok m'"
    using tables_okD(8) [OF ok] unfolding ids_ok_def f .
  moreover have "players_ok m'"
  proof -
    have "gget (playersByID m') i \<noteq> None \<longleftrightarrow> (\<exists>q'. link_of m' i q' \<noteq> None)" for i
    proof (cases "i = p")
      case True
      then show ?thesis unfolding linked using pl(2) by simp
    next
      case False
      then show ?thesis using tables_okD(9) [OF ok] unfolding linked players_ok_def pl(1) [OF False] by blast
    qed
    moreover have "pl_ID x = i" if "gget (playersByID m') i = Some x" for i x
      using that tables_okD(9) [OF ok] pl(1) [of i] pl(3) [of x] by (cases "i = p") (auto simp: players_ok_def)
    ultimately show ?thesis unfolding players_ok_def by blast
  qed
  ultimately have "tables_ok Y m'" using ne by (simp add: tables_ok_def)
  moreover have "names_ok uc m'"
    using identity_invD(2) [OF inv] unfolding names_ok_def f offline_passport_cong [OF f(1)] .
  moreover have "credentials_ok m'"
    using identity_invD(4) [OF inv] unfolding credentials_ok_def f offline_passport_cong [OF f(1)] .
  moreover have "offline_ok m'"
    unfolding offline_ok_def offline_passport_cong [OF f(1)]
  proof (intro allI)
    fix n x
    have idx: "gget (offlineByNormalized m) n = Some y \<longleftrightarrow> (\<exists>q. offline_passport m q n \<and> is_primary m y q)" for y
      using identity_invD(3) [OF inv] by (simp add: offline_ok_def)
    show "gget (offlineByNormalized m') n = Some x \<longleftrightarrow> (\<exists>q. offline_passport m q n \<and> is_primary m' x q)"
    proof (cases "offline_passport m q n")
      case False
      have "(\<exists>q. offline_passport m q n \<and> is_primary m' x q) \<longleftrightarrow> (\<exists>q. offline_passport m q n \<and> is_primary m x q)"
        by (intro arg_cong [where f = Ex] ext) (use False in \<open>auto simp: prim\<close>)
      with False idx show ?thesis by (simp add: off)
    next
      case True
      have here: "(\<exists>q'. offline_passport m q' n \<and> P q') \<longleftrightarrow> P q" for P
        using offline_passport_unique [OF identity_invD(2) [OF inv] True] True by blast
      from idx here have idx': "gget (offlineByNormalized m) n = Some y \<longleftrightarrow> is_primary m y q" for y by simp
      have lp: "is_primary m p q \<longleftrightarrow> ln_IsPrimary l" by (simp add: is_primary_def Some)
      show ?thesis
      proof (cases sel)
        case None
        have "(if gget (offlineByNormalized m) n = Some p then None else gget (offlineByNormalized m) n) = Some x \<longleftrightarrow>
            x \<noteq> p \<and> is_primary m x q"
          using idx' [of p] idx' [of x] only_p [of x] lp by auto
        with True None show ?thesis unfolding here prim off by simp
      next
        case (Some s)
        then have "x \<noteq> p \<longrightarrow> \<not> is_primary m x q" "s \<noteq> p" using only_p was_primary sel_Some by blast+
        with True Some show ?thesis unfolding here prim off by auto
      qed
    qed
  qed
  ultimately show ?thesis by (simp add: identity_inv_def)
qed

end
