(* ===== verification/StoreReach.thy ===== *)
theory StoreReach
  imports StoreInv
begin

text \<open>
  The operations that register, bind, rename, lock and update passports, profiles and credentials
  keep the identity invariant (those that delete are in StoreDelete).  An offline passport's identifier is a hash of its normalized name and a
  premium one's is its Mojang UUID; the operations that create one assume what the program
  relies on: no two names met so far hash to the same identifier, and Mojang UUIDs are 16 bytes
  whose version is not that of the offline ones.
\<close>

subsection \<open>States with the same identity tables\<close>

definition same_nested :: "('p, ('q, 'v) gomap) gomap \<Rightarrow> ('p, ('q, 'v) gomap) gomap \<Rightarrow> bool" where
  "same_nested t t' \<longleftrightarrow> (\<forall>p. gget t p = None \<longleftrightarrow> gget t' p = None) \<and> gget2 t = gget2 t'"

lemma same_nested_refl [simp]: "same_nested t t"
  by (simp add: same_nested_def)

lemma no_empty_iff: "no_empty t \<longleftrightarrow> (\<forall>p. gget t p \<noteq> None \<longrightarrow> (\<exists>q. gget2 t p q \<noteq> None))"
  by (auto simp: no_empty_def glen_0_iff gget2_def split: option.splits) fastforce

lemma same_nested_no_empty: "same_nested t t' \<Longrightarrow> no_empty t' = no_empty t"
  by (simp add: same_nested_def no_empty_iff)

text \<open>The identity tables agree, in whatever order they would be visited.\<close>

definition same_identity :: "memory \<Rightarrow> memory \<Rightarrow> bool" where
  "same_identity m m' \<longleftrightarrow> same_map (passportsByID m) (passportsByID m') \<and> same_map (profilesByID m) (profilesByID m') \<and>
     same_map (passportByUsername m) (passportByUsername m') \<and> same_nested (profileLinks m) (profileLinks m') \<and>
     same_nested (profilesByPassport m) (profilesByPassport m') \<and> same_map (playersByID m) (playersByID m') \<and>
     same_map (offlineByNormalized m) (offlineByNormalized m') \<and>
     (\<forall>q. gget (credentialsByPlayer m') q \<noteq> None \<longrightarrow> gget (credentialsByPlayer m) q \<noteq> None)"

lemma identity_inv_same:
  assumes inv: "identity_inv uc X m" and same: "same_identity m m'"
  shows "identity_inv uc X m'"
proof -
  have g: "gget (passportsByID m') = gget (passportsByID m)" "gget (profilesByID m') = gget (profilesByID m)"
    "gget (passportByUsername m') = gget (passportByUsername m)" "gget (playersByID m') = gget (playersByID m)"
    "gget (offlineByNormalized m') = gget (offlineByNormalized m)"
    "gget2 (profileLinks m') = gget2 (profileLinks m)" "gget2 (profilesByPassport m') = gget2 (profilesByPassport m)"
    "no_empty (profileLinks m') = no_empty (profileLinks m)"
    "no_empty (profilesByPassport m') = no_empty (profilesByPassport m)"
    "\<And>q. gget (credentialsByPlayer m') q \<noteq> None \<Longrightarrow> gget (credentialsByPlayer m) q \<noteq> None"
    using same by (auto simp: same_identity_def same_map_def same_nested_no_empty) (simp_all add: same_nested_def)
  have op: "offline_passport m' q n = offline_passport m q n" "is_primary m' p q = is_primary m p q" for p q n
    by (simp_all add: offline_passport_def is_primary_def g)
  have "tables_ok X m' = tables_ok X m" "names_ok uc m' = names_ok uc m" "offline_ok m' = offline_ok m"
    unfolding tables_ok_def link_keys_def link_sym_def link_targets_def one_primary_def
      has_primary_def ids_ok_def players_ok_def names_ok_def offline_ok_def op g(1-9) by (rule refl)+
  moreover have "credentials_ok m'"
    using identity_invD(4) [OF inv] g(10) unfolding credentials_ok_def op by blast
  ultimately show ?thesis using inv by (simp add: identity_inv_def)
qed

lemma identity_inv_eq:
  assumes "identity_inv uc X m"
    "passportsByID m' = passportsByID m" "profilesByID m' = profilesByID m" "passportByUsername m' = passportByUsername m"
    "profileLinks m' = profileLinks m" "profilesByPassport m' = profilesByPassport m" "playersByID m' = playersByID m"
    "offlineByNormalized m' = offlineByNormalized m" "credentialsByPlayer m' = credentialsByPlayer m"
  shows "identity_inv uc X m'"
  by (rule identity_inv_same [OF assms(1)]) (simp add: same_identity_def same_map_def assms)

subsection \<open>Writing passports, profiles and players\<close>

lemma identity_inv_put_profile:
  assumes inv: "identity_inv uc X m" and "pf_ID p \<noteq> []"
  shows "identity_inv uc X (m\<lparr>profilesByID := gput (profilesByID m) (pf_ID p) p\<rparr>)" (is "identity_inv uc X ?m")
proof -
  have op: "offline_passport ?m q n = offline_passport m q n" "is_primary ?m p q = is_primary m p q" for p q n
    by (simp_all add: offline_passport_def is_primary_def)
  have "link_targets ?m"
    using tables_okD(5) [OF identity_invD(1) [OF inv]] by (auto simp: link_targets_def)
  moreover have "ids_ok ?m"
    using tables_okD(8) [OF identity_invD(1) [OF inv]] assms(2) by (simp add: ids_ok_def)
  ultimately show ?thesis
    using inv
    unfolding identity_inv_def tables_ok_def link_keys_def link_sym_def one_primary_def has_primary_def
      players_ok_def names_ok_def offline_ok_def credentials_ok_def op
    by simp
qed

text \<open>The passport stays of its kind, and keeps its identifier, UUID and, offline, its name.\<close>

definition same_passport :: "Passport \<Rightarrow> Passport \<Rightarrow> bool" where
  "same_passport a b \<longleftrightarrow> pp_ID b = pp_ID a \<and> pp_Kind b = pp_Kind a \<and> pp_UUID b = pp_UUID a \<and>
     (pp_Kind a = PassportKindOffline \<longrightarrow> pp_UsernameNormalized b = pp_UsernameNormalized a)"

lemma identity_inv_put_passport:
  assumes inv: "identity_inv uc X m" and pp: "gget (passportsByID m) q = Some pp" and same: "same_passport pp pp'"
  shows "identity_inv uc X (m\<lparr>passportsByID := gput (passportsByID m) q pp'\<rparr>)" (is "identity_inv uc X ?m")
proof -
  have op: "offline_passport ?m q n = offline_passport m q n" "is_primary ?m p q = is_primary m p q" for p q n
    using pp same by (auto simp: offline_passport_def is_primary_def same_passport_def)
  have "link_targets ?m"
    using tables_okD(5) [OF identity_invD(1) [OF inv]] by (auto simp: link_targets_def)
  moreover have "ids_ok ?m"
    using tables_okD(8) [OF identity_invD(1) [OF inv]] pp same by (auto simp: ids_ok_def same_passport_def)
  moreover have "names_ok uc ?m"
    using identity_invD(2) [OF inv] pp same unfolding names_ok_def op by (auto simp: same_passport_def)
  ultimately show ?thesis
    using inv
    unfolding identity_inv_def tables_ok_def link_keys_def link_sym_def one_primary_def has_primary_def
      players_ok_def offline_ok_def credentials_ok_def op
    by simp
qed

lemma identity_inv_put_player:
  assumes inv: "identity_inv uc X m" and "link_of m (pl_ID pl) q \<noteq> None"
  shows "identity_inv uc X (m\<lparr>playersByID := gput (playersByID m) (pl_ID pl) pl\<rparr>)" (is "identity_inv uc X ?m")
proof -
  have op: "offline_passport ?m q n = offline_passport m q n" "is_primary ?m p q = is_primary m p q" for p q n
    by (simp_all add: offline_passport_def is_primary_def)
  have "players_ok ?m"
    using tables_okD(9) [OF identity_invD(1) [OF inv]] assms(2) by (auto simp: players_ok_def)
  then show ?thesis
    using inv
    unfolding identity_inv_def tables_ok_def link_keys_def link_sym_def link_targets_def one_primary_def has_primary_def
      ids_ok_def names_ok_def offline_ok_def credentials_ok_def op
    by simp
qed

lemma identity_inv_refresh:
  assumes inv: "identity_inv uc X m" and p: "gget (profilesByID m) p \<noteq> None"
  shows "identity_inv uc X (fst (refreshProfilePlayerLocked p m))" (is "identity_inv uc X ?m")
proof -
  obtain pf where pf: "gget (profilesByID m) p = Some pf" using p by blast
  then have id: "pf_ID pf = p" using tables_okD(8) [OF identity_invD(1) [OF inv]] by (simp add: ids_ok_def)
  note f = links_only_fields [OF refresh_fields(1) [of m p]]
  have op: "offline_passport ?m q n = offline_passport m q n" "is_primary ?m p q = is_primary m p q" for p q n
    by (simp_all add: offline_passport_def is_primary_def f refresh_fields)
  have "players_ok ?m"
    using tables_okD(9) [OF identity_invD(1) [OF inv]] refreshed_player_None [of m p] refreshed_player_Some [of m p _ pf] pf id
    by (auto simp: players_ok_def refresh_players [OF pf id] refresh_fields)
  then show ?thesis
    using inv
    unfolding identity_inv_def tables_ok_def link_keys_def link_sym_def link_targets_def one_primary_def has_primary_def
      ids_ok_def names_ok_def offline_ok_def credentials_ok_def op f refresh_fields
    by simp
qed

lemma identity_inv_refreshPassport:
  assumes "identity_inv uc X m"
  shows "identity_inv uc X (refreshPassportPlayersLocked q m)"
proof -
  have "\<forall>p\<in>set (gkeys (profiles_of m q)). gget (profilesByID m) p \<noteq> None"
    using tables_okD(2,5) [OF identity_invD(1) [OF assms]]
    unfolding link_sym_def link_targets_def by (metis gget2_ginner option.distinct(1) set_gkeys_iff)
  then have "identity_inv uc X (foldl (\<lambda>m p. fst (refreshProfilePlayerLocked p m)) m ps)"
    if "set ps \<subseteq> set (gkeys (profiles_of m q))" for ps
    using that assms
  proof (induction ps rule: rev_induct)
    case (snoc p ps)
    let ?m = "foldl (\<lambda>m p. fst (refreshProfilePlayerLocked p m)) m ps"
    have "links_only m ?m"
      by (induction ps rule: rev_induct) (auto intro: links_only_trans refresh_fields)
    with snoc show ?case by (simp add: identity_inv_refresh links_only_fields)
  qed simp
  then show ?thesis unfolding refreshPassportPlayersLocked_def by blast
qed

subsection \<open>Writing credentials\<close>

lemma identity_inv_put_credential:
  assumes inv: "identity_inv uc X m" and q: "offline_passport m q n"
  shows "identity_inv uc X (m\<lparr>credentialsByPlayer := gput (credentialsByPlayer m) q c\<rparr>)" (is "identity_inv uc X ?m")
proof -
  have op: "offline_passport ?m q n = offline_passport m q n" "is_primary ?m p q = is_primary m p q" for p q n
    by (simp_all add: offline_passport_def is_primary_def)
  have "credentials_ok ?m"
    using identity_invD(4) [OF inv] q unfolding credentials_ok_def op by (auto simp del: not_None_eq)
  then show ?thesis
    using inv
    unfolding identity_inv_def tables_ok_def link_keys_def link_sym_def link_targets_def one_primary_def has_primary_def
      ids_ok_def players_ok_def names_ok_def offline_ok_def op
    by simp
qed

subsection \<open>New passports\<close>

text \<open>
  \<open>collision_free uc m n\<close>: no offline passport with another name has the identifier that
  \<open>n\<close> hashes to.
\<close>

definition collision_free :: "unicode \<Rightarrow> memory \<Rightarrow> string \<Rightarrow> bool" where
  "collision_free uc m n \<longleftrightarrow> (\<forall>n'. offline_passport m (UUID_String (OfflinePassportUUID uc n)) n' \<longrightarrow> n' = n)"

lemma offline_id_not_premium:
  assumes "names_ok uc m" and "gget (passportsByID m) (UUID_String (OfflinePassportUUID uc n)) = Some pp"
  shows "pp_Kind pp = PassportKindOffline"
proof (rule ccontr)
  assume "pp_Kind pp \<noteq> PassportKindOffline"
  with assms have "UUID_String (OfflinePassportUUID uc n) = UUID_String (pp_UUID pp)"
    "length (pp_UUID pp) = 16" "uuid_version (pp_UUID pp) \<noteq> 8"
    unfolding names_ok_def by blast+
  then show False
    using UUID_String_inject [of "OfflinePassportUUID uc n" "pp_UUID pp"] version_OfflinePassportUUID [of uc n] by simp
qed

lemma premium_id_fresh:
  assumes names: "names_ok uc m" and u: "length u = 16" "uuid_version u \<noteq> 8"
    and new: "\<forall>i pp. gget (passportsByID m) i = Some pp \<longrightarrow> \<not> premium_with_uuid u pp"
  shows "gget (passportsByID m) (UUID_String u) = None"
proof (rule ccontr)
  assume "gget (passportsByID m) (UUID_String u) \<noteq> None"
  then obtain pp where pp: "gget (passportsByID m) (UUID_String u) = Some pp" by blast
  show False
  proof (cases "pp_Kind pp = PassportKindOffline")
    case True
    with names pp have "UUID_String u = UUID_String (OfflinePassportUUID uc (pp_UsernameNormalized pp))"
      unfolding names_ok_def offline_passport_def by blast
    with u UUID_String_inject version_OfflinePassportUUID show False by force
  next
    case False
    with names pp have "pp_Kind pp = PassportKindPremium" "UUID_String u = UUID_String (pp_UUID pp)"
      unfolding names_ok_def by blast+
    with new pp show False by (auto simp: premium_with_uuid_def)
  qed
qed

lemma identity_inv_add_offline:
  assumes inv: "identity_inv uc X m"
    and pp: "pp_Kind pp = PassportKindOffline" "pp_UsernameNormalized pp = n"
      "pp_ID pp = UUID_String (OfflinePassportUUID uc n)"
    and free: "collision_free uc m n"
  shows "identity_inv uc X (m\<lparr>passportsByID := gput (passportsByID m) (pp_ID pp) pp,
     passportByUsername := gput (passportByUsername m) n (pp_ID pp)\<rparr>)" (is "identity_inv uc X ?m")
proof -
  note ok = identity_invD(1) [OF inv]
  have off: "offline_passport ?m q n' \<longleftrightarrow> (if q = pp_ID pp then n' = n else offline_passport m q n')" for q n'
    by (auto simp: offline_passport_def pp(1,2))
  have old: "offline_passport m (pp_ID pp) n' \<Longrightarrow> n' = n" for n'
    using free by (simp add: collision_free_def pp(3))
  have prim: "is_primary ?m p q = is_primary m p q" for p q
    by (simp add: is_primary_def)
  have op: "offline_passport ?m q n' \<and> is_primary m p q \<longleftrightarrow> offline_passport m q n' \<and> is_primary m p q" for p q n'
  proof (cases "q = pp_ID pp \<and> is_primary m p q")
    case True
    then obtain qq where qq: "gget (passportsByID m) (pp_ID pp) = Some qq"
      using tables_okD(5) [OF ok] by (auto simp: is_primary_def link_targets_def)
    with offline_id_not_premium [OF identity_invD(2) [OF inv]] have "pp_Kind qq = PassportKindOffline"
      unfolding pp(3) by blast
    with qq old have "offline_passport m (pp_ID pp) n' \<longleftrightarrow> n' = n" by (auto simp: offline_passport_def)
    with True show ?thesis by (simp add: off)
  qed (auto simp: off)
  have "link_targets ?m"
    using tables_okD(5) [OF ok] by (auto simp: link_targets_def)
  moreover have "ids_ok ?m"
    using tables_okD(8) [OF ok] by (auto simp: ids_ok_def pp(3))
  moreover have "names_ok uc ?m"
    using identity_invD(2) [OF inv] old pp unfolding names_ok_def off by (auto split: if_splits)
  moreover have "offline_ok ?m"
    using identity_invD(3) [OF inv] unfolding offline_ok_def prim op by simp
  moreover have "credentials_ok ?m"
    using identity_invD(4) [OF inv] unfolding credentials_ok_def off by (simp del: not_None_eq) metis
  ultimately show ?thesis
    using inv
    unfolding identity_inv_def tables_ok_def link_keys_def link_sym_def one_primary_def has_primary_def players_ok_def prim
    by simp
qed

lemma identity_inv_add_premium:
  assumes inv: "identity_inv uc X m"
    and pp: "pp_Kind pp = PassportKindPremium" "pp_ID pp = UUID_String (pp_UUID pp)" "length (pp_UUID pp) = 16"
      "uuid_version (pp_UUID pp) \<noteq> 8"
    and new: "gget (passportsByID m) (pp_ID pp) = None"
  shows "identity_inv uc X (m\<lparr>passportsByID := gput (passportsByID m) (pp_ID pp) pp\<rparr>)" (is "identity_inv uc X ?m")
proof -
  note ok = identity_invD(1) [OF inv]
  have op: "offline_passport ?m q n = offline_passport m q n" "is_primary ?m p q = is_primary m p q" for p q n
    using new by (auto simp: offline_passport_def is_primary_def pp(1))
  have "link_targets ?m"
    using tables_okD(5) [OF ok] by (auto simp: link_targets_def)
  moreover have "ids_ok ?m"
    using tables_okD(8) [OF ok] pp by (auto simp: ids_ok_def)
  moreover have "names_ok uc ?m"
    using identity_invD(2) [OF inv] pp unfolding names_ok_def op by auto
  ultimately show ?thesis
    using inv
    unfolding identity_inv_def tables_ok_def link_keys_def link_sym_def one_primary_def has_primary_def players_ok_def
      offline_ok_def credentials_ok_def op
    by simp
qed

subsection \<open>Registration and binding\<close>

text \<open>Storing a passport that may be stored, with a profile linked to it.\<close>

lemma identity_inv_store:
  assumes "identity_inv uc X (m\<lparr>passportsByID := gput (passportsByID m) (pp_ID pp) pp',
      passportByUsername := (if pp_Kind pp = PassportKindOffline
        then gput (passportByUsername m) (pp_UsernameNormalized pp) (pp_ID pp) else passportByUsername m)\<rparr>)"
    and pp': "pp' = pp\<lparr>pp_SkinSource := NormalizePassportSkinSource uc (pp_Kind pp) (pp_SkinSource pp)\<rparr>"
    and "pf_ID profile \<noteq> []"
  shows "identity_inv uc X (fst (storePassportProfileLocked uc now pp profile primary m))"
    and "gget (passportsByID (fst (storePassportProfileLocked uc now pp profile primary m))) (pp_ID pp) = Some pp'"
proof -
  define m1 where "m1 = m\<lparr>passportsByID := gput (passportsByID m) (pp_ID pp) pp',
      passportByUsername := (if pp_Kind pp = PassportKindOffline
        then gput (passportByUsername m) (pp_UsernameNormalized pp) (pp_ID pp) else passportByUsername m)\<rparr>"
  define m2 where "m2 = m1\<lparr>profilesByID := gput (profilesByID m1) (pf_ID profile) profile\<rparr>"
  have "identity_inv uc X m1" using assms(1) by (simp only: m1_def)
  from identity_inv_put_profile [OF this assms(3)] have inv2: "identity_inv uc X m2" by (simp only: m2_def)
  have eq: "storePassportProfileLocked uc now pp profile primary m = linkProfileLocked now pp' profile primary m2"
    by (simp add: storePassportProfileLocked_def Let_def pp' [symmetric] m2_def m1_def) (simp add: pp')
  have here: "gget (passportsByID m2) (pp_ID pp') = Some pp'" "gget (profilesByID m2) (pf_ID profile) = Some profile"
    by (simp_all add: m2_def m1_def pp')
  obtain m3 r where m3: "linkProfileLocked now pp' profile primary m2 = (m3, r)" by (cases "linkProfileLocked now pp' profile primary m2")
  show "identity_inv uc X (fst (storePassportProfileLocked uc now pp profile primary m))"
    unfolding eq m3 fst_conv by (rule identity_inv_link [OF inv2 here m3])
  have "passportsByID m3 = passportsByID m2"
    using linkProfileLocked_eq(4) [OF identity_invD(1) [OF inv2] here(2) m3] by (rule links_only_fields)
  with here(1) show "gget (passportsByID (fst (storePassportProfileLocked uc now pp profile primary m))) (pp_ID pp) = Some pp'"
    unfolding eq m3 by (simp add: pp')
qed

lemma identity_inv_store_offline:
  assumes inv: "identity_inv uc X m" and pp: "NewOfflinePassport uc raw t = Inr pp"
    and free: "collision_free uc m (ToLower uc raw)" and "pf_ID profile \<noteq> []"
  shows "identity_inv uc X (fst (storePassportProfileLocked uc now pp profile primary m))"
    and "offline_passport (fst (storePassportProfileLocked uc now pp profile primary m)) (pp_ID pp) (pp_UsernameNormalized pp)"
proof -
  note n = NewOfflinePassport_Inr [OF pp]
  let ?pp = "pp\<lparr>pp_SkinSource := NormalizePassportSkinSource uc (pp_Kind pp) (pp_SkinSource pp)\<rparr>"
  have "identity_inv uc X (m\<lparr>passportsByID := gput (passportsByID m) (pp_ID ?pp) ?pp,
      passportByUsername := gput (passportByUsername m) (pp_UsernameNormalized pp) (pp_ID ?pp)\<rparr>)"
    by (rule identity_inv_add_offline [OF inv]) (use n free in simp_all)
  with n have "identity_inv uc X (m\<lparr>passportsByID := gput (passportsByID m) (pp_ID pp) ?pp,
      passportByUsername := (if pp_Kind pp = PassportKindOffline
        then gput (passportByUsername m) (pp_UsernameNormalized pp) (pp_ID pp) else passportByUsername m)\<rparr>)"
    by simp
  note s = identity_inv_store [OF this refl assms(4), of now primary]
  show "identity_inv uc X (fst (storePassportProfileLocked uc now pp profile primary m))" by (rule s(1))
  show "offline_passport (fst (storePassportProfileLocked uc now pp profile primary m)) (pp_ID pp) (pp_UsernameNormalized pp)"
    unfolding offline_passport_def s(2) using n by simp
qed

lemma identity_inv_CreateOfflinePassportProfile:
  assumes inv: "identity_inv uc X m" and free: "collision_free uc m (ToLower uc raw)"
  shows "identity_inv uc X (fst (CreateOfflinePassportProfile uc raw name h e k t1 t2 t3 rnd m))"
proof (cases "is_ok (snd (CreateOfflinePassportProfile uc raw name h e k t1 t2 t3 rnd m))")
  case False
  then have "fst (CreateOfflinePassportProfile uc raw name h e k t1 t2 t3 rnd m) = m"
    by (auto simp: CreateOfflinePassportProfile_def Let_def split: sum.splits prod.splits if_splits)
  with inv show ?thesis by simp
next
  case True
  then obtain pp pname profile where pp: "NewOfflinePassport uc raw t1 = Inr pp"
    and profile: "NewOfflineProfile uc pname (pp_ID pp) rnd t2 = Inr profile"
    and m': "fst (CreateOfflinePassportProfile uc raw name h e k t1 t2 t3 rnd m) =
      (let m1 = fst (storePassportProfileLocked uc t3 pp profile True m) in
       m1\<lparr>credentialsByPlayer := gput (credentialsByPlayer m1) (pp_ID pp) (new_credential (pp_ID pp) h e k)\<rparr>)"
    by (auto simp: CreateOfflinePassportProfile_def Let_def split: sum.splits prod.splits if_splits)
  let ?m = "fst (storePassportProfileLocked uc t3 pp profile True m)"
  note n = NewOfflinePassport_Inr [OF pp]
  have pf: "pf_ID profile \<noteq> []" using NewOfflineProfile_Inr [OF profile] by auto
  note st = identity_inv_store_offline [OF inv pp free pf]
  from identity_inv_put_credential [OF st] show ?thesis unfolding m' Let_def .
qed

lemma identity_inv_CreateOfflinePassport:
  assumes inv: "identity_inv uc X m" and free: "collision_free uc m (ToLower uc raw)"
  shows "identity_inv uc X (fst (CreateOfflinePassport uc raw h e k t m))"
proof (cases "is_ok (snd (CreateOfflinePassport uc raw h e k t m))")
  case False
  then have "fst (CreateOfflinePassport uc raw h e k t m) = m"
    by (auto simp: CreateOfflinePassport_def Let_def split: sum.splits prod.splits if_splits)
  with inv show ?thesis by simp
next
  case True
  then obtain pp where pp: "NewOfflinePassport uc raw t = Inr pp"
    and m': "fst (CreateOfflinePassport uc raw h e k t m) =
      (let pp = pp\<lparr>pp_SkinSource := NormalizePassportSkinSource uc (pp_Kind pp) (pp_SkinSource pp)\<rparr>;
           m1 = m\<lparr>passportsByID := gput (passportsByID m) (pp_ID pp) pp,
             passportByUsername := gput (passportByUsername m) (pp_UsernameNormalized pp) (pp_ID pp)\<rparr>
       in m1\<lparr>credentialsByPlayer := gput (credentialsByPlayer m1) (pp_ID pp) (new_credential (pp_ID pp) h e k)\<rparr>)"
    by (auto simp: CreateOfflinePassport_def Let_def split: sum.splits prod.splits if_splits)
  note n = NewOfflinePassport_Inr [OF pp]
  show ?thesis
    unfolding m' Let_def
    by (rule identity_inv_put_credential [where n = "pp_UsernameNormalized pp"],
        rule identity_inv_add_offline [OF inv]) (use n free in \<open>simp_all add: offline_passport_def\<close>)
qed


lemma primaryProfile_Inr:
  assumes ok: "tables_ok X m" and "primaryProfileForPassportLocked m q = Inr pf"
  shows "link_of m (pf_ID pf) q \<noteq> None" and "gget (profilesByID m) (pf_ID pf) = Some pf"
proof -
  let ?ids = "gkeys (profiles_of m q)"
  obtain p where p: "p \<in> set ?ids" "gget (profilesByID m) p \<noteq> None" "pf = profile_at m p"
    using assms(2)
    by (auto simp: primaryProfileForPassportLocked_def Let_def simp del: set_gkeys_iff split: option.splits dest: find_Some_in)
  then have id: "pf_ID pf = p" "gget (profilesByID m) p = Some pf"
    using tables_okD(8) [OF ok] by (auto simp: profile_at_def ids_ok_def)
  moreover have "link_of m p q \<noteq> None"
    using p(1) tables_okD(2) [OF ok] by (auto simp: link_sym_def gget2_ginner)
  ultimately show "link_of m (pf_ID pf) q \<noteq> None" "gget (profilesByID m) (pf_ID pf) = Some pf" by simp_all
qed

text \<open>The primary profile does not depend on the order of the loop.\<close>

lemma primaryProfile_Inr_iff:
  assumes ok: "tables_ok {} m"
  shows "primaryProfileForPassportLocked m q = Inr pf \<longleftrightarrow>
    is_primary m (pf_ID pf) q \<and> gget (profilesByID m) (pf_ID pf) = Some pf"
proof -
  let ?ids = "gkeys (profiles_of m q)"
  let ?P = "\<lambda>p. (case link_of m p q of None \<Rightarrow> False | Some l \<Rightarrow> ln_IsPrimary l) \<and> gget (profilesByID m) p \<noteq> None"
  have P: "?P p \<longleftrightarrow> is_primary m p q" for p
    using tables_okD(5) [OF ok] unfolding is_primary_def link_targets_def by (auto split: option.splits)
  have ids: "p \<in> set ?ids \<longleftrightarrow> link_of m p q \<noteq> None" for p
    using tables_okD(2) [OF ok] by (simp add: link_sym_def gget2_ginner del: not_None_eq) auto
  have one: "is_primary m p q \<Longrightarrow> is_primary m p' q \<Longrightarrow> p = p'" for p p'
    using tables_okD(6) [OF ok] unfolding one_primary_def by blast
  show ?thesis
  proof (cases "List.find ?P ?ids")
    case (Some p)
    then have p: "is_primary m p q" "gget (profilesByID m) p \<noteq> None" using find_Some_in [OF Some] P by blast+
    then obtain pf' where pf': "gget (profilesByID m) p = Some pf'" by blast
    have id: "pf_ID pf' = p" using tables_okD(8) [OF ok] pf' unfolding ids_ok_def by blast
    have eq: "primaryProfileForPassportLocked m q = Inr pf'"
      unfolding primaryProfileForPassportLocked_def Let_def Some option.case by (simp add: profile_at_def pf')
    show ?thesis
    proof
      assume "primaryProfileForPassportLocked m q = Inr pf"
      with eq p pf' id show "is_primary m (pf_ID pf) q \<and> gget (profilesByID m) (pf_ID pf) = Some pf" by simp
    next
      assume a: "is_primary m (pf_ID pf) q \<and> gget (profilesByID m) (pf_ID pf) = Some pf"
      then have "pf_ID pf = p" using one p(1) by blast
      with a pf' eq show "primaryProfileForPassportLocked m q = Inr pf" by simp
    qed
  next
    case None
    have none: "\<not> is_primary m p q" for p
    proof
      assume p: "is_primary m p q"
      then have "p \<in> set ?ids" unfolding ids is_primary_def by blast
      with None p P show False unfolding find_None_iff by blast
    qed
    have "link_of m p q = None" for p
      using none tables_okD(7) [OF ok] unfolding has_primary_def by blast
    then have "\<not> is_ok (primaryProfileForPassportLocked m q)" by (simp add: primaryProfile_ok [OF ok])
    with none show ?thesis by (auto simp: is_ok_iff)
  qed
qed

lemma NewPremiumPassport_simps [simp]:
  "pp_Kind (NewPremiumPassport uc n u t) = PassportKindPremium" "pp_ID (NewPremiumPassport uc n u t) = UUID_String u"
  "pp_UUID (NewPremiumPassport uc n u t) = u"
  by (simp_all add: NewPremiumPassport_def Let_def)

lemma identity_inv_UpsertPremiumPassport:
  assumes inv: "identity_inv uc X m" and u: "length u = 16" "uuid_version u \<noteq> 8"
  shows "identity_inv uc X (fst (UpsertPremiumPassport uc name u t m))"
proof (cases "TrimSpace name = []")
  case True
  with inv show ?thesis by (simp add: UpsertPremiumPassport_def)
next
  case ne: False
  show ?thesis
  proof (cases "List.find (\<lambda>(i, pp). premium_with_uuid u pp) (gentries (passportsByID m))")
    case (Some e)
    then obtain i pp where e: "e = (i, pp)" by (cases e)
    with find_Some_in [OF Some] have pp: "gget (passportsByID m) i = Some pp" "pp_Kind pp = PassportKindPremium"
      by (simp_all add: gget_eq_entries premium_with_uuid_def)
    then show ?thesis
      by (simp add: UpsertPremiumPassport_def Let_def ne Some e)
        (rule identity_inv_put_passport [OF inv pp(1)], simp add: same_passport_def)
  next
    case None
    then have "\<forall>i pp. gget (passportsByID m) i = Some pp \<longrightarrow> \<not> premium_with_uuid u pp"
      by (auto simp: find_None_iff gget_eq_entries)
    from premium_id_fresh [OF identity_invD(2) [OF inv] u this]
    have fresh: "gget (passportsByID m) (UUID_String u) = None" .
    let ?n = "NewPremiumPassport uc (TrimSpace name) u t"
    let ?pp = "?n\<lparr>pp_SkinSource := NormalizePassportSkinSource uc (pp_Kind ?n) (pp_SkinSource ?n)\<rparr>"
    have "identity_inv uc X (m\<lparr>passportsByID := gput (passportsByID m) (pp_ID ?pp) ?pp\<rparr>)"
      by (rule identity_inv_add_premium [OF inv]) (use u fresh in simp_all)
    then show ?thesis
      unfolding UpsertPremiumPassport_def Let_def None option.case using ne by simp
  qed
qed

definition premium_renamed :: "unicode \<Rightarrow> string \<Rightarrow> time \<Rightarrow> Passport \<Rightarrow> Passport" where
  "premium_renamed uc name t pp = pp\<lparr>pp_Username := name, pp_UsernameNormalized := ToLower uc name, pp_UpdatedAt := t\<rparr>"

lemma premium_renamed_simps [simp]:
  "pp_ID (premium_renamed uc name t pp) = pp_ID pp" "pp_Kind (premium_renamed uc name t pp) = pp_Kind pp"
  "pp_UUID (premium_renamed uc name t pp) = pp_UUID pp"
  by (simp_all add: premium_renamed_def)

lemma identity_inv_rename_premium:
  assumes inv: "identity_inv uc X m" and pp: "gget (passportsByID m) i = Some pp" "pp_Kind pp = PassportKindPremium"
  shows "identity_inv uc X (m\<lparr>passportsByID := gput (passportsByID m) (pp_ID pp) (premium_renamed uc name t pp)\<rparr>)"
proof (rule identity_inv_put_passport [OF inv])
  have "pp_ID pp = i" using tables_okD(8) [OF identity_invD(1) [OF inv]] pp(1) unfolding ids_ok_def by blast
  then show "gget (passportsByID m) (pp_ID pp) = Some pp" using pp(1) by simp
  show "same_passport pp (premium_renamed uc name t pp)"
    unfolding same_passport_def premium_renamed_simps pp(2) by simp
qed

lemma identity_inv_put_primary:
  assumes inv: "identity_inv uc X m" and pr: "primaryProfileForPassportLocked m q = Inr pf"
    and id: "pf_ID pf' = pf_ID pf" "pl_ID pl = pf_ID pf"
  shows "identity_inv uc X (m\<lparr>profilesByID := gput (profilesByID m) (pf_ID pf') pf',
    playersByID := gput (playersByID m) (pl_ID pl) pl\<rparr>)"
proof -
  note p = primaryProfile_Inr [OF identity_invD(1) [OF inv] pr]
  have "pf_ID pf' \<noteq> []"
    using tables_okD(8) [OF identity_invD(1) [OF inv]] p(2) unfolding ids_ok_def id by blast
  from identity_inv_put_profile [OF inv this]
  have inv2: "identity_inv uc X (m\<lparr>profilesByID := gput (profilesByID m) (pf_ID pf') pf'\<rparr>)" (is "identity_inv uc X ?m") .
  have "link_of ?m (pl_ID pl) q \<noteq> None" using p(1) by (simp add: id)
  from identity_inv_put_player [OF inv2 this] show ?thesis by simp
qed

lemma identity_inv_UpsertPremiumPassportProfile:
  assumes inv: "identity_inv uc X m" and u: "length u = 16" "uuid_version u \<noteq> 8"
  shows "identity_inv uc X (fst (UpsertPremiumPassportProfile uc name u props t1 t2 t3 rnd m))"
proof (cases "TrimSpace name = []")
  case True
  with inv show ?thesis by (simp add: UpsertPremiumPassportProfile_def)
next
  case ne: False
  show ?thesis
  proof (cases "gfind (premium_with_uuid u) (passportsByID m)")
    case (Some pp)
    with gfind_Some [OF Some] obtain i where pp: "gget (passportsByID m) i = Some pp" "pp_Kind pp = PassportKindPremium"
      by (auto simp: premium_with_uuid_def)
    define m1 where "m1 = m\<lparr>passportsByID := gput (passportsByID m) (pp_ID pp) (premium_renamed uc (TrimSpace name) t1 pp)\<rparr>"
    have inv1: "identity_inv uc X m1"
      unfolding m1_def by (rule identity_inv_rename_premium [OF inv pp])
    note unfold = UpsertPremiumPassportProfile_def Let_def if_not_P [OF ne] Some option.case
      premium_renamed_def [symmetric] premium_renamed_simps m1_def [symmetric]
    show ?thesis
    proof (cases "primaryProfileForPassportLocked m1 (pp_ID pp)")
      case (Inl e)
      show ?thesis unfolding unfold Inl sum.case fst_conv by (rule inv1)
    next
      case (Inr pf)
      show ?thesis unfolding unfold Inr sum.case fst_conv
        by (rule identity_inv_put_primary [OF inv1 Inr]) simp_all
    qed
  next
    case None
    then have "\<forall>i pp. gget (passportsByID m) i = Some pp \<longrightarrow> \<not> premium_with_uuid u pp"
      by (auto simp: gfind_None)
    from premium_id_fresh [OF identity_invD(2) [OF inv] u this]
    have fresh: "gget (passportsByID m) (UUID_String u) = None" .
    let ?n = "NewPremiumPassport uc (TrimSpace name) u t1"
    let ?pp = "?n\<lparr>pp_SkinSource := NormalizePassportSkinSource uc (pp_Kind ?n) (pp_SkinSource ?n)\<rparr>"
    have "identity_inv uc X (m\<lparr>passportsByID := gput (passportsByID m) (pp_ID ?pp) ?pp\<rparr>)"
      by (rule identity_inv_add_premium [OF inv]) (use u fresh in simp_all)
    then have st: "identity_inv uc X (fst (storePassportProfileLocked uc t3 ?n profile True m))" if "pf_ID profile \<noteq> []" for profile
      by (intro identity_inv_store(1) [OF _ refl that]) simp
    have "pf_ID profile \<noteq> []" if "NewPremiumProfile uc pn props q rnd t2 = Inr profile" for pn q profile
      using NewPremiumProfile_Inr [OF that] by auto
    with st inv show ?thesis
      unfolding UpsertPremiumPassportProfile_def Let_def None option.case using ne
      by (auto split: sum.split prod.split) (metis fst_conv)
  qed
qed

lemma identity_inv_CreateProfile:
  assumes "identity_inv uc X m" shows "identity_inv uc X (fst (CreateProfile profile rnd now m))"
proof -
  have "identity_inv uc X (m\<lparr>profilesByID := gput (profilesByID m) (pf_ID p) p\<rparr>)" if "pf_ID p = UUID_String u" for p u
    by (rule identity_inv_put_profile [OF assms]) (simp add: that)
  with assms show ?thesis by (auto simp: CreateProfile_def Let_def split: sum.split)
qed

lemma identity_inv_BindProfileToPassport:
  assumes inv: "identity_inv uc X m" shows "identity_inv uc X (fst (BindProfileToPassport p q primary now m))"
proof (cases "is_ok (snd (BindProfileToPassport p q primary now m))")
  case False
  then have "fst (BindProfileToPassport p q primary now m) = m"
    by (auto simp: BindProfileToPassport_def split: option.splits if_splits prod.splits)
  with inv show ?thesis by simp
next
  case True
  then obtain pp pf where pp: "gget (passportsByID m) q = Some pp" and pf: "gget (profilesByID m) p = Some pf"
    and eq: "fst (BindProfileToPassport p q primary now m) = fst (linkProfileLocked now pp pf primary m)"
    by (auto simp: BindProfileToPassport_def split: option.splits if_splits prod.splits)
  have "pp_ID pp = q" "pf_ID pf = p"
    using tables_okD(8) [OF identity_invD(1) [OF inv]] pp pf by (simp_all add: ids_ok_def)
  with pp pf show ?thesis
    unfolding eq by (intro identity_inv_link [OF inv _ _ surjective_pairing]) simp_all
qed


subsection \<open>Status, activity, skins and credentials\<close>

lemma identity_inv_put_refresh:
  assumes inv: "identity_inv uc X m" and "pf_ID pf = p" "p \<noteq> []"
  shows "identity_inv uc X (fst (refreshProfilePlayerLocked p (m\<lparr>profilesByID := gput (profilesByID m) p pf\<rparr>)))"
  by (rule identity_inv_refresh) (use identity_inv_put_profile [OF inv] assms(2,3) in auto)

lemma profile_ids:
  assumes "identity_inv uc X m" "gget (profilesByID m) i = Some pf" shows "pf_ID pf = i" and "i \<noteq> []"
  using tables_okD(8) [OF identity_invD(1) [OF assms(1)]] assms(2) unfolding ids_ok_def by blast+

lemma passport_ids:
  assumes "identity_inv uc X m" "gget (passportsByID m) i = Some pp" shows "pp_ID pp = i"
  using tables_okD(8) [OF identity_invD(1) [OF assms(1)]] assms(2) unfolding ids_ok_def by blast

lemma refreshPassport_frame: "links_only m (refreshPassportPlayersLocked q m)"
proof -
  have "links_only m (foldl (\<lambda>m p. fst (refreshProfilePlayerLocked p m)) m ps)" for ps
    by (induction ps rule: rev_induct) (auto intro: links_only_trans refresh_fields)
  then show ?thesis by (simp add: refreshPassportPlayersLocked_def)
qed

lemma identity_inv_cleanup:
  "identity_inv uc X m \<Longrightarrow> identity_inv uc X (cleanupDeletedPassportReferencesLocked q m)"
  by (erule identity_inv_eq) (simp_all add: cleanupDeletedPassportReferencesLocked_def Let_def)

lemma identity_inv_SetPassportStatus:
  assumes inv: "identity_inv uc X m" shows "identity_inv uc X (fst (SetPassportStatus q s t m))"
proof (cases "gget (passportsByID m) q")
  case (Some pp)
  have "identity_inv uc X (m\<lparr>passportsByID := gput (passportsByID m) q (pp\<lparr>pp_Status := s, pp_UpdatedAt := t\<rparr>)\<rparr>)"
    by (rule identity_inv_put_passport [OF inv Some]) (simp add: same_passport_def)
  then show ?thesis
    unfolding SetPassportStatus_def Some Let_def
    by (auto intro: identity_inv_refreshPassport identity_inv_cleanup)
qed (use inv in \<open>simp add: SetPassportStatus_def\<close>)

lemma identity_inv_SetProfileStatus:
  assumes inv: "identity_inv uc X m" shows "identity_inv uc X (fst (SetProfileStatus p s t m))"
proof (cases "gget (profilesByID m) p")
  case (Some pf)
  note id = profile_ids [OF inv Some]
  show ?thesis
    unfolding SetProfileStatus_def Some Let_def
    using identity_inv_put_refresh [OF inv, of "pf\<lparr>pf_Status := s, pf_UpdatedAt := t\<rparr>" p] id by simp
qed (use inv in \<open>simp add: SetProfileStatus_def\<close>)

lemma identity_inv_UpdateProfileIdentity:
  assumes inv: "identity_inv uc X m" shows "identity_inv uc X (fst (UpdateProfileIdentity uc p name t m))"
proof -
  have "identity_inv uc X (fst (refreshProfilePlayerLocked (pf_ID pf) (m\<lparr>profilesByID := gput (profilesByID m) (pf_ID pf) pf'\<rparr>)))"
    "identity_inv uc X (m\<lparr>profilesByID := gput (profilesByID m) (pf_ID pf) pf'\<rparr>)"
    if "gget (profilesByID m) i = Some pf" "pf_ID pf' = pf_ID pf" for i pf pf'
    using identity_inv_put_refresh [OF inv that(2)] identity_inv_put_profile [OF inv, of pf']
      profile_ids [OF inv that(1)] that(2) by simp_all
  note this [where pf' = "_\<lparr>pf_ProtocolName := _, pf_NormalizedName := _, pf_DisplayName := _, pf_UpdatedAt := _\<rparr>"]
  with inv show ?thesis
    by (auto simp: UpdateProfileIdentity_def Let_def split: sum.split option.split)
qed

lemma identity_inv_SetPlayerLocked:
  assumes inv: "identity_inv uc X m" shows "identity_inv uc X (fst (SetPlayerLocked i locked t m))"
proof (cases "gget (passportsByID m) i")
  case (Some pp)
  let ?pp = "pp\<lparr>pp_Status := (if locked then PassportStatusLocked else PassportStatusActive), pp_UpdatedAt := t\<rparr>"
  let ?m = "refreshPassportPlayersLocked i (m\<lparr>passportsByID := gput (passportsByID m) i ?pp\<rparr>)"
  have "identity_inv uc X (m\<lparr>passportsByID := gput (passportsByID m) i ?pp\<rparr>)"
    by (rule identity_inv_put_passport [OF inv Some]) (simp add: same_passport_def)
  then have "identity_inv uc X ?m" by (rule identity_inv_refreshPassport)
  then show ?thesis
    unfolding SetPlayerLocked_def Some Let_def option.case
    by (cases "primaryProfileForPassportLocked ?m i") (simp_all only: sum.case fst_conv)
next
  case None
  show ?thesis
  proof (cases "gget (profilesByID m) i")
    case (Some pf)
    note id = profile_ids [OF inv Some]
    let ?pf = "pf\<lparr>pf_Status := (if locked then ProfileStatusLocked else ProfileStatusActive), pf_UpdatedAt := t\<rparr>"
    have "identity_inv uc X (fst (refreshProfilePlayerLocked i (m\<lparr>profilesByID := gput (profilesByID m) i ?pf\<rparr>)))"
      by (rule identity_inv_put_refresh [OF inv]) (use id in simp_all)
    then show ?thesis
      unfolding SetPlayerLocked_def None Some Let_def option.case
      by (cases "refreshProfilePlayerLocked i (m\<lparr>profilesByID := gput (profilesByID m) i ?pf\<rparr>)") simp
  qed (use inv None in \<open>simp add: SetPlayerLocked_def\<close>)
qed

lemma identity_inv_RecordPlayerSeen:
  assumes inv: "identity_inv uc X m" shows "identity_inv uc X (RecordPlayerSeen q p s ip g t m)"
proof -
  have 1: "identity_inv uc X (case gget (passportsByID m) q of None \<Rightarrow> m
      | Some pp \<Rightarrow> m\<lparr>passportsByID := gput (passportsByID m) q
          (pp\<lparr>pp_LastSeenServer := a, pp_LastSeenAt := b, pp_LastSeenIP := c, pp_LastSeenGeo := d, pp_UpdatedAt := e\<rparr>)\<rparr>)"
    for q a b c d e
    using inv by (auto split: option.split intro!: identity_inv_put_passport simp: same_passport_def)
  have 2: "identity_inv uc X (case gget (profilesByID m') p of None \<Rightarrow> m'
      | Some pf \<Rightarrow> fst (refreshProfilePlayerLocked p (m'\<lparr>profilesByID := gput (profilesByID m') p
          (pf\<lparr>pf_LastSeenServer := a, pf_LastSeenAt := b, pf_LastSeenIP := c, pf_LastSeenGeo := d, pf_UpdatedAt := e\<rparr>)\<rparr>)))"
    if "identity_inv uc X m'" for m' p a b c d e
  proof (cases "gget (profilesByID m') p")
    case (Some pf)
    show ?thesis
      unfolding Some option.case
      by (rule identity_inv_put_refresh [OF that]) (use profile_ids [OF that Some] in simp_all)
  qed (simp add: that)
  show ?thesis
    unfolding RecordPlayerSeen_def Let_def
    using inv by (auto intro!: 1 2 identity_inv_refreshPassport)
qed

lemma identity_inv_refresh_skin:
  assumes "identity_inv uc X m" and "gget (profilesByID m) p = Some pf" and "pf_ID pf' = pf_ID pf"
  shows "identity_inv uc X (fst (refreshProfilePlayerLocked p (m\<lparr>profileSkins := s, profilesByID := gput (profilesByID m) p pf'\<rparr>)))"
proof -
  have "identity_inv uc X (m\<lparr>profileSkins := s\<rparr>)" by (rule identity_inv_eq [OF assms(1)]) simp_all
  from identity_inv_put_refresh [OF this, of pf' p] show ?thesis
    using profile_ids [OF assms(1,2)] assms(3) by simp
qed

lemma identity_inv_profile_skins:
  assumes inv: "identity_inv uc X m"
  shows "identity_inv uc X (fst (SetProfileSkin p skin props t m))"
    and "identity_inv uc X (fst (DeleteProfileSkin p props src t m))"
    and "identity_inv uc X (fst (SetProfileSkinSource p src props t m))"
proof -
  show "identity_inv uc X (fst (SetProfileSkin p skin props t m))"
    using inv identity_inv_refresh_skin [OF inv]
    by (auto simp: SetProfileSkin_def Let_def split: option.split)
  show "identity_inv uc X (fst (DeleteProfileSkin p props src t m))"
    using inv identity_inv_refresh_skin [OF inv]
    by (auto simp: DeleteProfileSkin_def Let_def split: option.split)
  show "identity_inv uc X (fst (SetProfileSkinSource p src props t m))"
  proof (cases "gget (profilesByID m) (TrimSpace p)")
    case (Some pf)
    show ?thesis
      unfolding SetProfileSkinSource_def Let_def Some option.case fst_conv
      by (rule identity_inv_put_refresh [OF inv]) (use profile_ids [OF inv Some] in simp_all)
  qed (use inv in \<open>simp add: SetProfileSkinSource_def\<close>)
qed

lemma identity_inv_passport_skins:
  assumes inv: "identity_inv uc X m"
  shows "identity_inv uc X (fst (SetPassportSkin q ps t m))"
    and "identity_inv uc X (fst (SetPassportSkinSource uc q src t m))"
    and "identity_inv uc X (fst (DeletePassportSkin q t m))"
proof -
  have put: "identity_inv uc X (m\<lparr>passportSkins := s, passportsByID := gput (passportsByID m) i pp'\<rparr>)"
    if "gget (passportsByID m) i = Some pp" "same_passport pp pp'" for s i pp pp'
    using identity_inv_put_passport [OF inv that] by (rule identity_inv_eq) simp_all
  show "identity_inv uc X (fst (SetPassportSkin q ps t m))"
    using inv put by (auto simp: SetPassportSkin_def Let_def same_passport_def split: option.split)
  show "identity_inv uc X (fst (DeletePassportSkin q t m))"
    using inv put by (auto simp: DeletePassportSkin_def Let_def same_passport_def split: option.split)
  show "identity_inv uc X (fst (SetPassportSkinSource uc q src t m))"
    using inv by (auto simp: SetPassportSkinSource_def Let_def same_passport_def split: option.split
        intro!: identity_inv_put_passport)
qed

lemma identity_inv_credentials:
  assumes inv: "identity_inv uc X m"
  shows "identity_inv uc X (fst (RecordOfflineLoginFailure i t m))"
    and "identity_inv uc X (fst (RecordOfflineLoginSuccess i m))"
    and "identity_inv uc X (fst (SetPassportPasswordRecovery i e k t m))"
    and "identity_inv uc X (fst (UpdateOfflinePassword i h e k t m))"
proof -
  have put: "identity_inv uc X (m\<lparr>credentialsByPlayer := gput (credentialsByPlayer m) q c\<rparr>)"
    if "gget (credentialsByPlayer m) q \<noteq> None" for q c
    using identity_invD(4) [OF inv] that identity_inv_put_credential [OF inv] unfolding credentials_ok_def by blast
  show "identity_inv uc X (fst (RecordOfflineLoginFailure i t m))"
    using inv put by (auto simp: RecordOfflineLoginFailure_def Let_def split: option.split)
  show "identity_inv uc X (fst (RecordOfflineLoginSuccess i m))"
    using inv put by (auto simp: RecordOfflineLoginSuccess_def Let_def split: option.split)
  show "identity_inv uc X (fst (SetPassportPasswordRecovery i e k t m))"
    using inv put by (auto simp: SetPassportPasswordRecovery_def Let_def split: option.split)
  have upd: "identity_inv uc X (m\<lparr>credentialsByPlayer := gput (credentialsByPlayer m) q c, portalAuthCache := a\<rparr>)"
    if "pp_Kind (passport_at m q) = PassportKindOffline" for q c a
  proof -
    from that obtain pp where "gget (passportsByID m) q = Some pp" "pp_Kind pp = PassportKindOffline"
      by (auto simp: passport_at_def zero_Passport_def split: option.splits)
    then have "offline_passport m q (pp_UsernameNormalized pp)" by (simp add: offline_passport_def)
    from identity_inv_put_credential [OF inv this] show ?thesis by (rule identity_inv_eq) simp_all
  qed
  show "identity_inv uc X (fst (UpdateOfflinePassword i h e k t m))"
    using inv by (auto simp: UpdateOfflinePassword_def Let_def intro!: upd split: if_splits)
qed

end
