(* ===== verification/StoreDelete.thy ===== *)
theory StoreDelete
  imports StoreReach
begin

text \<open>
  Unbinding and deletion: what is left of the tables when a profile or a passport goes, and that
  the identity invariant survives.  While a passport is being deleted its remaining links may
  lack a primary, so the loop of \<^verbatim>\<open>DeletePassport\<close> runs under the invariant with that passport
  exempt.
\<close>

subsection \<open>Unbinding and deletion\<close>

text \<open>What unlinking leaves of the links.\<close>

lemma unlink_linked:
  assumes ok: "tables_ok X m" and l: "link_of m p q \<noteq> None"
    and r: "unlinkProfileLocked p q promote m = (m', res)"
  shows "res = Inr ()" and "links_only m m'"
    and "link_of m' p' q' \<noteq> None \<longleftrightarrow> \<not> (p' = p \<and> q' = q) \<and> link_of m p' q' \<noteq> None"
proof -
  obtain l where l: "link_of m p q = Some l" using l by blast
  obtain sel where e: "res = Inr ()" "links_only m m'"
    "\<And>p' q'. link_of m' p' q' = (if p' = p \<and> q' = q then None
        else if q' = q \<and> sel = Some p' then map_option set_primary (link_of m p' q') else link_of m p' q')"
    by (rule unlinkProfileLocked_eq [OF ok l r]) (rule that; assumption)
  show "res = Inr ()" "links_only m m'" by (rule e)+
  show "link_of m' p' q' \<noteq> None \<longleftrightarrow> \<not> (p' = p \<and> q' = q) \<and> link_of m p' q' \<noteq> None"
    unfolding e(3) by auto
qed

lemma unlink_all_inv:
  "identity_inv uc X m \<Longrightarrow> (\<not> promote \<Longrightarrow> set qs \<subseteq> X) \<Longrightarrow> identity_inv uc X (fst (unlink_all p promote qs m))"
proof (induction qs arbitrary: m)
  case (Cons q qs)
  obtain m1 r where m1: "unlinkProfileLocked p q promote m = (m1, r)" by (cases "unlinkProfileLocked p q promote m")
  have "identity_inv uc X m1"
    by (rule identity_inv_unlink [OF Cons.prems(1) m1]) (use Cons.prems(2) in auto)
  with Cons m1 show ?case by (cases r) auto
qed simp

lemma unlink_all_linked:
  assumes "identity_inv uc X m" "\<not> promote \<Longrightarrow> set qs \<subseteq> X" "distinct qs" "\<And>q. q \<in> set qs \<Longrightarrow> link_of m p q \<noteq> None"
    and "unlink_all p promote qs m = (m', r)"
  shows "r = Inr () \<and> links_only m m' \<and>
    (\<forall>p' q'. link_of m' p' q' \<noteq> None \<longleftrightarrow> \<not> (p' = p \<and> q' \<in> set qs) \<and> link_of m p' q' \<noteq> None)"
  using assms
proof (induction qs arbitrary: m)
  case (Cons q qs)
  obtain m1 r1 where m1: "unlinkProfileLocked p q promote m = (m1, r1)" by (cases "unlinkProfileLocked p q promote m")
  have "link_of m p q \<noteq> None" by (rule Cons.prems(4)) simp
  note u = unlink_linked [OF identity_invD(1) [OF Cons.prems(1)] this m1]
  have inv1: "identity_inv uc X m1"
    by (rule identity_inv_unlink [OF Cons.prems(1) m1]) (use Cons.prems(2) in auto)
  have "link_of m1 p q' \<noteq> None" if "q' \<in> set qs" for q'
    using that Cons.prems(3,4) unfolding u(3) by auto
  moreover have "unlink_all p promote qs m1 = (m', r)" using Cons.prems(5) m1 u(1) by simp
  ultimately have ih: "r = Inr () \<and> links_only m1 m' \<and>
    (\<forall>p' q'. link_of m' p' q' \<noteq> None \<longleftrightarrow> \<not> (p' = p \<and> q' \<in> set qs) \<and> link_of m1 p' q' \<noteq> None)"
    using Cons.prems(2,3) inv1 by (intro Cons.IH) auto
  show ?case
  proof (intro conjI allI)
    show "r = Inr ()" using ih by blast
    show "links_only m m'" using ih u(2) links_only_trans by blast
    show "link_of m' p' q' \<noteq> None \<longleftrightarrow> \<not> (p' = p \<and> q' \<in> set (q # qs)) \<and> link_of m p' q' \<noteq> None" for p' q'
      using ih unfolding u(3) by (metis list.set_intros set_ConsD)
  qed
qed simp

lemma identity_inv_Unbind:
  assumes "identity_inv uc X m"
  shows "identity_inv uc X (fst (UnbindProfileFromPassport p q m))" and "identity_inv uc X (fst (UnbindProfile p m))"
proof -
  show "identity_inv uc X (fst (UnbindProfileFromPassport p q m))"
    unfolding UnbindProfileFromPassport_def
    by (rule identity_inv_unlink [OF assms surjective_pairing]) simp_all
  show "identity_inv uc X (fst (UnbindProfile p m))"
    using assms by (auto simp: UnbindProfile_def Let_def intro: unlink_all_inv)
qed

lemma identity_inv_drop_profile:
  assumes inv: "identity_inv uc X m" and no: "\<And>q. link_of m p q = None"
    and g: "passportsByID m' = passportsByID m" "profilesByID m' = gdel (profilesByID m) p"
      "passportByUsername m' = passportByUsername m" "profileLinks m' = profileLinks m"
      "profilesByPassport m' = profilesByPassport m" "playersByID m' = gdel (playersByID m) p"
      "offlineByNormalized m' = offlineByNormalized m" "credentialsByPlayer m' = credentialsByPlayer m"
  shows "identity_inv uc X m'"
proof -
  note ok = identity_invD(1) [OF inv]
  have op: "offline_passport m' q n = offline_passport m q n" "is_primary m' p q = is_primary m p q" for p q n
    by (simp_all add: offline_passport_def is_primary_def g)
  have "link_targets m'"
    using tables_okD(5) [OF ok] no unfolding link_targets_def g by (auto simp: lookup_delete)
  moreover have "ids_ok m'"
    using tables_okD(8) [OF ok] by (simp add: ids_ok_def g)
  moreover have "players_ok m'"
    using tables_okD(9) [OF ok] no unfolding players_ok_def g by auto
  ultimately show ?thesis
    using inv
    unfolding identity_inv_def tables_ok_def link_keys_def link_sym_def one_primary_def has_primary_def
      names_ok_def offline_ok_def credentials_ok_def op g
    by simp
qed

text \<open>
  \<open>deleteProfileLocked\<close> removes the profile with all its links and touches no other link's
  existence.
\<close>

lemma deleteProfile_linked:
  assumes inv: "identity_inv uc X m" and p: "gget (profilesByID m) p = Some pf"
    and X: "promote \<or> (\<forall>q. link_of m p q \<noteq> None \<longrightarrow> q \<in> X)"
    and r: "deleteProfileLocked p promote m = (m', r)"
  shows "r = Inr pf" and "identity_inv uc X m'" and "passportsByID m' = passportsByID m"
    and "profilesByID m' = gdel (profilesByID m) p"
    and "link_of m' p' q' \<noteq> None \<longleftrightarrow> p' \<noteq> p \<and> link_of m p' q' \<noteq> None"
proof -
  let ?m0 = "m\<lparr>presencesByID := grange_del (\<lambda>_ pc. pc_ProfileID pc = p) (presencesByID m)\<rparr>"
  let ?qs = "gkeys (links_of m p)"
  have qs: "q \<in> set ?qs \<longleftrightarrow> link_of m p q \<noteq> None" for q by (simp add: gget2_ginner)
  have inv0: "identity_inv uc X ?m0" by (rule identity_inv_eq [OF inv]) simp_all
  obtain m1 r1 where m1: "unlink_all p promote ?qs ?m0 = (m1, r1)" by (cases "unlink_all p promote ?qs ?m0")
  have sub: "set ?qs \<subseteq> X" if "\<not> promote" using X that qs by auto
  have u: "r1 = Inr () \<and> links_only ?m0 m1 \<and>
    (\<forall>p' q'. link_of m1 p' q' \<noteq> None \<longleftrightarrow> \<not> (p' = p \<and> q' \<in> set ?qs) \<and> link_of ?m0 p' q' \<noteq> None)"
    by (rule unlink_all_linked [OF inv0 sub _ _ m1]) (use qs in auto)
  then have lk: "link_of m1 p' q' \<noteq> None \<longleftrightarrow> p' \<noteq> p \<and> link_of m p' q' \<noteq> None" for p' q'
    by (auto simp: gget2_ginner [symmetric])
  have f: "links_only ?m0 m1" using u by blast
  have inv1: "identity_inv uc X m1"
    using unlink_all_inv [OF inv0 sub, where promote = promote and p = p] m1 by simp
  have res: "r = Inr pf" "passportsByID m' = passportsByID m1" "profilesByID m' = gdel (profilesByID m1) p"
    "passportByUsername m' = passportByUsername m1" "profileLinks m' = profileLinks m1"
    "profilesByPassport m' = profilesByPassport m1" "playersByID m' = gdel (playersByID m1) p"
    "offlineByNormalized m' = offlineByNormalized m1" "credentialsByPlayer m' = credentialsByPlayer m1"
    using r m1 u by (auto simp: deleteProfileLocked_def Let_def p)
  show "r = Inr pf" by (rule res)
  show "identity_inv uc X m'"
    by (rule identity_inv_drop_profile [OF inv1 _ res(2-)]) (use lk in blast)
  show "passportsByID m' = passportsByID m" "profilesByID m' = gdel (profilesByID m) p"
    by (simp_all add: res(2,3) links_only_fields [OF f])
  show "link_of m' p' q' \<noteq> None \<longleftrightarrow> p' \<noteq> p \<and> link_of m p' q' \<noteq> None" unfolding res(5) by (rule lk)
qed

lemma identity_inv_DeleteProfile:
  assumes inv: "identity_inv uc X m" shows "identity_inv uc X (fst (DeleteProfile i m))"
proof (cases "gget (profilesByID m) (TrimSpace i)")
  case None
  with inv show ?thesis by (simp add: DeleteProfile_def deleteProfileLocked_def)
next
  case (Some pf)
  show ?thesis
    unfolding DeleteProfile_def
    by (rule deleteProfile_linked(2) [OF inv Some _ surjective_pairing]) simp
qed

text \<open>The loop of \<open>DeletePassport\<close> never fails, and leaves no link to the passport.\<close>

lemma drop_profiles_linked:
  assumes "identity_inv uc {q} m" "distinct ps" "\<And>p. p \<in> set ps \<Longrightarrow> link_of m p q \<noteq> None"
    and "drop_profiles q ps m = (m', r)"
  shows "r = Inr () \<and> identity_inv uc {q} m' \<and> passportsByID m' = passportsByID m \<and>
    (\<forall>p' q'. link_of m' p' q' \<noteq> None \<longleftrightarrow> \<not> (p' \<in> set ps \<and> q' = q) \<and> link_of m p' q' \<noteq> None) \<and>
    (\<forall>p. gget (profilesByID m') p =
       (if p \<in> set ps \<and> (\<forall>q'. q' \<noteq> q \<longrightarrow> link_of m p q' = None) then None else gget (profilesByID m) p))"
  using assms
proof (induction ps arbitrary: m)
  case (Cons p ps)
  note inv = Cons.prems(1)
  note ok = identity_invD(1) [OF inv]
  have lp: "link_of m p q \<noteq> None" by (rule Cons.prems(3)) simp
  then obtain pf where pf: "gget (profilesByID m) p = Some pf"
    using tables_okD(5) [OF ok] unfolding link_targets_def by blast
  have single: "glen (links_of m p) = 1 \<longleftrightarrow> (\<forall>q'. q' \<noteq> q \<longrightarrow> link_of m p q' = None)"
    using lp unfolding glen_1_iff gget2_ginner by (metis option.exhaust)
  obtain m1 where step: "drop_profiles q (p # ps) m = drop_profiles q ps m1" and inv1: "identity_inv uc {q} m1"
    and pass: "passportsByID m1 = passportsByID m"
    and lk: "\<And>p' q'. link_of m1 p' q' \<noteq> None \<longleftrightarrow> \<not> (p' = p \<and> q' = q) \<and> link_of m p' q' \<noteq> None"
    and prof: "\<And>p'. gget (profilesByID m1) p' =
       (if p' = p \<and> (\<forall>q'. q' \<noteq> q \<longrightarrow> link_of m p q' = None) then None else gget (profilesByID m) p')"
  proof (cases "glen (links_of m p) = 1")
    case True
    obtain m1 r1 where m1: "deleteProfileLocked p False m = (m1, r1)" by (cases "deleteProfileLocked p False m")
    have S: "link_of m p q' = None" if "q' \<noteq> q" for q' using True that unfolding single by (elim allE impE)
    then have "False \<or> (\<forall>q'. link_of m p q' \<noteq> None \<longrightarrow> q' \<in> {q})" by (metis singletonI)
    note d = deleteProfile_linked [OF inv pf this m1]
    show thesis
    proof (rule that)
      show "drop_profiles q (p # ps) m = drop_profiles q ps m1" using True m1 d(1) by simp
      show "link_of m1 p' q' \<noteq> None \<longleftrightarrow> \<not> (p' = p \<and> q' = q) \<and> link_of m p' q' \<noteq> None" for p' q'
        unfolding d(5) using S [of q'] by (cases "q' = q") auto
      show "gget (profilesByID m1) p' =
          (if p' = p \<and> (\<forall>q'. q' \<noteq> q \<longrightarrow> link_of m p q' = None) then None else gget (profilesByID m) p')" for p'
        using True unfolding d(4) single by simp
    qed (fact d(2), fact d(3))
  next
    case False
    obtain m1 r1 where m1: "unlinkProfileLocked p q False m = (m1, r1)" by (cases "unlinkProfileLocked p q False m")
    note u = unlink_linked [OF ok lp m1]
    show thesis
    proof (rule that)
      show "drop_profiles q (p # ps) m = drop_profiles q ps m1" using False m1 u(1) by simp
      show "identity_inv uc {q} m1" by (rule identity_inv_unlink [OF inv m1]) simp_all
      show "gget (profilesByID m1) p' =
          (if p' = p \<and> (\<forall>q'. q' \<noteq> q \<longrightarrow> link_of m p q' = None) then None else gget (profilesByID m) p')" for p'
        using False unfolding single by (simp only: links_only_fields [OF u(2)] simp_thms if_False)
      show "passportsByID m1 = passportsByID m" by (rule links_only_fields [OF u(2)])
      show "link_of m1 p' q' \<noteq> None \<longleftrightarrow> \<not> (p' = p \<and> q' = q) \<and> link_of m p' q' \<noteq> None" for p' q' by (rule u(3))
    qed
  qed
  have ih: "r = Inr () \<and> identity_inv uc {q} m' \<and> passportsByID m' = passportsByID m1 \<and>
    (\<forall>p' q'. link_of m' p' q' \<noteq> None \<longleftrightarrow> \<not> (p' \<in> set ps \<and> q' = q) \<and> link_of m1 p' q' \<noteq> None) \<and>
    (\<forall>p. gget (profilesByID m') p =
       (if p \<in> set ps \<and> (\<forall>q'. q' \<noteq> q \<longrightarrow> link_of m1 p q' = None) then None else gget (profilesByID m1) p))"
  proof (rule Cons.IH [OF inv1])
    show "distinct ps" using Cons.prems(2) by simp
    show "link_of m1 p' q \<noteq> None" if "p' \<in> set ps" for p'
      using that Cons.prems(2,3) unfolding lk by auto
    show "drop_profiles q ps m1 = (m', r)" using Cons.prems(4) step by simp
  qed
  have others: "(\<forall>q'. q' \<noteq> q \<longrightarrow> link_of m1 p' q' = None) \<longleftrightarrow> (\<forall>q'. q' \<noteq> q \<longrightarrow> link_of m p' q' = None)" for p'
  proof -
    have "q' \<noteq> q \<Longrightarrow> link_of m1 p' q' = None \<longleftrightarrow> link_of m p' q' = None" for q' using lk [of p' q'] by auto
    then show ?thesis by simp
  qed
  show ?case
  proof (intro conjI allI)
    show "r = Inr ()" "identity_inv uc {q} m'" "passportsByID m' = passportsByID m" using ih pass by simp_all
    show "link_of m' p' q' \<noteq> None \<longleftrightarrow> \<not> (p' \<in> set (p # ps) \<and> q' = q) \<and> link_of m p' q' \<noteq> None" for p' q'
      using ih unfolding lk by (metis list.set_intros set_ConsD)
    show "gget (profilesByID m') p' =
       (if p' \<in> set (p # ps) \<and> (\<forall>q'. q' \<noteq> q \<longrightarrow> link_of m p' q' = None) then None else gget (profilesByID m) p')" for p'
      using ih unfolding others prof by (auto simp del: not_None_eq)
  qed
qed simp

lemma identity_inv_purge:
  assumes inv: "identity_inv uc {q} m" and q: "gget (passportsByID m) q = Some pp" and no: "\<And>p. link_of m p q = None"
  shows "identity_inv uc {} (purge_passport q pp m)" (is "identity_inv uc {} ?m")
proof -
  note ok = identity_invD(1) [OF inv]
  have g: "passportsByID ?m = gdel (passportsByID m) q" "profilesByID ?m = profilesByID m"
    "passportByUsername ?m = gdel (passportByUsername m) (pp_UsernameNormalized pp)" "profileLinks ?m = profileLinks m"
    "profilesByPassport ?m = gdel (profilesByPassport m) q" "playersByID ?m = playersByID m"
    "offlineByNormalized ?m = offlineByNormalized m" "credentialsByPlayer ?m = gdel (credentialsByPlayer m) q"
    by (simp_all add: purge_passport_def Let_def)
  have off: "offline_passport ?m q' n \<longleftrightarrow> q' \<noteq> q \<and> offline_passport m q' n" for q' n
    by (auto simp: offline_passport_def g)
  have prim: "is_primary ?m p q' = is_primary m p q'" for p q'
    by (simp add: is_primary_def g)
  have noprim: "\<not> is_primary m p q" for p using no [of p] by (simp add: is_primary_def)
  have nopb: "gget2 (profilesByPassport m) q p = None" for p
    using no tables_okD(2) [OF ok] unfolding link_sym_def by blast
  have "link_keys ?m" using tables_okD(1) [OF ok] by (simp add: link_keys_def g)
  moreover have "link_sym ?m"
    using tables_okD(2) [OF ok] nopb unfolding link_sym_def g by auto
  moreover have "no_empty (profileLinks ?m)" "no_empty (profilesByPassport ?m)"
    using tables_okD(3,4) [OF ok] by (simp_all add: g no_empty_gdel)
  moreover have "link_targets ?m"
    using tables_okD(5) [OF ok] no unfolding link_targets_def g by (auto simp: lookup_delete)
  moreover have "one_primary ?m" using tables_okD(6) [OF ok] unfolding one_primary_def prim .
  moreover have "has_primary {} ?m"
    unfolding has_primary_def prim g
  proof (intro allI impI)
    fix x q' assume x: "link_of m x q' \<noteq> None"
    then have "q' \<notin> {q}" using no [of x] by auto
    with x tables_okD(7) [OF ok] show "\<exists>p'. is_primary m p' q'" unfolding has_primary_def by blast
  qed
  moreover have "ids_ok ?m" using tables_okD(8) [OF ok] by (simp add: ids_ok_def g)
  moreover have "players_ok ?m" using tables_okD(9) [OF ok] unfolding players_ok_def g .
  moreover have "names_ok uc ?m"
    unfolding names_ok_def off g
  proof (intro conjI allI impI)
    note names = identity_invD(2) [OF inv, unfolded names_ok_def]
    show "i = UUID_String (OfflinePassportUUID uc n)" if "i \<noteq> q \<and> offline_passport m i n" for i n
      using that names by blast
    fix n i assume i: "gget (gdel (passportByUsername m) (pp_UsernameNormalized pp)) n = Some i"
    then have n: "n \<noteq> pp_UsernameNormalized pp" and "gget (passportByUsername m) n = Some i"
      by (auto simp: lookup_delete split: if_splits)
    with names show off: "offline_passport m i n" by blast
    show "i \<noteq> q" using off n q by (auto simp: offline_passport_def)
  next
    fix i p assume "gget (gdel (passportsByID m) q) i = Some p"
    then have "gget (passportsByID m) i = Some p" by (auto simp: lookup_delete split: if_splits)
    with identity_invD(2) [OF inv]
    show "pp_Kind p = PassportKindOffline \<or> pp_Kind p = PassportKindPremium \<and> i = UUID_String (pp_UUID p) \<and>
        length (pp_UUID p) = 16 \<and> uuid_version (pp_UUID p) \<noteq> 8" unfolding names_ok_def by blast
  qed
  moreover have "offline_ok ?m"
  proof -
    have "(\<exists>q'. (q' \<noteq> q \<and> offline_passport m q' n) \<and> is_primary m p q') \<longleftrightarrow> (\<exists>q'. offline_passport m q' n \<and> is_primary m p q')" for n p
      by (intro arg_cong [where f = Ex] ext) (use noprim [of p] in auto)
    then show ?thesis using identity_invD(3) [OF inv] unfolding offline_ok_def off prim g by simp
  qed
  moreover have "credentials_ok ?m"
    unfolding credentials_ok_def off g
  proof (intro allI impI)
    fix i assume "gget (gdel (credentialsByPlayer m) q) i \<noteq> None"
    then have "i \<noteq> q" "gget (credentialsByPlayer m) i \<noteq> None" by (auto simp: lookup_delete split: if_splits)
    with identity_invD(4) [OF inv] show "\<exists>n. i \<noteq> q \<and> offline_passport m i n" unfolding credentials_ok_def by blast
  qed
  ultimately show ?thesis by (simp add: identity_inv_def tables_ok_def)
qed

text \<open>A deletion of an existing passport succeeds.\<close>

lemma DeletePassport_eq:
  assumes inv: "identity_inv uc {} m" and q: "gget (passportsByID m) (TrimSpace i) = Some pp"
  obtains m' where "DeletePassport i m = (purge_passport (TrimSpace i) pp m', Inr pp)"
    "identity_inv uc {TrimSpace i} m'" "passportsByID m' = passportsByID m"
    "\<And>p' q'. link_of m' p' q' \<noteq> None \<longleftrightarrow> q' \<noteq> TrimSpace i \<and> link_of m p' q' \<noteq> None"
    "\<And>p. gget (profilesByID m') p = (if link_of m p (TrimSpace i) \<noteq> None \<and>
       (\<forall>q'. q' \<noteq> TrimSpace i \<longrightarrow> link_of m p q' = None) then None else gget (profilesByID m) p)"
proof -
  let ?q = "TrimSpace i"
  let ?ps = "gkeys (profiles_of m ?q)"
  have inv': "identity_inv uc {?q} m" by (rule identity_inv_mono [OF inv]) simp
  have ps: "p \<in> set ?ps \<longleftrightarrow> link_of m p ?q \<noteq> None" for p
    using tables_okD(2) [OF identity_invD(1) [OF inv]] by (simp add: link_sym_def gget2_ginner del: not_None_eq) auto
  obtain m' r where m': "drop_profiles ?q ?ps m = (m', r)" by (cases "drop_profiles ?q ?ps m")
  have d: "r = Inr () \<and> identity_inv uc {?q} m' \<and> passportsByID m' = passportsByID m \<and>
    (\<forall>p' q'. link_of m' p' q' \<noteq> None \<longleftrightarrow> \<not> (p' \<in> set ?ps \<and> q' = ?q) \<and> link_of m p' q' \<noteq> None) \<and>
    (\<forall>p. gget (profilesByID m') p =
       (if p \<in> set ?ps \<and> (\<forall>q'. q' \<noteq> ?q \<longrightarrow> link_of m p q' = None) then None else gget (profilesByID m) p))"
    by (rule drop_profiles_linked [OF inv' _ _ m']) (use ps in auto)
  show thesis
  proof (rule that)
    show "DeletePassport i m = (purge_passport ?q pp m', Inr pp)"
      using d m' q by (simp add: DeletePassport_def Let_def)
    show "link_of m' p' q' \<noteq> None \<longleftrightarrow> q' \<noteq> ?q \<and> link_of m p' q' \<noteq> None" for p' q' using d ps by blast
  qed (use d ps in \<open>auto simp del: not_None_eq\<close>)
qed

lemma identity_inv_DeletePassport:
  assumes inv: "identity_inv uc {} m" shows "identity_inv uc {} (fst (DeletePassport i m))"
proof (cases "gget (passportsByID m) (TrimSpace i)")
  case None
  with inv show ?thesis by (simp add: DeletePassport_def)
next
  case (Some pp)
  obtain m' where m': "DeletePassport i m = (purge_passport (TrimSpace i) pp m', Inr pp)"
    "identity_inv uc {TrimSpace i} m'" "passportsByID m' = passportsByID m"
    "\<And>p' q'. link_of m' p' q' \<noteq> None \<longleftrightarrow> q' \<noteq> TrimSpace i \<and> link_of m p' q' \<noteq> None"
    by (rule DeletePassport_eq [OF inv Some]) (rule that; assumption)
  show ?thesis
    unfolding m'(1) fst_conv 
  proof (rule identity_inv_purge [OF m'(2)])
    show "gget (passportsByID m') (TrimSpace i) = Some pp" using m'(3) Some by simp
    show "link_of m' p (TrimSpace i) = None" for p using m'(4) by blast
  qed
qed

lemma identity_inv_FactoryReset: "identity_inv uc X (FactoryResetPlayerData m)"
  by (rule identity_inv_eq [OF identity_inv_NewMemory])
    (simp_all add: FactoryResetPlayerData_def NewMemory_def)

subsection \<open>What a deletion leaves behind\<close>

text \<open>
  No table refers to the passport \<open>q\<close>, but for the note in a profile which passport it was created from
  (\<^verbatim>\<open>CreatedFromPassport\<close>) and the audit log.
\<close>

definition passport_erased :: "string \<Rightarrow> memory \<Rightarrow> bool" where
  "passport_erased q m \<longleftrightarrow> gget (passportsByID m) q = None \<and> (\<forall>p. link_of m p q = None) \<and>
     gget (profilesByPassport m) q = None \<and> (\<forall>n. gget (passportByUsername m) n \<noteq> Some q) \<and>
     gget (credentialsByPlayer m) q = None \<and> gget (passportSkins m) q = None \<and> gget (premiumTextures m) q = None \<and>
     (\<forall>k s. gget (sessionsByID m) k = Some s \<longrightarrow> \<not> (se_Kind s = SessionPlayer \<and> se_SubjectID s = q)) \<and>
     (\<forall>k l. gget (portalLinksByToken m) k = Some l \<longrightarrow> li_PlayerID l \<noteq> q) \<and>
     (\<forall>k b. gget (bansByID m) k = Some b \<longrightarrow> \<not> (ba_Scope b = BanScopePassport \<and> ba_TargetID b = q)) \<and>
     (\<forall>k p. gget (presencesByID m) k = Some p \<longrightarrow> pc_PassportID p \<noteq> q) \<and>
     (\<forall>k a. gget (nodeActionsByID m) k = Some a \<longrightarrow> na_PassportID a \<noteq> q) \<and>
     (\<forall>k g. gget (transferGrants m) k = Some g \<longrightarrow> tg_PassportID g \<noteq> q) \<and>
     (\<forall>k c. gget (portalAuthCache m) k = Some c \<longrightarrow> ac_PassportID c \<noteq> q) \<and>
     (\<forall>s. gget2 (downstreamPrivileges m) s q = None)"

lemma gget2_drop_privileges: "gget2 (drop_privileges q t) s q' = (if q' = q then None else gget2 t s q')"
proof (cases "gget t s")
  case (Some rows)
  have "glen (gdel rows q) = 0 \<Longrightarrow> q' \<noteq> q \<Longrightarrow> gget rows q' = None"
    unfolding glen_0_iff by (metis fun_upd_apply lookup_delete)
  with Some show ?thesis by (auto simp: drop_privileges_def gget2_def)
qed (simp add: drop_privileges_def gget2_def)

lemma purge_fields:
  "gget (passportsByID (purge_passport q pp m)) i = (if i = q then None else gget (passportsByID m) i)"
  "gget (profilesByID (purge_passport q pp m)) p = gget (profilesByID m) p"
  "link_of (purge_passport q pp m) p q' = link_of m p q'"
  "gget (passportByUsername (purge_passport q pp m)) n =
     (if n = pp_UsernameNormalized pp then None else gget (passportByUsername m) n)"
  by (simp_all add: purge_passport_def Let_def)

lemma purge_erased:
  assumes "\<And>p. link_of m p q = None" and "\<And>n. gget (passportByUsername (purge_passport q pp m)) n \<noteq> Some q"
  shows "passport_erased q (purge_passport q pp m)"
  using assms
  by (auto simp: passport_erased_def purge_fields)
    (auto simp: purge_passport_def Let_def gget2_drop_privileges split: option.splits if_splits)

text \<open>
  No table refers to the profile \<open>p\<close>, but for the profile a portal link suggests (\<^verbatim>\<open>SuggestedProfileID\<close>) and
  the audit log.
\<close>

definition profile_erased :: "string \<Rightarrow> memory \<Rightarrow> bool" where
  "profile_erased p m \<longleftrightarrow> gget (profilesByID m) p = None \<and> gget (profileSkins m) p = None \<and>
     gget (playersByID m) p = None \<and> (\<forall>q. link_of m p q = None \<and> gget2 (profilesByPassport m) q p = None) \<and>
     (\<forall>n. gget (offlineByNormalized m) n \<noteq> Some p) \<and>
     (\<forall>k s. gget (sessionsByID m) k = Some s \<longrightarrow> p \<noteq> [] \<longrightarrow> se_SelectedProfileID s \<noteq> p) \<and>
     (\<forall>k g. gget (transferGrants m) k = Some g \<longrightarrow> tg_PlayerID g \<noteq> p) \<and>
     (\<forall>k d. gget (extensionData m) k = Some d \<longrightarrow> ed_PlayerID d \<noteq> p) \<and>
     (\<forall>k b. gget (bansByID m) k = Some b \<longrightarrow> \<not> (ba_Scope b = BanScopeProfile \<and> ba_TargetID b = p)) \<and>
     (\<forall>k a. gget (nodeActionsByID m) k = Some a \<longrightarrow> na_ProfileID a \<noteq> p) \<and>
     (\<forall>k c. gget (presencesByID m) k = Some c \<longrightarrow> pc_ProfileID c \<noteq> p)"

lemma deleteProfile_erased:
  assumes inv: "identity_inv uc {} m" and p: "gget (profilesByID m) p = Some pf"
    and r: "deleteProfileLocked p True m = (m', r)"
  shows "profile_erased p m'"
proof -
  let ?m0 = "m\<lparr>presencesByID := grange_del (\<lambda>_ pc. pc_ProfileID pc = p) (presencesByID m)\<rparr>"
  let ?qs = "gkeys (links_of m p)"
  note d = deleteProfile_linked [OF inv p disjI1 [OF TrueI] r]
  obtain m1 r1 where m1: "unlink_all p True ?qs ?m0 = (m1, r1)" by (cases "unlink_all p True ?qs ?m0")
  have inv0: "identity_inv uc {} ?m0" by (rule identity_inv_eq [OF inv]) simp_all
  have u: "r1 = Inr () \<and> links_only ?m0 m1 \<and>
    (\<forall>p' q'. link_of m1 p' q' \<noteq> None \<longleftrightarrow> \<not> (p' = p \<and> q' \<in> set ?qs) \<and> link_of ?m0 p' q' \<noteq> None)"
    by (rule unlink_all_linked [OF inv0 _ _ _ m1]) (auto simp: gget2_ginner)
  then have f: "links_only ?m0 m1" and r1: "r1 = Inr ()" by blast+
  have pres: "presencesByID m1 = presencesByID ?m0" using links_only_fields [OF f] by simp
  have no: "link_of m' p q = None" for q using d(5) [of p q] by blast
  have rest: "gget (profilesByID m') p = None" "gget (profileSkins m') p = None" "gget (playersByID m') p = None"
    "gget (transferGrants m') k = Some g \<Longrightarrow> tg_PlayerID g \<noteq> p"
    "gget (extensionData m') k' = Some e \<Longrightarrow> ed_PlayerID e \<noteq> p"
    "gget (bansByID m') k = Some b \<Longrightarrow> \<not> (ba_Scope b = BanScopeProfile \<and> ba_TargetID b = p)"
    "gget (nodeActionsByID m') k = Some a \<Longrightarrow> na_ProfileID a \<noteq> p"
    "gget (presencesByID m') k = Some c \<Longrightarrow> pc_ProfileID c \<noteq> p" for k g e b a c k'
    using r by (auto simp: deleteProfileLocked_def Let_def p m1 r1 pres split: if_splits option.splits)
  have "sessionsByID m' = grange_set (\<lambda>_ s. if se_SelectedProfileID s = p then s\<lparr>se_SelectedProfileID := []\<rparr> else s) (sessionsByID m1)"
    using r by (auto simp: deleteProfileLocked_def Let_def p m1 r1)
  then have sess: "se_SelectedProfileID s \<noteq> p" if "gget (sessionsByID m') k = Some s" "p \<noteq> []" for k s
    using that by (auto split: if_splits dest: arg_cong [where f = se_SelectedProfileID])
  have "gget2 (profilesByPassport m') q p = None" for q
    using no [of q] tables_okD(2) [OF identity_invD(1) [OF d(2)]] unfolding link_sym_def by blast
  moreover have "gget (offlineByNormalized m') n \<noteq> Some p" for n
    using identity_invD(3) [OF d(2)] no unfolding offline_ok_def is_primary_def by simp
  ultimately show ?thesis using rest no sess unfolding profile_erased_def by blast
qed

end
