(* ===== verification/StoreFrames.thy ===== *)
theory StoreFrames
  imports StoreDelete StoreModeration StoreTokens StoreAdmin
begin

text \<open>
  What the operations on passports and profiles leave alone: the counters, the administrators with
  their roles and the audit log (which a factory reset empties), and every presence, transfer grant
  and portal link they do not delete.
\<close>

subsection \<open>Frames\<close>

definition aside :: "memory \<Rightarrow> memory \<Rightarrow> bool" where
  "aside m m' \<longleftrightarrow> nextID m \<le> nextID m' \<and> nextAuditID m' = nextAuditID m \<and>
     (auditEvents m' = auditEvents m \<or> auditEvents m' = []) \<and> adminUsers m' = adminUsers m \<and>
     adminProfiles m' = adminProfiles m \<and>
     shrinks (presencesByID m) (presencesByID m') \<and> adminRoles m' = adminRoles m \<and>
     shrinks (transferGrants m) (transferGrants m') \<and> shrinks (portalLinksByToken m) (portalLinksByToken m')"

lemma aside_refl [simp]: "aside m m"
  by (simp add: aside_def)

lemma aside_trans: "aside m m' \<Longrightarrow> aside m' m'' \<Longrightarrow> aside m m''"
  by (auto simp: aside_def intro: shrinks_trans)

lemma aside_links_only: "links_only m m' \<Longrightarrow> aside m m'"
  by (erule links_onlyE) (simp add: aside_def)

lemma links_only_update [simp]:
  "links_only m (m\<lparr>profileLinks := a\<rparr>)" "links_only m (m\<lparr>profilesByPassport := b\<rparr>)"
  "links_only m (m\<lparr>playersByID := c\<rparr>)" "links_only m (m\<lparr>offlineByNormalized := d\<rparr>)"
  by (simp_all add: links_only_def)

lemma links_only_then:
  "links_only m m' \<Longrightarrow> links_only m (fst (refreshProfilePlayerLocked p m'))"
  "links_only m m' \<Longrightarrow> links_only m (put_link p q l m')"
  "links_only m m' \<Longrightarrow> links_only m (clearPrimaryProfileLocked q m')"
  "links_only m m' \<Longrightarrow> links_only m (m'\<lparr>profileLinks := a\<rparr>)"
  "links_only m m' \<Longrightarrow> links_only m (m'\<lparr>profilesByPassport := b\<rparr>)"
  "links_only m m' \<Longrightarrow> links_only m (m'\<lparr>playersByID := c\<rparr>)"
  "links_only m m' \<Longrightarrow> links_only m (m'\<lparr>offlineByNormalized := d\<rparr>)"
  by (erule links_only_trans, simp add: refresh_fields clearPrimary_eq)+

lemma links_only_branch:
  "links_only m a \<Longrightarrow> links_only m b \<Longrightarrow> links_only m (if c then a else b)"
  "links_only m a \<Longrightarrow> (\<And>x. links_only m (f x)) \<Longrightarrow> links_only m (case e of None \<Rightarrow> a | Some x \<Rightarrow> f x)"
  by (simp_all split: option.split)

lemmas links_only_intros = links_only_refl links_only_branch links_only_then

lemma link_frame: "links_only m (fst (linkProfileLocked now pp pf primary m))"
  unfolding linkProfileLocked_def Let_def fst_conv
  by (intro links_only_intros)

lemma promote_frame: "links_only m m' \<Longrightarrow> links_only m (promotePrimaryProfileLocked q m')"
  unfolding promotePrimaryProfileLocked_def Let_def
  by (intro links_only_intros)

lemma unlink_frame: "links_only m (fst (unlinkProfileLocked p q promote m))"
proof (cases "link_of m p q")
  case (Some l)
  then show ?thesis
    unfolding unlinkProfileLocked_def Let_def Some option.case(2) fst_conv
    by (intro links_only_intros promote_frame)
qed (simp add: unlinkProfileLocked_def)

lemma unlink_all_frame: "links_only m (fst (unlink_all p promote qs m))"
proof (induction qs arbitrary: m)
  case (Cons q qs)
  obtain m1 r where m1: "unlinkProfileLocked p q promote m = (m1, r)" by (cases "unlinkProfileLocked p q promote m")
  then have "links_only m m1" using unlink_frame [of m p q promote] by simp
  with Cons.IH [of m1] m1 show ?case by (cases r) (auto intro: links_only_trans)
qed simp

lemma aside_then_links: "aside m m' \<Longrightarrow> links_only m' m'' \<Longrightarrow> aside m m''"
  by (blast intro: aside_trans aside_links_only)

lemma store_frame: "aside m (fst (storePassportProfileLocked uc now pp profile primary m))"
  unfolding storePassportProfileLocked_def Let_def
  by (rule aside_then_links [OF _ link_frame]) (simp add: aside_def)

lemma deleteProfile_frame: "aside m (fst (deleteProfileLocked p promote m))"
proof (cases "gget (profilesByID m) p")
  case (Some pf)
  let ?m0 = "m\<lparr>presencesByID := grange_del (\<lambda>_ pc. pc_ProfileID pc = p) (presencesByID m)\<rparr>"
  obtain m1 r1 where m1: "unlink_all p promote (gkeys (links_of m p)) ?m0 = (m1, r1)"
    by (cases "unlink_all p promote (gkeys (links_of m p)) ?m0")
  have "aside m ?m0" by (auto simp: aside_def split: option.splits if_splits)
  with unlink_all_frame [of ?m0 p promote "gkeys (links_of m p)"] have a: "aside m m1"
    unfolding m1 fst_conv by (rule aside_then_links [rotated])
  show ?thesis
  proof (cases r1)
    case (Inl e)
    with a m1 Some show ?thesis by (simp add: deleteProfileLocked_def Let_def)
  next
    case (Inr u)
    have "aside m1 (fst (deleteProfileLocked p promote m))"
      using m1 Some Inr by (simp add: deleteProfileLocked_def Let_def aside_def)
    with a show ?thesis by (rule aside_trans)
  qed
qed (simp add: deleteProfileLocked_def)

lemma drop_profiles_frame: "aside m (fst (drop_profiles q ps m))"
proof (induction ps arbitrary: m)
  case (Cons p ps)
  let ?s = "if glen (links_of m p) = 1 then deleteProfileLocked p False m else (fst (unlinkProfileLocked p q False m),
      map_sum id (\<lambda>_. zero_Profile) (snd (unlinkProfileLocked p q False m)))"
  obtain m1 r where m1: "?s = (m1, r)" by (cases ?s)
  have "aside m (fst ?s)"
    using deleteProfile_frame [of m p False] unlink_frame [of m p q False] by (auto intro: aside_links_only)
  then have a: "aside m m1" by (simp only: m1 fst_conv)
  have "fst (drop_profiles q (p # ps) m) = (case r of Inl e \<Rightarrow> m1 | Inr _ \<Rightarrow> fst (drop_profiles q ps m1))"
    using m1 by (cases "unlinkProfileLocked p q False m") (auto split: sum.splits prod.splits if_splits)
  with a Cons.IH [of m1] show ?case by (cases r) (auto intro: aside_trans)
qed simp

text \<open>Deleting profiles leaves the name index, the passwords and the portal links alone.\<close>

lemma links_only_accounts:
  "links_only m m' \<Longrightarrow> passportByUsername m' = passportByUsername m \<and> credentialsByPlayer m' = credentialsByPlayer m \<and>
     portalLinksByToken m' = portalLinksByToken m"
  by (erule links_onlyE) simp

lemma deleteProfile_accounts:
  "passportByUsername (fst (deleteProfileLocked p promote m)) = passportByUsername m"
  "credentialsByPlayer (fst (deleteProfileLocked p promote m)) = credentialsByPlayer m"
  "portalLinksByToken (fst (deleteProfileLocked p promote m)) = portalLinksByToken m"
proof -
  let ?m0 = "m\<lparr>presencesByID := grange_del (\<lambda>_ pc. pc_ProfileID pc = p) (presencesByID m)\<rparr>"
  obtain m1 r1 where m1: "unlink_all p promote (gkeys (links_of m p)) ?m0 = (m1, r1)"
    by (cases "unlink_all p promote (gkeys (links_of m p)) ?m0")
  with links_only_accounts [OF unlink_all_frame [of ?m0 p promote "gkeys (links_of m p)"]]
  have a: "passportByUsername m1 = passportByUsername m" "credentialsByPlayer m1 = credentialsByPlayer m"
    "portalLinksByToken m1 = portalLinksByToken m" by simp_all
  show "passportByUsername (fst (deleteProfileLocked p promote m)) = passportByUsername m"
    "credentialsByPlayer (fst (deleteProfileLocked p promote m)) = credentialsByPlayer m"
    "portalLinksByToken (fst (deleteProfileLocked p promote m)) = portalLinksByToken m"
    by (simp_all add: deleteProfileLocked_def Let_def m1 a split: option.split sum.split)
qed

lemma drop_profiles_accounts:
  "passportByUsername (fst (drop_profiles q ps m)) = passportByUsername m \<and>
   credentialsByPlayer (fst (drop_profiles q ps m)) = credentialsByPlayer m"
proof (induction ps arbitrary: m)
  case (Cons p ps)
  have "passportByUsername (fst (unlinkProfileLocked p q False m)) = passportByUsername m"
    "credentialsByPlayer (fst (unlinkProfileLocked p q False m)) = credentialsByPlayer m"
    using links_only_accounts [OF unlink_frame [of m p q False]] by simp_all
  with Cons.IH deleteProfile_accounts [of p False m] show ?case
    by (cases "unlinkProfileLocked p q False m"; cases "deleteProfileLocked p False m") (auto split: sum.split)
qed simp

lemma DeletePassport_accounts:
  assumes "gget (passportsByID m) (TrimSpace i) = Some pp" and "DeletePassport i m = (purge_passport (TrimSpace i) pp m', Inr pp)"
  shows "gget (credentialsByPlayer (purge_passport (TrimSpace i) pp m')) q =
      (if q = TrimSpace i then None else gget (credentialsByPlayer m) q)"
    "gget (passportByUsername (purge_passport (TrimSpace i) pp m')) n =
      (if n = pp_UsernameNormalized pp then None else gget (passportByUsername m) n)"
proof -
  let ?m = "fst (drop_profiles (TrimSpace i) (gkeys (profiles_of m (TrimSpace i))) m)"
  have eq: "purge_passport (TrimSpace i) pp m' = purge_passport (TrimSpace i) pp ?m"
    using assms by (auto simp: DeletePassport_def Let_def split: prod.splits sum.splits)
  show "gget (credentialsByPlayer (purge_passport (TrimSpace i) pp m')) q =
      (if q = TrimSpace i then None else gget (credentialsByPlayer m) q)"
    "gget (passportByUsername (purge_passport (TrimSpace i) pp m')) n =
      (if n = pp_UsernameNormalized pp then None else gget (passportByUsername m) n)"
    unfolding eq using drop_profiles_accounts [of "TrimSpace i" "gkeys (profiles_of m (TrimSpace i))" m]
    by (simp_all add: purge_passport_def Let_def)
qed

subsection \<open>The operations on passports and profiles\<close>

lemma aside_update:
  "aside m m' \<Longrightarrow> aside m (fst (refreshProfilePlayerLocked p m'))"
  "aside m m' \<Longrightarrow> aside m (refreshPassportPlayersLocked q m')"
  "aside m m' \<Longrightarrow> aside m (m'\<lparr>passportsByID := a\<rparr>)"
  "aside m m' \<Longrightarrow> aside m (m'\<lparr>profilesByID := b\<rparr>)"
  "aside m m' \<Longrightarrow> aside m (m'\<lparr>passportByUsername := c\<rparr>)"
  "aside m m' \<Longrightarrow> aside m (m'\<lparr>credentialsByPlayer := d\<rparr>)"
  "aside m m' \<Longrightarrow> aside m (m'\<lparr>playersByID := e\<rparr>)"
  "aside m m' \<Longrightarrow> aside m (m'\<lparr>profileSkins := f\<rparr>)"
  "aside m m' \<Longrightarrow> aside m (m'\<lparr>passportSkins := g\<rparr>)"
  "aside m m' \<Longrightarrow> aside m (m'\<lparr>portalAuthCache := h\<rparr>)"
  "aside m m' \<Longrightarrow> aside m (cleanupDeletedPassportReferencesLocked q m')"
  by (simp_all add: aside_then_links [OF _ refresh_fields(1)] aside_then_links [OF _ refreshPassport_frame])
    (simp_all add: aside_def cleanupDeletedPassportReferencesLocked_def Let_def)

lemma aside_branch:
  "aside m a \<Longrightarrow> aside m b \<Longrightarrow> aside m (if c then a else b)"
  "aside m a \<Longrightarrow> (\<And>x. aside m (f x)) \<Longrightarrow> aside m (case e of None \<Rightarrow> a | Some x \<Rightarrow> f x)"
  by (simp_all split: option.split)

lemma aside_fst:
  "aside m a \<Longrightarrow> aside m (fst (a, r))"
  "aside m (fst s) \<Longrightarrow> aside m (fst t) \<Longrightarrow> aside m (fst (if c then s else t))"
  "aside m (fst s) \<Longrightarrow> (\<And>x. aside m (fst (g x))) \<Longrightarrow> aside m (fst (case o' of None \<Rightarrow> s | Some x \<Rightarrow> g x))"
  "(\<And>x. aside m (fst (h x))) \<Longrightarrow> (\<And>y. aside m (fst (k y))) \<Longrightarrow> aside m (fst (case su of Inl x \<Rightarrow> h x | Inr y \<Rightarrow> k y))"
  by (simp_all split: option.split sum.split)

lemma aside_fst_pair:
  "aside m (fst p) \<Longrightarrow> (\<And>m2 r. aside m m2 \<Longrightarrow> aside m (fst (l m2 r))) \<Longrightarrow> aside m (fst (case p of (m2, r) \<Rightarrow> l m2 r))"
  "(\<And>x y. aside m (fst (h x y))) \<Longrightarrow> aside m (fst (case q of (x, y) \<Rightarrow> h x y))"
  by (cases p, simp) (cases q, simp)

lemmas aside_intros = aside_refl aside_fst aside_fst_pair aside_branch aside_update store_frame
  aside_links_only [OF link_frame] aside_links_only [OF unlink_frame] aside_links_only [OF unlink_all_frame]

lemma aside_CreateOfflinePassportProfile: "aside m (fst (CreateOfflinePassportProfile uc s1 s2 s3 s4 s5 t1 t2 t3 rnd1 m))"
  unfolding CreateOfflinePassportProfile_def Let_def by (rule aside_intros | assumption)+

lemma aside_CreateOfflinePassport: "aside m (fst (CreateOfflinePassport uc s1 s2 s3 s4 t1 m))"
  unfolding CreateOfflinePassport_def Let_def by (rule aside_intros | assumption)+

lemma aside_UpsertPremiumPassport: "aside m (fst (UpsertPremiumPassport uc s1 u1 t1 m))"
  unfolding UpsertPremiumPassport_def Let_def by (rule aside_intros | assumption)+

lemma aside_UpsertPremiumPassportProfile: "aside m (fst (UpsertPremiumPassportProfile uc s1 u1 props1 t1 t2 t3 rnd1 m))"
  unfolding UpsertPremiumPassportProfile_def Let_def by (rule aside_intros | assumption)+

lemma aside_CreateProfile: "aside m (fst (CreateProfile x1 rnd1 t1 m))"
  unfolding CreateProfile_def Let_def by (rule aside_intros | assumption)+

lemma aside_CreateOfflinePlayer: "aside m (fst (CreateOfflinePlayer uc s1 s2 t1 t2 t3 rnd1 m))"
  unfolding CreateOfflinePlayer_def Let_def by (rule aside_intros aside_CreateOfflinePassportProfile | assumption)+

lemma aside_UpsertPremiumPlayer: "aside m (fst (UpsertPremiumPlayer uc s1 u1 props1 t1 t2 t3 rnd1 m))"
  unfolding UpsertPremiumPlayer_def Let_def by (rule aside_intros aside_UpsertPremiumPassportProfile | assumption)+

lemma aside_BindProfileToPassport: "aside m (fst (BindProfileToPassport s1 s2 x1 t1 m))"
  unfolding BindProfileToPassport_def Let_def by (rule aside_intros | assumption)+

lemma aside_UnbindProfileFromPassport: "aside m (fst (UnbindProfileFromPassport s1 s2 m))"
  unfolding UnbindProfileFromPassport_def Let_def by (rule aside_intros | assumption)+

lemma aside_UnbindProfile: "aside m (fst (UnbindProfile s1 m))"
  unfolding UnbindProfile_def Let_def by (rule aside_intros | assumption)+

lemma aside_SetPassportStatus: "aside m (fst (SetPassportStatus s1 x1 t1 m))"
  unfolding SetPassportStatus_def Let_def by (rule aside_intros | assumption)+

lemma aside_SetProfileStatus: "aside m (fst (SetProfileStatus s1 x1 t1 m))"
  unfolding SetProfileStatus_def Let_def by (rule aside_intros | assumption)+

lemma aside_UpdateProfileIdentity: "aside m (fst (UpdateProfileIdentity uc s1 s2 t1 m))"
  unfolding UpdateProfileIdentity_def Let_def by (rule aside_intros | assumption)+

lemma aside_SetPlayerLocked: "aside m (fst (SetPlayerLocked s1 x1 t1 m))"
  unfolding SetPlayerLocked_def Let_def by (rule aside_intros | assumption)+

lemma aside_RecordPlayerSeen: "aside m (RecordPlayerSeen s1 s2 s3 s4 x1 t1 m)"
  unfolding RecordPlayerSeen_def Let_def by (rule aside_intros | assumption)+

lemma aside_SetProfileSkin: "aside m (fst (SetProfileSkin s1 x1 props1 t1 m))"
  unfolding SetProfileSkin_def Let_def by (rule aside_intros | assumption)+

lemma aside_DeleteProfileSkin: "aside m (fst (DeleteProfileSkin s1 props1 s2 t1 m))"
  unfolding DeleteProfileSkin_def Let_def by (rule aside_intros | assumption)+

lemma aside_SetProfileSkinSource: "aside m (fst (SetProfileSkinSource s1 s2 props1 t1 m))"
  unfolding SetProfileSkinSource_def Let_def by (rule aside_intros | assumption)+

lemma aside_SetPassportSkin: "aside m (fst (SetPassportSkin s1 x1 t1 m))"
  unfolding SetPassportSkin_def Let_def by (rule aside_intros | assumption)+

lemma aside_SetPassportSkinSource: "aside m (fst (SetPassportSkinSource uc s1 s2 t1 m))"
  unfolding SetPassportSkinSource_def Let_def by (rule aside_intros | assumption)+

lemma aside_DeletePassportSkin: "aside m (fst (DeletePassportSkin s1 t1 m))"
  unfolding DeletePassportSkin_def Let_def by (rule aside_intros | assumption)+

lemma aside_RecordOfflineLoginFailure: "aside m (fst (RecordOfflineLoginFailure s1 t1 m))"
  unfolding RecordOfflineLoginFailure_def Let_def by (rule aside_intros | assumption)+

lemma aside_RecordOfflineLoginSuccess: "aside m (fst (RecordOfflineLoginSuccess s1 m))"
  unfolding RecordOfflineLoginSuccess_def Let_def by (rule aside_intros | assumption)+

lemma aside_RecordPassportLoginFailure: "aside m (fst (RecordPassportLoginFailure s1 t1 m))"
  unfolding RecordPassportLoginFailure_def Let_def by (rule aside_intros aside_RecordOfflineLoginFailure | assumption)+

lemma aside_RecordPassportLoginSuccess: "aside m (fst (RecordPassportLoginSuccess s1 m))"
  unfolding RecordPassportLoginSuccess_def Let_def by (rule aside_intros aside_RecordOfflineLoginSuccess | assumption)+

lemma aside_UpdateOfflinePassword: "aside m (fst (UpdateOfflinePassword s1 s2 s3 s4 t1 m))"
  unfolding UpdateOfflinePassword_def Let_def by (rule aside_intros | assumption)+

lemma aside_UpdatePassportPassword: "aside m (fst (UpdatePassportPassword s1 s2 s3 s4 t1 m))"
  unfolding UpdatePassportPassword_def Let_def by (rule aside_intros aside_UpdateOfflinePassword | assumption)+

lemma aside_SetPassportPasswordRecovery: "aside m (fst (SetPassportPasswordRecovery s1 s2 s3 t1 m))"
  unfolding SetPassportPasswordRecovery_def Let_def by (rule aside_intros | assumption)+

lemma aside_DeleteProfile: "aside m (fst (DeleteProfile s1 m))"
  unfolding DeleteProfile_def by (rule deleteProfile_frame)

lemma aside_purge: "aside m (purge_passport q pp m)"
  by (auto simp: purge_passport_def Let_def aside_def split: option.splits if_splits)

lemma aside_DeletePassport: "aside m (fst (DeletePassport s1 m))"
proof (cases "gget (passportsByID m) (TrimSpace s1)")
  case (Some pp)
  let ?d = "drop_profiles (TrimSpace s1) (gkeys (profiles_of m (TrimSpace s1))) m"
  have "aside m (fst ?d)" by (rule drop_profiles_frame)
  moreover have "aside m (purge_passport q pp m1)" if "aside m m1" for q m1
    using that aside_purge by (rule aside_trans)
  ultimately show ?thesis
    unfolding DeletePassport_def Let_def Some option.case by (auto split: prod.splits sum.splits)
qed (simp add: DeletePassport_def)

lemma aside_FactoryReset: "aside m (FactoryResetPlayerData m)"
  by (simp add: FactoryResetPlayerData_def aside_def)

end
