(* ===== verification/StoreSystem.thy ===== *)
theory StoreSystem
  imports StoreFrames StoreTokens StoreCatalog StoreAdmin
begin

text \<open>
  The whole in-memory store as a transition system.  Each method that writes is one rule of a step
  relation, with arbitrary arguments, clock readings and random bytes; since every method holds the
  store's mutex, the runs of a program are the sequences of such steps.  Between two steps every map
  may be visited in another order (\<open>reordered\<close>).  The creators of passports carry the assumptions of
  StoreReach.  \<open>store_inv\<close> holds in every reachable state.
\<close>

subsection \<open>Steps\<close>

text \<open>The methods on passports, profiles, skins and credentials.\<close>

inductive identity_step :: "unicode \<Rightarrow> memory \<Rightarrow> memory \<Rightarrow> bool" for uc where
  do_CreateOfflinePassportProfile: "collision_free uc m (ToLower uc s1) \<Longrightarrow> identity_step uc m (fst (CreateOfflinePassportProfile uc s1 s2 s3 s4 s5 t1 t2 t3 rnd1 m))"
| do_CreateOfflinePassport: "collision_free uc m (ToLower uc s1) \<Longrightarrow> identity_step uc m (fst (CreateOfflinePassport uc s1 s2 s3 s4 t1 m))"
| do_UpsertPremiumPassport: "length u1 = 16 \<Longrightarrow> uuid_version u1 \<noteq> 8 \<Longrightarrow> identity_step uc m (fst (UpsertPremiumPassport uc s1 u1 t1 m))"
| do_UpsertPremiumPassportProfile: "length u1 = 16 \<Longrightarrow> uuid_version u1 \<noteq> 8 \<Longrightarrow> identity_step uc m (fst (UpsertPremiumPassportProfile uc s1 u1 props1 t1 t2 t3 rnd1 m))"
| do_CreateProfile: "identity_step uc m (fst (CreateProfile x1 rnd1 t1 m))"
| do_CreateOfflinePlayer: "collision_free uc m (ToLower uc s1) \<Longrightarrow> identity_step uc m (fst (CreateOfflinePlayer uc s1 s2 t1 t2 t3 rnd1 m))"
| do_UpsertPremiumPlayer: "length u1 = 16 \<Longrightarrow> uuid_version u1 \<noteq> 8 \<Longrightarrow> identity_step uc m (fst (UpsertPremiumPlayer uc s1 u1 props1 t1 t2 t3 rnd1 m))"
| do_BindProfileToPassport: "identity_step uc m (fst (BindProfileToPassport s1 s2 x1 t1 m))"
| do_UnbindProfileFromPassport: "identity_step uc m (fst (UnbindProfileFromPassport s1 s2 m))"
| do_UnbindProfile: "identity_step uc m (fst (UnbindProfile s1 m))"
| do_SetPassportStatus: "identity_step uc m (fst (SetPassportStatus s1 x1 t1 m))"
| do_SetProfileStatus: "identity_step uc m (fst (SetProfileStatus s1 x1 t1 m))"
| do_UpdateProfileIdentity: "identity_step uc m (fst (UpdateProfileIdentity uc s1 s2 t1 m))"
| do_SetPlayerLocked: "identity_step uc m (fst (SetPlayerLocked s1 x1 t1 m))"
| do_RecordPlayerSeen: "identity_step uc m (RecordPlayerSeen s1 s2 s3 s4 x1 t1 m)"
| do_DeleteProfile: "identity_step uc m (fst (DeleteProfile s1 m))"
| do_DeletePassport: "identity_step uc m (fst (DeletePassport s1 m))"
| do_FactoryResetPlayerData: "identity_step uc m (FactoryResetPlayerData m)"
| do_SetProfileSkin: "identity_step uc m (fst (SetProfileSkin s1 x1 props1 t1 m))"
| do_DeleteProfileSkin: "identity_step uc m (fst (DeleteProfileSkin s1 props1 s2 t1 m))"
| do_SetProfileSkinSource: "identity_step uc m (fst (SetProfileSkinSource s1 s2 props1 t1 m))"
| do_SetPassportSkin: "identity_step uc m (fst (SetPassportSkin s1 x1 t1 m))"
| do_SetPassportSkinSource: "identity_step uc m (fst (SetPassportSkinSource uc s1 s2 t1 m))"
| do_DeletePassportSkin: "identity_step uc m (fst (DeletePassportSkin s1 t1 m))"
| do_RecordOfflineLoginFailure: "identity_step uc m (fst (RecordOfflineLoginFailure s1 t1 m))"
| do_RecordOfflineLoginSuccess: "identity_step uc m (fst (RecordOfflineLoginSuccess s1 m))"
| do_RecordPassportLoginFailure: "identity_step uc m (fst (RecordPassportLoginFailure s1 t1 m))"
| do_RecordPassportLoginSuccess: "identity_step uc m (fst (RecordPassportLoginSuccess s1 m))"
| do_UpdateOfflinePassword: "identity_step uc m (fst (UpdateOfflinePassword s1 s2 s3 s4 t1 m))"
| do_UpdatePassportPassword: "identity_step uc m (fst (UpdatePassportPassword s1 s2 s3 s4 t1 m))"
| do_SetPassportPasswordRecovery: "identity_step uc m (fst (SetPassportPasswordRecovery s1 s2 s3 t1 m))"

text \<open>The methods on the tables nothing else is derived from.\<close>

inductive table_step :: "unicode \<Rightarrow> memory \<Rightarrow> memory \<Rightarrow> bool" for uc where
  do_SetPassportPremiumTextures: "table_step uc m (SetPassportPremiumTextures s1 props1 m)"
| do_RememberPortalAuthCache: "table_step uc m (fst (RememberPortalAuthCache s1 s2 d1 t1 m))"
| do_UsePortalAuthCache: "table_step uc m (fst (UsePortalAuthCache s1 s2 t1 m))"
| do_SaveSession: "table_step uc m (SaveSession x1 m)"
| do_UpdateSession: "table_step uc m (fst (UpdateSession x1 m))"
| do_DeleteSession: "table_step uc m (DeleteSession s1 m)"
| do_SavePortalLink: "table_step uc m (SavePortalLink x1 m)"
| do_MarkPortalLinkUsed: "table_step uc m (fst (MarkPortalLinkUsed s1 t1 m))"
| do_RevokePortalLink: "table_step uc m (fst (RevokePortalLink s1 t1 m))"
| do_SaveTransferGrant: "table_step uc m (SaveTransferGrant x1 m)"
| do_ConsumeTransferGrant: "table_step uc m (fst (ConsumeTransferGrant uc s1 x1 m))"
| do_CreateExternalAPIToken: "table_step uc m (fst (CreateExternalAPIToken x1 t1 m))"
| do_UpdateExternalAPIToken: "table_step uc m (fst (UpdateExternalAPIToken x1 t1 m))"
| do_DeleteExternalAPIToken: "table_step uc m (fst (DeleteExternalAPIToken s1 m))"
| do_AuthenticateExternalAPIToken: "table_step uc m (fst (AuthenticateExternalAPIToken uc s1 t1 s2 s3 m))"
| do_EnqueueNodeAction: "table_step uc m (fst (EnqueueNodeAction x1 t1 m))"
| do_AckNodeActions: "table_step uc m (fst (AckNodeActions s1 x1 t1 m))"
| do_CreateBan: "table_step uc m (fst (CreateBan x1 t1 m))"
| do_ExtendBan: "table_step uc m (fst (ExtendBan s1 t1 m))"
| do_RevokeBan: "table_step uc m (fst (RevokeBan s1 s2 s3 t1 m))"
| do_UpsertMojangRoute: "table_step uc m (fst (UpsertMojangRoute x1 m))"
| do_DeleteMojangRoute: "table_step uc m (fst (DeleteMojangRoute s1 m))"
| do_UpsertIPGeoSource: "table_step uc m (fst (UpsertIPGeoSource x1 t1 m))"
| do_DeleteIPGeoSource: "table_step uc m (fst (DeleteIPGeoSource s1 m))"
| do_SetSystemSetting: "table_step uc m (fst (SetSystemSetting s1 x1 m))"
| do_UpsertDownstreamServer: "table_step uc m (fst (UpsertDownstreamServer uc x1 rnd1 t1 m))"
| do_DeleteDownstreamServer: "table_step uc m (fst (DeleteDownstreamServer s1 m))"
| do_UpsertDownstreamServerStatus: "table_step uc m (fst (UpsertDownstreamServerStatus x1 t1 m))"
| do_AddDownstreamServerPrivilegedPassport: "table_step uc m (fst (AddDownstreamServerPrivilegedPassport s1 s2 s3 t1 m))"
| do_RemoveDownstreamServerPrivilegedPassport: "table_step uc m (fst (RemoveDownstreamServerPrivilegedPassport s1 s2 m))"
| do_UpsertLimboBlueprint: "table_step uc m (fst (UpsertLimboBlueprint x1 t1 m))"
| do_DeleteLimboBlueprint: "table_step uc m (fst (DeleteLimboBlueprint s1 m))"
| do_UpsertLimboProtocolBundle: "table_step uc m (fst (UpsertLimboProtocolBundle x1 t1 m))"
| do_DeleteLimboProtocolBundle: "table_step uc m (fst (DeleteLimboProtocolBundle s1 m))"
| do_UpsertLimboProtocolStatus: "table_step uc m (fst (UpsertLimboProtocolStatus x1 t1 m))"
| do_UpsertVelocityRuntimeRelease: "table_step uc m (fst (UpsertVelocityRuntimeRelease x1 t1 m))"
| do_DeleteVelocityRuntimeRelease: "table_step uc m (fst (DeleteVelocityRuntimeRelease s1 m))"
| do_UpsertVelocityRuntimeStatus: "table_step uc m (fst (UpsertVelocityRuntimeStatus x1 t1 m))"
| do_UpsertExtensionPlayerData: "table_step uc m (fst (UpsertExtensionPlayerData x1 t1 m))"
| do_UpsertAdminProfile: "table_step uc m (fst (UpsertAdminProfile x1 t1 m))"
| do_UpsertAdminRole: "table_step uc m (fst (UpsertAdminRole uc x1 t1 t2 m))"
| do_DeleteAdminRole: "table_step uc m (fst (DeleteAdminRole uc s1 t1 m))"
| do_UpsertAdminSecurity: "table_step uc m (fst (UpsertAdminSecurity x1 t1 m))"
| do_CreateAdminPasskey: "table_step uc m (fst (CreateAdminPasskey x1 t1 m))"
| do_UpdateAdminPasskeyCredential: "table_step uc m (fst (UpdateAdminPasskeyCredential s1 x1 t1 m))"
| do_DeleteAdminPasskey: "table_step uc m (fst (DeleteAdminPasskey s1 s2 m))"
| do_SavePendingAdminMFA: "table_step uc m (fst (SavePendingAdminMFA x1 m))"
| do_DeletePendingAdminMFA: "table_step uc m (DeletePendingAdminMFA s1 m)"
| do_CreateAdminTrustedDevice: "table_step uc m (fst (CreateAdminTrustedDevice x1 t1 m))"
| do_SaveAdminPasswordReset: "table_step uc m (fst (SaveAdminPasswordReset x1 t1 m))"
| do_MarkAdminPasswordResetUsed: "table_step uc m (fst (MarkAdminPasswordResetUsed s1 t1 m))"

text \<open>The methods on presences, the audit log and administrators.\<close>

inductive record_step :: "unicode \<Rightarrow> memory \<Rightarrow> memory \<Rightarrow> bool" for uc where
  do_UpsertPresence: "record_step uc m (fst (UpsertPresence x1 t1 m))"
| do_EndPresence: "record_step uc m (fst (EndPresence s1 s2 t1 m))"
| do_EndProfilePresences: "record_step uc m (fst (EndProfilePresences s1 s2 t1 m))"
| do_EndPassportPresences: "record_step uc m (fst (EndPassportPresences s1 s2 t1 m))"
| do_AppendAuditEvent: "record_step uc m (fst (AppendAuditEvent x1 m))"
| do_CreateAdminUser: "record_step uc m (fst (CreateAdminUser uc x1 t1 m))"
| do_UpdateAdminUserProfile: "record_step uc m (fst (UpdateAdminUserProfile uc s1 s2 s3 t1 m))"
| do_UpdateAdminUser: "record_step uc m (fst (UpdateAdminUser uc x1 t1 m))"
| do_UpdateAdminUserPassword: "record_step uc m (fst (UpdateAdminUserPassword s1 s2 t1 m))"

text \<open>The same entries in another order.\<close>

definition reordered :: "memory \<Rightarrow> memory \<Rightarrow> bool" where
  "reordered m m' \<longleftrightarrow> nextID m' = nextID m \<and> nextAuditID m' = nextAuditID m \<and> auditEvents m' = auditEvents m \<and>
     same_map (passportsByID m) (passportsByID m') \<and>
     same_map (profilesByID m) (profilesByID m') \<and>
     same_map (passportByUsername m) (passportByUsername m') \<and>
     same_nested (profileLinks m) (profileLinks m') \<and>
     same_nested (profilesByPassport m) (profilesByPassport m') \<and>
     same_map (playersByID m) (playersByID m') \<and>
     same_map (offlineByNormalized m) (offlineByNormalized m') \<and>
     same_map (credentialsByPlayer m) (credentialsByPlayer m') \<and>
     same_map (portalAuthCache m) (portalAuthCache m') \<and>
     same_map (sessionsByID m) (sessionsByID m') \<and>
     same_map (portalLinksByToken m) (portalLinksByToken m') \<and>
     same_map (mojangRoutes m) (mojangRoutes m') \<and>
     same_map (ipGeoSources m) (ipGeoSources m') \<and>
     same_map (systemSettings m) (systemSettings m') \<and>
     same_map (presencesByID m) (presencesByID m') \<and>
     same_map (bansByID m) (bansByID m') \<and>
     same_map (nodeActionsByID m) (nodeActionsByID m') \<and>
     same_map (downstreamServers m) (downstreamServers m') \<and>
     same_map (downstreamStatus m) (downstreamStatus m') \<and>
     same_nested (downstreamPrivileges m) (downstreamPrivileges m') \<and>
     same_map (limboBlueprints m) (limboBlueprints m') \<and>
     same_map (limboProtocolBundles m) (limboProtocolBundles m') \<and>
     same_map (limboProtocolStatus m) (limboProtocolStatus m') \<and>
     same_map (velocityRuntimeReleases m) (velocityRuntimeReleases m') \<and>
     same_map (velocityRuntimeStatus m) (velocityRuntimeStatus m') \<and>
     same_map (profileSkins m) (profileSkins m') \<and>
     same_map (premiumTextures m) (premiumTextures m') \<and>
     same_map (passportSkins m) (passportSkins m') \<and>
     same_map (transferGrants m) (transferGrants m') \<and>
     same_map (extensionData m) (extensionData m') \<and>
     same_map (adminRoles m) (adminRoles m') \<and>
     same_map (adminUsers m) (adminUsers m') \<and>
     same_map (adminProfiles m) (adminProfiles m') \<and>
     same_map (adminSecurity m) (adminSecurity m') \<and>
     same_map (adminPasskeys m) (adminPasskeys m') \<and>
     same_map (pendingAdminMFAs m) (pendingAdminMFAs m') \<and>
     same_map (adminTrustedDevices m) (adminTrustedDevices m') \<and>
     same_map (adminPasswordResets m) (adminPasswordResets m') \<and>
     same_map (externalAPITokens m) (externalAPITokens m')"

inductive store_step :: "unicode \<Rightarrow> memory \<Rightarrow> memory \<Rightarrow> bool" for uc where
  by_identity: "identity_step uc m m' \<Longrightarrow> store_step uc m m'"
| by_table: "table_step uc m m' \<Longrightarrow> store_step uc m m'"
| by_record: "record_step uc m m' \<Longrightarrow> store_step uc m m'"
| by_reorder: "reordered m m' \<Longrightarrow> store_step uc m m'"

inductive store_reachable :: "unicode \<Rightarrow> memory \<Rightarrow> bool" for uc where
  init: "store_reachable uc NewMemory"
| step: "store_reachable uc m \<Longrightarrow> store_step uc m m' \<Longrightarrow> store_reachable uc m'"

subsection \<open>Frames of the table methods\<close>

text \<open>What every step keeps of the roles and of the tokens that may be used once.\<close>

definition keeps :: "memory \<Rightarrow> memory \<Rightarrow> bool" where
  "keeps m m' \<longleftrightarrow> (roles_ok m \<longrightarrow> roles_ok m') \<and> grants_from m m' \<and> links_from m m'"

lemma roles_ok_cong: "adminRoles m' = adminRoles m \<Longrightarrow> roles_ok m' = roles_ok m"
  by (simp add: roles_ok_def)

lemma grants_from_shrinks: "shrinks (transferGrants m) (transferGrants m') \<Longrightarrow> grants_from m m'"
  by (simp add: grants_from_def shrinks_def)

lemma links_from_shrinks: "shrinks (portalLinksByToken m) (portalLinksByToken m') \<Longrightarrow> links_from m m'"
  by (simp add: links_from_def shrinks_def)

lemma keeps_shrinks:
  "adminRoles m' = adminRoles m \<Longrightarrow> shrinks (transferGrants m) (transferGrants m') \<Longrightarrow>
   shrinks (portalLinksByToken m) (portalLinksByToken m') \<Longrightarrow> keeps m m'"
  using roles_ok_cong [of m' m] by (simp add: keeps_def grants_from_shrinks links_from_shrinks)

lemma keeps_same [simp]:
  "adminRoles m' = adminRoles m \<Longrightarrow> transferGrants m' = transferGrants m \<Longrightarrow>
   portalLinksByToken m' = portalLinksByToken m \<Longrightarrow> keeps m m'"
  by (simp add: keeps_shrinks)

lemma keeps_grants:
  "adminRoles m' = adminRoles m \<Longrightarrow> portalLinksByToken m' = portalLinksByToken m \<Longrightarrow> grants_from m m' \<Longrightarrow> keeps m m'"
  using roles_ok_cong [of m' m] by (simp add: keeps_def links_from_shrinks)

lemma keeps_links:
  "adminRoles m' = adminRoles m \<Longrightarrow> transferGrants m' = transferGrants m \<Longrightarrow> links_from m m' \<Longrightarrow> keeps m m'"
  using roles_ok_cong [of m' m] by (simp add: keeps_def grants_from_shrinks)

lemma keeps_roles:
  "(roles_ok m \<Longrightarrow> roles_ok m') \<Longrightarrow> transferGrants m' = transferGrants m \<Longrightarrow>
   portalLinksByToken m' = portalLinksByToken m \<Longrightarrow> keeps m m'"
  by (simp add: keeps_def grants_from_shrinks links_from_shrinks)

definition quiet :: "memory \<Rightarrow> memory \<Rightarrow> bool" where
  "quiet m m' \<longleftrightarrow> passportsByID m' = passportsByID m \<and> profilesByID m' = profilesByID m \<and>
     passportByUsername m' = passportByUsername m \<and> profileLinks m' = profileLinks m \<and>
     profilesByPassport m' = profilesByPassport m \<and> playersByID m' = playersByID m \<and>
     offlineByNormalized m' = offlineByNormalized m \<and> credentialsByPlayer m' = credentialsByPlayer m \<and>
     presencesByID m' = presencesByID m \<and> auditEvents m' = auditEvents m \<and> nextAuditID m' = nextAuditID m \<and>
     adminUsers m' = adminUsers m \<and> nextID m \<le> nextID m' \<and> keeps m m'"

lemma quiet_SetPassportPremiumTextures: "quiet m (SetPassportPremiumTextures s1 props1 m)"
  by (auto simp: quiet_def SetPassportPremiumTextures_def Let_def split: option.split sum.split)

lemma quiet_RememberPortalAuthCache: "quiet m (fst (RememberPortalAuthCache s1 s2 d1 t1 m))"
  by (auto simp: quiet_def RememberPortalAuthCache_def Let_def split: option.split sum.split)

lemma quiet_UsePortalAuthCache: "quiet m (fst (UsePortalAuthCache s1 s2 t1 m))"
  by (auto simp: quiet_def UsePortalAuthCache_def Let_def split: option.split sum.split)

lemma quiet_SaveSession: "quiet m (SaveSession x1 m)"
  by (auto simp: quiet_def SaveSession_def Let_def split: option.split sum.split)

lemma quiet_UpdateSession: "quiet m (fst (UpdateSession x1 m))"
  by (auto simp: quiet_def UpdateSession_def Let_def split: option.split sum.split)

lemma quiet_DeleteSession: "quiet m (DeleteSession s1 m)"
  by (auto simp: quiet_def DeleteSession_def Let_def split: option.split sum.split)

lemma quiet_SavePortalLink: "quiet m (SavePortalLink x1 m)"
proof -
  have "keeps m (SavePortalLink x1 m)"
    by (rule keeps_links [OF _ _ links_from_Save]) (auto simp: SavePortalLink_def Let_def split: option.split sum.split)
  then show ?thesis by (auto simp: quiet_def SavePortalLink_def Let_def split: option.split sum.split)
qed

lemma quiet_MarkPortalLinkUsed: "quiet m (fst (MarkPortalLinkUsed s1 t1 m))"
proof -
  have "keeps m (fst (MarkPortalLinkUsed s1 t1 m))"
    by (rule keeps_links [OF _ _ links_from_Mark]) (auto simp: MarkPortalLinkUsed_def Let_def split: option.split sum.split)
  then show ?thesis by (auto simp: quiet_def MarkPortalLinkUsed_def Let_def split: option.split sum.split)
qed

lemma quiet_RevokePortalLink: "quiet m (fst (RevokePortalLink s1 t1 m))"
proof -
  have "keeps m (fst (RevokePortalLink s1 t1 m))"
    by (rule keeps_links [OF _ _ links_from_Revoke]) (auto simp: RevokePortalLink_def Let_def split: option.split sum.split)
  then show ?thesis by (auto simp: quiet_def RevokePortalLink_def Let_def split: option.split sum.split)
qed

lemma quiet_SaveTransferGrant: "quiet m (SaveTransferGrant x1 m)"
proof -
  have "keeps m (SaveTransferGrant x1 m)"
    by (rule keeps_grants [OF _ _ grants_from_Save]) (auto simp: SaveTransferGrant_def Let_def split: option.split sum.split)
  then show ?thesis by (auto simp: quiet_def SaveTransferGrant_def Let_def split: option.split sum.split)
qed

lemma quiet_ConsumeTransferGrant: "quiet m (fst (ConsumeTransferGrant uc s1 x1 m))"
proof -
  have "keeps m (fst (ConsumeTransferGrant uc s1 x1 m))"
    by (rule keeps_grants [OF _ _ grants_from_Consume]) (auto simp: ConsumeTransferGrant_def Let_def split: option.split sum.split)
  then show ?thesis by (auto simp: quiet_def ConsumeTransferGrant_def Let_def split: option.split sum.split)
qed

lemma quiet_CreateExternalAPIToken: "quiet m (fst (CreateExternalAPIToken x1 t1 m))"
  by (auto simp: quiet_def CreateExternalAPIToken_def Let_def split: option.split sum.split)

lemma quiet_UpdateExternalAPIToken: "quiet m (fst (UpdateExternalAPIToken x1 t1 m))"
  by (auto simp: quiet_def UpdateExternalAPIToken_def Let_def split: option.split sum.split)

lemma quiet_DeleteExternalAPIToken: "quiet m (fst (DeleteExternalAPIToken s1 m))"
  by (auto simp: quiet_def DeleteExternalAPIToken_def Let_def split: option.split sum.split)

lemma quiet_AuthenticateExternalAPIToken: "quiet m (fst (AuthenticateExternalAPIToken uc s1 t1 s2 s3 m))"
  by (auto simp: quiet_def AuthenticateExternalAPIToken_def Let_def split: option.split sum.split)

lemma quiet_EnqueueNodeAction: "quiet m (fst (EnqueueNodeAction x1 t1 m))"
  by (auto simp: quiet_def EnqueueNodeAction_def Let_def split: option.split sum.split)

lemma quiet_AckNodeActions: "quiet m (fst (AckNodeActions s1 x1 t1 m))"
proof (cases "AckNodeActions s1 x1 t1 m")
  case (Pair m' n)
  have "quiet m (m\<lparr>nodeActionsByID := nodeActionsByID m'\<rparr>)" by (simp add: quiet_def)
  then show ?thesis using AckNodeActions_eq(3) [OF Pair] unfolding Pair by simp
qed

lemma quiet_CreateBan: "quiet m (fst (CreateBan x1 t1 m))"
  by (auto simp: quiet_def CreateBan_def Let_def split: option.split sum.split)

lemma quiet_ExtendBan: "quiet m (fst (ExtendBan s1 t1 m))"
  by (auto simp: quiet_def ExtendBan_def Let_def split: option.split sum.split)

lemma quiet_RevokeBan: "quiet m (fst (RevokeBan s1 s2 s3 t1 m))"
  by (auto simp: quiet_def RevokeBan_def Let_def split: option.split sum.split)

lemma quiet_UpsertMojangRoute: "quiet m (fst (UpsertMojangRoute x1 m))"
  by (auto simp: quiet_def UpsertMojangRoute_def Let_def split: option.split sum.split)

lemma quiet_DeleteMojangRoute: "quiet m (fst (DeleteMojangRoute s1 m))"
  by (auto simp: quiet_def DeleteMojangRoute_def Let_def split: option.split sum.split)

lemma quiet_UpsertIPGeoSource: "quiet m (fst (UpsertIPGeoSource x1 t1 m))"
  by (auto simp: quiet_def UpsertIPGeoSource_def Let_def split: option.split sum.split)

lemma quiet_DeleteIPGeoSource: "quiet m (fst (DeleteIPGeoSource s1 m))"
  by (auto simp: quiet_def DeleteIPGeoSource_def Let_def split: option.split sum.split)

lemma quiet_SetSystemSetting: "quiet m (fst (SetSystemSetting s1 x1 m))"
  by (auto simp: quiet_def SetSystemSetting_def Let_def split: option.split sum.split)

lemma quiet_UpsertDownstreamServer: "quiet m (fst (UpsertDownstreamServer uc x1 rnd1 t1 m))"
  by (auto simp: quiet_def UpsertDownstreamServer_def Let_def split: option.split sum.split)

lemma quiet_DeleteDownstreamServer: "quiet m (fst (DeleteDownstreamServer s1 m))"
  by (auto simp: quiet_def DeleteDownstreamServer_def Let_def split: option.split sum.split)

lemma quiet_UpsertDownstreamServerStatus: "quiet m (fst (UpsertDownstreamServerStatus x1 t1 m))"
  by (auto simp: quiet_def UpsertDownstreamServerStatus_def Let_def split: option.split sum.split)

lemma quiet_AddDownstreamServerPrivilegedPassport: "quiet m (fst (AddDownstreamServerPrivilegedPassport s1 s2 s3 t1 m))"
  by (auto simp: quiet_def AddDownstreamServerPrivilegedPassport_def Let_def split: option.split sum.split)

lemma quiet_RemoveDownstreamServerPrivilegedPassport: "quiet m (fst (RemoveDownstreamServerPrivilegedPassport s1 s2 m))"
  by (auto simp: quiet_def RemoveDownstreamServerPrivilegedPassport_def Let_def split: option.split sum.split)

lemma quiet_UpsertLimboBlueprint: "quiet m (fst (UpsertLimboBlueprint x1 t1 m))"
  by (auto simp: quiet_def UpsertLimboBlueprint_def Let_def split: option.split sum.split)

lemma quiet_DeleteLimboBlueprint: "quiet m (fst (DeleteLimboBlueprint s1 m))"
  by (auto simp: quiet_def DeleteLimboBlueprint_def Let_def split: option.split sum.split)

lemma quiet_UpsertLimboProtocolBundle: "quiet m (fst (UpsertLimboProtocolBundle x1 t1 m))"
  by (auto simp: quiet_def UpsertLimboProtocolBundle_def Let_def split: option.split sum.split)

lemma quiet_DeleteLimboProtocolBundle: "quiet m (fst (DeleteLimboProtocolBundle s1 m))"
  by (auto simp: quiet_def DeleteLimboProtocolBundle_def Let_def split: option.split sum.split)

lemma quiet_UpsertLimboProtocolStatus: "quiet m (fst (UpsertLimboProtocolStatus x1 t1 m))"
  by (auto simp: quiet_def UpsertLimboProtocolStatus_def Let_def split: option.split sum.split)

lemma quiet_UpsertVelocityRuntimeRelease: "quiet m (fst (UpsertVelocityRuntimeRelease x1 t1 m))"
  by (auto simp: quiet_def UpsertVelocityRuntimeRelease_def Let_def split: option.split sum.split)

lemma quiet_DeleteVelocityRuntimeRelease: "quiet m (fst (DeleteVelocityRuntimeRelease s1 m))"
  by (auto simp: quiet_def DeleteVelocityRuntimeRelease_def Let_def split: option.split sum.split)

lemma quiet_UpsertVelocityRuntimeStatus: "quiet m (fst (UpsertVelocityRuntimeStatus x1 t1 m))"
  by (auto simp: quiet_def UpsertVelocityRuntimeStatus_def Let_def split: option.split sum.split)

lemma quiet_UpsertExtensionPlayerData: "quiet m (fst (UpsertExtensionPlayerData x1 t1 m))"
  by (auto simp: quiet_def UpsertExtensionPlayerData_def Let_def split: option.split sum.split)

lemma quiet_UpsertAdminProfile: "quiet m (fst (UpsertAdminProfile x1 t1 m))"
  by (auto simp: quiet_def UpsertAdminProfile_def Let_def split: option.split sum.split)

lemma quiet_UpsertAdminRole: "quiet m (fst (UpsertAdminRole uc x1 t1 t2 m))"
proof -
  have "keeps m (fst (UpsertAdminRole uc x1 t1 t2 m))"
    by (rule keeps_roles [OF roles_ok_Upsert]) (auto simp: UpsertAdminRole_def Let_def split: option.split sum.split)
  then show ?thesis by (auto simp: quiet_def UpsertAdminRole_def Let_def split: option.split sum.split)
qed

lemma quiet_DeleteAdminRole: "quiet m (fst (DeleteAdminRole uc s1 t1 m))"
proof -
  have "keeps m (fst (DeleteAdminRole uc s1 t1 m))"
    by (rule keeps_roles [OF roles_ok_Delete]) (auto simp: DeleteAdminRole_def Let_def split: option.split sum.split)
  then show ?thesis by (auto simp: quiet_def DeleteAdminRole_def Let_def split: option.split sum.split)
qed

lemma quiet_UpsertAdminSecurity: "quiet m (fst (UpsertAdminSecurity x1 t1 m))"
  by (auto simp: quiet_def UpsertAdminSecurity_def Let_def split: option.split sum.split)

lemma quiet_CreateAdminPasskey: "quiet m (fst (CreateAdminPasskey x1 t1 m))"
  by (auto simp: quiet_def CreateAdminPasskey_def Let_def split: option.split sum.split)

lemma quiet_UpdateAdminPasskeyCredential: "quiet m (fst (UpdateAdminPasskeyCredential s1 x1 t1 m))"
  by (auto simp: quiet_def UpdateAdminPasskeyCredential_def Let_def split: option.split sum.split)

lemma quiet_DeleteAdminPasskey: "quiet m (fst (DeleteAdminPasskey s1 s2 m))"
  by (auto simp: quiet_def DeleteAdminPasskey_def Let_def split: option.split sum.split)

lemma quiet_SavePendingAdminMFA: "quiet m (fst (SavePendingAdminMFA x1 m))"
  by (auto simp: quiet_def SavePendingAdminMFA_def Let_def split: option.split sum.split)

lemma quiet_DeletePendingAdminMFA: "quiet m (DeletePendingAdminMFA s1 m)"
  by (auto simp: quiet_def DeletePendingAdminMFA_def Let_def split: option.split sum.split)

lemma quiet_CreateAdminTrustedDevice: "quiet m (fst (CreateAdminTrustedDevice x1 t1 m))"
  by (auto simp: quiet_def CreateAdminTrustedDevice_def Let_def split: option.split sum.split)

lemma quiet_SaveAdminPasswordReset: "quiet m (fst (SaveAdminPasswordReset x1 t1 m))"
  by (auto simp: quiet_def SaveAdminPasswordReset_def Let_def split: option.split sum.split)

lemma quiet_MarkAdminPasswordResetUsed: "quiet m (fst (MarkAdminPasswordResetUsed s1 t1 m))"
  by (auto simp: quiet_def MarkAdminPasswordResetUsed_def Let_def split: option.split sum.split)

subsection \<open>The invariant of the store\<close>

definition store_inv :: "unicode \<Rightarrow> memory \<Rightarrow> bool" where
  "store_inv uc m \<longleftrightarrow> identity_inv uc {} m \<and> presences_ok m \<and> audit_ok m \<and> admins_ok uc m"

lemma store_inv_NewMemory: "store_inv uc NewMemory"
  by (simp add: store_inv_def identity_inv_NewMemory)
    (simp add: presences_ok_def audit_ok_def admins_ok_def NewMemory_def)

lemma presences_ok_cong: "presencesByID m' = presencesByID m \<Longrightarrow> presences_ok m' = presences_ok m"
  by (simp only: presences_ok_def)

lemma audit_ok_cong:
  "nextAuditID m' = nextAuditID m \<Longrightarrow> auditEvents m' = auditEvents m \<Longrightarrow> audit_ok m' = audit_ok m"
  by (simp only: audit_ok_def)

lemma audit_ok_cleared: "audit_ok m \<Longrightarrow> nextAuditID m' = nextAuditID m \<Longrightarrow> auditEvents m' = [] \<Longrightarrow> audit_ok m'"
  by (simp add: audit_ok_def)

lemma store_invD:
  assumes "store_inv uc m"
  shows "identity_inv uc {} m" "presences_ok m" "audit_ok m" "admins_ok uc m"
  using assms by (simp_all add: store_inv_def)

lemma store_inv_quiet:
  assumes inv: "store_inv uc m" and q: "quiet m m'" shows "store_inv uc m'"
proof -
  note f = q [unfolded quiet_def]
  have "identity_inv uc {} m'"
    by (rule identity_inv_eq [OF store_invD(1) [OF inv]]) (use f in blast)+
  moreover have "presences_ok m'" using store_invD(2) [OF inv] f presences_ok_cong by blast
  moreover have "audit_ok m'" using store_invD(3) [OF inv] f audit_ok_cong by blast
  moreover have "admins_ok uc m'"
    by (rule admins_ok_mono [OF store_invD(4) [OF inv]]) (use f in blast)+
  ultimately show ?thesis by (simp add: store_inv_def)
qed

lemma store_inv_aside:
  assumes inv: "store_inv uc m" and "identity_inv uc {} m'" and a: "aside m m'"
  shows "store_inv uc m'"
proof -
  note f = a [unfolded aside_def shrinks_def]
  have "presences_ok m'"
    by (rule presences_ok_subset [OF store_invD(2) [OF inv]]) (use f in blast)
  moreover have "audit_ok m'" using store_invD(3) [OF inv] f audit_ok_cong audit_ok_cleared by blast
  moreover have "admins_ok uc m'"
    by (rule admins_ok_mono [OF store_invD(4) [OF inv]]) (use f in blast)+
  ultimately show ?thesis using assms(2) by (simp add: store_inv_def)
qed

lemma table_step_quiet: "table_step uc m m' \<Longrightarrow> quiet m m'"
  by (erule table_step.cases; hypsubst)
    (rule quiet_SetPassportPremiumTextures quiet_RememberPortalAuthCache quiet_UsePortalAuthCache
      quiet_SaveSession quiet_UpdateSession quiet_DeleteSession quiet_SavePortalLink quiet_MarkPortalLinkUsed
      quiet_RevokePortalLink quiet_SaveTransferGrant quiet_ConsumeTransferGrant quiet_CreateExternalAPIToken
      quiet_UpdateExternalAPIToken quiet_DeleteExternalAPIToken quiet_AuthenticateExternalAPIToken
      quiet_EnqueueNodeAction quiet_AckNodeActions quiet_CreateBan quiet_ExtendBan quiet_RevokeBan
      quiet_UpsertMojangRoute quiet_DeleteMojangRoute quiet_UpsertIPGeoSource quiet_DeleteIPGeoSource
      quiet_SetSystemSetting quiet_UpsertDownstreamServer quiet_DeleteDownstreamServer
      quiet_UpsertDownstreamServerStatus quiet_AddDownstreamServerPrivilegedPassport
      quiet_RemoveDownstreamServerPrivilegedPassport quiet_UpsertLimboBlueprint quiet_DeleteLimboBlueprint
      quiet_UpsertLimboProtocolBundle quiet_DeleteLimboProtocolBundle quiet_UpsertLimboProtocolStatus
      quiet_UpsertVelocityRuntimeRelease quiet_DeleteVelocityRuntimeRelease quiet_UpsertVelocityRuntimeStatus
      quiet_UpsertExtensionPlayerData quiet_UpsertAdminProfile quiet_UpsertAdminRole quiet_DeleteAdminRole
      quiet_UpsertAdminSecurity quiet_CreateAdminPasskey quiet_UpdateAdminPasskeyCredential
      quiet_DeleteAdminPasskey quiet_SavePendingAdminMFA quiet_DeletePendingAdminMFA
      quiet_CreateAdminTrustedDevice quiet_SaveAdminPasswordReset quiet_MarkAdminPasswordResetUsed)+


lemma identity_step_aside: "identity_step uc m m' \<Longrightarrow> aside m m'"
  by (erule identity_step.cases; hypsubst)
    (rule aside_CreateOfflinePassportProfile aside_CreateOfflinePassport aside_UpsertPremiumPassport
      aside_UpsertPremiumPassportProfile aside_CreateProfile aside_CreateOfflinePlayer aside_UpsertPremiumPlayer
      aside_BindProfileToPassport aside_UnbindProfileFromPassport aside_UnbindProfile aside_SetPassportStatus
      aside_SetProfileStatus aside_UpdateProfileIdentity aside_SetPlayerLocked aside_RecordPlayerSeen
      aside_DeleteProfile aside_DeletePassport aside_FactoryReset aside_SetProfileSkin aside_DeleteProfileSkin
      aside_SetProfileSkinSource aside_SetPassportSkin aside_SetPassportSkinSource aside_DeletePassportSkin
      aside_RecordOfflineLoginFailure aside_RecordOfflineLoginSuccess aside_RecordPassportLoginFailure
      aside_RecordPassportLoginSuccess aside_UpdateOfflinePassword aside_UpdatePassportPassword
      aside_SetPassportPasswordRecovery)+

lemma identity_inv_derived:
  assumes "identity_inv uc {} m"
  shows "collision_free uc m (ToLower uc s1) \<Longrightarrow> identity_inv uc {} (fst (CreateOfflinePlayer uc s1 s2 t1 t2 t3 rnd1 m))"
    and "length u1 = 16 \<Longrightarrow> uuid_version u1 \<noteq> 8 \<Longrightarrow>
      identity_inv uc {} (fst (UpsertPremiumPlayer uc s1 u1 props1 t1 t2 t3 rnd1 m))"
    and "identity_inv uc {} (fst (RecordPassportLoginFailure s1 t1 m))"
    and "identity_inv uc {} (fst (RecordPassportLoginSuccess s1 m))"
    and "identity_inv uc {} (fst (UpdatePassportPassword s1 s2 s3 s4 t1 m))"
proof -
  have keep: "fst (case p of (m, Inl e) \<Rightarrow> (m, Inl e) | (m, Inr x) \<Rightarrow> (m, Inr (f x))) = fst p" for p :: "memory \<times> ('e + 'a)" and f
    by (cases p) (simp split: sum.split)
  show "collision_free uc m (ToLower uc s1) \<Longrightarrow> identity_inv uc {} (fst (CreateOfflinePlayer uc s1 s2 t1 t2 t3 rnd1 m))"
    unfolding CreateOfflinePlayer_def keep by (rule identity_inv_CreateOfflinePassportProfile [OF assms])
  show "length u1 = 16 \<Longrightarrow> uuid_version u1 \<noteq> 8 \<Longrightarrow>
      identity_inv uc {} (fst (UpsertPremiumPlayer uc s1 u1 props1 t1 t2 t3 rnd1 m))"
    unfolding UpsertPremiumPlayer_def keep by (rule identity_inv_UpsertPremiumPassportProfile [OF assms])
  show "identity_inv uc {} (fst (RecordPassportLoginFailure s1 t1 m))"
    unfolding RecordPassportLoginFailure_def keep by (rule identity_inv_credentials(1) [OF assms])
  show "identity_inv uc {} (fst (RecordPassportLoginSuccess s1 m))"
    unfolding RecordPassportLoginSuccess_def by (rule identity_inv_credentials(2) [OF assms])
  show "identity_inv uc {} (fst (UpdatePassportPassword s1 s2 s3 s4 t1 m))"
    unfolding UpdatePassportPassword_def by (rule identity_inv_credentials(4) [OF assms])
qed

lemma identity_step_inv:
  assumes "identity_step uc m m'" and inv: "identity_inv uc {} m" shows "identity_inv uc {} m'"
  using assms(1)
  by (cases; hypsubst)
    (rule identity_inv_CreateOfflinePassportProfile [OF inv] identity_inv_CreateOfflinePassport [OF inv]
      identity_inv_UpsertPremiumPassport [OF inv] identity_inv_UpsertPremiumPassportProfile [OF inv]
      identity_inv_CreateProfile [OF inv] identity_inv_BindProfileToPassport [OF inv] identity_inv_Unbind(1) [OF
      inv] identity_inv_Unbind(2) [OF inv] identity_inv_SetPassportStatus [OF inv] identity_inv_SetProfileStatus
      [OF inv] identity_inv_UpdateProfileIdentity [OF inv] identity_inv_SetPlayerLocked [OF inv]
      identity_inv_RecordPlayerSeen [OF inv] identity_inv_DeleteProfile [OF inv] identity_inv_DeletePassport [OF
      inv] identity_inv_profile_skins(1) [OF inv] identity_inv_profile_skins(2) [OF inv]
      identity_inv_profile_skins(3) [OF inv] identity_inv_passport_skins(1) [OF inv]
      identity_inv_passport_skins(2) [OF inv] identity_inv_passport_skins(3) [OF inv]
      identity_inv_credentials(1) [OF inv] identity_inv_credentials(2) [OF inv] identity_inv_credentials(4) [OF
      inv] identity_inv_credentials(3) [OF inv]
      identity_inv_derived [OF inv] identity_inv_FactoryReset | assumption)+

lemma quiet_record_fields:
  "identity_inv uc {} m \<Longrightarrow> identity_inv uc {} (m\<lparr>nextID := n, presencesByID := a\<rparr>)"
  "identity_inv uc {} m \<Longrightarrow> identity_inv uc {} (m\<lparr>nextAuditID := n, auditEvents := b\<rparr>)"
  "identity_inv uc {} m \<Longrightarrow> identity_inv uc {} (m\<lparr>nextID := n, adminUsers := c\<rparr>)"
  by (erule identity_inv_eq; simp)+

text \<open>The presence methods write the presences and the counter only, and so on.\<close>

lemma presence_writes:
  "\<exists>n a. fst (UpsertPresence p t m) = m\<lparr>nextID := n, presencesByID := a\<rparr> \<and> nextID m \<le> n"
  "\<exists>n a. fst (EndPresence i r t m) = m\<lparr>nextID := n, presencesByID := a\<rparr> \<and> nextID m \<le> n"
  "\<exists>n a. fst (endPresencesLocked P r t m) = m\<lparr>nextID := n, presencesByID := a\<rparr> \<and> nextID m \<le> n"
proof -
  show "\<exists>n a. fst (UpsertPresence p t m) = m\<lparr>nextID := n, presencesByID := a\<rparr> \<and> nextID m \<le> n"
    by (rule exI [of _ "nextID (fst (UpsertPresence p t m))"], rule exI [of _ "presencesByID (fst (UpsertPresence p t m))"])
      (simp add: UpsertPresence_def Let_def)
  show "\<exists>n a. fst (EndPresence i r t m) = m\<lparr>nextID := n, presencesByID := a\<rparr> \<and> nextID m \<le> n"
    by (rule exI [of _ "nextID m"], rule exI [of _ "presencesByID (fst (EndPresence i r t m))"])
      (simp add: EndPresence_def Let_def split: option.split)
  show "\<exists>n a. fst (endPresencesLocked P r t m) = m\<lparr>nextID := n, presencesByID := a\<rparr> \<and> nextID m \<le> n"
    by (rule exI [of _ "nextID m"], rule exI [of _ "presencesByID (fst (endPresencesLocked P r t m))"])
      (simp add: endPresencesLocked_def)
qed

lemma admin_writes:
  "\<exists>n a. fst (CreateAdminUser uc u t m) = m\<lparr>nextID := n, adminUsers := a\<rparr>"
  "\<exists>n a. fst (UpdateAdminUserProfile uc i name email t m) = m\<lparr>nextID := n, adminUsers := a\<rparr>"
  "\<exists>n a. fst (UpdateAdminUser uc u t m) = m\<lparr>nextID := n, adminUsers := a\<rparr>"
  "\<exists>n a. fst (UpdateAdminUserPassword i h t m) = m\<lparr>nextID := n, adminUsers := a\<rparr>"
proof -
  show "\<exists>n a. fst (CreateAdminUser uc u t m) = m\<lparr>nextID := n, adminUsers := a\<rparr>"
    by (rule exI [of _ "nextID (fst (CreateAdminUser uc u t m))"], rule exI [of _ "adminUsers (fst (CreateAdminUser uc u t m))"])
      (simp add: CreateAdminUser_def Let_def)
  show "\<exists>n a. fst (UpdateAdminUserProfile uc i name email t m) = m\<lparr>nextID := n, adminUsers := a\<rparr>"
    by (rule exI [of _ "nextID m"], rule exI [of _ "adminUsers (fst (UpdateAdminUserProfile uc i name email t m))"])
      (simp add: UpdateAdminUserProfile_def Let_def split: option.split)
  show "\<exists>n a. fst (UpdateAdminUser uc u t m) = m\<lparr>nextID := n, adminUsers := a\<rparr>"
    by (rule exI [of _ "nextID m"], rule exI [of _ "adminUsers (fst (UpdateAdminUser uc u t m))"])
      (simp add: UpdateAdminUser_def Let_def split: option.split)
  show "\<exists>n a. fst (UpdateAdminUserPassword i h t m) = m\<lparr>nextID := n, adminUsers := a\<rparr>"
    by (rule exI [of _ "nextID m"], rule exI [of _ "adminUsers (fst (UpdateAdminUserPassword i h t m))"])
      (simp add: UpdateAdminUserPassword_def split: option.split)
qed

lemma store_inv_presence_write:
  assumes inv: "store_inv uc m" and w: "\<exists>n a. m' = m\<lparr>nextID := n, presencesByID := a\<rparr> \<and> nextID m \<le> n"
    and ok: "presences_ok m'"
  shows "store_inv uc m'"
proof -
  obtain n a where m': "m' = m\<lparr>nextID := n, presencesByID := a\<rparr>" "nextID m \<le> n" using w by blast
  have "identity_inv uc {} m'" unfolding m' by (rule quiet_record_fields [OF store_invD(1) [OF inv]])
  moreover have "audit_ok m'" using store_invD(3) [OF inv] by (simp add: m' audit_ok_def)
  moreover have "admins_ok uc m'" by (rule admins_ok_mono [OF store_invD(4) [OF inv]]) (simp_all add: m')
  ultimately show ?thesis using ok by (simp add: store_inv_def)
qed

lemma store_inv_admin_write:
  assumes inv: "store_inv uc m" and w: "\<exists>n a. m' = m\<lparr>nextID := n, adminUsers := a\<rparr>" and ok: "admins_ok uc m'"
  shows "store_inv uc m'"
proof -
  obtain n a where m': "m' = m\<lparr>nextID := n, adminUsers := a\<rparr>" using w by blast
  have "identity_inv uc {} m'" unfolding m' by (rule quiet_record_fields [OF store_invD(1) [OF inv]])
  moreover have "audit_ok m'" using store_invD(3) [OF inv] by (simp add: m' audit_ok_def)
  moreover have "presences_ok m'" using store_invD(2) [OF inv] presences_ok_cong [of m' m] by (simp add: m')
  ultimately show ?thesis using ok by (simp add: store_inv_def)
qed

lemma store_inv_Append:
  assumes inv: "store_inv uc m" shows "store_inv uc (fst (AppendAuditEvent e m))"
proof -
  obtain n b where m': "fst (AppendAuditEvent e m) = m\<lparr>nextAuditID := n, auditEvents := b\<rparr>"
    by (simp add: AppendAuditEvent_def Let_def)
  have "identity_inv uc {} (fst (AppendAuditEvent e m))" unfolding m' by (rule quiet_record_fields [OF store_invD(1) [OF inv]])
  moreover have "presences_ok (fst (AppendAuditEvent e m))" unfolding m'
    using store_invD(2) [OF inv] presences_ok_cong [of "m\<lparr>nextAuditID := n, auditEvents := b\<rparr>" m] by simp
  moreover have "admins_ok uc (fst (AppendAuditEvent e m))" unfolding m'
    by (rule admins_ok_mono [OF store_invD(4) [OF inv]]) simp_all
  ultimately show ?thesis using audit_ok_Append [OF store_invD(3) [OF inv]] by (simp add: store_inv_def)
qed

lemma record_step_inv:
  assumes "record_step uc m m'" and inv: "store_inv uc m" shows "store_inv uc m'"
  using assms(1)
proof cases
  case (do_UpsertPresence p t)
  then show ?thesis using store_inv_presence_write [OF inv presence_writes(1) presences_ok_Upsert] store_invD(2) [OF inv] by blast
next
  case (do_EndPresence i r t)
  then show ?thesis using store_inv_presence_write [OF inv presence_writes(2) presences_ok_End] store_invD(2) [OF inv] by blast
next
  case (do_EndProfilePresences i r t)
  then show ?thesis
    unfolding EndProfilePresences_def
    using store_inv_presence_write [OF inv presence_writes(3) presences_ok_endPresences] store_invD(2) [OF inv] by blast
next
  case (do_EndPassportPresences i r t)
  then show ?thesis
    unfolding EndPassportPresences_def
    using store_inv_presence_write [OF inv presence_writes(3) presences_ok_endPresences] store_invD(2) [OF inv] by blast
next
  case (do_AppendAuditEvent e)
  then show ?thesis using store_inv_Append [OF inv] by blast
next
  case (do_CreateAdminUser u t)
  then show ?thesis using store_inv_admin_write [OF inv admin_writes(1) admins_ok_Create] store_invD(4) [OF inv] by blast
next
  case (do_UpdateAdminUserProfile i name email t)
  then show ?thesis using store_inv_admin_write [OF inv admin_writes(2) admins_ok_UpdateProfile] store_invD(4) [OF inv] by blast
next
  case (do_UpdateAdminUser u t)
  then show ?thesis using store_inv_admin_write [OF inv admin_writes(3) admins_ok_Update] store_invD(4) [OF inv] by blast
next
  case (do_UpdateAdminUserPassword i h t)
  then show ?thesis using store_inv_admin_write [OF inv admin_writes(4) admins_ok_Password] store_invD(4) [OF inv] by blast
qed

lemma store_inv_reordered:
  assumes inv: "store_inv uc m" and r: "reordered m m'" shows "store_inv uc m'"
proof -
  have same: "same_identity m m'" using r by (simp add: same_identity_def reordered_def same_map_def)
  have p: "gget (presencesByID m') = gget (presencesByID m)" "gget (adminUsers m') = gget (adminUsers m)"
    and c: "nextID m' = nextID m" "nextAuditID m' = nextAuditID m" "auditEvents m' = auditEvents m"
    using r by (simp_all add: reordered_def same_map_def)
  have "identity_inv uc {} m'" by (rule identity_inv_same [OF store_invD(1) [OF inv] same])
  moreover have "presences_ok m'" using store_invD(2) [OF inv] by (simp only: presences_ok_def p)
  moreover have "audit_ok m'" using store_invD(3) [OF inv] by (simp only: audit_ok_def c)
  moreover have "admins_ok uc m'" using store_invD(4) [OF inv] unfolding admins_ok_def p c .
  ultimately show ?thesis by (simp add: store_inv_def)
qed

lemma store_step_inv:
  assumes "store_step uc m m'" and inv: "store_inv uc m" shows "store_inv uc m'"
  using assms(1)
proof cases
  case by_identity
  then show ?thesis
    by (intro store_inv_aside [OF inv] identity_step_inv [OF _ store_invD(1) [OF inv]] identity_step_aside)
next
  case by_table
  then show ?thesis by (intro store_inv_quiet [OF inv] table_step_quiet)
next
  case by_record
  then show ?thesis using record_step_inv inv by blast
next
  case by_reorder
  then show ?thesis by (rule store_inv_reordered [OF inv])
qed

lemma store_reachable_inv: "store_reachable uc m \<Longrightarrow> store_inv uc m"
  by (induction rule: store_reachable.induct) (auto intro: store_inv_NewMemory store_step_inv)

subsection \<open>Roles and one-time tokens\<close>

lemma store_step_keeps:
  assumes "store_step uc m m'" shows "keeps m m'"
  using assms
proof cases
  case by_identity
  then show ?thesis using identity_step_aside [of uc m m'] by (intro keeps_shrinks) (simp_all add: aside_def)
next
  case by_table
  then show ?thesis using table_step_quiet [of uc m m'] by (simp add: quiet_def)
next
  case by_record
  then show ?thesis
  proof cases
    case (do_AppendAuditEvent e)
    then show ?thesis by (simp add: AppendAuditEvent_def Let_def)
  next
    case (do_UpsertPresence p t)
    then show ?thesis using presence_writes(1) [of p t m] by auto
  next
    case (do_EndPresence i r t)
    then show ?thesis using presence_writes(2) [of i r t m] by auto
  next
    case (do_EndProfilePresences i r t)
    then show ?thesis using presence_writes(3) [of "\<lambda>p. pc_ProfileID p = i" r t m] by (auto simp: EndProfilePresences_def)
  next
    case (do_EndPassportPresences i r t)
    then show ?thesis using presence_writes(3) [of "\<lambda>p. pc_PassportID p = i" r t m] by (auto simp: EndPassportPresences_def)
  next
    case (do_CreateAdminUser u t)
    then show ?thesis using admin_writes(1) [of uc u t m] by auto
  next
    case (do_UpdateAdminUserProfile i name email t)
    then show ?thesis using admin_writes(2) [of uc i name email t m] by auto
  next
    case (do_UpdateAdminUser u t)
    then show ?thesis using admin_writes(3) [of uc u t m] by auto
  next
    case (do_UpdateAdminUserPassword i h t)
    then show ?thesis using admin_writes(4) [of i h t m] by auto
  qed
next
  case by_reorder
  then show ?thesis
    by (auto simp: keeps_def roles_ok_def grants_from_def links_from_def reordered_def same_map_def)
qed

lemma store_reachable_roles: "store_reachable uc m \<Longrightarrow> roles_ok m"
proof (induction rule: store_reachable.induct)
  case init
  show ?case by (simp add: roles_ok_def NewMemory_def)
next
  case (step m m')
  from store_step_keeps [OF step.hyps(2)] step.IH show ?case by (simp add: keeps_def)
qed

text \<open>A run of the store during which no grant and no link is saved under the hash \<open>h\<close>.\<close>

inductive unsaved_run :: "unicode \<Rightarrow> string \<Rightarrow> memory \<Rightarrow> memory \<Rightarrow> bool" for uc h m where
  refl: "unsaved_run uc h m m"
| step: "unsaved_run uc h m m' \<Longrightarrow> store_step uc m' m'' \<Longrightarrow>
    \<forall>g. tg_TokenHash g = h \<longrightarrow> m'' \<noteq> SaveTransferGrant g m' \<Longrightarrow>
    \<forall>l. li_TokenHash l = h \<longrightarrow> m'' \<noteq> SavePortalLink l m' \<Longrightarrow> unsaved_run uc h m m''"

text \<open>A hash under which nothing can be used: no pending grant, no active link.\<close>

definition grant_dead :: "memory \<Rightarrow> string \<Rightarrow> bool" where
  "grant_dead m h \<longleftrightarrow> (\<forall>g. gget (transferGrants m) h = Some g \<longrightarrow> tg_ConsumedAt g \<noteq> None)"

definition link_dead :: "memory \<Rightarrow> string \<Rightarrow> bool" where
  "link_dead m h \<longleftrightarrow> (\<forall>l. gget (portalLinksByToken m) h = Some l \<longrightarrow> li_Status l \<noteq> PortalLinkActive)"

lemma dead_refused:
  "grant_dead m h \<Longrightarrow> \<not> is_ok (snd (ConsumeTransferGrant uc h a m))"
  "link_dead m h \<Longrightarrow> \<not> is_ok (snd (MarkPortalLinkUsed h t m))"
  by (auto simp: grant_dead_def link_dead_def ConsumeTransferGrant_def MarkPortalLinkUsed_def split: option.split)

lemma unsaved_run_dead:
  "unsaved_run uc h m m' \<Longrightarrow> (grant_dead m h \<longrightarrow> grant_dead m' h) \<and> (link_dead m h \<longrightarrow> link_dead m' h)"
proof (induction rule: unsaved_run.induct)
  case (step m' m'')
  note k = store_step_keeps [OF step.hyps(2), unfolded keeps_def grants_from_def links_from_def]
  show ?case
  proof (intro conjI impI)
    assume "grant_dead m h"
    then show "grant_dead m'' h" using step.IH step.hyps(3) k unfolding grant_dead_def by blast
  next
    assume "link_dead m h"
    then show "link_dead m'' h" using step.IH step.hyps(4) k unfolding link_dead_def by blast
  qed
qed simp

end
