(* ===== verification/StoreSamples.thy ===== *)
theory StoreSamples
  imports StoreSystem
begin

text \<open>
  Small concrete stores, each reached by operations of the store: one premium account, and beside it
  an offline account of the same name.
\<close>

subsection \<open>A concrete store\<close>

text \<open>One premium passport with its profile, for the witnesses.\<close>

definition sample_uuid :: UUID where
  "sample_uuid = replicate 6 0 @ [0x40, 0, 0x80] @ replicate 7 1"

abbreviation (input) sample_q :: string where "sample_q \<equiv> ''00000000-0000-4000-8001-010101010101''"
abbreviation (input) sample_p :: string where "sample_p \<equiv> ''07070707-0707-4707-8707-070707070707''"

definition sample_store :: memory where
  "sample_store = fst (UpsertPremiumPassportProfile plain_unicode ''Notch'' sample_uuid [] 1 2 3 (Some (replicate 16 7)) NewMemory)"

lemma sample_reachable: "store_reachable plain_unicode sample_store"
proof -
  have "length sample_uuid = 16" "uuid_version sample_uuid \<noteq> 8" by code_simp+
  then show ?thesis
    unfolding sample_store_def
    by (intro store_reachable.step [OF store_reachable.init] by_identity do_UpsertPremiumPassportProfile)
qed

lemma sample_free: "collision_free plain_unicode sample_store n"
proof -
  have "list_all (\<lambda>pp. pp_Kind pp \<noteq> PassportKindOffline) (gvals (passportsByID sample_store))" by code_simp
  then have "\<not> offline_passport sample_store q n" for q n
    by (auto simp: list_all_iff offline_passport_def)
  then show ?thesis by (simp add: collision_free_def)
qed

lemma CreateOfflinePassport_stores:
  assumes "NormalizeOfflineName uc raw = Inr n" "gget (passportByUsername m) (on_Normalized n) = None"
  obtains pp where "passportsByID (fst (CreateOfflinePassport uc raw h e k t m)) =
      gput (passportsByID m) (UUID_String (OfflinePassportUUID uc (on_Normalized n))) pp"
    "pp_Kind pp = PassportKindOffline" "pp_UsernameNormalized pp = on_Normalized n"
proof (rule that)
  let ?pp = "(projr (NewOfflinePassport uc raw t))\<lparr>pp_SkinSource := NormalizePassportSkinSource uc PassportKindOffline ''upstream''\<rparr>"
  show "passportsByID (fst (CreateOfflinePassport uc raw h e k t m)) =
      gput (passportsByID m) (UUID_String (OfflinePassportUUID uc (on_Normalized n))) ?pp"
    "pp_Kind ?pp = PassportKindOffline" "pp_UsernameNormalized ?pp = on_Normalized n"
    using assms by (simp_all add: CreateOfflinePassport_def NewOfflinePassport_def Let_def zero_Passport_def)
qed

definition sample_twins :: memory where
  "sample_twins = fst (CreateOfflinePassport plain_unicode ''notch'' ''h'' [] [] 5 sample_store)"

lemma sample_twins_reachable: "store_reachable plain_unicode sample_twins"
  unfolding sample_twins_def
  by (intro store_reachable.step [OF sample_reachable] by_identity do_CreateOfflinePassport sample_free)

abbreviation (input) notch_q :: string where "notch_q \<equiv> UUID_String (OfflinePassportUUID plain_unicode ''notch'')"

lemma notch_name: "NormalizeOfflineName plain_unicode ''notch'' = Inr \<lparr>on_Raw = ''notch'', on_Normalized = ''notch'', on_Protocol = ''notch''\<rparr>"
  by code_simp

lemma sample_twins_passports:
  obtains pp where "passportsByID sample_twins = gput (passportsByID sample_store) notch_q pp"
    "pp_Kind pp = PassportKindOffline" "pp_UsernameNormalized pp = ''notch''"
  unfolding sample_twins_def
proof (rule CreateOfflinePassport_stores [OF notch_name, where m = sample_store and h = "''h''" and e = "[]" and k = "[]" and t = 5])
  have "gget (passportByUsername sample_store) ''notch'' = None" by code_simp
  then show "gget (passportByUsername sample_store) (on_Normalized \<lparr>on_Raw = ''notch'', on_Normalized = ''notch'', on_Protocol = ''notch''\<rparr>) = None"
    by simp
qed (simp add: that)

lemma sample_twins_offline: "offline_passport sample_twins notch_q ''notch''"
  by (rule sample_twins_passports) (simp add: offline_passport_def)

end
