(* ===== verification/StoreRoster.thy ===== *)
theory StoreRoster
  imports StoreDelete
begin

text \<open>
  The abstract specification of the links.  A passport owns a roster: the profiles it is linked to,
  each with the time it joined, and their head, the primary profile.  A profile joins a roster and
  leaves it; when the head leaves, the member that joined first succeeds.  The rest of the theory shows
  that the operations on links implement these two moves and touch no roster but those they name,
  whatever order the maps of the store are visited in.
\<close>

subsection \<open>The specification\<close>

record roster =
  ro_members :: "string \<Rightarrow> time option"
  ro_head :: "string option"

definition joins :: "string \<Rightarrow> time \<Rightarrow> bool \<Rightarrow> roster \<Rightarrow> roster" where
  "joins p now primary r =
     \<lparr>ro_members = (ro_members r)(p := Some (case ro_members r p of None \<Rightarrow> now | Some t \<Rightarrow> t)),
      ro_head = (if primary \<or> ro_head r = None then Some p else ro_head r)\<rparr>"

text \<open>Who succeeds: the member that joined first, the lesser identifier of two that joined at once.\<close>

definition succeeds :: "(string \<Rightarrow> time option) \<Rightarrow> string option \<Rightarrow> bool" where
  "succeeds ms h \<longleftrightarrow>
     (case h of None \<Rightarrow> (\<forall>s. ms s = None)
      | Some s \<Rightarrow> (\<exists>t. ms s = Some t \<and> (\<forall>s' t'. ms s' = Some t' \<longrightarrow> t < t' \<or> (t = t' \<and> s \<le> s'))))"

definition leaves :: "string \<Rightarrow> roster \<Rightarrow> roster \<Rightarrow> bool" where
  "leaves p r r' \<longleftrightarrow>
     ro_members r' = (ro_members r)(p := None) \<and>
     (if ro_head r = Some p then succeeds (ro_members r') (ro_head r') else ro_head r' = ro_head r)"

lemma succeeds_unique: "succeeds ms h \<Longrightarrow> succeeds ms h' \<Longrightarrow> h = h'"
  by (cases h; cases h') (fastforce simp: succeeds_def)+

lemma leaves_unique: "leaves p r r' \<Longrightarrow> leaves p r r'' \<Longrightarrow> r' = r''"
  unfolding leaves_def by (auto intro!: roster.equality dest: succeeds_unique split: if_splits)

subsection \<open>The roster of a passport in the store\<close>

definition roster_of :: "memory \<Rightarrow> string \<Rightarrow> roster" where
  "roster_of m q =
     \<lparr>ro_members = (\<lambda>p. map_option ln_LinkedAt (link_of m p q)),
      ro_head = List.find (\<lambda>p. is_primary m p q) (gkeys (profiles_of m q))\<rparr>"

lemma ro_members_roster_of [simp]: "ro_members (roster_of m q) p = map_option ln_LinkedAt (link_of m p q)"
  by (simp add: roster_of_def)

lemma head_iff:
  assumes "tables_ok X m"
  shows "ro_head (roster_of m q) = Some p \<longleftrightarrow> is_primary m p q"
proof -
  have linked: "p \<in> set (gkeys (profiles_of m q))" if "is_primary m p q" for p
    using that tables_okD(2) [OF assms] unfolding link_sym_def is_primary_def
    by (metis gget2_ginner not_None_eq set_gkeys_iff)
  show ?thesis
  proof
    assume "is_primary m p q"
    with linked obtain p' where "ro_head (roster_of m q) = Some p'"
      by (cases "ro_head (roster_of m q)") (auto simp: roster_of_def find_None_iff)
    moreover from this have "is_primary m p' q" by (auto simp: roster_of_def dest: find_Some_in)
    ultimately show "ro_head (roster_of m q) = Some p"
      using tables_okD(6) [OF assms] \<open>is_primary m p q\<close> unfolding one_primary_def by blast
  qed (auto simp: roster_of_def dest: find_Some_in)
qed

lemma head_None:
  assumes "tables_ok X m" "q \<notin> X"
  shows "ro_head (roster_of m q) = None \<longleftrightarrow> (\<forall>p. link_of m p q = None)"
proof -
  have "ro_head (roster_of m q) = None \<longleftrightarrow> (\<forall>p. \<not> is_primary m p q)"
    by (metis assms(1) head_iff option.distinct(1) option.exhaust)
  also have "\<dots> \<longleftrightarrow> (\<forall>p. link_of m p q = None)"
    using tables_okD(7) [OF assms(1)] assms(2) unfolding has_primary_def is_primary_def by fastforce
  finally show ?thesis .
qed

lemma head_cong:
  assumes "tables_ok X m" "tables_ok Y m'" "\<And>p. is_primary m' p q = is_primary m p q"
  shows "ro_head (roster_of m' q) = ro_head (roster_of m q)"
  using head_iff [OF assms(1), of q] head_iff [OF assms(2), of q] assms(3) by (metis not_None_eq)

lemma roster_of_cong:
  assumes "tables_ok X m" "tables_ok Y m'" "\<And>p. link_of m' p q = link_of m p q"
  shows "roster_of m' q = roster_of m q"
  by (rule roster.equality) (use assms in \<open>auto simp: fun_eq_iff is_primary_def intro!: head_cong\<close>)


subsection \<open>The operations on links\<close>

lemma roster_link:
  assumes ok: "tables_ok X m" and q: "pp_ID passport \<notin> X" and pf: "gget (profilesByID m) (pf_ID profile) = Some pf0"
    and r: "linkProfileLocked now passport profile primary m = (m', pp)" and ok': "tables_ok Y m'"
  shows "roster_of m' q' =
    (if q' = pp_ID passport then joins (pf_ID profile) now primary (roster_of m q') else roster_of m q')"
proof (cases "q' = pp_ID passport")
  case True
  let ?p = "pf_ID profile"
  note lk = linkProfileLocked_eq(5) [OF ok pf r]
  have b: "becomes_primary m ?p q' primary \<longleftrightarrow>
      primary \<or> ro_head (roster_of m q') = Some ?p \<or> ro_head (roster_of m q') = None"
    using head_iff [OF ok] head_None [OF ok, of q'] q True by (auto simp: becomes_primary_def)
  have "roster_of m' q' = joins ?p now primary (roster_of m q')"
  proof (rule roster.equality)
    show "ro_members (roster_of m' q') = ro_members (joins ?p now primary (roster_of m q'))"
      using True by (auto simp: fun_eq_iff lk joins_def new_link_def unprimary_def option.map_comp comp_def
          split: option.split)
    have new: "is_primary m' s q' \<longleftrightarrow>
        (if becomes_primary m ?p q' primary then s = ?p else is_primary m s q')" for s
      using True by (auto simp: is_primary_def lk new_link_def) (auto simp: unprimary_def becomes_primary_def is_primary_def)
    have "ro_head (roster_of m' q') = Some s \<longleftrightarrow>
        ro_head (joins ?p now primary (roster_of m q')) = Some s" for s
      unfolding head_iff [OF ok'] new b head_iff [OF ok, symmetric] by (auto simp: joins_def)
    then show "ro_head (roster_of m' q') = ro_head (joins ?p now primary (roster_of m q'))"
      by (metis not_None_eq)
  qed simp
  with True show ?thesis by simp
next
  case False
  then show ?thesis
    by (auto intro!: roster_of_cong [OF ok ok'] simp: linkProfileLocked_eq(5) [OF ok pf r])
qed

lemma roster_unlink:
  assumes ok: "tables_ok X m" and q: "q \<notin> X" and l: "link_of m p q \<noteq> None"
    and r: "unlinkProfileLocked p q True m = (m', res)" and ok': "tables_ok X m'"
  shows "leaves p (roster_of m q) (roster_of m' q)" and "q' \<noteq> q \<Longrightarrow> roster_of m' q' = roster_of m q'"
proof -
  obtain lp where lp: "link_of m p q = Some lp" using l by blast
  obtain sel where
    none: "sel = None \<longleftrightarrow> \<not> (True \<and> ln_IsPrimary lp \<and> (\<exists>p'. p' \<noteq> p \<and> link_of m p' q \<noteq> None))" and
    some: "\<And>s. sel = Some s \<Longrightarrow> s \<noteq> p \<and> (\<exists>ls. link_of m s q = Some ls \<and>
        (\<forall>p' l'. p' \<noteq> p \<longrightarrow> link_of m p' q = Some l' \<longrightarrow> precedes ln_ProfileID ls l'))" and
    lk: "\<And>p' q'. link_of m' p' q' = (if p' = p \<and> q' = q then None
        else if q' = q \<and> sel = Some p' then map_option set_primary (link_of m p' q') else link_of m p' q')"
    by (rule unlinkProfileLocked_eq [OF ok lp r]) (rule that; assumption)
  show "roster_of m' q' = roster_of m q'" if "q' \<noteq> q"
    using that by (intro roster_of_cong [OF ok ok']) (simp add: lk)
  have mem: "ro_members (roster_of m' q) = (ro_members (roster_of m q))(p := None)"
    by (auto simp: fun_eq_iff lk option.map_comp comp_def)
  have prim: "is_primary m' s q \<longleftrightarrow> (if sel = Some s then True else s \<noteq> p \<and> is_primary m s q)" for s
  proof (cases "sel = Some s")
    case True
    with some obtain ls where "s \<noteq> p" "link_of m s q = Some ls" by blast
    with True show ?thesis by (simp add: is_primary_def lk)
  qed (auto simp: is_primary_def lk)
  have head: "ro_head (roster_of m q) = Some p \<longleftrightarrow> ln_IsPrimary lp"
    by (simp add: head_iff [OF ok] is_primary_def lp)
  have uniq: "s = p" if "is_primary m s q" "ln_IsPrimary lp" for s
    using that lp tables_okD(6) [OF ok] unfolding one_primary_def is_primary_def by blast
  have keys: "ln_ProfileID l = s" if "link_of m s q = Some l" for s l
    using that tables_okD(1) [OF ok] unfolding link_keys_def by blast
  show "leaves p (roster_of m q) (roster_of m' q)"
  proof (cases sel)
    case None
    show ?thesis
    proof (cases "ln_IsPrimary lp")
      case True
      with None none have empty: "\<forall>p'. link_of m' p' q = None" by (auto simp: lk)
      then have "ro_head (roster_of m' q) = None" using head_None [OF ok' q] by simp
      with empty True head show ?thesis by (simp add: leaves_def mem [symmetric] succeeds_def)
    next
      case False
      have "is_primary m' s q = is_primary m s q" for s
        using False lp unfolding prim None by (auto simp: is_primary_def)
      with head_cong [OF ok ok'] False head mem show ?thesis by (simp add: leaves_def)
    qed
  next
    case (Some s)
    then have hs: "ro_head (roster_of m' q) = Some s" by (simp add: head_iff [OF ok'] prim)
    from some [OF Some] obtain ls where ls: "s \<noteq> p" "link_of m s q = Some ls"
      "\<And>p' l'. p' \<noteq> p \<Longrightarrow> link_of m p' q = Some l' \<Longrightarrow> precedes ln_ProfileID ls l'" by blast
    have "succeeds (ro_members (roster_of m' q)) (Some s)"
      using ls by (auto simp: succeeds_def mem precedes_def keys dest!: ls(3))
    with hs Some none head mem show ?thesis by (simp add: leaves_def)
  qed
qed

lemma roster_unlink_all:
  assumes "identity_inv uc {} m" "distinct qs" "\<And>q. q \<in> set qs \<Longrightarrow> link_of m p q \<noteq> None"
    and "unlink_all p True qs m = (m', res)"
  shows "if q \<in> set qs then leaves p (roster_of m q) (roster_of m' q) else roster_of m' q = roster_of m q"
  using assms
proof (induction qs arbitrary: m)
  case (Cons q0 qs)
  obtain m1 r1 where m1: "unlinkProfileLocked p q0 True m = (m1, r1)" by fastforce
  have l0: "link_of m p q0 \<noteq> None" by (rule Cons.prems(3)) simp
  note ok = identity_invD(1) [OF Cons.prems(1)]
  note u = unlink_linked [OF ok l0 m1]
  have inv1: "identity_inv uc {} m1"
    by (rule identity_inv_unlink [OF Cons.prems(1) m1]) simp_all
  note ro = roster_unlink [OF ok _ l0 m1 identity_invD(1) [OF inv1]]
  have "link_of m1 p q' \<noteq> None" if "q' \<in> set qs" for q'
    using that Cons.prems(2,3) unfolding u(3) by auto
  moreover have "unlink_all p True qs m1 = (m', res)" using Cons.prems(4) m1 u(1) by simp
  ultimately have ih: "if q \<in> set qs then leaves p (roster_of m1 q) (roster_of m' q) else roster_of m' q = roster_of m1 q"
    using Cons.prems(2) inv1 by (intro Cons.IH) auto
  show ?case
  proof (cases "q = q0")
    case True
    with ih Cons.prems(2) ro(1) show ?thesis by auto
  next
    case False
    with ih ro(2) show ?thesis by auto
  qed
qed simp

end
