(* ===== verification/GoTime.thy ===== *)
theory GoTime
  imports GoCodec
begin

text \<open>
  The parsers of Go's \<^verbatim>\<open>time\<close> package that the HTTP handlers call: \<^verbatim>\<open>time.Parse\<close> with the layout
  \<^verbatim>\<open>time.RFC3339\<close> and \<^verbatim>\<open>time.ParseDuration\<close>, whose fractions go through float64 arithmetic, written
  out on exact fractions with rounding to 53 bits.
\<close>

subsection \<open>Timestamps\<close>

definition is_leap :: "int \<Rightarrow> bool" where
  "is_leap y \<longleftrightarrow> y mod 4 = 0 \<and> (y mod 100 \<noteq> 0 \<or> y mod 400 = 0)"

definition daysIn :: "int \<Rightarrow> int \<Rightarrow> int" where
  "daysIn month year =
     (if month = 2 then (if is_leap year then 29 else 28) else if month \<in> {4, 6, 9, 11} then 30 else 31)"

text \<open>Days since the first of January of year 1; the inverse of \<open>civil_date\<close> on dates.\<close>

definition days_of_date :: "int \<times> int \<times> int \<Rightarrow> int" where
  "days_of_date = (\<lambda>(year, month, day).
     (let y = (if month \<le> 2 then year - 1 else year); era = y div 400; yoe = y mod 400;
          doy = (153 * (if 2 < month then month - 3 else month + 9) + 2) div 5 + day - 1;
          doe = yoe * 365 + yoe div 4 - yoe div 100 + doy
      in era * 146097 + doe - 306))"

text \<open>\<^verbatim>\<open>getnum\<close>: two digits, or one where the layout does not insist.\<close>

definition getnum :: "string \<Rightarrow> bool \<Rightarrow> (int \<times> string) option" where
  "getnum s fixed =
     (case s of [] \<Rightarrow> None
      | c # cs \<Rightarrow>
          if \<not> is_digit c then None
          else case cs of
            d # rest \<Rightarrow>
              if is_digit d then Some (int (code c - 48) * 10 + int (code d - 48), rest)
              else if fixed then None else Some (int (code c - 48), cs)
          | [] \<Rightarrow> if fixed then None else Some (int (code c - 48), cs))"

definition expect :: "char \<Rightarrow> string \<Rightarrow> string option" where
  "expect c s = (case s of [] \<Rightarrow> None | d # rest \<Rightarrow> if d = c then Some rest else None)"

definition in_range :: "int \<Rightarrow> int \<Rightarrow> (int \<times> string) option \<Rightarrow> (int \<times> string) option" where
  "in_range lo hi r = (case r of None \<Rightarrow> None | Some (n, s) \<Rightarrow> if lo \<le> n \<and> n \<le> hi then Some (n, s) else None)"

text \<open>A fraction of a second, cut to nine digits, in nanoseconds.\<close>

definition parse_fraction :: "string \<Rightarrow> int \<times> string" where
  "parse_fraction s =
     (case s of
        p # d # rest \<Rightarrow>
          if (p = CHR ''.'' \<or> p = CHR '','') \<and> is_digit d then
            let ds = takeWhile is_digit (d # rest); kept = take 9 ds in
            (foldl (\<lambda>a c. a * 10 + int (code c - 48)) 0 kept * 10 ^ (9 - length kept), drop (length ds) (d # rest))
          else (0, s)
      | _ \<Rightarrow> (0, s))"

text \<open>The offset in seconds and what follows it.\<close>

definition parse_zone :: "string \<Rightarrow> (int \<times> string) option" where
  "parse_zone s =
     (case s of
        z # rest \<Rightarrow>
          if z = CHR ''Z'' then Some (0, rest)
          else if length s < 6 \<or> s ! 3 \<noteq> CHR '':'' then None
          else
            (case in_range 0 24 (getnum (take 2 (drop 1 s)) True) of None \<Rightarrow> None
             | Some (hr, _) \<Rightarrow>
                 (case in_range 0 60 (getnum (take 2 (drop 4 s)) True) of None \<Rightarrow> None
                  | Some (mm, _) \<Rightarrow>
                      if z = CHR ''+'' then Some ((hr * 60 + mm) * 60, drop 6 s)
                      else if z = CHR ''-'' then Some (- ((hr * 60 + mm) * 60), drop 6 s)
                      else None))
      | [] \<Rightarrow> None)"

definition bind_num :: "(int \<times> string) option \<Rightarrow> (int \<Rightarrow> string \<Rightarrow> 'a option) \<Rightarrow> 'a option" where
  "bind_num r k = (case r of None \<Rightarrow> None | Some (n, s) \<Rightarrow> k n s)"

definition bind_text :: "string option \<Rightarrow> (string \<Rightarrow> 'a option) \<Rightarrow> 'a option" where
  "bind_text r k = (case r of None \<Rightarrow> None | Some s \<Rightarrow> k s)"

definition parse_rfc3339 :: "string \<Rightarrow> time option" where
  "parse_rfc3339 value =
     (if length value < 4 \<or> \<not> list_all is_digit (take 4 value) then None
      else
        let year = foldl (\<lambda>a c. a * 10 + int (code c - 48)) 0 (take 4 value) in
        bind_text (expect CHR ''-'' (drop 4 value)) (\<lambda>s.
        bind_num (in_range 1 12 (getnum s True)) (\<lambda>month s.
        bind_text (expect CHR ''-'' s) (\<lambda>s.
        bind_num (getnum s True) (\<lambda>day s.
        bind_text (expect CHR ''T'' s) (\<lambda>s.
        bind_num (in_range 0 23 (getnum s False)) (\<lambda>hour s.
        bind_text (expect CHR '':'' s) (\<lambda>s.
        bind_num (in_range 0 59 (getnum s True)) (\<lambda>minute s.
        bind_text (expect CHR '':'' s) (\<lambda>s.
        bind_num (in_range 0 59 (getnum s True)) (\<lambda>second s.
        (case parse_fraction s of (ns, s) \<Rightarrow>
        bind_num (parse_zone s) (\<lambda>offset s.
          if s \<noteq> [] \<or> day < 1 \<or> daysIn month year < day then None
          else Some ((days_of_date (year, month, day) * 86400 + (hour * 60 + minute) * 60 + second - offset) * 1000000000
                 + ns))))))))))))))"

subsection \<open>Durations\<close>

text \<open>Division of natural numbers rounded to a float64, as a fraction; the exponent is in range here.\<close>

fun bit_length :: "nat \<Rightarrow> nat" where
  "bit_length n = (if n = 0 then 0 else Suc (bit_length (n div 2)))"

declare bit_length.simps [simp del]

definition round_even :: "nat \<Rightarrow> nat \<Rightarrow> nat" where
  "round_even p q =
     (let n = p div q; r = p mod q in
      if 2 * r < q then n else if q < 2 * r then n + 1 else if even n then n else n + 1)"

definition scale2 :: "nat \<times> nat \<Rightarrow> int \<Rightarrow> nat \<times> nat" where
  "scale2 x k = (case x of (p, q) \<Rightarrow> if 0 \<le> k then (p * 2 ^ nat k, q) else (p, q * 2 ^ nat (- k)))"

definition to_float64 :: "nat \<times> nat \<Rightarrow> nat \<times> nat" where
  "to_float64 x =
     (case x of (p, q) \<Rightarrow>
        if p = 0 then (0, 1)
        else
          let k = 53 - (int (bit_length p) - int (bit_length q));
              k = (case scale2 (p, q) k of (a, b) \<Rightarrow> if b * 2 ^ 53 \<le> a then k - 1 else k)
          in case scale2 (p, q) k of (a, b) \<Rightarrow> scale2 (round_even a b, 1) (- k))"

definition float_times :: "nat \<times> nat \<Rightarrow> nat \<times> nat \<Rightarrow> nat \<times> nat" where
  "float_times x y = to_float64 (fst x * fst y, snd x * snd y)"

text \<open>\<^verbatim>\<open>uint64(float64(f) * (float64(unit) / scale))\<close>\<close>

definition fraction_of :: "nat \<Rightarrow> nat \<Rightarrow> nat \<Rightarrow> nat" where
  "fraction_of f unit scale =
     (case float_times (to_float64 (f, 1)) (to_float64 (unit, scale)) of (a, b) \<Rightarrow> a div b)"

text \<open>Digits after the point, while they fit 63 bits; the others are skipped.\<close>

definition leadingFraction :: "string \<Rightarrow> nat \<times> nat" where
  "leadingFraction ds =
     (case foldl (\<lambda>(x, scale, over) c.
          if over then (x, scale, over)
          else if (2 ^ 63 - 1) div 10 < x then (x, scale, True)
          else if 2 ^ 63 < x * 10 + (code c - 48) then (x, scale, True)
          else (x * 10 + (code c - 48), scale * 10, False)) (0, 1, False) ds of (x, scale, _) \<Rightarrow> (x, scale))"

text \<open>The micro sign and the Greek letter mu are two bytes each.\<close>

definition duration_unit :: "string \<Rightarrow> nat option" where
  "duration_unit u =
     (if u = ''ns'' then Some 1
      else if u = ''us'' \<or> u = [CHR 0xC2, CHR 0xB5, CHR ''s''] \<or> u = [CHR 0xCE, CHR 0xBC, CHR ''s''] then Some 1000
      else if u = ''ms'' then Some 1000000
      else if u = ''s'' then Some 1000000000
      else if u = ''m'' then Some 60000000000
      else if u = ''h'' then Some 3600000000000
      else None)"

definition numeric :: "char \<Rightarrow> bool" where "numeric c \<longleftrightarrow> c = CHR ''.'' \<or> is_digit c"

text \<open>
  One number with its unit and the rest of the text.  \<^verbatim>\<open>leadingInt\<close> refuses a number above \<open>2 ^ 63\<close>.
\<close>

definition duration_part :: "string \<Rightarrow> (nat \<times> string) option" where
  "duration_part s =
     (if s = [] \<or> \<not> numeric (hd s) then None
      else
        let pre = takeWhile is_digit s; s = dropWhile is_digit s;
            v = foldl (\<lambda>a c. a * 10 + (code c - 48)) 0 pre;
            point = (s \<noteq> [] \<and> hd s = CHR ''.'');
            post = (if point then takeWhile is_digit (tl s) else []);
            s = (if point then dropWhile is_digit (tl s) else s);
            u = takeWhile (\<lambda>c. \<not> numeric c) s; s = dropWhile (\<lambda>c. \<not> numeric c) s
        in
        if 2 ^ 63 < v \<or> pre = [] \<and> post = [] \<or> u = [] then None
        else case duration_unit u of None \<Rightarrow> None
          | Some unit \<Rightarrow>
              if 2 ^ 63 div unit < v then None
              else case leadingFraction post of (f, scale) \<Rightarrow>
                let n = v * unit + (if 0 < f then fraction_of f unit scale else 0) in
                if 2 ^ 63 < n then None else Some (n, s))"

lemma length_dropWhile: "length (dropWhile P s) \<le> length s"
  by (induction s) auto

lemma dropWhile_tl: "length (dropWhile P (tl s)) \<le> length s"
  by (rule order_trans [OF length_dropWhile]) simp

text \<open>Each part has a unit, so that the rest is shorter.\<close>

lemma duration_part_shorter:
  assumes "duration_part s = Some (n, t)" shows "length t < length s"
proof -
  define s1 where "s1 = dropWhile is_digit s"
  define s2 where "s2 = (if s1 \<noteq> [] \<and> hd s1 = CHR ''.'' then dropWhile is_digit (tl s1) else s1)"
  have t: "t = dropWhile (\<lambda>c. \<not> numeric c) s2" and u: "takeWhile (\<lambda>c. \<not> numeric c) s2 \<noteq> []"
    using assms by (auto simp: duration_part_def Let_def s1_def s2_def split: if_splits option.splits prod.splits)
  have "length s2 \<le> length s"
    using length_dropWhile [of is_digit s] dropWhile_tl [of is_digit s1] by (auto simp: s2_def s1_def)
  moreover have "length t < length s2"
    using u unfolding t by (metis takeWhile_dropWhile_id length_append length_greater_0_conv less_add_same_cancel2)
  ultimately show ?thesis by linarith
qed

function duration_parts :: "string \<Rightarrow> nat \<Rightarrow> nat option" where
  "duration_parts s d =
     (if s = [] then Some d
      else case duration_part s of None \<Rightarrow> None
        | Some (n, rest) \<Rightarrow> if 2 ^ 63 < d + n then None else duration_parts rest (d + n))"
  by pat_completeness auto

termination
  by (relation "measure (\<lambda>(s, d). length s)") (auto dest: duration_part_shorter)

declare duration_parts.simps [simp del]

definition ParseDuration :: "string \<Rightarrow> duration option" where
  "ParseDuration s =
     (let neg = (s \<noteq> [] \<and> hd s = CHR ''-''); s = (if s \<noteq> [] \<and> hd s \<in> {CHR ''-'', CHR ''+''} then tl s else s) in
      if s = ''0'' then Some 0
      else if s = [] then None
      else case duration_parts s 0 of None \<Rightarrow> None
        | Some d \<Rightarrow> if neg then Some (- int d) else if 2 ^ 63 - 1 < d then None else Some (int d))"

end
