(* ===== verification/MojangSession.thy ===== *)
theory MojangSession
  imports MojangPool GoCodec Identity
begin

text \<open>
  \<^verbatim>\<open>core/internal/mojang/session.go\<close> and \<^verbatim>\<open>core/internal/yggdrasil\<close>: the client of Mojang's session
  and profile servers with its cache, and the join service that falls back on offline players.

  The network is the function \<open>http\<close>: what a request over a route, named by its identifier, for a
  URL gives during the call.  The pool tries a route at most once in a call, so one reply per route
  suffices.  The body of a reply is the decoded profile, \<open>None\<close> when \<^verbatim>\<open>encoding/json\<close> refuses it;
  the date form of \<^verbatim>\<open>Retry-After\<close> comes as the time it denotes.  The base URLs are taken to have
  neither query nor fragment.  The verifier's mutex makes each call one step.
\<close>

subsection \<open>Profiles and replies\<close>

record MojangProfile =
  mp_ID :: string
  mp_Name :: string
  mp_Properties :: "ProfileProperty list"

record HasJoinedRequest =
  hj_Username :: string
  hj_ServerID :: string
  hj_IP :: string

datatype session_error = ErrProfileNotFound | SessionError string

datatype http_reply =
    ClientError string
  | NoReply string
  | Reply (reply_status: int) (reply_retry: string) (reply_date: "time option") (reply_body: "MojangProfile option")

datatype fetch_error = FetchNotFound | FetchFailed transport_error

definition unavailable :: "string \<Rightarrow> fetch_error" where
  "unavailable detail = FetchFailed \<lparr>te_Error = ''mojang route unavailable'' @ detail, te_RateLimited = False, te_RetryAfter = None\<rparr>"

definition parseRetryAfter :: "string \<Rightarrow> time option \<Rightarrow> time \<Rightarrow> duration" where
  "parseRetryAfter raw date now =
     (let raw = TrimSpace raw in
      if raw = [] then 0
      else case Atoi raw of Some seconds \<Rightarrow> wrap64 (seconds * Second)
      | None \<Rightarrow> (case date of None \<Rightarrow> 0 | Some t \<Rightarrow> if t - now < 0 then 0 else t - now))"

definition rateLimitFromResponse :: "string \<Rightarrow> time option \<Rightarrow> time \<Rightarrow> fetch_error" where
  "rateLimitFromResponse raw date now =
     (let retryAfter = parseRetryAfter raw date now in
      FetchFailed \<lparr>te_Error = ''mojang route rate limited'', te_RateLimited = True,
        te_RetryAfter = (if retryAfter \<le> 0 then None else Some retryAfter)\<rparr>)"

text \<open>\<^verbatim>\<open>client\<close> refuses a route of an unknown kind; a proxy address it cannot use is a \<open>ClientError\<close>.\<close>

definition route_kind_ok :: "Route \<Rightarrow> bool" where
  "route_kind_ok r \<longleftrightarrow> rt_Kind r \<in> {[], ''direct'', ''http'', ''socks5''}"

text \<open>The common part of \<^verbatim>\<open>fetch\<close> and \<^verbatim>\<open>fetchProfileByName\<close>.\<close>

definition read_reply :: "http_reply \<Rightarrow> time \<Rightarrow> fetch_error + MojangProfile" where
  "read_reply reply now =
     (case reply of
        ClientError detail \<Rightarrow> Inl (FetchFailed \<lparr>te_Error = detail, te_RateLimited = False, te_RetryAfter = None\<rparr>)
      | NoReply detail \<Rightarrow> Inl (unavailable ('': '' @ detail))
      | Reply status retry date body \<Rightarrow>
          if status = 204 \<or> status = 404 then Inl FetchNotFound
          else if status = 429 then Inl (rateLimitFromResponse retry date now)
          else if ErrorFromStatus status \<noteq> None then Inl (unavailable [])
          else if status < 200 \<or> 300 \<le> status then Inl FetchNotFound
          else case body of None \<Rightarrow> Inl (unavailable '': malformed mojang profile'')
          | Some profile \<Rightarrow>
              if mp_ID profile = [] \<or> mp_Name profile = [] then Inl (unavailable '': incomplete mojang profile'')
              else Inr profile)"

type_synonym http = "string \<Rightarrow> string \<Rightarrow> http_reply"

definition fetch_url :: "http \<Rightarrow> time \<Rightarrow> string \<Rightarrow> Route \<Rightarrow> fetch_error + MojangProfile" where
  "fetch_url http now url route =
     (if \<not> route_kind_ok route then Inl (unavailable ('': unsupported route kind '' @ rt_Kind route))
      else read_reply (http (rt_ID route) url) now)"

text \<open>\<^verbatim>\<open>query.Encode\<close> sorts the parameters by name.\<close>

definition hasJoined_url :: "string \<Rightarrow> HasJoinedRequest \<Rightarrow> string" where
  "hasJoined_url base request =
     base @ ''/session/minecraft/hasJoined?''
       @ (if hj_IP request \<noteq> [] then ''ip='' @ QueryEscape (hj_IP request) @ ''&'' else [])
       @ ''serverId='' @ QueryEscape (hj_ServerID request)
       @ ''&username='' @ QueryEscape (hj_Username request)"

definition profile_url :: "string \<Rightarrow> string \<Rightarrow> string" where
  "profile_url base username = base @ ''/users/profiles/minecraft/'' @ PathEscape username"

subsection \<open>The cache\<close>

record cacheEntry =
  ce_Profile :: MojangProfile
  ce_StoredAt :: time
  ce_ExpiresAt :: time
  ce_StaleAt :: time

record ProfileCache =
  ca_freshTTL :: duration
  ca_staleTTL :: duration
  ca_entries :: "(string, cacheEntry) gomap"

definition NewProfileCache :: "duration \<Rightarrow> duration \<Rightarrow> ProfileCache" where
  "NewProfileCache freshTTL staleTTL =
     (let freshTTL = (if freshTTL \<le> 0 then 30 * Second else freshTTL);
          staleTTL = (if staleTTL < freshTTL then freshTTL else staleTTL)
      in \<lparr>ca_freshTTL = freshTTL, ca_staleTTL = staleTTL, ca_entries = gempty\<rparr>)"

definition CacheKey :: "HasJoinedRequest \<Rightarrow> string" where
  "CacheKey request = hj_Username request @ [CHR 0x00] @ hj_ServerID request @ [CHR 0x00] @ hj_IP request"

definition ProfileNameCacheKey :: "unicode \<Rightarrow> string \<Rightarrow> string" where
  "ProfileNameCacheKey uc username = ''profile-name'' @ [CHR 0x00] @ ToLower uc (TrimSpace username)"

definition Cache_Put :: "string \<Rightarrow> MojangProfile \<Rightarrow> time \<Rightarrow> ProfileCache \<Rightarrow> ProfileCache" where
  "Cache_Put key profile now c =
     c\<lparr>ca_entries := gput (ca_entries c) key
         \<lparr>ce_Profile = profile, ce_StoredAt = now, ce_ExpiresAt = now + ca_staleTTL c, ce_StaleAt = now + ca_freshTTL c\<rparr>\<rparr>"

definition Cache_Get :: "ProfileCache \<Rightarrow> string \<Rightarrow> time \<Rightarrow> MojangProfile option" where
  "Cache_Get c key now =
     (case gget (ca_entries c) key of None \<Rightarrow> None
      | Some e \<Rightarrow> if After now (ce_ExpiresAt e) then None else Some (ce_Profile e))"

text \<open>The number of fresh, stale and expired entries.\<close>

definition Cache_Snapshot :: "ProfileCache \<Rightarrow> time \<Rightarrow> nat \<times> nat \<times> nat" where
  "Cache_Snapshot c now =
     (let expired = (\<lambda>e. After now (ce_ExpiresAt e)); stale = (\<lambda>e. \<not> expired e \<and> After now (ce_StaleAt e)) in
      (length (filter (\<lambda>e. \<not> expired e \<and> \<not> stale e) (gvals (ca_entries c))),
       length (filter stale (gvals (ca_entries c))), length (filter expired (gvals (ca_entries c)))))"

subsection \<open>The verifier\<close>

record SessionVerifier =
  vf_Pool :: "Pool option"
  vf_BaseURL :: string
  vf_ProfileURL :: string
  vf_Timeout :: duration
  vf_Cache :: "ProfileCache option"

definition trim_slashes :: "string \<Rightarrow> string" where
  "trim_slashes s = rev (dropWhile (\<lambda>c. c = CHR ''/'') (rev s))"

definition exec_error_text :: "exec_error \<Rightarrow> string" where
  "exec_error_text e =
     (case e of AllRoutesFailed err \<Rightarrow>
        ''all mojang routes failed'' @ [CHR 0x0A]
          @ (case err of None \<Rightarrow> ''mojang route unavailable'' | Some t \<Rightarrow> te_Error t))"

text \<open>
  The part \<^verbatim>\<open>HasJoined\<close> and \<^verbatim>\<open>LookupProfileByName\<close> have in common: a round over the pool in which
  a missing profile counts as an answer, then the cache.  A verifier without cache puts its answers
  into one it throws away.
\<close>

definition transport_of :: "(Route \<Rightarrow> fetch_error + MojangProfile) \<Rightarrow> transport" where
  "transport_of get route = (case get route of Inl (FetchFailed err) \<Rightarrow> Some err | _ \<Rightarrow> None)"

definition query_mojang ::
  "(Route \<Rightarrow> fetch_error + MojangProfile) \<Rightarrow> string \<Rightarrow> time \<Rightarrow> SessionVerifier \<Rightarrow>
   SessionVerifier \<times> (session_error + MojangProfile)" where
  "query_mojang get key now v =
     (case vf_Pool v of None \<Rightarrow> (v, Inl ErrProfileNotFound)
      | Some pool \<Rightarrow>
          case Execute (transport_of get) now pool of
            (pool, Inr route) \<Rightarrow>
              (case get route of
                 Inr profile \<Rightarrow>
                   (v\<lparr>vf_Pool := Some pool, vf_Cache := map_option (Cache_Put key profile now) (vf_Cache v)\<rparr>, Inr profile)
               | Inl _ \<Rightarrow> (v\<lparr>vf_Pool := Some pool\<rparr>, Inl ErrProfileNotFound))
          | (pool, Inl err) \<Rightarrow>
              (v\<lparr>vf_Pool := Some pool\<rparr>,
               case Option.bind (vf_Cache v) (\<lambda>c. Cache_Get c key now) of
                 Some profile \<Rightarrow> Inr profile
               | None \<Rightarrow> Inl (SessionError (''all mojang routes failed: '' @ exec_error_text err))))"

definition no_routes :: "SessionVerifier \<Rightarrow> bool" where
  "no_routes v \<longleftrightarrow> (case vf_Pool v of None \<Rightarrow> True | Some pool \<Rightarrow> po_Routes pool = [])"

definition HasJoined ::
  "http \<Rightarrow> time \<Rightarrow> HasJoinedRequest \<Rightarrow> SessionVerifier \<Rightarrow> SessionVerifier \<times> (session_error + MojangProfile)" where
  "HasJoined http now request v =
     (if no_routes v then (v, Inl ErrProfileNotFound)
      else
        let base = trim_slashes (vf_BaseURL v);
            base = (if base = [] then ''https://sessionserver.mojang.com'' else base)
        in query_mojang (fetch_url http now (hasJoined_url base request)) (CacheKey request) now v)"

definition LookupProfileByName ::
  "unicode \<Rightarrow> http \<Rightarrow> time \<Rightarrow> string \<Rightarrow> SessionVerifier \<Rightarrow> SessionVerifier \<times> (session_error + MojangProfile)" where
  "LookupProfileByName uc http now username v =
     (let username = TrimSpace username in
      if username = [] \<or> no_routes v then (v, Inl ErrProfileNotFound)
      else
        let base = trim_slashes (vf_ProfileURL v);
            base = (if base = [] then ''https://api.mojang.com'' else base)
        in query_mojang (fetch_url http now (profile_url base username)) (ProfileNameCacheKey uc username) now v)"

definition SetRoutes :: "Route list \<Rightarrow> duration \<Rightarrow> SessionVerifier \<Rightarrow> SessionVerifier" where
  "SetRoutes routes failureCooldown v =
     v\<lparr>vf_Pool := Some ((case vf_Pool v of
         None \<Rightarrow> \<lparr>po_Routes = [], po_FailureCooldown = 0, po_cursor = 0, po_nextEventID = 0, po_events = []\<rparr>
       | Some pool \<Rightarrow> pool)\<lparr>po_Routes := routes, po_FailureCooldown := failureCooldown\<rparr>)\<rparr>"

definition RoutesSnapshot :: "SessionVerifier \<Rightarrow> Route list" where
  "RoutesSnapshot v = (case vf_Pool v of None \<Rightarrow> [] | Some pool \<Rightarrow> po_Routes pool)"

definition VerifierEventsSnapshot :: "SessionVerifier \<Rightarrow> MojangEvent list" where
  "VerifierEventsSnapshot v = (case vf_Pool v of None \<Rightarrow> [] | Some pool \<Rightarrow> po_events pool)"

definition CacheSnapshot :: "SessionVerifier \<Rightarrow> time \<Rightarrow> nat \<times> nat \<times> nat" where
  "CacheSnapshot v now = (case vf_Cache v of None \<Rightarrow> (0, 0, 0) | Some c \<Rightarrow> Cache_Snapshot c now)"

subsection \<open>The join service\<close>

definition FromPlayer :: "Player \<Rightarrow> MojangProfile" where
  "FromPlayer player =
     \<lparr>mp_ID = UUID_Compact (pl_UUID player), mp_Name = pl_ProtocolName player,
      mp_Properties = pl_ProfileProperties player
        @ (if pl_Kind player = PlayerKindOffline then
             [\<lparr>pr_Name = ''authman_kind'', pr_Value = PlayerKindOffline, pr_Signature = []\<rparr>,
              \<lparr>pr_Name = ''authman_player_id'', pr_Value = pl_ID player, pr_Signature = []\<rparr>]
           else [])\<rparr>"

definition looksOffline :: "string \<Rightarrow> bool" where
  "looksOffline username \<longleftrightarrow> username \<noteq> [] \<and> hd username = CHR ''#''"

definition trimOfflineMarker :: "string \<Rightarrow> string" where
  "trimOfflineMarker username = (if looksOffline username then tl username else username)"

text \<open>\<open>offline\<close> is the resolver's answer for a name; its errors keep their text.\<close>

definition offlineProfile :: "(string \<Rightarrow> session_error + Player) option \<Rightarrow> string \<Rightarrow> session_error + MojangProfile" where
  "offlineProfile offline rawName =
     (case offline of None \<Rightarrow> Inl ErrProfileNotFound
      | Some resolve \<Rightarrow>
          (case resolve rawName of Inl e \<Rightarrow> Inl e
           | Inr player \<Rightarrow>
               (case ValidateIsolation player of
                  Some (Err msg) \<Rightarrow> Inl (SessionError msg)
                | Some _ \<Rightarrow> Inl (SessionError [])
                | None \<Rightarrow> Inr (FromPlayer player))))"

definition JoinService_HasJoined ::
  "(HasJoinedRequest \<Rightarrow> 'v \<Rightarrow> 'v \<times> (session_error + MojangProfile)) option \<Rightarrow>
   (string \<Rightarrow> session_error + Player) option \<Rightarrow> HasJoinedRequest \<Rightarrow> 'v \<Rightarrow>
   'v \<times> (session_error + MojangProfile)" where
  "JoinService_HasJoined premium offline request v =
     (if hj_Username request = [] then (v, Inl (SessionError ''username is required''))
      else if hj_ServerID request = [] then (v, Inl (SessionError ''serverId is required''))
      else if looksOffline (hj_Username request)
      then (v, offlineProfile offline (trimOfflineMarker (hj_Username request)))
      else case premium of None \<Rightarrow> (v, offlineProfile offline (hj_Username request))
      | Some verify \<Rightarrow>
          (case verify request v of
             (v, Inr profile) \<Rightarrow> (v, Inr profile)
           | (v, Inl ErrProfileNotFound) \<Rightarrow> (v, offlineProfile offline (hj_Username request))
           | (v, Inl e) \<Rightarrow>
               (v, case offlineProfile offline (hj_Username request) of
                     Inr profile \<Rightarrow> Inr profile
                   | Inl ErrProfileNotFound \<Rightarrow> Inl e
                   | Inl offlineErr \<Rightarrow> Inl offlineErr)))"

subsection \<open>What a call answers\<close>

text \<open>A route that can be used answers when it gives a profile or says that there is none.\<close>

lemma transport_of_None: "transport_of get r = None \<longleftrightarrow> get r = Inl FetchNotFound \<or> (\<exists>p. get r = Inr p)"
  by (auto simp: transport_of_def split: sum.splits fetch_error.splits)

text \<open>The reply of a route depends on its identifier and kind only, which the pool does not change.\<close>

definition reply_stable :: "(Route \<Rightarrow> fetch_error + MojangProfile) \<Rightarrow> bool" where
  "reply_stable get \<longleftrightarrow> (\<forall>r n st f e. get (r\<lparr>rt_RequestCount := n, rt_State := st, rt_FailureCount := f, rt_LastFailureError := e\<rparr>) = get r)"

lemma reply_stable_fetch [simp]: "reply_stable (fetch_url http now url)"
  by (simp add: reply_stable_def fetch_url_def route_kind_ok_def)

text \<open>The routes of the pool that can be used, and the entry of the cache that has not expired.\<close>

definition candidates :: "time \<Rightarrow> SessionVerifier \<Rightarrow> Route set" where
  "candidates now v = {r \<in> set (RoutesSnapshot v). usable now r}"

definition cached :: "string \<Rightarrow> time \<Rightarrow> SessionVerifier \<Rightarrow> MojangProfile option" where
  "cached key now v = Option.bind (vf_Cache v) (\<lambda>c. Cache_Get c key now)"

definition round_answer :: "(Route \<Rightarrow> fetch_error + MojangProfile) \<Rightarrow> string \<Rightarrow> time \<Rightarrow> SessionVerifier \<Rightarrow>
    SessionVerifier \<times> (session_error + MojangProfile) \<Rightarrow> bool" where
  "round_answer get key now v out \<longleftrightarrow>
     (\<exists>r\<in>candidates now v. \<exists>p. get r = Inr p \<and> snd out = Inr p \<and>
        vf_Cache (fst out) = map_option (Cache_Put key p now) (vf_Cache v)) \<or>
     (\<exists>r\<in>candidates now v. get r = Inl FetchNotFound \<and> snd out = Inl ErrProfileNotFound \<and>
        vf_Cache (fst out) = vf_Cache v) \<or>
     (\<forall>r\<in>candidates now v. \<exists>err. get r = Inl (FetchFailed err)) \<and> vf_Cache (fst out) = vf_Cache v \<and>
       (case cached key now v of Some p \<Rightarrow> snd out = Inr p | None \<Rightarrow> \<exists>msg. snd out = Inl (SessionError msg))"

lemma query_mojang_round:
  assumes "reply_stable get" and "vf_Pool v = Some pool"
  shows "round_answer get key now v (query_mojang get key now v)"
proof -
  obtain pool' res where x: "Execute (transport_of get) now pool = (pool', res)"
    by (cases "Execute (transport_of get) now pool")
  have c: "candidates now v = {r \<in> set (po_Routes pool). usable now r}"
    by (simp add: candidates_def RoutesSnapshot_def assms(2))
  show ?thesis
  proof (cases res)
    case (Inr r)
    from x Inr have "Execute (transport_of get) now pool = (pool', Inr r)" by simp
    from this show ?thesis
    proof (rule Execute_Inr)
      fix r0
      assume r0: "r0 \<in> set (po_Routes pool)" "usable now r0" "transport_of get r0 = None"
        and r: "r = r0\<lparr>rt_RequestCount := rt_RequestCount r0 + 1, rt_State := RouteHealthy,
           rt_FailureCount := 0, rt_LastFailureError := []\<rparr>"
      from assms(1) have g: "get r = get r0" unfolding r reply_stable_def by blast
      from r0 c have r0c: "r0 \<in> candidates now v" by simp
      from r0(3) consider "get r0 = Inl FetchNotFound" | p where "get r0 = Inr p" by (auto simp: transport_of_None)
      then show ?thesis
      proof cases
        case 1
        then have "query_mojang get key now v = (v\<lparr>vf_Pool := Some pool'\<rparr>, Inl ErrProfileNotFound)"
          by (simp add: query_mojang_def assms(2) x Inr g)
        with 1 r0c show ?thesis unfolding round_answer_def by auto
      next
        case (2 p)
        then have "query_mojang get key now v = (v\<lparr>vf_Pool := Some pool', vf_Cache := map_option (Cache_Put key p now) (vf_Cache v)\<rparr>, Inr p)"
          by (simp add: query_mojang_def assms(2) x Inr g)
        with 2 r0c show ?thesis unfolding round_answer_def by auto
      qed
    qed
  next
    case (Inl err)
    with x have "\<not> is_ok (snd (Execute (transport_of get) now pool))" by simp
    then have "\<forall>r\<in>set (po_Routes pool). usable now r \<longrightarrow> transport_of get r \<noteq> None" using Execute_complete by blast
    then have f: "\<forall>r\<in>candidates now v. \<exists>err. get r = Inl (FetchFailed err)"
      unfolding c transport_of_None by (metis (mono_tags, lifting) fetch_error.exhaust mem_Collect_eq sum.exhaust)
    have "query_mojang get key now v = (v\<lparr>vf_Pool := Some pool'\<rparr>, case cached key now v of Some p \<Rightarrow> Inr p
        | None \<Rightarrow> Inl (SessionError (''all mojang routes failed: '' @ exec_error_text err)))"
      by (simp add: query_mojang_def assms(2) x Inl cached_def split: option.split)
    with f show ?thesis unfolding round_answer_def by (auto split: option.split)
  qed
qed

subsection \<open>Runs of calls\<close>

text \<open>A call with the network it sees and its clock reading.\<close>

datatype call = Join http time HasJoinedRequest | Lookup http time string

definition run_call :: "unicode \<Rightarrow> call \<Rightarrow> SessionVerifier \<Rightarrow> SessionVerifier \<times> (session_error + MojangProfile)" where
  "run_call uc c v = (case c of Join http now request \<Rightarrow> HasJoined http now request v
     | Lookup http now username \<Rightarrow> LookupProfileByName uc http now username v)"

definition call_key :: "unicode \<Rightarrow> call \<Rightarrow> string" where
  "call_key uc c = (case c of Join http now request \<Rightarrow> CacheKey request | Lookup http now username \<Rightarrow> ProfileNameCacheKey uc username)"

definition call_time :: "call \<Rightarrow> time" where
  "call_time c = (case c of Join http now request \<Rightarrow> now | Lookup http now username \<Rightarrow> now)"

text \<open>A reply to the request a call sends, with a complete profile and a status of success.\<close>

definition replied_with :: "call \<Rightarrow> MojangProfile \<Rightarrow> bool" where
  "replied_with c p \<longleftrightarrow> (\<exists>ident base. case (case c of Join http now request \<Rightarrow> http ident (hasJoined_url base request)
       | Lookup http now username \<Rightarrow> http ident (profile_url base (TrimSpace username))) of
     Reply status retry date body \<Rightarrow> 200 \<le> status \<and> status < 300 \<and> body = Some p \<and> mp_ID p \<noteq> [] \<and> mp_Name p \<noteq> []
   | _ \<Rightarrow> False)"

fun run_calls :: "unicode \<Rightarrow> call list \<Rightarrow> SessionVerifier \<Rightarrow> SessionVerifier \<times> (session_error + MojangProfile) list" where
  "run_calls uc [] v = (v, [])"
| "run_calls uc (c # cs) v =
     (case run_call uc c v of (v, r) \<Rightarrow> (case run_calls uc cs v of (v, rs) \<Rightarrow> (v, r # rs)))"

lemma fetch_url_Inr: "fetch_url http now url r = Inr p \<Longrightarrow>
    (case http (rt_ID r) url of
       Reply status retry date body \<Rightarrow> 200 \<le> status \<and> status < 300 \<and> body = Some p \<and> mp_ID p \<noteq> [] \<and> mp_Name p \<noteq> []
     | _ \<Rightarrow> False)"
  by (auto simp: fetch_url_def read_reply_def split: http_reply.splits if_splits option.splits)

lemma HasJoined_query:
  "HasJoined http now request v \<noteq> (v, Inl ErrProfileNotFound) \<Longrightarrow>
     \<exists>base pool. HasJoined http now request v =
       query_mojang (fetch_url http now (hasJoined_url base request)) (CacheKey request) now v \<and> vf_Pool v = Some pool"
  by (cases "vf_Pool v") (simp_all only: HasJoined_def no_routes_def Let_def option.case split: if_splits, blast+)

lemma LookupProfileByName_query:
  "LookupProfileByName uc http now username v \<noteq> (v, Inl ErrProfileNotFound) \<Longrightarrow>
     \<exists>base pool. LookupProfileByName uc http now username v =
       query_mojang (fetch_url http now (profile_url base (TrimSpace username))) (ProfileNameCacheKey uc (TrimSpace username)) now v \<and>
       vf_Pool v = Some pool"
  by (cases "vf_Pool v") (simp_all only: LookupProfileByName_def no_routes_def Let_def option.case split: if_splits, blast+)

lemma run_call_round:
  assumes "run_call uc c v \<noteq> (v, Inl ErrProfileNotFound)"
  obtains get where "round_answer get (call_key uc c) (call_time c) v (run_call uc c v)"
    "\<And>r q. get r = Inr q \<Longrightarrow> replied_with c q"
proof (cases c)
  case (Join http now request)
  with assms obtain base pool where
    q: "run_call uc c v = query_mojang (fetch_url http now (hasJoined_url base request)) (CacheKey request) now v" "vf_Pool v = Some pool"
    using HasJoined_query [of http now request v] by (auto simp: run_call_def)
  with query_mojang_round [OF reply_stable_fetch q(2)]
  have "round_answer (fetch_url http now (hasJoined_url base request)) (call_key uc c) (call_time c) v (run_call uc c v)"
    unfolding Join call_key_def call_time_def call.case by metis
  then show thesis by (rule that) (use Join in \<open>auto simp: replied_with_def dest!: fetch_url_Inr\<close>)
next
  case (Lookup http now username)
  have key: "ProfileNameCacheKey uc (TrimSpace username) = ProfileNameCacheKey uc username"
    by (simp add: ProfileNameCacheKey_def)
  with assms Lookup obtain base pool where
    q: "run_call uc c v = query_mojang (fetch_url http now (profile_url base (TrimSpace username))) (ProfileNameCacheKey uc username) now v"
      "vf_Pool v = Some pool"
    using LookupProfileByName_query [of uc http now username v] by (auto simp: run_call_def)
  with query_mojang_round [OF reply_stable_fetch q(2)]
  have "round_answer (fetch_url http now (profile_url base (TrimSpace username))) (call_key uc c) (call_time c) v (run_call uc c v)"
    unfolding Lookup call_key_def call_time_def call.case by metis
  then show thesis by (rule that) (use Lookup in \<open>auto simp: replied_with_def dest!: fetch_url_Inr\<close>)
qed

text \<open>Every entry of the cache was a reply in an earlier call, whose time it carries.\<close>

definition cache_from :: "unicode \<Rightarrow> call list \<Rightarrow> duration \<Rightarrow> SessionVerifier \<Rightarrow> bool" where
  "cache_from uc cs ttl v \<longleftrightarrow> (case vf_Cache v of None \<Rightarrow> True | Some c \<Rightarrow> ca_staleTTL c = ttl \<and>
     (\<forall>k e. gget (ca_entries c) k = Some e \<longrightarrow>
        (\<exists>d\<in>set cs. call_key uc d = k \<and> replied_with d (ce_Profile e) \<and> ce_ExpiresAt e = call_time d + ttl)))"

lemma cache_from_mono: "cache_from uc cs ttl v \<Longrightarrow> set cs \<subseteq> set ds \<Longrightarrow> cache_from uc ds ttl v"
  unfolding cache_from_def by (cases "vf_Cache v") (auto, blast)

lemma cache_from_run_call:
  assumes "cache_from uc ds ttl v"
  shows "cache_from uc (c # ds) ttl (fst (run_call uc c v))"
proof (cases "run_call uc c v = (v, Inl ErrProfileNotFound)")
  case True
  with assms show ?thesis by (auto intro: cache_from_mono)
next
  case False
  then obtain get where ra: "round_answer get (call_key uc c) (call_time c) v (run_call uc c v)"
    and sv: "\<And>r q. get r = Inr q \<Longrightarrow> replied_with c q" by (rule run_call_round) blast
  from assms have old: "cache_from uc (c # ds) ttl v" by (auto intro: cache_from_mono)
  let ?v = "fst (run_call uc c v)"
  from ra have "vf_Cache ?v = vf_Cache v \<or>
      (\<exists>p. replied_with c p \<and> vf_Cache ?v = map_option (Cache_Put (call_key uc c) p (call_time c)) (vf_Cache v))"
    unfolding round_answer_def using sv by blast
  with old show ?thesis
    unfolding cache_from_def by (cases "vf_Cache v") (auto simp: Cache_Put_def, blast)
qed

lemma run_call_served:
  assumes "cache_from uc ds ttl v" and "snd (run_call uc c v) = Inr p"
  shows "replied_with c p \<or> (\<exists>d\<in>set ds. call_key uc d = call_key uc c \<and> replied_with d p \<and> call_time c \<le> call_time d + ttl)"
proof -
  from assms(2) have "run_call uc c v \<noteq> (v, Inl ErrProfileNotFound)" by auto
  then obtain get where ra: "round_answer get (call_key uc c) (call_time c) v (run_call uc c v)"
    and sv: "\<And>r q. get r = Inr q \<Longrightarrow> replied_with c q" by (rule run_call_round) blast
  from ra assms(2) consider r where "get r = Inr p" | "cached (call_key uc c) (call_time c) v = Some p"
    unfolding round_answer_def by (auto split: option.splits)
  then show ?thesis
  proof cases
    case 1
    with sv show ?thesis by blast
  next
    case 2
    then obtain ca e where "vf_Cache v = Some ca" "gget (ca_entries ca) (call_key uc c) = Some e"
      "call_time c \<le> ce_ExpiresAt e" "ce_Profile e = p"
      by (cases "vf_Cache v") (auto simp: cached_def Cache_Get_def split: option.splits if_splits)
    with assms(1) show ?thesis unfolding cache_from_def by fastforce
  qed
qed

lemma run_calls_served:
  assumes "cache_from uc ds ttl v" and "i < length cs" and "snd (run_calls uc cs v) ! i = Inr p"
  shows "replied_with (cs ! i) p \<or> (\<exists>d\<in>set ds \<union> set (take i cs). call_key uc d = call_key uc (cs ! i) \<and> replied_with d p \<and>
     call_time (cs ! i) \<le> call_time d + ttl)"
  using assms
proof (induction cs arbitrary: ds v i)
  case (Cons c cs)
  obtain v' r where c: "run_call uc c v = (v', r)" by (cases "run_call uc c v")
  show ?case
  proof (cases i)
    case 0
    with Cons.prems(3) c have "snd (run_call uc c v) = Inr p" by (auto split: prod.splits)
    from run_call_served [OF Cons.prems(1) this] 0 show ?thesis by simp
  next
    case (Suc k)
    from cache_from_run_call [OF Cons.prems(1), of c] c have "cache_from uc (c # ds) ttl v'" by simp
    from Cons.IH [OF this, of k] Cons.prems(2,3) Suc c show ?thesis by (auto split: prod.splits)
  qed
qed simp

text \<open>
  C23: Every profile a run of session checks and name lookups answers was served with a successful
  reply to the request of that call, or to that of an earlier call with the same key, at most the
  stale lifetime of the cache before.
\<close>

theorem session_answers_served:
  assumes "vf_Cache v = Some (NewProfileCache fresh stale)" and "i < length cs"
    and "snd (run_calls uc cs v) ! i = Inr p"
  shows "replied_with (cs ! i) p \<or> (\<exists>d\<in>set (take i cs). call_key uc d = call_key uc (cs ! i) \<and> replied_with d p \<and>
     call_time (cs ! i) \<le> call_time d + ca_staleTTL (NewProfileCache fresh stale))"
proof -
  have "cache_from uc [] (ca_staleTTL (NewProfileCache fresh stale)) v"
    by (simp add: cache_from_def assms(1) NewProfileCache_def Let_def)
  from run_calls_served [OF this assms(2,3)] show ?thesis by simp
qed

text \<open>The key of a session check stands for its name, server and address.\<close>

lemma CacheKey_inject:
  assumes "CHR 0x00 \<notin> set (hj_Username a @ hj_ServerID a @ hj_Username b @ hj_ServerID b)"
  shows "CacheKey a = CacheKey b \<longleftrightarrow> hj_Username a = hj_Username b \<and> hj_ServerID a = hj_ServerID b \<and> hj_IP a = hj_IP b"
proof -
  have cut: "u @ CHR 0x00 # x = w @ CHR 0x00 # y \<longleftrightarrow> u = w \<and> x = y" if "CHR 0x00 \<notin> set u" "CHR 0x00 \<notin> set w" for u w x y :: string
    using that by (auto simp: append_eq_append_conv2 Cons_eq_append_conv append_eq_Cons_conv)
  from assms show ?thesis by (simp add: CacheKey_def cut)
qed

definition sample_profile :: MojangProfile where
  "sample_profile = \<lparr>mp_ID = ''4566e69fc90748ee8d71d7ba5aa00d20'', mp_Name = ''Thinkofdeath'', mp_Properties = []\<rparr>"

definition sample_verifier :: SessionVerifier where
  "sample_verifier = \<lparr>vf_Pool = Some sample_pool, vf_BaseURL = [], vf_ProfileURL = [], vf_Timeout = 0,
     vf_Cache = Some (NewProfileCache 0 (5 * Minute))\<rparr>"

text \<open>Mojang answers the first check and is down at the second, three minutes later.\<close>

definition sample_calls :: "call list" where
  "sample_calls =
     (let request = \<lparr>hj_Username = ''Thinkofdeath'', hj_ServerID = ''5f2e'', hj_IP = []\<rparr> in
      [Join (\<lambda>_ _. Reply 200 [] None (Some sample_profile)) 0 request, Join (\<lambda>_ _. NoReply ''timeout'') (3 * Minute) request])"

lemma session_answers_served_witness:
  "replied_with (sample_calls ! 1) sample_profile \<or> (\<exists>d\<in>{sample_calls ! 0}. call_key plain_unicode d = call_key plain_unicode (sample_calls ! 1) \<and>
     replied_with d sample_profile \<and> 3 * Minute \<le> call_time d + 5 * Minute)"
proof -
  have "snd (run_calls plain_unicode sample_calls sample_verifier) ! 1 = Inr sample_profile" by code_simp
  moreover have "vf_Cache sample_verifier = Some (NewProfileCache 0 (5 * Minute))" by (simp add: sample_verifier_def)
  moreover have "1 < length sample_calls" "call_time (sample_calls ! 1) = 3 * Minute" "set (take 1 sample_calls) = {sample_calls ! 0}"
    by (simp_all add: sample_calls_def Let_def call_time_def)
  moreover have "ca_staleTTL (NewProfileCache 0 (5 * Minute)) = 5 * Minute" by (simp add: NewProfileCache_def)
  ultimately show ?thesis using session_answers_served [of sample_verifier 0 "5 * Minute" 1 sample_calls plain_unicode sample_profile]
    by metis
qed

end
