(* ===== verification/Skins.thy ===== *)
theory Skins
  imports StoreAccess GoCodec
begin

text \<open>
  Skins: \<^verbatim>\<open>core/internal/skin/skin.go\<close> without its image drawing, and the functions of
  \<^verbatim>\<open>core/internal/server/profile_skins.go\<close> that decide which skin and texture properties a passport
  or profile has.  The textures property is the Base64 of a JSON text, which \<^verbatim>\<open>encoding/json\<close> writes
  with sorted keys; reading one back is the argument \<open>decode\<close>.
\<close>

subsection \<open>Default skins\<close>

record DefaultSkin =
  df_Name :: string
  df_Model :: string

definition skin_names :: "string list" where
  "skin_names = [''alex'', ''ari'', ''efe'', ''kai'', ''makena'', ''noor'', ''steve'', ''sunny'', ''zuri'']"

definition defaultSkins :: "DefaultSkin list" where
  "defaultSkins = map (\<lambda>n. \<lparr>df_Name = n, df_Model = ''slim''\<rparr>) skin_names
     @ map (\<lambda>n. \<lparr>df_Name = n, df_Model = ''wide''\<rparr>) skin_names"

text \<open>\<^verbatim>\<open>binary.BigEndian.Uint64\<close> and the shift \<^verbatim>\<open>>> 32\<close> of a signed number.\<close>

definition be_word :: "byte list \<Rightarrow> 64 word" where
  "be_word bs = foldl (\<lambda>w b. push_bit 8 w OR ucast b) 0 bs"

definition sar32 :: "64 word \<Rightarrow> 64 word" where
  "sar32 w = word_of_int (sint w div 2 ^ 32)"

definition javaUUIDHash :: "UUID \<Rightarrow> int" where
  "javaUUIDHash uuid =
     (let msb = be_word (take 8 uuid); lsb = be_word (take 8 (drop 8 uuid));
          h = xor (xor (xor (sar32 msb) msb) (sar32 lsb)) lsb
      in sint (ucast h :: 32 word))"

text \<open>The quotient of two 32-bit numbers is far from any integer it does not reach, so \<^verbatim>\<open>math.Floor\<close> of
  the \<^verbatim>\<open>float64\<close> quotient is the integer quotient.\<close>

definition floorMod :: "int \<Rightarrow> int \<Rightarrow> int" where
  "floorMod value divisor = value - (value div divisor) * divisor"

text \<open>\<open>None\<close> is the panic of an index out of range.\<close>

definition DefaultForUUID :: "UUID \<Rightarrow> DefaultSkin option" where
  "DefaultForUUID uuid =
     (let i = floorMod (javaUUIDHash uuid) (int (length defaultSkins)) in
      if 0 \<le> i \<and> i < int (length defaultSkins) then Some (defaultSkins ! nat i) else None)"

subsection \<open>Texture properties\<close>

record TextureURLs =
  tu_Skin :: string
  tu_Cape :: string
  tu_Elytra :: string
  tu_Model :: string

definition normalizeModel :: "unicode \<Rightarrow> string \<Rightarrow> string" where
  "normalizeModel uc model = (if ToLower uc (TrimSpace model) = ''slim'' then ''slim'' else ''wide'')"

definition absoluteURL :: "string \<Rightarrow> string \<Rightarrow> string" where
  "absoluteURL base path =
     (let path = TrimSpace path in
      if path = [] then []
      else if HasPrefix path ''http://'' \<or> HasPrefix path ''https://'' then path
      else base @ (if HasPrefix path ''/'' then path else ''/'' @ path))"

text \<open>A string literal as \<^verbatim>\<open>encoding/json\<close> writes it.\<close>

definition json_rune :: "rune \<Rightarrow> string \<Rightarrow> string" where
  "json_rune r bytes =
     (if r = 34 then [CHR 0x5C, CHR 0x22] else if r = 92 then [CHR 0x5C, CHR 0x5C]
      else if r = 8 then [CHR 0x5C, CHR ''b''] else if r = 12 then [CHR 0x5C, CHR ''f'']
      else if r = 10 then [CHR 0x5C, CHR ''n''] else if r = 13 then [CHR 0x5C, CHR ''r'']
      else if r = 9 then [CHR 0x5C, CHR ''t'']
      else if r < 32 \<or> r \<in> {38, 60, 62, 8232, 8233} \<or> r = RuneError \<and> length bytes = 1
      then [CHR 0x5C, CHR ''u''] @ map (\<lambda>k. hexdigit (r div 16 ^ k mod 16)) [3, 2, 1, 0]
      else bytes)"

fun json_runes :: "string \<Rightarrow> string" where
  "json_runes [] = []"
| "json_runes (c # cs) =
     (case DecodeRune (c # cs) of (r, w) \<Rightarrow> json_rune r (c # take (w - 1) cs) @ json_runes (drop (w - 1) cs))"

definition json_string :: "string \<Rightarrow> string" where
  "json_string s = [CHR 0x22] @ json_runes s @ [CHR 0x22]"

text \<open>An object, its keys in order.\<close>

fun json_members :: "(string \<times> string) list \<Rightarrow> string" where
  "json_members [] = []"
| "json_members [(k, v)] = json_string k @ '':'' @ v"
| "json_members ((k, v) # es) = json_string k @ '':'' @ v @ '','' @ json_members es"

definition json_object :: "(string \<times> string) list \<Rightarrow> string" where
  "json_object es = ''{'' @ json_members es @ ''}''"

definition trim_right_slashes :: "string \<Rightarrow> string" where
  "trim_right_slashes s = rev (dropWhile (\<lambda>c. c = CHR ''/'') (rev s))"

text \<open>\<^verbatim>\<open>now.UnixMilli()\<close>.\<close>

definition UnixMilli :: "time \<Rightarrow> int" where
  "UnixMilli t = t div 1000000 - 62135596800000"

definition BuildTexturesProperty ::
  "unicode \<Rightarrow> UUID \<Rightarrow> string \<Rightarrow> string \<Rightarrow> TextureURLs \<Rightarrow> time \<Rightarrow> ProfileProperty result" where
  "BuildTexturesProperty uc profileUUID profileName publicBaseURL urls now =
     (let base = trim_right_slashes publicBaseURL in
      if base = [] then Inl (Err ''public base URL is required'')
      else
        let skinURL = absoluteURL base (tu_Skin urls) in
        if skinURL = [] then Inl (Err ''skin URL is required'')
        else
          let model = normalizeModel uc (tu_Model urls);
              cape = absoluteURL base (tu_Cape urls);
              elytra = absoluteURL base (tu_Elytra urls);
              texture = (\<lambda>name url. if url = [] then [] else [(name, json_object [(''url'', json_string url)])]);
              metadata = (if model = ''slim'' then [(''metadata'', json_object [(''model'', json_string ''slim'')])] else []);
              textures = json_object (texture ''CAPE'' cape @ texture ''ELYTRA'' elytra
                @ [(''SKIN'', json_object (metadata @ [(''url'', json_string skinURL)]))]);
              raw = json_object [(''profileId'', json_string (UUID_Compact profileUUID)), (''profileName'', json_string profileName),
                (''textures'', textures), (''timestamp'', Itoa (UnixMilli now))]
          in Inr \<lparr>pr_Name = ''textures'', pr_Value = Base64Std (bytes_of raw), pr_Signature = []\<rparr>)"

text \<open>A decoded body: the URL and the model of each texture, by name.\<close>

type_synonym texture_decoder = "byte list \<Rightarrow> (string, string \<times> string) gomap option"

fun TextureURLsFromProperty :: "texture_decoder \<Rightarrow> ProfileProperty list \<Rightarrow> TextureURLs" where
  "TextureURLsFromProperty decode [] = \<lparr>tu_Skin = [], tu_Cape = [], tu_Elytra = [], tu_Model = []\<rparr>"
| "TextureURLsFromProperty decode (property # properties) =
     (if pr_Name property \<noteq> ''textures'' \<or> pr_Value property = [] then TextureURLsFromProperty decode properties
      else case Base64StdDecode (pr_Value property) of Inl _ \<Rightarrow> TextureURLsFromProperty decode properties
      | Inr raw \<Rightarrow>
          (case decode raw of None \<Rightarrow> TextureURLsFromProperty decode properties
           | Some textures \<Rightarrow>
               let url = (\<lambda>k. case gget textures k of None \<Rightarrow> [] | Some (u, _) \<Rightarrow> u);
                   model = (case gget textures ''SKIN'' of None \<Rightarrow> [] | Some (_, m) \<Rightarrow> m)
               in \<lparr>tu_Skin = url ''SKIN'', tu_Cape = url ''CAPE'', tu_Elytra = url ''ELYTRA'',
                   tu_Model = (if url ''SKIN'' = [] then [] else if model = ''slim'' then ''slim'' else ''wide'')\<rparr>))"

definition replaceTexturesProperty :: "ProfileProperty list \<Rightarrow> ProfileProperty \<Rightarrow> ProfileProperty list" where
  "replaceTexturesProperty properties replacement =
     (let step = (\<lambda>(out, added) property.
            if pr_Name property = ''textures'' then (if added then (out, added) else (out @ [replacement], True))
            else (out @ [property], added));
          (out, added) = foldl step ([], False) properties
      in if added then out else out @ [replacement])"

definition removeTexturesProperty :: "ProfileProperty list \<Rightarrow> ProfileProperty list" where
  "removeTexturesProperty properties = filter (\<lambda>p. pr_Name p \<noteq> ''textures'') properties"

subsection \<open>Effective skins\<close>

record effectiveSkin =
  ef_Source :: string
  ef_Model :: string
  ef_Variant :: string
  ef_SkinURL :: string
  ef_CapeURL :: string
  ef_ElytraURL :: string
  ef_AvatarURL :: string
  ef_HasCustomSkin :: bool
  ef_HasCustomCape :: bool
  ef_HasCustomElytra :: bool
  ef_Properties :: "ProfileProperty list"

text \<open>What the functions read besides the store: the public address, the decoder and the clock.\<close>

record skin_env =
  sk_uc :: unicode
  sk_base :: string
  sk_decode :: texture_decoder
  sk_now :: time

definition asset_url :: "string \<Rightarrow> string \<Rightarrow> string \<Rightarrow> string" where
  "asset_url kind ident asset = ''/api/assets/'' @ kind @ ''/'' @ ident @ ''/'' @ asset"

definition optionalProfileAssetURL :: "string \<Rightarrow> string \<Rightarrow> byte list \<Rightarrow> string" where
  "optionalProfileAssetURL profileID asset raw = (if raw = [] then [] else asset_url ''profiles'' profileID asset)"

definition optionalPassportAssetURL :: "string \<Rightarrow> string \<Rightarrow> byte list \<Rightarrow> string" where
  "optionalPassportAssetURL passportID asset raw = (if raw = [] then [] else asset_url ''passports'' passportID asset)"

definition default_skin_url :: "DefaultSkin \<Rightarrow> string" where
  "default_skin_url df = ''/api/assets/default-skins/'' @ df_Model df @ ''/'' @ df_Name df @ ''.png''"

definition profileCustomTexturesProperty :: "skin_env \<Rightarrow> Profile \<Rightarrow> ProfileSkin \<Rightarrow> ProfileProperty result" where
  "profileCustomTexturesProperty se profile row =
     BuildTexturesProperty (sk_uc se) (pf_UUID profile) (pf_ProtocolName profile) (sk_base se)
       \<lparr>tu_Skin = asset_url ''profiles'' (pf_ID profile) ''skin.png'',
        tu_Cape = optionalProfileAssetURL (pf_ID profile) ''cape.png'' (sk_CapePNG row),
        tu_Elytra = optionalProfileAssetURL (pf_ID profile) ''elytra.png'' (sk_ElytraPNG row),
        tu_Model = sk_Model row\<rparr> (sk_now se)"

definition passportCustomTexturesProperty :: "skin_env \<Rightarrow> Passport \<Rightarrow> PassportSkin \<Rightarrow> ProfileProperty result" where
  "passportCustomTexturesProperty se passport row =
     BuildTexturesProperty (sk_uc se) (pp_UUID passport) (pp_Username passport) (sk_base se)
       \<lparr>tu_Skin = asset_url ''passports'' (pp_ID passport) ''skin.png'',
        tu_Cape = optionalPassportAssetURL (pp_ID passport) ''cape.png'' (ps_CapePNG row),
        tu_Elytra = optionalPassportAssetURL (pp_ID passport) ''elytra.png'' (ps_ElytraPNG row),
        tu_Model = ps_Model row\<rparr> (sk_now se)"

text \<open>
  The default skin of a UUID, of which \<open>default_index_ok\<close> below shows that it exists, so the value for
  \<open>None\<close> is never taken.
\<close>

definition default_skin :: "UUID \<Rightarrow> DefaultSkin" where
  "default_skin uuid = (case DefaultForUUID uuid of Some df \<Rightarrow> df | None \<Rightarrow> \<lparr>df_Name = [], df_Model = []\<rparr>)"

definition default_effective :: "UUID \<Rightarrow> string \<Rightarrow> ProfileProperty list \<Rightarrow> effectiveSkin" where
  "default_effective uuid avatar props =
     (let df = default_skin uuid in
      \<lparr>ef_Source = ''default'', ef_Model = df_Model df, ef_Variant = df_Name df, ef_SkinURL = default_skin_url df,
       ef_CapeURL = [], ef_ElytraURL = [], ef_AvatarURL = avatar, ef_HasCustomSkin = False, ef_HasCustomCape = False,
       ef_HasCustomElytra = False, ef_Properties = props\<rparr>)"

text \<open>The textures a premium passport was last seen with, else those of its primary profile.\<close>

definition upstream_properties :: "memory \<Rightarrow> Passport \<Rightarrow> ProfileProperty list" where
  "upstream_properties m passport =
     (let props = GetPassportPremiumTextures m (pp_ID passport) in
      if props = [] then
        (case GetPrimaryProfileForPassport m (pp_ID passport) of Inl _ \<Rightarrow> [] | Inr primary \<Rightarrow> pf_ProfileProperties primary)
      else props)"

definition effectiveSkinForPassport :: "skin_env \<Rightarrow> memory \<Rightarrow> Passport \<Rightarrow> effectiveSkin" where
  "effectiveSkinForPassport se m passport =
     (let source = NormalizePassportSkinSource (sk_uc se) (pp_Kind passport) (pp_SkinSource passport);
          avatar = asset_url ''passports'' (pp_ID passport) ''avatar.png'';
          props = upstream_properties m passport
      in
      case (if source = PassportSkinSourceCustom then GetPassportSkin m (pp_ID passport) else Inl (Err [])) of
        Inr custom \<Rightarrow>
          if ps_SkinPNG custom \<noteq> [] then
            \<lparr>ef_Source = ''custom'', ef_Model = ps_Model custom, ef_Variant = [],
             ef_SkinURL = asset_url ''passports'' (pp_ID passport) ''skin.png'',
             ef_CapeURL = optionalPassportAssetURL (pp_ID passport) ''cape.png'' (ps_CapePNG custom),
             ef_ElytraURL = optionalPassportAssetURL (pp_ID passport) ''elytra.png'' (ps_ElytraPNG custom),
             ef_AvatarURL = avatar, ef_HasCustomSkin = True, ef_HasCustomCape = ps_CapePNG custom \<noteq> [],
             ef_HasCustomElytra = ps_ElytraPNG custom \<noteq> [],
             ef_Properties = (case passportCustomTexturesProperty se passport custom of Inl _ \<Rightarrow> [] | Inr p \<Rightarrow> [p])\<rparr>
          else default_effective (pp_UUID passport) avatar []
      | Inl _ \<Rightarrow>
          if pp_Kind passport = PassportKindPremium \<and> source = PassportSkinSourceUpstream \<and> props \<noteq> [] then
            let urls = TextureURLsFromProperty (sk_decode se) props;
                df = default_skin (pp_UUID passport)
            in \<lparr>ef_Source = ''mojang'',
                ef_Model = (if tu_Skin urls = [] then df_Model df
                            else if tu_Model urls = ''slim'' then ''slim'' else ''wide''),
                ef_Variant = [], ef_SkinURL = (if tu_Skin urls = [] then default_skin_url df else tu_Skin urls),
                ef_CapeURL = tu_Cape urls, ef_ElytraURL = tu_Elytra urls, ef_AvatarURL = avatar,
                ef_HasCustomSkin = False, ef_HasCustomCape = False, ef_HasCustomElytra = False, ef_Properties = props\<rparr>
          else default_effective (pp_UUID passport) avatar [])"

text \<open>The passport is \<open>None\<close> for a nil pointer.\<close>

definition effectiveProfileProperties :: "skin_env \<Rightarrow> memory \<Rightarrow> Profile \<Rightarrow> Passport option \<Rightarrow> ProfileProperty list" where
  "effectiveProfileProperties se m profile passport =
     (case (if pf_SkinSource profile = ''passport'' then passport else None) of
        Some p \<Rightarrow> ef_Properties (effectiveSkinForPassport se m p)
      | None \<Rightarrow> pf_ProfileProperties profile)"

definition upstream_effective :: "skin_env \<Rightarrow> memory \<Rightarrow> Profile \<Rightarrow> Passport option \<Rightarrow> string \<Rightarrow> effectiveSkin" where
  "upstream_effective se m profile passport avatar =
     (let props = effectiveProfileProperties se m profile passport;
          urls = TextureURLsFromProperty (sk_decode se) props
      in
      if tu_Skin urls \<noteq> [] then
        \<lparr>ef_Source = (case passport of Some p \<Rightarrow> if pp_Kind p = PassportKindPremium then ''mojang'' else ''textures''
                      | None \<Rightarrow> ''textures''),
         ef_Model = tu_Model urls, ef_Variant = [], ef_SkinURL = tu_Skin urls, ef_CapeURL = tu_Cape urls,
         ef_ElytraURL = tu_Elytra urls, ef_AvatarURL = avatar, ef_HasCustomSkin = False, ef_HasCustomCape = False,
         ef_HasCustomElytra = False, ef_Properties = props\<rparr>
      else default_effective (pf_UUID profile) avatar props)"

definition effectiveSkinForProfile :: "skin_env \<Rightarrow> memory \<Rightarrow> Profile \<Rightarrow> Passport option \<Rightarrow> effectiveSkin" where
  "effectiveSkinForProfile se m profile passport =
     (let avatar = asset_url ''profiles'' (pf_ID profile) ''avatar.png'' in
      case (if pf_SkinSource profile = ''passport'' then passport else None) of
        Some p \<Rightarrow> (effectiveSkinForPassport se m p)\<lparr>ef_Source := ''passport'', ef_AvatarURL := avatar\<rparr>
      | None \<Rightarrow>
          (case GetProfileSkin m (pf_ID profile) of
             Inr custom \<Rightarrow>
               if sk_SkinPNG custom \<noteq> [] then
                 \<lparr>ef_Source = ''custom'', ef_Model = sk_Model custom, ef_Variant = [],
                  ef_SkinURL = asset_url ''profiles'' (pf_ID profile) ''skin.png'',
                  ef_CapeURL = optionalProfileAssetURL (pf_ID profile) ''cape.png'' (sk_CapePNG custom),
                  ef_ElytraURL = optionalProfileAssetURL (pf_ID profile) ''elytra.png'' (sk_ElytraPNG custom),
                  ef_AvatarURL = avatar, ef_HasCustomSkin = True, ef_HasCustomCape = sk_CapePNG custom \<noteq> [],
                  ef_HasCustomElytra = sk_ElytraPNG custom \<noteq> [], ef_Properties = pf_ProfileProperties profile\<rparr>
               else upstream_effective se m profile passport avatar
           | Inl _ \<Rightarrow> upstream_effective se m profile passport avatar))"

subsection \<open>The default skin and the textures of a list\<close>

lemma floorMod_mod: "floorMod a b = a mod b"
  by (simp add: floorMod_def minus_div_mult_eq_mod)

lemma default_index_ok:
  "DefaultForUUID uuid = Some (defaultSkins ! nat (javaUUIDHash uuid mod 18))" "default_skin uuid \<in> set defaultSkins"
proof -
  have l: "length defaultSkins = 18" by (simp add: defaultSkins_def skin_names_def)
  have b: "0 \<le> javaUUIDHash uuid mod 18" "javaUUIDHash uuid mod 18 < 18" by simp_all
  then show d: "DefaultForUUID uuid = Some (defaultSkins ! nat (javaUUIDHash uuid mod 18))"
    by (simp add: DefaultForUUID_def floorMod_mod l)
  from b have "nat (javaUUIDHash uuid mod 18) < length defaultSkins" by (simp add: l)
  then show "default_skin uuid \<in> set defaultSkins" by (simp add: default_skin_def d)
qed

text \<open>The replacement stands where the first textures property stood, at the end when there was none.\<close>

lemma replaceTexturesProperty_eq:
  "replaceTexturesProperty ps r =
     takeWhile (\<lambda>p. pr_Name p \<noteq> ''textures'') ps @ r # removeTexturesProperty (dropWhile (\<lambda>p. pr_Name p \<noteq> ''textures'') ps)"
proof -
  define step where "step = (\<lambda>(out, added) property.
      if pr_Name property = ''textures'' then (if added then (out, added) else (out @ [r], True))
      else (out @ [property], added))"
  have t: "foldl step (out, True) ps = (out @ removeTexturesProperty ps, True)" for out ps
    by (induction ps arbitrary: out) (auto simp: step_def removeTexturesProperty_def)
  have f: "foldl step (out, False) ps =
      (out @ takeWhile (\<lambda>p. pr_Name p \<noteq> ''textures'') ps @
         (if \<exists>p\<in>set ps. pr_Name p = ''textures'' then r # removeTexturesProperty (dropWhile (\<lambda>p. pr_Name p \<noteq> ''textures'') ps) else []),
       \<exists>p\<in>set ps. pr_Name p = ''textures'')" for out
  proof (induction ps arbitrary: out)
    case (Cons p ps)
    show ?case
    proof (cases "pr_Name p = ''textures''")
      case True
      then have "foldl step (out, False) (p # ps) = foldl step (out @ [r], True) ps" by (simp add: step_def)
      with True t show ?thesis by (simp add: removeTexturesProperty_def)
    next
      case False
      then have "foldl step (out, False) (p # ps) = foldl step (out @ [p], False) ps" by (simp add: step_def)
      with False Cons show ?thesis by simp
    qed
  qed simp
  have d: "dropWhile (\<lambda>p. pr_Name p \<noteq> ''textures'') ps = []" if "\<not> (\<exists>p\<in>set ps. pr_Name p = ''textures'')"
    using that by (simp add: dropWhile_eq_Nil_conv)
  show ?thesis
    unfolding replaceTexturesProperty_def step_def [symmetric] Let_def f [of "[]", simplified] by (auto simp: d removeTexturesProperty_def)
qed

text \<open>
  Saving a custom skin leaves a profile exactly one textures property, the new one, and keeps its
  other properties in their order; saving again replaces it again.
\<close>

theorem replaceTexturesProperty_exact:
  assumes "pr_Name r = ''textures''" and "pr_Name r' = ''textures''"
  shows "filter (\<lambda>p. pr_Name p = ''textures'') (replaceTexturesProperty ps r) = [r] \<and>
    removeTexturesProperty (replaceTexturesProperty ps r) = removeTexturesProperty ps \<and>
    replaceTexturesProperty (replaceTexturesProperty ps r') r = replaceTexturesProperty ps r"
proof (intro conjI)
  let ?P = "\<lambda>p :: ProfileProperty. pr_Name p \<noteq> ''textures''"
  have tw: "filter (\<lambda>p. pr_Name p = ''textures'') (takeWhile ?P ps) = []"
    by (auto simp: filter_empty_conv dest: set_takeWhileD)
  show "filter (\<lambda>p. pr_Name p = ''textures'') (replaceTexturesProperty ps r) = [r]"
    using assms by (simp add: replaceTexturesProperty_eq tw removeTexturesProperty_def)
  have "removeTexturesProperty (takeWhile ?P ps @ dropWhile ?P ps) = removeTexturesProperty ps" by simp
  then show "removeTexturesProperty (replaceTexturesProperty ps r) = removeTexturesProperty ps"
    unfolding replaceTexturesProperty_eq removeTexturesProperty_def filter_append by (simp add: assms)
  have "\<And>p. p \<in> set (takeWhile ?P ps) \<Longrightarrow> ?P p" by (auto dest: set_takeWhileD)
  then have "takeWhile ?P (takeWhile ?P ps @ r' # rs) = takeWhile ?P ps" "dropWhile ?P (takeWhile ?P ps @ r' # rs) = r' # rs" for rs
    using assms(2) by (simp_all add: takeWhile_append2 dropWhile_append2)
  then show "replaceTexturesProperty (replaceTexturesProperty ps r') r = replaceTexturesProperty ps r"
    using assms(2) by (simp add: replaceTexturesProperty_eq removeTexturesProperty_def)
qed

lemma replaceTexturesProperty_exact_witness:
  "let p = (\<lambda>n v. \<lparr>pr_Name = n, pr_Value = v, pr_Signature = []\<rparr>) in
   removeTexturesProperty (replaceTexturesProperty [p ''cape'' ''x'', p ''textures'' ''old''] (p ''textures'' ''new'')) = [p ''cape'' ''x'']"
  unfolding Let_def
  using replaceTexturesProperty_exact [of "\<lparr>pr_Name = ''textures'', pr_Value = ''new'', pr_Signature = []\<rparr>"
      "\<lparr>pr_Name = ''textures'', pr_Value = ''old'', pr_Signature = []\<rparr>"
      "[\<lparr>pr_Name = ''cape'', pr_Value = ''x'', pr_Signature = []\<rparr>, \<lparr>pr_Name = ''textures'', pr_Value = ''old'', pr_Signature = []\<rparr>]"]
  by (simp add: removeTexturesProperty_def)

end
