(* ===== verification/ServerBase.thy ===== *)
theory ServerBase
  imports StoreSystem NodeRegistry AuthSecrets Downstream RateLimit MojangSession Skins GoTime
begin

text \<open>
  What the HTTP handlers of \<^verbatim>\<open>core/internal/server\<close> share: the answers of \<^verbatim>\<open>core/internal/api\<close>, the
  state of the server and the environment it reads, the reading of dynamic values, the client's
  address, the audit trail and the portal settings (\<^verbatim>\<open>admin.go\<close>).

  A handler maps a server state to the next one and an answer.  Its clock readings and random
  draws are taken in order from streams of the environment, which no theorem restricts unless it
  says so.  One handler runs at a time here; how single store operations interleave is the subject
  of StoreSystem, and each handler is shown to be a sequence of them.  Log lines and the
  notifications pushed to connected nodes are outputs nothing reads back, and are left out.
\<close>

subsection \<open>Answers\<close>

record api_error =
  er_Status :: int
  er_Code :: string
  er_Message :: string
  er_Details :: anymap

definition NewError :: "int \<Rightarrow> string \<Rightarrow> string \<Rightarrow> api_error" where
  "NewError status cd message =
     \<lparr>er_Status = status, er_Code = cd, er_Message = message, er_Details = gempty\<rparr>"

lemma NewError_simps [simp]:
  "er_Status (NewError s c msg) = s" "er_Code (NewError s c msg) = c" "er_Message (NewError s c msg) = msg"
  by (simp_all add: NewError_def)

text \<open>
  What is written: the status with the envelope's data, or with its error, after the cookies that were
  set.  A handler that panics is aborted by \<^verbatim>\<open>net/http\<close> without an answer; its status is 0 here.
\<close>

datatype response = WriteJSON int goval | WriteError api_error | Aborted | SetCookie string string response

fun status_of :: "response \<Rightarrow> int" where
  "status_of (WriteJSON status data) = status"
| "status_of (WriteError e) = er_Status e"
| "status_of Aborted = 0"
| "status_of (SetCookie name value answer) = status_of answer"

text \<open>The code of the error answered, none for a success.\<close>

fun error_code :: "response \<Rightarrow> string" where
  "error_code (WriteJSON status data) = []"
| "error_code (WriteError e) = er_Code e"
| "error_code Aborted = []"
| "error_code (SetCookie name value answer) = error_code answer"

subsection \<open>Requests, environment and state\<close>

text \<open>
  The headers and cookies a handler reads, the empty string for one that is absent; \<open>rq_Origin\<close> is the
  scheme, host and base path the request was sent to, which only links in mails are made from.
\<close>

record request =
  rq_Path :: string
  rq_Method :: string
  rq_Authorization :: string
  rq_Instance :: string
  rq_ForwardedFor :: string
  rq_RealIP :: string
  rq_RemoteAddr :: string
  rq_UserAgent :: string
  rq_RequestID :: string
  rq_AdminSession :: string
  rq_PlayerSession :: string
  rq_CSRF :: string
  rq_ExternalToken :: string
  rq_AdminMFA :: string
  rq_AdminTrusted :: string
  rq_Origin :: string

text \<open>
  What the server reads and cannot influence.  \<open>en_clock i\<close> and \<open>en_rand i\<close> are the \<open>i\<close>-th reading
  of the clock and the \<open>i\<close>-th draw of random bytes (\<open>None\<close> an error of the generator);
  \<open>en_encrypt\<close> is RSA encryption with the recovery key and \<open>en_genkey\<close> makes a key pair (public,
  private, fingerprint, bits); \<open>en_presence\<close> is the identifier of a presence check and
  the JSON object a connected node answers to it; \<open>en_geo\<close> is the lookup in the installed address databases;
  \<open>en_sprint\<close> is \<^verbatim>\<open>fmt.Sprint\<close> on floats and composite values; the Argon2 function and its
  parameters are those of \<^verbatim>\<open>s.passwordParams\<close>; \<open>en_smtp\<close> is the conversation with a mail server under
  the given settings, for a recipient and a message; the others are the server's configuration.
\<close>

record env =
  en_uc :: unicode
  en_clock :: "nat \<Rightarrow> time"
  en_rand :: "nat \<Rightarrow> byte list option"
  en_NodeAccessToken :: string
  en_PublicBaseURL :: string
  en_PlayerPortalBaseURL :: string
  en_AdminUsername :: string
  en_AdminEmail :: string
  en_AdminPassword :: string
  en_AdminPasswordHash :: string
  en_webAuthn :: bool
  en_argon2 :: argon2
  en_passwordParams :: Argon2idParams
  en_geo :: "string \<Rightarrow> IPGeo option"
  en_http :: "nat \<Rightarrow> http"
  en_decode :: texture_decoder
  en_presence :: "nat \<Rightarrow> PlayerPresence \<Rightarrow> string \<times> anymap result"
  en_encrypt :: "string \<Rightarrow> byte list \<Rightarrow> nat \<Rightarrow> (string \<times> string) result"
  en_genkey :: "nat \<Rightarrow> (string \<times> string \<times> string \<times> int) result"
  en_sprint :: "goval \<Rightarrow> string"
  en_quote :: "rune \<Rightarrow> string"
  en_smtp :: "nat \<Rightarrow> anymap \<Rightarrow> string \<Rightarrow> string \<Rightarrow> unit result"

text \<open>\<^verbatim>\<open>err.Error()\<close>.\<close>

definition error_text :: "env \<Rightarrow> error \<Rightarrow> string" where
  "error_text en e =
     (case e of Err s \<Rightarrow> s | NotFound s \<Rightarrow> s @ '': not found'' | ErrRune s r \<Rightarrow> s @ en_quote en r | ErrLib s \<Rightarrow> s)"

record Server =
  sv_store :: memory
  sv_nodes :: Registry
  sv_mojang :: "SessionVerifier option"
  sv_tick :: nat
  sv_draw :: nat

definition Now :: "env \<Rightarrow> Server \<Rightarrow> Server \<times> time" where
  "Now en s = (s\<lparr>sv_tick := sv_tick s + 1\<rparr>, en_clock en (sv_tick s))"

definition Rand :: "env \<Rightarrow> Server \<Rightarrow> Server \<times> byte list option" where
  "Rand en s = (s\<lparr>sv_draw := sv_draw s + 1\<rparr>, en_rand en (sv_draw s))"

text \<open>A store operation, with and without a result.\<close>

definition on_store :: "(memory \<Rightarrow> memory) \<Rightarrow> Server \<Rightarrow> Server" where
  "on_store f s = s\<lparr>sv_store := f (sv_store s)\<rparr>"

definition in_store :: "(memory \<Rightarrow> memory \<times> 'r) \<Rightarrow> Server \<Rightarrow> Server \<times> 'r" where
  "in_store f s = (case f (sv_store s) of (m, r) \<Rightarrow> (s\<lparr>sv_store := m\<rparr>, r))"

lemma Now_simps [simp]:
  "snd (Now en s) = en_clock en (sv_tick s)" "fst (Now en s) = s\<lparr>sv_tick := sv_tick s + 1\<rparr>"
  by (simp_all add: Now_def)

lemma Rand_simps [simp]:
  "snd (Rand en s) = en_rand en (sv_draw s)" "fst (Rand en s) = s\<lparr>sv_draw := sv_draw s + 1\<rparr>"
  by (simp_all add: Rand_def)

lemma in_store_simps [simp]:
  "fst (in_store f s) = s\<lparr>sv_store := fst (f (sv_store s))\<rparr>" "snd (in_store f s) = snd (f (sv_store s))"
  by (simp_all add: in_store_def split: prod.split)

lemma on_store_simps [simp]:
  "sv_store (on_store f s) = f (sv_store s)" "sv_nodes (on_store f s) = sv_nodes s"
  "sv_tick (on_store f s) = sv_tick s" "sv_draw (on_store f s) = sv_draw s" "sv_mojang (on_store f s) = sv_mojang s"
  by (simp_all add: on_store_def)

type_synonym query = "env \<Rightarrow> request \<Rightarrow> Server \<Rightarrow> Server \<times> response"
type_synonym 'b handler = "env \<Rightarrow> request \<Rightarrow> 'b option \<Rightarrow> Server \<Rightarrow> Server \<times> response"

text \<open>\<^verbatim>\<open>api.WriteError(w, api.NewError(...)); return\<close>\<close>

definition refuse :: "Server \<Rightarrow> int \<Rightarrow> string \<Rightarrow> string \<Rightarrow> Server \<times> response" where
  "refuse s status cd message = (s, WriteError (NewError status cd message))"

lemma refuse_simps [simp]:
  "fst (refuse s n c msg) = s" "status_of (snd (refuse s n c msg)) = n" "error_code (snd (refuse s n c msg)) = c"
  "snd (refuse s n c msg) \<noteq> WriteJSON k d"
  by (simp_all add: refuse_def)

text \<open>The body of a request, \<open>None\<close> when \<^verbatim>\<open>api.DecodeJSON\<close> refuses it.\<close>

definition decode_body :: "'b option \<Rightarrow> Server \<Rightarrow> ('b \<Rightarrow> Server \<times> response) \<Rightarrow> Server \<times> response" where
  "decode_body body s k =
     (case body of None \<Rightarrow> refuse s 400 ''system.invalid_json'' ''invalid JSON request body'' | Some req \<Rightarrow> k req)"

subsection \<open>Dynamic values\<close>

abbreviation (input) get_any :: "anymap \<Rightarrow> string \<Rightarrow> goval" where
  "get_any m k \<equiv> (case gget m k of None \<Rightarrow> VNil | Some v \<Rightarrow> v)"

definition stringFromAnyServer :: "goval \<Rightarrow> string" where
  "stringFromAnyServer v = (case v of VStr s \<Rightarrow> TrimSpace s | _ \<Rightarrow> [])"

definition stringSliceFromAnyServer :: "goval \<Rightarrow> string list" where
  "stringSliceFromAnyServer v =
     (case v of
        VStrs ss \<Rightarrow> ss
      | VList vs \<Rightarrow> concat (map (\<lambda>x. case x of VStr s \<Rightarrow> (if TrimSpace s \<noteq> [] then [TrimSpace s] else []) | _ \<Rightarrow> []) vs)
      | VStr s \<Rightarrow> if TrimSpace s = [] then [] else Split s CHR '',''
      | _ \<Rightarrow> [])"

definition switch_bool :: "unicode \<Rightarrow> string \<Rightarrow> bool \<Rightarrow> bool" where
  "switch_bool uc s fallback =
     (let t = ToLower uc (TrimSpace s) in
      if t \<in> {''true'', ''1'', ''yes'', ''on''} then True
      else if t \<in> {''false'', ''0'', ''no'', ''off''} then False
      else fallback)"

definition boolValue :: "unicode \<Rightarrow> goval \<Rightarrow> bool \<Rightarrow> bool" where
  "boolValue uc v fallback = (case v of VBool b \<Rightarrow> b | VStr s \<Rightarrow> switch_bool uc s fallback | _ \<Rightarrow> fallback)"

definition boolFromAnyServer :: "unicode \<Rightarrow> goval \<Rightarrow> bool \<Rightarrow> bool" where
  "boolFromAnyServer uc v fallback = (case v of VBool b \<Rightarrow> b | VStr s \<Rightarrow> switch_bool uc s fallback | _ \<Rightarrow> fallback)"

definition Sprint :: "env \<Rightarrow> goval \<Rightarrow> string" where
  "Sprint en v =
     (case v of VNil \<Rightarrow> ''<nil>'' | VBool b \<Rightarrow> (if b then ''true'' else ''false'') | VInt n \<Rightarrow> Itoa n
      | VStr s \<Rightarrow> s | VNamed s \<Rightarrow> s | _ \<Rightarrow> en_sprint en v)"

definition stringValue :: "env \<Rightarrow> goval \<Rightarrow> string \<Rightarrow> string" where
  "stringValue en v fallback =
     (let text = TrimSpace (Sprint en v) in if text = [] \<or> text = ''<nil>'' then fallback else text)"

text \<open>\<^verbatim>\<open>fmt.Sscanf(s, "%d", &out)\<close>: blanks but no line break, a sign, and as many digits as there are.\<close>

definition Sscanf_int :: "string \<Rightarrow> int option" where
  "Sscanf_int s =
     (let t = TrimLeftSpace s; skipped = take (length s - length t) s;
          sign = (if t \<noteq> [] \<and> hd t \<in> {CHR ''+'', CHR ''-''} then [hd t] else []);
          ds = takeWhile is_digit (drop (length sign) t)
      in if CHR 0x0A \<in> set skipped \<or> ds = [] then None else Atoi (sign @ ds))"

definition intValue :: "goval \<Rightarrow> int \<Rightarrow> int" where
  "intValue v fallback =
     (case v of VInt n \<Rightarrow> n | VFloat f \<Rightarrow> int_of_float f
      | VStr s \<Rightarrow> (case Sscanf_int s of None \<Rightarrow> fallback | Some n \<Rightarrow> n) | _ \<Rightarrow> fallback)"

definition detailText :: "goval \<Rightarrow> string" where
  "detailText v = (case v of VStr s \<Rightarrow> TrimSpace s | _ \<Rightarrow> [])"

text \<open>A field decoded by \<^verbatim>\<open>json.Unmarshal\<close>: null and absent leave the zero value.\<close>

definition json_str :: "anymap \<Rightarrow> string \<Rightarrow> string option" where
  "json_str m k = (case get_any m k of VNil \<Rightarrow> Some [] | VStr s \<Rightarrow> Some s | VNamed s \<Rightarrow> Some s | _ \<Rightarrow> None)"

definition json_int :: "anymap \<Rightarrow> string \<Rightarrow> int option" where
  "json_int m k =
     (case get_any m k of VNil \<Rightarrow> Some 0 | VInt n \<Rightarrow> Some n
      | VFloat f \<Rightarrow> if of_int \<lfloor>f\<rfloor> = f \<and> - (2 ^ 63) \<le> \<lfloor>f\<rfloor> \<and> \<lfloor>f\<rfloor> < 2 ^ 63 then Some \<lfloor>f\<rfloor> else None
      | _ \<Rightarrow> None)"

definition json_bool :: "anymap \<Rightarrow> string \<Rightarrow> bool option" where
  "json_bool m k = (case get_any m k of VNil \<Rightarrow> Some False | VBool b \<Rightarrow> Some b | _ \<Rightarrow> None)"

definition emptyStringNil :: "string \<Rightarrow> goval" where
  "emptyStringNil s = (if s = [] then VNil else VStr s)"

subsection \<open>The client's address\<close>

definition trim_brackets :: "string \<Rightarrow> string" where
  "trim_brackets s =
     (let b = (\<lambda>c. c = CHR ''['' \<or> c = CHR '']'') in rev (dropWhile b (rev (dropWhile b s))))"

definition clientIP :: "request \<Rightarrow> string" where
  "clientIP r =
     (let forwarded = TrimSpace (rq_ForwardedFor r); realIP = TrimSpace (rq_RealIP r) in
      if forwarded \<noteq> [] then
        (case Cut forwarded CHR '','' of (first, _, ok) \<Rightarrow> if ok then TrimSpace first else forwarded)
      else if realIP \<noteq> [] then realIP
      else case Cut (rq_RemoteAddr r) CHR '':'' of (host, _, ok) \<Rightarrow>
        if ok \<and> host \<noteq> [] then trim_brackets host else TrimSpace (rq_RemoteAddr r))"

definition TrimPrefix :: "string \<Rightarrow> string \<Rightarrow> string" where
  "TrimPrefix s p = (if HasPrefix s p then drop (length p) s else s)"

definition normalizeClientIPValue :: "string \<Rightarrow> string" where
  "normalizeClientIPValue value =
     (let value = TrimPrefix (TrimSpace value) ''/'' in
      if value = [] then []
      else
        let value = (case SplitHost value of Some host \<Rightarrow> host | None \<Rightarrow> value)
        in trim_brackets (TrimSpace value))"

definition requestIPGeoWithClientIP :: "env \<Rightarrow> request \<Rightarrow> string \<Rightarrow> string \<times> IPGeo option" where
  "requestIPGeoWithClientIP en r ipOverride =
     (let ip = normalizeClientIPValue ipOverride; ip = (if ip = [] then clientIP r else ip) in (ip, en_geo en ip))"

subsection \<open>The audit trail\<close>

text \<open>\<^verbatim>\<open>if _, ok := details[k]; !ok { details[k] = v }\<close>\<close>

definition put_absent :: "string \<Rightarrow> goval \<Rightarrow> anymap \<Rightarrow> anymap" where
  "put_absent k v m = (if gget m k = None then gput m k v else m)"

definition locale_val :: "IPGeoLocale \<Rightarrow> goval" where
  "locale_val l = VStruct [(''Country'', VStr (gl_Country l)), (''Region'', VStr (gl_Region l)), (''City'', VStr (gl_City l))]"

definition geo_val :: "IPGeo \<Rightarrow> goval" where
  "geo_val g = VStruct [(''IP'', VStr (ge_IP g)), (''CountryCode'', VStr (ge_CountryCode g)), (''ISP'', VStr (ge_ISP g)),
     (''ASN'', VStr (ge_ASN g)), (''Locales'', VStruct (map (\<lambda>(k, l). (k, locale_val l)) (gentries (ge_Locales g))))]"

definition audit_details :: "env \<Rightarrow> request \<Rightarrow> string \<Rightarrow> anymap \<Rightarrow> anymap" where
  "audit_details en r ipOverride d =
     (let d = (if rq_RequestID r \<noteq> [] then put_absent ''request_id'' (VStr (rq_RequestID r)) d else d);
          d = put_absent ''path'' (VStr (rq_Path r)) d;
          d = put_absent ''method'' (VStr (rq_Method r)) d;
          d = put_absent ''source'' (VStr ''core-http'') d;
          ip = normalizeClientIPValue ipOverride;
          d = put_absent ''client_ip'' (VStr (if ip \<noteq> [] then ip else clientIP r)) d;
          ip = detailText (get_any d ''client_ip'');
          d = (if ip = [] then d
               else case en_geo en ip of None \<Rightarrow> d | Some geo \<Rightarrow> put_absent ''client_geo'' (geo_val geo) d)
      in put_absent ''user_agent'' (VStr (TrimSpace (rq_UserAgent r))) d)"

definition auditWithClientIP ::
  "env \<Rightarrow> request \<Rightarrow> string \<Rightarrow> ActorType \<Rightarrow> string \<Rightarrow> TargetType \<Rightarrow> string \<Rightarrow> string \<Rightarrow> anymap \<Rightarrow> Server \<Rightarrow> Server" where
  "auditWithClientIP en r ipOverride actorType actorID target targetID eventType details s =
     (case Now en s of (s, now) \<Rightarrow>
        on_store (\<lambda>m. fst (AppendAuditEvent
          (NewEvent now actorType actorID target targetID eventType (audit_details en r ipOverride details)) m)) s)"

definition audit ::
  "env \<Rightarrow> request \<Rightarrow> ActorType \<Rightarrow> string \<Rightarrow> TargetType \<Rightarrow> string \<Rightarrow> string \<Rightarrow> anymap \<Rightarrow> Server \<Rightarrow> Server" where
  "audit en r = auditWithClientIP en r []"

subsection \<open>The portal settings\<close>

record portalSettings =
  st_TransferCookieKey :: string
  st_FallbackServerID :: string
  st_MaxProfilesPerPassport :: int
  st_AutoJoinSingleProfile :: bool
  st_AutoAuthTTLSeconds :: int

definition clampMaxProfiles :: "int \<Rightarrow> int" where
  "clampMaxProfiles value = (if value < 1 then 3 else if 16 < value then 16 else value)"

definition clampAutoAuthTTLSeconds :: "int \<Rightarrow> int" where
  "clampAutoAuthTTLSeconds value = (if value < 0 then 12 * 60 * 60 else if 7 * 24 * 60 * 60 < value then 7 * 24 * 60 * 60 else value)"

definition normalizePortalFallbackServerID :: "unicode \<Rightarrow> string \<Rightarrow> string" where
  "normalizePortalFallbackServerID uc value =
     (let value = TrimSpace value in if EqualFold uc value ''disconnect'' then [] else value)"

definition portal_settings :: "env \<Rightarrow> memory \<Rightarrow> portalSettings" where
  "portal_settings en m =
     (case GetSystemSetting m ''portal'' of
        Inr raw \<Rightarrow>
          \<lparr>st_TransferCookieKey = stringValue en (get_any raw ''transfer_cookie_key'') ''authman:transfer_grant'',
           st_FallbackServerID = normalizePortalFallbackServerID (en_uc en) (stringValue en (get_any raw ''fallback_server_id'') []),
           st_MaxProfilesPerPassport = clampMaxProfiles (intValue (get_any raw ''max_profiles_per_passport'') 3),
           st_AutoJoinSingleProfile = boolValue (en_uc en) (get_any raw ''auto_join_single_profile'') False,
           st_AutoAuthTTLSeconds = clampAutoAuthTTLSeconds (intValue (get_any raw ''auto_auth_ttl_seconds'') (12 * 60 * 60))\<rparr>
      | Inl _ \<Rightarrow>
          \<lparr>st_TransferCookieKey = ''authman:transfer_grant'', st_FallbackServerID = [], st_MaxProfilesPerPassport = 3,
           st_AutoJoinSingleProfile = False, st_AutoAuthTTLSeconds = 12 * 60 * 60\<rparr>)"

definition portalSettingsMap :: "portalSettings \<Rightarrow> anymap" where
  "portalSettingsMap st = mk_map
     [(''transfer_cookie_key'', VStr (TrimSpace (st_TransferCookieKey st))),
      (''fallback_server_id'', VStr (TrimSpace (st_FallbackServerID st))),
      (''max_profiles_per_passport'', VInt (clampMaxProfiles (st_MaxProfilesPerPassport st))),
      (''auto_join_single_profile'', VBool (st_AutoJoinSingleProfile st)),
      (''auto_auth_ttl_seconds'', VInt (clampAutoAuthTTLSeconds (st_AutoAuthTTLSeconds st)))]"

subsection \<open>Nodes\<close>

text \<open>\<^verbatim>\<open>strings.CutPrefix\<close> of the header; \<open>None\<close> is the answer false.\<close>

definition bearerToken :: "request \<Rightarrow> string option" where
  "bearerToken r =
     (let value = rq_Authorization r; token = TrimSpace (drop 7 value) in
      if \<not> HasPrefix value ''Bearer '' \<or> token = [] then None else Some token)"

definition requireNode :: "env \<Rightarrow> request \<Rightarrow> Server \<Rightarrow> api_error + Node" where
  "requireNode en r s =
     (let deny = (\<lambda>message. Inl (NewError 401 ''node.unauthorized'' message)) in
      case bearerToken r of None \<Rightarrow> deny ''missing node token''
      | Some token \<Rightarrow>
          if en_NodeAccessToken en \<noteq> [] \<and>
             ConstantTimeTokenEqual (en_uc en) ''node-access'' token (HashToken ''node-access'' (en_NodeAccessToken en))
          then
            let inst = TrimSpace (rq_Instance r) in
            if inst = [] then deny ''missing node instance''
            else (case List.find (\<lambda>n. \<not> no_Disabled n \<and> no_InstanceFingerprint n = inst) (List_nodes (sv_nodes s)) of
                    Some n \<Rightarrow> Inr n | None \<Rightarrow> deny ''node instance is not registered'')
          else (case Authenticate (en_uc en) (sv_nodes s) token of
                  Inl _ \<Rightarrow> deny ''invalid node token'' | Inr n \<Rightarrow> Inr n))"

definition with_node :: "env \<Rightarrow> request \<Rightarrow> Server \<Rightarrow> (Node \<Rightarrow> Server \<times> response) \<Rightarrow> Server \<times> response" where
  "with_node en r s k = (case requireNode en r s of Inl e \<Rightarrow> (s, WriteError e) | Inr n \<Rightarrow> k n)"

end
