(* ===== verification/ServerViews.thy ===== *)
theory ServerViews
  imports ServerBase
begin

text \<open>
  The parts of an answer that several handlers build (\<^verbatim>\<open>server.go\<close>, \<^verbatim>\<open>catalog.go\<close>, \<^verbatim>\<open>nodeprofiles.go\<close>,
  \<^verbatim>\<open>player_activity.go\<close>) and the look-ups they share: which passport a login name, a node or a
  transfer grant stands for, and whether a credential is locked.  A pointer field of a struct is
  written as its target or nil.
\<close>

subsection \<open>Parts of answers\<close>

abbreviation (input) time_val :: "time option \<Rightarrow> goval" where "time_val t \<equiv> opt_val VTime t"

definition profilePropertiesData :: "ProfileProperty list \<Rightarrow> goval" where
  "profilePropertiesData properties = VMaps (map (\<lambda>p. mk_map
     [(''name'', VStr (pr_Name p)), (''value'', VStr (pr_Value p)), (''signature'', VStr (pr_Signature p))]) properties)"

definition playerData :: "Player \<Rightarrow> goval" where
  "playerData p = VMap (mk_map
     [(''id'', VStr (pl_ID p)), (''kind'', VNamed (pl_Kind p)), (''uuid'', VStr (UUID_String (pl_UUID p))),
      (''uuid_compact'', VStr (UUID_Compact (pl_UUID p))), (''raw_offline_name'', VStr (pl_RawOfflineName p)),
      (''normalized_name'', VStr (pl_NormalizedName p)), (''protocol_name'', VStr (pl_ProtocolName p)),
      (''properties'', profilePropertiesData (pl_ProfileProperties p)), (''locked'', VBool (pl_Locked p)),
      (''registration_server'', VStr (pl_RegistrationServer p)), (''last_seen_server'', VStr (pl_LastSeenServer p)),
      (''last_seen_at'', time_val (pl_LastSeenAt p)), (''last_seen_ip'', emptyStringNil (pl_LastSeenIP p)),
      (''last_seen_geo'', opt_val geo_val (pl_LastSeenGeo p))])"

definition passportData :: "Passport \<Rightarrow> goval" where
  "passportData p = VMap (mk_map
     [(''id'', VStr (pp_ID p)), (''uuid'', VStr (UUID_String (pp_UUID p))), (''kind'', VStr (pp_Kind p)),
      (''username'', VStr (pp_Username p)), (''locked'', VBool (pp_Status p = PassportStatusLocked))])"

definition nodeProfileSummaries :: "Profile list \<Rightarrow> string \<Rightarrow> goval" where
  "nodeProfileSummaries profiles primaryID = VMaps (map (\<lambda>p. mk_map
     [(''id'', VStr (pf_ID p)), (''uuid'', VStr (UUID_String (pf_UUID p))), (''protocol_name'', VStr (pf_ProtocolName p)),
      (''primary'', VBool (pf_ID p = primaryID))]) profiles)"

definition portalAuthCacheData :: "PortalAuthCache option \<Rightarrow> bool \<Rightarrow> goval" where
  "portalAuthCacheData cache remembered =
     VMap (case cache of None \<Rightarrow> mk_map [(''remembered'', VBool remembered)]
       | Some c \<Rightarrow>
           let d = mk_map [(''remembered'', VBool remembered)];
               d = (if TrimSpace (ac_PassportID c) \<noteq> [] then gput d ''passport_id'' (VStr (ac_PassportID c)) else d);
               d = (if TrimSpace (ac_RemoteIP c) \<noteq> [] then gput d ''remote_ip'' (VStr (ac_RemoteIP c)) else d)
           in if IsZero (ac_ExpiresAt c) then d else gput d ''expires_at'' (VTime (ac_ExpiresAt c)))"

definition presenceRow :: "PlayerPresence \<Rightarrow> goval" where
  "presenceRow p = VMap (mk_map
     [(''id'', VStr (pc_ID p)), (''passport_id'', VStr (pc_PassportID p)), (''profile_id'', VStr (pc_ProfileID p)),
      (''server_id'', VStr (pc_ServerID p)), (''node_id'', VStr (pc_NodeID p)), (''protocol_name'', VStr (pc_ProtocolName p)),
      (''uuid'', VStr (pc_UUID p)), (''remote_addr'', VStr (pc_RemoteAddr p)), (''connected_at'', VTime (pc_ConnectedAt p)),
      (''last_seen_at'', VTime (pc_LastSeenAt p))])"

definition banRow :: "PlayerBan \<Rightarrow> goval" where
  "banRow b = VMap (mk_map
     [(''id'', VStr (ba_ID b)), (''scope'', VNamed (ba_Scope b)), (''target_id'', VStr (ba_TargetID b)),
      (''reason'', VStr (ba_Reason b)), (''created_by'', VStr (ba_CreatedBy b)), (''created_at'', VTime (ba_CreatedAt b)),
      (''expires_at'', time_val (ba_ExpiresAt b)), (''revoked_by'', VStr (ba_RevokedBy b)),
      (''revoked_at'', time_val (ba_RevokedAt b)), (''revoke_reason'', VStr (ba_RevokeReason b))])"

definition transferGrantData :: "TransferGrant \<Rightarrow> goval" where
  "transferGrantData g = VMap (mk_map
     [(''id'', VStr (tg_ID g)), (''player_id'', VStr (tg_PlayerID g)), (''passport_id'', VStr (tg_PassportID g)),
      (''server_id'', VStr (tg_ServerID g)), (''portal_node_id'', VStr (tg_PortalNodeID g)),
      (''portal_source'', VStr (tg_PortalSource g)), (''remote_ip'', VStr (tg_RemoteIP g)),
      (''gate_node_id'', VStr (tg_GateNodeID g)), (''uuid'', VStr (tg_UUID g)), (''protocol_name'', VStr (tg_ProtocolName g)),
      (''target_host'', VStr (tg_TargetHost g)), (''target_port'', VInt (tg_TargetPort g)),
      (''created_at'', VTime (tg_CreatedAt g)), (''expires_at'', VTime (tg_ExpiresAt g)),
      (''consumed_at'', time_val (tg_ConsumedAt g))])"

definition playerEventDetails :: "Player \<Rightarrow> anymap \<Rightarrow> anymap" where
  "playerEventDetails p extra =
     foldl (\<lambda>d (k, v). gput d k v)
       (mk_map [(''profile_id'', VStr (pl_ID p)), (''protocol_name'', VStr (pl_ProtocolName p)),
                (''uuid'', VStr (UUID_String (pl_UUID p))), (''kind'', VNamed (pl_Kind p))]) (gentries extra)"

subsection \<open>Look-ups\<close>

definition normalizeNodeUsername :: "string \<Rightarrow> string" where
  "normalizeNodeUsername username = TrimPrefix (TrimSpace username) ''#''"

definition findPassportByLoginName :: "unicode \<Rightarrow> memory \<Rightarrow> string \<Rightarrow> Passport result" where
  "findPassportByLoginName uc m username =
     (case GetPassportByUsername uc m username of Inr p \<Rightarrow> Inr p | Inl _ \<Rightarrow> GetPremiumPassportByUsername uc m username)"

definition passportCredentialLocked :: "PassportCredential \<Rightarrow> time \<Rightarrow> bool" where
  "passportCredentialLocked c now \<longleftrightarrow> (case pa_LockedUntil c of None \<Rightarrow> False | Some t \<Rightarrow> After t now)"

text \<open>The clock is read for the textures of an uploaded skin.\<close>

definition skin_env_of :: "env \<Rightarrow> Server \<Rightarrow> skin_env" where
  "skin_env_of en s = \<lparr>sk_uc = en_uc en, sk_base = en_PublicBaseURL en, sk_decode = en_decode en, sk_now = snd (Now en s)\<rparr>"

text \<open>\<^verbatim>\<open>PlayerFromPassportProfile\<close> with the effective properties, as the handlers use it.\<close>

definition dressed_player :: "env \<Rightarrow> Server \<Rightarrow> Passport \<Rightarrow> Profile \<Rightarrow> Player" where
  "dressed_player en s passport profile =
     (PlayerFromPassportProfile passport profile)
       \<lparr>pl_ProfileProperties := effectiveProfileProperties (skin_env_of en s) (sv_store s) profile (Some passport)\<rparr>"

lemma dressed_player_simps [simp]:
  "pl_ID (dressed_player en s p f) = pf_ID f" "pl_UUID (dressed_player en s p f) = pf_UUID f"
  "pl_ProtocolName (dressed_player en s p f) = pf_ProtocolName f"
  "pl_Locked (dressed_player en s p f) \<longleftrightarrow> pp_Status p = PassportStatusLocked \<or> pf_Status f = ProfileStatusLocked"
  by (simp_all add: dressed_player_def PlayerFromPassportProfile_def Let_def)

text \<open>The loop keeps the presence seen last; one without an ID stands for "none yet".\<close>

definition later_presence :: "PlayerPresence option \<Rightarrow> PlayerPresence \<Rightarrow> PlayerPresence option" where
  "later_presence selected p =
     (case selected of None \<Rightarrow> Some p
      | Some q \<Rightarrow> if pc_ID q = [] \<or> After (pc_LastSeenAt p) (pc_LastSeenAt q) then Some p else selected)"

definition activePresencePassportID :: "memory \<Rightarrow> Node \<Rightarrow> string \<Rightarrow> string" where
  "activePresencePassportID m n profileID =
     (let here = (\<lambda>p. pc_EndedAt p = None \<and> TrimSpace (pc_PassportID p) \<noteq> [] \<and>
            (pc_NodeID p = no_ID n \<or> TrimSpace (no_ServerID n) \<noteq> [] \<and> pc_ServerID p = no_ServerID n))
      in case foldl later_presence None (filter here (ListProfilePresences m profileID)) of
           None \<Rightarrow> [] | Some p \<Rightarrow> pc_PassportID p)"

definition passportForTransferGrant :: "memory \<Rightarrow> TransferGrant \<Rightarrow> Passport result" where
  "passportForTransferGrant m g =
     (let passportID = TrimSpace (tg_PassportID g) in
      if passportID \<noteq> [] then
        (case GetProfilePassportBinding m (tg_PlayerID g) passportID of Inl e \<Rightarrow> Inl e | Inr b \<Rightarrow> Inr (bi_Passport b))
      else case ListPassportsForProfile m (tg_PlayerID g) of
        [b] \<Rightarrow> Inr (bi_Passport b) | _ \<Rightarrow> Inl (Err ''transfer grant passport is missing or ambiguous''))"

text \<open>The player a node names by its name: an offline name, else a protocol name.\<close>

definition player_by_name :: "unicode \<Rightarrow> memory \<Rightarrow> string \<Rightarrow> string \<Rightarrow> Player result" where
  "player_by_name uc m offlineName protocolName =
     (case GetOfflinePlayer uc m offlineName of Inr p \<Rightarrow> Inr p | Inl _ \<Rightarrow> GetPlayerByProtocolName uc m protocolName)"

definition sameProfileUUID :: "string \<Rightarrow> string \<Rightarrow> bool" where
  "sameProfileUUID l r =
     (case ParseUUID l of Inl _ \<Rightarrow> False | Inr u \<Rightarrow> (case ParseUUID r of Inl _ \<Rightarrow> False | Inr v \<Rightarrow> u = v))"

definition dashedProfileUUID :: "string \<Rightarrow> string" where
  "dashedProfileUUID value = (case ParseUUID value of Inl _ \<Rightarrow> TrimSpace value | Inr u \<Rightarrow> UUID_String u)"

subsection \<open>Having been seen, and remembered addresses\<close>

definition recordPassportProfileSeenWithClientIP ::
  "env \<Rightarrow> request \<Rightarrow> Passport \<Rightarrow> Profile \<Rightarrow> string \<Rightarrow> string \<Rightarrow> time \<Rightarrow> Server \<Rightarrow> Server" where
  "recordPassportProfileSeenWithClientIP en r passport profile serverID ipOverride now =
     (case requestIPGeoWithClientIP en r ipOverride of (ip, geo) \<Rightarrow>
        on_store (RecordPlayerSeen (pp_ID passport) (pf_ID profile) (TrimSpace serverID) ip geo now))"

text \<open>The answer \<open>None\<close> is false with the zero cache.\<close>

definition rememberPortalAuthCache ::
  "env \<Rightarrow> string \<Rightarrow> string \<Rightarrow> time \<Rightarrow> Server \<Rightarrow> Server \<times> PortalAuthCache option result" where
  "rememberPortalAuthCache en passportID remoteIP now s =
     (let ttlSeconds = clampAutoAuthTTLSeconds (st_AutoAuthTTLSeconds (portal_settings en (sv_store s))) in
      if ttlSeconds \<le> 0 \<or> TrimSpace remoteIP = [] \<or> TrimSpace passportID = [] then (s, Inr None)
      else case in_store (RememberPortalAuthCache passportID remoteIP (ttlSeconds * Second) now) s of
        (s, Inl e) \<Rightarrow> (s, Inl e) | (s, Inr cache) \<Rightarrow> (s, Inr (Some cache)))"

definition profilePolicyData :: "env \<Rightarrow> memory \<Rightarrow> nat \<Rightarrow> goval" where
  "profilePolicyData en m profileCount =
     (let st = portal_settings en m in
      VMap (mk_map [(''max_profiles'', VInt (st_MaxProfilesPerPassport st)),
        (''can_create'', VBool (int profileCount < st_MaxProfilesPerPassport st)),
        (''auto_join_single_profile'', VBool True), (''single_profile_auto_join'', VBool True),
        (''auto_auth_ttl_seconds'', VInt (st_AutoAuthTTLSeconds st))]))"

text \<open>
  What a node is told of a passport.  The selected player is \<open>None\<close> where the source passes
  \<open>hasSelected = false\<close>; \<open>auth_required\<close> and \<open>auth_locked\<close> are the fields a portal acts on.
\<close>

record resolve_data =
  rd_player :: goval
  rd_passport :: goval
  rd_profiles :: goval
  rd_policy :: goval
  rd_required :: bool
  rd_kind :: string
  rd_locked :: bool
  rd_username :: string
  rd_remembered :: "time option"

definition auth_map :: "resolve_data \<Rightarrow> goval" where
  "auth_map d = VMap (mk_map
     [(''required'', VBool (rd_required d)), (''kind'', VStr (rd_kind d)), (''locked'', VBool (rd_locked d)),
      (''username'', VStr (rd_username d)), (''remembered'', VBool (rd_remembered d \<noteq> None)),
      (''remember_expires_at'', time_val (rd_remembered d))])"

definition resolve_map :: "resolve_data \<Rightarrow> goval" where
  "resolve_map d = VMap (mk_map
     [(''player'', rd_player d), (''passport'', rd_passport d), (''profiles'', rd_profiles d),
      (''profile_policy'', rd_policy d), (''auth'', auth_map d)])"

definition nodePassportResolveDataWithPlayer ::
  "env \<Rightarrow> Passport \<Rightarrow> Player option \<Rightarrow> bool \<Rightarrow> string \<Rightarrow> Server \<Rightarrow> Server \<times> resolve_data" where
  "nodePassportResolveDataWithPlayer en passport selected verified remoteIP s =
     (let m = sv_store s;
          profiles = ListProfilesForPassport m (pp_ID passport);
          primary = GetPrimaryProfileForPassport m (pp_ID passport);
          primaryID = (case primary of Inl _ \<Rightarrow> [] | Inr p \<Rightarrow> pf_ID p);
          player = (case primary of Inl _ \<Rightarrow> None | Inr p \<Rightarrow> Some (dressed_player en s passport p));
          player = (case selected of None \<Rightarrow> player
            | Some sel \<Rightarrow> Some (case GetProfileByID m (pl_ID sel) of Inl _ \<Rightarrow> sel
                | Inr profile \<Rightarrow> sel\<lparr>pl_ProfileProperties :=
                    effectiveProfileProperties (skin_env_of en s) m profile (Some passport)\<rparr>));
          authLocked = (case player of None \<Rightarrow> pp_Status passport = PassportStatusLocked | Some p \<Rightarrow> pl_Locked p);
          authRequired = (pp_Kind passport = PassportKindOffline \<and> \<not> authLocked \<and> \<not> verified);
          d = \<lparr>rd_player = opt_val playerData player, rd_passport = passportData passport,
               rd_profiles = nodeProfileSummaries profiles primaryID,
               rd_policy = profilePolicyData en m (length profiles), rd_required = authRequired,
               rd_kind = (if pp_Kind passport = PassportKindOffline then ''offline_password'' else ''premium''),
               rd_locked = authLocked, rd_username = pp_Username passport, rd_remembered = None\<rparr>
      in
      if 0 < st_AutoAuthTTLSeconds (portal_settings en m) \<and> \<not> authLocked \<and> TrimSpace remoteIP \<noteq> [] then
        case Now en s of (s, now) \<Rightarrow>
          (case in_store (UsePortalAuthCache (pp_ID passport) remoteIP now) s of
             (s, None) \<Rightarrow> (s, d)
           | (s, Some cache) \<Rightarrow> (s, d\<lparr>rd_remembered := Some (ac_ExpiresAt cache), rd_required := False\<rparr>))
      else (s, d))"

definition nodePassportResolveData ::
  "env \<Rightarrow> Passport \<Rightarrow> bool \<Rightarrow> string \<Rightarrow> Server \<Rightarrow> Server \<times> resolve_data" where
  "nodePassportResolveData en passport = nodePassportResolveDataWithPlayer en passport None"

end
