(* ===== verification/ServerNode.thy ===== *)
theory ServerNode
  imports ServerViews
begin

text \<open>
  The node API that brings a player in (\<^verbatim>\<open>core/internal/server/node.go\<close>): a login portal verifies a
  premium session with Mojang, asks how a name may log in, resolves a name to its passport, checks a
  password, remembers an address and registers an offline passport.
\<close>

subsection \<open>Verifying a premium session\<close>

record verifyLimboSessionRequest =
  vl_Username :: string
  vl_ServerID :: string
  vl_RemoteIP :: string
  vl_ProtocolVersion :: int
  vl_RequestedHost :: string

definition session_error_text :: "session_error \<Rightarrow> string" where
  "session_error_text e = (case e of ErrProfileNotFound \<Rightarrow> ''profile not found'' | SessionError msg \<Rightarrow> msg)"

text \<open>\<^verbatim>\<open>verifyLimboMojangSession\<close> and the look-up by name; the outer \<open>None\<close> is a nil verifier.\<close>

definition ask_mojang ::
  "(http \<Rightarrow> time \<Rightarrow> SessionVerifier \<Rightarrow> SessionVerifier \<times> (session_error + MojangProfile)) \<Rightarrow> env \<Rightarrow> SessionVerifier \<Rightarrow> Server \<Rightarrow>
   Server \<times> (session_error + MojangProfile)" where
  "ask_mojang f en v s =
     (case f (en_http en (sv_tick s)) (snd (Now en s)) v of (v, r) \<Rightarrow> ((fst (Now en s))\<lparr>sv_mojang := Some v\<rparr>, r))"

definition persistPremiumPassport :: "env \<Rightarrow> MojangProfile \<Rightarrow> Server \<Rightarrow> Server \<times> Passport option" where
  "persistPremiumPassport en profile s =
     (if TrimSpace (mp_ID profile) = [] \<or> TrimSpace (mp_Name profile) = [] then (s, None)
      else if list_ex (\<lambda>p. pr_Name p = ''authman_kind'' \<and> pr_Value p = PlayerKindOffline) (mp_Properties profile) then (s, None)
      else case ParseUUID (mp_ID profile) of Inl _ \<Rightarrow> (s, None)
      | Inr uuid \<Rightarrow>
          (case Now en s of (s, now) \<Rightarrow>
            (case in_store (UpsertPremiumPassport (en_uc en) (mp_Name profile) uuid now) s of
               (s, Inl _) \<Rightarrow> (s, None) | (s, Inr passport) \<Rightarrow> (s, Some passport))))"

definition resolveOfflineAfterMojangFailure :: "env \<Rightarrow> memory \<Rightarrow> string \<Rightarrow> Passport option" where
  "resolveOfflineAfterMojangFailure en m username =
     (case GetPassportByUsername (en_uc en) m (TrimSpace username) of Inl _ \<Rightarrow> None
      | Inr passport \<Rightarrow> if pp_Kind passport \<noteq> PassportKindOffline then None else Some passport)"

definition verify_details :: "verifyLimboSessionRequest \<Rightarrow> session_error \<Rightarrow> anymap" where
  "verify_details req e = mk_map
     [(''username'', VStr (vl_Username req)), (''server_id'', VStr (vl_ServerID req)), (''remote_ip'', VStr (vl_RemoteIP req)),
      (''requested_host'', VStr (vl_RequestedHost req)), (''protocol'', VInt (vl_ProtocolVersion req)),
      (''reason'', VStr (session_error_text e)), (''verification_by'', VStr ''mojang'')]"

definition verify_failed ::
  "env \<Rightarrow> request \<Rightarrow> Node \<Rightarrow> verifyLimboSessionRequest \<Rightarrow> session_error \<Rightarrow> Server \<Rightarrow> Server \<times> response" where
  "verify_failed en r n req e s =
     (let s = auditWithClientIP en r (vl_RemoteIP req) ''node'' (no_ID n) ''player'' (TrimSpace (vl_Username req))
            ''limbo.session.verify_failure'' (verify_details req e) s
      in
      if e \<noteq> ErrProfileNotFound then
        case resolveOfflineAfterMojangFailure en (sv_store s) (vl_Username req) of
          Some passport \<Rightarrow>
            let s = auditWithClientIP en r (vl_RemoteIP req) ''node'' (no_ID n) ''player'' (pp_ID passport)
                  ''limbo.session.verify_offline_fallback'' (verify_details req e) s
            in refuse s 401 ''session.verify_failed''
                 ''Mojang verifier is unavailable; registered offline passport may authenticate with password''
        | None \<Rightarrow> refuse s 503 ''mojang.verifier_unavailable'' (session_error_text e)
      else refuse s 401 ''session.verify_failed'' (session_error_text e))"

definition verify_succeeded ::
  "env \<Rightarrow> request \<Rightarrow> Node \<Rightarrow> verifyLimboSessionRequest \<Rightarrow> MojangProfile \<Rightarrow> Server \<Rightarrow> Server \<times> response" where
  "verify_succeeded en r n req profile s =
     (let preexisting = (case ParseUUID (mp_ID profile) of Inl _ \<Rightarrow> False
            | Inr uuid \<Rightarrow> (case GetPassportByID (sv_store s) (UUID_String uuid) of Inl _ \<Rightarrow> False
                | Inr existing \<Rightarrow> pp_Kind existing = PassportKindPremium))
      in
      case persistPremiumPassport en profile s of
        (s, None) \<Rightarrow> refuse s 500 ''session.persist_failed'' ''failed to persist premium passport''
      | (s, Some passport) \<Rightarrow>
          let s = on_store (SetPassportPremiumTextures (pp_ID passport) (mp_Properties profile)) s;
              s = auditWithClientIP en r (vl_RemoteIP req) ''node'' (no_ID n) ''player'' (pp_ID passport)
                ''limbo.session.verify_success'' (mk_map
                  [(''passport_id'', VStr (pp_ID passport)), (''username'', VStr (mp_Name profile)),
                   (''uuid'', VStr (UUID_String (pp_UUID passport))), (''remote_ip'', VStr (vl_RemoteIP req)),
                   (''requested_host'', VStr (vl_RequestedHost req)), (''protocol'', VInt (vl_ProtocolVersion req)),
                   (''verification_by'', VStr ''mojang''), (''passport_preexisting'', VBool preexisting)]) s
          in (s, WriteJSON 200 (VMap (mk_map [(''profile'', VMap (mk_map
                  [(''uuid'', VStr (UUID_String (pp_UUID passport))), (''name'', VStr (mp_Name profile)),
                   (''properties'', profilePropertiesData (mp_Properties profile)), (''source'', VStr ''mojang''),
                   (''verified'', VBool True), (''passport_id'', VStr (pp_ID passport)),
                   (''passport_preexisting'', VBool preexisting)]))]))))"

definition handleNodeVerifyLimboSession :: "verifyLimboSessionRequest handler" where
  "handleNodeVerifyLimboSession en r body s =
     with_node en r s (\<lambda>n.
       if \<not> IsLimboPortal (en_uc en) (no_Mode n)
       then refuse s 403 ''node.kind_forbidden'' ''only limbo portal nodes can verify premium sessions''
       else decode_body body s (\<lambda>req.
         let username = TrimSpace (vl_Username req); serverID = TrimSpace (vl_ServerID req) in
         if username = [] \<or> serverID = [] then refuse s 400 ''session.proof_required'' ''username and server_id are required''
         else case sv_mojang s of
           None \<Rightarrow> refuse s 503 ''mojang.verifier_unavailable'' ''Mojang verifier is not configured''
         | Some v \<Rightarrow>
             (case ask_mojang (\<lambda>http now. HasJoined http now \<lparr>hj_Username = username, hj_ServerID = serverID, hj_IP = []\<rparr>) en v s of
                (s, Inl e) \<Rightarrow> verify_failed en r n req e s
              | (s, Inr profile) \<Rightarrow> verify_succeeded en r n req profile s)))"

subsection \<open>How a name may log in\<close>

record limboLoginPolicyRequest =
  lq_Username :: string
  lq_ClaimedUUID :: string
  lq_RemoteIP :: string
  lq_ProtocolVersion :: int
  lq_RequestedHost :: string

definition writePolicy ::
  "env \<Rightarrow> request \<Rightarrow> Node \<Rightarrow> limboLoginPolicyRequest \<Rightarrow> string \<Rightarrow> string \<Rightarrow> MojangProfile option \<Rightarrow> Server \<Rightarrow> Server \<times> response" where
  "writePolicy en r n req mode reason premium s =
     (let username = TrimSpace (lq_Username req);
          details = mk_map ([(''username'', VStr username), (''claimed_uuid'', VStr (TrimSpace (lq_ClaimedUUID req))),
              (''login_mode'', VStr mode), (''reason'', VStr reason), (''remote_ip'', VStr (lq_RemoteIP req)),
              (''requested_host'', VStr (lq_RequestedHost req)), (''protocol_version'', VInt (lq_ProtocolVersion req))]
            @ (case premium of None \<Rightarrow> [] | Some p \<Rightarrow>
                [(''premium_uuid'', VStr (dashedProfileUUID (mp_ID p))), (''premium_name'', VStr (mp_Name p)),
                 (''claimed_uuid_matches_mojang'', VBool (sameProfileUUID (lq_ClaimedUUID req) (mp_ID p)))]));
          s = auditWithClientIP en r (lq_RemoteIP req) ''node'' (no_ID n) ''player'' username ''limbo.login_policy'' details s
      in (s, WriteJSON 200 (VMap (mk_map ([(''login_mode'', VStr mode), (''reason'', VStr reason)]
            @ (case premium of None \<Rightarrow> [] | Some p \<Rightarrow> [(''premium_profile'', VMap (mk_map
                [(''uuid'', VStr (dashedProfileUUID (mp_ID p))), (''id'', VStr (TrimSpace (mp_ID p))),
                 (''name'', VStr (mp_Name p)), (''source'', VStr ''mojang'')]))]))))))"

definition handleNodeResolveLimboLoginPolicy :: "limboLoginPolicyRequest handler" where
  "handleNodeResolveLimboLoginPolicy en r body s =
     with_node en r s (\<lambda>n.
       if \<not> IsLimboPortal (en_uc en) (no_Mode n)
       then refuse s 403 ''node.kind_forbidden'' ''only limbo portal nodes can resolve login policy''
       else decode_body body s (\<lambda>req.
         let username = TrimSpace (lq_Username req);
             during_outage = (\<lambda>s. resolveOfflineAfterMojangFailure en (sv_store s) username \<noteq> None);
             offline = (\<lambda>reason premium s. writePolicy en r n req ''offline'' reason premium s)
         in
         if username = [] then refuse s 400 ''session.username_required'' ''username is required''
         else case sv_mojang s of
           None \<Rightarrow>
             if during_outage s then offline ''registered_offline_during_mojang_outage'' None s
             else refuse s 503 ''mojang.verifier_unavailable'' ''Mojang verifier is not configured''
         | Some v \<Rightarrow>
             (case ask_mojang (\<lambda>http now. LookupProfileByName (en_uc en) http now username) en v s of
                (s, Inr profile) \<Rightarrow>
                  if sameProfileUUID (lq_ClaimedUUID req) (mp_ID profile)
                  then writePolicy en r n req ''hybrid'' ''premium_claim_uuid_match'' (Some profile) s
                  else offline ''premium_claim_uuid_mismatch'' (Some profile) s
              | (s, Inl ErrProfileNotFound) \<Rightarrow> offline ''premium_profile_not_found'' None s
              | (s, Inl e) \<Rightarrow>
                  if during_outage s then offline ''registered_offline_during_mojang_outage'' None s
                  else
                    let s = auditWithClientIP en r (lq_RemoteIP req) ''node'' (no_ID n) ''player'' username
                          ''limbo.login_policy_failure'' (mk_map
                            [(''username'', VStr username), (''claimed_uuid'', VStr (TrimSpace (lq_ClaimedUUID req))),
                             (''remote_ip'', VStr (lq_RemoteIP req)), (''requested_host'', VStr (lq_RequestedHost req)),
                             (''protocol_version'', VInt (lq_ProtocolVersion req)), (''reason'', VStr (session_error_text e))]) s
                    in refuse s 503 ''mojang.verifier_unavailable'' (session_error_text e))))"

subsection \<open>Resolving a name\<close>

record resolvePlayerRequest =
  rp_Username :: string
  rp_LoginMode :: string
  rp_AuthSource :: string
  rp_Verified :: bool
  rp_VerifiedUUID :: string
  rp_RemoteIP :: string
  rp_ProfileProperties :: "ProfileProperty list"

definition nodeProfileProperties :: "ProfileProperty list \<Rightarrow> ProfileProperty list" where
  "nodeProfileProperties properties =
     map (\<lambda>p. p\<lparr>pr_Name := TrimSpace (pr_Name p)\<rparr>) (filter (\<lambda>p. TrimSpace (pr_Name p) \<noteq> []) properties)"

definition resolvePendingGrantPlayer ::
  "env \<Rightarrow> Node \<Rightarrow> resolvePlayerRequest \<Rightarrow> Server \<Rightarrow> Server \<times> (Player \<times> Passport \<times> TransferGrant) option" where
  "resolvePendingGrantPlayer en n req s =
     (let serverID = TrimSpace (no_ServerID n); username = TrimSpace (rp_Username req) in
      if \<not> IsDownstreamVelocity (en_uc en) (no_Mode n) \<or> TrimSpace (rp_LoginMode req) \<noteq> [] \<or> rp_Verified req \<or>
         serverID = [] \<or> username = []
      then (s, None)
      else case Now en s of (s, now) \<Rightarrow>
        (case GetPendingTransferGrantByProtocolName (en_uc en) (sv_store s) serverID username now of Inl _ \<Rightarrow> (s, None)
         | Inr grant \<Rightarrow>
             (case GetProfileByID (sv_store s) (tg_PlayerID grant) of Inl _ \<Rightarrow> (s, None)
              | Inr profile \<Rightarrow>
                  (case passportForTransferGrant (sv_store s) grant of Inl _ \<Rightarrow> (s, None)
                   | Inr passport \<Rightarrow>
                       let player = dressed_player en s passport profile;
                           player = (case ParseUUID (tg_UUID grant) of Inl _ \<Rightarrow> player | Inr u \<Rightarrow> player\<lparr>pl_UUID := u\<rparr>)
                       in (s, Some (player\<lparr>pl_ProtocolName := tg_ProtocolName grant\<rparr>, passport, grant))))))"

definition resolveNodePassport ::
  "env \<Rightarrow> Node \<Rightarrow> resolvePlayerRequest \<Rightarrow> Server \<Rightarrow> Server \<times> (api_error + Passport)" where
  "resolveNodePassport en n req s =
     (let username = TrimSpace (rp_Username req);
          missing = NewError 404 ''player.not_found'' ''player not found''
      in
      if rp_Verified req then
        if \<not> IsLimboPortal (en_uc en) (no_Mode n)
        then (s, Inl (NewError 403 ''node.kind_forbidden'' ''only limbo portal nodes can submit verified session profiles''))
        else if TrimSpace (rp_LoginMode req) \<noteq> ''online''
        then (s, Inl (NewError 400 ''session.login_mode_invalid'' ''verified session must use online login mode''))
        else case ParseUUID (rp_VerifiedUUID req) of
          Inl _ \<Rightarrow> (s, Inl (NewError 400 ''session.uuid_invalid'' ''verified UUID is invalid''))
        | Inr uuid \<Rightarrow>
            (case Now en s of (s, now) \<Rightarrow>
              (case in_store (UpsertPremiumPassport (en_uc en) username uuid now) s of
                 (s, Inl _) \<Rightarrow> (s, Inl (NewError 500 ''premium.upsert_failed'' ''failed to persist premium passport''))
               | (s, Inr passport) \<Rightarrow>
                   let props = nodeProfileProperties (rp_ProfileProperties req) in
                   (if props = [] then s else on_store (SetPassportPremiumTextures (pp_ID passport) props) s, Inr passport)))
      else if TrimSpace (rp_LoginMode req) = ''offline'' then
        (s, case GetPassportByUsername (en_uc en) (sv_store s) username of Inl _ \<Rightarrow> Inl missing | Inr p \<Rightarrow> Inr p)
      else
        (s, case findPassportByLoginName (en_uc en) (sv_store s) username of Inr p \<Rightarrow> Inr p
            | Inl _ \<Rightarrow>
                (case GetPlayerByProtocolName (en_uc en) (sv_store s) username of Inl _ \<Rightarrow> Inl missing
                 | Inr player \<Rightarrow>
                     (case ListPassportsForProfile (sv_store s) (pl_ID player) of
                        [b] \<Rightarrow> Inr (bi_Passport b) | _ \<Rightarrow> Inl missing))))"

definition handleNodeResolvePlayer :: "resolvePlayerRequest handler" where
  "handleNodeResolvePlayer en r body s =
     with_node en r s (\<lambda>n. decode_body body s (\<lambda>req.
       let username = TrimSpace (rp_Username req); ip = rp_RemoteIP req;
           kind = VStr (NormalizeKind (en_uc en) (no_Mode n))
       in
       case resolvePendingGrantPlayer en n req s of
         (s, Some (player, passport, grant)) \<Rightarrow>
           (case nodePassportResolveDataWithPlayer en passport (Some player) (rp_Verified req) ip s of (s, d) \<Rightarrow>
             (auditWithClientIP en r ip ''node'' (no_ID n) ''player'' (pp_ID passport) ''player.resolve'' (mk_map
                [(''requested_username'', VStr username), (''passport_id'', VStr (pp_ID passport)),
                 (''passport_kind'', VStr (pp_Kind passport)), (''player_id'', VStr (pl_ID player)),
                 (''grant_id'', VStr (tg_ID grant)), (''resolution'', VStr ''pending_transfer_grant''),
                 (''protocol_name'', VStr (pl_ProtocolName player)), (''uuid'', VStr (UUID_String (pl_UUID player))),
                 (''auth'', auth_map d), (''kind'', kind), (''remote_ip'', VStr ip)]) s,
              WriteJSON 200 (resolve_map d)))
       | (s, None) \<Rightarrow>
           (case resolveNodePassport en n req s of
              (s, Inl e) \<Rightarrow>
                (auditWithClientIP en r ip ''node'' (no_ID n) ''player'' username ''player.resolve_failure'' (mk_map
                   [(''reason'', VStr (er_Message e)), (''username'', VStr username), (''kind'', kind), (''remote_ip'', VStr ip)]) s,
                 WriteError e)
            | (s, Inr passport) \<Rightarrow>
                (case nodePassportResolveData en passport (rp_Verified req) ip s of (s, d) \<Rightarrow>
                  (auditWithClientIP en r ip ''node'' (no_ID n) ''player'' (pp_ID passport) ''player.resolve'' (mk_map
                     [(''requested_username'', VStr username), (''passport_id'', VStr (pp_ID passport)),
                      (''passport_kind'', VStr (pp_Kind passport)), (''auth'', auth_map d), (''kind'', kind),
                      (''remote_ip'', VStr ip)]) s,
                   WriteJSON 200 (resolve_map d))))))"

end
