(* ===== verification/ServerLogin.thy ===== *)
theory ServerLogin
  imports ServerNode
begin

text \<open>
  Passwords at the node API and the recovery key: \<^verbatim>\<open>handleNodeAuthenticatePlayer\<close>,
  \<^verbatim>\<open>handleNodeRememberPortalAuth\<close> and \<^verbatim>\<open>handleNodeRegisterOfflinePlayer\<close> of \<^verbatim>\<open>node.go\<close>, and the state
  of \<^verbatim>\<open>password_recovery_key.go\<close>.  RSA is the environment's; the recovery key is kept in the system
  settings as the JSON object of a struct, whose keys are taken in the case they are written in.
\<close>

subsection \<open>The recovery key\<close>

record passwordRecoveryKeyState =
  rk_Algorithm :: string
  rk_PublicKeyPEM :: string
  rk_PrivateKeyPEM :: string
  rk_Fingerprint :: string
  rk_SizeBits :: int
  rk_CreatedAt :: string
  rk_DownloadedAt :: string

definition recovery_of_map :: "anymap \<Rightarrow> passwordRecoveryKeyState result" where
  "recovery_of_map m =
     (case (json_str m ''algorithm'', json_str m ''public_key_pem'', json_str m ''private_key_pem'', json_str m ''fingerprint'',
            json_int m ''size_bits'', json_str m ''created_at'', json_str m ''downloaded_at'') of
        (Some a, Some p, Some q, Some f, Some b, Some c, Some d) \<Rightarrow>
          Inr \<lparr>rk_Algorithm = a, rk_PublicKeyPEM = p, rk_PrivateKeyPEM = q, rk_Fingerprint = f, rk_SizeBits = b,
               rk_CreatedAt = c, rk_DownloadedAt = d\<rparr>
      | _ \<Rightarrow> Inl (ErrLib ''json''))"

definition map_of_recovery :: "passwordRecoveryKeyState \<Rightarrow> anymap" where
  "map_of_recovery st = mk_map
     ([(''algorithm'', VStr (rk_Algorithm st)), (''public_key_pem'', VStr (rk_PublicKeyPEM st)),
       (''fingerprint'', VStr (rk_Fingerprint st)), (''size_bits'', VFloat (of_int (rk_SizeBits st))),
       (''created_at'', VStr (rk_CreatedAt st))]
      @ (if rk_PrivateKeyPEM st = [] then [] else [(''private_key_pem'', VStr (rk_PrivateKeyPEM st))])
      @ (if rk_DownloadedAt st = [] then [] else [(''downloaded_at'', VStr (rk_DownloadedAt st))]))"

definition loadPasswordRecoveryKey :: "memory \<Rightarrow> passwordRecoveryKeyState result" where
  "loadPasswordRecoveryKey m =
     (case GetSystemSetting m ''password_recovery_key'' of Inl e \<Rightarrow> Inl e | Inr raw \<Rightarrow> recovery_of_map raw)"

definition savePasswordRecoveryKey :: "passwordRecoveryKeyState \<Rightarrow> Server \<Rightarrow> Server \<times> unit result" where
  "savePasswordRecoveryKey st = in_store (SetSystemSetting ''password_recovery_key'' (map_of_recovery st))"

text \<open>A generated key is the draw of the environment at the current counter.\<close>

definition newPasswordRecoveryKeyState :: "env \<Rightarrow> Server \<Rightarrow> Server \<times> passwordRecoveryKeyState result" where
  "newPasswordRecoveryKeyState en s =
     (case Now en s of (s, now) \<Rightarrow>
        case en_genkey en (sv_draw s) of Inl e \<Rightarrow> (fst (Rand en s), Inl e)
        | Inr (public, private, fingerprint, bits) \<Rightarrow>
            (fst (Rand en s),
             Inr \<lparr>rk_Algorithm = ''rsa-oaep-sha256'', rk_PublicKeyPEM = public, rk_PrivateKeyPEM = private,
                  rk_Fingerprint = fingerprint, rk_SizeBits = bits, rk_CreatedAt = rfc3339 now, rk_DownloadedAt = []\<rparr>))"

definition ensurePasswordRecoveryKey :: "env \<Rightarrow> Server \<Rightarrow> Server \<times> passwordRecoveryKeyState result" where
  "ensurePasswordRecoveryKey en s =
     (let fresh = (case newPasswordRecoveryKeyState en s of (s, Inl e) \<Rightarrow> (s, Inl e)
          | (s, Inr st) \<Rightarrow> (case savePasswordRecoveryKey st s of (s, Inl e) \<Rightarrow> (s, Inl e) | (s, Inr _) \<Rightarrow> (s, Inr st)))
      in
      case loadPasswordRecoveryKey (sv_store s) of
        Inr st \<Rightarrow> if TrimSpace (rk_PublicKeyPEM st) \<noteq> [] \<and> TrimSpace (rk_Fingerprint st) \<noteq> [] then (s, Inr st) else fresh
      | Inl e \<Rightarrow> if \<not> is_NotFound e then (s, Inl e) else fresh)"

text \<open>The ciphertext with the fingerprint of the key.\<close>

definition offlinePasswordCredential :: "env \<Rightarrow> string \<Rightarrow> Server \<Rightarrow> Server \<times> (string \<times> string) result" where
  "offlinePasswordCredential en password s =
     (case ensurePasswordRecoveryKey en s of (s, Inl e) \<Rightarrow> (s, Inl e)
      | (s, Inr st) \<Rightarrow> (fst (Rand en s), en_encrypt en (rk_PublicKeyPEM st) (bytes_of password) (sv_draw s)))"

subsection \<open>Checking a password\<close>

record authenticatePlayerRequest =
  ap_Username :: string
  ap_Password :: string
  ap_RemoteIP :: string

text \<open>What follows an accepted password.\<close>

definition password_accepted :: "env \<Rightarrow> request \<Rightarrow> Node \<Rightarrow> string \<Rightarrow> Passport \<Rightarrow> Server \<Rightarrow> Server \<times> response" where
  "password_accepted en r n ip passport s =
     (let s = fst (in_store (RecordPassportLoginSuccess (pp_ID passport)) s) in
      case Now en s of (s, now) \<Rightarrow>
      case rememberPortalAuthCache en (pp_ID passport) ip now s of (s, remembered) \<Rightarrow>
      let cache = (case remembered of Inl _ \<Rightarrow> None | Inr c \<Rightarrow> c);
          s = auditWithClientIP en r ip ''node'' (no_ID n) ''passport'' (pp_ID passport) ''offline.password.success'' (mk_map
                [(''server_id'', VStr (no_ServerID n)), (''remote_ip'', VStr ip),
                 (''portal_auth_cache_written'', VBool (cache \<noteq> None))]) s;
          answer = [(''authenticated'', VBool True), (''passport_id'', VStr (pp_ID passport))]
            @ (if cache = None then [] else [(''auth_cache'', portalAuthCacheData cache True)])
      in
      case GetPrimaryProfileForPassport (sv_store s) (pp_ID passport) of
        Inl _ \<Rightarrow> (s, WriteJSON 200 (VMap (mk_map answer)))
      | Inr primary \<Rightarrow>
          let player = dressed_player en s passport primary in
          case Now en s of (s, now) \<Rightarrow>
            (recordPassportProfileSeenWithClientIP en r passport primary (no_ServerID n) ip now s,
             WriteJSON 200 (VMap (mk_map (answer @ [(''player'', playerData player)])))))"

definition password_rejected ::
  "env \<Rightarrow> request \<Rightarrow> Node \<Rightarrow> string \<Rightarrow> Passport \<Rightarrow> Server \<Rightarrow> Server \<times> response" where
  "password_rejected en r n ip passport s =
     (case Now en s of (s, now) \<Rightarrow>
      case in_store (RecordPassportLoginFailure (pp_ID passport) now) s of (s, updated) \<Rightarrow>
        refuse (auditWithClientIP en r ip ''node'' (no_ID n) ''passport'' (pp_ID passport) ''offline.password.failure'' (mk_map
            [(''reason'', VStr ''password_mismatch''),
             (''failed_attempts'', VInt (case updated of Inl _ \<Rightarrow> 0 | Inr c \<Rightarrow> pa_FailedAttempts c)),
             (''locked_until'', case updated of Inl _ \<Rightarrow> VNil | Inr c \<Rightarrow> time_val (pa_LockedUntil c)),
             (''remote_ip'', VStr ip)]) s)
          401 ''auth.invalid_credentials'' ''invalid username or password'')"

definition handleNodeAuthenticatePlayer :: "authenticatePlayerRequest handler" where
  "handleNodeAuthenticatePlayer en r body s =
     with_node en r s (\<lambda>n. decode_body body s (\<lambda>req.
       let ip = ap_RemoteIP req; m = sv_store s in
       case GetPassportCredential (en_uc en) m m (normalizeNodeUsername (ap_Username req)) of
         Inl _ \<Rightarrow>
           refuse (auditWithClientIP en r ip ''node'' (no_ID n) ''player'' (TrimSpace (ap_Username req)) ''offline.password.failure''
               (mk_map [(''reason'', VStr ''credential_not_found''), (''username'', VStr (TrimSpace (ap_Username req))),
                        (''remote_ip'', VStr ip)]) s)
             404 ''player.not_found'' ''player not found''
       | Inr (passport, credential) \<Rightarrow>
           (case Now en s of (s, now) \<Rightarrow>
              if pp_Status passport = PassportStatusLocked \<or> passportCredentialLocked credential now then
                refuse (auditWithClientIP en r ip ''node'' (no_ID n) ''passport'' (pp_ID passport) ''offline.password.rejected''
                    (mk_map [(''reason'', VStr ''account_locked''), (''locked_until'', time_val (pa_LockedUntil credential)),
                             (''remote_ip'', VStr ip)]) s)
                  403 ''auth.account_locked'' ''account is locked''
              else case VerifyPassword (en_argon2 en) (ap_Password req) (pa_PasswordHash credential) of
                None \<Rightarrow> (s, Aborted)
              | Some (Inr True) \<Rightarrow> password_accepted en r n ip passport s
              | Some _ \<Rightarrow> password_rejected en r n ip passport s)))"

subsection \<open>Remembering an address\<close>

record rememberPortalAuthRequest =
  rm_PassportID :: string
  rm_RemoteIP :: string
  rm_Reason :: string

definition handleNodeRememberPortalAuth :: "rememberPortalAuthRequest handler" where
  "handleNodeRememberPortalAuth en r body s =
     with_node en r s (\<lambda>n.
       if \<not> IsLimboPortal (en_uc en) (no_Mode n)
       then refuse s 403 ''node.kind_forbidden'' ''only limbo portal nodes can remember portal auth''
       else decode_body body s (\<lambda>req.
         let passportID = TrimSpace (rm_PassportID req); ip = rm_RemoteIP req in
         if passportID = [] then refuse s 400 ''passport.required'' ''passport id is required''
         else case GetPassportByID (sv_store s) passportID of
           Inl _ \<Rightarrow> refuse s 404 ''passport.not_found'' ''passport not found''
         | Inr passport \<Rightarrow>
             if pp_Status passport \<noteq> PassportStatusActive then refuse s 403 ''passport.not_editable'' ''passport is not active''
             else case Now en s of (s, now) \<Rightarrow>
               (case rememberPortalAuthCache en (pp_ID passport) ip now s of
                  (s, Inl _) \<Rightarrow> refuse s 500 ''portal_auth_cache.save_failed'' ''failed to remember portal auth''
                | (s, Inr cache) \<Rightarrow>
                    (auditWithClientIP en r ip ''node'' (no_ID n) ''passport'' (pp_ID passport) ''portal.auth_cache.remember''
                       (mk_map [(''remote_ip'', VStr ip), (''reason'', VStr (TrimSpace (rm_Reason req))),
                                (''remembered'', VBool (cache \<noteq> None)),
                                (''expires_at'', VTime (case cache of None \<Rightarrow> 0 | Some c \<Rightarrow> ac_ExpiresAt c))]) s,
                     WriteJSON 200 (VMap (mk_map [(''auth_cache'', portalAuthCacheData cache (cache \<noteq> None))]))))))"

subsection \<open>Registering an offline passport\<close>

record registerOfflinePlayerRequest =
  ro_Username :: string
  ro_Password :: string
  ro_RequestedHost :: string
  ro_RemoteIP :: string

text \<open>After the passport is stored; the answer says that no password is required any more.\<close>

definition passport_registered ::
  "env \<Rightarrow> request \<Rightarrow> Node \<Rightarrow> registerOfflinePlayerRequest \<Rightarrow> Passport \<Rightarrow> Server \<Rightarrow> Server \<times> response" where
  "passport_registered en r n req passport s =
     (let ip = ro_RemoteIP req;
          s = auditWithClientIP en r ip ''node'' (no_ID n) ''player'' (pp_ID passport) ''offline.register'' (mk_map
                [(''passport_id'', VStr (pp_ID passport)), (''requested_host'', VStr (ro_RequestedHost req)),
                 (''server_id'', VStr (no_ServerID n)), (''remote_ip'', VStr ip)]) s
      in
      case Now en s of (s, now) \<Rightarrow>
      case rememberPortalAuthCache en (pp_ID passport) ip now s of (s, _) \<Rightarrow>
      case nodePassportResolveData en passport False ip s of (s, d) \<Rightarrow>
        (s, WriteJSON 201 (resolve_map (d\<lparr>rd_required := False\<rparr>))))"

definition handleNodeRegisterOfflinePlayer :: "registerOfflinePlayerRequest handler" where
  "handleNodeRegisterOfflinePlayer en r body s =
     with_node en r s (\<lambda>n.
       if \<not> IsLimboPortal (en_uc en) (no_Mode n)
       then refuse s 403 ''node.kind_forbidden'' ''only limbo portal nodes can register offline passports''
       else decode_body body s (\<lambda>req.
         let username = TrimSpace (ro_Username req) in
         if username = [] then refuse s 400 ''player.username_required'' ''username is required''
         else case Rand en s of (s, salt) \<Rightarrow>
           (case HashPassword (en_argon2 en) (ro_Password req) (en_passwordParams en) salt of
              None \<Rightarrow> (s, Aborted)
            | Some (Inl _) \<Rightarrow> refuse s 400 ''auth.password_policy_failed'' ''password does not satisfy policy''
            | Some (Inr passwordHash) \<Rightarrow>
                (case offlinePasswordCredential en (ro_Password req) s of
                   (s, Inl _) \<Rightarrow> refuse s 500 ''password_recovery.encrypt_failed'' ''failed to encrypt recoverable password''
                 | (s, Inr (encryptedPassword, keyFingerprint)) \<Rightarrow>
                     (case Now en s of (s, now) \<Rightarrow>
                      case in_store (CreateOfflinePassport (en_uc en) username passwordHash encryptedPassword keyFingerprint now) s of
                        (s, Inl e) \<Rightarrow> refuse s 400 ''player.offline_registration_failed'' (error_text en e)
                      | (s, Inr passport) \<Rightarrow> passport_registered en r n req passport s)))))"

end
