(* ===== verification/ServerPresence.thy ===== *)
theory ServerPresence
  imports ServerViews
begin

text \<open>
  Presences, node actions, bans and extension data at the node API (\<^verbatim>\<open>node.go\<close>,
  \<^verbatim>\<open>player_activity.go\<close>): asking a connected node whether a player is still there, what follows from
  its answer, and ending the presences of a banned player.
\<close>

subsection \<open>Actions for nodes\<close>

text \<open>The loop of \<^verbatim>\<open>enqueueDisconnectActions\<close> and of \<^verbatim>\<open>enqueuePresenceCheckActions\<close>.\<close>

definition enqueue_action ::
  "env \<Rightarrow> NodeActionType \<Rightarrow> duration \<Rightarrow> string \<Rightarrow> time \<Rightarrow> Server \<times> nat \<Rightarrow> PlayerPresence \<Rightarrow> Server \<times> nat" where
  "enqueue_action en typ lifetime reason now acc p =
     (case acc of (s, count) \<Rightarrow>
        if TrimSpace (pc_NodeID p) = [] then (s, count)
        else case Now en s of (s, t) \<Rightarrow>
          (case in_store (EnqueueNodeAction
               \<lparr>na_ID = [], na_NodeID = pc_NodeID p, na_Type = typ, na_PresenceID = pc_ID p, na_PassportID = pc_PassportID p,
                na_ProfileID = pc_ProfileID p, na_UUID = pc_UUID p, na_ProtocolName = pc_ProtocolName p,
                na_Reason = TrimSpace reason, na_CreatedAt = now, na_ExpiresAt = Some (now + lifetime), na_AckedAt = None\<rparr> t) s of
             (s, Inl _) \<Rightarrow> (s, count) | (s, Inr _) \<Rightarrow> (s, count + 1)))"

definition enqueueDisconnectActions ::
  "env \<Rightarrow> PlayerPresence list \<Rightarrow> string \<Rightarrow> time \<Rightarrow> Server \<Rightarrow> Server \<times> nat" where
  "enqueueDisconnectActions en presences reason now s =
     foldl (enqueue_action en NodeActionDisconnect (600 * Second) reason now) (s, 0) presences"

definition enqueuePresenceCheckActions ::
  "env \<Rightarrow> PlayerPresence list \<Rightarrow> string \<Rightarrow> time \<Rightarrow> Server \<Rightarrow> Server \<times> nat" where
  "enqueuePresenceCheckActions en presences reason now s =
     foldl (enqueue_action en NodeActionPresenceCheck (120 * Second) reason now) (s, 0) presences"

record nodeActionAckResult =
  ar_ID :: string
  ar_Type :: string
  ar_PresenceID :: string
  ar_PassportID :: string
  ar_ProfileID :: string
  ar_UUID :: string
  ar_ProtocolName :: string
  ar_Online :: "bool option"

definition process_result :: "env \<Rightarrow> request \<Rightarrow> Node \<Rightarrow> time \<Rightarrow> Server \<Rightarrow> nodeActionAckResult \<Rightarrow> Server" where
  "process_result en r n now s result =
     (let trimmed = (\<lambda>f. VStr (TrimSpace (f result))); presenceID = TrimSpace (ar_PresenceID result) in
      if \<not> EqualFold (en_uc en) (TrimSpace (ar_Type result)) NodeActionPresenceCheck then s
      else if ar_Online result = None \<or> ar_Online result = Some True then
        audit en r ''node'' (no_ID n) ''player'' (TrimSpace (ar_ProfileID result)) ''presence.check'' (mk_map
          [(''action_id'', trimmed ar_ID), (''presence_id'', trimmed ar_PresenceID), (''passport_id'', trimmed ar_PassportID),
           (''profile_id'', trimmed ar_ProfileID), (''uuid'', trimmed ar_UUID), (''protocol_name'', trimmed ar_ProtocolName),
           (''online'', VBool (ar_Online result = Some True))]) s
      else if presenceID = [] then s
      else case in_store (EndPresence presenceID ''presence_check_absent'' now) s of
          (s, Inl _) \<Rightarrow> s
        | (s, Inr p) \<Rightarrow>
            audit en r ''node'' (no_ID n) ''player'' (pc_ProfileID p) ''presence.reconcile'' (mk_map
              [(''action_id'', trimmed ar_ID), (''presence_id'', VStr (pc_ID p)), (''passport_id'', VStr (pc_PassportID p)),
               (''profile_id'', VStr (pc_ProfileID p)), (''server_id'', VStr (pc_ServerID p)), (''node_id'', VStr (pc_NodeID p)),
               (''uuid'', VStr (pc_UUID p)), (''protocol_name'', VStr (pc_ProtocolName p)),
               (''reason'', VStr ''presence_check_absent'')]) s)"

definition processNodeActionAckResults ::
  "env \<Rightarrow> request \<Rightarrow> Node \<Rightarrow> nodeActionAckResult list \<Rightarrow> time \<Rightarrow> Server \<Rightarrow> Server" where
  "processNodeActionAckResults en r n results now s = foldl (process_result en r n now) s results"

record ackNodeActionsRequest =
  ak_IDs :: "string list"
  ak_Results :: "nodeActionAckResult list"

definition handleNodeAckActions :: "ackNodeActionsRequest handler" where
  "handleNodeAckActions en r body s =
     with_node en r s (\<lambda>n. decode_body body s (\<lambda>req.
       case Now en s of (s, now) \<Rightarrow>
       let s = processNodeActionAckResults en r n (ak_Results req) now s;
           ids = ak_IDs req @ filter (\<lambda>i. i \<noteq> []) (map (\<lambda>result. TrimSpace (ar_ID result)) (ak_Results req))
       in
       case in_store (AckNodeActions (no_ID n) ids now) s of (s, count) \<Rightarrow>
         (s, WriteJSON 200 (VMap (mk_map [(''acked'', VInt (int count))])))))"

subsection \<open>Asking a node\<close>

text \<open>
  \<open>None\<close> is an error: no live client, a time-out or an answer that is none to this request.  The
  answer comes as the result that \<^verbatim>\<open>processNodeActionAckResults\<close> is given for it.
\<close>

definition requestPresenceCheckOverWebSocket ::
  "env \<Rightarrow> PlayerPresence \<Rightarrow> Server \<Rightarrow> Server \<times> nodeActionAckResult option" where
  "requestPresenceCheckOverWebSocket en p s =
     (if TrimSpace (pc_NodeID p) = [] then (s, None)
      else case en_presence en (sv_draw s) p of (requestID, answer) \<Rightarrow>
        (fst (Rand en s),
         case answer of Inl _ \<Rightarrow> None
         | Inr raw \<Rightarrow>
             (case (json_str raw ''request_id'', json_str raw ''presence_id'', json_str raw ''passport_id'',
                    json_str raw ''profile_id'', json_str raw ''uuid'', json_str raw ''protocol_name'', json_bool raw ''online'') of
                (Some rid, Some presence, Some passport, Some profile, Some uuid, Some name, Some online) \<Rightarrow>
                  let default = (\<lambda>v d. if TrimSpace v = [] then d else v); rid = default rid requestID in
                  if rid \<noteq> requestID then None
                  else Some \<lparr>ar_ID = rid, ar_Type = NodeActionPresenceCheck, ar_PresenceID = default presence (pc_ID p),
                         ar_PassportID = default passport (pc_PassportID p), ar_ProfileID = default profile (pc_ProfileID p),
                         ar_UUID = default uuid (pc_UUID p), ar_ProtocolName = default name (pc_ProtocolName p),
                         ar_Online = Some online\<rparr>
              | _ \<Rightarrow> None)))"

text \<open>The node a check is recorded under: the presence's own, when it is still registered.\<close>

definition presence_node :: "Server \<Rightarrow> Node \<Rightarrow> PlayerPresence \<Rightarrow> Node" where
  "presence_node s n p =
     (if TrimSpace (pc_NodeID p) \<noteq> [] \<and> TrimSpace (pc_NodeID p) \<noteq> no_ID n
      then case Get (sv_nodes s) (pc_NodeID p) of Inl _ \<Rightarrow> n | Inr m \<Rightarrow> m else n)"

record refresh_state =
  rf_server :: Server
  rf_checked :: nat
  rf_cleared :: nat
  rf_fallback :: "PlayerPresence list"

definition refresh_step :: "env \<Rightarrow> request \<Rightarrow> Node \<Rightarrow> time \<Rightarrow> refresh_state \<Rightarrow> PlayerPresence \<Rightarrow> refresh_state" where
  "refresh_step en r n now acc p =
     (case requestPresenceCheckOverWebSocket en p (rf_server acc) of
        (s, None) \<Rightarrow> acc\<lparr>rf_server := s, rf_fallback := rf_fallback acc @ [p]\<rparr>
      | (s, Some result) \<Rightarrow>
          acc\<lparr>rf_server := processNodeActionAckResults en r (presence_node s n p) [result] now s,
              rf_checked := rf_checked acc + 1,
              rf_cleared := (if ar_Online result = Some False then rf_cleared acc + 1 else rf_cleared acc)\<rparr>)"

text \<open>The numbers of presences checked, of presences cleared and of checks queued.\<close>

definition refreshPresencesViaWebSocket ::
  "env \<Rightarrow> request \<Rightarrow> Node \<Rightarrow> PlayerPresence list \<Rightarrow> string \<Rightarrow> time \<Rightarrow> Server \<Rightarrow> Server \<times> nat \<times> nat \<times> nat" where
  "refreshPresencesViaWebSocket en r n presences reason now s =
     (let f = foldl (refresh_step en r n now) \<lparr>rf_server = s, rf_checked = 0, rf_cleared = 0, rf_fallback = []\<rparr> presences in
      if rf_fallback f = [] then (rf_server f, rf_checked f, rf_cleared f, 0)
      else case enqueuePresenceCheckActions en (rf_fallback f) reason now (rf_server f) of
        (s, queued) \<Rightarrow> (s, rf_checked f, rf_cleared f, queued))"

text \<open>One round of the background loop; its request has no headers.\<close>

definition backgroundPresenceRequest :: request where
  "backgroundPresenceRequest = \<lparr>rq_Path = ''/internal/presence-reconcile'', rq_Method = ''POST'', rq_Authorization = [],
     rq_Instance = [], rq_ForwardedFor = [], rq_RealIP = [], rq_RemoteAddr = ''127.0.0.1:0'', rq_UserAgent = [], rq_RequestID = [],
     rq_AdminSession = [], rq_PlayerSession = [], rq_CSRF = [], rq_ExternalToken = [],
     rq_AdminMFA = [], rq_AdminTrusted = [], rq_Origin = []\<rparr>"

definition zero_Node :: Node where
  "zero_Node = \<lparr>no_ID = [], no_ServerID = [], no_Mode = [], no_Name = [], no_TokenHash = [], no_TokenFingerprint = [],
     no_InstanceFingerprint = [], no_PluginVersion = [], no_VelocityVersion = [], no_Disabled = False,
     no_RuntimeConfig = gempty, no_CreatedAt = 0, no_LastHeartbeatAt = None\<rparr>"

definition reconcile_step :: "env \<Rightarrow> time \<Rightarrow> Server \<Rightarrow> PlayerPresence \<Rightarrow> Server" where
  "reconcile_step en now s p =
     (case requestPresenceCheckOverWebSocket en p s of (s, None) \<Rightarrow> s
      | (s, Some result) \<Rightarrow>
          let actor = zero_Node\<lparr>no_ID := pc_NodeID p\<rparr>;
              actor = (if TrimSpace (pc_NodeID p) \<noteq> []
                       then case Get (sv_nodes s) (pc_NodeID p) of Inl _ \<Rightarrow> actor | Inr m \<Rightarrow> m else actor)
          in processNodeActionAckResults en backgroundPresenceRequest actor [result] now s)"

definition reconcileActivePresences :: "env \<Rightarrow> Server \<Rightarrow> Server" where
  "reconcileActivePresences en s =
     (let presences = ListActivePresences (sv_store s) 500 in
      if presences = [] then s
      else case Now en s of (s, now) \<Rightarrow> foldl (reconcile_step en now) s presences)"

definition activePresencesForProfileServer :: "PlayerPresence list \<Rightarrow> string \<Rightarrow> PlayerPresence list" where
  "activePresencesForProfileServer presences serverID =
     (let serverID = TrimSpace serverID in filter (\<lambda>p. serverID = [] \<or> TrimSpace (pc_ServerID p) = serverID) presences)"

definition refreshProfileServerPresenceConflict ::
  "env \<Rightarrow> request \<Rightarrow> Node \<Rightarrow> string \<Rightarrow> string \<Rightarrow> PlayerPresence list \<Rightarrow> time \<Rightarrow> Server \<Rightarrow>
   Server \<times> PlayerPresence list \<times> nat \<times> nat \<times> nat" where
  "refreshProfileServerPresenceConflict en r n profileID serverID existing now s =
     (case refreshPresencesViaWebSocket en r n existing ''profile already online conflict'' now s of
        (s, counts) \<Rightarrow> (s, activePresencesForProfileServer (ListProfilePresences (sv_store s) profileID) serverID, counts))"

subsection \<open>Ending presences\<close>

record endPresenceRequest =
  ep_PresenceID :: string
  ep_ProfileID :: string
  ep_ServerID :: string
  ep_Reason :: string

definition end_step :: "env \<Rightarrow> string \<Rightarrow> Server \<times> nat \<Rightarrow> PlayerPresence \<Rightarrow> Server \<times> nat" where
  "end_step en reason acc p =
     (case acc of (s, ended) \<Rightarrow>
        case Now en s of (s, t) \<Rightarrow>
          (case in_store (EndPresence (pc_ID p) reason t) s of (s, Inl _) \<Rightarrow> (s, ended) | (s, Inr _) \<Rightarrow> (s, ended + 1)))"

definition handleNodeEndPresence :: "endPresenceRequest handler" where
  "handleNodeEndPresence en r body s =
     with_node en r s (\<lambda>n. decode_body body s (\<lambda>req.
       let reason = TrimSpace (ep_Reason req); reason = (if reason = [] then ''disconnect'' else reason);
           profileID = TrimSpace (ep_ProfileID req); serverID = TrimSpace (ep_ServerID req)
       in
       if TrimSpace (ep_PresenceID req) \<noteq> [] then
         case Now en s of (s, now) \<Rightarrow>
           (case in_store (EndPresence (ep_PresenceID req) reason now) s of
              (s, Inl _) \<Rightarrow> refuse s 404 ''presence.not_found'' ''presence not found''
            | (s, Inr p) \<Rightarrow>
                (audit en r ''node'' (no_ID n) ''player'' (pc_ProfileID p) ''presence.end'' (mk_map
                   [(''presence_id'', VStr (pc_ID p)), (''passport_id'', VStr (pc_PassportID p)),
                    (''profile_id'', VStr (pc_ProfileID p)), (''server_id'', VStr (pc_ServerID p)),
                    (''node_id'', VStr (pc_NodeID p)), (''reason'', VStr reason)]) s,
                 WriteJSON 200 (presenceRow p)))
       else if profileID = [] then refuse s 400 ''presence.profile_required'' ''profile id is required''
       else
         case foldl (end_step en reason) (s, 0)
                (filter (\<lambda>p. serverID = [] \<or> pc_ServerID p = serverID) (ListProfilePresences (sv_store s) profileID)) of
           (s, ended) \<Rightarrow>
             (audit en r ''node'' (no_ID n) ''player'' profileID ''presence.end'' (mk_map
                [(''profile_id'', VStr profileID), (''server_id'', VStr serverID), (''reason'', VStr reason),
                 (''ended_presences'', VInt (int ended))]) s,
              WriteJSON 200 (VMap (mk_map [(''ended_presences'', VInt (int ended))])))))"

subsection \<open>Bans\<close>

record nodeBanRequest =
  nb_ProfileID :: string
  nb_PassportID :: string
  nb_Username :: string
  nb_Reason :: string
  nb_ExpiresAt :: string
  nb_ExpiresInSeconds :: int

definition playerFromNodeBanRequest :: "env \<Rightarrow> memory \<Rightarrow> nodeBanRequest \<Rightarrow> api_error + Player" where
  "playerFromNodeBanRequest en m req =
     (let missing = Inl (NewError 404 ''player.not_found'' ''player not found'');
          profileID = TrimSpace (nb_ProfileID req); username = TrimSpace (nb_Username req)
      in
      if profileID \<noteq> [] then case GetPlayerByID m profileID of Inl _ \<Rightarrow> missing | Inr p \<Rightarrow> Inr p
      else if username = [] then Inl (NewError 400 ''player.required'' ''player is required'')
      else case player_by_name (en_uc en) m (normalizeNodeUsername username) username of Inl _ \<Rightarrow> missing | Inr p \<Rightarrow> Inr p)"

definition passportFromNodeBanRequest :: "env \<Rightarrow> memory \<Rightarrow> nodeBanRequest \<Rightarrow> api_error + Passport" where
  "passportFromNodeBanRequest en m req =
     (let missing = Inl (NewError 404 ''passport.not_found'' ''passport not found''); passportID = TrimSpace (nb_PassportID req) in
      if passportID \<noteq> [] then case GetPassportByID m passportID of Inl _ \<Rightarrow> missing | Inr p \<Rightarrow> Inr p
      else case playerFromNodeBanRequest en m req of Inl e \<Rightarrow> Inl e
        | Inr player \<Rightarrow> (case ListPassportsForProfile m (pl_ID player) of [b] \<Rightarrow> Inr (bi_Passport b) | _ \<Rightarrow> missing))"

text \<open>The number of seconds is multiplied as a 64-bit \<^verbatim>\<open>time.Duration\<close>.\<close>

definition parseBanExpiry :: "env \<Rightarrow> string \<Rightarrow> int \<Rightarrow> Server \<Rightarrow> Server \<times> (api_error + time option)" where
  "parseBanExpiry en expiresAt seconds s =
     (let bad = (\<lambda>message. Inl (NewError 400 ''ban.expiry_invalid'' message)) in
      if TrimSpace expiresAt \<noteq> [] then
        case parse_rfc3339 (TrimSpace expiresAt) of None \<Rightarrow> (s, bad ''ban expiry must be RFC3339'')
        | Some t \<Rightarrow> (case Now en s of (s, now) \<Rightarrow>
            (s, if \<not> After t now then bad ''ban expiry must be in the future'' else Inr (Some t)))
      else if 0 < seconds then case Now en s of (s, now) \<Rightarrow> (s, Inr (Some (now + wrap64 (seconds * Second))))
      else (s, Inr None))"

definition banFromNodeRequest ::
  "env \<Rightarrow> nodeBanRequest \<Rightarrow> BanScope \<Rightarrow> string \<Rightarrow> string \<Rightarrow> Server \<Rightarrow> Server \<times> (api_error + PlayerBan)" where
  "banFromNodeRequest en req scope targetID createdBy s =
     (let reason = TrimSpace (nb_Reason req) in
      if reason = [] then (s, Inl (NewError 400 ''ban.reason_required'' ''ban reason is required''))
      else if 500 < length reason then (s, Inl (NewError 400 ''ban.reason_too_long'' ''ban reason is too long''))
      else case parseBanExpiry en (nb_ExpiresAt req) (nb_ExpiresInSeconds req) s of
          (s, Inl e) \<Rightarrow> (s, Inl e)
        | (s, Inr expiresAt) \<Rightarrow> (case Now en s of (s, now) \<Rightarrow>
            (s, Inr \<lparr>ba_ID = [], ba_Scope = scope, ba_TargetID = targetID, ba_Reason = reason, ba_CreatedBy = createdBy,
                 ba_CreatedAt = now, ba_ExpiresAt = expiresAt, ba_RevokedBy = [], ba_RevokedAt = None, ba_RevokeReason = []\<rparr>)))"

definition ban_answer :: "PlayerBan \<Rightarrow> nat \<Rightarrow> nat \<Rightarrow> response" where
  "ban_answer ban ended queued = WriteJSON 201 (VMap (mk_map
     [(''ban'', banRow ban), (''ended_presences'', VInt (int ended)), (''queued_actions'', VInt (int queued))]))"

definition ban_details :: "Node \<Rightarrow> PlayerBan \<Rightarrow> nat \<Rightarrow> nat \<Rightarrow> (string \<times> goval) list" where
  "ban_details n ban ended queued =
     [(''ban_id'', VStr (ba_ID ban)), (''reason'', VStr (ba_Reason ban)), (''expires_at'', time_val (ba_ExpiresAt ban)),
      (''ended_presences'', VInt (int ended)), (''queued_actions'', VInt (int queued)), (''server_id'', VStr (no_ServerID n))]"

definition handleNodeCreateProfileBan :: "nodeBanRequest handler" where
  "handleNodeCreateProfileBan en r body s =
     with_node en r s (\<lambda>n. decode_body body s (\<lambda>req.
       case playerFromNodeBanRequest en (sv_store s) req of Inl e \<Rightarrow> (s, WriteError e)
       | Inr player \<Rightarrow>
           (case banFromNodeRequest en req BanScopeProfile (pl_ID player) (no_ID n) s of (s, Inl e) \<Rightarrow> (s, WriteError e)
            | (s, Inr ban) \<Rightarrow>
                (case Now en s of (s, t) \<Rightarrow> case in_store (CreateBan ban t) s of (s, ban) \<Rightarrow>
                 case Now en s of (s, now) \<Rightarrow>
                 case enqueueDisconnectActions en (ListProfilePresences (sv_store s) (pl_ID player))
                        (''profile banned: '' @ ba_Reason ban) now s of (s, queued) \<Rightarrow>
                 case in_store (EndProfilePresences (pl_ID player) ''profile banned'' now) s of (s, ended) \<Rightarrow>
                   (audit en r ''node'' (no_ID n) ''player'' (pl_ID player) ''profile.ban.create''
                      (playerEventDetails player (mk_map (ban_details n ban ended queued))) s,
                    ban_answer ban ended queued)))))"

definition handleNodeCreatePassportBan :: "nodeBanRequest handler" where
  "handleNodeCreatePassportBan en r body s =
     with_node en r s (\<lambda>n. decode_body body s (\<lambda>req.
       case passportFromNodeBanRequest en (sv_store s) req of Inl e \<Rightarrow> (s, WriteError e)
       | Inr passport \<Rightarrow>
           (case banFromNodeRequest en req BanScopePassport (pp_ID passport) (no_ID n) s of (s, Inl e) \<Rightarrow> (s, WriteError e)
            | (s, Inr ban) \<Rightarrow>
                (case Now en s of (s, t) \<Rightarrow> case in_store (CreateBan ban t) s of (s, ban) \<Rightarrow>
                 case Now en s of (s, now) \<Rightarrow>
                 case enqueueDisconnectActions en (ListPassportPresences (sv_store s) (pp_ID passport))
                        (''passport banned: '' @ ba_Reason ban) now s of (s, queued) \<Rightarrow>
                 case in_store (EndPassportPresences (pp_ID passport) ''passport banned'' now) s of (s, ended) \<Rightarrow>
                   (audit en r ''node'' (no_ID n) ''player'' (pp_ID passport) ''passport.ban.create''
                      (mk_map (ban_details n ban ended queued @ [(''username'', VStr (pp_Username passport))])) s,
                    ban_answer ban ended queued)))))"

definition activeBanForPassportProfile :: "env \<Rightarrow> string \<Rightarrow> string \<Rightarrow> Server \<Rightarrow> Server \<times> PlayerBan option" where
  "activeBanForPassportProfile en passportID profileID s =
     (case Now en s of (s, now) \<Rightarrow> (s, ActiveBanFor (sv_store s) passportID profileID now))"

end
