(* ===== verification/ServerTransfer.thy ===== *)
theory ServerTransfer
  imports ServerPresence
begin

text \<open>
  Transfers to a downstream server (\<^verbatim>\<open>node.go\<close>): which server a request means, the grant a node is
  given for a player, and the consumption of the grant by the gate of that server, which lets the
  player in.  The mutex a grant is made under is not modelled, since handlers run one at a time.
\<close>

subsection \<open>Targets\<close>

definition normalizeRequestedHost :: "unicode \<Rightarrow> string \<Rightarrow> string" where
  "normalizeRequestedHost uc value =
     (let host = ToLower uc (TrimSpace value) in
      if host = [] then []
      else trim_brackets (case SplitHost host of Some h \<Rightarrow> h | None \<Rightarrow> host))"

definition serves_host :: "unicode \<Rightarrow> string \<Rightarrow> DownstreamServer \<Rightarrow> bool" where
  "serves_host uc host server \<longleftrightarrow>
     list_ex (\<lambda>h. EqualFold uc (normalizeRequestedHost uc h) host)
       (stringSliceFromAnyServer (get_any (ds_PortalConfig server) ''portal_hosts''))
     \<or> EqualFold uc (ds_Slug server) host"

definition resolveDownstreamTarget ::
  "env \<Rightarrow> Node \<Rightarrow> string \<Rightarrow> string \<Rightarrow> string \<Rightarrow> memory \<Rightarrow> api_error + (DownstreamServer \<times> DownstreamTarget)" where
  "resolveDownstreamTarget en n serverID slug requestedHost m =
     (let uc = en_uc en;
          answer = (\<lambda>server. Inr (server, DownstreamTargetFromServer uc server));
          fetch = (\<lambda>candidate. case GetDownstreamServer m candidate of
              Inl _ \<Rightarrow> Inl (NewError 404 ''server.not_found'' ''server not found'') | Inr server \<Rightarrow> answer server);
          candidate = (if TrimSpace serverID \<noteq> [] then TrimSpace serverID else TrimSpace slug);
          host = normalizeRequestedHost uc requestedHost;
          matched = (if candidate = [] \<and> host \<noteq> [] then List.find (serves_host uc host) (ListDownstreamServers m) else None)
      in
      case matched of Some server \<Rightarrow> answer server
      | None \<Rightarrow>
          let candidate = (if candidate = [] \<and> \<not> IsLimboPortal uc (no_Mode n) then TrimSpace (no_ServerID n) else candidate);
              fallback = st_FallbackServerID (portal_settings en m)
          in
          if candidate \<noteq> [] then fetch candidate
          else if fallback = []
          then Inl (NewError 404 ''portal.target_unmatched'' ''no downstream server matched the requested host'')
          else fetch fallback)"

definition validateDownstreamProtocol :: "DownstreamTarget \<Rightarrow> int \<Rightarrow> api_error option" where
  "validateDownstreamProtocol target protocolVersion =
     (let minProtocol = (if dg_MinProtocolVersion target \<le> 0 then DefaultMinDownstreamProtocol else dg_MinProtocolVersion target) in
      if protocolVersion \<le> 0 then None
      else if protocolVersion < minProtocol
      then Some (NewError 403 ''server.protocol_too_old'' ''client protocol is older than this downstream server allows'')
      else if 0 < dg_MaxProtocolVersion target \<and> dg_MaxProtocolVersion target < protocolVersion
      then Some (NewError 403 ''server.protocol_too_new'' ''client protocol is newer than this downstream server allows'')
      else None)"

subsection \<open>Making a grant\<close>

record createTransferGrantRequest =
  ct_PlayerID :: string
  ct_PassportID :: string
  ct_Username :: string
  ct_ServerID :: string
  ct_Slug :: string
  ct_RequestedHost :: string
  ct_Source :: string
  ct_RemoteIP :: string
  ct_TTLSeconds :: int
  ct_ProtocolVersion :: int

record nodeTransferGrantOptions =
  op_CreateEvent :: string
  op_RejectEvent :: string
  op_RequireExplicitTarget :: bool
  op_RejectSameServer :: bool
  op_DirectCommand :: bool

definition transferGrantIdentity ::
  "env \<Rightarrow> Node \<Rightarrow> createTransferGrantRequest \<Rightarrow> Server \<Rightarrow> api_error + (Player \<times> Passport)" where
  "transferGrantIdentity en n req s =
     (let m = sv_store s;
          missing = Inl (NewError 404 ''player.not_found'' ''player not found'');
          username = normalizeNodeUsername (ct_Username req);
          found =
            (if TrimSpace (ct_PlayerID req) \<noteq> []
             then case GetProfileByID m (TrimSpace (ct_PlayerID req)) of Inl _ \<Rightarrow> missing | Inr profile \<Rightarrow> Inr profile
             else if username = [] then Inl (NewError 400 ''player.required'' ''player is required'')
             else case player_by_name (en_uc en) m username (TrimSpace (ct_Username req)) of Inl _ \<Rightarrow> missing
               | Inr player \<Rightarrow> (case GetProfileByID m (pl_ID player) of Inl _ \<Rightarrow> missing | Inr profile \<Rightarrow> Inr profile))
      in
      case found of Inl e \<Rightarrow> Inl e
      | Inr profile \<Rightarrow>
          let given = TrimSpace (ct_PassportID req);
              passportID = (if given = [] then activePresencePassportID m n (pf_ID profile) else given);
              passportID = (if passportID = []
                then case ListPassportsForProfile m (pf_ID profile) of [b] \<Rightarrow> pp_ID (bi_Passport b) | _ \<Rightarrow> [] else passportID)
          in
          if passportID = []
          then Inl (NewError 400 ''passport.required'' ''passport id is required for a profile with multiple bindings'')
          else case GetProfilePassportBinding m (pf_ID profile) passportID of
            Inl _ \<Rightarrow> Inl (NewError 403 ''passport.not_bound'' ''profile is not bound to this passport'')
          | Inr b \<Rightarrow> Inr (dressed_player en s (bi_Passport b) profile, bi_Passport b))"

definition portalGrantSource :: "Node \<Rightarrow> string \<Rightarrow> string" where
  "portalGrantSource n requested =
     (if TrimSpace requested \<noteq> [] then TrimSpace requested
      else if TrimSpace (no_Name n) \<noteq> [] then TrimSpace (no_Name n) else TrimSpace (no_ID n))"

definition downstreamCommandGrantSource :: "Node \<Rightarrow> string \<Rightarrow> string" where
  "downstreamCommandGrantSource n requested =
     ''downstream-command:'' @
       (let source = TrimSpace requested; source = (if source = [] then TrimSpace (no_ServerID n) else source);
            source = (if source = [] then TrimSpace (no_Name n) else source)
        in if source = [] then TrimSpace (no_ID n) else source)"

definition promoteGrantProfilePrimary ::
  "env \<Rightarrow> request \<Rightarrow> Node \<Rightarrow> Passport \<Rightarrow> Player \<Rightarrow> string \<Rightarrow> Server \<Rightarrow> Server" where
  "promoteGrantProfilePrimary en r n passport player ip s =
     (if (case GetPrimaryProfileForPassport (sv_store s) (pp_ID passport) of Inl _ \<Rightarrow> False | Inr primary \<Rightarrow> pf_ID primary = pl_ID player)
      then s
      else case Now en s of (s, now) \<Rightarrow>
        (case in_store (BindProfileToPassport (pl_ID player) (pp_ID passport) True now) s of (s, Inl _) \<Rightarrow> s
         | (s, Inr _) \<Rightarrow>
             auditWithClientIP en r ip ''node'' (no_ID n) ''player'' (pl_ID player) ''profile.primary_change'' (mk_map
               [(''passport_id'', VStr (pp_ID passport)), (''profile_id'', VStr (pl_ID player)),
                (''protocol_name'', VStr (pl_ProtocolName player)), (''reason'', VStr ''limbo profile selection''),
                (''remote_ip'', VStr ip)]) s))"

definition grant_ttl :: "DownstreamTarget \<Rightarrow> int \<Rightarrow> int" where
  "grant_ttl target requested =
     (let ttl = dg_GrantTTLSeconds target; ttl = (if 0 < requested \<and> requested < ttl then requested else ttl);
          ttl = (if ttl < 5 then 5 else ttl)
      in if 300 < ttl then 300 else ttl)"

text \<open>Once every check has passed.\<close>

definition issue_grant ::
  "env \<Rightarrow> request \<Rightarrow> Node \<Rightarrow> createTransferGrantRequest \<Rightarrow> nodeTransferGrantOptions \<Rightarrow> string \<Rightarrow> DownstreamServer \<Rightarrow>
   DownstreamTarget \<Rightarrow> Player \<Rightarrow> Passport \<Rightarrow> Server \<Rightarrow> Server \<times> response" where
  "issue_grant en r n req opts createEvent server target player passport s =
     (case Now en s of (s, now) \<Rightarrow>
      let ip = ct_RemoteIP req;
          s = (if TrimSpace (ct_PlayerID req) \<noteq> [] \<and> \<not> op_DirectCommand opts
               then promoteGrantProfilePrimary en r n passport player ip s else s);
          source = (if op_DirectCommand opts then downstreamCommandGrantSource n (ct_Source req)
                    else portalGrantSource n (ct_Source req))
      in
      case Rand en s of (s, rnd) \<Rightarrow>
      (case NewTransferGrant (pl_ID player) (pp_ID passport) (ds_ID server) (no_ID n) source ip
             (UUID_String (pl_UUID player)) (pl_ProtocolName player) (dg_TransferHost target) (dg_TransferPort target)
             (grant_ttl target (ct_TTLSeconds req) * Second) now rnd of
         Inl _ \<Rightarrow> refuse s 500 ''transfer_grant.create_failed'' ''failed to create transfer grant''
       | Inr (grant, rawToken) \<Rightarrow>
           let s = on_store (SaveTransferGrant grant) s;
               profile = (case GetProfileByID (sv_store s) (pl_ID player) of Inl _ \<Rightarrow> zero_Profile | Inr p \<Rightarrow> p);
               s = (if normalizeClientIPValue ip \<noteq> []
                    then recordPassportProfileSeenWithClientIP en r passport profile (ds_ID server) ip now s else s);
               s = auditWithClientIP en r ip ''node'' (no_ID n) ''player'' (pl_ID player) createEvent (mk_map
                 [(''server_id'', VStr (ds_ID server)), (''source'', VStr source),
                  (''source_kind'', VStr (if op_DirectCommand opts then ''downstream_command'' else ''portal'')),
                  (''target_host'', VStr (dg_TransferHost target)), (''target_port'', VInt (dg_TransferPort target)),
                  (''protocol'', VInt (ct_ProtocolVersion req)), (''passport_id'', VStr (pp_ID passport)),
                  (''protocol_name'', VStr (pl_ProtocolName player)), (''expires_at'', VTime (tg_ExpiresAt grant)),
                  (''remote_ip'', VStr ip)]) s
           in (s, WriteJSON 201 (VMap (mk_map
                [(''grant'', transferGrantData grant), (''token'', VStr rawToken),
                 (''target'', VMap (DownstreamTargetData target)), (''player'', playerData player)])))))"

text \<open>The refusals write an audit event about a server or about a player.\<close>

definition grant_refused ::
  "env \<Rightarrow> request \<Rightarrow> Node \<Rightarrow> string \<Rightarrow> string \<Rightarrow> string \<Rightarrow> string \<Rightarrow> anymap \<Rightarrow> api_error \<Rightarrow> Server \<Rightarrow> Server \<times> response" where
  "grant_refused en r n rejectEvent ip target targetID details e s =
     (auditWithClientIP en r ip ''node'' (no_ID n) target targetID rejectEvent details s, WriteError e)"

definition ban_event :: "PlayerBan \<Rightarrow> (string \<times> goval) list" where
  "ban_event ban = [(''ban_id'', VStr (ba_ID ban)), (''ban_scope'', VNamed (ba_Scope ban)), (''expires_at'', time_val (ba_ExpiresAt ban))]"

text \<open>The checks on the player, once the server is known to take players.\<close>

definition grant_for_player ::
  "env \<Rightarrow> request \<Rightarrow> Node \<Rightarrow> createTransferGrantRequest \<Rightarrow> nodeTransferGrantOptions \<Rightarrow> string \<Rightarrow> string \<Rightarrow> DownstreamServer \<Rightarrow>
   DownstreamTarget \<Rightarrow> Server \<Rightarrow> Server \<times> response" where
  "grant_for_player en r n req opts createEvent rejectEvent server target s =
     (let ip = ct_RemoteIP req;
          reject = grant_refused en r n rejectEvent ip ''player'';
          info = (\<lambda>reason more. mk_map ([(''reason'', VStr reason), (''server_id'', VStr (ds_ID server)), (''remote_ip'', VStr ip)] @ more))
      in
      case transferGrantIdentity en n req s of
        Inl e \<Rightarrow> reject (TrimSpace (ct_PlayerID req @ ct_Username req))
          (info (er_Message e) [(''player_id'', VStr (ct_PlayerID req)), (''username'', VStr (ct_Username req))]) e s
      | Inr (player, passport) \<Rightarrow>
          if pl_Locked player then
            reject (pl_ID player) (playerEventDetails player (info ''account_locked'' []))
              (NewError 403 ''auth.account_locked'' ''account is locked'') s
          else case activeBanForPassportProfile en (pp_ID passport) (pl_ID player) s of
            (s, Some ban) \<Rightarrow>
              reject (pl_ID player) (playerEventDetails player (info ''banned'' (ban_event ban)))
                (NewError 403 ''auth.banned'' (ba_Reason ban)) s
          | (s, None) \<Rightarrow>
              if dg_Status target = ''hidden'' \<and> \<not> DownstreamServerHasPrivilegedPassport (sv_store s) (ds_ID server) (pp_ID passport)
              then reject (pl_ID player)
                (playerEventDetails player (info ''server_hidden'' [(''passport_id'', VStr (pp_ID passport))]))
                (NewError 403 ''server.privileged_required'' ''privileged passport is required for this server'') s
              else issue_grant en r n req opts createEvent server target player passport s)"

definition writeNodeTransferGrant ::
  "env \<Rightarrow> request \<Rightarrow> Node \<Rightarrow> createTransferGrantRequest \<Rightarrow> nodeTransferGrantOptions \<Rightarrow> Server \<Rightarrow> Server \<times> response" where
  "writeNodeTransferGrant en r n req opts s =
     (let createEvent = (if TrimSpace (op_CreateEvent opts) = [] then ''transfer_grant.create'' else TrimSpace (op_CreateEvent opts));
          rejectEvent = (if TrimSpace (op_RejectEvent opts) = [] then ''transfer_grant.reject'' else TrimSpace (op_RejectEvent opts));
          ip = ct_RemoteIP req;
          reject = grant_refused en r n rejectEvent ip ''downstream_server''
      in
      if op_RequireExplicitTarget opts \<and> TrimSpace (ct_ServerID req) = [] \<and> TrimSpace (ct_Slug req) = [] \<and>
         TrimSpace (ct_RequestedHost req) = []
      then refuse s 400 ''server.target_required'' ''target downstream server is required''
      else case resolveDownstreamTarget en n (ct_ServerID req) (ct_Slug req) (ct_RequestedHost req) (sv_store s) of
        Inl e \<Rightarrow> reject (TrimSpace (ct_ServerID req)) (mk_map
          [(''reason'', VStr (er_Message e)), (''slug'', VStr (ct_Slug req)), (''requested_host'', VStr (ct_RequestedHost req)),
           (''remote_ip'', VStr ip)]) e s
      | Inr (server, target) \<Rightarrow>
          if op_RejectSameServer opts \<and> TrimSpace (no_ServerID n) \<noteq> [] \<and> ds_ID server = TrimSpace (no_ServerID n) then
            reject (ds_ID server) (mk_map [(''reason'', VStr ''same_downstream_server''), (''server_id'', VStr (ds_ID server)),
                (''remote_ip'', VStr ip)])
              (NewError 400 ''server.same_target'' ''target downstream server must be different from the current server'') s
          else if dg_Status target \<noteq> ''active'' \<and> dg_Status target \<noteq> ''hidden'' then
            reject (ds_ID server) (mk_map [(''reason'', VStr ''server_unavailable''), (''status'', VStr (dg_Status target)),
                (''remote_ip'', VStr ip)])
              (NewError 403 ''server.unavailable'' ''downstream server is not active'') s
          else case validateDownstreamProtocol target (ct_ProtocolVersion req) of
            Some e \<Rightarrow> reject (ds_ID server) (mk_map [(''reason'', VStr (er_Message e)), (''server_id'', VStr (ds_ID server)),
                (''remote_ip'', VStr ip), (''protocol_version'', VInt (ct_ProtocolVersion req))]) e s
          | None \<Rightarrow> grant_for_player en r n req opts createEvent rejectEvent server target s)"

definition handleNodeCreateTransferGrant :: "createTransferGrantRequest handler" where
  "handleNodeCreateTransferGrant en r body s =
     with_node en r s (\<lambda>n. decode_body body s (\<lambda>req. writeNodeTransferGrant en r n req
       \<lparr>op_CreateEvent = ''transfer_grant.create'', op_RejectEvent = ''transfer_grant.reject'',
        op_RequireExplicitTarget = False, op_RejectSameServer = False, op_DirectCommand = False\<rparr> s))"

definition handleNodeCreateDownstreamTransfer :: "createTransferGrantRequest handler" where
  "handleNodeCreateDownstreamTransfer en r body s =
     with_node en r s (\<lambda>n.
       if \<not> IsDownstreamVelocity (en_uc en) (no_Mode n)
       then refuse s 403 ''node.downstream_required'' ''downstream transfer command requires a downstream node''
       else decode_body body s (\<lambda>req. writeNodeTransferGrant en r n req
         \<lparr>op_CreateEvent = ''transfer_grant.command_create'', op_RejectEvent = ''transfer_grant.reject'',
          op_RequireExplicitTarget = True, op_RejectSameServer = True, op_DirectCommand = True\<rparr> s))"

subsection \<open>Consuming a grant\<close>

record consumeTransferGrantRequest =
  cs_Token :: string
  cs_TokenHash :: string
  cs_ServerID :: string
  cs_UUID :: string
  cs_ProtocolName :: string
  cs_Source :: string
  cs_RemoteIP :: string

definition rejectProfileAlreadyOnline ::
  "env \<Rightarrow> request \<Rightarrow> Node \<Rightarrow> Player \<Rightarrow> string \<Rightarrow> string \<Rightarrow> PlayerPresence list \<Rightarrow> nat \<times> nat \<times> nat \<Rightarrow> Server \<Rightarrow> Server \<times> response" where
  "rejectProfileAlreadyOnline en r n player serverID ip existing counts s =
     (case counts of (checked, cleared, queued) \<Rightarrow>
      let presenceIDs = VStrs (filter (\<lambda>i. TrimSpace i \<noteq> []) (map pc_ID existing));
          nodeIDs = VStrs (filter (\<lambda>i. TrimSpace i \<noteq> []) (map pc_NodeID existing));
          numbers = [(''existing_presence_ids'', presenceIDs), (''websocket_presence_checks'', VInt (int checked)),
            (''cleared_stale_presences'', VInt (int cleared)), (''queued_presence_checks'', VInt (int queued)),
            (''presence_check_required'', VBool True)]
      in
      (auditWithClientIP en r ip ''node'' (no_ID n) ''player'' (pl_ID player) ''presence.reject''
         (playerEventDetails player (mk_map (numbers @
           [(''reason'', VStr ''profile_already_online_on_server''), (''server_id'', VStr serverID), (''node_id'', VStr (no_ID n)),
            (''remote_ip'', VStr ip), (''existing_node_ids'', nodeIDs),
            (''presence_check_trigger'', VStr ''transfer_grant_consume_conflict'')]))) s,
       WriteError ((NewError 409 ''presence.profile_already_online'' ''profile is already online on this server'')
         \<lparr>er_Details := mk_map (numbers @ [(''profile_id'', VStr (pl_ID player)), (''server_id'', VStr serverID)])\<rparr>)))"

text \<open>Presences of the profile on the server are checked with their node; any that stays is a conflict.\<close>

definition clear_conflict ::
  "env \<Rightarrow> request \<Rightarrow> Node \<Rightarrow> Player \<Rightarrow> string \<Rightarrow> string \<Rightarrow> PlayerPresence list \<Rightarrow> time \<Rightarrow> Server \<Rightarrow>
   (Server \<Rightarrow> Server \<times> response) \<Rightarrow> Server \<times> response" where
  "clear_conflict en r n player serverID ip existing now s k =
     (case refreshProfileServerPresenceConflict en r n (pl_ID player) serverID existing now s of (s, remaining, counts) \<Rightarrow>
        if remaining \<noteq> [] then rejectProfileAlreadyOnline en r n player serverID ip remaining counts s else k s)"

definition open_presence ::
  "env \<Rightarrow> request \<Rightarrow> Node \<Rightarrow> Player \<Rightarrow> string \<Rightarrow> PlayerPresence \<Rightarrow> time \<Rightarrow> Server \<Rightarrow>
   (PlayerPresence \<Rightarrow> Server \<Rightarrow> Server \<times> response) \<Rightarrow> Server \<times> response" where
  "open_presence en r n player ip input now s k =
     (let serverID = pc_ServerID input;
          online = (\<lambda>s. activePresencesForProfileServer (ListProfilePresences (sv_store s) (pl_ID player)) serverID);
          failed = (\<lambda>s. refuse s 500 ''presence.create_failed'' ''failed to create player presence'');
          insert = (\<lambda>s k' k. case Now en s of (s, t) \<Rightarrow>
            (case in_store (UpsertPresence input t) s of (s, Inl _) \<Rightarrow> k' s | (s, Inr p) \<Rightarrow> k p s));
          retry = (\<lambda>s. if online s = [] then failed s
            else clear_conflict en r n player serverID ip (online s) now s (\<lambda>s. insert s failed k))
      in
      if online s \<noteq> [] then clear_conflict en r n player serverID ip (online s) now s (\<lambda>s. insert s retry k)
      else insert s retry k)"

definition player_admitted ::
  "env \<Rightarrow> request \<Rightarrow> Node \<Rightarrow> consumeTransferGrantRequest \<Rightarrow> DownstreamServer \<Rightarrow> DownstreamTarget \<Rightarrow> TransferGrant \<Rightarrow>
   Profile \<Rightarrow> Passport \<Rightarrow> Player \<Rightarrow> bool \<Rightarrow> time \<Rightarrow> PlayerPresence \<Rightarrow> Server \<Rightarrow> Server \<times> response" where
  "player_admitted en r n req server target grant profile passport player privileged now presence s =
     (let ip = normalizeClientIPValue (tg_RemoteIP grant); gateIP = normalizeClientIPValue (cs_RemoteIP req);
          s = (if ip \<noteq> [] then recordPassportProfileSeenWithClientIP en r passport profile (ds_ID server) ip now s else s);
          s = auditWithClientIP en r ip ''node'' (no_ID n) ''player'' (pl_ID player) ''transfer_grant.consume'' (mk_map
            [(''server_id'', VStr (ds_ID server)), (''protocol_name'', VStr (TrimSpace (cs_ProtocolName req))),
             (''uuid'', VStr (TrimSpace (cs_UUID req))), (''source'', VStr (cs_Source req)),
             (''portal_source'', VStr (tg_PortalSource grant)), (''passport_id'', VStr (pp_ID passport)),
             (''presence_id'', VStr (pc_ID presence)), (''remote_ip'', VStr ip), (''portal_remote_ip'', VStr ip),
             (''gate_remote_ip'', VStr gateIP), (''gate_remote_ip_rejected'', VBool (gateIP \<noteq> []))]) s
      in (s, WriteJSON 200 (VMap (mk_map
           [(''allowed'', VBool True), (''grant'', transferGrantData grant), (''player'', playerData player),
            (''presence'', presenceRow presence), (''target'', VMap (DownstreamTargetData target)),
            (''passport'', VMap (mk_map [(''id'', VStr (pp_ID passport)), (''privileged'', VBool privileged)]))]))))"

text \<open>The grant is consumed; the player it names may still be refused.\<close>

definition admit_player ::
  "env \<Rightarrow> request \<Rightarrow> Node \<Rightarrow> consumeTransferGrantRequest \<Rightarrow> DownstreamServer \<Rightarrow> DownstreamTarget \<Rightarrow> TransferGrant \<Rightarrow> Server \<Rightarrow>
   Server \<times> response" where
  "admit_player en r n req server target grant s =
     (let ip = normalizeClientIPValue (tg_RemoteIP grant);
          addresses = [(''server_id'', VStr (ds_ID server)), (''remote_ip'', VStr ip), (''portal_remote_ip'', VStr ip),
            (''gate_remote_ip'', VStr (normalizeClientIPValue (cs_RemoteIP req)))];
          reject = (\<lambda>player reason more e s. grant_refused en r n ''transfer_grant.reject'' ip ''player'' (pl_ID player)
            (playerEventDetails player (mk_map ([(''reason'', VStr reason)] @ addresses @ more))) e s)
      in
      case GetProfileByID (sv_store s) (tg_PlayerID grant) of Inl _ \<Rightarrow> refuse s 404 ''player.not_found'' ''player not found''
      | Inr profile \<Rightarrow>
          (case passportForTransferGrant (sv_store s) grant of
             Inl _ \<Rightarrow> refuse s 403 ''passport.not_bound'' ''profile is not bound to the grant passport''
           | Inr passport \<Rightarrow>
               let player = dressed_player en s passport profile in
               if pl_Locked player then refuse s 403 ''auth.account_locked'' ''account is locked''
               else case activeBanForPassportProfile en (pp_ID passport) (pl_ID player) s of
                 (s, Some ban) \<Rightarrow> reject player ''banned'' (ban_event ban) (NewError 403 ''auth.banned'' (ba_Reason ban)) s
               | (s, None) \<Rightarrow>
                   let privileged = DownstreamServerHasPrivilegedPassport (sv_store s) (ds_ID server) (pp_ID passport) in
                   if dg_Status target = ''hidden'' \<and> \<not> privileged then
                     reject player ''server_hidden'' [(''passport_id'', VStr (pp_ID passport))]
                       (NewError 403 ''server.privileged_required'' ''privileged passport is required for this server'') s
                   else case Now en s of (s, now) \<Rightarrow>
                     open_presence en r n player ip
                       \<lparr>pc_ID = [], pc_PassportID = pp_ID passport, pc_ProfileID = pl_ID player, pc_ServerID = ds_ID server,
                        pc_NodeID = no_ID n, pc_ProtocolName = TrimSpace (cs_ProtocolName req), pc_UUID = TrimSpace (cs_UUID req),
                        pc_RemoteAddr = ip, pc_ConnectedAt = now, pc_LastSeenAt = now, pc_EndedAt = None, pc_EndReason = []\<rparr>
                       now s
                       (player_admitted en r n req server target grant profile passport player privileged now)))"

definition consume_hash :: "consumeTransferGrantRequest \<Rightarrow> string" where
  "consume_hash req =
     (let tokenHash = TrimSpace (cs_TokenHash req); token = TrimSpace (cs_Token req) in
      if tokenHash = [] \<and> token \<noteq> [] then TransferGrantHash token else tokenHash)"

definition handleNodeConsumeTransferGrant :: "consumeTransferGrantRequest handler" where
  "handleNodeConsumeTransferGrant en r body s =
     with_node en r s (\<lambda>n. decode_body body s (\<lambda>req.
       let serverID = (if TrimSpace (cs_ServerID req) = [] then no_ServerID n else TrimSpace (cs_ServerID req));
           uuid = TrimSpace (cs_UUID req); protocolName = TrimSpace (cs_ProtocolName req)
       in
       if serverID = [] then refuse s 400 ''server.id_required'' ''server id is required''
       else case GetDownstreamServer (sv_store s) serverID of Inl _ \<Rightarrow> refuse s 404 ''server.not_found'' ''server not found''
       | Inr server \<Rightarrow>
           let target = DownstreamTargetFromServer (en_uc en) server in
           if \<not> dg_GateEnabled target
           then refuse s 403 ''gate.disabled'' ''gate validation is disabled for this downstream server''
           else if dg_Status target = ''disabled'' then refuse s 403 ''server.unavailable'' ''downstream server is disabled''
           else if consume_hash req = []
           then refuse s 400 ''transfer_grant.token_required'' ''transfer grant token is required''
           else if uuid = [] \<or> protocolName = []
           then refuse s 400 ''transfer_grant.identity_required'' ''uuid and protocol name are required''
           else case Now en s of (s, now) \<Rightarrow>
             (case in_store (ConsumeTransferGrant (en_uc en) (consume_hash req)
                  \<lparr>ca_serverID = ds_ID server, ca_uuid = uuid, ca_protocolName = protocolName, ca_gateNodeID = no_ID n,
                   ca_allowedPortalSources = dg_AllowedPortalSources target, ca_now = now\<rparr>) s of
                (s, Inl e) \<Rightarrow>
                  grant_refused en r n ''transfer_grant.reject'' (cs_RemoteIP req) ''downstream_server'' (ds_ID server) (mk_map
                     [(''reason'', VStr (error_text en e)), (''protocol_name'', VStr protocolName), (''uuid'', VStr uuid),
                      (''source'', VStr (cs_Source req)), (''remote_ip'', VStr (cs_RemoteIP req))])
                    (NewError 403 ''transfer_grant.invalid'' (error_text en e)) s
              | (s, Inr grant) \<Rightarrow> admit_player en r n req server target grant s)))"

end
