(* ===== verification/ServerProfiles.thy ===== *)
theory ServerProfiles
  imports ServerTransfer
begin

text \<open>
  Profiles at the node API (\<^verbatim>\<open>nodeprofiles.go\<close>, \<^verbatim>\<open>node.go\<close>, \<^verbatim>\<open>portal_links.go\<close>): creating and
  renaming one, the link a player is sent to open the portal, and data of extensions.
\<close>

subsection \<open>Creating a profile\<close>

record nodeCreateProfileRequest =
  np_PassportID :: string
  np_Username :: string
  np_ProtocolName :: string
  np_RemoteIP :: string

definition create_profile ::
  "env \<Rightarrow> request \<Rightarrow> Node \<Rightarrow> nodeCreateProfileRequest \<Rightarrow> Passport \<Rightarrow> OfflineName \<Rightarrow> Server \<Rightarrow> Server \<times> response" where
  "create_profile en r n req passport name s =
     (let ip = np_RemoteIP req in
      case Rand en s of (s, rnd) \<Rightarrow> case Now en s of (s, now) \<Rightarrow>
      (case NewOfflineProfile (en_uc en) (on_Protocol name) (pp_ID passport) rnd now of
         Inl e \<Rightarrow> refuse s 400 ''profile.invalid_name'' (error_text en e)
       | Inr profile \<Rightarrow>
           (case Rand en s of (s, rnd) \<Rightarrow> case Now en s of (s, now) \<Rightarrow>
            case in_store (CreateProfile profile rnd now) s of
              (s, Inl e) \<Rightarrow> refuse s 400 ''profile.create_failed'' (error_text en e)
            | (s, Inr profile) \<Rightarrow>
                (case Now en s of (s, now) \<Rightarrow>
                 case in_store (BindProfileToPassport (pf_ID profile) (pp_ID passport) True now) s of
                   (s, Inl e) \<Rightarrow> refuse s 400 ''profile.bind_failed'' (error_text en e)
                 | (s, Inr _) \<Rightarrow>
                     (case Now en s of (s, now) \<Rightarrow>
                      let s = recordPassportProfileSeenWithClientIP en r passport profile (no_ServerID n) ip now s;
                          s = auditWithClientIP en r ip ''node'' (no_ID n) ''player'' (pf_ID profile) ''profile.node_create'' (mk_map
                            [(''passport_id'', VStr (pp_ID passport)), (''profile_id'', VStr (pf_ID profile)),
                             (''protocol_name'', VStr (pf_ProtocolName profile)), (''server_id'', VStr (no_ServerID n)),
                             (''remote_ip'', VStr ip)]) s
                      in
                      case nodePassportResolveData en passport (pp_Kind passport = PassportKindPremium) ip s of (s, d) \<Rightarrow>
                        (s, WriteJSON 201 (resolve_map d)))))))"

definition handleNodeCreateProfile :: "nodeCreateProfileRequest handler" where
  "handleNodeCreateProfile en r body s =
     with_node en r s (\<lambda>n.
       if \<not> IsLimboPortal (en_uc en) (no_Mode n)
       then refuse s 403 ''node.kind_forbidden'' ''only limbo portal nodes can create profiles''
       else decode_body body s (\<lambda>req.
         let uc = en_uc en; m = sv_store s; ident = TrimSpace (np_PassportID req) in
         case (if ident \<noteq> [] then GetPassportByID m ident else findPassportByLoginName uc m (TrimSpace (np_Username req))) of
           Inl _ \<Rightarrow> refuse s 404 ''passport.not_found'' ''passport not found''
         | Inr passport \<Rightarrow>
             let existing = ListProfilesForPassport m (pp_ID passport) in
             if pp_Status passport \<noteq> PassportStatusActive then refuse s 403 ''passport.not_editable'' ''passport is not editable''
             else if st_MaxProfilesPerPassport (portal_settings en m) \<le> int (length existing)
             then refuse s 403 ''profile.limit_reached'' ''this passport already has the maximum number of profiles''
             else case NormalizeProtocolName uc (np_ProtocolName req) of
               Inl e \<Rightarrow> refuse s 400 ''profile.invalid_name'' (error_text en e)
             | Inr name \<Rightarrow>
                 if list_ex (\<lambda>p. EqualFold uc (pf_NormalizedName p) (on_Normalized name)) existing
                 then refuse s 409 ''profile.name_taken'' ''protocol name is already taken for this passport''
                 else create_profile en r n req passport name s))"

subsection \<open>Renaming a profile\<close>

record nodeRenameProfileRequest =
  nr_ProfileID :: string
  nr_ProtocolName :: string
  nr_RemoteIP :: string

definition profileNameTakenForPassport :: "unicode \<Rightarrow> Profile list \<Rightarrow> string \<Rightarrow> string \<Rightarrow> bool" where
  "profileNameTakenForPassport uc profiles excludeProfileID normalizedName =
     (let excludeProfileID = TrimSpace excludeProfileID in
      list_ex (\<lambda>p. \<not> (excludeProfileID \<noteq> [] \<and> pf_ID p = excludeProfileID) \<and>
        EqualFold uc (pf_NormalizedName p) normalizedName) profiles)"

text \<open>The passport a node means by a profile: of the player's presence there, else the only one bound.\<close>

definition passport_at_node :: "memory \<Rightarrow> Node \<Rightarrow> string \<Rightarrow> ProfilePassportBinding result" where
  "passport_at_node m n profileID =
     (let passportID = activePresencePassportID m n profileID;
          passportID = (if passportID = []
            then case ListPassportsForProfile m profileID of [b] \<Rightarrow> pp_ID (bi_Passport b) | _ \<Rightarrow> [] else passportID)
      in GetProfilePassportBinding m profileID passportID)"

definition UnixNano :: "time \<Rightarrow> int" where "UnixNano t = wrap64 (t - 62135596800 * Second)"

definition cacheBustedAssetURL :: "string \<Rightarrow> time list \<Rightarrow> string" where
  "cacheBustedAssetURL raw stamps =
     (let raw = TrimSpace raw;
          version = foldl (\<lambda>version t. if IsZero t then version else if version < UnixNano t then UnixNano t else version) 0 stamps
      in
      if raw = [] \<or> HasPrefix raw ''http://'' \<or> HasPrefix raw ''https://'' \<or> version = 0 then raw
      else raw @ (if Contains raw ''?'' then ''&'' else ''?'') @ ''v='' @ Itoa version)"

definition profileSummaryData :: "Profile \<Rightarrow> PlayerPresence list \<Rightarrow> goval" where
  "profileSummaryData p presences = VMap (mk_map
     [(''id'', VStr (pf_ID p)), (''uuid'', VStr (UUID_String (pf_UUID p))),
      (''avatar_url'', VStr (cacheBustedAssetURL (''/api/assets/profiles/'' @ pf_ID p @ ''/avatar.png'') [pf_UpdatedAt p])),
      (''protocol_name'', VStr (pf_ProtocolName p)), (''normalized_name'', VStr (pf_NormalizedName p)),
      (''display_name'', VStr (pf_DisplayName p)), (''status'', VNamed (pf_Status p)), (''online'', VBool (presences \<noteq> [])),
      (''presence_count'', VInt (int (length presences))), (''last_seen_ip'', emptyStringNil (pf_LastSeenIP p)),
      (''last_seen_geo'', opt_val geo_val (pf_LastSeenGeo p)), (''active_ban'', VNil), (''ban_expires_at'', VNil),
      (''locked_until'', VNil)])"

definition handleNodeRenameProfile :: "nodeRenameProfileRequest handler" where
  "handleNodeRenameProfile en r body s =
     with_node en r s (\<lambda>n. decode_body body s (\<lambda>req.
       let uc = en_uc en; m = sv_store s; profileID = TrimSpace (nr_ProfileID req); ip = nr_RemoteIP req in
       if profileID = [] then refuse s 400 ''profile.required'' ''profile id is required''
       else case GetProfileByID m profileID of Inl _ \<Rightarrow> refuse s 404 ''profile.not_found'' ''profile not found''
       | Inr profile \<Rightarrow>
           (case NormalizeProtocolName uc (nr_ProtocolName req) of
              Inl e \<Rightarrow> refuse s 400 ''profile.invalid_name'' (error_text en e)
            | Inr name \<Rightarrow>
                (case passport_at_node m n (pf_ID profile) of
                   Inl _ \<Rightarrow> refuse s 403 ''passport.not_bound'' ''profile is not bound to a passport''
                 | Inr binding \<Rightarrow>
                     let passport = bi_Passport binding in
                     if pp_Status passport \<noteq> PassportStatusActive
                     then refuse s 403 ''passport.not_editable'' ''passport is not editable''
                     else if list_ex (\<lambda>b. profileNameTakenForPassport uc (ListProfilesForPassport m (pp_ID (bi_Passport b)))
                             (pf_ID profile) (on_Normalized name)) (ListPassportsForProfile m (pf_ID profile))
                     then refuse s 409 ''profile.name_taken'' ''protocol name is already taken for a bound passport''
                     else case Now en s of (s, now) \<Rightarrow>
                       (case in_store (UpdateProfileIdentity uc (pf_ID profile) (on_Protocol name) now) s of
                          (s, Inl e) \<Rightarrow> refuse s 409 ''profile.name_taken'' (error_text en e)
                        | (s, Inr renamed) \<Rightarrow>
                            (auditWithClientIP en r ip ''node'' (no_ID n) ''player'' (pf_ID renamed) ''profile.node_rename'' (mk_map
                               [(''passport_id'', VStr (pp_ID passport)), (''profile_id'', VStr (pf_ID renamed)),
                                (''old_protocol_name'', VStr (pf_ProtocolName profile)),
                                (''protocol_name'', VStr (pf_ProtocolName renamed)), (''server_id'', VStr (no_ServerID n)),
                                (''remote_ip'', VStr ip), (''effective_on_rejoin'', VBool True)]) s,
                             WriteJSON 200 (VMap (mk_map [(''profile'', profileSummaryData renamed []),
                               (''player'', playerData (PlayerFromPassportProfile passport renamed))]))))))))"

subsection \<open>Portal links\<close>

record createPortalLinkRequest =
  cl_ProfileID :: string
  cl_Username :: string
  cl_ServerID :: string
  cl_TTL :: string

text \<open>A number of seconds is multiplied as a 64-bit \<^verbatim>\<open>time.Duration\<close>, before the bounds are checked.\<close>

definition portalLinkTTL :: "string \<Rightarrow> int \<Rightarrow> api_error + duration" where
  "portalLinkTTL raw expiresInSeconds =
     (let bad = (\<lambda>message. Inl (NewError 400 ''portal_link.ttl_invalid'' message));
          bounded = (\<lambda>ttl. if ttl \<le> 0 \<or> 3600 * Second < ttl
            then bad ''portal link ttl must be between one second and one hour'' else Inr ttl)
      in
      if 0 < expiresInSeconds then bounded (wrap64 (expiresInSeconds * Second))
      else if TrimSpace raw \<noteq> [] then
        case ParseDuration (TrimSpace raw) of None \<Rightarrow> bad ''portal link ttl is invalid'' | Some ttl \<Rightarrow> bounded ttl
      else Inr (600 * Second))"

definition TrimRight_slash :: "string \<Rightarrow> string" where
  "TrimRight_slash s = rev (dropWhile (\<lambda>c. c = CHR ''/'') (rev s))"

definition playerPortalLinkURL :: "env \<Rightarrow> string \<Rightarrow> string" where
  "playerPortalLinkURL en rawToken =
     (let baseURL = TrimSpace (en_PlayerPortalBaseURL en);
          baseURL = (if baseURL = [] then TrimSpace (en_PublicBaseURL en) else baseURL)
      in TrimRight_slash baseURL @ ''/link#token='' @ rawToken)"

definition link_profile :: "env \<Rightarrow> createPortalLinkRequest \<Rightarrow> memory \<Rightarrow> Profile result" where
  "link_profile en req m =
     (if TrimSpace (cl_ProfileID req) \<noteq> [] then GetProfileByID m (TrimSpace (cl_ProfileID req))
      else case GetPlayerByProtocolName (en_uc en) m (TrimSpace (cl_Username req)) of
        Inl e \<Rightarrow> Inl e | Inr player \<Rightarrow> GetProfileByID m (pl_ID player))"

definition issue_portal_link ::
  "env \<Rightarrow> request \<Rightarrow> Node \<Rightarrow> string \<Rightarrow> duration \<Rightarrow> Passport \<Rightarrow> Player \<Rightarrow> Server \<Rightarrow> Server \<times> response" where
  "issue_portal_link en r n serverID ttl passport player s =
     (let kind = (if pp_Kind passport = PassportKindPremium then ''premium'' else ''offline'') in
      case Rand en s of (s, rnd) \<Rightarrow> case Now en s of (s, now) \<Rightarrow>
      (case NewPortalLink kind (pp_ID passport) serverID ttl now rnd of
         Inl _ \<Rightarrow> refuse s 500 ''portal_link.create_failed'' ''failed to create portal link''
       | Inr (link, rawToken) \<Rightarrow>
           let link = link\<lparr>li_SuggestedProfileID := pl_ID player, li_IssuedByNodeID := no_ID n\<rparr>;
               s = on_store (SavePortalLink link) s;
               s = audit en r ''node'' (no_ID n) ''player'' (pp_ID passport) ''portal_link.create'' (mk_map
                 [(''server_id'', VStr serverID), (''expires_at'', VTime (li_ExpiresAt link)),
                  (''profile_id'', VStr (pl_ID player)), (''protocol_name'', VStr (pl_ProtocolName player))]) s
           in (s, WriteJSON 201 (VMap (mk_map [(''link'', VMap (mk_map
                [(''id'', VStr (li_ID link)), (''kind'', VNamed (li_Kind link)), (''passport_id'', VStr (li_PlayerID link)),
                 (''player_id'', VStr (li_PlayerID link)), (''suggested_profile_id'', VStr (li_SuggestedProfileID link)),
                 (''server_id'', VStr (li_ServerID link)), (''expires_at'', VTime (li_ExpiresAt link)),
                 (''url'', VStr (playerPortalLinkURL en rawToken)), (''token'', VStr rawToken)]))])))))"

definition handleNodeCreatePortalLink :: "createPortalLinkRequest handler" where
  "handleNodeCreatePortalLink en r body s =
     with_node en r s (\<lambda>n.
       if \<not> IsDownstreamVelocity (en_uc en) (no_Mode n)
       then refuse s 403 ''node.kind_forbidden'' ''only downstream nodes can create portal links''
       else decode_body body s (\<lambda>req.
         let m = sv_store s; username = TrimSpace (cl_Username req) in
         case link_profile en req m of
           Inl _ \<Rightarrow>
             refuse (audit en r ''node'' (no_ID n) ''player'' (TrimSpace (cl_ProfileID req)) ''portal_link.create_failure'' (mk_map
                 [(''reason'', VStr ''profile_not_found_or_ambiguous''), (''profile_id'', VStr (TrimSpace (cl_ProfileID req))),
                  (''username'', VStr username), (''server_id'', VStr (no_ServerID n))]) s)
               404 ''profile.not_found'' ''profile was not found or the protocol name is ambiguous''
         | Inr profile \<Rightarrow>
             if username \<noteq> [] \<and> \<not> EqualFold (en_uc en) username (pf_ProtocolName profile)
             then refuse s 409 ''profile.identity_mismatch'' ''profile id and protocol name do not identify the same profile''
             else case passport_at_node m n (pf_ID profile) of
               Inl _ \<Rightarrow>
                 refuse (audit en r ''node'' (no_ID n) ''player'' (pf_ID profile) ''portal_link.create_failure'' (mk_map
                     [(''reason'', VStr ''passport_not_found''), (''server_id'', VStr (no_ServerID n))]) s)
                   404 ''passport.not_found'' ''passport not found''
             | Inr binding \<Rightarrow>
                 let passport = bi_Passport binding; player = PlayerFromPassportProfile passport profile;
                     serverID = TrimSpace (no_ServerID n);
                     serverID = (if serverID = [] then TrimSpace (cl_ServerID req) else serverID)
                 in
                 if pp_Status passport \<noteq> PassportStatusActive \<or> pl_Locked player
                 then refuse s 403 ''passport.locked'' ''passport or profile is not active''
                 else case portalLinkTTL (cl_TTL req) 0 of Inl e \<Rightarrow> (s, WriteError e)
                   | Inr ttl \<Rightarrow> issue_portal_link en r n serverID ttl passport player s))"

subsection \<open>Data of extensions\<close>

record upsertExtensionDataRequest =
  ux_PlayerID :: string
  ux_Username :: string
  ux_ServerID :: string
  ux_Provider :: string
  ux_Visibility :: Visibility
  ux_Schema :: Schema
  ux_Values :: anymap

definition playerFromExtensionRequest :: "env \<Rightarrow> memory \<Rightarrow> upsertExtensionDataRequest \<Rightarrow> api_error + Player" where
  "playerFromExtensionRequest en m req =
     (let missing = Inl (NewError 404 ''player.not_found'' ''player not found'');
          username = normalizeNodeUsername (ux_Username req)
      in
      if ux_PlayerID req \<noteq> [] then case GetPlayerByID m (ux_PlayerID req) of Inl _ \<Rightarrow> missing | Inr p \<Rightarrow> Inr p
      else if username = [] then Inl (NewError 400 ''player.required'' ''player is required'')
      else case player_by_name (en_uc en) m username (TrimSpace (ux_Username req)) of Inl _ \<Rightarrow> missing | Inr p \<Rightarrow> Inr p)"

definition schema_val :: "Schema \<Rightarrow> goval" where
  "schema_val sc = VStruct [(''Version'', VInt (sc_Version sc)), (''Title'', VStr (sc_Title sc)),
     (''Fields'', VList (map (\<lambda>f. VStruct [(''Key'', VStr (fi_Key f)), (''Label'', VStr (fi_Label f)),
        (''Type'', VNamed (fi_Type f)), (''Visibility'', VNamed (fi_Visibility f)), (''Tone'', VStr (fi_Tone f)),
        (''Safe'', VBool (fi_Safe f))]) (sc_Fields sc)))]"

definition extension_val :: "ExtensionPlayerData \<Rightarrow> goval" where
  "extension_val d = VStruct [(''ID'', VStr (ed_ID d)), (''ServerID'', VStr (ed_ServerID d)), (''PlayerID'', VStr (ed_PlayerID d)),
     (''Provider'', VStr (ed_Provider d)), (''Schema'', schema_val (ed_Schema d)), (''Values'', VMap (ed_Values d)),
     (''Visibility'', VNamed (ed_Visibility d)), (''Source'', VStr (ed_Source d)), (''CreatedAt'', VTime (ed_CreatedAt d)),
     (''UpdatedAt'', VTime (ed_UpdatedAt d))]"

definition handleNodeUpsertExtensionData :: "upsertExtensionDataRequest handler" where
  "handleNodeUpsertExtensionData en r body s =
     with_node en r s (\<lambda>n. decode_body body s (\<lambda>req.
       case playerFromExtensionRequest en (sv_store s) req of Inl e \<Rightarrow> (s, WriteError e)
       | Inr player \<Rightarrow>
           let serverID = (if TrimSpace (ux_ServerID req) = [] then no_ServerID n else TrimSpace (ux_ServerID req)) in
           if TrimSpace (ux_Provider req) = [] then refuse s 400 ''extension.provider_required'' ''provider is required''
           else if sc_Version (ux_Schema req) \<le> 0 \<or> sc_Title (ux_Schema req) = []
           then refuse s 400 ''extension.schema_invalid'' ''schema is invalid''
           else if serverID = [] then refuse s 400 ''server.id_required'' ''server id is required''
           else case Now en s of (s, now) \<Rightarrow>
             (case in_store (UpsertExtensionPlayerData
                  \<lparr>ed_ID = [], ed_ServerID = serverID, ed_PlayerID = pl_ID player, ed_Provider = TrimSpace (ux_Provider req),
                   ed_Schema = ux_Schema req, ed_Values = ux_Values req,
                   ed_Visibility = (if ux_Visibility req = [] then VisibilityPlayerVisible else ux_Visibility req),
                   ed_Source = ''node_api'', ed_CreatedAt = 0, ed_UpdatedAt = 0\<rparr> now) s of
                (s, Inl e) \<Rightarrow> refuse s 400 ''extension.save_failed'' (error_text en e)
              | (s, Inr d) \<Rightarrow>
                  (audit en r ''node'' (no_ID n) ''extension_data'' (ed_ID d) ''extension_data.upsert'' (mk_map
                     [(''player_id'', VStr (pl_ID player)), (''server_id'', VStr serverID), (''provider'', VStr (ed_Provider d))]) s,
                   WriteJSON 200 (VMap (mk_map [(''extension_data'', extension_val d)]))))))"

end
