(* ===== verification/ServerAdmin.thy ===== *)
theory ServerAdmin
  imports ServerProfiles ServerLogin
begin

text \<open>
  Administration of players (\<^verbatim>\<open>session.go\<close>, \<^verbatim>\<open>admin.go\<close>, \<^verbatim>\<open>catalog.go\<close>,
  \<^verbatim>\<open>password_recovery_key.go\<close>): the sessions and permissions a request is checked against, and the
  handlers that change passports, profiles, bans and presences, and the recovery key.  A handler
  with a path parameter takes its value as its first argument.
\<close>

subsection \<open>Sessions\<close>

text \<open>The cookie's value is its token; every failure but a wrong CSRF token is the same answer.\<close>

definition requireSession ::
  "env \<Rightarrow> request \<Rightarrow> string \<Rightarrow> SessionKind \<Rightarrow> bool \<Rightarrow> Server \<Rightarrow> Server \<times> (api_error + Session)" where
  "requireSession en r cookie kind csrf s =
     (let deny = (\<lambda>message. Inl (NewError 401 ''auth.unauthenticated'' message)) in
      if cookie = [] then (s, deny ''missing session'')
      else case GetSession (sv_store s) (HashToken ''session'' cookie) of Inl _ \<Rightarrow> (s, deny ''session is invalid or expired'')
        | Inr session \<Rightarrow>
            if se_Kind session \<noteq> kind then (s, deny ''session is invalid or expired'')
            else case Now en s of (s, now) \<Rightarrow>
              (s, if Session_Expired session now then deny ''session is invalid or expired''
                  else if csrf \<and> \<not> Session_VerifyCSRF (en_uc en) session (rq_CSRF r)
                  then Inl (NewError 403 ''auth.csrf_failed'' ''invalid CSRF token'')
                  else Inr session))"

definition requireAdmin :: "env \<Rightarrow> request \<Rightarrow> bool \<Rightarrow> Server \<Rightarrow> Server \<times> (api_error + Session)" where
  "requireAdmin en r = requireSession en r (rq_AdminSession r) SessionAdmin"

definition requirePlayer :: "env \<Rightarrow> request \<Rightarrow> bool \<Rightarrow> Server \<Rightarrow> Server \<times> (api_error + Session)" where
  "requirePlayer en r = requireSession en r (rq_PlayerSession r) SessionPlayer"

definition findAdminRole :: "env \<Rightarrow> string \<Rightarrow> Server \<Rightarrow> role option" where
  "findAdminRole en ident s =
     (let ident = RoleID (en_uc en) ident in
      List.find (\<lambda>role. ro_ID role = ident) (ListAdminRoles (en_uc en) (snd (Now en s)) (sv_store s)))"

text \<open>The permissions \<^verbatim>\<open>adminDataForSession\<close> gives; \<open>None\<close> is an administrator that is gone or disabled.\<close>

definition session_permissions :: "env \<Rightarrow> string \<Rightarrow> Server \<Rightarrow> string list option" where
  "session_permissions en subjectID s =
     (let permissions = (\<lambda>role. case role of None \<Rightarrow> [] | Some r \<Rightarrow> ro_Permissions r) in
      if subjectID = ''bootstrap-admin'' then Some (permissions (DefaultRole (snd (Now en s)) ''owner''))
      else case GetAdminUser (sv_store s) subjectID of Inl _ \<Rightarrow> None
        | Inr user \<Rightarrow> if au_Status user \<noteq> ''active'' then None else Some (permissions (findAdminRole en (au_Role user) s)))"

definition requireAdminPermission ::
  "env \<Rightarrow> request \<Rightarrow> bool \<Rightarrow> string \<Rightarrow> Server \<Rightarrow> Server \<times> (api_error + Session)" where
  "requireAdminPermission en r csrf permission s =
     (case requireAdmin en r csrf s of (s, Inl e) \<Rightarrow> (s, Inl e)
      | (s, Inr session) \<Rightarrow>
          (s, case session_permissions en (se_SubjectID session) s of
                None \<Rightarrow> Inl (NewError 401 ''auth.unauthenticated'' ''admin user no longer exists'')
              | Some perms \<Rightarrow>
                  if \<not> HasPermission (en_uc en) perms permission
                  then Inl (NewError 403 ''auth.forbidden'' ''missing permission'') else Inr session))"

definition rotateCSRF :: "env \<Rightarrow> Session \<Rightarrow> Server \<Rightarrow> Server \<times> string result" where
  "rotateCSRF en session s =
     (case Rand en s of (s, rnd) \<Rightarrow>
      (case NewOpaqueToken 32 rnd of Inl e \<Rightarrow> (s, Inl e)
       | Inr csrf \<Rightarrow>
           (case in_store (UpdateSession (session\<lparr>se_CSRFToken := HashToken ''csrf'' csrf\<rparr>)) s of
              (s, Inl e) \<Rightarrow> (s, Inl e) | (s, Inr _) \<Rightarrow> (s, Inr csrf))))"

definition with_admin :: "env \<Rightarrow> request \<Rightarrow> bool \<Rightarrow> Server \<Rightarrow> (Session \<Rightarrow> Server \<Rightarrow> Server \<times> response) \<Rightarrow> Server \<times> response" where
  "with_admin en r csrf s k =
     (case requireAdmin en r csrf s of (s, Inl e) \<Rightarrow> (s, WriteError e) | (s, Inr session) \<Rightarrow> k session s)"

definition with_permission ::
  "env \<Rightarrow> request \<Rightarrow> string \<Rightarrow> Server \<Rightarrow> (Session \<Rightarrow> Server \<Rightarrow> Server \<times> response) \<Rightarrow> Server \<times> response" where
  "with_permission en r permission s k =
     (case requireAdminPermission en r True permission s of (s, Inl e) \<Rightarrow> (s, WriteError e) | (s, Inr session) \<Rightarrow> k session s)"

definition admin_audit :: "env \<Rightarrow> request \<Rightarrow> Session \<Rightarrow> string \<Rightarrow> string \<Rightarrow> (string \<times> goval) list \<Rightarrow> Server \<Rightarrow> Server" where
  "admin_audit en r session targetID event details =
     audit en r ''admin'' (se_SubjectID session) ''player'' targetID event (mk_map details)"

abbreviation (input) ok_answer :: response where "ok_answer \<equiv> WriteJSON 200 (VMap (mk_map [(''ok'', VBool True)]))"

subsection \<open>Rows\<close>

definition referencePassportForProfile :: "Profile \<Rightarrow> ProfilePassportBinding list \<Rightarrow> Passport option" where
  "referencePassportForProfile profile bindings =
     (case List.find (\<lambda>b. pp_ID (bi_Passport b) = pf_CreatedFromPassport profile) bindings of
        Some b \<Rightarrow> Some (bi_Passport b)
      | None \<Rightarrow> (case bindings of [] \<Rightarrow> None | b # _ \<Rightarrow> Some (bi_Passport b)))"

definition profileRowDataWithBindings :: "Profile \<Rightarrow> ProfilePassportBinding list \<Rightarrow> PlayerPresence list \<Rightarrow> goval" where
  "profileRowDataWithBindings p bindings presences =
     (let row = (\<lambda>b. let q = bi_Passport b in mk_map
            [(''id'', VStr (pp_ID q)), (''uuid'', VStr (UUID_String (pp_UUID q))), (''kind'', VNamed (pp_Kind q)),
             (''username'', VStr (pp_Username q)), (''status'', VNamed (pp_Status q)),
             (''is_primary'', VBool (ln_IsPrimary (bi_Link b))), (''linked_at'', VTime (ln_LinkedAt (bi_Link b))),
             (''created_from'', VBool (pp_ID q = pf_CreatedFromPassport p)),
             (''avatar_url'', VStr (cacheBustedAssetURL (''/api/assets/passports/'' @ pp_ID q @ ''/avatar.png'') [pp_UpdatedAt q]))])
      in VMap (mk_map
        [(''id'', VStr (pf_ID p)), (''uuid'', VStr (UUID_String (pf_UUID p))), (''uuid_compact'', VStr (UUID_Compact (pf_UUID p))),
         (''avatar_url'', VStr (cacheBustedAssetURL (''/api/assets/profiles/'' @ pf_ID p @ ''/avatar.png'')
            (pf_UpdatedAt p # map (\<lambda>b. pp_UpdatedAt (bi_Passport b)) bindings))),
         (''protocol_name'', VStr (pf_ProtocolName p)), (''normalized_name'', VStr (pf_NormalizedName p)),
         (''display_name'', VStr (pf_DisplayName p)), (''status'', VNamed (pf_Status p)), (''skin_source'', VStr (pf_SkinSource p)),
         (''online'', VBool (presences \<noteq> [])), (''presence_count'', VInt (int (length presences))),
         (''last_seen_server'', emptyStringNil (pf_LastSeenServer p)), (''last_seen_at'', time_val (pf_LastSeenAt p)),
         (''last_seen_ip'', emptyStringNil (pf_LastSeenIP p)), (''last_seen_geo'', opt_val geo_val (pf_LastSeenGeo p)),
         (''active_ban'', VNil), (''ban_expires_at'', VNil), (''locked_until'', VNil), (''created_at'', VTime (pf_CreatedAt p)),
         (''updated_at'', VTime (pf_UpdatedAt p)),
         (''passport'', opt_val (\<lambda>q. VMap (mk_map [(''id'', VStr (pp_ID q)), (''kind'', VNamed (pp_Kind q)),
            (''username'', VStr (pp_Username q)), (''status'', VNamed (pp_Status q))])) (referencePassportForProfile p bindings)),
         (''passports'', VMaps (map row bindings)), (''passport_count'', VInt (int (length bindings)))]))"

definition passport_row :: "Passport \<Rightarrow> Profile list \<Rightarrow> PlayerPresence list \<Rightarrow> anymap" where
  "passport_row p profiles presences = mk_map
     [(''id'', VStr (pp_ID p)), (''kind'', VNamed (pp_Kind p)), (''uuid'', VStr (UUID_String (pp_UUID p))),
      (''uuid_compact'', VStr (UUID_Compact (pp_UUID p))), (''username'', VStr (pp_Username p)),
      (''avatar_url'', VStr (cacheBustedAssetURL (''/api/assets/passports/'' @ pp_ID p @ ''/avatar.png'') [pp_UpdatedAt p])),
      (''username_normalized'', VStr (pp_UsernameNormalized p)), (''raw_offline_name'', VStr (pp_RawOfflineName p)),
      (''status'', VNamed (pp_Status p)), (''profile_count'', VInt (int (length profiles))), (''online'', VBool (presences \<noteq> [])),
      (''presence_count'', VInt (int (length presences))),
      (''primary_profile'', case profiles of [] \<Rightarrow> VNil | f # _ \<Rightarrow> profileSummaryData f []),
      (''registration_server'', emptyStringNil (pp_RegistrationServer p)), (''last_seen_server'', emptyStringNil (pp_LastSeenServer p)),
      (''last_seen_at'', time_val (pp_LastSeenAt p)), (''last_seen_ip'', emptyStringNil (pp_LastSeenIP p)),
      (''last_seen_geo'', opt_val geo_val (pp_LastSeenGeo p)), (''active_ban'', VNil), (''ban_expires_at'', VNil),
      (''locked_until'', VNil), (''created_at'', VTime (pp_CreatedAt p)), (''updated_at'', VTime (pp_UpdatedAt p))]"

definition passportRowData :: "Passport \<Rightarrow> Profile list \<Rightarrow> PlayerPresence list \<Rightarrow> goval" where
  "passportRowData p profiles presences = VMap (passport_row p profiles presences)"

definition profile_answer :: "Profile \<Rightarrow> memory \<Rightarrow> goval" where
  "profile_answer p m = profileRowDataWithBindings p (ListPassportsForProfile m (pf_ID p)) (ListProfilePresences m (pf_ID p))"

definition passport_answer :: "Passport \<Rightarrow> memory \<Rightarrow> goval" where
  "passport_answer p m = passportRowData p (ListProfilesForPassport m (pp_ID p)) (ListPassportPresences m (pp_ID p))"

subsection \<open>Passports and profiles\<close>

record updatePassportRequest =
  up_Status :: string

definition handleAdminUpdatePassport :: "string \<Rightarrow> updatePassportRequest handler" where
  "handleAdminUpdatePassport ident en r body s =
     with_admin en r True s (\<lambda>session s. decode_body body s (\<lambda>req.
       let status = TrimSpace (up_Status req) in
       if status = [] then refuse s 400 ''passport.status_required'' ''status is required''
       else case Now en s of (s, now) \<Rightarrow>
         (case in_store (SetPassportStatus ident status now) s of
            (s, Inl _) \<Rightarrow> refuse s 404 ''passport.not_found'' ''passport not found''
          | (s, Inr passport) \<Rightarrow>
              let s = admin_audit en r session (pp_ID passport) ''passport.status.update'' [(''status'', VNamed status)] s
              in (s, WriteJSON 200 (passport_answer passport (sv_store s))))))"

definition handleAdminDeletePassport :: "string \<Rightarrow> query" where
  "handleAdminDeletePassport ident en r s =
     with_admin en r True s (\<lambda>session s.
       case GetPassportByID (sv_store s) ident of Inl _ \<Rightarrow> refuse s 404 ''passport.not_found'' ''passport not found''
       | Inr passport \<Rightarrow>
           (case Now en s of (s, now) \<Rightarrow>
            case enqueueDisconnectActions en (ListPassportPresences (sv_store s) (pp_ID passport)) ''passport deleted'' now s of (s, queued) \<Rightarrow>
            (case in_store (DeletePassport (pp_ID passport)) s of
               (s, Inl _) \<Rightarrow> refuse s 404 ''passport.not_found'' ''passport not found''
             | (s, Inr deleted) \<Rightarrow>
                 (admin_audit en r session (pp_ID deleted) ''passport.delete''
                    [(''username'', VStr (pp_Username deleted)), (''kind'', VNamed (pp_Kind deleted)),
                     (''queued_actions'', VInt (int queued))] s,
                  WriteJSON 200 (VMap (mk_map [(''ok'', VBool True), (''queued_actions'', VInt (int queued))]))))))"

definition handleAdminDeleteProfile :: "string \<Rightarrow> query" where
  "handleAdminDeleteProfile ident en r s =
     with_admin en r True s (\<lambda>session s.
       case GetProfileByID (sv_store s) ident of Inl _ \<Rightarrow> refuse s 404 ''profile.not_found'' ''profile not found''
       | Inr profile \<Rightarrow>
           (case Now en s of (s, now) \<Rightarrow>
            case enqueueDisconnectActions en (ListProfilePresences (sv_store s) (pf_ID profile)) ''profile deleted'' now s of (s, queued) \<Rightarrow>
            (case in_store (DeleteProfile (pf_ID profile)) s of
               (s, Inl _) \<Rightarrow> refuse s 404 ''profile.not_found'' ''profile not found''
             | (s, Inr deleted) \<Rightarrow>
                 (admin_audit en r session (pf_ID deleted) ''profile.delete''
                    [(''protocol_name'', VStr (pf_ProtocolName deleted)), (''queued_actions'', VInt (int queued))] s,
                  WriteJSON 200 (VMap (mk_map [(''ok'', VBool True), (''queued_actions'', VInt (int queued))]))))))"

record createProfileRequest =
  cp_PassportID :: string
  cp_ProtocolName :: string

definition handleAdminCreateProfile :: "createProfileRequest handler" where
  "handleAdminCreateProfile en r body s =
     with_admin en r True s (\<lambda>session s. decode_body body s (\<lambda>req.
       let uc = en_uc en; passportID = TrimSpace (cp_PassportID req) in
       case NormalizeProtocolName uc (cp_ProtocolName req) of Inl e \<Rightarrow> refuse s 400 ''profile.invalid_name'' (error_text en e)
       | Inr name \<Rightarrow>
           if passportID \<noteq> [] \<and>
              profileNameTakenForPassport uc (ListProfilesForPassport (sv_store s) passportID) [] (on_Normalized name)
           then refuse s 409 ''profile.name_taken'' ''protocol name is already taken for this passport''
           else case Rand en s of (s, rnd) \<Rightarrow> case Now en s of (s, now) \<Rightarrow>
             (case NewOfflineProfile uc (on_Protocol name) passportID rnd now of
                Inl e \<Rightarrow> refuse s 400 ''profile.invalid_name'' (error_text en e)
              | Inr profile \<Rightarrow>
                  (case Rand en s of (s, rnd) \<Rightarrow> case Now en s of (s, now) \<Rightarrow>
                   case in_store (CreateProfile profile rnd now) s of
                     (s, Inl e) \<Rightarrow> refuse s 400 ''profile.create_failed'' (error_text en e)
                   | (s, Inr profile) \<Rightarrow>
                       let finish = (\<lambda>s. let s = admin_audit en r session (pf_ID profile) ''profile.create''
                             [(''protocol_name'', VStr (pf_ProtocolName profile))] s
                           in (s, WriteJSON 201 (profile_answer profile (sv_store s))))
                       in
                       if passportID = [] then finish s
                       else case Now en s of (s, now) \<Rightarrow>
                         (case in_store (BindProfileToPassport (pf_ID profile) passportID False now) s of
                            (s, Inl e) \<Rightarrow>
                              refuse (fst (in_store (DeleteProfile (pf_ID profile)) s)) 400 ''profile.bind_failed'' (error_text en e)
                          | (s, Inr _) \<Rightarrow> finish s)))))"

record updateProfileRequest =
  uf_Status :: string
  uf_ProtocolName :: string

definition rename_by_admin ::
  "env \<Rightarrow> request \<Rightarrow> Session \<Rightarrow> string \<Rightarrow> Profile \<Rightarrow> Server \<Rightarrow> (Profile \<Rightarrow> Server \<Rightarrow> Server \<times> response) \<Rightarrow> Server \<times> response" where
  "rename_by_admin en r session protocolName profile s k =
     (let uc = en_uc en; m = sv_store s in
      case NormalizeProtocolName uc protocolName of Inl e \<Rightarrow> refuse s 400 ''profile.invalid_name'' (error_text en e)
      | Inr name \<Rightarrow>
          if list_ex (\<lambda>b. profileNameTakenForPassport uc (ListProfilesForPassport m (pp_ID (bi_Passport b)))
               (pf_ID profile) (on_Normalized name)) (ListPassportsForProfile m (pf_ID profile))
          then refuse s 409 ''profile.name_taken'' ''protocol name is already taken for this passport''
          else case Now en s of (s, now) \<Rightarrow>
            (case in_store (UpdateProfileIdentity uc (pf_ID profile) (on_Protocol name) now) s of
               (s, Inl e) \<Rightarrow> refuse s 409 ''profile.name_taken'' (error_text en e)
             | (s, Inr renamed) \<Rightarrow>
                 k renamed (admin_audit en r session (pf_ID renamed) ''profile.identity.update''
                   [(''old_protocol_name'', VStr (pf_ProtocolName profile)),
                    (''protocol_name'', VStr (pf_ProtocolName renamed))] s)))"

definition handleAdminUpdateProfile :: "string \<Rightarrow> updateProfileRequest handler" where
  "handleAdminUpdateProfile ident en r body s =
     with_admin en r True s (\<lambda>session s. decode_body body s (\<lambda>req.
       let status = TrimSpace (uf_Status req);
           set_status = (\<lambda>profile s.
             if status = [] then (s, WriteJSON 200 (profile_answer profile (sv_store s)))
             else case Now en s of (s, now) \<Rightarrow>
               (case in_store (SetProfileStatus (pf_ID profile) status now) s of
                  (s, Inl _) \<Rightarrow> refuse s 404 ''profile.not_found'' ''profile not found''
                | (s, Inr profile) \<Rightarrow>
                    let s = admin_audit en r session (pf_ID profile) ''profile.status.update'' [(''status'', VNamed status)] s
                    in (s, WriteJSON 200 (profile_answer profile (sv_store s)))))
       in
       if status = [] \<and> TrimSpace (uf_ProtocolName req) = []
       then refuse s 400 ''profile.update_required'' ''status or protocol name is required''
       else case GetProfileByID (sv_store s) ident of Inl _ \<Rightarrow> refuse s 404 ''profile.not_found'' ''profile not found''
         | Inr profile \<Rightarrow>
             if TrimSpace (uf_ProtocolName req) = [] then set_status profile s
             else rename_by_admin en r session (uf_ProtocolName req) profile s set_status))"

record bindProfileRequest =
  bp_PassportID :: string
  bp_Primary :: bool

definition handleAdminBindProfile :: "string \<Rightarrow> bindProfileRequest handler" where
  "handleAdminBindProfile ident en r body s =
     with_admin en r True s (\<lambda>session s. decode_body body s (\<lambda>req.
       case Now en s of (s, now) \<Rightarrow>
       (case in_store (BindProfileToPassport ident (TrimSpace (bp_PassportID req)) (bp_Primary req) now) s of
          (s, Inl e) \<Rightarrow> refuse s 400 ''profile.bind_failed'' (error_text en e)
        | (s, Inr pp) \<Rightarrow>
            let s = admin_audit en r session (pf_ID (lk_Profile pp)) ''profile.bind'' [(''passport_id'', VStr (pp_ID (lk_Passport pp)))] s
            in (s, WriteJSON 200 (profile_answer (lk_Profile pp) (sv_store s))))))"

definition handleAdminUnbindProfilePassport :: "string \<Rightarrow> string \<Rightarrow> query" where
  "handleAdminUnbindProfilePassport profileID passportID en r s =
     with_admin en r True s (\<lambda>session s.
       let profileID = TrimSpace profileID; passportID = TrimSpace passportID;
           missing = (\<lambda>s. refuse s 404 ''profile.binding_not_found'' ''profile passport binding not found'')
       in
       case GetProfilePassportBinding (sv_store s) profileID passportID of Inl _ \<Rightarrow> missing s
       | Inr binding \<Rightarrow>
           (case in_store (UnbindProfileFromPassport profileID passportID) s of (s, Inl _) \<Rightarrow> missing s
            | (s, Inr _) \<Rightarrow>
                let s = admin_audit en r session profileID ''profile.unbind''
                      [(''passport_id'', VStr passportID), (''was_primary'', VBool (ln_IsPrimary (bi_Link binding)))] s
                in case GetProfileByID (sv_store s) profileID of Inl _ \<Rightarrow> (s, ok_answer)
                   | Inr profile \<Rightarrow> (s, WriteJSON 200 (profile_answer profile (sv_store s)))))"

definition handleAdminUnbindProfile :: "string \<Rightarrow> query" where
  "handleAdminUnbindProfile ident en r s =
     with_admin en r True s (\<lambda>session s.
       case in_store (UnbindProfile ident) s of (s, Inl _) \<Rightarrow> refuse s 404 ''profile.not_found'' ''profile link not found''
       | (s, Inr _) \<Rightarrow> (admin_audit en r session ident ''profile.unbind'' [] s, ok_answer))"

definition handleAdminSetPlayerLocked :: "string \<Rightarrow> bool \<Rightarrow> query" where
  "handleAdminSetPlayerLocked ident locked en r s =
     with_admin en r True s (\<lambda>session s.
       case Now en s of (s, now) \<Rightarrow>
       (case in_store (SetPlayerLocked ident locked now) s of (s, Inl _) \<Rightarrow> refuse s 404 ''player.not_found'' ''player not found''
        | (s, Inr player) \<Rightarrow>
            (admin_audit en r session (pl_ID player) (if pl_Locked player then ''player.lock'' else ''player.unlock'')
               [(''locked'', VBool (pl_Locked player))] s,
             WriteJSON 200 VNil)))"

subsection \<open>Passwords\<close>

record createOfflinePassportRequest =
  co_Username :: string
  co_Password :: string

definition firstActiveBan :: "PlayerBan list \<Rightarrow> time \<Rightarrow> PlayerBan option" where
  "firstActiveBan bans now =
     List.find (\<lambda>b. ba_RevokedAt b = None \<and> (case ba_ExpiresAt b of None \<Rightarrow> True | Some e \<Rightarrow> After e now)) bans"

definition passportLockedUntil :: "env \<Rightarrow> memory \<Rightarrow> Passport \<Rightarrow> time option" where
  "passportLockedUntil en m passport =
     (if pp_Kind passport \<noteq> PassportKindOffline then None
      else case GetPassportCredential (en_uc en) m m (pp_Username passport) of Inl _ \<Rightarrow> None | Inr (_, c) \<Rightarrow> pa_LockedUntil c)"

definition enrichPassportRow :: "env \<Rightarrow> memory \<Rightarrow> Passport \<Rightarrow> time \<Rightarrow> anymap \<Rightarrow> anymap" where
  "enrichPassportRow en m passport now row =
     (let row = (case passportLockedUntil en m passport of None \<Rightarrow> row | Some t \<Rightarrow> gput row ''locked_until'' (VTime t)) in
      case firstActiveBan (ListBans m BanScopePassport (pp_ID passport) False now) now of None \<Rightarrow> row
      | Some ban \<Rightarrow> gput (gput row ''active_ban'' (banRow ban)) ''ban_expires_at'' (time_val (ba_ExpiresAt ban)))"

definition enrichMissingIPGeo :: "env \<Rightarrow> string \<Rightarrow> IPGeo option \<Rightarrow> anymap \<Rightarrow> anymap" where
  "enrichMissingIPGeo en ip existing row =
     (if existing \<noteq> None \<or> TrimSpace ip = [] then row
      else case en_geo en ip of None \<Rightarrow> row | Some geo \<Rightarrow> gput row ''last_seen_geo'' (geo_val geo))"

definition create_offline_passport ::
  "env \<Rightarrow> request \<Rightarrow> Session \<Rightarrow> createOfflinePassportRequest \<Rightarrow> Server \<Rightarrow> Server \<times> response" where
  "create_offline_passport en r session req s =
     (let username = TrimSpace (co_Username req) in
       if username = [] then refuse s 400 ''passport.username_required'' ''username is required''
       else case Rand en s of (s, salt) \<Rightarrow>
         (case HashPassword (en_argon2 en) (co_Password req) (en_passwordParams en) salt of
            None \<Rightarrow> (s, Aborted)
          | Some (Inl _) \<Rightarrow> refuse s 400 ''auth.password_policy_failed'' ''password does not satisfy policy''
          | Some (Inr passwordHash) \<Rightarrow>
              (case offlinePasswordCredential en (co_Password req) s of
                 (s, Inl _) \<Rightarrow> refuse s 500 ''password_recovery.encrypt_failed'' ''failed to encrypt recoverable password''
               | (s, Inr (encryptedPassword, keyFingerprint)) \<Rightarrow>
                   (case Now en s of (s, now) \<Rightarrow>
                    case in_store (CreateOfflinePassport (en_uc en) username passwordHash encryptedPassword keyFingerprint now) s of
                      (s, Inl e) \<Rightarrow> refuse s 400 ''passport.create_failed'' (error_text en e)
                    | (s, Inr passport) \<Rightarrow>
                        let s = admin_audit en r session (pp_ID passport) ''passport.create.offline''
                              [(''username'', VStr (pp_Username passport)), (''passport_id'', VStr (pp_ID passport))] s;
                            m = sv_store s;
                            row = passport_row passport (ListProfilesForPassport m (pp_ID passport)) (ListPassportPresences m (pp_ID passport));
                            row = enrichMissingIPGeo en (pp_LastSeenIP passport) (pp_LastSeenGeo passport) row
                        in case Now en s of (s, now) \<Rightarrow>
                             (s, WriteJSON 201 (VMap (enrichPassportRow en m passport now row)))))))"

definition handleAdminCreateOfflinePassport :: "createOfflinePassportRequest handler" where
  "handleAdminCreateOfflinePassport en r body s =
     with_admin en r True s (\<lambda>session s. decode_body body s (\<lambda>req. create_offline_passport en r session req s))"

text \<open>The passport of the identifier, or the only offline passport of the player it names.\<close>

definition reset_target :: "memory \<Rightarrow> string \<Rightarrow> Passport option" where
  "reset_target m targetID =
     (case GetPassportByID m targetID of Inr p \<Rightarrow> Some p
      | Inl _ \<Rightarrow>
          (case GetPlayerByID m targetID of Inl _ \<Rightarrow> None
           | Inr player \<Rightarrow>
               (case filter (\<lambda>b. pp_Kind (bi_Passport b) = PassportKindOffline) (ListPassportsForProfile m (pl_ID player)) of
                  [b] \<Rightarrow> Some (bi_Passport b) | _ \<Rightarrow> None)))"

text \<open>An empty body stands for an empty password, which has one generated.\<close>

record resetPasswordRequest =
  rs_Password :: string

definition reset_password ::
  "env \<Rightarrow> request \<Rightarrow> Session \<Rightarrow> Passport \<Rightarrow> string \<Rightarrow> bool \<Rightarrow> Server \<Rightarrow> Server \<times> response" where
  "reset_password en r session passport password generated s =
     (case Rand en s of (s, salt) \<Rightarrow>
      (case HashPassword (en_argon2 en) password (en_passwordParams en) salt of
         None \<Rightarrow> (s, Aborted)
       | Some (Inl _) \<Rightarrow> refuse s 400 ''auth.password_policy_failed'' ''password does not satisfy policy''
       | Some (Inr passwordHash) \<Rightarrow>
           (case offlinePasswordCredential en password s of
              (s, Inl _) \<Rightarrow> refuse s 500 ''password_recovery.encrypt_failed'' ''failed to encrypt recoverable password''
            | (s, Inr (encryptedPassword, keyFingerprint)) \<Rightarrow>
                (case Now en s of (s, now) \<Rightarrow>
                 case in_store (UpdatePassportPassword (pp_ID passport) passwordHash encryptedPassword keyFingerprint now) s of
                   (s, Inl _) \<Rightarrow> refuse s 404 ''auth.credential_not_found'' ''offline credential not found''
                 | (s, Inr _) \<Rightarrow>
                     (admin_audit en r session (pp_ID passport) ''offline.password.reset'' [] s,
                      WriteJSON 200 (VMap (mk_map ([(''ok'', VBool True)]
                        @ (if generated then [(''temporary_password'', VStr password)] else [])))))))))"

definition handleAdminResetOfflinePassword :: "string \<Rightarrow> resetPasswordRequest option handler" where
  "handleAdminResetOfflinePassword ident en r body s =
     with_permission en r ''players.password.reset'' s (\<lambda>session s.
       case reset_target (sv_store s) (TrimSpace ident) of None \<Rightarrow> refuse s 404 ''passport.not_found'' ''passport not found''
       | Some passport \<Rightarrow>
           if pp_Kind passport \<noteq> PassportKindOffline
           then refuse s 400 ''passport.not_offline'' ''password reset is only available for offline passports''
           else decode_body body s (\<lambda>req.
             let password = (case req of None \<Rightarrow> [] | Some q \<Rightarrow> rs_Password q) in
             if password = [] then
               case Rand en s of (s, rnd) \<Rightarrow>
               (case NewOpaqueToken 18 rnd of
                  Inl _ \<Rightarrow> refuse s 500 ''system.token_failed'' ''failed to generate temporary password''
                | Inr generated \<Rightarrow> reset_password en r session passport generated True s)
             else reset_password en r session passport password False s))"

subsection \<open>Bans and kicks\<close>

record banRequest =
  br_Reason :: string
  br_ExpiresAt :: string
  br_ExpiresInSeconds :: int

text \<open>\<^verbatim>\<open>banFromRequest\<close>, which decodes the body after the target is found.\<close>

definition banFromRequest ::
  "env \<Rightarrow> banRequest option \<Rightarrow> BanScope \<Rightarrow> string \<Rightarrow> string \<Rightarrow> Server \<Rightarrow> Server \<times> (api_error + PlayerBan)" where
  "banFromRequest en body scope targetID createdBy s =
     (case body of None \<Rightarrow> (s, Inl (NewError 400 ''system.invalid_json'' ''invalid JSON request body''))
      | Some req \<Rightarrow> banFromNodeRequest en
          \<lparr>nb_ProfileID = [], nb_PassportID = [], nb_Username = [], nb_Reason = br_Reason req, nb_ExpiresAt = br_ExpiresAt req,
           nb_ExpiresInSeconds = br_ExpiresInSeconds req\<rparr> scope targetID createdBy s)"

definition admin_ban ::
  "(memory \<Rightarrow> PlayerPresence list) \<Rightarrow> (string \<Rightarrow> time \<Rightarrow> memory \<Rightarrow> memory \<times> nat) \<Rightarrow> string \<Rightarrow> env \<Rightarrow> request \<Rightarrow> Session \<Rightarrow>
   string \<Rightarrow> PlayerBan \<Rightarrow> Server \<Rightarrow> Server \<times> response" where
  "admin_ban presences end_all what en r session targetID ban s =
     (case Now en s of (s, t) \<Rightarrow> case in_store (CreateBan ban t) s of (s, ban) \<Rightarrow>
      case Now en s of (s, now) \<Rightarrow>
      case enqueueDisconnectActions en (presences (sv_store s)) (what @ '' banned: '' @ ba_Reason ban) now s of (s, queued) \<Rightarrow>
      case in_store (end_all (what @ '' banned'') now) s of (s, ended) \<Rightarrow>
        (admin_audit en r session targetID (what @ ''.ban.create'')
           [(''ban_id'', VStr (ba_ID ban)), (''reason'', VStr (ba_Reason ban)), (''expires_at'', time_val (ba_ExpiresAt ban)),
            (''ended_presences'', VInt (int ended)), (''queued_actions'', VInt (int queued))] s,
         ban_answer ban ended queued))"

definition handleAdminCreatePassportBan :: "string \<Rightarrow> banRequest handler" where
  "handleAdminCreatePassportBan ident en r body s =
     with_admin en r True s (\<lambda>session s.
       case GetPassportByID (sv_store s) ident of Inl _ \<Rightarrow> refuse s 404 ''passport.not_found'' ''passport not found''
       | Inr passport \<Rightarrow>
           (case banFromRequest en body BanScopePassport (pp_ID passport) (se_SubjectID session) s of (s, Inl e) \<Rightarrow> (s, WriteError e)
            | (s, Inr ban) \<Rightarrow> admin_ban (\<lambda>m. ListPassportPresences m (pp_ID passport)) (EndPassportPresences (pp_ID passport))
                ''passport'' en r session (pp_ID passport) ban s))"

definition handleAdminCreateProfileBan :: "string \<Rightarrow> banRequest handler" where
  "handleAdminCreateProfileBan ident en r body s =
     with_admin en r True s (\<lambda>session s.
       case GetProfileByID (sv_store s) ident of Inl _ \<Rightarrow> refuse s 404 ''profile.not_found'' ''profile not found''
       | Inr profile \<Rightarrow>
           (case banFromRequest en body BanScopeProfile (pf_ID profile) (se_SubjectID session) s of (s, Inl e) \<Rightarrow> (s, WriteError e)
            | (s, Inr ban) \<Rightarrow> admin_ban (\<lambda>m. ListProfilePresences m (pf_ID profile)) (EndProfilePresences (pf_ID profile))
                ''profile'' en r session (pf_ID profile) ban s))"

definition ban_event_type :: "PlayerBan \<Rightarrow> string \<Rightarrow> string" where
  "ban_event_type ban event =
     (if ba_Scope ban = BanScopeProfile then ''profile.ban.'' else if ba_Scope ban = BanScopePassport then ''passport.ban.''
      else ''ban.'') @ event"

record revokeBanRequest =
  rv_Reason :: string

definition handleAdminRevokeBan :: "string \<Rightarrow> revokeBanRequest handler" where
  "handleAdminRevokeBan ident en r body s =
     with_admin en r True s (\<lambda>session s. decode_body body s (\<lambda>req.
       case Now en s of (s, now) \<Rightarrow>
       (case in_store (RevokeBan ident (se_SubjectID session) (TrimSpace (rv_Reason req)) now) s of
          (s, Inl _) \<Rightarrow> refuse s 404 ''ban.not_found'' ''ban not found''
        | (s, Inr ban) \<Rightarrow>
            (admin_audit en r session (ba_TargetID ban) (ban_event_type ban ''revoke'')
               [(''ban_id'', VStr (ba_ID ban)), (''reason'', VStr (TrimSpace (rv_Reason req)))] s,
             WriteJSON 200 (banRow ban)))))"

record extendBanRequest =
  eb_ExpiresInSeconds :: int
  eb_Reason :: string

text \<open>A ban that has not run out is extended from its end, any other from now.\<close>

definition extended_expiry :: "PlayerBan \<Rightarrow> int \<Rightarrow> time \<Rightarrow> time" where
  "extended_expiry ban seconds now =
     (case ba_ExpiresAt ban of None \<Rightarrow> now | Some e \<Rightarrow> if After e now then e else now) + seconds * Second"

definition handleAdminExtendBan :: "string \<Rightarrow> extendBanRequest handler" where
  "handleAdminExtendBan ident en r body s =
     with_admin en r True s (\<lambda>session s. decode_body body s (\<lambda>req.
       let seconds = eb_ExpiresInSeconds req in
       if seconds < 1 then refuse s 400 ''ban.expiry_invalid'' ''temporary ban must last at least 1 second''
       else if 10 * 365 * 24 * 60 * 60 < seconds then refuse s 400 ''ban.expiry_invalid'' ''ban duration is too long''
       else case GetBan (sv_store s) ident of Inl _ \<Rightarrow> refuse s 404 ''ban.not_found'' ''ban not found''
       | Inr existing \<Rightarrow>
           if ba_RevokedAt existing \<noteq> None then refuse s 409 ''ban.revoked'' ''ban has already been revoked''
           else case Now en s of (s, now) \<Rightarrow>
             (case in_store (ExtendBan (ba_ID existing) (extended_expiry existing seconds now)) s of
                (s, Inl _) \<Rightarrow> refuse s 404 ''ban.not_found'' ''ban not found''
              | (s, Inr ban) \<Rightarrow>
                  (admin_audit en r session (ba_TargetID ban) (ban_event_type ban ''extend'')
                     [(''ban_id'', VStr (ba_ID ban)), (''reason'', VStr (TrimSpace (eb_Reason req))),
                      (''duration_seconds'', VInt seconds), (''previous_expires_at'', time_val (ba_ExpiresAt existing)),
                      (''expires_at'', time_val (ba_ExpiresAt ban))] s,
                   WriteJSON 200 (banRow ban)))))"

record kickRequest =
  kr_Reason :: string

definition normalizeKickReason :: "string \<Rightarrow> string" where
  "normalizeKickReason reason =
     (let reason = TrimSpace reason in if reason = [] then ''kicked by administrator'' else take 500 reason)"

definition handleAdminKickPresence :: "string \<Rightarrow> kickRequest handler" where
  "handleAdminKickPresence ident en r body s =
     with_admin en r True s (\<lambda>session s. decode_body body s (\<lambda>req.
       let reason = normalizeKickReason (kr_Reason req) in
       case Now en s of (s, now) \<Rightarrow>
       (case in_store (EndPresence ident reason now) s of (s, Inl _) \<Rightarrow> refuse s 404 ''presence.not_found'' ''presence not found''
        | (s, Inr p) \<Rightarrow>
            (case Now en s of (s, now) \<Rightarrow> case enqueueDisconnectActions en [p] reason now s of (s, queued) \<Rightarrow>
               (admin_audit en r session (pc_ProfileID p) ''presence.kick''
                  [(''presence_id'', VStr (pc_ID p)), (''passport_id'', VStr (pc_PassportID p)),
                   (''profile_id'', VStr (pc_ProfileID p)), (''server_id'', VStr (pc_ServerID p)), (''node_id'', VStr (pc_NodeID p)),
                   (''reason'', VStr reason), (''queued_actions'', VInt (int queued))] s,
                WriteJSON 200 (presenceRow p))))))"

definition admin_kick ::
  "(memory \<Rightarrow> PlayerPresence list) \<Rightarrow> (string \<Rightarrow> time \<Rightarrow> memory \<Rightarrow> memory \<times> nat) \<Rightarrow> string \<Rightarrow> env \<Rightarrow> request \<Rightarrow> Session \<Rightarrow>
   string \<Rightarrow> string \<Rightarrow> Server \<Rightarrow> Server \<times> response" where
  "admin_kick presences end_all event en r session targetID reason s =
     (case Now en s of (s, now) \<Rightarrow>
      case enqueueDisconnectActions en (presences (sv_store s)) reason now s of (s, queued) \<Rightarrow>
      case in_store (end_all reason now) s of (s, ended) \<Rightarrow>
        (admin_audit en r session targetID event
           [(''reason'', VStr reason), (''ended_presences'', VInt (int ended)), (''queued_actions'', VInt (int queued))] s,
         WriteJSON 200 (VMap (mk_map [(''ended_presences'', VInt (int ended)), (''queued_actions'', VInt (int queued))]))))"

definition handleAdminKickPassport :: "string \<Rightarrow> kickRequest handler" where
  "handleAdminKickPassport ident en r body s =
     with_admin en r True s (\<lambda>session s.
       case GetPassportByID (sv_store s) ident of Inl _ \<Rightarrow> refuse s 404 ''passport.not_found'' ''passport not found''
       | Inr passport \<Rightarrow> decode_body body s (\<lambda>req.
           admin_kick (\<lambda>m. ListPassportPresences m (pp_ID passport)) (EndPassportPresences (pp_ID passport)) ''passport.kick''
             en r session (pp_ID passport) (normalizeKickReason (kr_Reason req)) s))"

definition handleAdminKickProfile :: "string \<Rightarrow> kickRequest handler" where
  "handleAdminKickProfile ident en r body s =
     with_admin en r True s (\<lambda>session s.
       case GetProfileByID (sv_store s) ident of Inl _ \<Rightarrow> refuse s 404 ''profile.not_found'' ''profile not found''
       | Inr profile \<Rightarrow> decode_body body s (\<lambda>req.
           admin_kick (\<lambda>m. ListProfilePresences m (pf_ID profile)) (EndProfilePresences (pf_ID profile)) ''profile.kick''
             en r session (pf_ID profile) (normalizeKickReason (kr_Reason req)) s))"

subsection \<open>The recovery key\<close>

definition passwordRecoveryKeyData :: "passwordRecoveryKeyState \<Rightarrow> goval" where
  "passwordRecoveryKeyData st = VMap (mk_map
     [(''algorithm'', VStr (rk_Algorithm st)), (''public_key_pem'', VStr (rk_PublicKeyPEM st)),
      (''fingerprint'', VStr (rk_Fingerprint st)), (''size_bits'', VInt (rk_SizeBits st)), (''created_at'', VStr (rk_CreatedAt st)),
      (''downloaded_at'', VStr (rk_DownloadedAt st)), (''private_key_available'', VBool (TrimSpace (rk_PrivateKeyPEM st) \<noteq> []))])"

definition handleAdminPasswordRecoveryKey :: query where
  "handleAdminPasswordRecoveryKey en r s =
     with_admin en r False s (\<lambda>session s.
       case ensurePasswordRecoveryKey en s of
         (s, Inl _) \<Rightarrow> refuse s 500 ''password_recovery.key_unavailable'' ''failed to load password recovery key''
       | (s, Inr st) \<Rightarrow> (s, WriteJSON 200 (passwordRecoveryKeyData st)))"

text \<open>The private key is destroyed before it is sent.\<close>

definition handleAdminDownloadPasswordRecoveryPrivateKey :: query where
  "handleAdminDownloadPasswordRecoveryPrivateKey en r s =
     with_admin en r True s (\<lambda>session s.
       case ensurePasswordRecoveryKey en s of
         (s, Inl _) \<Rightarrow> refuse s 500 ''password_recovery.key_unavailable'' ''failed to load password recovery key''
       | (s, Inr st) \<Rightarrow>
           let privateKey = TrimSpace (rk_PrivateKeyPEM st) in
           if privateKey = []
           then refuse s 410 ''password_recovery.private_key_destroyed'' ''private key has already been downloaded and destroyed''
           else case Now en s of (s, now) \<Rightarrow>
             let now = rfc3339 now; st = st\<lparr>rk_PrivateKeyPEM := [], rk_DownloadedAt := now\<rparr> in
             (case savePasswordRecoveryKey st s of
                (s, Inl _) \<Rightarrow> refuse s 500 ''password_recovery.key_save_failed'' ''failed to destroy private key after download''
              | (s, Inr _) \<Rightarrow>
                  (audit en r ''admin'' (se_SubjectID session) ''system'' ''password_recovery_key''
                     ''password_recovery.private_key.download'' (mk_map [(''fingerprint'', VStr (rk_Fingerprint st))]) s,
                   WriteJSON 200 (VMap (mk_map
                     [(''private_key_pem'', VStr (privateKey @ [CHR 0x0A])), (''fingerprint'', VStr (rk_Fingerprint st)),
                      (''algorithm'', VStr (rk_Algorithm st)),
                      (''filename'', VStr (''authman-password-recovery-'' @ take 12 (TrimSpace (rk_Fingerprint st)) @ ''.pem'')),
                      (''destroyed_at'', VStr now)])))))"

record systemFactoryResetRequest =
  fr_Confirm :: string

definition handleAdminSystemFactoryReset :: "systemFactoryResetRequest handler" where
  "handleAdminSystemFactoryReset en r body s =
     with_admin en r True s (\<lambda>session s. decode_body body s (\<lambda>req.
       if TrimSpace (fr_Confirm req) \<noteq> ''RESET AUTHMAN''
       then refuse s 400 ''system.factory_reset.confirm_required'' ''confirmation phrase is required''
       else
         case newPasswordRecoveryKeyState en (on_store FactoryResetPlayerData s) of
           (s, Inl _) \<Rightarrow> refuse s 500 ''password_recovery.key_generate_failed'' ''failed to generate password recovery key''
         | (s, Inr st) \<Rightarrow>
             (case savePasswordRecoveryKey st s of
                (s, Inl _) \<Rightarrow> refuse s 500 ''password_recovery.key_save_failed'' ''failed to save password recovery key''
              | (s, Inr _) \<Rightarrow>
                  (audit en r ''admin'' (se_SubjectID session) ''system'' ''factory_reset'' ''system.factory_reset'' (mk_map
                     [(''fingerprint'', VStr (rk_Fingerprint st)), (''player_data_reset'', VBool True),
                      (''private_key_pending'', VBool True)]) s,
                   WriteJSON 200 (passwordRecoveryKeyData st)))))"

end
