(* ===== verification/ServerPortal.thy ===== *)
theory ServerPortal
  imports ServerAdmin
begin

text \<open>
  The player portal (\<^verbatim>\<open>portal.go\<close>, \<^verbatim>\<open>portal_links.go\<close>): registration, sign-in with a password or a
  one-time link, the profiles a player manages for itself, and the links administrators issue.
  A session is a row of the store; the cookie that names it is part of the answer, without the
  attributes of the header that depend on the transport.
\<close>

subsection \<open>Parts of answers\<close>

definition portalPlayerData :: "Player \<Rightarrow> goval" where
  "portalPlayerData p = VMap (mk_map
     [(''id'', VStr (pl_ID p)), (''uuid'', VStr (UUID_String (pl_UUID p))), (''raw_name'', VStr (pl_RawOfflineName p)),
      (''raw_offline_name'', VStr (pl_RawOfflineName p)), (''protocol_name'', VStr (pl_ProtocolName p)),
      (''kind'', VNamed (pl_Kind p)), (''registration_server_label'', emptyStringNil (pl_RegistrationServer p)),
      (''last_seen_server_label'', emptyStringNil (pl_LastSeenServer p)), (''last_seen_at'', time_val (pl_LastSeenAt p)),
      (''last_seen_ip'', emptyStringNil (pl_LastSeenIP p)), (''last_seen_geo'', opt_val geo_val (pl_LastSeenGeo p)),
      (''connected_servers'', VMaps [])])"

definition profileRowData :: "Profile \<Rightarrow> Passport option \<Rightarrow> PlayerPresence list \<Rightarrow> goval" where
  "profileRowData p passport presences =
     (let stamps = pf_UpdatedAt p # (case passport of None \<Rightarrow> [] | Some q \<Rightarrow> [pp_UpdatedAt q]) in
      VMap (mk_map
        [(''id'', VStr (pf_ID p)), (''uuid'', VStr (UUID_String (pf_UUID p))), (''uuid_compact'', VStr (UUID_Compact (pf_UUID p))),
         (''avatar_url'', VStr (cacheBustedAssetURL (''/api/assets/profiles/'' @ pf_ID p @ ''/avatar.png'') stamps)),
         (''protocol_name'', VStr (pf_ProtocolName p)), (''normalized_name'', VStr (pf_NormalizedName p)),
         (''display_name'', VStr (pf_DisplayName p)), (''status'', VNamed (pf_Status p)), (''skin_source'', VStr (pf_SkinSource p)),
         (''online'', VBool (presences \<noteq> [])), (''presence_count'', VInt (int (length presences))),
         (''last_seen_server'', emptyStringNil (pf_LastSeenServer p)), (''last_seen_at'', time_val (pf_LastSeenAt p)),
         (''last_seen_ip'', emptyStringNil (pf_LastSeenIP p)), (''last_seen_geo'', opt_val geo_val (pf_LastSeenGeo p)),
         (''active_ban'', VNil), (''ban_expires_at'', VNil), (''locked_until'', VNil), (''created_at'', VTime (pf_CreatedAt p)),
         (''updated_at'', VTime (pf_UpdatedAt p)),
         (''passport'', opt_val (\<lambda>q. VMap (mk_map [(''id'', VStr (pp_ID q)), (''kind'', VNamed (pp_Kind q)),
            (''username'', VStr (pp_Username q)), (''status'', VNamed (pp_Status q))])) passport)]))"

definition portalProfileListData :: "Profile list \<Rightarrow> goval" where
  "portalProfileListData profiles = VList (map (\<lambda>p. profileSummaryData p []) profiles)"

definition portal_answer :: "memory \<Rightarrow> Passport \<Rightarrow> Profile \<Rightarrow> Player \<Rightarrow> (string \<times> goval) list" where
  "portal_answer m passport profile player =
     (let profiles = ListProfilesForPassport m (pp_ID passport) in
      [(''player'', portalPlayerData player),
       (''passport'', passportRowData passport profiles (ListPassportPresences m (pp_ID passport))),
       (''profiles'', portalProfileListData profiles),
       (''profile'', profileRowData profile (Some passport) (ListProfilePresences m (pf_ID profile)))])"

definition writePortalSessionData :: "Passport \<Rightarrow> Profile \<Rightarrow> Server \<Rightarrow> Server \<times> response" where
  "writePortalSessionData passport profile s =
     (s, WriteJSON 200 (VMap (mk_map (portal_answer (sv_store s) passport profile (PlayerFromPassportProfile passport profile)))))"

subsection \<open>Sessions\<close>

definition with_player :: "env \<Rightarrow> request \<Rightarrow> bool \<Rightarrow> Server \<Rightarrow> (Session \<Rightarrow> Server \<Rightarrow> Server \<times> response) \<Rightarrow> Server \<times> response" where
  "with_player en r csrf s k =
     (case requirePlayer en r csrf s of (s, Inl e) \<Rightarrow> (s, WriteError e) | (s, Inr session) \<Rightarrow> k session s)"

text \<open>A session of 24 hours; what follows is given the session, its token and its CSRF token.\<close>

definition open_session ::
  "env \<Rightarrow> string \<Rightarrow> string \<Rightarrow> time \<Rightarrow> Server \<Rightarrow> (Session \<Rightarrow> string \<Rightarrow> string \<Rightarrow> Server \<Rightarrow> Server \<times> response) \<Rightarrow> Server \<times> response" where
  "open_session en passportID profileID now s k =
     (case Rand en s of (s, rnd1) \<Rightarrow> case Rand en s of (s, rnd2) \<Rightarrow>
      (case NewSession SessionPlayer passportID (24 * 3600 * Second) now rnd1 rnd2 of
         Inl _ \<Rightarrow> refuse s 500 ''system.token_failed'' ''failed to create session''
       | Inr (session, sessionToken, csrfToken) \<Rightarrow>
           let session = session\<lparr>se_SelectedProfileID := profileID\<rparr>
           in k session sessionToken csrfToken (on_store (SaveSession session) s)))"

definition playerSessionCookie :: string where "playerSessionCookie = ''authman_player_session''"

definition session_answer :: "memory \<Rightarrow> int \<Rightarrow> Passport \<Rightarrow> Profile \<Rightarrow> Player \<Rightarrow> Session \<Rightarrow> string \<Rightarrow> string \<Rightarrow> response" where
  "session_answer m status passport profile player session sessionToken csrfToken =
     SetCookie playerSessionCookie sessionToken (WriteJSON status (VMap (mk_map (portal_answer m passport profile player
       @ [(''csrf_token'', VStr csrfToken), (''expires_at'', VTime (se_ExpiresAt session))]))))"

text \<open>The passport and profile of a session; one whose selection is no longer bound falls back to the primary.\<close>

definition portalSessionIdentity :: "Session \<Rightarrow> Server \<Rightarrow> Server \<times> (Passport \<times> Profile \<times> Player) result" where
  "portalSessionIdentity session s =
     (let m = sv_store s in
      case GetPassportByID m (se_SubjectID session) of Inl e \<Rightarrow> (s, Inl e)
      | Inr passport \<Rightarrow>
          let found = (if se_SelectedProfileID session = [] then None
                else case GetProfileByID m (se_SelectedProfileID session) of Inl _ \<Rightarrow> None
                  | Inr profile \<Rightarrow> (case GetProfilePassportBinding m (pf_ID profile) (pp_ID passport) of
                      Inl _ \<Rightarrow> None | Inr _ \<Rightarrow> Some profile))
          in
          (case found of Some profile \<Rightarrow> (s, Inr (passport, profile, PlayerFromPassportProfile passport profile))
           | None \<Rightarrow>
               (case GetPrimaryProfileForPassport m (pp_ID passport) of Inl e \<Rightarrow> (s, Inl e)
                | Inr profile \<Rightarrow>
                    (fst (in_store (UpdateSession (session\<lparr>se_SelectedProfileID := pf_ID profile\<rparr>)) s),
                     Inr (passport, profile, PlayerFromPassportProfile passport profile)))))"

definition portalOwnedProfile :: "memory \<Rightarrow> Session \<Rightarrow> string \<Rightarrow> api_error + Passport \<times> Profile" where
  "portalOwnedProfile m session profileID =
     (case GetPassportByID m (se_SubjectID session) of
        Inl _ \<Rightarrow> Inl (NewError 401 ''auth.unauthenticated'' ''session passport was not found'')
      | Inr passport \<Rightarrow>
          if pp_Status passport \<noteq> PassportStatusActive
          then Inl (NewError 403 ''passport.not_editable'' ''passport is not editable'')
          else case GetProfileByID m (TrimSpace profileID) of
            Inl _ \<Rightarrow> Inl (NewError 404 ''profile.not_found'' ''profile not found'')
          | Inr profile \<Rightarrow>
              (case GetProfilePassportBinding m (pf_ID profile) (pp_ID passport) of
                 Inl _ \<Rightarrow> Inl (NewError 403 ''profile.not_owned'' ''profile is not available for this passport'')
               | Inr _ \<Rightarrow> Inr (passport, profile)))"

subsection \<open>Registration and sign-in\<close>

record offlineRegisterRequest =
  og_Username :: string
  og_RawUsername :: string
  og_Password :: string
  og_ServerSlug :: string

definition register_name :: "offlineRegisterRequest \<Rightarrow> string" where
  "register_name req = (if og_Username req = [] then og_RawUsername req else og_Username req)"

definition offline_registered ::
  "env \<Rightarrow> request \<Rightarrow> offlineRegisterRequest \<Rightarrow> PassportProfile \<Rightarrow> Server \<Rightarrow> Server \<times> response" where
  "offline_registered en r req pp s =
     (let passport = lk_Passport pp; profile = lk_Profile pp in
      case Now en s of (s, now) \<Rightarrow>
      let s = recordPassportProfileSeenWithClientIP en r passport profile (og_ServerSlug req) [] now s;
          s = audit en r ''player'' (pp_ID passport) ''player'' (pp_ID passport) ''offline.register'' (mk_map
            [(''raw_offline_name'', VStr (pp_RawOfflineName passport)), (''profile_id'', VStr (pf_ID profile)),
             (''protocol_name'', VStr (pf_ProtocolName profile)), (''server_slug'', VStr (og_ServerSlug req))]) s
      in open_session en (pp_ID passport) (pf_ID profile) now s (\<lambda>session sessionToken csrfToken s.
           let m = sv_store s in
           (s, SetCookie playerSessionCookie sessionToken (WriteJSON 201 (VMap (mk_map
             [(''player'', portalPlayerData (PlayerFromPassportProfileLink pp)),
              (''passport'', passportRowData passport [profile] (ListPassportPresences m (pp_ID passport))),
              (''profiles'', VList [profileSummaryData profile []]),
              (''profile'', profileRowData profile (Some passport) (ListProfilePresences m (pf_ID profile))),
              (''csrf_token'', VStr csrfToken), (''expires_at'', VTime (se_ExpiresAt session))]))))))"

definition handleOfflineRegister :: "offlineRegisterRequest handler" where
  "handleOfflineRegister en r body s =
     decode_body body s (\<lambda>req.
       case Rand en s of (s, salt) \<Rightarrow>
       (case HashPassword (en_argon2 en) (og_Password req) (en_passwordParams en) salt of
          None \<Rightarrow> (s, Aborted)
        | Some (Inl _) \<Rightarrow> refuse s 400 ''auth.password_policy_failed'' ''password does not satisfy policy''
        | Some (Inr passwordHash) \<Rightarrow>
            (case offlinePasswordCredential en (og_Password req) s of
               (s, Inl _) \<Rightarrow> refuse s 500 ''password_recovery.encrypt_failed'' ''failed to encrypt recoverable password''
             | (s, Inr (encryptedPassword, keyFingerprint)) \<Rightarrow>
                 (case Now en s of (s, now1) \<Rightarrow> case Rand en s of (s, rnd) \<Rightarrow> case Now en s of (s, now2) \<Rightarrow> case Now en s of (s, now3) \<Rightarrow>
                  case in_store (CreateOfflinePassportProfile (en_uc en) (register_name req) (register_name req)
                      passwordHash encryptedPassword keyFingerprint now1 now2 now3 rnd) s of
                    (s, Inl e) \<Rightarrow> refuse s 400 ''player.offline_registration_failed'' (error_text en e)
                  | (s, Inr pp) \<Rightarrow> offline_registered en r req pp s))))"

record portalLoginRequest =
  lg_Username :: string
  lg_Password :: string
  lg_ServerSlug :: string

definition portal_signed_in :: "env \<Rightarrow> request \<Rightarrow> portalLoginRequest \<Rightarrow> Passport \<Rightarrow> Server \<Rightarrow> Server \<times> response" where
  "portal_signed_in en r req passport s =
     (let s = fst (in_store (RecordPassportLoginSuccess (pp_ID passport)) s) in
      case GetPrimaryProfileForPassport (sv_store s) (pp_ID passport) of
        Inl _ \<Rightarrow> refuse s 403 ''profile.none'' ''passport has no profile''
      | Inr profile \<Rightarrow>
          (case Now en s of (s, now) \<Rightarrow>
           let s = recordPassportProfileSeenWithClientIP en r passport profile (lg_ServerSlug req) [] now s in
           open_session en (pp_ID passport) (pf_ID profile) now s (\<lambda>session sessionToken csrfToken s.
             let s = audit en r ''player'' (pp_ID passport) ''portal_session'' (se_ID session) ''passport.session.login'' (mk_map
                   [(''profile_id'', VStr (pf_ID profile)), (''protocol_name'', VStr (pf_ProtocolName profile)),
                    (''server_slug'', VStr (lg_ServerSlug req))]) s
             in (s, session_answer (sv_store s) 200 passport profile (PlayerFromPassportProfile passport profile)
                  session sessionToken csrfToken))))"

definition portal_sign_in_failed :: "env \<Rightarrow> request \<Rightarrow> portalLoginRequest \<Rightarrow> Passport \<Rightarrow> Server \<Rightarrow> Server \<times> response" where
  "portal_sign_in_failed en r req passport s =
     (case Now en s of (s, now) \<Rightarrow>
      case in_store (RecordPassportLoginFailure (pp_ID passport) now) s of (s, updated) \<Rightarrow>
        refuse (audit en r ''player'' (pp_ID passport) ''player'' (pp_ID passport) ''passport.session.login_failure'' (mk_map
            [(''reason'', VStr ''password_mismatch''),
             (''failed_attempts'', VInt (case updated of Inl _ \<Rightarrow> 0 | Inr c \<Rightarrow> pa_FailedAttempts c)),
             (''locked_until'', case updated of Inl _ \<Rightarrow> VNil | Inr c \<Rightarrow> time_val (pa_LockedUntil c)),
             (''server_slug'', VStr (lg_ServerSlug req))]) s)
          401 ''auth.invalid_credentials'' ''invalid username or password'')"

definition handlePortalLogin :: "portalLoginRequest handler" where
  "handlePortalLogin en r body s =
     decode_body body s (\<lambda>req.
       let m = sv_store s; name = TrimSpace (lg_Username req) in
       case GetPassportCredential (en_uc en) m m (lg_Username req) of
         Inl _ \<Rightarrow>
           refuse (audit en r ''player'' name ''player'' name ''passport.session.login_failure'' (mk_map
               [(''reason'', VStr ''credential_not_found''), (''server_slug'', VStr (lg_ServerSlug req))]) s)
             401 ''auth.invalid_credentials'' ''invalid username or password''
       | Inr (passport, credential) \<Rightarrow>
           let rejected = (\<lambda>s. refuse (audit en r ''player'' (pp_ID passport) ''player'' (pp_ID passport) ''passport.session.login_rejected'' (mk_map
                   [(''reason'', VStr ''account_locked''), (''passport_status'', VNamed (pp_Status passport)),
                    (''locked_until'', time_val (pa_LockedUntil credential)), (''server_slug'', VStr (lg_ServerSlug req))]) s)
                 403 ''auth.account_locked'' ''account is locked'')
           in
           if pp_Status passport = PassportStatusLocked \<or> pp_Status passport = PassportStatusDeleted then rejected s
           else (case Now en s of (s, now) \<Rightarrow>
             if passportCredentialLocked credential now then rejected s
             else case VerifyPassword (en_argon2 en) (lg_Password req) (pa_PasswordHash credential) of
               None \<Rightarrow> (s, Aborted)
             | Some (Inr True) \<Rightarrow> portal_signed_in en r req passport s
             | Some _ \<Rightarrow> portal_sign_in_failed en r req passport s))"

definition handlePortalMe :: query where
  "handlePortalMe en r s =
     with_player en r False s (\<lambda>session s.
       case portalSessionIdentity session s of (s, Inl _) \<Rightarrow> refuse s 401 ''auth.unauthenticated'' ''session passport was not found''
       | (s, Inr (passport, profile, player)) \<Rightarrow>
           (case rotateCSRF en session s of (s, Inl _) \<Rightarrow> refuse s 500 ''system.token_failed'' ''failed to refresh CSRF token''
            | (s, Inr csrf) \<Rightarrow>
                (s, WriteJSON 200 (VMap (mk_map (portal_answer (sv_store s) passport profile player @ [(''csrf_token'', VStr csrf)]))))))"

definition handlePortalLogout :: query where
  "handlePortalLogout en r s =
     (case requirePlayer en r True s of (s, x) \<Rightarrow>
      ((case x of Inl _ \<Rightarrow> s
        | Inr session \<Rightarrow>
            audit en r ''player'' (se_SubjectID session) ''portal_session'' (se_ID session) ''player.session.logout'' gempty
              (on_store (DeleteSession (HashToken ''session'' (rq_PlayerSession r))) s)),
       SetCookie playerSessionCookie [] (WriteJSON 200 (VMap (mk_map [(''ok'', VBool True)])))))"

record portalChangePasswordRequest =
  cw_CurrentPassword :: string
  cw_NewPassword :: string

definition change_password ::
  "env \<Rightarrow> request \<Rightarrow> Session \<Rightarrow> Passport \<Rightarrow> string \<Rightarrow> Server \<Rightarrow> Server \<times> response" where
  "change_password en r session passport password s =
     (case Rand en s of (s, salt) \<Rightarrow>
      (case HashPassword (en_argon2 en) password (en_passwordParams en) salt of
         None \<Rightarrow> (s, Aborted)
       | Some (Inl _) \<Rightarrow> refuse s 400 ''auth.password_policy_failed'' ''password does not satisfy policy''
       | Some (Inr passwordHash) \<Rightarrow>
           (case offlinePasswordCredential en password s of
              (s, Inl _) \<Rightarrow> refuse s 500 ''password_recovery.encrypt_failed'' ''failed to encrypt recoverable password''
            | (s, Inr (encryptedPassword, keyFingerprint)) \<Rightarrow>
                (case Now en s of (s, now) \<Rightarrow>
                 case in_store (UpdatePassportPassword (pp_ID passport) passwordHash encryptedPassword keyFingerprint now) s of
                   (s, Inl _) \<Rightarrow> refuse s 500 ''auth.password_update_failed'' ''failed to update password''
                 | (s, Inr _) \<Rightarrow>
                     (audit en r ''player'' (pp_ID passport) ''player'' (pp_ID passport) ''offline.password.change''
                        (mk_map [(''profile_id'', VStr (se_SelectedProfileID session))]) s,
                      WriteJSON 200 VNil)))))"

definition handlePortalChangePassword :: "portalChangePasswordRequest handler" where
  "handlePortalChangePassword en r body s =
     with_player en r True s (\<lambda>session s.
       case portalSessionIdentity session s of (s, Inl _) \<Rightarrow> refuse s 401 ''auth.unauthenticated'' ''session passport was not found''
       | (s, Inr (passport, _, _)) \<Rightarrow> decode_body body s (\<lambda>req.
           case GetPassportCredential (en_uc en) (sv_store s) (sv_store s) (pp_Username passport) of
             Inl _ \<Rightarrow> refuse s 400 ''auth.credential_not_found'' ''offline credential not found''
           | Inr (_, credential) \<Rightarrow>
               (case VerifyPassword (en_argon2 en) (cw_CurrentPassword req) (pa_PasswordHash credential) of
                  None \<Rightarrow> (s, Aborted)
                | Some (Inr True) \<Rightarrow> change_password en r session passport (cw_NewPassword req) s
                | Some _ \<Rightarrow>
                    refuse (audit en r ''player'' (pp_ID passport) ''player'' (pp_ID passport) ''offline.password.change_failure''
                        (mk_map [(''reason'', VStr ''current_password_mismatch'')]) s)
                      401 ''auth.invalid_credentials'' ''invalid current password'')))"

subsection \<open>Servers, names and data of extensions\<close>

definition handlePortalConfig :: query where
  "handlePortalConfig en r s =
     (s, WriteJSON 200 (VMap (mk_map
        [(''registration_open'', VBool True), (''password_policy_hints'', VStrs [''8-128 characters'']),
         (''message'', VStr ''Authman central portal'')])))"

definition stringFromMap :: "anymap \<Rightarrow> string \<Rightarrow> string" where
  "stringFromMap m k = (case get_any m k of VStr v \<Rightarrow> v | _ \<Rightarrow> [])"

definition boolFromMap :: "anymap \<Rightarrow> string \<Rightarrow> bool" where
  "boolFromMap m k = (case get_any m k of VBool v \<Rightarrow> v | _ \<Rightarrow> False)"

definition portal_server_row :: "DownstreamServer \<Rightarrow> anymap" where
  "portal_server_row server =
     (let theme = ds_PortalTheme server in mk_map
        [(''slug'', VStr (ds_Slug server)), (''display_name'', VStr (ds_DisplayName server)),
         (''description'', VStr (stringFromMap theme ''description'')), (''primary_color'', VStr (stringFromMap theme ''primary_color'')),
         (''accent_color'', VStr (stringFromMap theme ''accent_color'')), (''portal_message'', VStr (stringFromMap theme ''portal_message'')),
         (''registration_open'', VBool (ds_RegistrationOpen server)),
         (''prefer_dark'', VBool (boolFromMap (ds_PortalConfig server) ''prefer_dark''))])"

definition handlePortalServers :: query where
  "handlePortalServers en r s =
     (let hidden = (\<lambda>server. get_any (ds_PortalConfig server) ''show_in_global'' = VBool False);
          servers = filter (\<lambda>server. ds_Status server \<noteq> ''disabled'' \<and> \<not> hidden server) (ListDownstreamServers (sv_store s))
      in (s, WriteJSON 200 (VMaps (map portal_server_row servers))))"

definition portalServerConfigData :: "env \<Rightarrow> DownstreamServer \<Rightarrow> goval" where
  "portalServerConfigData en server =
     (let d = portal_server_row server;
          d = gput d ''current_context'' (VBool True);
          d = gput d ''portal_config'' (VMap (ds_PortalConfig server));
          d = gput d ''extension_providers'' (VStrs (ds_ExtensionProviders server))
      in VMap (gput d ''target'' (VMap (DownstreamTargetData (DownstreamTargetFromServer (en_uc en) server)))))"

definition handlePortalServerConfig :: "string \<Rightarrow> query" where
  "handlePortalServerConfig slug en r s =
     (case GetDownstreamServer (sv_store s) slug of Inl _ \<Rightarrow> refuse s 404 ''server.not_found'' ''server not found''
      | Inr server \<Rightarrow>
          if ds_Status server = ''disabled'' then refuse s 404 ''server.not_found'' ''server not found''
          else (s, WriteJSON 200 (portalServerConfigData en server)))"

definition handlePortalCheckName :: "offlineRegisterRequest handler" where
  "handlePortalCheckName en r body s =
     decode_body body s (\<lambda>req.
       let taken = (\<lambda>reason. WriteJSON 200 (VMap (mk_map [(''available'', VBool False), (''reason'', VStr reason)]))) in
       case NormalizeOfflineName (en_uc en) (register_name req) of Inl e \<Rightarrow> (s, taken (error_text en e))
       | Inr _ \<Rightarrow>
           (case GetOfflinePlayer (en_uc en) (sv_store s) (register_name req) of
              Inr _ \<Rightarrow> (s, taken ''already_registered'')
            | Inl _ \<Rightarrow> (s, WriteJSON 200 (VMap (mk_map [(''available'', VBool True)])))))"

text \<open>The built-in provider of \<^verbatim>\<open>extensions/registry.go\<close>, the only one of the default registry.\<close>

definition identitySchema :: Schema where
  "identitySchema = \<lparr>sc_Version = 1, sc_Title = ''Authman Identity'', sc_Fields =
     [\<lparr>fi_Key = ''kind'', fi_Label = ''Account type'', fi_Type = ''badge'', fi_Visibility = VisibilityPlayerVisible, fi_Tone = ''info'', fi_Safe = False\<rparr>,
      \<lparr>fi_Key = ''protocol_name'', fi_Label = ''Protocol name'', fi_Type = ''text'', fi_Visibility = VisibilityPlayerVisible, fi_Tone = [], fi_Safe = False\<rparr>,
      \<lparr>fi_Key = ''uuid'', fi_Label = ''UUID'', fi_Type = ''text'', fi_Visibility = VisibilityPlayerVisible, fi_Tone = [], fi_Safe = False\<rparr>,
      \<lparr>fi_Key = ''locked'', fi_Label = ''Locked'', fi_Type = ''boolean'', fi_Visibility = VisibilityPlayerVisible, fi_Tone = [], fi_Safe = False\<rparr>]\<rparr>"

definition player_data :: "string \<Rightarrow> string \<Rightarrow> string \<Rightarrow> Schema \<Rightarrow> anymap \<Rightarrow> time \<Rightarrow> goval" where
  "player_data slug display provider schema values updated = VStruct
     [(''ServerSlug'', VStr slug), (''ServerDisplayName'', VStr display), (''Provider'', VStr provider), (''Schema'', schema_val schema),
      (''Values'', VMap values), (''UpdatedAt'', VStr (rfc3339 updated))]"

definition identity_data :: "Player \<Rightarrow> string \<Rightarrow> time \<Rightarrow> goval" where
  "identity_data p serverSlug now =
     player_data (if serverSlug = [] then ''default'' else serverSlug) ''Default Server'' ''authman.identity'' identitySchema
       (mk_map [(''kind'', VStr (pl_Kind p)), (''protocol_name'', VStr (pl_ProtocolName p)),
                (''uuid'', VStr (UUID_String (pl_UUID p))), (''locked'', VBool (pl_Locked p))]) now"

definition extension_row :: "memory \<Rightarrow> ExtensionPlayerData \<Rightarrow> goval" where
  "extension_row m row =
     (case (case GetDownstreamServer m (ed_ServerID row) of Inl _ \<Rightarrow> (ed_ServerID row, ed_ServerID row)
            | Inr server \<Rightarrow> (ds_Slug server, ds_DisplayName server)) of
        (slug, display) \<Rightarrow> player_data slug display (ed_Provider row) (ed_Schema row) (ed_Values row) (ed_UpdatedAt row))"

definition playerExtensionData :: "memory \<Rightarrow> Player \<Rightarrow> string \<Rightarrow> bool \<Rightarrow> time \<Rightarrow> goval" where
  "playerExtensionData m player serverSlug includePrivate now =
     VList (identity_data player serverSlug now #
       map (extension_row m) (ListExtensionPlayerData m (pl_ID player) serverSlug includePrivate))"

definition handlePortalExtensionData :: "string \<Rightarrow> query" where
  "handlePortalExtensionData serverSlug en r s =
     with_player en r False s (\<lambda>session s.
       case portalSessionIdentity session s of (s, Inl _) \<Rightarrow> refuse s 401 ''auth.unauthenticated'' ''session player was not found''
       | (s, Inr (_, _, player)) \<Rightarrow>
           (case Now en s of (s, now) \<Rightarrow> (s, WriteJSON 200 (playerExtensionData (sv_store s) player serverSlug False now))))"

subsection \<open>The player's profiles\<close>

record portalSelectProfileRequest =
  sp_ProfileID :: string

definition handlePortalSelectProfile :: "portalSelectProfileRequest handler" where
  "handlePortalSelectProfile en r body s =
     with_player en r True s (\<lambda>session s. decode_body body s (\<lambda>req.
       case GetProfileByID (sv_store s) (TrimSpace (sp_ProfileID req)) of Inl _ \<Rightarrow> refuse s 404 ''profile.not_found'' ''profile not found''
       | Inr profile \<Rightarrow>
           (case GetProfilePassportBinding (sv_store s) (pf_ID profile) (se_SubjectID session) of
              Inl _ \<Rightarrow> refuse s 403 ''profile.not_owned'' ''profile is not available for this passport''
            | Inr binding \<Rightarrow>
                let passport = bi_Passport binding in
                (case in_store (UpdateSession (session\<lparr>se_SelectedProfileID := pf_ID profile\<rparr>)) s of
                   (s, Inl _) \<Rightarrow> refuse s 500 ''system.session_failed'' ''failed to update session''
                 | (s, Inr _) \<Rightarrow>
                     (case Now en s of (s, now) \<Rightarrow>
                      let s = recordPassportProfileSeenWithClientIP en r passport profile [] [] now s;
                          s = audit en r ''player'' (pp_ID passport) ''player'' (pf_ID profile) ''passport.profile.select'' (mk_map
                            [(''profile_id'', VStr (pf_ID profile)), (''protocol_name'', VStr (pf_ProtocolName profile))]) s
                      in writePortalSessionData passport profile s)))))"

record portalCreateProfileRequest =
  pq_ProtocolName :: string

definition self_create_profile :: "env \<Rightarrow> request \<Rightarrow> Session \<Rightarrow> Passport \<Rightarrow> OfflineName \<Rightarrow> Server \<Rightarrow> Server \<times> response" where
  "self_create_profile en r session passport name s =
     (case Rand en s of (s, rnd) \<Rightarrow> case Now en s of (s, now) \<Rightarrow>
      (case NewOfflineProfile (en_uc en) (on_Protocol name) (pp_ID passport) rnd now of
         Inl e \<Rightarrow> refuse s 400 ''profile.invalid_name'' (error_text en e)
       | Inr profile \<Rightarrow>
           (case Rand en s of (s, rnd) \<Rightarrow> case Now en s of (s, now) \<Rightarrow>
            case in_store (CreateProfile profile rnd now) s of
              (s, Inl e) \<Rightarrow> refuse s 400 ''profile.create_failed'' (error_text en e)
            | (s, Inr profile) \<Rightarrow>
                (case Now en s of (s, now) \<Rightarrow>
                 case in_store (BindProfileToPassport (pf_ID profile) (pp_ID passport) False now) s of
                   (s, Inl e) \<Rightarrow> refuse s 400 ''profile.bind_failed'' (error_text en e)
                 | (s, Inr pp) \<Rightarrow>
                     (case in_store (UpdateSession (session\<lparr>se_SelectedProfileID := pf_ID (lk_Profile pp)\<rparr>)) s of
                        (s, Inl _) \<Rightarrow> refuse s 500 ''system.session_failed'' ''failed to update session''
                      | (s, Inr _) \<Rightarrow>
                          writePortalSessionData passport (lk_Profile pp)
                            (audit en r ''player'' (pp_ID passport) ''player'' (pf_ID profile) ''profile.self_create'' (mk_map
                              [(''profile_id'', VStr (pf_ID profile)), (''protocol_name'', VStr (pf_ProtocolName profile))]) s))))))"

definition handlePortalCreateProfile :: "portalCreateProfileRequest handler" where
  "handlePortalCreateProfile en r body s =
     with_player en r True s (\<lambda>session s.
       case portalSessionIdentity session s of (s, Inl _) \<Rightarrow> refuse s 401 ''auth.unauthenticated'' ''session passport was not found''
       | (s, Inr (passport, _, _)) \<Rightarrow>
           if pp_Status passport \<noteq> PassportStatusActive then refuse s 403 ''passport.not_editable'' ''passport is not editable''
           else decode_body body s (\<lambda>req.
             let existing = ListProfilesForPassport (sv_store s) (pp_ID passport) in
             if st_MaxProfilesPerPassport (portal_settings en (sv_store s)) \<le> int (length existing)
             then refuse s 403 ''profile.limit_reached'' ''this passport already has the maximum number of profiles''
             else case NormalizeProtocolName (en_uc en) (pq_ProtocolName req) of
               Inl e \<Rightarrow> refuse s 400 ''profile.invalid_name'' (error_text en e)
             | Inr name \<Rightarrow>
                 if list_ex (\<lambda>p. EqualFold (en_uc en) (pf_NormalizedName p) (on_Normalized name)) existing
                 then refuse s 409 ''profile.name_taken'' ''protocol name is already taken for this passport''
                 else self_create_profile en r session passport name s))"

text \<open>The first active profile of the passport but the archived one; none is a profile without an identifier.\<close>

definition archive_fallback :: "Profile list \<Rightarrow> Profile \<Rightarrow> Profile" where
  "archive_fallback profiles target =
     foldl (\<lambda>fallback p. if pf_ID p \<noteq> pf_ID target \<and> pf_Status p = ProfileStatusActive \<and> pf_ID fallback = [] then p else fallback)
       zero_Profile profiles"

definition handlePortalArchiveProfile :: "string \<Rightarrow> query" where
  "handlePortalArchiveProfile ident en r s =
     with_player en r True s (\<lambda>session s.
       case portalOwnedProfile (sv_store s) session ident of Inl e \<Rightarrow> (s, WriteError e)
       | Inr (passport, target) \<Rightarrow>
           let fallback = archive_fallback (ListProfilesForPassport (sv_store s) (pp_ID passport)) target;
               finish = (\<lambda>selected s. writePortalSessionData passport selected
                 (audit en r ''player'' (pp_ID passport) ''player'' (pf_ID target) ''profile.self_archive'' (mk_map
                    [(''profile_id'', VStr (pf_ID target)), (''protocol_name'', VStr (pf_ProtocolName target))]) s))
           in
           if pf_Status target = ProfileStatusActive \<and> pf_ID fallback = []
           then refuse s 400 ''profile.last_active'' ''cannot archive the last active profile''
           else case Now en s of (s, now) \<Rightarrow>
             (case in_store (SetProfileStatus (pf_ID target) ProfileStatusArchived now) s of
                (s, Inl _) \<Rightarrow> refuse s 500 ''profile.archive_failed'' ''failed to archive profile''
              | (s, Inr updated) \<Rightarrow>
                  if se_SelectedProfileID session \<noteq> pf_ID target then finish updated s
                  else case in_store (UpdateSession (session\<lparr>se_SelectedProfileID := pf_ID fallback\<rparr>)) s of
                    (s, Inl _) \<Rightarrow> refuse s 500 ''system.session_failed'' ''failed to update session''
                  | (s, Inr _) \<Rightarrow> finish fallback s))"

definition handlePortalRestoreProfile :: "string \<Rightarrow> query" where
  "handlePortalRestoreProfile ident en r s =
     with_player en r True s (\<lambda>session s.
       case portalOwnedProfile (sv_store s) session ident of Inl e \<Rightarrow> (s, WriteError e)
       | Inr (passport, target) \<Rightarrow>
           (case Now en s of (s, now) \<Rightarrow>
            case in_store (SetProfileStatus (pf_ID target) ProfileStatusActive now) s of
              (s, Inl _) \<Rightarrow> refuse s 500 ''profile.restore_failed'' ''failed to restore profile''
            | (s, Inr updated) \<Rightarrow>
                let s = audit en r ''player'' (pp_ID passport) ''player'' (pf_ID target) ''profile.self_restore'' (mk_map
                      [(''profile_id'', VStr (pf_ID target)), (''protocol_name'', VStr (pf_ProtocolName target))]) s;
                    selected = (case GetProfileByID (sv_store s) (se_SelectedProfileID session) of Inl _ \<Rightarrow> updated | Inr p \<Rightarrow> p)
                in writePortalSessionData passport selected s))"

subsection \<open>Portal links\<close>

text \<open>\<^verbatim>\<open>string(result)\<close>\<close>

fun verify_text :: "PortalLinkVerifyResult \<Rightarrow> string" where
  "verify_text PortalLinkVerifyOK = ''ok''"
| "verify_text PortalLinkVerifyExpired = ''expired''"
| "verify_text PortalLinkVerifyUsed = ''used''"
| "verify_text PortalLinkVerifyRevoked = ''revoked''"
| "verify_text PortalLinkVerifyNotFound = ''not_found''"

definition link_key :: "string \<Rightarrow> string" where "link_key token = HashToken ''portal-link'' (TrimSpace token)"

definition portalLinkUseError :: "env \<Rightarrow> memory \<Rightarrow> string \<Rightarrow> time \<Rightarrow> api_error" where
  "portalLinkUseError en m token now =
     (case GetPortalLink m (link_key token) of Inl _ \<Rightarrow> NewError 404 ''portal_link.not_found'' ''portal link was not found''
      | Inr link \<Rightarrow>
          let result = PortalLink_Verify (en_uc en) link token now;
              result = (if result = PortalLinkVerifyOK then PortalLinkVerifyNotFound else result)
          in NewError 401 (''portal_link.'' @ verify_text result) ''portal link cannot be used'')"

definition portalLinkKind :: "Passport \<Rightarrow> string" where
  "portalLinkKind passport = (if pp_Kind passport = PassportKindPremium then ''premium'' else ''offline'')"

definition bound_active :: "memory \<Rightarrow> string \<Rightarrow> string \<Rightarrow> Profile result" where
  "bound_active m passportID profileID =
     (case GetProfileByID m profileID of Inl _ \<Rightarrow> Inl (Err ''profile is not active'')
      | Inr profile \<Rightarrow>
          if pf_Status profile \<noteq> ProfileStatusActive then Inl (Err ''profile is not active'')
          else case GetProfilePassportBinding m (pf_ID profile) passportID of
            Inl _ \<Rightarrow> Inl (Err ''profile does not belong to passport'') | Inr _ \<Rightarrow> Inr profile)"

definition portalLinkProfile :: "memory \<Rightarrow> string \<Rightarrow> string \<Rightarrow> Profile result" where
  "portalLinkProfile m passportID suggestedProfileID =
     (let profileID = TrimSpace suggestedProfileID;
          any = (case List.find (\<lambda>p. pf_Status p = ProfileStatusActive) (ListProfilesForPassport m passportID) of
            None \<Rightarrow> Inl (Err ''passport has no active profile'') | Some p \<Rightarrow> Inr p);
          primary = (case GetPrimaryProfileForPassport m passportID of Inl _ \<Rightarrow> any
            | Inr p \<Rightarrow> if pf_Status p = ProfileStatusActive then Inr p else any)
      in
      if profileID = [] then primary
      else case bound_active m passportID profileID of Inl _ \<Rightarrow> primary | Inr p \<Rightarrow> Inr p)"

definition requirePortalLinkProfile :: "memory \<Rightarrow> string \<Rightarrow> string \<Rightarrow> Profile result" where
  "requirePortalLinkProfile m passportID profileID =
     (if TrimSpace profileID = [] then portalLinkProfile m passportID [] else bound_active m passportID (TrimSpace profileID))"

definition link_row :: "PortalLink \<Rightarrow> anymap" where
  "link_row l = mk_map
     [(''id'', VStr (li_ID l)), (''kind'', VNamed (li_Kind l)), (''passport_id'', VStr (li_PlayerID l)),
      (''player_id'', VStr (li_PlayerID l)), (''suggested_profile_id'', emptyStringNil (li_SuggestedProfileID l)),
      (''server_id'', emptyStringNil (li_ServerID l)), (''issued_by_node_id'', emptyStringNil (li_IssuedByNodeID l)),
      (''status'', VNamed (li_Status l)), (''created_at'', VTime (li_CreatedAt l)), (''expires_at'', VTime (li_ExpiresAt l)),
      (''used_at'', time_val (li_UsedAt l)), (''revoked_at'', time_val (li_RevokedAt l))]"

definition portalLinkData :: "PortalLink \<Rightarrow> goval" where "portalLinkData l = VMap (link_row l)"

record portalLinkLoginRequest =
  ll_Token :: string

definition link_signed_in ::
  "env \<Rightarrow> request \<Rightarrow> PortalLink \<Rightarrow> Passport \<Rightarrow> Profile \<Rightarrow> time \<Rightarrow> Server \<Rightarrow> Server \<times> response" where
  "link_signed_in en r link passport profile now s =
     open_session en (pp_ID passport) (pf_ID profile) now
       (recordPassportProfileSeenWithClientIP en r passport profile (li_ServerID link) [] now s)
       (\<lambda>session sessionToken csrfToken s.
         let s = audit en r ''player'' (pp_ID passport) ''portal_session'' (se_ID session) ''passport.session.link_login'' (mk_map
               [(''server_id'', VStr (li_ServerID link)), (''profile_id'', VStr (pf_ID profile)),
                (''protocol_name'', VStr (pf_ProtocolName profile)), (''link_id'', VStr (li_ID link))]) s
         in (s, session_answer (sv_store s) 200 passport profile (PlayerFromPassportProfile passport profile)
              session sessionToken csrfToken))"

definition handlePortalLinkLogin :: "portalLinkLoginRequest handler" where
  "handlePortalLinkLogin en r body s =
     decode_body body s (\<lambda>req.
       let token = ll_Token req in
       case GetPortalLink (sv_store s) (link_key token) of
         Inl _ \<Rightarrow>
           refuse (audit en r ''system'' ''portal-link'' ''portal_session'' (TokenFingerprint token) ''passport.session.link_login_failure''
               (mk_map [(''reason'', VStr ''link_not_found'')]) s)
             404 ''portal_link.not_found'' ''portal link was not found''
       | Inr link \<Rightarrow>
           (case Now en s of (s, now) \<Rightarrow>
            let result = PortalLink_Verify (en_uc en) link token now in
            if result \<noteq> PortalLinkVerifyOK
            then refuse (audit en r ''player'' (li_PlayerID link) ''portal_session'' (li_ID link) ''passport.session.link_login_failure''
                (mk_map [(''reason'', VStr (verify_text result)), (''server_id'', VStr (li_ServerID link))]) s)
              401 (''portal_link.'' @ verify_text result) ''portal link cannot be used''
            else case GetPassportByID (sv_store s) (li_PlayerID link) of
              Inl _ \<Rightarrow> refuse s 404 ''passport.not_found'' ''passport not found''
            | Inr passport \<Rightarrow>
                if pp_Status passport \<noteq> PassportStatusActive \<or> portalLinkKind passport \<noteq> li_Kind link
                then refuse s 403 ''passport.locked'' ''passport is not active''
                else case portalLinkProfile (sv_store s) (pp_ID passport) (li_SuggestedProfileID link) of
                  Inl _ \<Rightarrow> refuse s 403 ''profile.none'' ''portal link has no active profile''
                | Inr profile \<Rightarrow>
                    (case in_store (MarkPortalLinkUsed (link_key token) now) s of
                       (s, Inl _) \<Rightarrow> (s, WriteError (portalLinkUseError en (sv_store s) token now))
                     | (s, Inr _) \<Rightarrow> link_signed_in en r link passport profile now s)))"

record adminCreatePortalLinkRequest =
  al_SuggestedProfileID :: string
  al_ServerID :: string
  al_TTL :: string
  al_ExpiresInSeconds :: int

definition admin_issue_link ::
  "env \<Rightarrow> request \<Rightarrow> Session \<Rightarrow> Passport \<Rightarrow> Profile \<Rightarrow> string \<Rightarrow> duration \<Rightarrow> Server \<Rightarrow> Server \<times> response" where
  "admin_issue_link en r session passport profile serverID ttl s =
     (case Rand en s of (s, rnd) \<Rightarrow> case Now en s of (s, now) \<Rightarrow>
      (case NewPortalLink (portalLinkKind passport) (pp_ID passport) serverID ttl now rnd of
         Inl _ \<Rightarrow> refuse s 500 ''portal_link.create_failed'' ''failed to create portal link''
       | Inr (link, rawToken) \<Rightarrow>
           let link = link\<lparr>li_SuggestedProfileID := pf_ID profile\<rparr>;
               s = on_store (SavePortalLink link) s;
               s = admin_audit en r session (pp_ID passport) ''portal_link.create''
                 [(''link_id'', VStr (li_ID link)), (''profile_id'', VStr (pf_ID profile)),
                  (''protocol_name'', VStr (pf_ProtocolName profile)), (''server_id'', VStr (li_ServerID link)),
                  (''expires_at'', VTime (li_ExpiresAt link))] s;
               d = gput (gput (link_row link) ''url'' (VStr (playerPortalLinkURL en rawToken))) ''token'' (VStr rawToken)
           in (s, WriteJSON 201 (VMap (mk_map [(''link'', VMap d)])))))"

text \<open>An empty body, which is not decoded, is a request without fields.\<close>

definition handleAdminCreatePortalLink :: "string \<Rightarrow> adminCreatePortalLinkRequest handler" where
  "handleAdminCreatePortalLink ident en r body s =
     with_permission en r ''players.portal_link.create'' s (\<lambda>session s.
       case GetPassportByID (sv_store s) (TrimSpace ident) of Inl _ \<Rightarrow> refuse s 404 ''passport.not_found'' ''passport not found''
       | Inr passport \<Rightarrow>
           if pp_Status passport \<noteq> PassportStatusActive then refuse s 403 ''passport.locked'' ''passport is not active''
           else decode_body body s (\<lambda>req.
             case requirePortalLinkProfile (sv_store s) (pp_ID passport) (al_SuggestedProfileID req) of
               Inl _ \<Rightarrow> refuse s 400 ''profile.not_available'' ''suggested profile is not active or does not belong to this passport''
             | Inr profile \<Rightarrow>
                 (case portalLinkTTL (al_TTL req) (al_ExpiresInSeconds req) of Inl e \<Rightarrow> (s, WriteError e)
                  | Inr ttl \<Rightarrow>
                      let serverID = TrimSpace (al_ServerID req);
                          known = (case GetDownstreamServer (sv_store s) serverID of Inl _ \<Rightarrow> False | Inr _ \<Rightarrow> True)
                      in
                      if serverID \<noteq> [] \<and> \<not> known then refuse s 404 ''server.not_found'' ''server not found''
                      else admin_issue_link en r session passport profile serverID ttl s)))"

definition handleAdminRevokePortalLink :: "string \<Rightarrow> query" where
  "handleAdminRevokePortalLink ident en r s =
     with_permission en r ''players.portal_link.create'' s (\<lambda>session s.
       case Now en s of (s, now) \<Rightarrow>
       (case in_store (RevokePortalLink (TrimSpace ident) now) s of
          (s, Inl _) \<Rightarrow> refuse s 404 ''portal_link.not_active'' ''active portal link not found''
        | (s, Inr link) \<Rightarrow>
            (audit en r ''admin'' (se_SubjectID session) ''portal_session'' (li_ID link) ''portal_link.revoke''
               (mk_map [(''passport_id'', VStr (li_PlayerID link)), (''profile_id'', VStr (li_SuggestedProfileID link))]) s,
             WriteJSON 200 (portalLinkData link))))"

end
