(* ===== verification/ServerTokens.thy ===== *)
theory ServerTokens
  imports ServerAdmin
begin

text \<open>
  The tokens of the external API (\<^verbatim>\<open>external_tokens.go\<close>) and the paging and sorting of listings
  (\<^verbatim>\<open>listing.go\<close>, \<^verbatim>\<open>admin.go\<close>).  A query string is the map of its first values.
\<close>

subsection \<open>Pages and order\<close>

type_synonym query_map = "string \<Rightarrow> string"

record listPageParams =
  ps_Page :: int
  ps_PageSize :: int

definition positive :: "string \<Rightarrow> int \<Rightarrow> int" where
  "positive raw fallback = (case Atoi raw of None \<Rightarrow> fallback | Some n \<Rightarrow> if 0 < n then n else fallback)"

definition parseListPageParams :: "query_map \<Rightarrow> listPageParams" where
  "parseListPageParams q =
     (let page = (if q ''page'' = [] then 1 else positive (q ''page'') 1);
          pageSize = (if q ''page_size'' \<noteq> [] then positive (q ''page_size'') 25
            else if q ''limit'' \<noteq> [] then positive (q ''limit'') 25 else 25)
      in \<lparr>ps_Page = page, ps_PageSize = (if 100 < pageSize then 100 else pageSize)\<rparr>)"

definition pageBounds :: "int \<Rightarrow> listPageParams \<Rightarrow> int \<times> int" where
  "pageBounds rows params =
     (let start = wrap64 ((ps_Page params - 1) * ps_PageSize params);
          start = (if rows < start then rows else start);
          stop = wrap64 (start + ps_PageSize params)
      in (start, if rows < stop then rows else stop))"

definition listMeta :: "int \<Rightarrow> int \<Rightarrow> listPageParams \<Rightarrow> anymap" where
  "listMeta count rows params = mk_map
     [(''count'', VInt count), (''total'', VInt rows), (''page'', VInt (ps_Page params)), (''page_size'', VInt (ps_PageSize params))]"

definition containsFold :: "unicode \<Rightarrow> string \<Rightarrow> string \<Rightarrow> bool" where
  "containsFold uc value search =
     (let search = ToLower uc (TrimSpace search) in search = [] \<or> Contains (ToLower uc (TrimSpace value)) search)"

text \<open>\<^verbatim>\<open>strings.Compare\<close> on bytes.\<close>

fun bytes_less :: "string \<Rightarrow> string \<Rightarrow> bool" where
  "bytes_less s [] = False"
| "bytes_less [] (d # t) = True"
| "bytes_less (c # s) (d # t) = (code c < code d \<or> c = d \<and> bytes_less s t)"

definition mapListSortValue :: "env \<Rightarrow> anymap \<Rightarrow> string \<Rightarrow> string" where
  "mapListSortValue en row key =
     (let text = (\<lambda>k. Sprint en (get_any row k)); none = (\<lambda>t. t = [] \<or> t = ''<nil>'') in
      if key = ''name'' \<and> \<not> none (text ''display_name'') then text ''display_name''
      else if key = ''name'' \<and> \<not> none (text ''username'') then text ''username''
      else
        let key = (if key = ''route'' then ''id'' else if key = ''count'' then ''request_count''
              else if key = ''created'' then ''created_at'' else if key = ''updated'' then ''updated_at'' else key)
        in if text key = ''<nil>'' then [] else text key)"

definition rows_less :: "env \<Rightarrow> string \<Rightarrow> string \<Rightarrow> anymap \<Rightarrow> anymap \<Rightarrow> bool" where
  "rows_less en sortKey sortDir a b =
     (let value = (\<lambda>row. ToLower (en_uc en) (mapListSortValue en row (if sortKey = [] then ''name'' else sortKey))) in
      if sortDir = ''desc'' then bytes_less (value b) (value a) else bytes_less (value a) (value b))"

text \<open>The page of the sorted rows; a slice out of range panics.\<close>

definition list_page :: "env \<Rightarrow> query_map \<Rightarrow> anymap list \<Rightarrow> response" where
  "list_page en q rows =
     (let rows = sort_by (rows_less en (TrimSpace (q ''sort'')) (TrimSpace (q ''dir''))) rows in
      case slice_of rows (pageBounds (int (length rows)) (parseListPageParams q)) of None \<Rightarrow> Aborted
      | Some page \<Rightarrow> WriteJSON 200 (VMaps page))"

subsection \<open>Who may call the external API\<close>

definition requireExternalAPI :: "env \<Rightarrow> request \<Rightarrow> Server \<Rightarrow> Server \<times> (api_error + ExternalAPIToken)" where
  "requireExternalAPI en r s =
     (let token = (case bearerToken r of None \<Rightarrow> TrimSpace (rq_ExternalToken r) | Some t \<Rightarrow> t) in
      if token = [] then (s, Inl (NewError 401 ''external_api.token_required'' ''external API token is required''))
      else case Now en s of (s, now) \<Rightarrow>
        (case in_store (AuthenticateExternalAPIToken (en_uc en) token now (clientIP r) (rq_Path r)) s of
           (s, Inl _) \<Rightarrow> (s, Inl (NewError 401 ''external_api.token_invalid'' ''external API token is invalid or disabled''))
         | (s, Inr authorized) \<Rightarrow> (s, Inr authorized)))"

definition withExternalAPI :: "query \<Rightarrow> query" where
  "withExternalAPI next en r s =
     (case requireExternalAPI en r s of (s, Inl e) \<Rightarrow> (s, WriteError e) | (s, Inr _) \<Rightarrow> next en r s)"

definition withExternalAPIOrAdminSession :: "query \<Rightarrow> query" where
  "withExternalAPIOrAdminSession next en r s =
     (case requireAdmin en r False s of (s, Inr _) \<Rightarrow> next en r s | (s, Inl _) \<Rightarrow> withExternalAPI next en r s)"

definition withAdminSession :: "query \<Rightarrow> query" where
  "withAdminSession next en r s =
     (case requireAdmin en r False s of (s, Inl e) \<Rightarrow> (s, WriteError e) | (s, Inr _) \<Rightarrow> next en r s)"

subsection \<open>Administration of the tokens\<close>

text \<open>\<open>with_permission\<close> for a request that changes nothing asks for no CSRF token.\<close>

definition with_read_permission ::
  "env \<Rightarrow> request \<Rightarrow> string \<Rightarrow> Server \<Rightarrow> (Session \<Rightarrow> Server \<Rightarrow> Server \<times> response) \<Rightarrow> Server \<times> response" where
  "with_read_permission en r permission s k =
     (case requireAdminPermission en r False permission s of (s, Inl e) \<Rightarrow> (s, WriteError e) | (s, Inr session) \<Rightarrow> k session s)"

definition token_row :: "ExternalAPIToken \<Rightarrow> anymap" where
  "token_row t = mk_map
     [(''id'', VStr (et_ID t)), (''name'', VStr (et_Name t)), (''token_fingerprint'', VStr (et_TokenFingerprint t)),
      (''status'', VNamed (et_Status t)), (''created_by'', VStr (et_CreatedBy t)), (''call_count'', VInt (et_CallCount t)),
      (''last_used_at'', time_val (et_LastUsedAt t)), (''last_used_ip'', VStr (et_LastUsedIP t)),
      (''last_used_path'', VStr (et_LastUsedPath t)), (''created_at'', VTime (et_CreatedAt t)), (''updated_at'', VTime (et_UpdatedAt t))]"

definition externalTokenData :: "ExternalAPIToken \<Rightarrow> goval" where "externalTokenData t = VMap (token_row t)"

definition token_listed :: "unicode \<Rightarrow> query_map \<Rightarrow> ExternalAPIToken \<Rightarrow> bool" where
  "token_listed uc q t =
     (let search = TrimSpace (q ''q''); status = TrimSpace (q ''status''); found = (\<lambda>v. containsFold uc v search) in
      (status = [] \<or> et_Status t = status) \<and>
      (search = [] \<or> found (et_Name t) \<or> found (et_TokenFingerprint t) \<or> found (et_LastUsedIP t) \<or> found (et_LastUsedPath t)))"

definition handleAdminExternalTokens :: "query_map \<Rightarrow> query" where
  "handleAdminExternalTokens q en r s =
     with_read_permission en r ''external_api.read'' s (\<lambda>session s.
       (s, list_page en q (map token_row (filter (token_listed (en_uc en) q) (ListExternalAPITokens (sv_store s))))))"

definition handleAdminExternalTokenDetail :: "string \<Rightarrow> query" where
  "handleAdminExternalTokenDetail ident en r s =
     with_read_permission en r ''external_api.read'' s (\<lambda>session s.
       case GetExternalAPIToken (sv_store s) (TrimSpace ident) of
         Inl _ \<Rightarrow> refuse s 404 ''external_api.token_not_found'' ''external API token not found''
       | Inr t \<Rightarrow> (s, WriteJSON 200 (externalTokenData t)))"

definition token_audit :: "env \<Rightarrow> request \<Rightarrow> Session \<Rightarrow> string \<Rightarrow> string \<Rightarrow> (string \<times> goval) list \<Rightarrow> Server \<Rightarrow> Server" where
  "token_audit en r session ident event details =
     audit en r ''admin'' (se_SubjectID session) ''system'' ident event (mk_map details)"

record externalTokenCreateRequest =
  xc_Name :: string

text \<open>The fields the request does not give are those of the zero value.\<close>

definition new_token :: "string \<Rightarrow> string \<Rightarrow> string \<Rightarrow> ExternalAPIToken" where
  "new_token name raw subjectID =
     \<lparr>et_ID = [], et_Name = name, et_TokenHash = HashToken ''external-api'' raw, et_TokenFingerprint = TokenFingerprint raw,
      et_Status = ExternalAPITokenActive, et_CreatedBy = subjectID, et_CallCount = 0, et_LastUsedAt = None, et_LastUsedIP = [],
      et_LastUsedPath = [], et_CreatedAt = 0, et_UpdatedAt = 0\<rparr>"

definition handleAdminCreateExternalToken :: "externalTokenCreateRequest handler" where
  "handleAdminCreateExternalToken en r body s =
     with_permission en r ''external_api.write'' s (\<lambda>session s. decode_body body s (\<lambda>req.
       let name = TrimSpace (xc_Name req) in
       if name = [] then refuse s 400 ''external_api.name_required'' ''token name is required''
       else case Rand en s of (s, rnd) \<Rightarrow>
         (case NewOpaqueToken 32 rnd of
            Inl _ \<Rightarrow> refuse s 500 ''external_api.token_create_failed'' ''failed to generate token''
          | Inr raw \<Rightarrow>
              (case Now en s of (s, now) \<Rightarrow>
               case in_store (CreateExternalAPIToken (new_token name raw (se_SubjectID session)) now) s of (s, created) \<Rightarrow>
                 (token_audit en r session (et_ID created) ''external_api.token.create''
                    [(''name'', VStr (et_Name created)), (''token_fingerprint'', VStr (et_TokenFingerprint created))] s,
                  WriteJSON 201 (VMap (gput (token_row created) ''token_once'' (VStr raw))))))))"

record externalTokenUpdateRequest =
  xu_Name :: string
  xu_Status :: string

definition normalizeExternalTokenStatus :: "unicode \<Rightarrow> string \<Rightarrow> ExternalAPITokenStatus \<Rightarrow> ExternalAPITokenStatus" where
  "normalizeExternalTokenStatus uc raw fallback =
     (let t = TrimSpace (ToLower uc raw) in
      if t \<in> {ExternalAPITokenActive, ExternalAPITokenDisabled, ExternalAPITokenRevoked} then t
      else if fallback = [] then ExternalAPITokenActive else fallback)"

definition update_token ::
  "env \<Rightarrow> request \<Rightarrow> Session \<Rightarrow> string \<Rightarrow> ExternalAPIToken \<Rightarrow> (ExternalAPIToken \<Rightarrow> (string \<times> goval) list) \<Rightarrow> Server \<Rightarrow> Server \<times> response" where
  "update_token en r session event t details s =
     (case Now en s of (s, now) \<Rightarrow>
      case in_store (UpdateExternalAPIToken t now) s of
        (s, Inl e) \<Rightarrow> refuse s 400 ''external_api.token_update_failed'' (error_text en e)
      | (s, Inr updated) \<Rightarrow>
          (token_audit en r session (et_ID updated) event (details updated) s, WriteJSON 200 (externalTokenData updated)))"

definition with_token ::
  "env \<Rightarrow> request \<Rightarrow> string \<Rightarrow> string \<Rightarrow> Server \<Rightarrow> (Session \<Rightarrow> ExternalAPIToken \<Rightarrow> Server \<Rightarrow> Server \<times> response) \<Rightarrow> Server \<times> response" where
  "with_token en r permission ident s k =
     with_permission en r permission s (\<lambda>session s.
       case GetExternalAPIToken (sv_store s) (TrimSpace ident) of
         Inl _ \<Rightarrow> refuse s 404 ''external_api.token_not_found'' ''external API token not found''
       | Inr existing \<Rightarrow> k session existing s)"

text \<open>The other fields of the token given to the store are not read by it.\<close>

definition handleAdminUpdateExternalToken :: "string \<Rightarrow> externalTokenUpdateRequest handler" where
  "handleAdminUpdateExternalToken ident en r body s =
     with_token en r ''external_api.write'' ident s (\<lambda>session existing s. decode_body body s (\<lambda>req.
       let name = (if TrimSpace (xu_Name req) = [] then et_Name existing else TrimSpace (xu_Name req));
           status = normalizeExternalTokenStatus (en_uc en) (xu_Status req) (et_Status existing)
       in update_token en r session ''external_api.token.update'' (existing\<lparr>et_Name := name, et_Status := status\<rparr>)
            (\<lambda>t. [(''name'', VStr (et_Name t)), (''status'', VNamed (et_Status t))]) s))"

definition handleAdminRevokeExternalToken :: "string \<Rightarrow> query" where
  "handleAdminRevokeExternalToken ident en r s =
     with_token en r ''external_api.write'' ident s (\<lambda>session existing s.
       update_token en r session ''external_api.token.revoke'' (existing\<lparr>et_Status := ExternalAPITokenRevoked\<rparr>)
         (\<lambda>t. [(''name'', VStr (et_Name t)), (''token_fingerprint'', VStr (et_TokenFingerprint t))]) s)"

definition handleAdminDeleteExternalTokenRecord :: "string \<Rightarrow> query" where
  "handleAdminDeleteExternalTokenRecord ident en r s =
     with_token en r ''external_api.delete'' ident s (\<lambda>session existing s.
       if et_Status existing \<noteq> ExternalAPITokenRevoked
       then refuse s 409 ''external_api.token_not_revoked'' ''external API token must be revoked before it can be deleted''
       else case in_store (DeleteExternalAPIToken (TrimSpace ident)) s of
         (s, Inl e) \<Rightarrow> refuse s 400 ''external_api.token_delete_failed'' (error_text en e)
       | (s, Inr _) \<Rightarrow>
           (token_audit en r session (et_ID existing) ''external_api.token.delete''
              [(''name'', VStr (et_Name existing)), (''token_fingerprint'', VStr (et_TokenFingerprint existing))] s,
            WriteJSON 200 (externalTokenData existing)))"

end
