(* ===== verification/ServerStaff.thy ===== *)
theory ServerStaff
  imports ServerPortal ServerTokens
begin

text \<open>
  The administrators themselves (\<^verbatim>\<open>admin.go\<close>, \<^verbatim>\<open>admin_mfa.go\<close>, \<^verbatim>\<open>admin_smtp.go\<close>): sign-in with a password and,
  where it is set up, a second factor; users, roles and their permissions; passwords and their
  reset.  The owner of the configuration has the identifier \<^verbatim>\<open>bootstrap-admin\<close> and no row among the
  users.  WebAuthn is a library: the handlers that run its ceremonies are left out, and so is the
  conversation of an SMTP client, of which only the outcome is read.
\<close>

subsection \<open>What is told of an administrator\<close>

abbreviation (input) bootstrap :: string where "bootstrap \<equiv> ''bootstrap-admin''"

definition adminConfigured :: "env \<Rightarrow> bool" where
  "adminConfigured en \<longleftrightarrow> en_AdminUsername en \<noteq> [] \<and> (en_AdminPassword en \<noteq> [] \<or> en_AdminPasswordHash en \<noteq> [])"

definition adminIdentifierMatches :: "env \<Rightarrow> memory \<Rightarrow> string \<Rightarrow> bool" where
  "adminIdentifierMatches en m identifier \<longleftrightarrow>
     (case GetAdminProfile m bootstrap of Inl _ \<Rightarrow> False
      | Inr p \<Rightarrow> EqualFold (en_uc en) identifier (af_Username p) \<or>
          (af_Email p \<noteq> [] \<and> EqualFold (en_uc en) identifier (af_Email p))) \<or>
     EqualFold (en_uc en) identifier (en_AdminUsername en) \<or>
     (en_AdminEmail en \<noteq> [] \<and> EqualFold (en_uc en) identifier (en_AdminEmail en))"

definition role_of :: "role option \<Rightarrow> role" where
  "role_of r = (case r of Some r \<Rightarrow> r
     | None \<Rightarrow> \<lparr>ro_ID = [], ro_Name = [], ro_Description = [], ro_Permissions = [], ro_System = False, ro_CreatedAt = 0, ro_UpdatedAt = 0\<rparr>)"

definition adminData :: "env \<Rightarrow> memory \<Rightarrow> anymap" where
  "adminData en m =
     (case (case GetAdminProfile m bootstrap of Inl _ \<Rightarrow> (en_AdminUsername en, en_AdminEmail en, [])
            | Inr p \<Rightarrow> (if TrimSpace (af_Username p) \<noteq> [] then af_Username p else en_AdminUsername en, af_Email p, af_AvatarURL p)) of
        (username, email, avatarURL) \<Rightarrow>
          let role = role_of (DefaultRole 0 ''owner'') in mk_map
          [(''id'', VStr bootstrap), (''username'', VStr username), (''email'', VStr email), (''avatar_url'', VStr avatarURL),
           (''display_name'', VStr username), (''role'', VStr (ro_ID role)), (''role_id'', VStr (ro_ID role)),
           (''role_alias'', VStr (ro_Name role)), (''permissions'', VStrs (ro_Permissions role)), (''status'', VStr ''active'')])"

definition adminUserData :: "env \<Rightarrow> AdminUser \<Rightarrow> Server \<Rightarrow> anymap" where
  "adminUserData en user s =
     (let role = role_of (findAdminRole en (au_Role user) s);
          avatarURL = (case GetAdminProfile (sv_store s) (au_ID user) of Inl _ \<Rightarrow> [] | Inr p \<Rightarrow> af_AvatarURL p)
      in mk_map
        [(''id'', VStr (au_ID user)), (''username'', VStr (au_Username user)), (''email'', VStr (au_Email user)),
         (''avatar_url'', VStr avatarURL), (''display_name'', VStr (au_Username user)), (''role'', VStr (au_Role user)),
         (''role_id'', VStr (au_Role user)), (''role_alias'', VStr (ro_Name role)), (''permissions'', VStrs (ro_Permissions role)),
         (''status'', VStr (au_Status user)), (''created_at'', VTime (au_CreatedAt user))])"

definition adminDataForSession :: "env \<Rightarrow> string \<Rightarrow> Server \<Rightarrow> anymap result" where
  "adminDataForSession en subjectID s =
     (if subjectID = bootstrap then Inr (adminData en (sv_store s))
      else case GetAdminUser (sv_store s) subjectID of Inl e \<Rightarrow> Inl e
        | Inr user \<Rightarrow> if au_Status user \<noteq> ''active'' then Inl (NotFound ''admin user disabled'') else Inr (adminUserData en user s))"

definition adminSecurityData :: "AdminSecurity \<Rightarrow> AdminPasskey list \<Rightarrow> goval" where
  "adminSecurityData security passkeys = VMap (mk_map
     [(''totp_enabled'', VBool (as_TOTPEnabled security)),
      (''passkeys'', VMaps (map (\<lambda>k. mk_map [(''id'', VStr (ak_ID k)), (''name'', VStr (ak_Name k)),
         (''created_at'', VTime (ak_CreatedAt k)), (''last_used_at'', time_val (ak_LastUsedAt k))]) passkeys)),
      (''mfa_requirement'', VStr (as_MFARequirement security)), (''preferred_locale'', VStr (as_PreferredLocale security)),
      (''preferred_theme'', VStr (as_PreferredTheme security))])"

definition security_answer :: "AdminSecurity \<Rightarrow> string \<Rightarrow> Server \<Rightarrow> response" where
  "security_answer security adminID s = WriteJSON 200 (adminSecurityData security (ListAdminPasskeys (sv_store s) adminID))"

definition with_security :: "env \<Rightarrow> memory \<Rightarrow> string \<Rightarrow> anymap \<Rightarrow> anymap" where
  "with_security en m adminID d = gput d ''security'' (adminSecurityData (GetAdminSecurity m adminID) (ListAdminPasskeys m adminID))"

definition adminDataWithSecurity :: "env \<Rightarrow> memory \<Rightarrow> anymap" where
  "adminDataWithSecurity en m = with_security en m bootstrap (adminData en m)"

definition adminUserDataWithSecurity :: "env \<Rightarrow> AdminUser \<Rightarrow> Server \<Rightarrow> anymap" where
  "adminUserDataWithSecurity en user s = with_security en (sv_store s) (au_ID user) (adminUserData en user s)"

definition adminTargetExists :: "memory \<Rightarrow> string \<Rightarrow> bool" where
  "adminTargetExists m ident \<longleftrightarrow> ident = bootstrap \<or> (case GetAdminUser m ident of Inl _ \<Rightarrow> False | Inr _ \<Rightarrow> True)"

definition adminTargetIsOwner :: "memory \<Rightarrow> string \<Rightarrow> bool" where
  "adminTargetIsOwner m ident \<longleftrightarrow> ident = bootstrap \<or> (case GetAdminUser m ident of Inl _ \<Rightarrow> False | Inr user \<Rightarrow> au_Role user = ''owner'')"

definition staff_audit :: "env \<Rightarrow> request \<Rightarrow> string \<Rightarrow> TargetType \<Rightarrow> string \<Rightarrow> string \<Rightarrow> (string \<times> goval) list \<Rightarrow> Server \<Rightarrow> Server" where
  "staff_audit en r subjectID target targetID event details = audit en r ''admin'' subjectID target targetID event (mk_map details)"

subsection \<open>Sign-in\<close>

text \<open>Whether a password is right, \<open>None\<close> where the check panics.\<close>

definition right_password :: "env \<Rightarrow> string \<Rightarrow> string \<Rightarrow> bool option" where
  "right_password en password hash =
     (case VerifyPassword (en_argon2 en) password hash of None \<Rightarrow> None | Some (Inr True) \<Rightarrow> Some True | Some _ \<Rightarrow> Some False)"

definition bootstrapAdminPasswordHash :: "env \<Rightarrow> memory \<Rightarrow> string" where
  "bootstrapAdminPasswordHash en m =
     (case GetSystemSetting m ''bootstrap_admin_auth'' of Inl _ \<Rightarrow> [] | Inr raw \<Rightarrow> stringValue en (get_any raw ''password_hash'') [])"

definition verifyAdminPassword :: "env \<Rightarrow> memory \<Rightarrow> string \<Rightarrow> string \<Rightarrow> bool option" where
  "verifyAdminPassword en m identifier password =
     (if \<not> adminConfigured en \<or> \<not> adminIdentifierMatches en m identifier then Some False
      else if bootstrapAdminPasswordHash en m \<noteq> [] then right_password en password (bootstrapAdminPasswordHash en m)
      else if en_AdminPasswordHash en \<noteq> [] then right_password en password (en_AdminPasswordHash en)
      else Some (password = en_AdminPassword en))"

definition adminMFAMethods :: "memory \<Rightarrow> string \<Rightarrow> AdminSecurity \<Rightarrow> string list" where
  "adminMFAMethods m adminID security =
     (if as_TOTPEnabled security \<and> as_TOTPSecret security \<noteq> [] then [''totp''] else []) @
     (if ListAdminPasskeys m adminID \<noteq> [] then [''passkey''] else [])"

definition trusted_device :: "memory \<Rightarrow> request \<Rightarrow> string \<Rightarrow> time \<Rightarrow> bool" where
  "trusted_device m r adminID now \<longleftrightarrow>
     (case GetAdminTrustedDevice m (HashToken ''admin-trusted'' (rq_AdminTrusted r)) now of
        Inl _ \<Rightarrow> False | Inr device \<Rightarrow> ad_AdminID device = adminID)"

text \<open>The answer that asks for a second factor, \<open>None\<close> when none is asked for.\<close>

definition maybeStartAdminMFA :: "env \<Rightarrow> request \<Rightarrow> string \<Rightarrow> anymap \<Rightarrow> Server \<Rightarrow> Server \<times> response option" where
  "maybeStartAdminMFA en r adminID user s =
     (let security = GetAdminSecurity (sv_store s) adminID; methods = adminMFAMethods (sv_store s) adminID security in
      if methods = [] then (s, None)
      else
        case (if as_MFARequirement security \<noteq> ''always'' \<and> rq_AdminTrusted r \<noteq> []
              then case Now en s of (s, now) \<Rightarrow> (s, trusted_device (sv_store s) r adminID now) else (s, False)) of
          (s, True) \<Rightarrow> (s, None)
        | (s, False) \<Rightarrow>
            (case Now en s of (s, now) \<Rightarrow>
             case in_store (SavePendingAdminMFA \<lparr>am_ID = [], am_AdminID = adminID, am_WebAuthnSessionJSON = [],
                 am_ExpiresAt = now + 300 * Second\<rparr>) s of (s, pending) \<Rightarrow>
               (staff_audit en r adminID ''portal_session'' (am_ID pending) ''admin.session.mfa_required'' [(''methods'', VStrs methods)] s,
                Some (SetCookie ''authman_admin_mfa'' (am_ID pending) (WriteJSON 200 (VMap (mk_map
                  [(''mfa_required'', VBool True), (''methods'', VStrs methods), (''user'', VMap user),
                   (''expires_at'', VTime (am_ExpiresAt pending))])))))))"

definition admin_session_data :: "anymap \<Rightarrow> string \<Rightarrow> Session \<Rightarrow> response" where
  "admin_session_data user csrfToken session = WriteJSON 200 (VMap (mk_map
     [(''admin'', VMap user), (''user'', VMap user), (''csrf_token'', VStr csrfToken), (''expires_at'', VTime (se_ExpiresAt session))]))"

text \<open>A session of twelve hours.\<close>

definition new_admin_session ::
  "env \<Rightarrow> string \<Rightarrow> time \<Rightarrow> Server \<Rightarrow> Server \<times> (Session \<times> string \<times> string) result" where
  "new_admin_session en subjectID now s =
     (case Rand en s of (s, rnd1) \<Rightarrow> case Rand en s of (s, rnd2) \<Rightarrow>
      (case NewSession SessionAdmin subjectID (12 * 3600 * Second) now rnd1 rnd2 of Inl e \<Rightarrow> (s, Inl e)
       | Inr (session, tokens) \<Rightarrow> (on_store (SaveSession session) s, Inr (session, tokens))))"

record adminLoginRequest =
  ag_Username :: string
  ag_Email :: string
  ag_Password :: string

definition login_identifier :: "adminLoginRequest \<Rightarrow> string" where
  "login_identifier req = (if TrimSpace (ag_Username req) = [] then TrimSpace (ag_Email req) else TrimSpace (ag_Username req))"

text \<open>Who signs in, with what is told of it: \<open>None\<close> where the check of the password panics.\<close>

definition login_subject :: "env \<Rightarrow> adminLoginRequest \<Rightarrow> Server \<Rightarrow> (api_error + string \<times> anymap) option" where
  "login_subject en req s =
     (let identifier = login_identifier req; m = sv_store s;
          wrong = Some (Inl (NewError 401 ''auth.invalid_credentials'' ''invalid username or password''))
      in
      case verifyAdminPassword en m identifier (ag_Password req) of
        None \<Rightarrow> None
      | Some True \<Rightarrow> Some (Inr (bootstrap, adminData en m))
      | Some False \<Rightarrow>
          (case FindAdminUserByIdentifier (en_uc en) m identifier of Inl _ \<Rightarrow> wrong
           | Inr user \<Rightarrow>
               if au_Status user \<noteq> ''active'' then wrong
               else case right_password en (ag_Password req) (au_PasswordHash user) of
                 None \<Rightarrow> None | Some False \<Rightarrow> wrong
               | Some True \<Rightarrow> Some (Inr (au_ID user, adminUserData en user s))))"

definition handleAdminLogin :: "adminLoginRequest handler" where
  "handleAdminLogin en r body s =
     decode_body body s (\<lambda>req.
       case login_subject en req s of None \<Rightarrow> (s, Aborted)
       | Some (Inl e) \<Rightarrow> (s, WriteError e)
       | Some (Inr (subjectID, user)) \<Rightarrow>
           if login_identifier req = [] then refuse s 401 ''auth.invalid_credentials'' ''invalid username or password''
           else case maybeStartAdminMFA en r subjectID user s of
             (s, Some answer) \<Rightarrow> (s, answer)
           | (s, None) \<Rightarrow>
               (case Now en s of (s, now) \<Rightarrow>
                case new_admin_session en subjectID now s of
                  (s, Inl _) \<Rightarrow> refuse s 500 ''system.token_failed'' ''failed to create session''
                | (s, Inr (session, sessionToken, csrfToken)) \<Rightarrow>
                    (staff_audit en r subjectID ''portal_session'' (se_ID session) ''admin.session.login''
                       [(''identifier'', VStr (login_identifier req)), (''username'', get_any user ''username'')] s,
                     SetCookie ''authman_admin_session'' sessionToken (admin_session_data user csrfToken session))))"

definition handleAdminBootstrap :: query where
  "handleAdminBootstrap en r s =
     (s, WriteJSON 200 (VMap (mk_map
        [(''configured'', VBool (adminConfigured en)), (''username'', VStr (en_AdminUsername en)),
         (''email'', VStr (en_AdminEmail en)), (''owner_exists'', VBool (adminConfigured en))])))"

definition handleAdminMe :: query where
  "handleAdminMe en r s =
     with_admin en r False s (\<lambda>session s.
       case rotateCSRF en session s of (s, Inl _) \<Rightarrow> refuse s 500 ''system.token_failed'' ''failed to refresh CSRF token''
       | (s, Inr csrf) \<Rightarrow>
           (case adminDataForSession en (se_SubjectID session) s of
              Inl _ \<Rightarrow> refuse s 401 ''auth.unauthenticated'' ''admin user no longer exists''
            | Inr user \<Rightarrow> (s, WriteJSON 200 (VMap (mk_map
                [(''admin'', VMap user), (''user'', VMap user), (''csrf_token'', VStr csrf)])))))"

definition handleAdminLogout :: query where
  "handleAdminLogout en r s =
     (case requireAdmin en r True s of (s, x) \<Rightarrow>
      ((case x of Inl _ \<Rightarrow> s
        | Inr session \<Rightarrow>
            staff_audit en r (se_SubjectID session) ''portal_session'' (se_ID session) ''admin.session.logout'' []
              (on_store (DeleteSession (HashToken ''session'' (rq_AdminSession r))) s)),
       SetCookie ''authman_admin_session'' [] ok_answer))"

subsection \<open>The second factor\<close>

definition pendingAdminMFA :: "env \<Rightarrow> request \<Rightarrow> Server \<Rightarrow> Server \<times> (api_error + PendingAdminMFA)" where
  "pendingAdminMFA en r s =
     (let expired = Inl (NewError 401 ''auth.mfa_expired'' ''MFA challenge expired'') in
      if rq_AdminMFA r = [] then (s, Inl (NewError 401 ''auth.mfa_required'' ''MFA challenge is required''))
      else case GetPendingAdminMFA (sv_store s) (rq_AdminMFA r) of Inl _ \<Rightarrow> (s, expired)
        | Inr pending \<Rightarrow> (case Now en s of (s, now) \<Rightarrow> (s, if After now (am_ExpiresAt pending) then expired else Inr pending)))"

text \<open>A trusted device is remembered for thirty days; without a token it is left out.\<close>

definition trust_device :: "env \<Rightarrow> request \<Rightarrow> string \<Rightarrow> Server \<Rightarrow> Server \<times> string option" where
  "trust_device en r adminID s =
     (case Rand en s of (s, rnd) \<Rightarrow>
      (case NewOpaqueToken 32 rnd of Inl _ \<Rightarrow> (s, None)
       | Inr token \<Rightarrow>
           (case Now en s of (s, now) \<Rightarrow> case Now en s of (s, now') \<Rightarrow>
            (fst (in_store (CreateAdminTrustedDevice \<lparr>ad_ID = [], ad_AdminID = adminID, ad_TokenHash = HashToken ''admin-trusted'' token,
                ad_UserAgent = rq_UserAgent r, ad_CreatedAt = 0, ad_ExpiresAt = now + 30 * 24 * 3600 * Second\<rparr> now') s), Some token))))"

definition completeAdminMFA :: "env \<Rightarrow> request \<Rightarrow> PendingAdminMFA \<Rightarrow> bool \<Rightarrow> Server \<Rightarrow> Server \<times> response" where
  "completeAdminMFA en r pending trustDevice s =
     (case Now en s of (s, now) \<Rightarrow>
      if After now (am_ExpiresAt pending) then refuse s 401 ''auth.mfa_expired'' ''MFA challenge expired''
      else case adminDataForSession en (am_AdminID pending) s of
        Inl _ \<Rightarrow> refuse s 401 ''auth.unauthenticated'' ''admin user no longer exists''
      | Inr user \<Rightarrow>
          (case Now en s of (s, now) \<Rightarrow>
           case new_admin_session en (am_AdminID pending) now s of
             (s, Inl _) \<Rightarrow> refuse s 500 ''system.session_failed'' ''failed to create session''
           | (s, Inr (session, sessionToken, csrfToken)) \<Rightarrow>
               (case (if trustDevice then trust_device en r (am_AdminID pending) s else (s, None)) of (s, trusted) \<Rightarrow>
                let answer = SetCookie ''authman_admin_mfa'' [] (SetCookie ''authman_admin_session'' sessionToken
                      (admin_session_data user csrfToken session));
                    s = on_store (DeletePendingAdminMFA (am_ID pending)) s
                in (staff_audit en r (am_AdminID pending) ''portal_session'' (se_ID session) ''admin.session.mfa_success''
                      [(''trusted'', VBool trustDevice)] s,
                    case trusted of None \<Rightarrow> answer | Some token \<Rightarrow> SetCookie ''authman_admin_trusted'' token answer))))"

record adminMFATOTPRequest =
  mt_Code :: string
  mt_TrustDevice :: bool

definition handleAdminMFATOTP :: "adminMFATOTPRequest handler" where
  "handleAdminMFATOTP en r body s =
     decode_body body s (\<lambda>req.
       case pendingAdminMFA en r s of (s, Inl e) \<Rightarrow> (s, WriteError e)
       | (s, Inr pending) \<Rightarrow>
           let security = GetAdminSecurity (sv_store s) (am_AdminID pending);
               invalid = (\<lambda>s. refuse s 401 ''auth.mfa_invalid'' ''invalid verification code'')
           in
           if \<not> as_TOTPEnabled security then invalid s
           else case Now en s of (s, now) \<Rightarrow>
             if \<not> VerifyTOTP (en_uc en) (as_TOTPSecret security) (mt_Code req) now then invalid s
             else completeAdminMFA en r pending (mt_TrustDevice req) s)"

end
