(* ===== verification/ServerUsers.thy ===== *)
theory ServerUsers
  imports ServerStaff
begin

text \<open>
  What administrators do with their own account and with each other (\<^verbatim>\<open>admin.go\<close>, \<^verbatim>\<open>admin_mfa.go\<close>,
  \<^verbatim>\<open>admin_smtp.go\<close>): preferences and one-time codes, users, roles, passwords and their reset.
\<close>

subsection \<open>The own account\<close>

definition handleAdminAccount :: query where
  "handleAdminAccount en r s =
     with_admin en r False s (\<lambda>session s.
       let adminID = se_SubjectID session; m = sv_store s in
       case adminDataForSession en adminID s of Inl _ \<Rightarrow> refuse s 401 ''auth.unauthenticated'' ''admin user no longer exists''
       | Inr user \<Rightarrow> (s, WriteJSON 200 (VMap (mk_map
           [(''user'', VMap user), (''security'', adminSecurityData (GetAdminSecurity m adminID) (ListAdminPasskeys m adminID)),
            (''webauthn'', VMap (mk_map [(''enabled'', VBool (en_webAuthn en))]))]))))"

text \<open>Saving the security settings of an account; \<open>what\<close> is the message of a failure.\<close>

definition save_security ::
  "env \<Rightarrow> AdminSecurity \<Rightarrow> string \<Rightarrow> Server \<Rightarrow> (AdminSecurity \<Rightarrow> Server \<Rightarrow> Server \<times> response) \<Rightarrow> Server \<times> response" where
  "save_security en security what s k =
     (case Now en s of (s, now) \<Rightarrow>
      case in_store (UpsertAdminSecurity security now) s of
        (s, Inl _) \<Rightarrow> refuse s 500 ''admin.account_save_failed'' what
      | (s, Inr updated) \<Rightarrow> k updated s)"

record adminPreferencesRequest =
  pr_MFARequirement :: string
  pr_PreferredLocale :: string
  pr_PreferredTheme :: string

definition handleAdminAccountPreferences :: "adminPreferencesRequest handler" where
  "handleAdminAccountPreferences en r body s =
     with_admin en r True s (\<lambda>session s. decode_body body s (\<lambda>req.
       let security = GetAdminSecurity (sv_store s) (se_SubjectID session);
           security = (if pr_MFARequirement req \<in> {''always'', ''new_device''}
             then security\<lparr>as_MFARequirement := pr_MFARequirement req\<rparr> else security);
           security = (if pr_PreferredLocale req \<in> {''system'', ''en'', ''zh''}
             then security\<lparr>as_PreferredLocale := pr_PreferredLocale req\<rparr> else security);
           security = (if pr_PreferredTheme req \<in> {''system'', ''light'', ''dark''}
             then security\<lparr>as_PreferredTheme := pr_PreferredTheme req\<rparr> else security)
       in save_security en security ''failed to save account settings'' s (\<lambda>updated s.
            (s, security_answer updated (se_SubjectID session) s))))"

text \<open>An administrator who is gone has no name, and the assertion that it is a string panics.\<close>

definition handleAdminTOTPStart :: query where
  "handleAdminTOTPStart en r s =
     with_admin en r True s (\<lambda>session s.
       case Rand en s of (s, rnd) \<Rightarrow>
       (case NewTOTPSecret rnd of Inl _ \<Rightarrow> refuse s 500 ''system.token_failed'' ''failed to create TOTP secret''
        | Inr secret \<Rightarrow>
            let security = (GetAdminSecurity (sv_store s) (se_SubjectID session))\<lparr>as_TOTPSecret := secret, as_TOTPEnabled := False\<rparr>
            in save_security en security ''failed to save TOTP secret'' s (\<lambda>updated s.
                 (s, case adminDataForSession en (se_SubjectID session) s of Inl _ \<Rightarrow> Aborted
                     | Inr user \<Rightarrow> (case get_any user ''username'' of
                         VStr name \<Rightarrow> WriteJSON 200 (VMap (mk_map [(''secret'', VStr secret),
                           (''otpauth_url'', VStr (TOTPAuthURL ''Authman'' name (as_TOTPSecret updated)))]))
                       | _ \<Rightarrow> Aborted)))))"

record adminTOTPVerifyRequest =
  tv_Code :: string

definition handleAdminTOTPConfirm :: "adminTOTPVerifyRequest handler" where
  "handleAdminTOTPConfirm en r body s =
     with_admin en r True s (\<lambda>session s. decode_body body s (\<lambda>req.
       let adminID = se_SubjectID session; security = GetAdminSecurity (sv_store s) adminID;
           invalid = (\<lambda>s. refuse s 400 ''auth.mfa_invalid'' ''invalid verification code'')
       in
       if as_TOTPSecret security = [] then invalid s
       else case Now en s of (s, now) \<Rightarrow>
         if \<not> VerifyTOTP (en_uc en) (as_TOTPSecret security) (tv_Code req) now then invalid s
         else save_security en (security\<lparr>as_TOTPEnabled := True\<rparr>) ''failed to enable TOTP'' s (\<lambda>updated s.
           let s = staff_audit en r adminID ''system'' adminID ''admin.totp.enable'' [] s in (s, security_answer updated adminID s))))"

definition handleAdminTOTPDisable :: query where
  "handleAdminTOTPDisable en r s =
     with_admin en r True s (\<lambda>session s.
       let adminID = se_SubjectID session;
           security = (GetAdminSecurity (sv_store s) adminID)\<lparr>as_TOTPEnabled := False, as_TOTPSecret := []\<rparr>
       in save_security en security ''failed to disable TOTP'' s (\<lambda>updated s.
            let s = staff_audit en r adminID ''system'' adminID ''admin.totp.disable'' [] s in (s, security_answer updated adminID s)))"

definition handleAdminPasskeyDelete :: "string \<Rightarrow> query" where
  "handleAdminPasskeyDelete ident en r s =
     with_admin en r True s (\<lambda>session s.
       case in_store (DeleteAdminPasskey (se_SubjectID session) (TrimSpace ident)) s of
         (s, Inl _) \<Rightarrow> refuse s 404 ''auth.passkey_not_found'' ''passkey not found''
       | (s, Inr _) \<Rightarrow> (staff_audit en r (se_SubjectID session) ''system'' (TrimSpace ident) ''admin.passkey.delete'' [] s, ok_answer))"

subsection \<open>Users\<close>

definition admin_listed :: "env \<Rightarrow> query_map \<Rightarrow> anymap \<Rightarrow> bool" where
  "admin_listed en q user =
     (let text = (\<lambda>k. Sprint en (get_any user k)); search = TrimSpace (q ''q''); role = TrimSpace (q ''kind'');
          status = TrimSpace (q ''status'')
      in (role = [] \<or> text ''role'' = role) \<and> (status = [] \<or> text ''status'' = status) \<and>
         (search = [] \<or> list_ex (\<lambda>k. containsFold (en_uc en) (text k) search) [''username'', ''email'', ''display_name'']))"

definition handleAdminUsers :: "query_map \<Rightarrow> query" where
  "handleAdminUsers q en r s =
     with_read_permission en r ''admin.users.read'' s (\<lambda>session s.
       let users = adminDataWithSecurity en (sv_store s) #
             map (\<lambda>user. adminUserDataWithSecurity en user s) (ListAdminUsers (sv_store s))
       in (s, list_page en q (filter (admin_listed en q) users)))"

text \<open>The role and the status a request gives, with the defaults of the handlers.\<close>

definition given_role :: "unicode \<Rightarrow> string \<Rightarrow> string" where
  "given_role uc raw = (if RoleID uc raw = [] then ''admin'' else RoleID uc raw)"

definition given_status :: "unicode \<Rightarrow> string \<Rightarrow> string" where
  "given_status uc raw = (let t = TrimSpace (ToLower uc raw) in if t = [] then ''active'' else t)"

record adminUserRequest =
  uq_Username :: string
  uq_Email :: string
  uq_Password :: string
  uq_Role :: string
  uq_Status :: string

definition create_admin_user :: "env \<Rightarrow> request \<Rightarrow> Session \<Rightarrow> adminUserRequest \<Rightarrow> Server \<Rightarrow> Server \<times> response" where
  "create_admin_user en r session req s =
     (case Rand en s of (s, salt) \<Rightarrow>
      (case HashPassword (en_argon2 en) (uq_Password req) (en_passwordParams en) salt of
         None \<Rightarrow> (s, Aborted)
       | Some (Inl _) \<Rightarrow> refuse s 400 ''auth.password_too_weak'' ''password is too weak''
       | Some (Inr passwordHash) \<Rightarrow>
           (case Now en s of (s, now) \<Rightarrow>
            case in_store (CreateAdminUser (en_uc en)
                \<lparr>au_ID = [], au_Username = TrimSpace (uq_Username req), au_Email = TrimSpace (uq_Email req), au_PasswordHash = passwordHash,
                 au_Role = given_role (en_uc en) (uq_Role req), au_Status = given_status (en_uc en) (uq_Status req),
                 au_CreatedAt = 0, au_UpdatedAt = 0\<rparr> now) s of
              (s, Inl e) \<Rightarrow> refuse s 400 ''admin.user_create_failed'' (error_text en e)
            | (s, Inr user) \<Rightarrow>
                let s = staff_audit en r (se_SubjectID session) ''system'' (au_ID user) ''admin.user.create''
                      [(''username'', VStr (au_Username user)), (''role'', VStr (au_Role user)), (''status'', VStr (au_Status user))] s
                in (s, WriteJSON 201 (VMap (adminUserData en user s))))))"

definition handleAdminCreateUser :: "adminUserRequest handler" where
  "handleAdminCreateUser en r body s =
     with_permission en r ''admin.users.write'' s (\<lambda>session s. decode_body body s (\<lambda>req.
       let m = sv_store s; uc = en_uc en; username = TrimSpace (uq_Username req); email = TrimSpace (uq_Email req);
           roleID = given_role uc (uq_Role req)
       in
       if username = [] then refuse s 400 ''admin.username_required'' ''username is required''
       else if adminIdentifierMatches en m username \<or> (email \<noteq> [] \<and> adminIdentifierMatches en m email)
       then refuse s 400 ''admin.user_create_failed'' ''admin user already exists''
       else if roleID = ''owner'' \<and> \<not> adminTargetIsOwner m (se_SubjectID session)
       then refuse s 403 ''admin.owner_protected'' ''only owners can assign owner role''
       else if findAdminRole en roleID s = None then refuse s 400 ''admin.role_invalid'' ''role is invalid''
       else if given_status uc (uq_Status req) \<notin> {''active'', ''disabled''} then refuse s 400 ''admin.status_invalid'' ''status is invalid''
       else create_admin_user en r session req s))"

text \<open>The profile of an account keeps its avatar; the row is saved anew.\<close>

definition save_admin_profile ::
  "env \<Rightarrow> string \<Rightarrow> string \<Rightarrow> string \<Rightarrow> Server \<Rightarrow> (Server \<Rightarrow> Server \<times> response) \<Rightarrow> Server \<times> response" where
  "save_admin_profile en adminID username email s k =
     (let profile = (case GetAdminProfile (sv_store s) adminID of
            Inl _ \<Rightarrow> \<lparr>af_AdminID = adminID, af_Username = [], af_Email = [], af_AvatarURL = [], af_CreatedAt = 0, af_UpdatedAt = 0\<rparr>
          | Inr p \<Rightarrow> p\<lparr>af_CreatedAt := 0, af_UpdatedAt := 0\<rparr>)
      in
      case Now en s of (s, now) \<Rightarrow>
      (case in_store (UpsertAdminProfile (profile\<lparr>af_Username := username, af_Email := email\<rparr>) now) s of
         (s, Inl _) \<Rightarrow> refuse s 500 ''admin.account_save_failed'' ''failed to save admin profile''
       | (s, Inr _) \<Rightarrow> k s))"

definition update_bootstrap :: "env \<Rightarrow> request \<Rightarrow> Session \<Rightarrow> adminUserRequest \<Rightarrow> Server \<Rightarrow> Server \<times> response" where
  "update_bootstrap en r session req s =
     (let m = sv_store s; uc = en_uc en; username = TrimSpace (uq_Username req); email = TrimSpace (uq_Email req);
          roleID = given_role uc (uq_Role req); status = given_status uc (uq_Status req)
      in
      if \<not> adminTargetIsOwner m (se_SubjectID session) then refuse s 403 ''admin.owner_protected'' ''only owners can edit owner users''
      else if roleID \<noteq> ''owner'' \<or> status \<noteq> ''active''
      then refuse s 403 ''admin.bootstrap_locked'' ''bootstrap owner role and status cannot be changed''
      else if list_ex (admin_clash uc username email) (ListAdminUsers m)
      then refuse s 400 ''admin.profile_conflict'' ''username or email is already in use''
      else save_admin_profile en bootstrap username email s (\<lambda>s.
        let s = staff_audit en r (se_SubjectID session) ''system'' bootstrap ''admin.user.update''
              [(''username'', VStr username), (''role'', VStr roleID), (''status'', VStr status)] s
        in (s, WriteJSON 200 (VMap (adminDataWithSecurity en (sv_store s))))))"

definition update_admin_user :: "env \<Rightarrow> request \<Rightarrow> Session \<Rightarrow> string \<Rightarrow> adminUserRequest \<Rightarrow> Server \<Rightarrow> Server \<times> response" where
  "update_admin_user en r session targetID req s =
     (let m = sv_store s; uc = en_uc en; username = TrimSpace (uq_Username req); email = TrimSpace (uq_Email req);
          roleID = given_role uc (uq_Role req); status = given_status uc (uq_Status req)
      in
      case GetAdminUser m targetID of Inl _ \<Rightarrow> refuse s 404 ''admin.user_not_found'' ''admin user not found''
      | Inr existing \<Rightarrow>
          if (au_Role existing = ''owner'' \<or> roleID = ''owner'') \<and> \<not> adminTargetIsOwner m (se_SubjectID session)
          then refuse s 403 ''admin.owner_protected'' ''only owners can edit owner users''
          else if se_SubjectID session = targetID \<and> (status \<noteq> ''active'' \<or> roleID \<noteq> au_Role existing)
          then refuse s 403 ''admin.self_lockout'' ''cannot change your own role or disable your own account''
          else if adminIdentifierMatches en m username \<or> (email \<noteq> [] \<and> adminIdentifierMatches en m email)
          then refuse s 400 ''admin.profile_conflict'' ''username or email is already in use''
          else case Now en s of (s, now) \<Rightarrow>
            (case in_store (UpdateAdminUser uc \<lparr>au_ID = targetID, au_Username = username, au_Email = email, au_PasswordHash = [],
                 au_Role = roleID, au_Status = status, au_CreatedAt = 0, au_UpdatedAt = 0\<rparr> now) s of
               (s, Inl e) \<Rightarrow> refuse s 400 ''admin.profile_conflict'' (error_text en e)
             | (s, Inr updated) \<Rightarrow>
                 save_admin_profile en (au_ID updated) (au_Username updated) (au_Email updated) s (\<lambda>s.
                   let s = staff_audit en r (se_SubjectID session) ''system'' (au_ID updated) ''admin.user.update''
                         [(''username'', VStr (au_Username updated)), (''role'', VStr (au_Role updated)),
                          (''status'', VStr (au_Status updated))] s
                   in (s, WriteJSON 200 (VMap (adminUserDataWithSecurity en updated s))))))"

definition handleAdminUpdateUser :: "string \<Rightarrow> adminUserRequest handler" where
  "handleAdminUpdateUser ident en r body s =
     with_permission en r ''admin.users.write'' s (\<lambda>session s.
       let targetID = TrimSpace ident in
       if targetID = [] then refuse s 404 ''admin.user_not_found'' ''admin user not found''
       else decode_body body s (\<lambda>req.
         if TrimSpace (uq_Username req) = [] then refuse s 400 ''admin.username_required'' ''username is required''
         else if findAdminRole en (given_role (en_uc en) (uq_Role req)) s = None then refuse s 400 ''admin.role_invalid'' ''role is invalid''
         else if given_status (en_uc en) (uq_Status req) \<notin> {''active'', ''disabled''}
         then refuse s 400 ''admin.status_invalid'' ''status is invalid''
         else if targetID = bootstrap then update_bootstrap en r session req s
         else update_admin_user en r session targetID req s))"

definition with_target ::
  "env \<Rightarrow> request \<Rightarrow> string \<Rightarrow> Server \<Rightarrow> (Session \<Rightarrow> string \<Rightarrow> Server \<Rightarrow> Server \<times> response) \<Rightarrow> Server \<times> response" where
  "with_target en r ident s k =
     with_permission en r ''admin.users.security.write'' s (\<lambda>session s.
       let targetID = TrimSpace ident in
       if \<not> adminTargetExists (sv_store s) targetID then refuse s 404 ''admin.user_not_found'' ''admin user not found''
       else if adminTargetIsOwner (sv_store s) targetID \<and> \<not> adminTargetIsOwner (sv_store s) (se_SubjectID session)
       then refuse s 403 ''admin.owner_protected'' ''only owners can manage owner MFA''
       else k session targetID s)"

definition handleAdminDisableUserTOTP :: "string \<Rightarrow> query" where
  "handleAdminDisableUserTOTP ident en r s =
     with_target en r ident s (\<lambda>session targetID s.
       let security = (GetAdminSecurity (sv_store s) targetID)\<lparr>as_AdminID := targetID, as_TOTPEnabled := False, as_TOTPSecret := []\<rparr>
       in save_security en security ''failed to disable admin TOTP'' s (\<lambda>_ s.
            let s = staff_audit en r (se_SubjectID session) ''system'' targetID ''admin.user.totp.disable'' [] s
            in (s, security_answer security targetID s)))"

definition handleAdminDeleteUserPasskey :: "string \<Rightarrow> string \<Rightarrow> query" where
  "handleAdminDeleteUserPasskey ident passkey en r s =
     with_target en r ident s (\<lambda>session targetID s.
       case in_store (DeleteAdminPasskey targetID (TrimSpace passkey)) s of
         (s, Inl _) \<Rightarrow> refuse s 404 ''auth.passkey_not_found'' ''passkey not found''
       | (s, Inr _) \<Rightarrow>
           let s = staff_audit en r (se_SubjectID session) ''system'' (TrimSpace passkey) ''admin.user.passkey.delete''
                 [(''admin_id'', VStr targetID)] s
           in (s, security_answer (GetAdminSecurity (sv_store s) targetID) targetID s))"

subsection \<open>Roles\<close>

definition permission_val :: "permission \<Rightarrow> goval" where
  "permission_val p = VStruct [(''Key'', VStr (pe_Key p)), (''Group'', VStr (pe_Group p)), (''Label'', VStr (pe_Label p)),
     (''Description'', VStr (pe_Description p))]"

definition handleAdminPermissions :: query where
  "handleAdminPermissions en r s =
     with_read_permission en r ''admin.roles.read'' s (\<lambda>session s. (s, WriteJSON 200 (VList (map permission_val Catalog))))"

definition adminRoleData :: "role \<Rightarrow> anymap" where
  "adminRoleData role = mk_map
     [(''id'', VStr (ro_ID role)), (''role_id'', VStr (ro_ID role)), (''alias'', VStr (ro_Name role)), (''name'', VStr (ro_Name role)),
      (''description'', VStr (ro_Description role)), (''permissions'', VStrs (ro_Permissions role)), (''system'', VBool (ro_System role)),
      (''created_at'', VTime (ro_CreatedAt role)), (''updated_at'', VTime (ro_UpdatedAt role))]"

definition role_listed :: "env \<Rightarrow> query_map \<Rightarrow> anymap \<Rightarrow> bool" where
  "role_listed en q row =
     (let search = TrimSpace (q ''q'') in
      search = [] \<or> list_ex (\<lambda>k. containsFold (en_uc en) (Sprint en (get_any row k)) search) [''id'', ''name'', ''alias'', ''description''])"

definition handleAdminRoles :: "query_map \<Rightarrow> query" where
  "handleAdminRoles q en r s =
     with_read_permission en r ''admin.roles.read'' s (\<lambda>session s.
       case Now en s of (s, now) \<Rightarrow>
       (s, list_page en q (filter (role_listed en q) (map adminRoleData (ListAdminRoles (en_uc en) now (sv_store s))))))"

record adminRoleRequest =
  rr_RoleID :: string
  rr_ID :: string
  rr_Alias :: string
  rr_Name :: string
  rr_Description :: string
  rr_Permissions :: "string list"

text \<open>The first of the fields that gives an identifier.\<close>

definition requested_role :: "unicode \<Rightarrow> adminRoleRequest \<Rightarrow> string" where
  "requested_role uc req =
     (let ids = map (RoleID uc) [rr_RoleID req, rr_ID req, rr_Alias req] in
      case List.find (\<lambda>i. i \<noteq> []) ids of Some i \<Rightarrow> i | None \<Rightarrow> RoleID uc (rr_Name req))"

definition save_role :: "env \<Rightarrow> request \<Rightarrow> Session \<Rightarrow> string \<Rightarrow> int \<Rightarrow> role \<Rightarrow> Server \<Rightarrow> Server \<times> response" where
  "save_role en r session event status role s =
     (case Now en s of (s, now') \<Rightarrow> case Now en s of (s, now) \<Rightarrow>
      case in_store (UpsertAdminRole (en_uc en) role now now') s of
        (s, Inl _) \<Rightarrow> refuse s 500 ''rbac.role_save_failed'' ''failed to save role''
      | (s, Inr saved) \<Rightarrow>
          (staff_audit en r (se_SubjectID session) ''system'' (ro_ID saved) event
             [(''role'', VStr (ro_ID saved)), (''permissions'', VStrs (ro_Permissions saved))] s,
           WriteJSON status (VMap (adminRoleData saved))))"

definition handleAdminCreateRole :: "adminRoleRequest handler" where
  "handleAdminCreateRole en r body s =
     with_permission en r ''admin.roles.write'' s (\<lambda>session s. decode_body body s (\<lambda>req.
       let uc = en_uc en; roleID = requested_role uc req in
       if roleID = [] then refuse s 400 ''rbac.role_id_required'' ''role id is required''
       else case findAdminRole en roleID s of
         Some existing \<Rightarrow> if ro_System existing then refuse s 403 ''rbac.role_exists'' ''system role cannot be modified''
           else refuse s 409 ''rbac.role_exists'' ''role already exists''
       | None \<Rightarrow>
           let name = (if TrimSpace (rr_Alias req) = [] then TrimSpace (rr_Name req) else TrimSpace (rr_Alias req)) in
           save_role en r session ''admin.role.create'' 201
             \<lparr>ro_ID = roleID, ro_Name = (if name = [] then roleID else name), ro_Description = TrimSpace (rr_Description req),
              ro_Permissions = NormalizePermissions uc (rr_Permissions req), ro_System = False, ro_CreatedAt = 0, ro_UpdatedAt = 0\<rparr> s))"

definition handleAdminUpdateRole :: "string \<Rightarrow> adminRoleRequest handler" where
  "handleAdminUpdateRole ident en r body s =
     with_permission en r ''admin.roles.write'' s (\<lambda>session s.
       case findAdminRole en (RoleID (en_uc en) ident) s of None \<Rightarrow> refuse s 404 ''rbac.role_not_found'' ''role not found''
       | Some base \<Rightarrow>
           if ro_System base then refuse s 403 ''rbac.system_role_locked'' ''system role cannot be modified''
           else decode_body body s (\<lambda>req.
             let name = (if TrimSpace (rr_Alias req) \<noteq> [] then TrimSpace (rr_Alias req)
                   else if TrimSpace (rr_Name req) \<noteq> [] then TrimSpace (rr_Name req) else ro_Name base);
                 description = (if rr_Description req \<noteq> [] then TrimSpace (rr_Description req) else ro_Description base)
             in save_role en r session ''admin.role.update'' 200
                  (base\<lparr>ro_Name := name, ro_Description := description,
                     ro_Permissions := NormalizePermissions (en_uc en) (rr_Permissions req)\<rparr>) s))"

definition handleAdminDeleteRole :: "string \<Rightarrow> query" where
  "handleAdminDeleteRole ident en r s =
     with_permission en r ''admin.roles.write'' s (\<lambda>session s.
       let roleID = RoleID (en_uc en) ident in
       if roleID = [] then refuse s 400 ''rbac.role_not_found'' ''role not found''
       else case Now en s of (s, now) \<Rightarrow>
         if (case DefaultRole now roleID of None \<Rightarrow> False | Some base \<Rightarrow> ro_System base)
         then refuse s 403 ''rbac.system_role_locked'' ''system role cannot be deleted''
         else case Now en s of (s, now) \<Rightarrow>
           (case in_store (DeleteAdminRole (en_uc en) roleID now) s of
              (s, Inl e) \<Rightarrow>
                if Contains (error_text en e) ''not found'' then refuse s 404 ''rbac.role_not_found'' (error_text en e)
                else refuse s 400 ''rbac.role_in_use'' (error_text en e)
            | (s, Inr _) \<Rightarrow> (staff_audit en r (se_SubjectID session) ''system'' roleID ''admin.role.delete'' [] s, ok_answer)))"

subsection \<open>Passwords\<close>

text \<open>A panic is \<open>None\<close>, an error the first alternative of \<open>Some\<close>.\<close>

definition updateAdminPassword :: "env \<Rightarrow> string \<Rightarrow> string \<Rightarrow> Server \<Rightarrow> Server \<times> (api_error + unit) option" where
  "updateAdminPassword en adminID password s =
     (let failed = Some (Inl (NewError 500 ''admin.password_save_failed'' ''failed to save password'')) in
      case Rand en s of (s, salt) \<Rightarrow>
      (case HashPassword (en_argon2 en) password (en_passwordParams en) salt of
         None \<Rightarrow> (s, None)
       | Some (Inl e) \<Rightarrow> (s, Some (Inl (NewError 400 ''auth.password_invalid'' (error_text en e))))
       | Some (Inr hash) \<Rightarrow>
           (case Now en s of (s, now) \<Rightarrow>
            if adminID = bootstrap
            then case in_store (SetSystemSetting ''bootstrap_admin_auth''
                   (mk_map [(''password_hash'', VStr hash), (''updated_at'', VStr (rfc3339 now))])) s of
                 (s, Inl _) \<Rightarrow> (s, failed) | (s, Inr _) \<Rightarrow> (s, Some (Inr ()))
            else case in_store (UpdateAdminUserPassword adminID hash now) s of
                 (s, Inl _) \<Rightarrow> (s, failed) | (s, Inr _) \<Rightarrow> (s, Some (Inr ())))))"

definition verifyAdminCurrentPassword :: "env \<Rightarrow> memory \<Rightarrow> string \<Rightarrow> string \<Rightarrow> bool option" where
  "verifyAdminCurrentPassword en m adminID password =
     (if adminID = bootstrap then verifyAdminPassword en m (en_AdminUsername en) password
      else case GetAdminUser m adminID of Inl _ \<Rightarrow> Some False
        | Inr user \<Rightarrow> right_password en password (au_PasswordHash user))"

record adminPasswordChangeRequest =
  pw_CurrentPassword :: string
  pw_NewPassword :: string

definition handleAdminAccountPassword :: "adminPasswordChangeRequest handler" where
  "handleAdminAccountPassword en r body s =
     with_admin en r True s (\<lambda>session s. decode_body body s (\<lambda>req.
       let adminID = se_SubjectID session in
       case ValidatePassword (pw_NewPassword req) DefaultPasswordPolicy of
         Some e \<Rightarrow> refuse s 400 ''auth.password_invalid'' (error_text en e)
       | None \<Rightarrow>
           (case verifyAdminCurrentPassword en (sv_store s) adminID (pw_CurrentPassword req) of
              None \<Rightarrow> (s, Aborted)
            | Some False \<Rightarrow> refuse s 401 ''auth.invalid_credentials'' ''current password is invalid''
            | Some True \<Rightarrow>
                (case updateAdminPassword en adminID (pw_NewPassword req) s of
                   (s, None) \<Rightarrow> (s, Aborted) | (s, Some (Inl e)) \<Rightarrow> (s, WriteError e)
                 | (s, Some (Inr _)) \<Rightarrow>
                     (staff_audit en r adminID ''system'' adminID ''admin.account.password_update'' [] s, ok_answer)))))"

definition reset_key :: "string \<Rightarrow> string" where "reset_key token = HashToken ''admin-password-reset'' token"

record adminPasswordResetConfirmRequest =
  pz_Token :: string
  pz_NewPassword :: string

definition handleAdminPasswordResetConfirm :: "adminPasswordResetConfirmRequest handler" where
  "handleAdminPasswordResetConfirm en r body s =
     decode_body body s (\<lambda>req.
       let token = TrimSpace (pz_Token req) in
       if token = [] then refuse s 400 ''auth.reset_token_required'' ''reset token is required''
       else case Now en s of (s, now) \<Rightarrow>
         (case GetAdminPasswordReset (sv_store s) (reset_key token) now of
            Inl _ \<Rightarrow> refuse s 400 ''auth.reset_token_invalid'' ''reset token is invalid or expired''
          | Inr reset \<Rightarrow>
              (case ValidatePassword (pz_NewPassword req) DefaultPasswordPolicy of
                 Some e \<Rightarrow> refuse s 400 ''auth.password_invalid'' (error_text en e)
               | None \<Rightarrow>
                   (case updateAdminPassword en (ar_AdminID reset) (pz_NewPassword req) s of
                      (s, None) \<Rightarrow> (s, Aborted) | (s, Some (Inl e)) \<Rightarrow> (s, WriteError e)
                    | (s, Some (Inr _)) \<Rightarrow>
                        (case Now en s of (s, now) \<Rightarrow>
                         let s = fst (in_store (MarkAdminPasswordResetUsed (AdminPasswordReset.ar_ID reset) now) s)
                         in (staff_audit en r (ar_AdminID reset) ''system'' (AdminPasswordReset.ar_ID reset) ''admin.password_reset.confirm'' [] s, ok_answer))))))"

end
