(* ===== verification/ServerMail.thy ===== *)
theory ServerMail
  imports ServerUsers
begin

text \<open>
  Mail (\<^verbatim>\<open>admin_smtp.go\<close>): the settings of the mail server, test messages, and the links with which an
  administrator who forgot the password sets a new one.  The conversation with the mail server is a
  parameter, the message and the delivery to the log are not.
\<close>

subsection \<open>Settings\<close>

record smtpSettingsRequest =
  mr_Enabled :: bool
  mr_DeliveryMode :: string
  mr_Host :: string
  mr_Port :: int
  mr_Security :: string
  mr_Username :: string
  mr_Password :: string
  mr_ClearPassword :: bool
  mr_FromName :: string
  mr_FromEmail :: string
  mr_ReplyTo :: string
  mr_TimeoutSeconds :: int
  mr_ResetTokenTTLMinutes :: int

record smtpSettings =
  ms_Enabled :: bool
  ms_DeliveryMode :: string
  ms_Host :: string
  ms_Port :: int
  ms_Security :: string
  ms_Username :: string
  ms_Password :: string
  ms_FromName :: string
  ms_FromEmail :: string
  ms_ReplyTo :: string
  ms_TimeoutSeconds :: int
  ms_ResetTokenTTLMinutes :: int

definition clampInt :: "int \<Rightarrow> int \<Rightarrow> int \<Rightarrow> int" where
  "clampInt v lo hi = (if v < lo then lo else if hi < v then hi else v)"

definition normalizeSMTPSettings :: "unicode \<Rightarrow> smtpSettingsRequest \<Rightarrow> string \<Rightarrow> api_error + smtpSettings" where
  "normalizeSMTPSettings uc req existingPassword =
     (let mode = ToLower uc (TrimSpace (mr_DeliveryMode req));
          mode = (if mode = [] then ''smtp'' else mode);
          security = ToLower uc (TrimSpace (mr_Security req));
          security = (if security = [] then ''starttls'' else security);
          port = (if mr_Port req \<le> 0 then if security = ''tls'' then 465 else 587 else mr_Port req);
          fromName = TrimSpace (mr_FromName req); fromEmail = TrimSpace (mr_FromEmail req)
      in
      if mode \<noteq> ''smtp'' \<and> mode \<noteq> ''log'' then Inl (NewError 400 ''admin.smtp_delivery_invalid'' ''delivery mode must be smtp or log'')
      else if security \<notin> {''none'', ''starttls'', ''tls''}
      then Inl (NewError 400 ''admin.smtp_security_invalid'' ''SMTP security must be none, starttls, or tls'')
      else Inr
        \<lparr>ms_Enabled = mr_Enabled req, ms_DeliveryMode = mode, ms_Host = TrimSpace (mr_Host req), ms_Port = clampInt port 1 65535,
         ms_Security = security, ms_Username = TrimSpace (mr_Username req), ms_Password = existingPassword,
         ms_FromName = (if fromName = [] then ''Authman Core'' else fromName),
         ms_FromEmail = (if fromEmail = [] then ''authman@localhost'' else fromEmail), ms_ReplyTo = TrimSpace (mr_ReplyTo req),
         ms_TimeoutSeconds = clampInt (mr_TimeoutSeconds req) 1 60,
         ms_ResetTokenTTLMinutes = clampInt (mr_ResetTokenTTLMinutes req) 5 1440\<rparr>)"

text \<open>What holds before anything is saved, and the zero value where a stored text is no longer valid.\<close>

definition default_smtp_request :: smtpSettingsRequest where
  "default_smtp_request =
     \<lparr>mr_Enabled = False, mr_DeliveryMode = ''log'', mr_Host = [], mr_Port = 587, mr_Security = ''starttls'', mr_Username = [],
      mr_Password = [], mr_ClearPassword = False, mr_FromName = ''Authman Core'', mr_FromEmail = ''authman@localhost'', mr_ReplyTo = [],
      mr_TimeoutSeconds = 10, mr_ResetTokenTTLMinutes = 30\<rparr>"

definition zero_smtpSettings :: smtpSettings where
  "zero_smtpSettings =
     \<lparr>ms_Enabled = False, ms_DeliveryMode = [], ms_Host = [], ms_Port = 0, ms_Security = [], ms_Username = [], ms_Password = [],
      ms_FromName = [], ms_FromEmail = [], ms_ReplyTo = [], ms_TimeoutSeconds = 0, ms_ResetTokenTTLMinutes = 0\<rparr>"

definition default_smtp :: "unicode \<Rightarrow> smtpSettings" where
  "default_smtp uc = (case normalizeSMTPSettings uc default_smtp_request [] of Inl _ \<Rightarrow> zero_smtpSettings | Inr settings \<Rightarrow> settings)"

definition loadSMTPSettings :: "env \<Rightarrow> memory \<Rightarrow> smtpSettings" where
  "loadSMTPSettings en m =
     (let d = default_smtp (en_uc en) in
      case GetSystemSetting m ''smtp'' of Inl _ \<Rightarrow> d
      | Inr raw \<Rightarrow>
          let text = (\<lambda>k v. stringValue en (get_any raw k) v); number = (\<lambda>k v. intValue (get_any raw k) v);
              req = \<lparr>mr_Enabled = boolValue (en_uc en) (get_any raw ''enabled'') (ms_Enabled d),
                mr_DeliveryMode = text ''delivery_mode'' (ms_DeliveryMode d), mr_Host = text ''host'' (ms_Host d),
                mr_Port = number ''port'' (ms_Port d), mr_Security = text ''security'' (ms_Security d),
                mr_Username = text ''username'' (ms_Username d), mr_Password = text ''password'' (ms_Password d),
                mr_ClearPassword = False, mr_FromName = text ''from_name'' (ms_FromName d),
                mr_FromEmail = text ''from_email'' (ms_FromEmail d), mr_ReplyTo = text ''reply_to'' (ms_ReplyTo d),
                mr_TimeoutSeconds = number ''timeout_seconds'' (ms_TimeoutSeconds d),
                mr_ResetTokenTTLMinutes = number ''reset_token_ttl_minutes'' (ms_ResetTokenTTLMinutes d)\<rparr>
          in case normalizeSMTPSettings (en_uc en) req (text ''password'' (ms_Password d)) of Inl _ \<Rightarrow> d | Inr settings \<Rightarrow> settings)"

definition smtpSettingsMap :: "smtpSettings \<Rightarrow> anymap" where
  "smtpSettingsMap settings = mk_map
     [(''enabled'', VBool (ms_Enabled settings)), (''delivery_mode'', VStr (ms_DeliveryMode settings)),
      (''host'', VStr (ms_Host settings)), (''port'', VInt (ms_Port settings)), (''security'', VStr (ms_Security settings)),
      (''username'', VStr (ms_Username settings)), (''password'', VStr (ms_Password settings)),
      (''from_name'', VStr (ms_FromName settings)), (''from_email'', VStr (ms_FromEmail settings)),
      (''reply_to'', VStr (ms_ReplyTo settings)), (''timeout_seconds'', VInt (ms_TimeoutSeconds settings)),
      (''reset_token_ttl_minutes'', VInt (ms_ResetTokenTTLMinutes settings))]"

definition smtpSettingsData :: "smtpSettings \<Rightarrow> anymap option \<Rightarrow> goval" where
  "smtpSettingsData settings shown =
     (let d = gput (gdel (smtpSettingsMap settings) ''password'') ''password_set'' (VBool (ms_Password settings \<noteq> [])) in
      VMap (case shown of None \<Rightarrow> d | Some message \<Rightarrow> gput d ''last_message'' (VMap message)))"

definition handleAdminSMTPSettings :: query where
  "handleAdminSMTPSettings en r s =
     with_admin en r False s (\<lambda>session s.
       let m = sv_store s; message = (case GetSystemSetting m ''smtp_last_message'' of Inl _ \<Rightarrow> None | Inr v \<Rightarrow> Some v)
       in (s, WriteJSON 200 (smtpSettingsData (loadSMTPSettings en m) message)))"

definition handleAdminUpdateSMTPSettings :: "smtpSettingsRequest handler" where
  "handleAdminUpdateSMTPSettings en r body s =
     with_admin en r True s (\<lambda>session s. decode_body body s (\<lambda>req.
       case normalizeSMTPSettings (en_uc en) req (ms_Password (loadSMTPSettings en (sv_store s))) of Inl e \<Rightarrow> (s, WriteError e)
       | Inr settings \<Rightarrow>
           let settings = (if mr_ClearPassword req then settings\<lparr>ms_Password := []\<rparr> else settings);
               settings = (if TrimSpace (mr_Password req) \<noteq> [] then settings\<lparr>ms_Password := mr_Password req\<rparr> else settings)
           in
           (case in_store (SetSystemSetting ''smtp'' (smtpSettingsMap settings)) s of
              (s, Inl _) \<Rightarrow> refuse s 500 ''admin.smtp_save_failed'' ''failed to save SMTP settings''
            | (s, Inr _) \<Rightarrow>
                (staff_audit en r (se_SubjectID session) ''system'' ''smtp'' ''admin.smtp.update''
                   [(''enabled'', VBool (ms_Enabled settings)), (''delivery_mode'', VStr (ms_DeliveryMode settings)),
                    (''host'', VStr (ms_Host settings)), (''from_email'', VStr (ms_FromEmail settings))] s,
                 WriteJSON 200 (smtpSettingsData settings None)))))"

subsection \<open>Messages\<close>

definition quoteSMTPHeader :: "string \<Rightarrow> string" where
  "quoteSMTPHeader v = filter (\<lambda>c. c \<noteq> CHR 0x0D \<and> c \<noteq> CHR 0x0A) v"

definition crlf :: string where "crlf = [CHR 0x0D, CHR 0x0A]"

definition buildSMTPMessage :: "smtpSettings \<Rightarrow> string \<Rightarrow> string \<Rightarrow> string \<Rightarrow> string" where
  "buildSMTPMessage settings recipient subject body =
     (let origin = (if ms_FromName settings \<noteq> [] then quoteSMTPHeader (ms_FromName settings) @ '' <'' @ ms_FromEmail settings @ ''>''
            else ms_FromEmail settings);
          headers = [''From: '' @ origin, ''To: '' @ recipient, ''Subject: '' @ quoteSMTPHeader subject, ''MIME-Version: 1.0'',
            ''Content-Type: text/plain; charset=UTF-8'', ''Content-Transfer-Encoding: 8bit''] @
            (if ms_ReplyTo settings \<noteq> [] then [''Reply-To: '' @ ms_ReplyTo settings] else [])
      in concat (map (\<lambda>h. h @ crlf) headers) @ crlf @ body @ crlf)"

text \<open>How a message was delivered; \<^verbatim>\<open>log\<close> keeps it as the last message among the settings.\<close>

definition sendAdminMail :: "env \<Rightarrow> smtpSettings \<Rightarrow> string \<Rightarrow> string \<Rightarrow> string \<Rightarrow> Server \<Rightarrow> Server \<times> string result" where
  "sendAdminMail en settings recipient subject body s =
     (if \<not> ms_Enabled settings then (s, Inl (Err ''SMTP is disabled''))
      else if TrimSpace recipient = [] then (s, Inl (Err ''recipient is required''))
      else if ms_DeliveryMode settings = ''log'' then
        (case Now en s of (s, now) \<Rightarrow>
          (fst (in_store (SetSystemSetting ''smtp_last_message'' (mk_map
             [(''to'', VStr recipient), (''subject'', VStr subject), (''body'', VStr body), (''created_at'', VStr (rfc3339 now))])) s),
           Inr ''log''))
      else if ms_Host settings = [] then (s, Inl (Err ''SMTP host is required''))
      else
        (s\<lparr>sv_tick := sv_tick s + 1\<rparr>,
         (case en_smtp en (sv_tick s) (smtpSettingsMap settings) recipient (buildSMTPMessage settings recipient subject body) of
            Inl e \<Rightarrow> Inl e | Inr _ \<Rightarrow> Inr ''smtp'')))"

record smtpTestRequest =
  me_To :: string

definition handleAdminSMTPTest :: "smtpTestRequest handler" where
  "handleAdminSMTPTest en r body s =
     with_admin en r True s (\<lambda>session s. decode_body body s (\<lambda>req.
       let recipient = TrimSpace (me_To req);
           recipient = (if recipient \<noteq> [] then recipient
             else case adminDataForSession en (se_SubjectID session) s of Inl _ \<Rightarrow> []
               | Inr user \<Rightarrow> (case get_any user ''email'' of VStr email \<Rightarrow> email | _ \<Rightarrow> []))
       in
       if recipient = [] then refuse s 400 ''admin.smtp_to_required'' ''test recipient is required''
       else case sendAdminMail en (loadSMTPSettings en (sv_store s)) recipient ''Authman SMTP test''
           ''This is a test message from Authman Core.'' s of
         (s, Inl e) \<Rightarrow> refuse s 400 ''admin.smtp_send_failed'' (error_text en e)
       | (s, Inr delivery) \<Rightarrow>
           (staff_audit en r (se_SubjectID session) ''system'' ''smtp'' ''admin.smtp.test''
              [(''to'', VStr recipient), (''delivery_mode'', VStr delivery)] s,
            WriteJSON 200 (VMap (mk_map [(''ok'', VBool True), (''delivery'', VStr delivery)])))))"

subsection \<open>Forgotten passwords\<close>

text \<open>The administrator an identifier stands for, and the address to write to.\<close>

definition findPasswordResetTarget :: "env \<Rightarrow> memory \<Rightarrow> string \<Rightarrow> string \<times> string" where
  "findPasswordResetTarget en m identifier =
     (if identifier = [] then ([], [])
      else if adminIdentifierMatches en m identifier
      then (bootstrap, TrimSpace (case get_any (adminData en m) ''email'' of VStr email \<Rightarrow> email | _ \<Rightarrow> []))
      else case FindAdminUserByIdentifier (en_uc en) m identifier of Inl _ \<Rightarrow> ([], [])
        | Inr user \<Rightarrow> if au_Status user \<noteq> ''active'' then ([], []) else (au_ID user, TrimSpace (au_Email user)))"

definition adminPasswordResetURL :: "env \<Rightarrow> request \<Rightarrow> string \<Rightarrow> string" where
  "adminPasswordResetURL en r token =
     (let base = TrimRight_slash (en_PublicBaseURL en); base = (if base = [] then rq_Origin r else base);
          separator = (if Contains base ''?'' then ''&'' else ''?'')
      in base @ ''/login'' @ separator @ ''reset_token='' @ QueryEscape token)"

definition reset_text :: "string \<Rightarrow> time \<Rightarrow> string" where
  "reset_text link expiresAt =
     (let nl = [CHR 0x0A] in
      ''A password reset was requested for your Authman Core administrator account.'' @ nl @ nl @
      ''Open this link to set a new password:'' @ nl @ link @ nl @ nl @
      ''This link expires at '' @ rfc3339 expiresAt @ ''.'' @ nl @ nl @ ''If you did not request this, ignore this message.'')"

record adminPasswordResetRequest =
  pd_Identifier :: string

definition send_reset :: "env \<Rightarrow> request \<Rightarrow> smtpSettings \<Rightarrow> string \<Rightarrow> string \<Rightarrow> Server \<Rightarrow> Server" where
  "send_reset en r settings adminID email s =
     (case Rand en s of (s, rnd) \<Rightarrow>
      (case NewOpaqueToken 32 rnd of Inl _ \<Rightarrow> s
       | Inr rawToken \<Rightarrow>
           (case Now en s of (s, now) \<Rightarrow> case Now en s of (s, now') \<Rightarrow>
            let expiresAt = now + ms_ResetTokenTTLMinutes settings * Minute in
            (case in_store (SaveAdminPasswordReset \<lparr>AdminPasswordReset.ar_ID = [], ar_AdminID = adminID, ar_TokenHash = reset_key rawToken,
                 ar_CreatedAt = now', ar_ExpiresAt = expiresAt, ar_UsedAt = None\<rparr> now') s of (s, reset) \<Rightarrow>
             (case sendAdminMail en settings email ''Reset your Authman Core password''
                 (reset_text (adminPasswordResetURL en r rawToken) expiresAt) s of
                (s, Inl _) \<Rightarrow> s
              | (s, Inr _) \<Rightarrow>
                  staff_audit en r adminID ''system'' (AdminPasswordReset.ar_ID reset) ''admin.password_reset.request''
                    [(''email'', VStr email)] s)))))"

text \<open>The answer does not tell whether the account exists.\<close>

definition handleAdminPasswordResetRequest :: "adminPasswordResetRequest handler" where
  "handleAdminPasswordResetRequest en r body s =
     decode_body body s (\<lambda>req.
       let settings = loadSMTPSettings en (sv_store s) in
       case findPasswordResetTarget en (sv_store s) (TrimSpace (pd_Identifier req)) of (adminID, email) \<Rightarrow>
       (if adminID \<noteq> [] \<and> email \<noteq> [] \<and> ms_Enabled settings then send_reset en r settings adminID email s else s, ok_answer))"

end
