(* ===== verification/ServerRuns.thy ===== *)
theory ServerRuns
  imports ServerAdmin
begin

text \<open>
  The handlers as runs of the store.  What a handler does to the store is a sequence of the steps of
  StoreSystem, none of which stores a malformed grant or link, and it never touches the registry of
  nodes; this is shown for each handler by one rule per construct of its definition.  It follows
  that the invariants of the store hold in every state the server can reach.
\<close>

subsection \<open>Well-formed tokens\<close>

definition grant_wf :: "string \<Rightarrow> TransferGrant \<Rightarrow> bool" where
  "grant_wf h g \<longleftrightarrow> tg_TokenHash g = h \<and>
     5 * Second \<le> tg_ExpiresAt g - tg_CreatedAt g \<and> tg_ExpiresAt g - tg_CreatedAt g \<le> 300 * Second \<and>
     0 < tg_TargetPort g \<and> tg_TargetPort g \<le> 65535 \<and> tg_TargetHost g \<noteq> [] \<and>
     (case tg_ConsumedAt g of None \<Rightarrow> True | Some t \<Rightarrow> t < tg_ExpiresAt g)"

definition link_wf :: "string \<Rightarrow> PortalLink \<Rightarrow> bool" where
  "link_wf h l \<longleftrightarrow> li_TokenHash l = h \<and> 0 < li_ExpiresAt l - li_CreatedAt l \<and>
     li_ExpiresAt l - li_CreatedAt l \<le> 3600 * Second \<and> li_Kind l \<in> {''premium'', ''offline''} \<and>
     (li_Status l = PortalLinkUsed \<longleftrightarrow> li_UsedAt l \<noteq> None) \<and> (li_Status l = PortalLinkRevoked \<longleftrightarrow> li_RevokedAt l \<noteq> None) \<and>
     (case li_UsedAt l of None \<Rightarrow> True | Some t \<Rightarrow> t < li_ExpiresAt l)"

definition tokens_ok :: "memory \<Rightarrow> bool" where
  "tokens_ok m \<longleftrightarrow> (\<forall>h g. gget (transferGrants m) h = Some g \<longrightarrow> grant_wf h g) \<and>
     (\<forall>h l. gget (portalLinksByToken m) h = Some l \<longrightarrow> link_wf h l)"

lemma tokens_ok_shrinks:
  "tokens_ok m \<Longrightarrow> shrinks (transferGrants m) (transferGrants m') \<Longrightarrow>
   shrinks (portalLinksByToken m) (portalLinksByToken m') \<Longrightarrow> tokens_ok m'"
  unfolding tokens_ok_def shrinks_def by metis

definition same_tokens :: "memory \<Rightarrow> memory \<Rightarrow> bool" where
  "same_tokens m m' \<longleftrightarrow> transferGrants m' = transferGrants m \<and> portalLinksByToken m' = portalLinksByToken m"

lemma tokens_ok_same: "same_tokens m m' \<Longrightarrow> tokens_ok m' = tokens_ok m"
  by (simp add: same_tokens_def tokens_ok_def)

subsection \<open>Safe steps\<close>

text \<open>Under the hashes outside \<open>H\<close>, what is dead stays dead.\<close>

definition dead_kept :: "string set \<Rightarrow> memory \<Rightarrow> memory \<Rightarrow> bool" where
  "dead_kept H m m' \<longleftrightarrow> (\<forall>h. h \<notin> H \<longrightarrow> (grant_dead m h \<longrightarrow> grant_dead m' h) \<and> (link_dead m h \<longrightarrow> link_dead m' h))"

lemma dead_kept_same: "same_tokens m m' \<Longrightarrow> dead_kept H m m'"
  by (simp add: same_tokens_def dead_kept_def grant_dead_def link_dead_def)

lemma dead_kept_shrinks:
  "shrinks (transferGrants m) (transferGrants m') \<Longrightarrow> shrinks (portalLinksByToken m) (portalLinksByToken m') \<Longrightarrow> dead_kept H m m'"
  unfolding dead_kept_def grant_dead_def link_dead_def shrinks_def by metis

lemma dead_kept_mono: "dead_kept H m m' \<Longrightarrow> H \<subseteq> K \<Longrightarrow> dead_kept K m m'"
  by (auto simp: dead_kept_def)

lemma dead_kept_trans: "dead_kept H m m' \<Longrightarrow> dead_kept H' m' m'' \<Longrightarrow> H \<union> H' \<subseteq> K \<Longrightarrow> dead_kept K m m''"
  unfolding dead_kept_def by blast

definition safe_step :: "unicode \<Rightarrow> memory \<Rightarrow> memory \<Rightarrow> bool" where
  "safe_step uc m m' \<longleftrightarrow> store_step uc m m' \<and> (tokens_ok m \<longrightarrow> tokens_ok m') \<and> dead_kept {} m m'"

abbreviation (input) safe_steps :: "unicode \<Rightarrow> memory \<Rightarrow> memory \<Rightarrow> bool" where
  "safe_steps uc \<equiv> (safe_step uc)\<^sup>*\<^sup>*"

lemma safe_identity: "identity_step uc m m' \<Longrightarrow> safe_steps uc m m'"
  using identity_step_aside [of uc m m']
  by (auto intro!: r_into_rtranclp by_identity intro: tokens_ok_shrinks dead_kept_shrinks simp: safe_step_def aside_def)

lemma safe_table: "table_step uc m m' \<Longrightarrow> same_tokens m m' \<Longrightarrow> safe_steps uc m m'"
  by (auto intro!: r_into_rtranclp by_table simp: safe_step_def tokens_ok_same dead_kept_same)

lemma safe_record:
  assumes "record_step uc m m'" shows "safe_steps uc m m'"
proof -
  from assms have "same_tokens m m'"
  proof cases
    case (do_AppendAuditEvent e)
    then show ?thesis by (simp add: same_tokens_def AppendAuditEvent_def Let_def)
  next
    case (do_UpsertPresence p t)
    then show ?thesis using presence_writes(1) [of p t m] by (auto simp: same_tokens_def)
  next
    case (do_EndPresence i r t)
    then show ?thesis using presence_writes(2) [of i r t m] by (auto simp: same_tokens_def)
  next
    case (do_EndProfilePresences i r t)
    then show ?thesis using presence_writes(3) [of "\<lambda>p. pc_ProfileID p = i" r t m]
      by (auto simp: EndProfilePresences_def same_tokens_def)
  next
    case (do_EndPassportPresences i r t)
    then show ?thesis using presence_writes(3) [of "\<lambda>p. pc_PassportID p = i" r t m]
      by (auto simp: EndPassportPresences_def same_tokens_def)
  next
    case (do_CreateAdminUser u t)
    then show ?thesis using admin_writes(1) [of uc u t m] by (auto simp: same_tokens_def)
  next
    case (do_UpdateAdminUserProfile i name email t)
    then show ?thesis using admin_writes(2) [of uc i name email t m] by (auto simp: same_tokens_def)
  next
    case (do_UpdateAdminUser u t)
    then show ?thesis using admin_writes(3) [of uc u t m] by (auto simp: same_tokens_def)
  next
    case (do_UpdateAdminUserPassword i h t)
    then show ?thesis using admin_writes(4) [of i h t m] by (auto simp: same_tokens_def)
  qed
  with assms show ?thesis by (auto intro!: r_into_rtranclp by_record simp: safe_step_def tokens_ok_same dead_kept_same)
qed

lemmas identity_safe = identity_step.intros [THEN safe_identity]
lemmas record_safe = record_step.intros [THEN safe_record]

lemma table_safe:
  "safe_steps uc m (SetPassportPremiumTextures i ps m)"
  "safe_steps uc m (fst (RememberPortalAuthCache i ip ttl t m))"
  "safe_steps uc m (fst (UsePortalAuthCache i ip t m))"
  "safe_steps uc m (fst (UpdateSession x m))"
  "safe_steps uc m (fst (EnqueueNodeAction a t m))"
  "safe_steps uc m (fst (CreateBan b t m))"
  "safe_steps uc m (fst (ExtendBan i t m))"
  "safe_steps uc m (fst (RevokeBan i who reason t m))"
  "safe_steps uc m (fst (SetSystemSetting k v m))"
  "safe_steps uc m (fst (UpsertExtensionPlayerData d t m))"
  by ((rule safe_table, rule table_step.intros,
      auto simp: same_tokens_def SetPassportPremiumTextures_def RememberPortalAuthCache_def UsePortalAuthCache_def
        UpdateSession_def EnqueueNodeAction_def CreateBan_def ExtendBan_def RevokeBan_def SetSystemSetting_def
        UpsertExtensionPlayerData_def Let_def split: option.split; fail)+)

lemma ack_same_tokens: "same_tokens m (fst (AckNodeActions n ids t m))"
proof -
  have "same_tokens m (fst (foldl (ack_step i t) (m, 0) xs))" if "distinct xs" for i xs
  proof (cases "foldl (ack_step i t) (m, 0) xs")
    case (Pair m' n)
    have "same_tokens m (m\<lparr>nodeActionsByID := nodeActionsByID m'\<rparr>)" by (simp add: same_tokens_def)
    then show ?thesis unfolding ack_steps(3) [OF that Pair, symmetric] Pair by simp
  qed
  then show ?thesis by (auto simp: AckNodeActions_def same_tokens_def Let_def)
qed

lemma ack_safe: "safe_steps uc m (fst (AckNodeActions n ids t m))"
  by (rule safe_table [OF do_AckNodeActions ack_same_tokens])

lemma save_grant_steps:
  "store_step uc m (SaveTransferGrant g m)" "dead_kept {tg_TokenHash g} m (SaveTransferGrant g m)"
  "grant_wf (tg_TokenHash g) g \<Longrightarrow> tokens_ok m \<Longrightarrow> tokens_ok (SaveTransferGrant g m)"
  by (rule by_table, rule do_SaveTransferGrant)
    (auto simp: tokens_ok_def dead_kept_def grant_dead_def link_dead_def SaveTransferGrant_def)

lemma save_link_steps:
  "store_step uc m (SavePortalLink l m)" "dead_kept {li_TokenHash l} m (SavePortalLink l m)"
  "link_wf (li_TokenHash l) l \<Longrightarrow> tokens_ok m \<Longrightarrow> tokens_ok (SavePortalLink l m)"
  by (rule by_table, rule do_SavePortalLink)
    (auto simp: tokens_ok_def dead_kept_def grant_dead_def link_dead_def SavePortalLink_def)

lemma consume_safe: "safe_steps uc m (fst (ConsumeTransferGrant uc h a m))"
proof -
  have "tokens_ok (fst (ConsumeTransferGrant uc h a m))" if ok: "tokens_ok m"
  proof (cases "ConsumeTransferGrant uc h a m")
    case (Pair m' r)
    show ?thesis
    proof (cases r)
      case (Inl e)
      with Pair ok ConsumeTransferGrant_Inl [of uc h a m m' e] show ?thesis by simp
    next
      case (Inr g')
      with Pair ConsumeTransferGrant_Inr [of uc h a m m' g'] obtain g
        where g: "gget (transferGrants m) h = Some g" "grant_matches uc a g"
          and g': "g' = g\<lparr>tg_GateNodeID := ca_gateNodeID a, tg_ConsumedAt := Some (ca_now a)\<rparr>"
          and m': "m' = m\<lparr>transferGrants := gput (transferGrants m) h g'\<rparr>" by auto
      from ok g(1) have "grant_wf h g" by (simp add: tokens_ok_def)
      with g(2) have "grant_wf h g'" by (simp add: g' grant_wf_def grant_matches_def)
      with ok show ?thesis by (simp add: Pair m' tokens_ok_def)
    qed
  qed
  moreover have "dead_kept {} m (fst (ConsumeTransferGrant uc h a m))"
    by (auto simp: dead_kept_def grant_dead_def link_dead_def ConsumeTransferGrant_def Let_def split: option.split)
  ultimately show ?thesis by (auto intro!: r_into_rtranclp by_table do_ConsumeTransferGrant simp: safe_step_def)
qed

subsection \<open>Runs of handlers\<close>

text \<open>The hashes of the tokens made from the draws \<open>i\<close> to \<open>j - 1\<close>.\<close>

definition drawn :: "env \<Rightarrow> nat \<Rightarrow> nat \<Rightarrow> string set" where
  "drawn en i j = {h. \<exists>k token. i \<le> k \<and> k < j \<and> NewOpaqueToken 32 (en_rand en k) = Inr token \<and>
     (h = HashToken ''transfer-grant'' token \<or> h = HashToken ''portal-link'' token)}"

lemma drawn_mono:
  assumes "i' \<le> i" "j \<le> j'" shows "drawn en i j \<subseteq> drawn en i' j'"
proof
  fix h assume "h \<in> drawn en i j"
  then obtain k token where "i \<le> k" "k < j" and token: "NewOpaqueToken 32 (en_rand en k) = Inr token"
    "h = HashToken ''transfer-grant'' token \<or> h = HashToken ''portal-link'' token" by (auto simp: drawn_def)
  moreover from this(1,2) assms have "i' \<le> k" "k < j'" by simp_all
  ultimately show "h \<in> drawn en i' j'" by (auto simp: drawn_def)
qed

lemma drawn_Rand:
  "Rand en s = (s', rnd) \<Longrightarrow> NewOpaqueToken 32 rnd = Inr token \<Longrightarrow>
     HashToken ''transfer-grant'' token \<in> drawn en (sv_draw s) (sv_draw s') \<and> HashToken ''portal-link'' token \<in> drawn en (sv_draw s) (sv_draw s')"
  by (auto simp: drawn_def Rand_def)

text \<open>
  The store has gone through steps of the store; if its tokens were well formed they are; and a
  token that could not be used can be used only if it was drawn since.
\<close>

definition served :: "env \<Rightarrow> Server \<Rightarrow> Server \<Rightarrow> bool" where
  "served en s s' \<longleftrightarrow> (store_step (en_uc en))\<^sup>*\<^sup>* (sv_store s) (sv_store s') \<and>
     (tokens_ok (sv_store s) \<longrightarrow> tokens_ok (sv_store s')) \<and> sv_nodes s' = sv_nodes s \<and> sv_draw s \<le> sv_draw s' \<and>
     dead_kept (drawn en (sv_draw s) (sv_draw s')) (sv_store s) (sv_store s')"

lemma safe_steps_served:
  "safe_steps uc m m' \<Longrightarrow> (store_step uc)\<^sup>*\<^sup>* m m' \<and> (tokens_ok m \<longrightarrow> tokens_ok m') \<and> dead_kept H m m'"
proof (induction rule: rtranclp_induct)
  case base
  show ?case by (simp add: dead_kept_def)
next
  case (step m' m'')
  then have "dead_kept H m m''" unfolding safe_step_def dead_kept_def by blast
  with step show ?case by (auto simp: safe_step_def intro: rtranclp.rtrancl_into_rtrancl)
qed

text \<open>A computation that starts from \<open>s\<close> or later.\<close>

definition runs :: "env \<Rightarrow> Server \<Rightarrow> Server \<times> 'a \<Rightarrow> bool" where
  "runs en s p \<longleftrightarrow> served en s (fst p)"

named_theorems served_intros

lemma served_refl: "served en s s"
  by (simp add: served_def dead_kept_def)

lemma served_trans: "served en s s' \<Longrightarrow> served en s' s'' \<Longrightarrow> served en s s''"
proof -
  assume a: "served en s s'" and b: "served en s' s''"
  then have d: "sv_draw s \<le> sv_draw s'" "sv_draw s' \<le> sv_draw s''" by (simp_all add: served_def)
  have "drawn en (sv_draw s) (sv_draw s') \<union> drawn en (sv_draw s') (sv_draw s'') \<subseteq> drawn en (sv_draw s) (sv_draw s'')"
    using d by (intro Un_least drawn_mono) simp_all
  with a b have "dead_kept (drawn en (sv_draw s) (sv_draw s'')) (sv_store s) (sv_store s'')"
    unfolding served_def by (blast intro: dead_kept_trans)
  moreover have "(store_step (en_uc en))\<^sup>*\<^sup>* (sv_store s) (sv_store s'')"
    using a b unfolding served_def by (blast intro: rtranclp_trans)
  ultimately show ?thesis using a b d by (simp add: served_def)
qed

lemma served_same: "sv_store s' = sv_store s \<Longrightarrow> sv_nodes s' = sv_nodes s \<Longrightarrow> sv_draw s \<le> sv_draw s' \<Longrightarrow> served en s s'"
  by (simp add: served_def dead_kept_def)

lemma served_fields [served_intros]:
  "served en s0 s \<Longrightarrow> served en s0 (s\<lparr>sv_tick := t\<rparr>)" "served en s0 s \<Longrightarrow> served en s0 (s\<lparr>sv_draw := sv_draw s + 1\<rparr>)"
  "served en s0 s \<Longrightarrow> served en s0 (s\<lparr>sv_mojang := v\<rparr>)"
  by (erule served_trans, rule served_same, simp_all)+

lemma served_to_store:
  "served en s0 s \<Longrightarrow> safe_steps (en_uc en) (sv_store s) m \<Longrightarrow> served en s0 (s\<lparr>sv_store := m\<rparr>)"
  by (erule served_trans) (simp add: served_def safe_steps_served)

lemma served_on_store [served_intros]:
  "served en s0 s \<Longrightarrow> safe_steps (en_uc en) (sv_store s) (f (sv_store s)) \<Longrightarrow> served en s0 (on_store f s)"
  unfolding on_store_def by (rule served_to_store)

text \<open>A grant or link is saved with a token drawn since.\<close>

lemma served_save:
  assumes "served en s0 s" and "h \<in> drawn en (sv_draw s0) (sv_draw s)"
    and "store_step (en_uc en) (sv_store s) (f (sv_store s))" "dead_kept {h} (sv_store s) (f (sv_store s))"
    and "tokens_ok (sv_store s) \<Longrightarrow> tokens_ok (f (sv_store s))"
  shows "served en s0 (on_store f s)"
proof -
  have "dead_kept (drawn en (sv_draw s0) (sv_draw s)) (sv_store s0) (sv_store s)"
    using assms(1) by (simp add: served_def)
  moreover from assms(2,4) have "dead_kept (drawn en (sv_draw s0) (sv_draw s)) (sv_store s) (f (sv_store s))"
    by (auto intro: dead_kept_mono)
  ultimately have "dead_kept (drawn en (sv_draw s0) (sv_draw s)) (sv_store s0) (f (sv_store s))"
    by (rule dead_kept_trans) simp
  moreover have "(store_step (en_uc en))\<^sup>*\<^sup>* (sv_store s0) (f (sv_store s))"
    using assms(1,3) unfolding served_def by (blast intro: rtranclp.rtrancl_into_rtrancl)
  moreover have "tokens_ok (sv_store s0) \<longrightarrow> tokens_ok (f (sv_store s))" using assms(1,5) unfolding served_def by blast
  ultimately show ?thesis using assms(1) unfolding served_def by simp
qed

lemma drawn_since:
  assumes "served en s0 s1" and "Rand en s1 = (s2, rnd)" and "NewOpaqueToken 32 rnd = Inr token"
  shows "HashToken ''transfer-grant'' token \<in> drawn en (sv_draw s0) (sv_draw s2)"
    "HashToken ''portal-link'' token \<in> drawn en (sv_draw s0) (sv_draw s2)"
proof -
  from assms(1) have "sv_draw s0 \<le> sv_draw s1" by (simp add: served_def)
  then have "drawn en (sv_draw s1) (sv_draw s2) \<subseteq> drawn en (sv_draw s0) (sv_draw s2)" by (intro drawn_mono) simp_all
  with drawn_Rand [OF assms(2,3)] show "HashToken ''transfer-grant'' token \<in> drawn en (sv_draw s0) (sv_draw s2)"
    "HashToken ''portal-link'' token \<in> drawn en (sv_draw s0) (sv_draw s2)" by blast+
qed

lemma served_if [served_intros]:
  "(P \<Longrightarrow> served en s0 s) \<Longrightarrow> (\<not> P \<Longrightarrow> served en s0 s') \<Longrightarrow> served en s0 (if P then s else s')"
  by simp

lemma served_fst [served_intros]: "runs en s0 p \<Longrightarrow> served en s0 (fst p)"
  by (simp add: runs_def)

lemma served_audit [served_intros]:
  "served en s0 s \<Longrightarrow> served en s0 (auditWithClientIP en r ip a i t j e d s)"
  "served en s0 s \<Longrightarrow> served en s0 (audit en r a i t j e d s)"
  "served en s0 s \<Longrightarrow> served en s0 (admin_audit en r session j e ds s)"
  by (auto simp: auditWithClientIP_def audit_def admin_audit_def Now_def intro!: served_intros record_safe)

lemma served_seen [served_intros]:
  "served en s0 s \<Longrightarrow> served en s0 (recordPassportProfileSeenWithClientIP en r q p sid ip now s)"
  by (auto simp: recordPassportProfileSeenWithClientIP_def intro!: served_intros identity_safe split: prod.split)

named_theorems runs_intros

lemma runs_pair: "served en s0 s \<Longrightarrow> runs en s0 (s, x)"
  by (simp add: runs_def)

lemma runs_calls [runs_intros]:
  "served en s0 s \<Longrightarrow> runs en s0 (Now en s)" "served en s0 s \<Longrightarrow> runs en s0 (Rand en s)"
  "served en s0 s \<Longrightarrow> runs en s0 (refuse s n c msg)"
  "served en s0 s \<Longrightarrow> safe_steps (en_uc en) (sv_store s) (fst (f (sv_store s))) \<Longrightarrow> runs en s0 (in_store f s)"
  by (simp_all add: runs_def served_fields [simplified] served_to_store)

lemma runs_bind [runs_intros]:
  "runs en s0 p \<Longrightarrow> (\<And>s x. p = (s, x) \<Longrightarrow> served en s0 s \<Longrightarrow> runs en s0 (k s x)) \<Longrightarrow> runs en s0 (case p of (s, x) \<Rightarrow> k s x)"
  by (cases p) (simp add: runs_def)

lemma runs_split [runs_intros]:
  "(\<And>a b. x = (a, b) \<Longrightarrow> runs en s0 (k1 a b)) \<Longrightarrow> runs en s0 (case x of (a, b) \<Rightarrow> k1 a b)"
  "(P \<Longrightarrow> runs en s0 p) \<Longrightarrow> (\<not> P \<Longrightarrow> runs en s0 q) \<Longrightarrow> runs en s0 (if P then p else q)"
  "(o' = None \<Longrightarrow> runs en s0 p) \<Longrightarrow> (\<And>y. o' = Some y \<Longrightarrow> runs en s0 (k2 y)) \<Longrightarrow>
    runs en s0 (case o' of None \<Rightarrow> p | Some y \<Rightarrow> k2 y)"
  "(\<And>e. v = Inl e \<Longrightarrow> runs en s0 (k3 e)) \<Longrightarrow> (\<And>y. v = Inr y \<Longrightarrow> runs en s0 (k4 y)) \<Longrightarrow>
    runs en s0 (case v of Inl e \<Rightarrow> k3 e | Inr y \<Rightarrow> k4 y)"
  "(b \<Longrightarrow> runs en s0 p) \<Longrightarrow> (\<not> b \<Longrightarrow> runs en s0 q) \<Longrightarrow> runs en s0 (case b of True \<Rightarrow> p | False \<Rightarrow> q)"
  "(se = ErrProfileNotFound \<Longrightarrow> runs en s0 p) \<Longrightarrow> (\<And>t. se = SessionError t \<Longrightarrow> runs en s0 (k5 t)) \<Longrightarrow>
    runs en s0 (case se of ErrProfileNotFound \<Rightarrow> p | SessionError t \<Rightarrow> k5 t)"
  by (auto split: prod.split option.split sum.split bool.split session_error.split)

lemma runs_let_server [runs_intros]:
  "served en s0 v \<Longrightarrow> (\<And>s. s = v \<Longrightarrow> served en s0 s \<Longrightarrow> runs en s0 (k s)) \<Longrightarrow> runs en s0 (Let v k)"
  by (simp add: Let_def)

lemma runs_let: "runs en s0 (k v) \<Longrightarrow> runs en s0 (Let v k)"
  by (simp add: Let_def)

lemma runs_with_node [runs_intros]:
  "served en s0 s \<Longrightarrow> (\<And>n. requireNode en r s = Inr n \<Longrightarrow> runs en s0 (k n)) \<Longrightarrow> runs en s0 (with_node en r s k)"
  by (auto simp: with_node_def runs_def split: sum.split)

lemma runs_decode_body [runs_intros]:
  "served en s0 s \<Longrightarrow> (\<And>req. body = Some req \<Longrightarrow> runs en s0 (k req)) \<Longrightarrow> runs en s0 (decode_body body s k)"
  by (auto simp: decode_body_def runs_def split: option.split)


lemma runs_foldl [runs_intros]:
  assumes "served en s0 s" and "\<And>s c x. served en s0 s \<Longrightarrow> runs en s0 (f (s, c) x)"
  shows "runs en s0 (foldl f (s, c) xs)"
  using assms(1)
proof (induction xs arbitrary: s c)
  case (Cons x xs)
  from assms(2) [OF Cons.prems, of c x] Cons.IH show ?case by (cases "f (s, c) x") (auto simp: runs_def)
qed (simp add: runs_def)

lemma served_foldl [served_intros]:
  "served en s0 s \<Longrightarrow> (\<And>s x. served en s0 s \<Longrightarrow> served en s0 (f s x)) \<Longrightarrow> served en s0 (foldl f s xs)"
  by (induction xs arbitrary: s) auto

lemma served_cases [served_intros]:
  "(\<And>s x. p = (s, x) \<Longrightarrow> served en s0 s \<Longrightarrow> served en s0 (k s x)) \<Longrightarrow> runs en s0 p \<Longrightarrow> served en s0 (case p of (s, x) \<Rightarrow> k s x)"
  "(o' = None \<Longrightarrow> served en s0 p') \<Longrightarrow> (\<And>y. o' = Some y \<Longrightarrow> served en s0 (k2 y)) \<Longrightarrow>
    served en s0 (case o' of None \<Rightarrow> p' | Some y \<Rightarrow> k2 y)"
  "(\<And>e. v = Inl e \<Longrightarrow> served en s0 (k3 e)) \<Longrightarrow> (\<And>y. v = Inr y \<Longrightarrow> served en s0 (k4 y)) \<Longrightarrow>
    served en s0 (case v of Inl e \<Rightarrow> k3 e | Inr y \<Rightarrow> k4 y)"
  by (cases p; auto simp: runs_def) (auto split: option.split sum.split)

lemma served_let: "served en s0 (k v) \<Longrightarrow> served en s0 (Let v k)"
  by (simp add: Let_def)

subsection \<open>The handlers\<close>

lemmas leaves = runs_let runs_pair served_let table_safe identity_safe record_safe ack_safe consume_safe served_refl

lemma run_nodePassportResolveData [runs_intros]:
  "served en s0 s \<Longrightarrow> runs en s0 (nodePassportResolveDataWithPlayer en q sel ver ip s)"
  "served en s0 s \<Longrightarrow> runs en s0 (nodePassportResolveData en q ver ip s)"
  by (simp_all only: nodePassportResolveData_def nodePassportResolveDataWithPlayer_def) (assumption | rule runs_intros served_intros leaves)+

lemma run_rememberPortalAuthCache [runs_intros]:
  "served en s0 s \<Longrightarrow> runs en s0 (rememberPortalAuthCache en i ip t s)"
  unfolding rememberPortalAuthCache_def by (assumption | rule runs_intros served_intros leaves)+

lemma run_ask_mojang [runs_intros]: "served en s0 s \<Longrightarrow> runs en s0 (ask_mojang f en v s)"
  by (auto simp: ask_mojang_def runs_def intro!: served_intros split: prod.split)


text \<open>Sign in.\<close>

text \<open>
  Two assumptions of StoreReach reach the handlers that register accounts: a UUID of Mojang has not
  the version of the UUIDs made here, and two offline names have not the same hash.
\<close>

definition foreign_uuid :: "string \<Rightarrow> bool" where
  "foreign_uuid t \<longleftrightarrow> (\<forall>u. ParseUUID t = Inr u \<longrightarrow> uuid_version u \<noteq> 8)"

lemma foreign_premium:
  "foreign_uuid t \<Longrightarrow> ParseUUID t = Inr u \<Longrightarrow> safe_steps uc m (fst (UpsertPremiumPassport uc name u now m))"
  by (rule identity_safe) (simp_all add: foreign_uuid_def ParseUUID_exact)

lemma run_resolvePendingGrantPlayer [runs_intros]:
  "served en s0 s \<Longrightarrow> runs en s0 (resolvePendingGrantPlayer en n req s)"
  unfolding resolvePendingGrantPlayer_def by (assumption | rule runs_intros served_intros leaves)+

lemma run_resolveNodePassport [runs_intros]:
  "foreign_uuid (rp_VerifiedUUID req) \<Longrightarrow> served en s0 s \<Longrightarrow> runs en s0 (resolveNodePassport en n req s)"
  unfolding resolveNodePassport_def by (assumption | erule foreign_premium | rule runs_intros served_intros leaves)+

lemma run_handleNodeResolvePlayer:
  assumes "\<forall>req. body = Some req \<longrightarrow> foreign_uuid (rp_VerifiedUUID req)"
  shows "runs en s (handleNodeResolvePlayer en r body s)"
  unfolding handleNodeResolvePlayer_def
  by (assumption | rule runs_intros served_intros leaves assms [rule_format])+


lemma run_persistPremiumPassport [runs_intros]:
  "foreign_uuid (mp_ID profile) \<Longrightarrow> served en s0 s \<Longrightarrow> runs en s0 (persistPremiumPassport en profile s)"
  unfolding persistPremiumPassport_def by (assumption | erule foreign_premium | rule runs_intros served_intros leaves)+

lemma run_verify [runs_intros]:
  "served en s0 s \<Longrightarrow> runs en s0 (verify_failed en r n req e s)"
  "foreign_uuid (mp_ID profile) \<Longrightarrow> served en s0 s \<Longrightarrow> runs en s0 (verify_succeeded en r n req profile s)"
  unfolding verify_failed_def verify_succeeded_def by (assumption | rule runs_intros served_intros leaves)+

definition foreign_profiles :: "env \<Rightarrow> bool" where
  "foreign_profiles en \<longleftrightarrow> (\<forall>i now q v v' p. HasJoined (en_http en i) now q v = (v', Inr p) \<longrightarrow> foreign_uuid (mp_ID p))"

lemma ask_mojang_foreign:
  assumes "foreign_profiles en" and "ask_mojang (\<lambda>http now. HasJoined http now q) en v s = (s', x)" and "x = Inr p"
  shows "foreign_uuid (mp_ID p)"
proof (cases "HasJoined (en_http en (sv_tick s)) (en_clock en (sv_tick s)) q v")
  case (Pair v' res)
  with assms show ?thesis unfolding foreign_profiles_def by (auto simp: ask_mojang_def)
qed

lemma run_handleNodeVerifyLimboSession:
  assumes "foreign_profiles en" shows "runs en s (handleNodeVerifyLimboSession en r body s)"
  unfolding handleNodeVerifyLimboSession_def
  by (assumption | erule (1) ask_mojang_foreign [OF assms] | rule runs_intros served_intros leaves)+

lemma run_writePolicy [runs_intros]: "served en s0 s \<Longrightarrow> runs en s0 (writePolicy en r n req mode reason premium s)"
  unfolding writePolicy_def by (assumption | rule runs_intros served_intros leaves)+

lemma run_handleNodeResolveLimboLoginPolicy: "runs en s (handleNodeResolveLimboLoginPolicy en r body s)"
  unfolding handleNodeResolveLimboLoginPolicy_def
  by (assumption | rule runs_intros served_intros leaves)+

text \<open>Passwords.\<close>

lemma run_password [runs_intros]:
  "served en s0 s \<Longrightarrow> runs en s0 (password_accepted en r n ip passport s)"
  "served en s0 s \<Longrightarrow> runs en s0 (password_rejected en r n ip passport s)"
  unfolding password_accepted_def password_rejected_def by (assumption | rule runs_intros served_intros leaves)+

lemma run_handleNodeAuthenticatePlayer: "runs en s (handleNodeAuthenticatePlayer en r body s)"
  unfolding handleNodeAuthenticatePlayer_def by (assumption | rule runs_intros served_intros leaves)+

lemma run_handleNodeRememberPortalAuth: "runs en s (handleNodeRememberPortalAuth en r body s)"
  unfolding handleNodeRememberPortalAuth_def by (assumption | rule runs_intros served_intros leaves)+

lemma run_recovery [runs_intros]:
  "served en s0 s \<Longrightarrow> runs en s0 (newPasswordRecoveryKeyState en s)"
  "served en s0 s \<Longrightarrow> runs en s0 (savePasswordRecoveryKey st s)"
  unfolding newPasswordRecoveryKeyState_def savePasswordRecoveryKey_def
  by (assumption | rule runs_intros served_intros leaves)+

lemma run_ensurePasswordRecoveryKey [runs_intros]:
  "served en s0 s \<Longrightarrow> runs en s0 (ensurePasswordRecoveryKey en s)"
  unfolding ensurePasswordRecoveryKey_def by (assumption | rule runs_intros served_intros leaves)+

lemma run_offlinePasswordCredential [runs_intros]:
  "served en s0 s \<Longrightarrow> runs en s0 (offlinePasswordCredential en password s)"
  unfolding offlinePasswordCredential_def by (assumption | rule runs_intros served_intros leaves)+


text \<open>Making sure of the recovery key changes no passport, so a name stays free of collisions.\<close>

lemma recovery_passports:
  "passportsByID (sv_store (fst (newPasswordRecoveryKeyState en s))) = passportsByID (sv_store s)"
  "passportsByID (sv_store (fst (savePasswordRecoveryKey st s))) = passportsByID (sv_store s)"
  by (simp_all add: newPasswordRecoveryKeyState_def savePasswordRecoveryKey_def SetSystemSetting_def Now_def Rand_def Let_def
      split: sum.split prod.split)

lemma ensure_passports: "passportsByID (sv_store (fst (ensurePasswordRecoveryKey en s))) = passportsByID (sv_store s)"
proof -
  obtain s1 x where n: "newPasswordRecoveryKeyState en s = (s1, x)" by fastforce
  have s1: "passportsByID (sv_store s1) = passportsByID (sv_store s)" using recovery_passports(1) [of en s] by (simp add: n)
  show ?thesis
  proof (cases x)
    case (Inr st)
    obtain s2 y where v: "savePasswordRecoveryKey st s1 = (s2, y)" by fastforce
    have "passportsByID (sv_store s2) = passportsByID (sv_store s)"
      using recovery_passports(2) [of st s1] s1 by (simp add: v)
    with n Inr v show ?thesis by (simp add: ensurePasswordRecoveryKey_def Let_def split: sum.split)
  qed (use n s1 in \<open>simp add: ensurePasswordRecoveryKey_def Let_def split: sum.split\<close>)
qed

lemma offlinePasswordCredential_passports:
  "offlinePasswordCredential en password s = (s', x) \<Longrightarrow> passportsByID (sv_store s') = passportsByID (sv_store s)"
  using ensure_passports [of en s]
  by (cases "ensurePasswordRecoveryKey en s") (auto simp: offlinePasswordCredential_def split: sum.splits)

lemma collision_free_cong: "passportsByID m' = passportsByID m \<Longrightarrow> collision_free uc m' n = collision_free uc m n"
  by (simp add: collision_free_def offline_passport_def)

lemma run_CreateOfflinePassport:
  assumes free: "collision_free (en_uc en) (sv_store s) (ToLower (en_uc en) name)"
    and s': "offlinePasswordCredential en password (s\<lparr>sv_draw := d\<rparr>) = (s', x)" "served en s0 s'"
  shows "runs en s0 (in_store (CreateOfflinePassport (en_uc en) name h e f now) (s'\<lparr>sv_tick := t\<rparr>))"
proof -
  have "passportsByID (sv_store s') = passportsByID (sv_store s)"
    using offlinePasswordCredential_passports [OF s'(1)] by simp
  note same = collision_free_cong [OF this, of "en_uc en" "ToLower (en_uc en) name"]
  show ?thesis
  proof (rule runs_calls(4) [OF served_fields(1) [OF s'(2)]])
    show "safe_steps (en_uc en) (sv_store (s'\<lparr>sv_tick := t\<rparr>))
        (fst (CreateOfflinePassport (en_uc en) name h e f now (sv_store (s'\<lparr>sv_tick := t\<rparr>))))"
      using free same by (intro safe_identity do_CreateOfflinePassport) simp
  qed
qed

lemma run_passport_registered [runs_intros]:
  "served en s0 s \<Longrightarrow> runs en s0 (passport_registered en r n req passport s)"
  unfolding passport_registered_def by (assumption | rule runs_intros served_intros leaves)+

definition free_name :: "env \<Rightarrow> Server \<Rightarrow> string \<Rightarrow> bool" where
  "free_name en s name \<longleftrightarrow> collision_free (en_uc en) (sv_store s) (ToLower (en_uc en) (TrimSpace name))"

lemma run_handleNodeRegisterOfflinePlayer:
  assumes "\<forall>req. body = Some req \<longrightarrow> free_name en s (ro_Username req)"
  shows "runs en s (handleNodeRegisterOfflinePlayer en r body s)"
  unfolding handleNodeRegisterOfflinePlayer_def Rand_def Now_def Let_def prod.case
  by (assumption | rule run_CreateOfflinePassport [OF assms [rule_format, unfolded free_name_def]] |
      rule runs_intros served_intros leaves)+

text \<open>Presences and bans.\<close>

lemma run_enqueue [runs_intros]:
  "served en s0 s \<Longrightarrow> runs en s0 (enqueueDisconnectActions en ps reason now s)"
  "served en s0 s \<Longrightarrow> runs en s0 (enqueuePresenceCheckActions en ps reason now s)"
  unfolding enqueueDisconnectActions_def enqueuePresenceCheckActions_def enqueue_action_def prod.case
  by (assumption | rule runs_intros served_intros leaves)+

lemma served_process [served_intros]:
  "served en s0 s \<Longrightarrow> served en s0 (processNodeActionAckResults en r n results now s)"
  unfolding processNodeActionAckResults_def process_result_def
  by (assumption | rule runs_intros served_intros leaves)+

lemma run_handleNodeAckActions: "runs en s (handleNodeAckActions en r body s)"
  unfolding handleNodeAckActions_def by (assumption | rule runs_intros served_intros leaves)+

lemma run_requestPresenceCheck [runs_intros]:
  "served en s0 s \<Longrightarrow> runs en s0 (requestPresenceCheckOverWebSocket en p s)"
  unfolding requestPresenceCheckOverWebSocket_def by (assumption | rule runs_intros served_intros leaves)+

lemma served_refresh_step:
  "served en s0 (rf_server acc) \<Longrightarrow> served en s0 (rf_server (refresh_step en r n now acc p))"
  using run_requestPresenceCheck [of en s0 "rf_server acc" p]
  by (auto simp: refresh_step_def runs_def intro!: served_intros split: prod.split option.split)

lemma served_refresh_steps:
  "served en s0 (rf_server acc) \<Longrightarrow> served en s0 (rf_server (foldl (refresh_step en r n now) acc ps))"
  by (induction ps arbitrary: acc) (simp_all add: served_refresh_step)

lemma run_refresh [runs_intros]:
  "served en s0 s \<Longrightarrow> runs en s0 (refreshPresencesViaWebSocket en r n ps reason now s)"
  unfolding refreshPresencesViaWebSocket_def Let_def
  by (assumption | rule runs_intros served_refresh_steps leaves | simp)+

lemma run_conflict [runs_intros]:
  "served en s0 s \<Longrightarrow> runs en s0 (refreshProfileServerPresenceConflict en r n i sid existing now s)"
  unfolding refreshProfileServerPresenceConflict_def by (assumption | rule runs_intros served_intros leaves)+

lemma served_reconcile: "served en s (reconcileActivePresences en s)"
  unfolding reconcileActivePresences_def reconcile_step_def by (assumption | rule runs_intros served_intros leaves)+

lemma run_handleNodeEndPresence: "runs en s (handleNodeEndPresence en r body s)"
  unfolding handleNodeEndPresence_def end_step_def prod.case by (assumption | rule runs_intros served_intros leaves)+

lemma run_ban [runs_intros]:
  "served en s0 s \<Longrightarrow> runs en s0 (parseBanExpiry en e n s)"
  "served en s0 s \<Longrightarrow> runs en s0 (activeBanForPassportProfile en i j s)"
  unfolding parseBanExpiry_def activeBanForPassportProfile_def by (assumption | rule runs_intros served_intros leaves)+

lemma run_banFromNodeRequest [runs_intros]:
  "served en s0 s \<Longrightarrow> runs en s0 (banFromNodeRequest en req scope i who s)"
  unfolding banFromNodeRequest_def by (assumption | rule runs_intros served_intros leaves)+

lemma run_node_bans:
  "runs en s (handleNodeCreateProfileBan en r body s)" "runs en s (handleNodeCreatePassportBan en r body s)"
  unfolding handleNodeCreateProfileBan_def handleNodeCreatePassportBan_def
  by (assumption | rule runs_intros served_intros leaves)+


text \<open>Transfers.\<close>

lemma served_promote [served_intros]:
  "served en s0 s \<Longrightarrow> served en s0 (promoteGrantProfilePrimary en r n passport player ip s)"
  unfolding promoteGrantProfilePrimary_def by (assumption | rule runs_intros served_intros leaves)+

lemma grant_ttl_bounds: "5 \<le> grant_ttl target n \<and> grant_ttl target n \<le> 300"
  by (simp add: grant_ttl_def Let_def)

lemma NewTransferGrant_wf:
  assumes "NewTransferGrant pl pp sv pn ps ip u name (dg_TransferHost (DownstreamTargetFromServer uc d))
      (dg_TransferPort (DownstreamTargetFromServer uc d)) (grant_ttl (DownstreamTargetFromServer uc d) n * Second) now rnd
    = Inr y" and "y = (g, token)"
  shows "grant_wf (tg_TokenHash g) g"
  using assms DownstreamTarget_bounds [of uc d] grant_ttl_bounds [of "DownstreamTargetFromServer uc d" n]
  by (auto simp: NewTransferGrant_def grant_wf_def split: sum.splits)


lemma served_new_grant:
  assumes r: "Rand en s1 = (s, rnd)" and "served en s0 s1" "served en s0 s"
    and n: "NewTransferGrant pl pp sv pn ps ip u name (dg_TransferHost (DownstreamTargetFromServer uc d))
      (dg_TransferPort (DownstreamTargetFromServer uc d)) (grant_ttl (DownstreamTargetFromServer uc d) n * Second) now rnd
    = Inr y" "y = (g, token)"
  shows "served en s0 (on_store (SaveTransferGrant g) s)"
proof -
  from n have "NewOpaqueToken 32 rnd = Inr token" "tg_TokenHash g = HashToken ''transfer-grant'' token"
    by (auto simp: NewTransferGrant_def split: sum.splits)
  with drawn_since [OF assms(2) r] have "tg_TokenHash g \<in> drawn en (sv_draw s0) (sv_draw s)" by simp
  from served_save [where f = "SaveTransferGrant g", OF assms(3) this save_grant_steps(1,2)] save_grant_steps(3) [OF NewTransferGrant_wf [OF n]]
  show ?thesis by blast
qed

lemma run_issue_grant [runs_intros]:
  "served en s0 s \<Longrightarrow> runs en s0 (issue_grant en r n req opts ev server (DownstreamTargetFromServer uc d) player passport s)"
  unfolding issue_grant_def
  by (assumption | erule (4) served_new_grant | rule runs_intros served_intros leaves)+

lemma run_grant_refused [runs_intros]:
  "served en s0 s \<Longrightarrow> runs en s0 (grant_refused en r n ev ip t i d e s)"
  unfolding grant_refused_def by (assumption | rule runs_intros served_intros leaves)+

lemma run_grant_for_player [runs_intros]:
  "served en s0 s \<Longrightarrow> target = DownstreamTargetFromServer uc d \<Longrightarrow>
   runs en s0 (grant_for_player en r n req opts ev ev2 server target s)"
  unfolding grant_for_player_def by (assumption | hypsubst | rule runs_intros served_intros leaves)+

lemma resolveDownstreamTarget_target:
  "resolveDownstreamTarget en n i slug host m = Inr y \<Longrightarrow> y = (server, target) \<Longrightarrow>
   target = DownstreamTargetFromServer (en_uc en) server"
  by (auto simp: resolveDownstreamTarget_def Let_def split: option.splits sum.splits if_splits)

lemma run_writeNodeTransferGrant [runs_intros]:
  "served en s0 s \<Longrightarrow> runs en s0 (writeNodeTransferGrant en r n req opts s)"
  unfolding writeNodeTransferGrant_def
  by (assumption | erule (1) resolveDownstreamTarget_target | rule runs_intros served_intros leaves refl)+

lemma run_handleNodeCreateTransferGrant:
  "runs en s (handleNodeCreateTransferGrant en r body s)" "runs en s (handleNodeCreateDownstreamTransfer en r body s)"
  unfolding handleNodeCreateTransferGrant_def handleNodeCreateDownstreamTransfer_def
  by (assumption | rule runs_intros served_intros leaves)+

lemma run_rejectProfileAlreadyOnline [runs_intros]:
  "served en s0 s \<Longrightarrow> runs en s0 (rejectProfileAlreadyOnline en r n player i ip ps counts s)"
  unfolding rejectProfileAlreadyOnline_def by (assumption | rule runs_intros served_intros leaves)+

lemma run_clear_conflict [runs_intros]:
  "served en s0 s \<Longrightarrow> (\<And>s. served en s0 s \<Longrightarrow> runs en s0 (k s)) \<Longrightarrow>
   runs en s0 (clear_conflict en r n player i ip ps now s k)"
  unfolding clear_conflict_def by (assumption | rule runs_intros served_intros leaves)+

lemma run_open_presence [runs_intros]:
  "served en s0 s \<Longrightarrow> (\<And>p s. served en s0 s \<Longrightarrow> runs en s0 (k p s)) \<Longrightarrow>
   runs en s0 (open_presence en r n player ip input now s k)"
  unfolding open_presence_def Let_def by (assumption | rule runs_intros served_intros leaves)+

lemma run_player_admitted [runs_intros]:
  "served en s0 s \<Longrightarrow> runs en s0 (player_admitted en r n req server target g p q player b now presence s)"
  unfolding player_admitted_def by (assumption | rule runs_intros served_intros leaves)+

lemma run_admit_player [runs_intros]:
  "served en s0 s \<Longrightarrow> runs en s0 (admit_player en r n req server target g s)"
  unfolding admit_player_def by (assumption | rule runs_intros served_intros leaves)+

lemma run_handleNodeConsumeTransferGrant: "runs en s (handleNodeConsumeTransferGrant en r body s)"
  unfolding handleNodeConsumeTransferGrant_def by (assumption | rule runs_intros served_intros leaves)+

text \<open>Profiles.\<close>

lemma run_create_profile [runs_intros]:
  "served en s0 s \<Longrightarrow> runs en s0 (create_profile en r n req passport name s)"
  unfolding create_profile_def by (assumption | rule runs_intros served_intros leaves)+

lemma run_handleNodeCreateProfile: "runs en s (handleNodeCreateProfile en r body s)"
  unfolding handleNodeCreateProfile_def by (assumption | rule runs_intros served_intros leaves)+

lemma run_handleNodeRenameProfile: "runs en s (handleNodeRenameProfile en r body s)"
  unfolding handleNodeRenameProfile_def by (assumption | rule runs_intros served_intros leaves)+

lemma portalLinkTTL_bounds:
  "portalLinkTTL raw n = Inr ttl \<Longrightarrow> 0 < ttl \<and> ttl \<le> 3600 * Second"
  by (auto simp: portalLinkTTL_def Let_def split: if_splits option.splits)

lemma NewPortalLink_wf:
  "NewPortalLink kind i sid ttl now rnd = Inr y \<Longrightarrow> y = (l, token) \<Longrightarrow> 0 < ttl \<and> ttl \<le> 3600 * Second \<Longrightarrow>
   kind \<in> {''premium'', ''offline''} \<Longrightarrow>
   link_wf (li_TokenHash (l\<lparr>li_SuggestedProfileID := a, li_IssuedByNodeID := b\<rparr>)) (l\<lparr>li_SuggestedProfileID := a, li_IssuedByNodeID := b\<rparr>)"
  by (auto simp: NewPortalLink_def link_wf_def split: sum.splits)

lemma served_new_link:
  assumes r: "Rand en s1 = (s2, rnd)" and t: "Now en s2 = (s, now)" and "served en s0 s1" "served en s0 s"
    and n: "NewPortalLink kind i sid ttl now rnd = Inr y" "y = (l, token)"
    and "0 < ttl \<and> ttl \<le> 3600 * Second" and "kind \<in> {''premium'', ''offline''}"
  shows "served en s0 (on_store (SavePortalLink (l\<lparr>li_SuggestedProfileID := a, li_IssuedByNodeID := b\<rparr>)) s)"
proof -
  from n have "NewOpaqueToken 32 rnd = Inr token" "li_TokenHash l = HashToken ''portal-link'' token"
    by (auto simp: NewPortalLink_def split: sum.splits)
  with drawn_since [OF assms(3) r] t have "li_TokenHash l \<in> drawn en (sv_draw s0) (sv_draw s)" by (auto simp: Now_def)
  then have "li_TokenHash (l\<lparr>li_SuggestedProfileID := a, li_IssuedByNodeID := b\<rparr>) \<in> drawn en (sv_draw s0) (sv_draw s)" by simp
  from served_save [where f = "SavePortalLink (l\<lparr>li_SuggestedProfileID := a, li_IssuedByNodeID := b\<rparr>)",
      OF assms(4) this save_link_steps(1,2)] save_link_steps(3) [OF NewPortalLink_wf [OF n assms(7,8)]]
  show ?thesis by blast
qed

lemma run_issue_portal_link [runs_intros]:
  "served en s0 s \<Longrightarrow> 0 < ttl \<and> ttl \<le> 3600 * Second \<Longrightarrow> runs en s0 (issue_portal_link en r n sid ttl passport player s)"
  unfolding issue_portal_link_def
  by (assumption | erule (6) served_new_link, simp | rule runs_intros served_intros leaves)+

lemma run_handleNodeCreatePortalLink: "runs en s (handleNodeCreatePortalLink en r body s)"
  unfolding handleNodeCreatePortalLink_def
  by (assumption | erule portalLinkTTL_bounds | rule runs_intros served_intros leaves)+

lemma run_handleNodeUpsertExtensionData: "runs en s (handleNodeUpsertExtensionData en r body s)"
  unfolding handleNodeUpsertExtensionData_def by (assumption | rule runs_intros served_intros leaves)+


text \<open>Administration.\<close>

lemma run_requireSession [runs_intros]:
  "served en s0 s \<Longrightarrow> runs en s0 (requireSession en r c kind csrf s)"
  unfolding requireSession_def by (assumption | rule runs_intros served_intros leaves)+

lemma run_requireAdmin [runs_intros]:
  "served en s0 s \<Longrightarrow> runs en s0 (requireAdmin en r csrf s)"
  unfolding requireAdmin_def by (assumption | rule runs_intros)+

lemma run_requireAdminPermission [runs_intros]:
  "served en s0 s \<Longrightarrow> runs en s0 (requireAdminPermission en r csrf permission s)"
  unfolding requireAdminPermission_def by (assumption | rule runs_intros served_intros leaves)+

lemma run_rotateCSRF [runs_intros]: "served en s0 s \<Longrightarrow> runs en s0 (rotateCSRF en session s)"
  unfolding rotateCSRF_def by (assumption | rule runs_intros served_intros leaves)+

text \<open>What the request began with is kept for the assumption on new names.\<close>

lemma run_with_admin [runs_intros]:
  "served en s0 s \<Longrightarrow> (\<And>session s. served en s0 s \<Longrightarrow> runs en s0 (k session s)) \<Longrightarrow> runs en s0 (with_admin en r csrf s k)"
  "served en s0 s \<Longrightarrow> (\<And>session s. served en s0 s \<Longrightarrow> runs en s0 (k session s)) \<Longrightarrow> runs en s0 (with_permission en r permission s k)"
  unfolding with_admin_def with_permission_def by (assumption | rule runs_intros served_intros leaves)+

lemma run_admin_ban [runs_intros]:
  "served en s0 s \<Longrightarrow> (\<And>reason t m. safe_steps (en_uc en) m (fst (end_all reason t m))) \<Longrightarrow>
   runs en s0 (admin_ban presences end_all what en r session i ban s)"
  "served en s0 s \<Longrightarrow> (\<And>reason t m. safe_steps (en_uc en) m (fst (end_all reason t m))) \<Longrightarrow>
   runs en s0 (admin_kick presences end_all what en r session i reason s)"
  unfolding admin_ban_def admin_kick_def by (assumption | rule runs_intros served_intros leaves)+

lemma run_banFromRequest [runs_intros]:
  "served en s0 s \<Longrightarrow> runs en s0 (banFromRequest en body scope i who s)"
  unfolding banFromRequest_def by (assumption | rule runs_intros served_intros leaves)+

lemma run_rename_by_admin [runs_intros]:
  assumes "served en s0 s" and k: "\<And>p s. served en s0 s \<Longrightarrow> runs en s0 (k p s)"
  shows "runs en s0 (rename_by_admin en r session name p s k)"
  unfolding rename_by_admin_def by (insert assms(1)) (assumption | rule k runs_intros served_intros leaves)+

lemma run_reset_password [runs_intros]:
  "served en s0 s \<Longrightarrow> runs en s0 (reset_password en r session passport password g s)"
  unfolding reset_password_def by (assumption | rule runs_intros served_intros leaves)+

lemma run_admin_passports:
  "runs en s (handleAdminUpdatePassport i en r body1 s)"
  "runs en s (handleAdminDeletePassport i en r s)"
  "runs en s (handleAdminDeleteProfile i en r s)"
  "runs en s (handleAdminCreateProfile en r body2 s)"
  unfolding handleAdminUpdatePassport_def handleAdminDeletePassport_def handleAdminDeleteProfile_def handleAdminCreateProfile_def
    Let_def
  by (assumption | rule runs_intros served_intros leaves)+

lemma run_admin_profiles:
  "runs en s (handleAdminUpdateProfile i en r body3 s)"
  "runs en s (handleAdminBindProfile i en r body4 s)"
  "runs en s (handleAdminUnbindProfilePassport i j en r s)"
  "runs en s (handleAdminUnbindProfile i en r s)"
  "runs en s (handleAdminSetPlayerLocked i l en r s)"
  unfolding handleAdminUpdateProfile_def handleAdminBindProfile_def handleAdminUnbindProfilePassport_def handleAdminUnbindProfile_def handleAdminSetPlayerLocked_def
    Let_def
  by (assumption | rule runs_intros served_intros leaves)+

lemma run_admin_password:
  "runs en s (handleAdminResetOfflinePassword i en r body5 s)"
  unfolding handleAdminResetOfflinePassword_def
  by (assumption | rule runs_intros served_intros leaves)+

lemma run_admin_bans:
  "runs en s (handleAdminCreatePassportBan i en r body6 s)"
  "runs en s (handleAdminCreateProfileBan i en r body7 s)"
  "runs en s (handleAdminRevokeBan i en r body8 s)"
  "runs en s (handleAdminExtendBan i en r body9 s)"
  unfolding handleAdminCreatePassportBan_def handleAdminCreateProfileBan_def handleAdminRevokeBan_def handleAdminExtendBan_def
  by (assumption | rule runs_intros served_intros leaves)+

lemma run_admin_kicks:
  "runs en s (handleAdminKickPresence i en r body10 s)"
  "runs en s (handleAdminKickPassport i en r body11 s)"
  "runs en s (handleAdminKickProfile i en r body12 s)"
  unfolding handleAdminKickPresence_def handleAdminKickPassport_def handleAdminKickProfile_def
  by (assumption | rule runs_intros served_intros leaves)+

lemma run_admin_recovery_key:
  "runs en s (handleAdminPasswordRecoveryKey en r s)"
  "runs en s (handleAdminDownloadPasswordRecoveryPrivateKey en r s)"
  "runs en s (handleAdminSystemFactoryReset en r body13 s)"
  unfolding handleAdminPasswordRecoveryKey_def handleAdminDownloadPasswordRecoveryPrivateKey_def handleAdminSystemFactoryReset_def
  by (assumption | rule runs_intros served_intros leaves)+


lemma requireSession_passports:
  "requireSession en r c kind csrf s = (s', x) \<Longrightarrow> sv_store s' = sv_store s"
  by (auto simp: requireSession_def Now_def Let_def split: sum.splits if_splits)

lemma run_with_admin_same:
  assumes k: "\<And>session s'. sv_store s' = sv_store s \<Longrightarrow> served en s s' \<Longrightarrow> runs en s (k session s')"
  shows "runs en s (with_admin en r csrf s k)"
proof (cases "requireAdmin en r csrf s")
  case (Pair s' x)
  then have "sv_store s' = sv_store s" by (auto simp: requireAdmin_def dest: requireSession_passports)
  moreover have "served en s s'"
    using run_requireAdmin [OF served_refl, of en s r csrf] by (simp add: Pair runs_def)
  ultimately show ?thesis using k by (cases x) (auto simp: Pair runs_def with_admin_def)
qed

lemma run_create_offline_passport:
  assumes free: "free_name en s (co_Username req)" and sv: "served en s0 s"
  shows "runs en s0 (create_offline_passport en r session req s)"
  unfolding create_offline_passport_def Rand_def Now_def Let_def prod.case
  by (insert sv) (assumption | rule run_CreateOfflinePassport [OF free [unfolded free_name_def]]
      | rule runs_intros served_intros leaves)+

lemma run_handleAdminCreateOfflinePassport:
  assumes "\<forall>req. body = Some req \<longrightarrow> free_name en s (co_Username req)"
  shows "runs en s (handleAdminCreateOfflinePassport en r body s)"
  unfolding handleAdminCreateOfflinePassport_def
proof (rule run_with_admin_same)
  fix session s' assume "sv_store s' = sv_store s" and sv: "served en s s'"
  with assms show "runs en s (decode_body body s' (\<lambda>req. create_offline_passport en r session req s'))"
    by (intro runs_decode_body sv run_create_offline_passport) (simp_all add: free_name_def)
qed

end
