(* ===== verification/ServerPortalRuns.thy ===== *)
theory ServerPortalRuns
  imports ServerRuns ServerMail
begin

text \<open>
  The handlers of the portal, of the tokens of the external API, of the administrators and of the mail
  settings as runs of the store, by the rules of ServerRuns.
\<close>

subsection \<open>Safe steps\<close>

lemma mark_safe: "safe_steps uc m (fst (MarkPortalLinkUsed h t m))"
proof -
  have "tokens_ok (fst (MarkPortalLinkUsed h t m))" if ok: "tokens_ok m"
  proof (cases "MarkPortalLinkUsed h t m")
    case (Pair m' r)
    show ?thesis
    proof (cases r)
      case (Inr l')
      with Pair MarkPortalLinkUsed_Inr [of h t m m' l'] obtain l
        where l: "gget (portalLinksByToken m) h = Some l" "li_Status l = PortalLinkActive" "t < li_ExpiresAt l"
          and l': "l' = l\<lparr>li_Status := PortalLinkUsed, li_UsedAt := Some t\<rparr>"
          and m': "m' = m\<lparr>portalLinksByToken := gput (portalLinksByToken m) h l'\<rparr>" by auto
      from ok l(1) have "link_wf h l" by (simp add: tokens_ok_def)
      with l(2,3) have "link_wf h l'" by (simp add: l' link_wf_def)
      with ok show ?thesis by (simp add: Pair m' tokens_ok_def)
    qed (use Pair ok in \<open>auto simp: MarkPortalLinkUsed_def Let_def split: option.splits if_splits\<close>)
  qed
  moreover have "dead_kept {} m (fst (MarkPortalLinkUsed h t m))"
    by (auto simp: dead_kept_def grant_dead_def link_dead_def MarkPortalLinkUsed_def Let_def split: option.split)
  ultimately show ?thesis by (auto intro!: r_into_rtranclp by_table do_MarkPortalLinkUsed simp: safe_step_def)
qed

lemma revoke_safe: "safe_steps uc m (fst (RevokePortalLink i t m))"
proof -
  have "dead_kept {} m (fst (RevokePortalLink i t m))"
    by (auto simp: dead_kept_def grant_dead_def link_dead_def RevokePortalLink_def Let_def split: option.split)
  moreover have "tokens_ok (fst (RevokePortalLink i t m))" if ok: "tokens_ok m"
  proof (cases "List.find (\<lambda>(tokenHash, l). li_ID l = i \<and> li_Status l = PortalLinkActive) (gentries (portalLinksByToken m))")
    case (Some e)
    obtain h l where e: "e = (h, l)" by force
    from Some have mem: "(h, l) \<in> set (gentries (portalLinksByToken m))" and act: "li_Status l = PortalLinkActive"
      by (auto simp: e find_Some_iff) (metis nth_mem)
    then have "gget (portalLinksByToken m) h = Some l" by (simp add: gget_eq_entries)
    with ok have "link_wf h l" by (simp add: tokens_ok_def)
    with act have "link_wf h (l\<lparr>li_Status := PortalLinkRevoked, li_RevokedAt := Some t\<rparr>)" by (simp add: link_wf_def)
    with ok show ?thesis by (simp add: RevokePortalLink_def Some e tokens_ok_def Let_def)
  qed (use ok in \<open>simp add: RevokePortalLink_def\<close>)
  ultimately show ?thesis by (auto intro!: r_into_rtranclp by_table do_RevokePortalLink simp: safe_step_def)
qed

lemma session_safe:
  "safe_steps uc m (SaveSession x m)" "safe_steps uc m (DeleteSession h m)"
  by (rule safe_table, rule table_step.intros, simp add: same_tokens_def SaveSession_def DeleteSession_def)+

lemma token_safe:
  "safe_steps uc m (fst (CreateExternalAPIToken x t m))"
  "safe_steps uc m (fst (UpdateExternalAPIToken x t m))"
  "safe_steps uc m (fst (DeleteExternalAPIToken i m))"
  "safe_steps uc m (fst (AuthenticateExternalAPIToken uc token t ip path m))"
  by ((rule safe_table, rule table_step.intros,
      auto simp: same_tokens_def CreateExternalAPIToken_def UpdateExternalAPIToken_def DeleteExternalAPIToken_def
        AuthenticateExternalAPIToken_def Let_def split: option.split; fail)+)

lemma staff_safe:
  "safe_steps uc m (fst (UpsertAdminProfile p t m))"
  "safe_steps uc m (fst (UpsertAdminRole uc r t t' m))"
  "safe_steps uc m (fst (DeleteAdminRole uc i t m))"
  "safe_steps uc m (fst (UpsertAdminSecurity x t m))"
  "safe_steps uc m (fst (DeleteAdminPasskey a i m))"
  "safe_steps uc m (fst (SavePendingAdminMFA c m))"
  "safe_steps uc m (DeletePendingAdminMFA i m)"
  "safe_steps uc m (fst (CreateAdminTrustedDevice d t m))"
  "safe_steps uc m (fst (SaveAdminPasswordReset pr t m))"
  "safe_steps uc m (fst (MarkAdminPasswordResetUsed i t m))"
  by ((rule safe_table, rule table_step.intros,
      auto simp: same_tokens_def UpsertAdminProfile_def UpsertAdminRole_def DeleteAdminRole_def UpsertAdminSecurity_def
        DeleteAdminPasskey_def SavePendingAdminMFA_def DeletePendingAdminMFA_def CreateAdminTrustedDevice_def
        SaveAdminPasswordReset_def MarkAdminPasswordResetUsed_def Let_def split: option.split; fail)+)

lemmas more_leaves = leaves mark_safe revoke_safe session_safe token_safe staff_safe

subsection \<open>The portal\<close>

lemma run_requirePlayer [runs_intros]:
  "served en s0 s \<Longrightarrow> runs en s0 (requirePlayer en r csrf s)"
  unfolding requirePlayer_def by (assumption | rule runs_intros)+

lemma run_with_player [runs_intros]:
  "served en s0 s \<Longrightarrow> (\<And>session s. served en s0 s \<Longrightarrow> runs en s0 (k session s)) \<Longrightarrow> runs en s0 (with_player en r csrf s k)"
  unfolding with_player_def by (assumption | rule runs_intros served_intros leaves)+

lemma run_open_session [runs_intros]:
  assumes "served en s0 s" and k: "\<And>session t c s. served en s0 s \<Longrightarrow> runs en s0 (k session t c s)"
  shows "runs en s0 (open_session en i j now s k)"
  unfolding open_session_def by (insert assms(1)) (assumption | rule k runs_intros served_intros more_leaves)+

lemma run_portalSessionIdentity [runs_intros]:
  "served en s0 s \<Longrightarrow> runs en s0 (portalSessionIdentity session s)"
  unfolding portalSessionIdentity_def by (assumption | rule runs_intros served_intros leaves)+

lemma run_writePortalSessionData [runs_intros]:
  "served en s0 s \<Longrightarrow> runs en s0 (writePortalSessionData passport profile s)"
  unfolding writePortalSessionData_def by (rule runs_pair)

lemma run_portal_parts [runs_intros]:
  "served en s0 s \<Longrightarrow> runs en s0 (offline_registered en r req1 pp s)"
  "served en s0 s \<Longrightarrow> runs en s0 (portal_signed_in en r req2 passport s)"
  "served en s0 s \<Longrightarrow> runs en s0 (portal_sign_in_failed en r req2 passport s)"
  "served en s0 s \<Longrightarrow> runs en s0 (change_password en r session passport password s)"
  "served en s0 s \<Longrightarrow> runs en s0 (self_create_profile en r session passport name s)"
  "served en s0 s \<Longrightarrow> runs en s0 (link_signed_in en r link passport profile now s)"
  unfolding offline_registered_def portal_signed_in_def portal_sign_in_failed_def change_password_def
    self_create_profile_def link_signed_in_def
  by (assumption | rule runs_intros served_intros more_leaves)+

definition free_registration :: "env \<Rightarrow> Server \<Rightarrow> offlineRegisterRequest \<Rightarrow> bool" where
  "free_registration en s req \<longleftrightarrow> collision_free (en_uc en) (sv_store s) (ToLower (en_uc en) (register_name req))"

lemma run_CreateOfflinePassportProfile:
  assumes free: "free_registration en s req"
    and t: "Now en t4 = (t, n3)" "Now en t3 = (t4, n2)" "Rand en t2 = (t3, rnd)" "Now en t1 = (t2, n1)"
      "offlinePasswordCredential en password t0 = (t1, x)" "Rand en s = (t0, salt)" and sv: "served en s0 t"
  shows "runs en s0 (in_store (CreateOfflinePassportProfile (en_uc en) (register_name req) name h e f m1 m2 m3 rnd') t)"
proof (rule runs_calls(4) [OF sv])
  have "passportsByID (sv_store t1) = passportsByID (sv_store t0)" by (rule offlinePasswordCredential_passports [OF t(5)])
  moreover from t(1-4,6) have "sv_store t = sv_store t1" "sv_store t0 = sv_store s" by (auto simp: Now_def Rand_def)
  ultimately have "passportsByID (sv_store t) = passportsByID (sv_store s)" by simp
  note same = collision_free_cong [OF this, of "en_uc en" "ToLower (en_uc en) (register_name req)"]
  with free show "safe_steps (en_uc en) (sv_store t)
      (fst (CreateOfflinePassportProfile (en_uc en) (register_name req) name h e f m1 m2 m3 rnd' (sv_store t)))"
    by (intro safe_identity do_CreateOfflinePassportProfile) (simp add: free_registration_def)
qed

lemma run_handleOfflineRegister:
  assumes "\<forall>req. body = Some req \<longrightarrow> free_registration en s req"
  shows "runs en s (handleOfflineRegister en r body s)"
  unfolding handleOfflineRegister_def
  by (assumption | rule run_CreateOfflinePassportProfile [OF assms [rule_format]], assumption, assumption, assumption,
      assumption, assumption, assumption, assumption, assumption | rule runs_intros served_intros leaves)+

lemma run_portal_sign_in:
  "runs en s (handlePortalLogin en r body1 s)"
  "runs en s (handlePortalMe en r s)"
  "runs en s (handlePortalLogout en r s)"
  "runs en s (handlePortalChangePassword en r body2 s)"
  "runs en s (handlePortalLinkLogin en r body3 s)"
  unfolding handlePortalLogin_def handlePortalMe_def handlePortalLogout_def handlePortalChangePassword_def
    handlePortalLinkLogin_def
  by (assumption | rule runs_intros served_intros more_leaves)+

lemma run_portal_reads:
  "runs en s (handlePortalConfig en r s)"
  "runs en s (handlePortalServers en r s)"
  "runs en s (handlePortalServerConfig slug en r s)"
  "runs en s (handlePortalCheckName en r body s)"
  "runs en s (handlePortalExtensionData slug en r s)"
  unfolding handlePortalConfig_def handlePortalServers_def handlePortalServerConfig_def handlePortalCheckName_def
    handlePortalExtensionData_def
  by (assumption | rule runs_intros served_intros leaves)+

lemma run_portal_profiles:
  "runs en s (handlePortalSelectProfile en r body1 s)"
  "runs en s (handlePortalCreateProfile en r body2 s)"
  "runs en s (handlePortalArchiveProfile i en r s)"
  "runs en s (handlePortalRestoreProfile i en r s)"
  unfolding handlePortalSelectProfile_def handlePortalCreateProfile_def handlePortalArchiveProfile_def
    handlePortalRestoreProfile_def
  by (assumption | rule runs_intros served_intros leaves)+

lemma portalLinkKind_typed: "portalLinkKind passport \<in> {''premium'', ''offline''}"
  by (simp add: portalLinkKind_def)

lemma run_admin_issue_link [runs_intros]:
  assumes "served en s0 s" "0 < ttl \<and> ttl \<le> 3600 * Second"
  shows "runs en s0 (admin_issue_link en r session passport profile sid ttl s)"
proof -
  have "served en s0 (on_store (SavePortalLink (l\<lparr>li_SuggestedProfileID := a\<rparr>)) s2)"
    if "Rand en s = (s1, rnd)" "Now en s1 = (s2, now)" "served en s0 s2"
      "NewPortalLink (portalLinkKind passport) i sid ttl now rnd = Inr y" "y = (l, token)" for s1 s2 rnd now i y l token a
    using served_new_link [OF that(1,2) assms(1) that(3-5) assms(2) portalLinkKind_typed,
        where a = a and b = "li_IssuedByNodeID l"]
    by simp
  note new = this
  show ?thesis
    unfolding admin_issue_link_def
    by (insert assms(1)) (assumption | erule (4) new | rule runs_intros served_intros leaves)+
qed

lemma run_admin_links:
  "runs en s (handleAdminCreatePortalLink i en r body s)"
  "runs en s (handleAdminRevokePortalLink i en r s)"
  unfolding handleAdminCreatePortalLink_def handleAdminRevokePortalLink_def
  by (assumption | erule portalLinkTTL_bounds | rule runs_intros served_intros more_leaves)+

subsection \<open>The external API\<close>

lemma run_requireExternalAPI [runs_intros]:
  "served en s0 s \<Longrightarrow> runs en s0 (requireExternalAPI en r s)"
  unfolding requireExternalAPI_def by (assumption | rule runs_intros served_intros more_leaves)+

lemma run_withExternalAPI:
  "(\<And>s s0. served en s0 s \<Longrightarrow> runs en s0 (next en r s)) \<Longrightarrow> runs en s (withExternalAPI next en r s)"
  "(\<And>s s0. served en s0 s \<Longrightarrow> runs en s0 (next en r s)) \<Longrightarrow> runs en s (withExternalAPIOrAdminSession next en r s)"
  "(\<And>s s0. served en s0 s \<Longrightarrow> runs en s0 (next en r s)) \<Longrightarrow> runs en s (withAdminSession next en r s)"
  unfolding withExternalAPIOrAdminSession_def withExternalAPI_def withAdminSession_def
  by (assumption | rule runs_intros served_intros leaves)+

lemma run_with_read_permission [runs_intros]:
  "served en s0 s \<Longrightarrow> (\<And>session s. served en s0 s \<Longrightarrow> runs en s0 (k session s)) \<Longrightarrow>
   runs en s0 (with_read_permission en r permission s k)"
  unfolding with_read_permission_def by (assumption | rule runs_intros served_intros leaves)+

lemma run_with_token [runs_intros]:
  "served en s0 s \<Longrightarrow> (\<And>session x s. served en s0 s \<Longrightarrow> runs en s0 (k session x s)) \<Longrightarrow>
   runs en s0 (with_token en r permission i s k)"
  unfolding with_token_def by (assumption | rule runs_intros served_intros leaves)+

lemma served_token_audit [served_intros]:
  "served en s0 s \<Longrightarrow> served en s0 (token_audit en r session i event details s)"
  "served en s0 s \<Longrightarrow> served en s0 (staff_audit en r i ty j event details s)"
  unfolding token_audit_def staff_audit_def by (assumption | rule served_intros)+

lemma run_update_token [runs_intros]:
  "served en s0 s \<Longrightarrow> runs en s0 (update_token en r session event x details s)"
  unfolding update_token_def by (assumption | rule runs_intros served_intros more_leaves)+

lemma run_tokens:
  "runs en s (handleAdminExternalTokens q en r s)"
  "runs en s (handleAdminExternalTokenDetail i en r s)"
  "runs en s (handleAdminCreateExternalToken en r body1 s)"
  "runs en s (handleAdminUpdateExternalToken i en r body2 s)"
  "runs en s (handleAdminRevokeExternalToken i en r s)"
  "runs en s (handleAdminDeleteExternalTokenRecord i en r s)"
  unfolding handleAdminExternalTokens_def handleAdminExternalTokenDetail_def handleAdminCreateExternalToken_def
    handleAdminUpdateExternalToken_def handleAdminRevokeExternalToken_def handleAdminDeleteExternalTokenRecord_def
  by (assumption | rule runs_intros served_intros more_leaves)+

subsection \<open>Administrators\<close>

lemma run_staff_parts [runs_intros]:
  "served en s0 s \<Longrightarrow> runs en s0 (maybeStartAdminMFA en r i user s)"
  "served en s0 s \<Longrightarrow> runs en s0 (new_admin_session en i now s)"
  "served en s0 s \<Longrightarrow> runs en s0 (pendingAdminMFA en r s)"
  "served en s0 s \<Longrightarrow> runs en s0 (trust_device en r i s)"
  "served en s0 s \<Longrightarrow> runs en s0 (updateAdminPassword en i password s)"
  "served en s0 s \<Longrightarrow> runs en s0 (save_role en r session event n role s)"
  "served en s0 s \<Longrightarrow> runs en s0 (create_admin_user en r session req s)"
  unfolding maybeStartAdminMFA_def new_admin_session_def pendingAdminMFA_def trust_device_def updateAdminPassword_def
    save_role_def create_admin_user_def
  by (assumption | rule runs_intros served_intros more_leaves)+

lemma run_completeAdminMFA [runs_intros]:
  "served en s0 s \<Longrightarrow> runs en s0 (completeAdminMFA en r pending trust s)"
  unfolding completeAdminMFA_def by (assumption | rule runs_intros served_intros more_leaves)+

lemma run_saved [runs_intros]:
  assumes "served en s0 s"
  shows "(\<And>x s. served en s0 s \<Longrightarrow> runs en s0 (k1 x s)) \<Longrightarrow> runs en s0 (save_security en security what s k1)"
    "(\<And>s. served en s0 s \<Longrightarrow> runs en s0 (k2 s)) \<Longrightarrow> runs en s0 (save_admin_profile en i name email s k2)"
  unfolding save_security_def save_admin_profile_def
  by (insert assms) (assumption | rule runs_intros served_intros more_leaves)+

lemma run_with_target [runs_intros]:
  "served en s0 s \<Longrightarrow> (\<And>session x s. served en s0 s \<Longrightarrow> runs en s0 (k session x s)) \<Longrightarrow>
   runs en s0 (with_target en r i s k)"
  unfolding with_target_def by (assumption | rule runs_intros served_intros leaves)+

lemma run_update_user [runs_intros]:
  "served en s0 s \<Longrightarrow> runs en s0 (update_bootstrap en r session req s)"
  "served en s0 s \<Longrightarrow> runs en s0 (update_admin_user en r session i req s)"
  unfolding update_bootstrap_def update_admin_user_def by (assumption | rule runs_intros served_intros more_leaves)+

lemma run_staff_sign_in:
  "runs en s (handleAdminLogin en r body1 s)"
  "runs en s (handleAdminMFATOTP en r body2 s)"
  "runs en s (handleAdminBootstrap en r s)"
  "runs en s (handleAdminMe en r s)"
  "runs en s (handleAdminLogout en r s)"
  unfolding handleAdminLogin_def handleAdminMFATOTP_def handleAdminBootstrap_def handleAdminMe_def handleAdminLogout_def
  by (assumption | rule runs_intros served_intros more_leaves)+

lemma run_staff_account:
  "runs en s (handleAdminAccount en r s)"
  "runs en s (handleAdminAccountPreferences en r body1 s)"
  "runs en s (handleAdminTOTPStart en r s)"
  "runs en s (handleAdminTOTPConfirm en r body2 s)"
  "runs en s (handleAdminTOTPDisable en r s)"
  "runs en s (handleAdminPasskeyDelete i en r s)"
  "runs en s (handleAdminAccountPassword en r body3 s)"
  "runs en s (handleAdminPasswordResetConfirm en r body4 s)"
  unfolding handleAdminAccount_def handleAdminAccountPreferences_def handleAdminTOTPStart_def handleAdminTOTPConfirm_def
    handleAdminTOTPDisable_def handleAdminPasskeyDelete_def handleAdminAccountPassword_def handleAdminPasswordResetConfirm_def
  by (assumption | rule runs_intros served_intros more_leaves)+

lemma run_staff_users:
  "runs en s (handleAdminUsers q en r s)"
  "runs en s (handleAdminCreateUser en r body1 s)"
  "runs en s (handleAdminUpdateUser i en r body2 s)"
  "runs en s (handleAdminDisableUserTOTP i en r s)"
  "runs en s (handleAdminDeleteUserPasskey i j en r s)"
  unfolding handleAdminUsers_def handleAdminCreateUser_def handleAdminUpdateUser_def handleAdminDisableUserTOTP_def
    handleAdminDeleteUserPasskey_def
  by (assumption | rule runs_intros served_intros more_leaves)+

lemma run_staff_roles:
  "runs en s (handleAdminPermissions en r s)"
  "runs en s (handleAdminRoles q en r s)"
  "runs en s (handleAdminCreateRole en r body1 s)"
  "runs en s (handleAdminUpdateRole i en r body2 s)"
  "runs en s (handleAdminDeleteRole i en r s)"
  unfolding handleAdminPermissions_def handleAdminRoles_def handleAdminCreateRole_def handleAdminUpdateRole_def
    handleAdminDeleteRole_def
  by (assumption | rule runs_intros served_intros more_leaves)+

subsection \<open>Mail\<close>

lemma run_sendAdminMail [runs_intros]:
  "served en s0 s \<Longrightarrow> runs en s0 (sendAdminMail en settings recipient subject message s)"
  unfolding sendAdminMail_def by (assumption | rule runs_intros served_intros more_leaves)+

lemma served_send_reset [served_intros]:
  "served en s0 s \<Longrightarrow> served en s0 (send_reset en r settings i email s)"
  unfolding send_reset_def by (assumption | rule runs_intros served_intros more_leaves)+

lemma run_mail:
  "runs en s (handleAdminSMTPSettings en r s)"
  "runs en s (handleAdminUpdateSMTPSettings en r body1 s)"
  "runs en s (handleAdminSMTPTest en r body2 s)"
  "runs en s (handleAdminPasswordResetRequest en r body3 s)"
  unfolding handleAdminSMTPSettings_def handleAdminUpdateSMTPSettings_def handleAdminSMTPTest_def
    handleAdminPasswordResetRequest_def
  by (assumption | rule runs_intros served_intros more_leaves)+

end
