(* ===== verification/ServerSystem.thy ===== *)
theory ServerSystem
  imports ServerPortalRuns
begin

text \<open>
  The server as a transition system: a step is one modelled handler on any request, the presence
  reconciler, or anything the rest of the program may do between two of them, that is any operation
  of the store but the two that save a grant or a link (only modelled handlers call those), any
  change of the registry of nodes, and any reading of clock, randomness and network.  The
  invariants of the store hold in every reachable state, although handlers read the store and write
  it back in separate operations.
\<close>

subsection \<open>The operations that save no token\<close>

text \<open>The definitions of the methods on the other tables.\<close>

lemmas table_writers =
  SetPassportPremiumTextures_def RememberPortalAuthCache_def UsePortalAuthCache_def SaveSession_def UpdateSession_def
  DeleteSession_def CreateExternalAPIToken_def UpdateExternalAPIToken_def DeleteExternalAPIToken_def
  AuthenticateExternalAPIToken_def EnqueueNodeAction_def CreateBan_def ExtendBan_def RevokeBan_def
  UpsertMojangRoute_def DeleteMojangRoute_def UpsertIPGeoSource_def DeleteIPGeoSource_def SetSystemSetting_def
  UpsertDownstreamServer_def DeleteDownstreamServer_def UpsertDownstreamServerStatus_def
  AddDownstreamServerPrivilegedPassport_def RemoveDownstreamServerPrivilegedPassport_def UpsertLimboBlueprint_def
  DeleteLimboBlueprint_def UpsertLimboProtocolBundle_def DeleteLimboProtocolBundle_def UpsertLimboProtocolStatus_def
  UpsertVelocityRuntimeRelease_def DeleteVelocityRuntimeRelease_def UpsertVelocityRuntimeStatus_def
  UpsertExtensionPlayerData_def UpsertAdminProfile_def UpsertAdminRole_def DeleteAdminRole_def
  UpsertAdminSecurity_def CreateAdminPasskey_def UpdateAdminPasskeyCredential_def DeleteAdminPasskey_def
  SavePendingAdminMFA_def DeletePendingAdminMFA_def CreateAdminTrustedDevice_def SaveAdminPasswordReset_def
  MarkAdminPasswordResetUsed_def

lemma table_step_tokens:
  "table_step uc m m' \<Longrightarrow> same_tokens m m' \<or> (\<exists>g. m' = SaveTransferGrant g m) \<or> (\<exists>l. m' = SavePortalLink l m) \<or>
     (\<exists>h t. m' = fst (MarkPortalLinkUsed h t m)) \<or> (\<exists>h t. m' = fst (RevokePortalLink h t m)) \<or>
     (\<exists>h a. m' = fst (ConsumeTransferGrant uc h a m))"
  by (erule table_step.cases)
    (auto simp: same_tokens_def ack_same_tokens [unfolded same_tokens_def] Let_def table_writers
      split: option.split sum.split)

text \<open>A step that is neither of the two operations that save a token.\<close>

definition unsaved_step :: "unicode \<Rightarrow> memory \<Rightarrow> memory \<Rightarrow> bool" where
  "unsaved_step uc m m' \<longleftrightarrow> store_step uc m m' \<and> (\<forall>g. m' \<noteq> SaveTransferGrant g m) \<and> (\<forall>l. m' \<noteq> SavePortalLink l m)"

lemma unsaved_safe:
  assumes "unsaved_step uc m m'"
  shows "store_step uc m m' \<and> (tokens_ok m \<longrightarrow> tokens_ok m') \<and> dead_kept {} m m'"
proof -
  from assms have step: "store_step uc m m'" and ns: "\<forall>g. m' \<noteq> SaveTransferGrant g m" "\<forall>l. m' \<noteq> SavePortalLink l m"
    by (simp_all add: unsaved_step_def)
  have "safe_steps uc m m' \<or> (\<forall>h. gget (transferGrants m') h = gget (transferGrants m) h \<and>
      gget (portalLinksByToken m') h = gget (portalLinksByToken m) h)"
    using step
  proof cases
    case by_identity
    then show ?thesis by (simp add: safe_identity)
  next
    case by_record
    then show ?thesis by (simp add: safe_record)
  next
    case by_reorder
    then show ?thesis by (simp add: reordered_def same_map_def)
  next
    case by_table
    from table_step_tokens [OF this] ns consider "same_tokens m m'" | h t where "m' = fst (MarkPortalLinkUsed h t m)"
      | i t where "m' = fst (RevokePortalLink i t m)" | h a where "m' = fst (ConsumeTransferGrant uc h a m)" by blast
    then show ?thesis
      by cases (simp_all add: same_tokens_def mark_safe revoke_safe consume_safe)
  qed
  then show ?thesis
  proof
    assume "safe_steps uc m m'"
    with step show ?thesis by (auto dest: safe_steps_served [where H = "{}"])
  next
    assume same: "\<forall>h. gget (transferGrants m') h = gget (transferGrants m) h \<and>
      gget (portalLinksByToken m') h = gget (portalLinksByToken m) h"
    with step show ?thesis by (auto simp: tokens_ok_def dead_kept_def grant_dead_def link_dead_def)
  qed
qed

subsection \<open>Requests\<close>

text \<open>
  One rule per handler, with any request and body.  The rules of the handlers that register accounts
  carry the assumptions on hashes and foreign UUIDs of StoreReach.
\<close>

inductive request_step :: "env \<Rightarrow> Server \<Rightarrow> Server \<Rightarrow> bool" for en where
  on_VerifyLimboSession: "foreign_profiles en \<Longrightarrow> request_step en s (fst (handleNodeVerifyLimboSession en r b1 s))"
| on_ResolveLimboLoginPolicy: "request_step en s (fst (handleNodeResolveLimboLoginPolicy en r b2 s))"
| on_ResolvePlayer: "\<forall>req. b3 = Some req \<longrightarrow> foreign_uuid (rp_VerifiedUUID req) \<Longrightarrow>
    request_step en s (fst (handleNodeResolvePlayer en r b3 s))"
| on_AuthenticatePlayer: "request_step en s (fst (handleNodeAuthenticatePlayer en r b4 s))"
| on_RememberPortalAuth: "request_step en s (fst (handleNodeRememberPortalAuth en r b5 s))"
| on_RegisterOfflinePlayer: "\<forall>req. b6 = Some req \<longrightarrow> free_name en s (ro_Username req) \<Longrightarrow>
    request_step en s (fst (handleNodeRegisterOfflinePlayer en r b6 s))"
| on_AckActions: "request_step en s (fst (handleNodeAckActions en r b7 s))"
| on_EndPresence: "request_step en s (fst (handleNodeEndPresence en r b8 s))"
| on_CreateProfileBan: "request_step en s (fst (handleNodeCreateProfileBan en r b9 s))"
| on_CreatePassportBan: "request_step en s (fst (handleNodeCreatePassportBan en r b9 s))"
| on_CreateTransferGrant: "request_step en s (fst (handleNodeCreateTransferGrant en r b10 s))"
| on_CreateDownstreamTransfer: "request_step en s (fst (handleNodeCreateDownstreamTransfer en r b10 s))"
| on_ConsumeTransferGrant: "request_step en s (fst (handleNodeConsumeTransferGrant en r b11 s))"
| on_CreateProfile: "request_step en s (fst (handleNodeCreateProfile en r b12 s))"
| on_RenameProfile: "request_step en s (fst (handleNodeRenameProfile en r b13 s))"
| on_CreatePortalLink: "request_step en s (fst (handleNodeCreatePortalLink en r b14 s))"
| on_UpsertExtensionData: "request_step en s (fst (handleNodeUpsertExtensionData en r b15 s))"
| on_AdminUpdatePassport: "request_step en s (fst (handleAdminUpdatePassport i en r b16 s))"
| on_AdminDeletePassport: "request_step en s (fst (handleAdminDeletePassport i en r s))"
| on_AdminDeleteProfile: "request_step en s (fst (handleAdminDeleteProfile i en r s))"
| on_AdminCreateProfile: "request_step en s (fst (handleAdminCreateProfile en r b17 s))"
| on_AdminUpdateProfile: "request_step en s (fst (handleAdminUpdateProfile i en r b18 s))"
| on_AdminBindProfile: "request_step en s (fst (handleAdminBindProfile i en r b19 s))"
| on_AdminUnbindProfilePassport: "request_step en s (fst (handleAdminUnbindProfilePassport i j en r s))"
| on_AdminUnbindProfile: "request_step en s (fst (handleAdminUnbindProfile i en r s))"
| on_AdminSetPlayerLocked: "request_step en s (fst (handleAdminSetPlayerLocked i l en r s))"
| on_AdminCreateOfflinePassport: "\<forall>req. b20 = Some req \<longrightarrow> free_name en s (co_Username req) \<Longrightarrow>
    request_step en s (fst (handleAdminCreateOfflinePassport en r b20 s))"
| on_AdminResetOfflinePassword: "request_step en s (fst (handleAdminResetOfflinePassword i en r b21 s))"
| on_AdminCreatePassportBan: "request_step en s (fst (handleAdminCreatePassportBan i en r b22 s))"
| on_AdminCreateProfileBan: "request_step en s (fst (handleAdminCreateProfileBan i en r b22 s))"
| on_AdminRevokeBan: "request_step en s (fst (handleAdminRevokeBan i en r b23 s))"
| on_AdminExtendBan: "request_step en s (fst (handleAdminExtendBan i en r b24 s))"
| on_AdminKickPresence: "request_step en s (fst (handleAdminKickPresence i en r b25 s))"
| on_AdminKickPassport: "request_step en s (fst (handleAdminKickPassport i en r b25 s))"
| on_AdminKickProfile: "request_step en s (fst (handleAdminKickProfile i en r b25 s))"
| on_AdminPasswordRecoveryKey: "request_step en s (fst (handleAdminPasswordRecoveryKey en r s))"
| on_AdminDownloadPrivateKey: "request_step en s (fst (handleAdminDownloadPasswordRecoveryPrivateKey en r s))"
| on_AdminSystemFactoryReset: "request_step en s (fst (handleAdminSystemFactoryReset en r b26 s))"
| on_OfflineRegister: "\<forall>req. b31 = Some req \<longrightarrow> free_registration en s req \<Longrightarrow>
    request_step en s (fst (handleOfflineRegister en r b31 s))"
| on_PortalLogin: "request_step en s (fst (handlePortalLogin en r b32 s))"
| on_PortalMe: "request_step en s (fst (handlePortalMe en r s))"
| on_PortalLogout: "request_step en s (fst (handlePortalLogout en r s))"
| on_PortalChangePassword: "request_step en s (fst (handlePortalChangePassword en r b33 s))"
| on_PortalLinkLogin: "request_step en s (fst (handlePortalLinkLogin en r b34 s))"
| on_PortalConfig: "request_step en s (fst (handlePortalConfig en r s))"
| on_PortalServers: "request_step en s (fst (handlePortalServers en r s))"
| on_PortalServerConfig: "request_step en s (fst (handlePortalServerConfig i en r s))"
| on_PortalCheckName: "request_step en s (fst (handlePortalCheckName en r b35 s))"
| on_PortalExtensionData: "request_step en s (fst (handlePortalExtensionData i en r s))"
| on_PortalSelectProfile: "request_step en s (fst (handlePortalSelectProfile en r b36 s))"
| on_PortalCreateProfile: "request_step en s (fst (handlePortalCreateProfile en r b37 s))"
| on_PortalArchiveProfile: "request_step en s (fst (handlePortalArchiveProfile i en r s))"
| on_PortalRestoreProfile: "request_step en s (fst (handlePortalRestoreProfile i en r s))"
| on_AdminCreatePortalLink: "request_step en s (fst (handleAdminCreatePortalLink i en r b38 s))"
| on_AdminRevokePortalLink: "request_step en s (fst (handleAdminRevokePortalLink i en r s))"
| on_AdminExternalTokens: "request_step en s (fst (handleAdminExternalTokens q en r s))"
| on_AdminExternalTokenDetail: "request_step en s (fst (handleAdminExternalTokenDetail i en r s))"
| on_AdminCreateExternalToken: "request_step en s (fst (handleAdminCreateExternalToken en r b39 s))"
| on_AdminUpdateExternalToken: "request_step en s (fst (handleAdminUpdateExternalToken i en r b40 s))"
| on_AdminRevokeExternalToken: "request_step en s (fst (handleAdminRevokeExternalToken i en r s))"
| on_AdminDeleteExternalTokenRecord: "request_step en s (fst (handleAdminDeleteExternalTokenRecord i en r s))"
| on_AdminLogin: "request_step en s (fst (handleAdminLogin en r b41 s))"
| on_AdminMFATOTP: "request_step en s (fst (handleAdminMFATOTP en r b42 s))"
| on_AdminBootstrap: "request_step en s (fst (handleAdminBootstrap en r s))"
| on_AdminMe: "request_step en s (fst (handleAdminMe en r s))"
| on_AdminLogout: "request_step en s (fst (handleAdminLogout en r s))"
| on_AdminAccount: "request_step en s (fst (handleAdminAccount en r s))"
| on_AdminAccountPreferences: "request_step en s (fst (handleAdminAccountPreferences en r b43 s))"
| on_AdminTOTPStart: "request_step en s (fst (handleAdminTOTPStart en r s))"
| on_AdminTOTPConfirm: "request_step en s (fst (handleAdminTOTPConfirm en r b44 s))"
| on_AdminTOTPDisable: "request_step en s (fst (handleAdminTOTPDisable en r s))"
| on_AdminPasskeyDelete: "request_step en s (fst (handleAdminPasskeyDelete i en r s))"
| on_AdminAccountPassword: "request_step en s (fst (handleAdminAccountPassword en r b45 s))"
| on_AdminPasswordResetConfirm: "request_step en s (fst (handleAdminPasswordResetConfirm en r b46 s))"
| on_AdminUsers: "request_step en s (fst (handleAdminUsers q en r s))"
| on_AdminCreateUser: "request_step en s (fst (handleAdminCreateUser en r b47 s))"
| on_AdminUpdateUser: "request_step en s (fst (handleAdminUpdateUser i en r b48 s))"
| on_AdminDisableUserTOTP: "request_step en s (fst (handleAdminDisableUserTOTP i en r s))"
| on_AdminDeleteUserPasskey: "request_step en s (fst (handleAdminDeleteUserPasskey i j en r s))"
| on_AdminPermissions: "request_step en s (fst (handleAdminPermissions en r s))"
| on_AdminRoles: "request_step en s (fst (handleAdminRoles q en r s))"
| on_AdminCreateRole: "request_step en s (fst (handleAdminCreateRole en r b49 s))"
| on_AdminUpdateRole: "request_step en s (fst (handleAdminUpdateRole i en r b50 s))"
| on_AdminDeleteRole: "request_step en s (fst (handleAdminDeleteRole i en r s))"
| on_AdminSMTPSettings: "request_step en s (fst (handleAdminSMTPSettings en r s))"
| on_AdminUpdateSMTPSettings: "request_step en s (fst (handleAdminUpdateSMTPSettings en r b51 s))"
| on_AdminSMTPTest: "request_step en s (fst (handleAdminSMTPTest en r b52 s))"
| on_AdminPasswordResetRequest: "request_step en s (fst (handleAdminPasswordResetRequest en r b53 s))"

text \<open>A step of the server: a request, the reconciler, or the rest of the program.\<close>

inductive server_step :: "env \<Rightarrow> Server \<Rightarrow> Server \<Rightarrow> bool" for en where
  by_request: "request_step en s s' \<Longrightarrow> server_step en s s'"
| by_reconciler: "server_step en s (reconcileActivePresences en s)"
| by_others: "unsaved_step (en_uc en) (sv_store s) m \<Longrightarrow>
    sv_draw s \<le> d \<Longrightarrow> server_step en s (s\<lparr>sv_store := m, sv_nodes := R, sv_mojang := v, sv_tick := t, sv_draw := d\<rparr>)"

inductive server_reachable :: "env \<Rightarrow> Server \<Rightarrow> bool" for en where
  start: "sv_store s = NewMemory \<Longrightarrow> server_reachable en s"
| next_state: "server_reachable en s \<Longrightarrow> server_step en s s' \<Longrightarrow> server_reachable en s'"

lemma request_served: "request_step en s s' \<Longrightarrow> served en s s'"
  by (erule request_step.cases; hypsubst; fold runs_def)
    (rule run_handleNodeVerifyLimboSession run_handleNodeResolveLimboLoginPolicy run_handleNodeResolvePlayer
      run_handleNodeAuthenticatePlayer run_handleNodeRememberPortalAuth run_handleNodeRegisterOfflinePlayer run_handleNodeAckActions
      run_handleNodeEndPresence run_node_bans run_handleNodeCreateTransferGrant run_handleNodeConsumeTransferGrant
      run_handleNodeCreateProfile run_handleNodeRenameProfile run_handleNodeCreatePortalLink run_handleNodeUpsertExtensionData
      run_admin_passports run_admin_profiles run_handleAdminCreateOfflinePassport run_admin_password run_admin_bans run_admin_kicks
      run_admin_recovery_key run_handleOfflineRegister run_portal_sign_in run_portal_reads run_portal_profiles run_admin_links
      run_tokens run_staff_sign_in run_staff_account run_staff_users run_staff_roles run_mail; assumption?)+

text \<open>What a step leaves true of the tokens, whoever takes it.\<close>

lemma server_step_tokens:
  assumes "server_step en s s'"
  shows "(store_step (en_uc en))\<^sup>*\<^sup>* (sv_store s) (sv_store s') \<and> (tokens_ok (sv_store s) \<longrightarrow> tokens_ok (sv_store s')) \<and>
    sv_draw s \<le> sv_draw s' \<and> dead_kept (drawn en (sv_draw s) (sv_draw s')) (sv_store s) (sv_store s')"
  using assms
proof cases
  case by_request
  from request_served [OF this] show ?thesis unfolding served_def by blast
next
  case by_reconciler
  from served_reconcile [of en s] show ?thesis unfolding by_reconciler served_def by blast
next
  case (by_others m d R v t)
  from unsaved_safe [OF by_others(2)] by_others(3) show ?thesis
    by (auto simp: by_others(1) intro: dead_kept_mono)
qed

lemma store_steps_inv: "(store_step uc)\<^sup>*\<^sup>* m m' \<Longrightarrow> store_inv uc m \<Longrightarrow> store_inv uc m'"
  by (induction rule: rtranclp_induct) (auto intro: store_step_inv)

lemma server_reachable_ok:
  "server_reachable en s \<Longrightarrow> store_inv (en_uc en) (sv_store s) \<and> tokens_ok (sv_store s)"
proof (induction rule: server_reachable.induct)
  case (start s)
  show ?case by (simp add: start store_inv_NewMemory) (simp add: tokens_ok_def NewMemory_def)
next
  case (next_state s s')
  from server_step_tokens [OF next_state.hyps(2)] next_state.IH show ?case
    by (auto intro: store_steps_inv)
qed

lemma server_run_dead:
  assumes "(server_step en)\<^sup>*\<^sup>* s s'"
  shows "sv_draw s \<le> sv_draw s' \<and> dead_kept (drawn en (sv_draw s) (sv_draw s')) (sv_store s) (sv_store s')"
  using assms
proof (induction rule: rtranclp_induct)
  case base
  show ?case by (simp add: dead_kept_def)
next
  case (step s' s'')
  note t = server_step_tokens [OF step.hyps(2)]
  from t step.IH have "drawn en (sv_draw s) (sv_draw s') \<union> drawn en (sv_draw s') (sv_draw s'') \<subseteq> drawn en (sv_draw s) (sv_draw s'')"
    by (intro Un_least drawn_mono) auto
  with t step.IH have "dead_kept (drawn en (sv_draw s) (sv_draw s'')) (sv_store s) (sv_store s'')"
    by (meson dead_kept_trans)
  with t step.IH show ?case by auto
qed

end
