(* ===== verification/ServerSamples.thy ===== *)
theory ServerSamples
  imports ServerSystem StoreSamples
begin

text \<open>
  A concrete server for the witnesses: a registered gate node, one downstream server, the premium
  player of \<open>sample_store\<close>, a grant made out to it, and the requests of the node.
\<close>

definition sample_env :: env where
  "sample_env =
     \<lparr>en_uc = plain_unicode, en_clock = (\<lambda>i. 100 + int i), en_rand = (\<lambda>i. Some (replicate 32 (word_of_nat i))),
      en_NodeAccessToken = ''access'', en_PublicBaseURL = ''http://core'', en_PlayerPortalBaseURL = ''http://portal'',
      en_AdminUsername = ''root'', en_AdminEmail = [], en_AdminPassword = ''secret'', en_AdminPasswordHash = [], en_webAuthn = False,
      en_argon2 = sample_idkey, en_passwordParams = DefaultArgon2idParams, en_geo = (\<lambda>_. None),
      en_http = (\<lambda>_ _ _. NoReply ''timeout''), en_decode = (\<lambda>_. None),
      en_presence = (\<lambda>_ _. (''check'', Inl (Err ''not connected''))),
      en_encrypt = (\<lambda>_ b _. Inr (Base64RawStd b, ''key'')), en_genkey = (\<lambda>_. Inr (''public'', ''private'', ''key'', 2048)),
      en_sprint = (\<lambda>_. []), en_quote = (\<lambda>_. []), en_smtp = (\<lambda>_ _ _ _. Inr ())\<rparr>"

lemma sample_env_simps [simp]:
  "en_uc sample_env = plain_unicode" "en_clock sample_env i = 100 + int i"
  "en_rand sample_env i = Some (replicate 32 (word_of_nat i))" "en_NodeAccessToken sample_env = ''access''"
  by (simp_all add: sample_env_def)

text \<open>What the gate node sends with each request.\<close>

definition node_request :: request where
  "node_request =
     \<lparr>rq_Path = ''/api/node'', rq_Method = ''POST'', rq_Authorization = ''Bearer access'', rq_Instance = ''inst'',
      rq_ForwardedFor = [], rq_RealIP = [], rq_RemoteAddr = ''10.0.0.1:4000'', rq_UserAgent = ''velocity'', rq_RequestID = [],
      rq_AdminSession = [], rq_PlayerSession = [], rq_CSRF = [], rq_ExternalToken = [],
     rq_AdminMFA = [], rq_AdminTrusted = [], rq_Origin = []\<rparr>"

definition gate_node :: "string \<Rightarrow> Node" where
  "gate_node md = \<lparr>no_ID = ''node-1'', no_ServerID = ''lobby'', no_Mode = md, no_Name = ''gate'', no_TokenHash = [],
     no_TokenFingerprint = [], no_InstanceFingerprint = ''inst'', no_PluginVersion = [], no_VelocityVersion = [],
     no_Disabled = False, no_RuntimeConfig = gempty, no_CreatedAt = 1, no_LastHeartbeatAt = None\<rparr>"

definition sample_server :: "string \<Rightarrow> memory \<Rightarrow> Server" where
  "sample_server md m = \<lparr>sv_store = m, sv_nodes = \<lparr>rg_nextID = 1, rg_nodes = gput gempty ''node-1'' (gate_node md)\<rparr>,
     sv_mojang = None, sv_tick = 0, sv_draw = 0\<rparr>"

lemma sample_server_simps [simp]:
  "sv_store (sample_server md m) = m" "sv_tick (sample_server md m) = 0" "sv_draw (sample_server md m) = 0"
  "sv_mojang (sample_server md m) = None"
  by (simp_all add: sample_server_def)

lemma gate_node_simps [simp]:
  "no_ID (gate_node md) = ''node-1''" "no_ServerID (gate_node md) = ''lobby''" "no_Mode (gate_node md) = md"
  by (simp_all add: gate_node_def)

lemma gvals_single [simp]: "gvals (gput gempty k v) = [v]"
  by (simp add: gvals_def update.rep_eq empty.rep_eq)

lemma node_admitted:
  assumes "sv_nodes s = sv_nodes (sample_server md m)" and "en_NodeAccessToken en = ''access''"
  shows "requireNode en node_request s = Inr (gate_node md)"
proof -
  have "bearerToken node_request = Some ''access''" "TrimSpace (rq_Instance node_request) = ''inst''" by code_simp+
  then show ?thesis
    by (simp add: assms requireNode_def Let_def ConstantTimeTokenEqual_HashToken List_nodes_def sample_server_def)
      (simp add: gate_node_def)
qed

definition lobby :: DownstreamServer where
  "lobby = \<lparr>ds_ID = ''lobby'', ds_Slug = ''lobby'', ds_DisplayName = ''Lobby'', ds_Status = ''active'', ds_RegistrationOpen = True,
     ds_PortalTheme = gempty, ds_PortalConfig = normalizePortalConfig plain_unicode True ''Lobby'' gempty, ds_ExtensionProviders = [],
     ds_CreatedAt = 5, ds_UpdatedAt = 6\<rparr>"

definition lobby_store :: memory where
  "lobby_store = sample_store\<lparr>downstreamServers := gput gempty ''lobby'' lobby\<rparr>"

text \<open>The store is reached by saving the server without a configuration.\<close>

lemma no_entries: "gentries m = [] \<Longrightarrow> m = gempty"
  by (metis gentries_empty impl_of_inject)

lemma sample_store_empty: "presencesByID sample_store = gempty" "bansByID sample_store = gempty" "transferGrants sample_store = gempty"
  "downstreamServers sample_store = gempty"
proof -
  have "let m = sample_store in gentries (presencesByID m) = [] \<and> gentries (bansByID m) = [] \<and>
      gentries (transferGrants m) = [] \<and> gentries (downstreamServers m) = []"
    by code_simp
  then show "presencesByID sample_store = gempty" "bansByID sample_store = gempty" "transferGrants sample_store = gempty"
    "downstreamServers sample_store = gempty"
    unfolding Let_def by (blast intro: no_entries)+
qed

lemma lobby_store_saved:
  "fst (UpsertDownstreamServer plain_unicode (lobby\<lparr>ds_PortalConfig := gempty\<rparr>) None 6 sample_store) = lobby_store"
  by (simp add: UpsertDownstreamServer_def lobby_store_def lobby_def sample_store_empty normalizeDownstreamServer_def Let_def)

definition lobby_grant :: TransferGrant where
  "lobby_grant = \<lparr>tg_ID = ''g'', tg_PlayerID = sample_p, tg_PassportID = sample_q, tg_ServerID = ''lobby'',
     tg_PortalNodeID = ''node-2'', tg_PortalSource = ''limbo'', tg_RemoteIP = ''10.0.0.7'', tg_GateNodeID = [],
     tg_TokenHash = ''h'', tg_UUID = sample_p, tg_ProtocolName = ''Notch'', tg_TargetHost = ''127.0.0.1'', tg_TargetPort = 25565,
     tg_CreatedAt = 90, tg_ExpiresAt = 150, tg_ConsumedAt = None\<rparr>"

definition gate_server_state :: Server where
  "gate_server_state = sample_server ''downstream_velocity'' (SaveTransferGrant lobby_grant lobby_store)"

definition gate_request :: consumeTransferGrantRequest where
  "gate_request = \<lparr>cs_Token = [], cs_TokenHash = ''h'', cs_ServerID = ''lobby'', cs_UUID = sample_p, cs_ProtocolName = ''Notch'',
     cs_Source = [], cs_RemoteIP = []\<rparr>"

text \<open>An offline account with its password, and requests to sign in.\<close>

definition alex :: Passport where
  "alex = zero_Passport\<lparr>pp_ID := ''q'', pp_Kind := PassportKindOffline, pp_Status := PassportStatusActive\<rparr>"

definition alex_hash :: string where
  "alex_hash = (case HashPassword sample_idkey ''correct horse'' DefaultArgon2idParams (Some (replicate 16 7)) of
     Some (Inr h) \<Rightarrow> h | _ \<Rightarrow> [])"

definition alex_credential :: OfflineCredential where
  "alex_credential = new_credential ''q'' alex_hash [] []"

definition login_state :: Server where
  "login_state = sample_server ''limbo_portal'' (NewMemory\<lparr>passportsByID := gput gempty ''q'' alex,
     passportByUsername := gput gempty ''alex'' ''q'', credentialsByPlayer := gput gempty ''q'' alex_credential\<rparr>)"

definition login_request :: "string \<Rightarrow> authenticatePlayerRequest" where
  "login_request password = \<lparr>ap_Username = ''Alex'', ap_Password = password, ap_RemoteIP = ''10.0.0.7''\<rparr>"

lemma login_request_simps [simp]: "ap_Username (login_request w) = ''Alex''" "ap_Password (login_request w) = w"
  by (simp_all add: login_request_def)

lemma alex_passwords:
  "VerifyPassword sample_idkey ''correct horse'' (oc_PasswordHash alex_credential) = Some (Inr True)"
  "VerifyPassword sample_idkey ''wrong horse'' (oc_PasswordHash alex_credential) = Some (Inr False)"
  by code_simp+

lemma login_account:
  "GetPassportByUsername plain_unicode (sv_store login_state) (normalizeNodeUsername ''Alex'') = Inr alex"
  "gget (credentialsByPlayer (sv_store login_state)) (pp_ID alex) = Some alex_credential"
  "sv_nodes login_state = sv_nodes (sample_server ''limbo_portal'' NewMemory)" "sv_tick login_state = 0"
proof -
  have "NormalizeOfflineName plain_unicode (normalizeNodeUsername ''Alex'') =
      Inr \<lparr>on_Raw = ''Alex'', on_Normalized = ''alex'', on_Protocol = ''Alex''\<rparr>" by code_simp
  then show "GetPassportByUsername plain_unicode (sv_store login_state) (normalizeNodeUsername ''Alex'') = Inr alex"
    by (simp add: GetPassportByUsername_def login_state_def passport_at_def)
qed (simp_all add: login_state_def alex_def sample_server_def)

end
