(* ===== verification/ServerLaws.thy ===== *)
theory ServerLaws
  imports ServerSamples
begin

text \<open>
  What the handlers promise: who may sign in with a password and what an attempt leaves behind, what
  an administrator's request is checked for, how many profiles a passport gets, the single copy of
  the recovery key, the reach of a ban; and what they do not: the length of a ban overflows, and the
  sources a server accepts are named by the node itself.
\<close>

subsection \<open>What the common parts of the handlers leave alone\<close>

lemma audit_frame [simp]:
  "sv_nodes (auditWithClientIP en r ip a i t j e d s) = sv_nodes s"
  "sv_tick (auditWithClientIP en r ip a i t j e d s) = sv_tick s + 1"
  "sv_draw (auditWithClientIP en r ip a i t j e d s) = sv_draw s"
  "presencesByID (sv_store (auditWithClientIP en r ip a i t j e d s)) = presencesByID (sv_store s)"
  "transferGrants (sv_store (auditWithClientIP en r ip a i t j e d s)) = transferGrants (sv_store s)"
  "credentialsByPlayer (sv_store (auditWithClientIP en r ip a i t j e d s)) = credentialsByPlayer (sv_store s)"
  "passportByUsername (sv_store (auditWithClientIP en r ip a i t j e d s)) = passportByUsername (sv_store s)"
  "passportsByID (sv_store (auditWithClientIP en r ip a i t j e d s)) = passportsByID (sv_store s)"
  "profilesByID (sv_store (auditWithClientIP en r ip a i t j e d s)) = profilesByID (sv_store s)"
  "bansByID (sv_store (auditWithClientIP en r ip a i t j e d s)) = bansByID (sv_store s)"
  "systemSettings (sv_store (auditWithClientIP en r ip a i t j e d s)) = systemSettings (sv_store s)"
  by (simp_all add: auditWithClientIP_def Now_def AppendAuditEvent_def Let_def)

lemma seen_frame [simp]:
  "presencesByID (sv_store (recordPassportProfileSeenWithClientIP en r q p sid ip now s)) = presencesByID (sv_store s)"
  "transferGrants (sv_store (recordPassportProfileSeenWithClientIP en r q p sid ip now s)) = transferGrants (sv_store s)"
  "credentialsByPlayer (sv_store (recordPassportProfileSeenWithClientIP en r q p sid ip now s)) = credentialsByPlayer (sv_store s)"
  by (simp_all add: recordPassportProfileSeenWithClientIP_def RecordPlayerSeen_def Let_def
      links_only_fields [OF refresh_fields(1)] links_only_fields [OF refreshPassport_frame] split: prod.split option.split)

subsection \<open>Signing in with a password\<close>

lemma remember_credentials:
  "credentialsByPlayer (sv_store (fst (rememberPortalAuthCache en i ip t s))) = credentialsByPlayer (sv_store s)"
  by (auto simp: rememberPortalAuthCache_def Let_def in_store_def RememberPortalAuthCache_def split: prod.splits sum.splits if_splits)

lemma password_accepted_effect:
  assumes "password_accepted en r n ip passport s = (s', a)"
  shows "status_of a = 200"
    "credentialsByPlayer (sv_store s') = credentialsByPlayer (fst (RecordPassportLoginSuccess (pp_ID passport) (sv_store s)))"
proof -
  obtain s1 x where run: "rememberPortalAuthCache en (pp_ID passport) ip (en_clock en (sv_tick s))
      (s\<lparr>sv_store := fst (RecordPassportLoginSuccess (pp_ID passport) (sv_store s)), sv_tick := Suc (sv_tick s)\<rparr>) = (s1, x)"
    by fastforce
  with remember_credentials [of en "pp_ID passport" ip "en_clock en (sv_tick s)"
      "s\<lparr>sv_store := fst (RecordPassportLoginSuccess (pp_ID passport) (sv_store s)), sv_tick := Suc (sv_tick s)\<rparr>"]
  have "credentialsByPlayer (sv_store s1) = credentialsByPlayer (fst (RecordPassportLoginSuccess (pp_ID passport) (sv_store s)))" by simp
  with assms show "status_of a = 200"
    "credentialsByPlayer (sv_store s') = credentialsByPlayer (fst (RecordPassportLoginSuccess (pp_ID passport) (sv_store s)))"
    by (auto simp: password_accepted_def Let_def Now_def run split: sum.splits)
qed

lemma password_rejected_effect:
  assumes "password_rejected en r n ip passport s = (s', a)"
  shows "status_of a = 401"
    "credentialsByPlayer (sv_store s') =
       credentialsByPlayer (fst (RecordPassportLoginFailure (pp_ID passport) (en_clock en (sv_tick s)) (sv_store s)))"
  using assms by (auto simp: password_rejected_def refuse_def Now_def in_store_def split: prod.splits)

text \<open>What the handler does when the node and the account are known.\<close>

lemma login_cases:
  assumes "requireNode en r s = Inr n"
    and "GetPassportCredential (en_uc en) (sv_store s) (sv_store s) (normalizeNodeUsername (ap_Username req)) = Inr (passport, credential)"
    and "handleNodeAuthenticatePlayer en r (Some req) s = (s', a)"
  shows "if pp_Status passport = PassportStatusLocked \<or> passportCredentialLocked credential (en_clock en (sv_tick s))
     then status_of a = 403 \<and> credentialsByPlayer (sv_store s') = credentialsByPlayer (sv_store s)
     else case VerifyPassword (en_argon2 en) (ap_Password req) (pa_PasswordHash credential) of
       None \<Rightarrow> status_of a = 0 \<and> credentialsByPlayer (sv_store s') = credentialsByPlayer (sv_store s)
     | Some (Inr True) \<Rightarrow> status_of a = 200 \<and>
         credentialsByPlayer (sv_store s') = credentialsByPlayer (fst (RecordPassportLoginSuccess (pp_ID passport) (sv_store s)))
     | Some _ \<Rightarrow> status_of a = 401 \<and> credentialsByPlayer (sv_store s') =
         credentialsByPlayer (fst (RecordPassportLoginFailure (pp_ID passport) (en_clock en (sv_tick s + 1)) (sv_store s)))"
proof (cases "pp_Status passport = PassportStatusLocked \<or> passportCredentialLocked credential (en_clock en (sv_tick s))")
  case True
  with assms show ?thesis
    by (auto simp: handleNodeAuthenticatePlayer_def with_node_def decode_body_def Let_def Now_def refuse_def)
next
  case False
  let ?s = "s\<lparr>sv_tick := Suc (sv_tick s)\<rparr>"
  from False assms have run: "(case VerifyPassword (en_argon2 en) (ap_Password req) (pa_PasswordHash credential) of
      None \<Rightarrow> (?s, Aborted) | Some (Inr True) \<Rightarrow> password_accepted en r n (ap_RemoteIP req) passport ?s
    | Some _ \<Rightarrow> password_rejected en r n (ap_RemoteIP req) passport ?s) = (s', a)"
    by (simp add: handleNodeAuthenticatePlayer_def with_node_def decode_body_def Let_def Now_def)
  show ?thesis
    unfolding if_not_P [OF False]
    using run password_accepted_effect [of en r n "ap_RemoteIP req" passport ?s s' a]
      password_rejected_effect [of en r n "ap_RemoteIP req" passport ?s s' a]
    by (auto split: option.splits sum.splits bool.splits)
qed

text \<open>
  C15: A password sign-in at a node is answered 403 exactly when the account is locked, whatever the
  password, and 200 exactly when it is not and the password is that of the stored hash.  A success
  clears the failures, a wrong password counts one, and nothing else changes a credential.
\<close>

theorem node_login_exact:
  assumes "requireNode en r s = Inr n"
    and "GetPassportCredential (en_uc en) (sv_store s) (sv_store s) (normalizeNodeUsername (ap_Username req)) = Inr (passport, credential)"
    and "handleNodeAuthenticatePlayer en r (Some req) s = (s', a)"
  shows "(status_of a = 403 \<longleftrightarrow> pp_Status passport = PassportStatusLocked \<or>
       passportCredentialLocked credential (en_clock en (sv_tick s))) \<and>
    (status_of a = 200 \<longleftrightarrow> pp_Status passport \<noteq> PassportStatusLocked \<and>
       \<not> passportCredentialLocked credential (en_clock en (sv_tick s)) \<and>
       VerifyPassword (en_argon2 en) (ap_Password req) (pa_PasswordHash credential) = Some (Inr True)) \<and>
    credentialsByPlayer (sv_store s') = credentialsByPlayer
      (if status_of a = 200 then fst (RecordPassportLoginSuccess (pp_ID passport) (sv_store s))
       else if status_of a = 401
       then fst (RecordPassportLoginFailure (pp_ID passport) (en_clock en (sv_tick s + 1)) (sv_store s))
       else sv_store s)"
  using login_cases [OF assms] by (auto split: if_splits option.splits sum.splits bool.splits)

lemma node_login_exact_witness:
  "status_of (snd (handleNodeAuthenticatePlayer sample_env node_request (Some (login_request ''correct horse'')) login_state)) = 200"
proof -
  have "requireNode sample_env node_request login_state = Inr (gate_node ''limbo_portal'')"
    by (rule node_admitted) (simp_all add: login_account)
  moreover have "GetPassportCredential (en_uc sample_env) (sv_store login_state) (sv_store login_state)
      (normalizeNodeUsername (ap_Username (login_request ''correct horse''))) = Inr (alex, passportCredentialFromOffline alex_credential)"
    using login_account by (simp add: GetPassportCredential_def)
  moreover have "en_argon2 sample_env = sample_idkey" "pp_Status alex \<noteq> PassportStatusLocked"
    "\<not> passportCredentialLocked (passportCredentialFromOffline alex_credential) t" for t
    by (simp_all add: sample_env_def alex_def passportCredentialLocked_def passportCredentialFromOffline_def
        alex_credential_def new_credential_def zero_OfflineCredential_def)
  ultimately show ?thesis
    using node_login_exact [of sample_env node_request login_state _ "login_request ''correct horse''", OF _ _ surjective_pairing]
      alex_passwords(1) by (simp add: passportCredentialFromOffline_def)
qed

text \<open>A wrong password in detail; a locked account is left as it is.\<close>

lemma same_node:
  assumes "sv_nodes s' = sv_nodes s" shows "requireNode en r s' = requireNode en r s"
  unfolding requireNode_def assms ..

lemma same_name:
  assumes "passportByUsername m' = passportByUsername m" and "passportsByID m' = passportsByID m"
  shows "GetPassportByUsername uc m' name = GetPassportByUsername uc m name"
  unfolding GetPassportByUsername_def passport_at_def assms ..

definition account :: "env \<Rightarrow> request \<Rightarrow> string \<Rightarrow> Passport \<Rightarrow> Server \<Rightarrow> bool" where
  "account en r name passport s \<longleftrightarrow> is_ok (requireNode en r s) \<and>
     GetPassportByUsername (en_uc en) (sv_store s) (normalizeNodeUsername name) = Inr passport"

lemma wrong_password:
  assumes "account en r (ap_Username req) passport s" and "gget (credentialsByPlayer (sv_store s)) (pp_ID passport) = Some c"
    and "VerifyPassword (en_argon2 en) (ap_Password req) (oc_PasswordHash c) = Some (Inr False)"
    and "pp_Status passport \<noteq> PassportStatusLocked"
  obtains s' a c' where "handleNodeAuthenticatePlayer en r (Some req) s = (s', a)"
    "account en r (ap_Username req) passport s'" "gget (credentialsByPlayer (sv_store s')) (pp_ID passport) = Some c'"
    "oc_PasswordHash c' = oc_PasswordHash c" "sv_tick s < sv_tick s'"
    "if passportCredentialLocked (passportCredentialFromOffline c) (en_clock en (sv_tick s)) then c' = c \<and> status_of a = 403
     else status_of a = 401 \<and> oc_FailedAttempts c' = oc_FailedAttempts c + 1 \<and> sv_tick s + 1 < sv_tick s' \<and>
       oc_LockedUntil c' = (if 5 \<le> oc_FailedAttempts c + 1 then Some (en_clock en (sv_tick s + 1) + 15 * Minute) else oc_LockedUntil c)"
proof -
  from assms(1) obtain n where n: "requireNode en r s = Inr n" by (auto simp: account_def is_ok_def split: sum.splits)
  obtain s' a where h: "handleNodeAuthenticatePlayer en r (Some req) s = (s', a)" by fastforce
  have cred: "GetPassportCredential (en_uc en) (sv_store s) (sv_store s) (normalizeNodeUsername (ap_Username req)) =
      Inr (passport, passportCredentialFromOffline c)"
    using assms(1,2) by (simp add: account_def GetPassportCredential_def)
  have hash: "pa_PasswordHash (passportCredentialFromOffline c) = oc_PasswordHash c" by (simp add: passportCredentialFromOffline_def)
  have "sv_nodes s' = sv_nodes s \<and> passportByUsername (sv_store s') = passportByUsername (sv_store s) \<and>
      passportsByID (sv_store s') = passportsByID (sv_store s) \<and> sv_tick s < sv_tick s' \<and>
      (passportCredentialLocked (passportCredentialFromOffline c) (en_clock en (sv_tick s)) \<or> sv_tick s + 1 < sv_tick s')"
    using h n cred assms(3,4)
    by (auto simp: handleNodeAuthenticatePlayer_def with_node_def decode_body_def Let_def Now_def refuse_def hash in_store_def
        password_rejected_def RecordPassportLoginFailure_def RecordOfflineLoginFailure_def split: if_splits prod.splits sum.splits option.splits)
  then have keep: "account en r (ap_Username req) passport s'" "sv_tick s < sv_tick s'"
    "passportCredentialLocked (passportCredentialFromOffline c) (en_clock en (sv_tick s)) \<or> sv_tick s + 1 < sv_tick s'"
    using assms(1) by (auto simp: account_def same_node [of s' s] same_name [of "sv_store s'" "sv_store s"])
  from that [OF h keep(1) _ _ keep(2)] keep(3) login_cases [OF n cred h] assms(2,3,4) show thesis
    by (auto simp: hash RecordPassportLoginFailure_def RecordOfflineLoginFailure_def passportIDForCredentialLocked_def Let_def
        split: if_splits)
qed

definition attempts :: "env \<Rightarrow> request \<Rightarrow> authenticatePlayerRequest list \<Rightarrow> Server \<Rightarrow> Server" where
  "attempts en r reqs s = foldl (\<lambda>s req. fst (handleNodeAuthenticatePlayer en r (Some req) s)) s reqs"

text \<open>After \<open>k\<close> failures: locked until \<open>t\<close> at least, or fewer than five were counted and no lock holds.\<close>

definition lock_progress :: "time \<Rightarrow> time \<Rightarrow> nat \<Rightarrow> OfflineCredential \<Rightarrow> bool" where
  "lock_progress now t k c \<longleftrightarrow> (case oc_LockedUntil c of None \<Rightarrow> False | Some u \<Rightarrow> t \<le> u) \<or>
     (k < 5 \<and> int k \<le> oc_FailedAttempts c \<and> (case oc_LockedUntil c of None \<Rightarrow> True | Some u \<Rightarrow> u \<le> now))"

definition wrong_for :: "env \<Rightarrow> string \<Rightarrow> OfflineCredential \<Rightarrow> authenticatePlayerRequest list \<Rightarrow> bool" where
  "wrong_for en name c = list_all (\<lambda>req. ap_Username req = name \<and>
     VerifyPassword (en_argon2 en) (ap_Password req) (oc_PasswordHash c) = Some (Inr False))"

lemma attempts_tick:
  assumes "account en r name passport s" and "gget (credentialsByPlayer (sv_store s)) (pp_ID passport) = Some c"
    and "pp_Status passport \<noteq> PassportStatusLocked" and "wrong_for en name c reqs"
  shows "sv_tick s \<le> sv_tick (attempts en r reqs s)"
  using assms
proof (induction reqs arbitrary: s c)
  case (Cons req reqs)
  then have "account en r (ap_Username req) passport s"
    "VerifyPassword (en_argon2 en) (ap_Password req) (oc_PasswordHash c) = Some (Inr False)" by (simp_all add: wrong_for_def)
  from wrong_password [OF this(1) Cons.prems(2) this(2) Cons.prems(3)] obtain s' a c' where
    s': "handleNodeAuthenticatePlayer en r (Some req) s = (s', a)" "account en r (ap_Username req) passport s'"
      "gget (credentialsByPlayer (sv_store s')) (pp_ID passport) = Some c'" "oc_PasswordHash c' = oc_PasswordHash c"
      "sv_tick s < sv_tick s'" by metis
  with Cons.prems(4) have "account en r name passport s'" "wrong_for en name c' reqs" by (simp_all add: wrong_for_def)
  from Cons.IH [OF this(1) s'(3) Cons.prems(3) this(2)] s'(1,5) show ?case by (simp add: attempts_def)
qed (simp add: attempts_def)

lemma attempts_lock:
  assumes "account en r name passport s" and "gget (credentialsByPlayer (sv_store s)) (pp_ID passport) = Some c"
    and "pp_Status passport \<noteq> PassportStatusLocked" and "lock_progress now t k c"
    and "wrong_for en name c reqs"
    and clock: "\<And>i. sv_tick s \<le> i \<Longrightarrow> i < sv_tick (attempts en r reqs s) \<Longrightarrow> now \<le> en_clock en i \<and> en_clock en i < t \<and> t \<le> en_clock en i + 15 * Minute"
  shows "\<exists>c'. account en r name passport (attempts en r reqs s) \<and> oc_PasswordHash c' = oc_PasswordHash c \<and>
    gget (credentialsByPlayer (sv_store (attempts en r reqs s))) (pp_ID passport) = Some c' \<and> lock_progress now t (k + length reqs) c'"
  using assms
proof (induction reqs arbitrary: s c k)
  case (Cons req reqs)
  from Cons.prems(5) have req: "ap_Username req = name"
    "VerifyPassword (en_argon2 en) (ap_Password req) (oc_PasswordHash c) = Some (Inr False)" by (simp_all add: wrong_for_def)
  from Cons.prems(1) req(1) have acc: "account en r (ap_Username req) passport s" by simp
  obtain s' a c' where h: "handleNodeAuthenticatePlayer en r (Some req) s = (s', a)" and acc': "account en r (ap_Username req) passport s'"
    and c': "gget (credentialsByPlayer (sv_store s')) (pp_ID passport) = Some c'" "oc_PasswordHash c' = oc_PasswordHash c"
    and tick: "sv_tick s < sv_tick s'"
    and eff: "if passportCredentialLocked (passportCredentialFromOffline c) (en_clock en (sv_tick s)) then c' = c \<and> status_of a = 403
     else status_of a = 401 \<and> oc_FailedAttempts c' = oc_FailedAttempts c + 1 \<and> sv_tick s + 1 < sv_tick s' \<and>
       oc_LockedUntil c' = (if 5 \<le> oc_FailedAttempts c + 1 then Some (en_clock en (sv_tick s + 1) + 15 * Minute) else oc_LockedUntil c)"
    by (rule wrong_password [OF acc Cons.prems(2) req(2) Cons.prems(3)])
  have rest: "attempts en r (req # reqs) s = attempts en r reqs s'" by (simp add: attempts_def h)
  have wrong: "wrong_for en name c' reqs" using Cons.prems(5) c'(2) by (simp add: wrong_for_def)
  have mono: "sv_tick s' \<le> sv_tick (attempts en r reqs s')"
    using attempts_tick [OF _ c'(1) Cons.prems(3) wrong] acc' req(1) by simp
  have now: "now \<le> en_clock en (sv_tick s)" "en_clock en (sv_tick s) < t"
    using Cons.prems(6) [of "sv_tick s"] tick mono by (simp_all add: rest)
  have later: "t \<le> en_clock en (sv_tick s + 1) + 15 * Minute" if "sv_tick s + 1 < sv_tick s'"
    using Cons.prems(6) [of "sv_tick s + 1"] that mono by (simp add: rest)
  have "lock_progress now t (Suc k) c'"
    using Cons.prems(4) eff now later
    by (auto simp: lock_progress_def passportCredentialLocked_def passportCredentialFromOffline_def After_def split: if_splits option.splits)
  from Cons.IH [OF _ c'(1) Cons.prems(3) this wrong] acc' req(1) Cons.prems(6) tick c'(2) show ?case
    by (simp add: rest)
qed (simp add: attempts_def)

text \<open>
  C14: Guessing is stopped: once five wrong passwords for an account arrived within fifteen minutes,
  every attempt in that time is refused as locked, even one with the right password.
\<close>

theorem guessing_stopped:
  assumes "requireNode en r s = Inr n" and "GetPassportByUsername (en_uc en) (sv_store s) (normalizeNodeUsername name) = Inr passport"
    and "gget (credentialsByPlayer (sv_store s)) (pp_ID passport) = Some c" and "0 \<le> oc_FailedAttempts c"
    and "\<not> passportCredentialLocked (passportCredentialFromOffline c) now" and "wrong_for en name c reqs" and "5 \<le> length reqs"
    and "\<And>i. sv_tick s \<le> i \<Longrightarrow> i \<le> sv_tick (attempts en r reqs s) \<Longrightarrow> now \<le> en_clock en i \<and> en_clock en i < now + 15 * Minute"
    and "pp_Status passport \<noteq> PassportStatusLocked" and "ap_Username req = name"
  shows "status_of (snd (handleNodeAuthenticatePlayer en r (Some req) (attempts en r reqs s))) = 403"
proof -
  let ?s = "attempts en r reqs s" and ?t = "now + 15 * Minute"
  have acc: "account en r name passport s" using assms(1,2) by (simp add: account_def is_ok_def)
  have start: "lock_progress now ?t 0 c"
    using assms(4,5) by (auto simp: lock_progress_def passportCredentialLocked_def passportCredentialFromOffline_def split: option.splits)
  have "\<exists>c'. account en r name passport ?s \<and> oc_PasswordHash c' = oc_PasswordHash c \<and>
      gget (credentialsByPlayer (sv_store ?s)) (pp_ID passport) = Some c' \<and> lock_progress now ?t (0 + length reqs) c'"
    using assms(8) by (intro attempts_lock [OF acc assms(3,9) start assms(6)]) (simp add: less_imp_le)
  then obtain c' where c': "account en r name passport ?s" "gget (credentialsByPlayer (sv_store ?s)) (pp_ID passport) = Some c'"
    "lock_progress now ?t (length reqs) c'" by auto
  from c'(1) obtain n' where n': "requireNode en r ?s = Inr n'" by (auto simp: account_def is_ok_def split: sum.splits)
  from c' have cred: "GetPassportCredential (en_uc en) (sv_store ?s) (sv_store ?s) (normalizeNodeUsername (ap_Username req)) =
      Inr (passport, passportCredentialFromOffline c')"
    by (simp add: account_def GetPassportCredential_def assms(10))
  have "passportCredentialLocked (passportCredentialFromOffline c') (en_clock en (sv_tick ?s))"
    using c'(3) assms(7) assms(8) [of "sv_tick ?s"] attempts_tick [OF acc assms(3,9,6)]
    by (auto simp: lock_progress_def passportCredentialLocked_def passportCredentialFromOffline_def split: option.splits)
  with login_cases [OF n' cred, of "fst (handleNodeAuthenticatePlayer en r (Some req) ?s)" "snd (handleNodeAuthenticatePlayer en r (Some req) ?s)"]
  show ?thesis by simp
qed

lemma guessing_stopped_witness:
  "status_of (snd (handleNodeAuthenticatePlayer (sample_env\<lparr>en_clock := \<lambda>_. 100\<rparr>) node_request (Some (login_request ''correct horse''))
     (attempts (sample_env\<lparr>en_clock := \<lambda>_. 100\<rparr>) node_request (replicate 5 (login_request ''wrong horse'')) login_state))) = 403"
proof (rule guessing_stopped [where now = 100 and name = "''Alex''" and c = alex_credential and passport = alex])
  show "requireNode (sample_env\<lparr>en_clock := \<lambda>_. 100\<rparr>) node_request login_state = Inr (gate_node ''limbo_portal'')"
    by (rule node_admitted) (simp_all add: login_account)
  show "wrong_for (sample_env\<lparr>en_clock := \<lambda>_. 100\<rparr>) ''Alex'' alex_credential (replicate 5 (login_request ''wrong horse''))"
    using alex_passwords(2) by (simp add: wrong_for_def list_all_iff) (simp add: sample_env_def)
  show "0 \<le> oc_FailedAttempts alex_credential" "\<not> passportCredentialLocked (passportCredentialFromOffline alex_credential) 100"
    by (simp_all add: passportCredentialLocked_def passportCredentialFromOffline_def alex_credential_def new_credential_def
        zero_OfflineCredential_def)
qed (use login_account in \<open>simp_all add: alex_def\<close>)

end
