(* ===== verification/ServerGate.thy ===== *)
theory ServerGate
  imports ServerLaws
begin

text \<open>
  What the gate of a downstream server lets in: the answers of \<^verbatim>\<open>handleNodeConsumeTransferGrant\<close>
  taken apart, and the properties of grants that follow, over single requests and over runs of the
  server.
\<close>

subsection \<open>An answer of success taken apart\<close>

lemma clear_conflict_ok:
  assumes "clear_conflict en r n player serverID ip existing now s k = (s', a)" and "status_of a = 200"
  obtains s1 where "k s1 = (s', a)"
  using assms by (auto simp: clear_conflict_def rejectProfileAlreadyOnline_def Let_def split: prod.splits if_splits)

lemma insert_presence_ok:
  "(case Now en s of (s, t) \<Rightarrow> case in_store (UpsertPresence input t) s of (s, Inl e) \<Rightarrow> k' s | (s, Inr p) \<Rightarrow> k p s) = (s', a) \<Longrightarrow>
   (\<exists>s1 s2 p t. in_store (UpsertPresence input t) s1 = (s2, Inr p) \<and> k p s2 = (s', a)) \<or> (\<exists>s1. k' s1 = (s', a))"
  by (auto split: prod.splits sum.splits)

lemma open_presence_ok:
  assumes "open_presence en r n player ip input now s k = (s', a)" and ok: "status_of a = 200"
  shows "\<exists>s1 s2 p t. in_store (UpsertPresence input t) s1 = (s2, Inr p) \<and> k p s2 = (s', a)"
proof (rule ccontr)
  assume no: "\<not> ?thesis"
  have failed: "refuse s1 500 c msg \<noteq> (s', a)" for s1 c msg using ok by (auto simp: refuse_def)
  show False
    using assms(1) unfolding open_presence_def Let_def
    by (auto split: if_splits dest!: insert_presence_ok elim!: clear_conflict_ok [OF _ ok] simp: failed) (use no in blast)+
qed

lemma admit_player_ok:
  assumes "admit_player en r n req server target g s = (s', a)" and ok: "status_of a = 200"
  obtains p q now s1 s2 presence t input where
    "GetProfileByID (sv_store s) (tg_PlayerID g) = Inr p" "passportForTransferGrant (sv_store s) g = Inr q"
    "pp_Status q \<noteq> PassportStatusLocked" "pf_Status p \<noteq> ProfileStatusLocked"
    "ActiveBanFor (sv_store s) (pp_ID q) (pf_ID p) (en_clock en (sv_tick s)) = None"
    "dg_Status target = ''hidden'' \<Longrightarrow> DownstreamServerHasPrivilegedPassport (sv_store s) (ds_ID server) (pp_ID q)"
    "in_store (UpsertPresence input t) s1 = (s2, Inr presence)"
    "pc_ProfileID input = pf_ID p" "pc_ServerID input = ds_ID server" "pc_PassportID input = pp_ID q"
    "pc_NodeID input = no_ID n" "pc_EndedAt input = None"
    "player_admitted en r n req server target g p q (dressed_player en s q p)
       (DownstreamServerHasPrivilegedPassport (sv_store s) (ds_ID server) (pp_ID q)) now presence s2 = (s', a)"
proof -
  have no: "refuse s1 n c msg \<noteq> (s', a)" if "n \<noteq> 200" for s1 n c msg
    using ok that by (auto simp: refuse_def)
  have no': "grant_refused en r n ev ip t i d (NewError k c msg) s1 \<noteq> (s', a)" if "k \<noteq> 200" for ev ip t i d k c msg s1
    using ok that by (auto simp: grant_refused_def)
  note f = assms(1) [unfolded admit_player_def Let_def]
  from f obtain p where p: "GetProfileByID (sv_store s) (tg_PlayerID g) = Inr p" by (auto simp: no split: sum.splits)
  from f p obtain q where q: "passportForTransferGrant (sv_store s) g = Inr q" by (auto simp: no split: sum.splits)
  note f = f [unfolded p q sum.case activeBanForPassportProfile_def Now_def prod.case dressed_player_simps]
  from f have l: "\<not> (pp_Status q = PassportStatusLocked \<or> pf_Status p = ProfileStatusLocked)" by (auto simp: no)
  note f = f [unfolded if_not_P [OF l]]
  from f have b: "ActiveBanFor (sv_store s) (pp_ID q) (pf_ID p) (en_clock en (sv_tick s)) = None"
    by (cases "ActiveBanFor (sv_store s) (pp_ID q) (pf_ID p) (en_clock en (sv_tick s))") (simp_all add: no')
  from f b have h: "\<not> (dg_Status target = ''hidden'' \<and> \<not> DownstreamServerHasPrivilegedPassport (sv_store s) (ds_ID server) (pp_ID q))"
    by (auto simp: no' split: if_splits)
  let ?now = "en_clock en (sv_tick s + 1)" and ?priv = "DownstreamServerHasPrivilegedPassport (sv_store s) (ds_ID server) (pp_ID q)"
  define input where "input = \<lparr>pc_ID = [], pc_PassportID = pp_ID q, pc_ProfileID = pf_ID p, pc_ServerID = ds_ID server,
    pc_NodeID = no_ID n, pc_ProtocolName = TrimSpace (cs_ProtocolName req), pc_UUID = TrimSpace (cs_UUID req),
    pc_RemoteAddr = normalizeClientIPValue (tg_RemoteIP g), pc_ConnectedAt = ?now, pc_LastSeenAt = ?now,
    pc_EndedAt = None, pc_EndReason = []\<rparr>"
  from f b h have "open_presence en r n (dressed_player en s q p) (normalizeClientIPValue (tg_RemoteIP g)) input ?now
      (s\<lparr>sv_tick := sv_tick s + 2\<rparr>) (player_admitted en r n req server target g p q (dressed_player en s q p) ?priv ?now) = (s', a)"
    by (auto simp: input_def split: if_splits)
  from open_presence_ok [OF this ok] obtain s1 s2 x t where "in_store (UpsertPresence input t) s1 = (s2, Inr x)"
    "player_admitted en r n req server target g p q (dressed_player en s q p) ?priv ?now x s2 = (s', a)" by blast
  from that [OF p q _ _ b _ this(1) _ _ _ _ _ this(2)] l h show thesis by (simp add: input_def)
qed


text \<open>What the gate hands to the store.\<close>

definition gate_args :: "env \<Rightarrow> Node \<Rightarrow> DownstreamServer \<Rightarrow> consumeTransferGrantRequest \<Rightarrow> time \<Rightarrow> consume_args" where
  "gate_args en n server req now =
     \<lparr>ca_serverID = ds_ID server, ca_uuid = TrimSpace (cs_UUID req), ca_protocolName = TrimSpace (cs_ProtocolName req),
      ca_gateNodeID = no_ID n, ca_allowedPortalSources = dg_AllowedPortalSources (DownstreamTargetFromServer (en_uc en) server),
      ca_now = now\<rparr>"

definition gate_server :: "Node \<Rightarrow> consumeTransferGrantRequest \<Rightarrow> string" where
  "gate_server n req = (if TrimSpace (cs_ServerID req) = [] then no_ServerID n else TrimSpace (cs_ServerID req))"

lemma consume_ok:
  assumes "handleNodeConsumeTransferGrant en r (Some req) s = (s', a)" and ok: "status_of a = 200"
  obtains n server g m where
    "requireNode en r s = Inr n" "GetDownstreamServer (sv_store s) (gate_server n req) = Inr server"
    "dg_GateEnabled (DownstreamTargetFromServer (en_uc en) server)"
    "dg_Status (DownstreamTargetFromServer (en_uc en) server) \<noteq> ''disabled''"
    "ConsumeTransferGrant (en_uc en) (consume_hash req) (gate_args en n server req (en_clock en (sv_tick s))) (sv_store s) = (m, Inr g)"
    "admit_player en r n req server (DownstreamTargetFromServer (en_uc en) server) g
       (s\<lparr>sv_tick := sv_tick s + 1, sv_store := m\<rparr>) = (s', a)"
proof -
  have no: "refuse s1 n c msg \<noteq> (s', a)" if "n \<noteq> 200" for s1 n c msg
    using ok that by (auto simp: refuse_def)
  have no': "grant_refused en r n ev ip t i d (NewError k c msg) s1 \<noteq> (s', a)" if "k \<noteq> 200" for n ev ip t i d k c msg s1
    using ok that by (auto simp: grant_refused_def)
  note f = assms(1) [unfolded handleNodeConsumeTransferGrant_def with_node_def decode_body_def Let_def option.case gate_server_def [symmetric]]
  from f obtain n where n: "requireNode en r s = Inr n"
    using ok by (auto simp: requireNode_def Let_def split: sum.splits if_splits option.splits)
  note f = f [unfolded n sum.case]
  from f have i: "gate_server n req \<noteq> []" by (auto simp: no)
  from f i obtain server where sv: "GetDownstreamServer (sv_store s) (gate_server n req) = Inr server" by (auto simp: no split: sum.splits)
  note f = f [unfolded if_not_P [OF i] sv sum.case]
  from f have g: "dg_GateEnabled (DownstreamTargetFromServer (en_uc en) server)" by (auto simp: no split: if_splits)
  from f g have d: "dg_Status (DownstreamTargetFromServer (en_uc en) server) \<noteq> ''disabled''" by (auto simp: no split: if_splits)
  obtain m x where c: "ConsumeTransferGrant (en_uc en) (consume_hash req) (gate_args en n server req (en_clock en (sv_tick s))) (sv_store s) = (m, x)"
    by fastforce
  from f g d have "(case x of
      Inl e \<Rightarrow> grant_refused en r n ''transfer_grant.reject'' (cs_RemoteIP req) ''downstream_server'' (ds_ID server) (mk_map
          [(''reason'', VStr (error_text en e)), (''protocol_name'', VStr (TrimSpace (cs_ProtocolName req))),
           (''uuid'', VStr (TrimSpace (cs_UUID req))), (''source'', VStr (cs_Source req)), (''remote_ip'', VStr (cs_RemoteIP req))])
         (NewError 403 ''transfer_grant.invalid'' (error_text en e)) (s\<lparr>sv_tick := sv_tick s + 1, sv_store := m\<rparr>)
    | Inr g \<Rightarrow> admit_player en r n req server (DownstreamTargetFromServer (en_uc en) server) g
        (s\<lparr>sv_tick := sv_tick s + 1, sv_store := m\<rparr>)) = (s', a)"
    using c by (cases x) (simp_all add: no Now_def in_store_def gate_args_def split: if_splits)
  then obtain gr where "x = Inr gr" and "admit_player en r n req server (DownstreamTargetFromServer (en_uc en) server) gr
        (s\<lparr>sv_tick := sv_tick s + 1, sv_store := m\<rparr>) = (s', a)"
    by (cases x) (simp_all add: no')
  with that [OF n sv g d] c show thesis by blast
qed


subsection \<open>Whom the gate lets in\<close>

lemma with_grants [simp]:
  "GetProfileByID (m\<lparr>transferGrants := t\<rparr>) i = GetProfileByID m i"
  "GetProfilePassportBinding (m\<lparr>transferGrants := t\<rparr>) i j = GetProfilePassportBinding m i j"
  "ListPassportsForProfile (m\<lparr>transferGrants := t\<rparr>) i = ListPassportsForProfile m i"
  "ActiveBanFor (m\<lparr>transferGrants := t\<rparr>) i j now = ActiveBanFor m i j now"
  "DownstreamServerHasPrivilegedPassport (m\<lparr>transferGrants := t\<rparr>) i j = DownstreamServerHasPrivilegedPassport m i j"
  by (simp_all add: GetProfileByID_def GetProfilePassportBinding_def ListPassportsForProfile_def ActiveBanFor_def
      DownstreamServerHasPrivilegedPassport_def split: option.split)

lemma with_grants_passport [simp]: "passportForTransferGrant (m\<lparr>transferGrants := t\<rparr>) g = passportForTransferGrant m g"
  by (simp add: passportForTransferGrant_def Let_def)

lemma presence_inserted:
  "UpsertPresence input t m = (m', Inr x) \<Longrightarrow> presencesByID m' = gput (presencesByID m) (pc_ID x) x \<and>
     pc_ProfileID x = pc_ProfileID input \<and> pc_ServerID x = pc_ServerID input \<and> pc_PassportID x = pc_PassportID input \<and>
     pc_NodeID x = pc_NodeID input \<and> pc_EndedAt x = pc_EndedAt input"
  by (auto simp: UpsertPresence_def Let_def split: if_splits)

text \<open>What the gate asks of the server, the grant and the player it names.\<close>

definition gate_conditions ::
  "env \<Rightarrow> Node \<Rightarrow> DownstreamServer \<Rightarrow> consumeTransferGrantRequest \<Rightarrow> Server \<Rightarrow> TransferGrant \<Rightarrow> Profile \<Rightarrow> Passport \<Rightarrow> bool" where
  "gate_conditions en n server req s g p q \<longleftrightarrow>
    dg_GateEnabled (DownstreamTargetFromServer (en_uc en) server) \<and>
    dg_Status (DownstreamTargetFromServer (en_uc en) server) \<noteq> ''disabled'' \<and>
    gget (transferGrants (sv_store s)) (consume_hash req) = Some g \<and>
    grant_matches (en_uc en) (gate_args en n server req (en_clock en (sv_tick s))) g \<and>
    GetProfileByID (sv_store s) (tg_PlayerID g) = Inr p \<and> pf_Status p \<noteq> ProfileStatusLocked \<and>
    passportForTransferGrant (sv_store s) g = Inr q \<and> pp_Status q \<noteq> PassportStatusLocked \<and>
    ActiveBanFor (sv_store s) (pp_ID q) (pf_ID p) (en_clock en (sv_tick s + 1)) = None \<and>
    (dg_Status (DownstreamTargetFromServer (en_uc en) server) = ''hidden'' \<longrightarrow>
       DownstreamServerHasPrivilegedPassport (sv_store s) (ds_ID server) (pp_ID q))"

text \<open>
  C1: The gate lets a player in only over a stored grant that is unused, unexpired and matches the
  server, the UUID, the name and the portal sources of the request, at an enabled gate, for a profile
  and a passport bound to each other that are not locked and not banned, and for a hidden server only
  with a privileged passport; the player then has an active presence there under the node that asked.
\<close>

theorem gate_admits_only:
  assumes "handleNodeConsumeTransferGrant en r (Some req) s = (s', a)" and "status_of a = 200"
  shows "\<exists>n server g p q x. requireNode en r s = Inr n \<and>
    GetDownstreamServer (sv_store s) (gate_server n req) = Inr server \<and> gate_conditions en n server req s g p q \<and>
    gget (presencesByID (sv_store s')) (pc_ID x) = Some x \<and> pc_EndedAt x = None \<and> pc_NodeID x = no_ID n \<and>
    pc_ProfileID x = pf_ID p \<and> pc_PassportID x = pp_ID q \<and> pc_ServerID x = ds_ID server"
proof (rule consume_ok [OF assms])
  fix n server g' m
  assume n: "requireNode en r s = Inr n" "GetDownstreamServer (sv_store s) (gate_server n req) = Inr server"
    "dg_GateEnabled (DownstreamTargetFromServer (en_uc en) server)"
    "dg_Status (DownstreamTargetFromServer (en_uc en) server) \<noteq> ''disabled''"
    and c: "ConsumeTransferGrant (en_uc en) (consume_hash req) (gate_args en n server req (en_clock en (sv_tick s))) (sv_store s) = (m, Inr g')"
    and admit: "admit_player en r n req server (DownstreamTargetFromServer (en_uc en) server) g'
       (s\<lparr>sv_tick := sv_tick s + 1, sv_store := m\<rparr>) = (s', a)"
  from c obtain g where g: "gget (transferGrants (sv_store s)) (consume_hash req) = Some g"
      "grant_matches (en_uc en) (gate_args en n server req (en_clock en (sv_tick s))) g"
    and g': "g' = g\<lparr>tg_GateNodeID := no_ID n, tg_ConsumedAt := Some (en_clock en (sv_tick s))\<rparr>"
    and m: "m = (sv_store s)\<lparr>transferGrants := gput (transferGrants (sv_store s)) (consume_hash req) g'\<rparr>"
    by (auto simp: ConsumeTransferGrant_Inr gate_args_def)
  have q': "passportForTransferGrant m' g' = passportForTransferGrant m' g" for m'
    by (simp add: g' passportForTransferGrant_def Let_def)
  show ?thesis
  proof (rule admit_player_ok [OF admit assms(2)])
    fix p q now s1 s2 x t input
    assume p: "GetProfileByID (sv_store (s\<lparr>sv_tick := sv_tick s + 1, sv_store := m\<rparr>)) (tg_PlayerID g') = Inr p"
      "passportForTransferGrant (sv_store (s\<lparr>sv_tick := sv_tick s + 1, sv_store := m\<rparr>)) g' = Inr q"
      "pp_Status q \<noteq> PassportStatusLocked" "pf_Status p \<noteq> ProfileStatusLocked"
      "ActiveBanFor (sv_store (s\<lparr>sv_tick := sv_tick s + 1, sv_store := m\<rparr>)) (pp_ID q) (pf_ID p)
         (en_clock en (sv_tick (s\<lparr>sv_tick := sv_tick s + 1, sv_store := m\<rparr>))) = None"
      "dg_Status (DownstreamTargetFromServer (en_uc en) server) = ''hidden'' \<Longrightarrow>
         DownstreamServerHasPrivilegedPassport (sv_store (s\<lparr>sv_tick := sv_tick s + 1, sv_store := m\<rparr>)) (ds_ID server) (pp_ID q)"
      and u: "in_store (UpsertPresence input t) s1 = (s2, Inr x)"
      and i: "pc_ProfileID input = pf_ID p" "pc_ServerID input = ds_ID server" "pc_PassportID input = pp_ID q"
        "pc_NodeID input = no_ID n" "pc_EndedAt input = None"
      and e: "player_admitted en r n req server (DownstreamTargetFromServer (en_uc en) server) g' p q
        (dressed_player en (s\<lparr>sv_tick := sv_tick s + 1, sv_store := m\<rparr>) q p)
        (DownstreamServerHasPrivilegedPassport (sv_store (s\<lparr>sv_tick := sv_tick s + 1, sv_store := m\<rparr>)) (ds_ID server) (pp_ID q))
        now x s2 = (s', a)"
    from u i presence_inserted [of input t "sv_store s1" "sv_store s2" x]
    have x: "gget (presencesByID (sv_store s2)) (pc_ID x) = Some x" "pc_EndedAt x = None" "pc_NodeID x = no_ID n"
      "pc_ProfileID x = pf_ID p" "pc_PassportID x = pp_ID q" "pc_ServerID x = ds_ID server"
      by (auto simp: in_store_def split: prod.splits)
    from e have "presencesByID (sv_store s') = presencesByID (sv_store s2)"
      by (auto simp: player_admitted_def Let_def)
    with x n g p q' show ?thesis
      by (intro exI [of _ n] exI [of _ server] exI [of _ g] exI [of _ p] exI [of _ q] exI [of _ x]) (simp add: m g' gate_conditions_def)
  qed
qed


lemma free_slot:
  assumes "activePresencesForProfileServer (ListProfilePresences m pid) sid = []"
  shows "gfind (\<lambda>e. pc_EndedAt e = None \<and> pc_ID e \<noteq> i \<and> pc_ProfileID e = pid \<and> pc_ServerID e = sid) (presencesByID m) = None"
  using assms
  by (auto simp: activePresencesForProfileServer_def ListProfilePresences_def Let_def filter_empty_conv gfind_None)

lemma open_presence_free:
  assumes "activePresencesForProfileServer (ListProfilePresences (sv_store s) (pc_ProfileID input)) (pc_ServerID input) = []"
    and "pl_ID player = pc_ProfileID input"
  shows "\<exists>x s1. open_presence en r n player ip input now s k = k x s1 \<and> transferGrants (sv_store s1) = transferGrants (sv_store s)"
proof -
  have "\<exists>m x. UpsertPresence input t (sv_store s) = (m, Inr x) \<and> transferGrants m = transferGrants (sv_store s)" for t
    using free_slot [OF assms(1)] free_slot [where m = "(sv_store s)\<lparr>nextID := i\<rparr>" for i]
    by (auto simp: UpsertPresence_def Let_def)
  then obtain m x where "UpsertPresence input (en_clock en (sv_tick s)) (sv_store s) = (m, Inr x)"
    "transferGrants m = transferGrants (sv_store s)" by blast
  with assms show ?thesis by (force simp: open_presence_def Let_def Now_def in_store_def)
qed

lemma gate_opens:
  assumes n: "requireNode en r s = Inr n" and sv: "GetDownstreamServer (sv_store s) (gate_server n req) = Inr server"
    and ok: "gate_conditions en n server req s g p q"
    and req: "gate_server n req \<noteq> []" "consume_hash req \<noteq> []" "TrimSpace (cs_UUID req) \<noteq> []" "TrimSpace (cs_ProtocolName req) \<noteq> []"
    and free: "activePresencesForProfileServer (ListProfilePresences (sv_store s) (pf_ID p)) (ds_ID server) = []"
  obtains s' a where "handleNodeConsumeTransferGrant en r (Some req) s = (s', a)" "status_of a = 200"
    "transferGrants (sv_store s') = gput (transferGrants (sv_store s)) (consume_hash req)
       (g\<lparr>tg_GateNodeID := no_ID n, tg_ConsumedAt := Some (en_clock en (sv_tick s))\<rparr>)"
proof -
  let ?g = "g\<lparr>tg_GateNodeID := no_ID n, tg_ConsumedAt := Some (en_clock en (sv_tick s))\<rparr>"
  let ?t = "gput (transferGrants (sv_store s)) (consume_hash req) ?g"
  let ?m = "(sv_store s)\<lparr>transferGrants := ?t\<rparr>"
  let ?answer = "handleNodeConsumeTransferGrant en r (Some req) s"
  have "ConsumeTransferGrant (en_uc en) (consume_hash req) (gate_args en n server req (en_clock en (sv_tick s))) (sv_store s) = (?m, Inr ?g)"
    using ok by (auto simp: gate_conditions_def ConsumeTransferGrant_Inr gate_args_def)
  then have "?answer =
      admit_player en r n req server (DownstreamTargetFromServer (en_uc en) server) ?g (s\<lparr>sv_tick := sv_tick s + 1, sv_store := ?m\<rparr>)"
    using ok req n sv unfolding gate_server_def
    by (simp add: handleNodeConsumeTransferGrant_def with_node_def decode_body_def Let_def Now_def in_store_def gate_conditions_def
        gate_args_def)
  moreover have "passportForTransferGrant m ?g = passportForTransferGrant m g" for m
    by (simp add: passportForTransferGrant_def Let_def)
  ultimately have "\<exists>player ip input now s1 k. ?answer = open_presence en r n player ip input now s1 k \<and>
      (\<forall>x s2. status_of (snd (k x s2)) = 200 \<and> transferGrants (sv_store (fst (k x s2))) = transferGrants (sv_store s2)) \<and>
      sv_store s1 = ?m \<and> pc_ProfileID input = pf_ID p \<and> pc_ServerID input = ds_ID server \<and> pl_ID player = pf_ID p"
    using ok by (force simp: gate_conditions_def admit_player_def Let_def Now_def activeBanForPassportProfile_def player_admitted_def)
  then obtain player ip input now s1 k where h: "?answer = open_presence en r n player ip input now s1 k"
    and k: "\<And>x s2. status_of (snd (k x s2)) = 200" "\<And>x s2. transferGrants (sv_store (fst (k x s2))) = transferGrants (sv_store s2)"
    and i: "sv_store s1 = ?m" "pc_ProfileID input = pf_ID p" "pc_ServerID input = ds_ID server" "pl_ID player = pf_ID p" by blast
  have "activePresencesForProfileServer (ListProfilePresences (sv_store s1) (pc_ProfileID input)) (pc_ServerID input) = []"
    using free by (simp add: i ListProfilePresences_def)
  from open_presence_free [OF this, of player en r n ip now k] i obtain x s2 where
    "open_presence en r n player ip input now s1 k = k x s2" "transferGrants (sv_store s2) = ?t" by auto
  with h k [of x s2] that [of "fst (k x s2)" "snd (k x s2)"] show thesis by simp
qed

text \<open>
  C3: Whoever meets the conditions of the gate and has no open presence of the profile on the server
  is let in, and the grant is marked as used by the node that asked; no other grant changes.
\<close>

theorem gate_lets_in:
  assumes "requireNode en r s = Inr n" and "GetDownstreamServer (sv_store s) (gate_server n req) = Inr server"
    and "gate_conditions en n server req s g p q"
    and "gate_server n req \<noteq> []" "consume_hash req \<noteq> []" "TrimSpace (cs_UUID req) \<noteq> []" "TrimSpace (cs_ProtocolName req) \<noteq> []"
    and "activePresencesForProfileServer (ListProfilePresences (sv_store s) (pf_ID p)) (ds_ID server) = []"
  shows "status_of (snd (handleNodeConsumeTransferGrant en r (Some req) s)) = 200 \<and>
    transferGrants (sv_store (fst (handleNodeConsumeTransferGrant en r (Some req) s))) =
      gput (transferGrants (sv_store s)) (consume_hash req)
        (g\<lparr>tg_GateNodeID := no_ID n, tg_ConsumedAt := Some (en_clock en (sv_tick s))\<rparr>)"
  by (rule gate_opens [OF assms]) simp

subsection \<open>A grant opens the gate once\<close>

text \<open>At a gate whose grant is used or unknown nothing happens but an entry in the audit log.\<close>

lemma dead_at_gate:
  assumes "grant_dead (sv_store s) (consume_hash req)"
  shows "status_of (snd (handleNodeConsumeTransferGrant en r (Some req) s)) \<noteq> 200 \<and>
    presencesByID (sv_store (fst (handleNodeConsumeTransferGrant en r (Some req) s))) = presencesByID (sv_store s)"
proof -
  have refused: "\<exists>e. ConsumeTransferGrant (en_uc en) (consume_hash req) a (sv_store s) = (sv_store s, Inl e)" for a
    using dead_refused(1) [OF assms, of "en_uc en" a] ConsumeTransferGrant_Inl [of "en_uc en" "consume_hash req" a "sv_store s"]
    by (cases "ConsumeTransferGrant (en_uc en) (consume_hash req) a (sv_store s)") (auto simp: is_ok_def split: sum.splits)
  then obtain err where e: "\<And>a. ConsumeTransferGrant (en_uc en) (consume_hash req) a (sv_store s) = (sv_store s, Inl (err a))"
    by metis
  show ?thesis
    by (auto simp: handleNodeConsumeTransferGrant_def with_node_def decode_body_def Let_def Now_def in_store_def e grant_refused_def
        requireNode_def split: sum.splits option.splits)
qed

text \<open>
  C2: Once the gate has let a player in over a grant, no request with the same token is answered with
  success and none changes a presence, in any run of the whole server in which no later draw of the
  random generator gives the same token again.
\<close>

theorem gate_opens_once:
  assumes "handleNodeConsumeTransferGrant en r (Some req) s = (s', a)" and "status_of a = 200"
    and "(server_step en)\<^sup>*\<^sup>* s' s''" and "consume_hash req \<notin> drawn en (sv_draw s) (sv_draw s'')"
    and "consume_hash req' = consume_hash req"
  shows "status_of (snd (handleNodeConsumeTransferGrant en r' (Some req') s'')) \<noteq> 200 \<and>
    presencesByID (sv_store (fst (handleNodeConsumeTransferGrant en r' (Some req') s''))) = presencesByID (sv_store s'')"
proof (rule consume_ok [OF assms(1,2)])
  fix n server g m
  let ?h = "consume_hash req" and ?s1 = "s\<lparr>sv_tick := sv_tick s + 1, sv_store := m\<rparr>"
  assume c: "ConsumeTransferGrant (en_uc en) ?h (gate_args en n server req (en_clock en (sv_tick s))) (sv_store s) = (m, Inr g)"
    and admit: "admit_player en r n req server (DownstreamTargetFromServer (en_uc en) server) g ?s1 = (s', a)"
  from c have d1: "grant_dead (sv_store ?s1) ?h" by (auto simp: ConsumeTransferGrant_Inr grant_dead_def)
  have sv: "served en ?s1 s'"
    using run_admit_player [OF served_refl, of en ?s1 r n req server "DownstreamTargetFromServer (en_uc en) server" g]
    unfolding admit runs_def by simp
  note run = server_run_dead [OF assms(3)]
  from sv have le: "sv_draw s \<le> sv_draw s'" by (simp add: served_def)
  have "drawn en (sv_draw s) (sv_draw s') \<subseteq> drawn en (sv_draw s) (sv_draw s'')"
    "drawn en (sv_draw s') (sv_draw s'') \<subseteq> drawn en (sv_draw s) (sv_draw s'')"
    using le run by (simp_all add: drawn_mono)
  with assms(4) have h: "?h \<notin> drawn en (sv_draw s) (sv_draw s')" "?h \<notin> drawn en (sv_draw s') (sv_draw s'')" by blast+
  from sv d1 h(1) have "grant_dead (sv_store s') ?h" by (simp add: served_def dead_kept_def)
  with run h(2) have "grant_dead (sv_store s'') ?h" by (simp add: dead_kept_def)
  with assms(5) show ?thesis by (intro dead_at_gate) simp
qed


subsection \<open>Witnesses\<close>

lemma gate_sample_requests:
  "requireNode sample_env node_request gate_server_state = Inr (gate_node ''downstream_velocity'')"
  "gate_server (gate_node md) gate_request = ''lobby''" "consume_hash gate_request = ''h''"
  "TrimSpace (cs_UUID gate_request) = sample_p" "TrimSpace (cs_ProtocolName gate_request) = ''Notch''"
proof -
  show "requireNode sample_env node_request gate_server_state = Inr (gate_node ''downstream_velocity'')"
    by (rule node_admitted) (simp_all add: gate_server_state_def)
  have "TrimSpace (cs_ServerID gate_request) = ''lobby''" by code_simp
  then show "gate_server (gate_node md) gate_request = ''lobby''" by (simp add: gate_server_def)
qed code_simp+

lemma gate_sample_store:
  "sv_store gate_server_state = sample_store\<lparr>downstreamServers := gput gempty ''lobby'' lobby, transferGrants := gput gempty ''h'' lobby_grant\<rparr>"
  by (simp add: gate_server_state_def SaveTransferGrant_def lobby_store_def sample_store_empty) (simp add: lobby_grant_def)

lemma gate_sample_player:
  "\<exists>p b. GetProfileByID sample_store sample_p = Inr p \<and> pf_Status p \<noteq> ProfileStatusLocked \<and>
     GetProfilePassportBinding sample_store sample_p sample_q = Inr b \<and> pp_Status (bi_Passport b) \<noteq> PassportStatusLocked"
proof -
  have "case GetProfileByID sample_store sample_p of Inl _ \<Rightarrow> False | Inr p \<Rightarrow> pf_Status p \<noteq> ProfileStatusLocked" by code_simp
  moreover have "case GetProfilePassportBinding sample_store sample_p sample_q of Inl _ \<Rightarrow> False
    | Inr b \<Rightarrow> pp_Status (bi_Passport b) \<noteq> PassportStatusLocked" by code_simp
  ultimately show ?thesis by (auto split: sum.splits)
qed

lemma gate_sample_target:
  "dg_GateEnabled (DownstreamTargetFromServer plain_unicode lobby)" "dg_Status (DownstreamTargetFromServer plain_unicode lobby) = ''active''"
  "dg_AllowedPortalSources (DownstreamTargetFromServer plain_unicode lobby) = []"
proof -
  have "let d = DownstreamTargetFromServer plain_unicode lobby in
      dg_GateEnabled d \<and> dg_Status d = ''active'' \<and> dg_AllowedPortalSources d = []"
    by code_simp
  then show "dg_GateEnabled (DownstreamTargetFromServer plain_unicode lobby)"
    "dg_Status (DownstreamTargetFromServer plain_unicode lobby) = ''active''"
    "dg_AllowedPortalSources (DownstreamTargetFromServer plain_unicode lobby) = []"
    unfolding Let_def by blast+
qed

lemma gate_sample_matches: "grant_matches plain_unicode (gate_args sample_env (gate_node md) lobby gate_request 100) lobby_grant"
proof -
  have "EqualFold plain_unicode ''Notch'' ''Notch''" "portalGrantSourceAllowed plain_unicode lobby_grant []" by code_simp+
  then show ?thesis
    by (simp add: grant_matches_def gate_args_def gate_sample_requests gate_sample_target) (simp add: lobby_grant_def lobby_def)
qed

lemma gate_sample:
  "\<exists>p q. gate_conditions sample_env (gate_node md) lobby gate_request gate_server_state lobby_grant p q"
  "GetDownstreamServer (sv_store gate_server_state) (gate_server (gate_node md) gate_request) = Inr lobby"
  "ListProfilePresences (sv_store gate_server_state) i = []"
proof -
  have clock: "sv_tick gate_server_state = 0" by (simp add: gate_server_state_def)
  have grant: "TrimSpace (tg_PassportID lobby_grant) = sample_q" "tg_PlayerID lobby_grant = sample_p" by code_simp+
  have "sample_q \<noteq> []" by simp
  with gate_sample_player grant have pq: "\<exists>p q. GetProfileByID sample_store sample_p = Inr p \<and> pf_Status p \<noteq> ProfileStatusLocked \<and>
      passportForTransferGrant sample_store lobby_grant = Inr q \<and> pp_Status q \<noteq> PassportStatusLocked"
    by (auto simp: passportForTransferGrant_def Let_def)
  have same: "GetProfileByID (sv_store gate_server_state) j = GetProfileByID sample_store j"
    "passportForTransferGrant (sv_store gate_server_state) g = passportForTransferGrant sample_store g" for j g
    by (simp_all add: gate_sample_store GetProfileByID_def passportForTransferGrant_def GetProfilePassportBinding_def
        ListPassportsForProfile_def Let_def split: option.split)
  have ban: "ActiveBanFor (sv_store gate_server_state) x y z = None" for x y z
    by (simp add: gate_sample_store ActiveBanFor_def sample_store_empty gvals_def split: option.split)
  from pq show "\<exists>p q. gate_conditions sample_env (gate_node md) lobby gate_request gate_server_state lobby_grant p q"
    by (auto simp: gate_conditions_def same ban grant gate_sample_requests gate_sample_target clock gate_sample_matches)
      (auto simp: gate_sample_store)
  show "GetDownstreamServer (sv_store gate_server_state) (gate_server (gate_node md) gate_request) = Inr lobby"
    by (simp add: gate_sample_requests gate_sample_store GetDownstreamServer_def) (simp add: lobby_def)
  show "ListProfilePresences (sv_store gate_server_state) i = []"
    by (simp add: ListProfilePresences_def gate_sample_store sample_store_empty gvals_def)
qed

lemma gate_lets_in_witness:
  "status_of (snd (handleNodeConsumeTransferGrant sample_env node_request (Some gate_request) gate_server_state)) = 200"
proof -
  from gate_sample(1) obtain p q where
    "gate_conditions sample_env (gate_node ''downstream_velocity'') lobby gate_request gate_server_state lobby_grant p q" by blast
  from gate_lets_in [OF gate_sample_requests(1) gate_sample(2) this] show ?thesis
    by (simp add: gate_sample_requests gate_sample activePresencesForProfileServer_def)
qed

lemma gate_sample_opens:
  obtains s' a where "handleNodeConsumeTransferGrant sample_env node_request (Some gate_request) gate_server_state = (s', a)"
    "status_of a = 200"
proof -
  from gate_sample(1) obtain p q where
    "gate_conditions sample_env (gate_node ''downstream_velocity'') lobby gate_request gate_server_state lobby_grant p q" by blast
  from gate_opens [OF gate_sample_requests(1) gate_sample(2) this] that show thesis
    by (simp add: gate_sample_requests gate_sample activePresencesForProfileServer_def) metis
qed

lemma gate_admits_only_witness:
  "\<exists>x. gget (presencesByID (sv_store (fst (handleNodeConsumeTransferGrant sample_env node_request (Some gate_request) gate_server_state))))
     (pc_ID x) = Some x \<and> pc_EndedAt x = None \<and> pc_NodeID x = ''node-1''"
proof -
  obtain s' a where run: "handleNodeConsumeTransferGrant sample_env node_request (Some gate_request) gate_server_state = (s', a)"
    "status_of a = 200" by (rule gate_sample_opens)
  from gate_admits_only [OF this] gate_sample_requests(1) show ?thesis by (auto simp: run)
qed

lemma gate_opens_once_witness:
  "status_of (snd (handleNodeConsumeTransferGrant sample_env node_request (Some gate_request)
     (fst (handleNodeConsumeTransferGrant sample_env node_request (Some gate_request) gate_server_state)))) \<noteq> 200"
proof -
  obtain s' a where run: "handleNodeConsumeTransferGrant sample_env node_request (Some gate_request) gate_server_state = (s', a)"
    "status_of a = 200" by (rule gate_sample_opens)
  have "h \<in> drawn en i j \<Longrightarrow> length h = 64" for h en i j by (auto simp: drawn_def)
  then have "consume_hash gate_request \<notin> drawn sample_env (sv_draw gate_server_state) (sv_draw s')"
    by (fastforce simp: gate_sample_requests)
  from gate_opens_once [OF run rtranclp.rtrancl_refl this HOL.refl] show ?thesis by (simp add: run)
qed

end
