(* ===== verification/ServerIssue.thy ===== *)
theory ServerIssue
  imports ServerGate
begin

text \<open>
  How a transfer begins: what stands behind a grant that \<^verbatim>\<open>handleNodeCreateTransferGrant\<close> or
  \<^verbatim>\<open>handleNodeCreateDownstreamTransfer\<close> answers with, and that its token opens the gate.
\<close>

subsection \<open>A grant taken apart\<close>

lemma issue_grant_ok:
  assumes "issue_grant en r n req opts ev server target player passport s = (s', a)" and ok: "status_of a = 201"
  obtains g token d now i s1 source where "NewOpaqueToken 32 (en_rand en i) = Inr token" "now = en_clock en (sv_tick s)"
    "a = WriteJSON 201 (VMap d)" "gget d ''token'' = Some (VStr token)"
    "gget (transferGrants (sv_store s')) (TransferGrantHash token) = Some g"
    "NewTransferGrant (pl_ID player) (pp_ID passport) (ds_ID server) (no_ID n) source (ct_RemoteIP req)
       (UUID_String (pl_UUID player)) (pl_ProtocolName player) (dg_TransferHost target) (dg_TransferPort target)
       (grant_ttl target (ct_TTLSeconds req) * Second) now (en_rand en i) = Inr (g, token)"
    "source = (if op_DirectCommand opts then downstreamCommandGrantSource n (ct_Source req) else portalGrantSource n (ct_Source req))"
proof -
  let ?source = "if op_DirectCommand opts then downstreamCommandGrantSource n (ct_Source req) else portalGrantSource n (ct_Source req)"
  let ?now = "en_clock en (sv_tick s)"
  let ?new = "\<lambda>i. NewTransferGrant (pl_ID player) (pp_ID passport) (ds_ID server) (no_ID n) ?source (ct_RemoteIP req)
       (UUID_String (pl_UUID player)) (pl_ProtocolName player) (dg_TransferHost target) (dg_TransferPort target)
       (grant_ttl target (ct_TTLSeconds req) * Second) ?now (en_rand en i)"
  define s1 where "s1 = (if TrimSpace (ct_PlayerID req) \<noteq> [] \<and> \<not> op_DirectCommand opts
    then promoteGrantProfilePrimary en r n passport player (ct_RemoteIP req) (s\<lparr>sv_tick := sv_tick s + 1\<rparr>) else s\<lparr>sv_tick := sv_tick s + 1\<rparr>)"
  note f = assms(1) [unfolded issue_grant_def Let_def Now_def Rand_def prod.case, folded s1_def]
  obtain g token where new: "?new (sv_draw s1) = Inr (g, token)"
    using f ok by (cases "?new (sv_draw s1)") (auto simp: refuse_def)
  then have t: "NewOpaqueToken 32 (en_rand en (sv_draw s1)) = Inr token" "tg_TokenHash g = TransferGrantHash token"
    by (auto simp: NewTransferGrant_def TransferGrantHash_def split: sum.splits)
  note f = f [unfolded new sum.case prod.case]
  from f t(2) have "gget (transferGrants (sv_store s')) (TransferGrantHash token) = Some g"
    by (auto simp: SaveTransferGrant_def on_store_def split: if_splits)
  moreover from f obtain d where "a = WriteJSON 201 (VMap d)" "gget d ''token'' = Some (VStr token)"
    by auto
  ultimately show thesis using that [OF t(1) HOL.refl _ _ _ new HOL.refl] by blast
qed

lemma grant_for_player_ok:
  assumes "grant_for_player en r n req opts ev rej server target s = (s', a)" and ok: "status_of a = 201"
  obtains player passport where "transferGrantIdentity en n req s = Inr (player, passport)" "\<not> pl_Locked player"
    "ActiveBanFor (sv_store s) (pp_ID passport) (pl_ID player) (en_clock en (sv_tick s)) = None"
    "dg_Status target = ''hidden'' \<Longrightarrow> DownstreamServerHasPrivilegedPassport (sv_store s) (ds_ID server) (pp_ID passport)"
    "issue_grant en r n req opts ev server target player passport (s\<lparr>sv_tick := sv_tick s + 1\<rparr>) = (s', a)"
proof -
  have no: "grant_refused en r n rej ip t i d e s1 \<noteq> (s', a)" if "er_Status e \<noteq> 201" for ip t i d e s1
    using ok that by (auto simp: grant_refused_def)
  have identity: "transferGrantIdentity en n req s = Inl e \<Longrightarrow> er_Status e \<noteq> 201" for e
    by (auto simp: transferGrantIdentity_def Let_def split: if_splits sum.splits list.splits)
  note f = assms(1) [unfolded grant_for_player_def Let_def activeBanForPassportProfile_def Now_def prod.case]
  from f obtain player passport where id: "transferGrantIdentity en n req s = Inr (player, passport)"
    using no identity by (cases "transferGrantIdentity en n req s") auto
  note f = f [unfolded id sum.case prod.case]
  from f have l: "\<not> pl_Locked player" using no by (auto split: if_splits)
  note f = f [unfolded if_not_P [OF l]]
  show thesis
  proof (cases "ActiveBanFor (sv_store s) (pp_ID passport) (pl_ID player) (en_clock en (sv_tick s))")
    case None
    from f None that [OF id l None] no show thesis by (auto split: if_splits)
  qed (use f no in auto)
qed

lemma write_grant_ok:
  assumes "writeNodeTransferGrant en r n req opts s = (s', a)" and ok: "status_of a = 201"
  obtains server ev rej where "resolveDownstreamTarget en n (ct_ServerID req) (ct_Slug req) (ct_RequestedHost req) (sv_store s) =
      Inr (server, DownstreamTargetFromServer (en_uc en) server)"
    "dg_Status (DownstreamTargetFromServer (en_uc en) server) \<in> {''active'', ''hidden''}"
    "grant_for_player en r n req opts ev rej server (DownstreamTargetFromServer (en_uc en) server) s = (s', a)"
proof -
  have no: "grant_refused en r n rej ip t i d e s1 \<noteq> (s', a)" if "er_Status e \<noteq> 201" for rej ip t i d e s1
    using ok that by (auto simp: grant_refused_def)
  have target: "resolveDownstreamTarget en n i slug host m = Inl e \<Longrightarrow> er_Status e \<noteq> 201" for i slug host m e
    by (auto simp: resolveDownstreamTarget_def Let_def split: option.splits sum.splits if_splits)
  have protocol: "validateDownstreamProtocol t v = Some e \<Longrightarrow> er_Status e \<noteq> 201" for t v e
    by (auto simp: validateDownstreamProtocol_def Let_def split: if_splits)
  define ev where "ev = (if TrimSpace (op_CreateEvent opts) = [] then ''transfer_grant.create'' else TrimSpace (op_CreateEvent opts))"
  define rej where "rej = (if TrimSpace (op_RejectEvent opts) = [] then ''transfer_grant.reject'' else TrimSpace (op_RejectEvent opts))"
  note f = assms(1) [unfolded writeNodeTransferGrant_def Let_def, folded ev_def rej_def]
  from f ok have explicit: "\<not> (op_RequireExplicitTarget opts \<and> TrimSpace (ct_ServerID req) = [] \<and> TrimSpace (ct_Slug req) = [] \<and>
      TrimSpace (ct_RequestedHost req) = [])" by (auto simp: refuse_def)
  note f = f [unfolded if_not_P [OF explicit]]
  obtain server where t: "resolveDownstreamTarget en n (ct_ServerID req) (ct_Slug req) (ct_RequestedHost req) (sv_store s) =
      Inr (server, DownstreamTargetFromServer (en_uc en) server)"
  proof (cases "resolveDownstreamTarget en n (ct_ServerID req) (ct_Slug req) (ct_RequestedHost req) (sv_store s)")
    case (Inl e)
    with f no [OF target [OF Inl]] show thesis by simp
  next
    case (Inr y)
    obtain server tg where y: "y = (server, tg)" by force
    from Inr resolveDownstreamTarget_target [OF Inr y] that show thesis by (simp add: y)
  qed
  let ?t = "DownstreamTargetFromServer (en_uc en) server"
  note f = f [unfolded t sum.case prod.case]
  from f have other: "\<not> (op_RejectSameServer opts \<and> TrimSpace (no_ServerID n) \<noteq> [] \<and> ds_ID server = TrimSpace (no_ServerID n))"
    by (auto simp: no)
  note f = f [unfolded if_not_P [OF other]]
  from f have open': "\<not> (dg_Status ?t \<noteq> ''active'' \<and> dg_Status ?t \<noteq> ''hidden'')" by (auto simp: no split: if_splits)
  note f = f [unfolded if_not_P [OF open']]
  from f have "grant_for_player en r n req opts ev rej server ?t s = (s', a)"
    using no protocol by (cases "validateDownstreamProtocol ?t (ct_ProtocolVersion req)") auto
  with t open' that show thesis by blast
qed

text \<open>The token of an answer, and the grant behind it.\<close>

definition issued :: "env \<Rightarrow> Node \<Rightarrow> createTransferGrantRequest \<Rightarrow> bool \<Rightarrow> Server \<Rightarrow> string \<Rightarrow> TransferGrant \<Rightarrow> bool" where
  "issued en n req direct s token g \<longleftrightarrow> (\<exists>server target player passport.
     resolveDownstreamTarget en n (ct_ServerID req) (ct_Slug req) (ct_RequestedHost req) (sv_store s) = Inr (server, target) \<and>
     dg_Status target \<in> {''active'', ''hidden''} \<and>
     transferGrantIdentity en n req s = Inr (player, passport) \<and> \<not> pl_Locked player \<and>
     ActiveBanFor (sv_store s) (pp_ID passport) (pl_ID player) (en_clock en (sv_tick s)) = None \<and>
     (dg_Status target = ''hidden'' \<longrightarrow> DownstreamServerHasPrivilegedPassport (sv_store s) (ds_ID server) (pp_ID passport)) \<and>
     tg_TokenHash g = TransferGrantHash token \<and> tg_ConsumedAt g = None \<and> tg_ServerID g = ds_ID server \<and>
     tg_PlayerID g = pl_ID player \<and> tg_PassportID g = pp_ID passport \<and> tg_UUID g = UUID_String (pl_UUID player) \<and>
     tg_ProtocolName g = pl_ProtocolName player \<and>
     tg_PortalSource g = (if direct then downstreamCommandGrantSource n (ct_Source req) else portalGrantSource n (ct_Source req)) \<and>
     en_clock en (sv_tick s + 1) + 5 * Second \<le> tg_ExpiresAt g \<and> tg_ExpiresAt g \<le> en_clock en (sv_tick s + 1) + 300 * Second)"

lemma issued_ok:
  assumes "writeNodeTransferGrant en r n req opts s = (s', a)" and ok: "status_of a = 201"
  obtains token d g i where "NewOpaqueToken 32 (en_rand en i) = Inr token" "a = WriteJSON 201 (VMap d)" "gget d ''token'' = Some (VStr token)"
    "gget (transferGrants (sv_store s')) (TransferGrantHash token) = Some g" "issued en n req (op_DirectCommand opts) s token g"
proof (rule write_grant_ok [OF assms])
  fix server ev rej
  let ?target = "DownstreamTargetFromServer (en_uc en) server"
  assume t: "resolveDownstreamTarget en n (ct_ServerID req) (ct_Slug req) (ct_RequestedHost req) (sv_store s) = Inr (server, ?target)"
    "dg_Status ?target \<in> {''active'', ''hidden''}" and g: "grant_for_player en r n req opts ev rej server ?target s = (s', a)"
  show thesis
  proof (rule grant_for_player_ok [OF g ok])
    fix player passport
    assume p: "transferGrantIdentity en n req s = Inr (player, passport)" "\<not> pl_Locked player"
      "ActiveBanFor (sv_store s) (pp_ID passport) (pl_ID player) (en_clock en (sv_tick s)) = None"
      "dg_Status ?target = ''hidden'' \<Longrightarrow> DownstreamServerHasPrivilegedPassport (sv_store s) (ds_ID server) (pp_ID passport)"
      and i: "issue_grant en r n req opts ev server ?target player passport (s\<lparr>sv_tick := sv_tick s + 1\<rparr>) = (s', a)"
    show thesis
    proof (rule issue_grant_ok [OF i ok])
      fix grant token d now i s1 source
      assume a: "NewOpaqueToken 32 (en_rand en i) = Inr token" "now = en_clock en (sv_tick (s\<lparr>sv_tick := sv_tick s + 1\<rparr>))"
        "a = WriteJSON 201 (VMap d)" "gget d ''token'' = Some (VStr token)"
        "gget (transferGrants (sv_store s')) (TransferGrantHash token) = Some grant"
        and new: "NewTransferGrant (pl_ID player) (pp_ID passport) (ds_ID server) (no_ID n) source (ct_RemoteIP req)
          (UUID_String (pl_UUID player)) (pl_ProtocolName player) (dg_TransferHost ?target) (dg_TransferPort ?target)
          (grant_ttl ?target (ct_TTLSeconds req) * Second) now (en_rand en i) = Inr (grant, token)"
        and src: "source = (if op_DirectCommand opts then downstreamCommandGrantSource n (ct_Source req)
          else portalGrantSource n (ct_Source req))"
      have "issued en n req (op_DirectCommand opts) s token grant"
        using t p new a(1,2) grant_ttl_bounds [of ?target "ct_TTLSeconds req"] unfolding issued_def
        by (intro exI [of _ server] exI [of _ ?target] exI [of _ player] exI [of _ passport])
          (auto simp: NewTransferGrant_def TransferGrantHash_def src)
      with that [OF a(1,3-5)] show thesis by blast
    qed
  qed
qed

lemma token_nonempty:
  assumes "NewOpaqueToken 32 rnd = Inr token" shows "token \<noteq> []"
proof -
  from assms obtain raw where "token = Base64RawURL (take 32 (raw @ replicate 32 0))"
    by (auto simp: NewOpaqueToken_def split: option.splits)
  then have "length token = 43" by (simp add: length_Base64RawURL)
  then show ?thesis by auto
qed

lemma created_grant:
  assumes "handleNodeCreateTransferGrant en r (Some req) s = (s', a)" and "status_of a = 201"
  shows "\<exists>n token d g. requireNode en r s = Inr n \<and> a = WriteJSON 201 (VMap d) \<and> gget d ''token'' = Some (VStr token) \<and>
    gget (transferGrants (sv_store s')) (TransferGrantHash token) = Some g \<and> issued en n req False s token g \<and> token \<noteq> []"
proof -
  from assms obtain n where n: "requireNode en r s = Inr n"
    by (auto simp: handleNodeCreateTransferGrant_def with_node_def requireNode_def Let_def split: sum.splits if_splits option.splits)
  let ?opts = "\<lparr>op_CreateEvent = ''transfer_grant.create'', op_RejectEvent = ''transfer_grant.reject'',
    op_RequireExplicitTarget = False, op_RejectSameServer = False, op_DirectCommand = False\<rparr>"
  from assms(1) n have w: "writeNodeTransferGrant en r n req ?opts s = (s', a)"
    by (simp add: handleNodeCreateTransferGrant_def with_node_def decode_body_def)
  from issued_ok [OF w assms(2)] n show ?thesis by (metis nodeTransferGrantOptions.select_convs(5) token_nonempty)
qed


subsection \<open>Properties\<close>


text \<open>
  C4: A transfer arrives: the token answered to the portal opens the gate of the server for five
  seconds at least, for the UUID and name the grant was made out to, while the grant is stored and unused, the
  player and passport are bound, unlocked and unbanned, and the profile is not yet online there.
\<close>

theorem transfer_arrives:
  assumes "handleNodeCreateTransferGrant en r (Some req) s = (s1, WriteJSON 201 (VMap d))" and "gget d ''token'' = Some (VStr token)"
    and "gget (transferGrants (sv_store s1)) (TransferGrantHash token) = Some g"
    and "gget (transferGrants (sv_store s2)) (TransferGrantHash token) = Some g"
    and "requireNode en r' s2 = Inr n" and "GetDownstreamServer (sv_store s2) (gate_server n req') = Inr server"
    and "gate_server n req' \<noteq> []" and "TrimSpace (cs_Token req') = token" and "TrimSpace (cs_TokenHash req') = []"
    and "TrimSpace (cs_UUID req') = tg_UUID g" and "TrimSpace (cs_ProtocolName req') = tg_ProtocolName g" and "tg_ProtocolName g \<noteq> []"
    and "ds_ID server = tg_ServerID g" and "dg_GateEnabled (DownstreamTargetFromServer (en_uc en) server)"
    and "dg_Status (DownstreamTargetFromServer (en_uc en) server) = ''active''"
    and "portalGrantSourceAllowed (en_uc en) g (dg_AllowedPortalSources (DownstreamTargetFromServer (en_uc en) server))"
    and "en_clock en (sv_tick s2) < en_clock en (sv_tick s + 1) + 5 * Second"
    and "GetProfileByID (sv_store s2) (tg_PlayerID g) = Inr p" and "pf_Status p \<noteq> ProfileStatusLocked"
    and "passportForTransferGrant (sv_store s2) g = Inr q" and "pp_Status q \<noteq> PassportStatusLocked"
    and "ActiveBanFor (sv_store s2) (pp_ID q) (pf_ID p) (en_clock en (sv_tick s2 + 1)) = None"
    and "activePresencesForProfileServer (ListProfilePresences (sv_store s2) (pf_ID p)) (ds_ID server) = []"
  shows "status_of (snd (handleNodeConsumeTransferGrant en r' (Some req') s2)) = 200"
proof -
  from created_grant [OF assms(1)] obtain n' token' d' g' where i: "issued en n' req False s token' g'"
    "WriteJSON 201 (VMap d) = WriteJSON 201 (VMap d')" "gget d' ''token'' = Some (VStr token')"
    "gget (transferGrants (sv_store s1)) (TransferGrantHash token') = Some g'" "token' \<noteq> []" by auto
  with assms(2,3) have i: "issued en n' req False s token g" "token \<noteq> []" by auto
  from assms(8,9) i(2) have h: "consume_hash req' = TransferGrantHash token" "consume_hash req' \<noteq> []"
    by (simp_all add: consume_hash_def TransferGrantHash_def)
  from i(1) obtain uuid where "tg_UUID g = UUID_String uuid" unfolding issued_def by blast
  then have u: "tg_UUID g \<noteq> []" by simp
  from i(1) have g: "tg_ConsumedAt g = None" "en_clock en (sv_tick s + 1) + 5 * Second \<le> tg_ExpiresAt g"
    by (auto simp: issued_def)
  with assms(10,11,13,16,17) have "grant_matches (en_uc en) (gate_args en n server req' (en_clock en (sv_tick s2))) g"
    by (simp add: grant_matches_def gate_args_def)
  with assms(4,14,15,18-22) have "gate_conditions en n server req' s2 g p q" by (simp add: gate_conditions_def h)
  from gate_opens [OF assms(5,6) this assms(7) h(2) _ _ assms(23)] u assms(10-12) show ?thesis by (metis snd_conv)
qed

subsection \<open>Witnesses\<close>

definition lobby_transfer :: createTransferGrantRequest where
  "lobby_transfer = \<lparr>ct_PlayerID = sample_p, ct_PassportID = sample_q, ct_Username = [], ct_ServerID = ''lobby'', ct_Slug = [],
     ct_RequestedHost = [], ct_Source = [], ct_RemoteIP = [], ct_TTLSeconds = 0, ct_ProtocolVersion = 0\<rparr>"

lemma lobby_target:
  "GetDownstreamServer (m\<lparr>downstreamServers := gput gempty ''lobby'' lobby\<rparr>) ''lobby'' = Inr lobby"
  "resolveDownstreamTarget sample_env n (ct_ServerID lobby_transfer) (ct_Slug lobby_transfer) (ct_RequestedHost lobby_transfer)
     (m\<lparr>downstreamServers := gput gempty ''lobby'' lobby\<rparr>) = Inr (lobby, DownstreamTargetFromServer plain_unicode lobby)"
proof -
  show get: "GetDownstreamServer (m\<lparr>downstreamServers := gput gempty ''lobby'' lobby\<rparr>) ''lobby'' = Inr lobby"
    by (simp add: GetDownstreamServer_def) (simp add: lobby_def)
  have "TrimSpace (ct_ServerID lobby_transfer) = ''lobby''" by code_simp
  with get show "resolveDownstreamTarget sample_env n (ct_ServerID lobby_transfer) (ct_Slug lobby_transfer)
      (ct_RequestedHost lobby_transfer) (m\<lparr>downstreamServers := gput gempty ''lobby'' lobby\<rparr>) =
      Inr (lobby, DownstreamTargetFromServer plain_unicode lobby)"
    by (simp add: resolveDownstreamTarget_def Let_def)
qed

definition transfer_state :: Server where
  "transfer_state = sample_server ''limbo_portal'' lobby_store"

lemma transfer_state_identity:
  "\<exists>p b. GetProfileByID lobby_store sample_p = Inr p \<and> pf_ID p = sample_p \<and> pf_Status p \<noteq> ProfileStatusLocked \<and> pf_ProtocolName p = ''Notch'' \<and>
     length (pf_UUID p) = 16 \<and> GetProfilePassportBinding lobby_store sample_p sample_q = Inr b \<and> pp_ID (bi_Passport b) = sample_q \<and>
     pp_Status (bi_Passport b) \<noteq> PassportStatusLocked"
proof -
  have "case GetProfileByID sample_store sample_p of Inl _ \<Rightarrow> False
    | Inr p \<Rightarrow> pf_ID p = sample_p \<and> pf_Status p \<noteq> ProfileStatusLocked \<and> pf_ProtocolName p = ''Notch'' \<and> length (pf_UUID p) = 16" by code_simp
  moreover have "case GetProfilePassportBinding sample_store sample_p sample_q of Inl _ \<Rightarrow> False
    | Inr b \<Rightarrow> pp_ID (bi_Passport b) = sample_q \<and> pp_Status (bi_Passport b) \<noteq> PassportStatusLocked" by code_simp
  moreover have "GetProfileByID lobby_store i = GetProfileByID sample_store i"
    "GetProfilePassportBinding lobby_store i j = GetProfilePassportBinding sample_store i j" for i j
    by (simp_all add: lobby_store_def GetProfileByID_def GetProfilePassportBinding_def split: option.split)
  ultimately show ?thesis by (auto split: sum.splits)
qed

lemma lobby_store_primary: "GetPrimaryProfileForPassport lobby_store q = GetPrimaryProfileForPassport sample_store q"
  by (simp add: GetPrimaryProfileForPassport_def primaryProfileForPassportLocked_def profile_at_def Let_def lobby_store_def
      cong: option.case_cong)

lemma transfer_state_primary:
  "case GetPrimaryProfileForPassport lobby_store sample_q of Inl _ \<Rightarrow> False | Inr primary \<Rightarrow> pf_ID primary = sample_p"
  unfolding lobby_store_primary by code_simp

lemma transfer_identity:
  "\<exists>player passport. transferGrantIdentity sample_env n lobby_transfer transfer_state = Inr (player, passport) \<and>
     pl_ID player = sample_p \<and> \<not> pl_Locked player \<and> pp_ID passport = sample_q \<and> pl_ProtocolName player = ''Notch'' \<and>
     length (pl_UUID player) = 16"
proof -
  have trim: "TrimSpace (ct_PlayerID lobby_transfer) = sample_p" "TrimSpace (ct_PassportID lobby_transfer) = sample_q" by code_simp+
  have ne: "sample_p \<noteq> []" "sample_q \<noteq> []" by simp_all
  show ?thesis
    using transfer_state_identity
    by (auto simp: transferGrantIdentity_def Let_def trim transfer_state_def)
qed

lemma transfer_issued:
  obtains s1 d token g where "handleNodeCreateTransferGrant sample_env node_request (Some lobby_transfer) transfer_state = (s1, WriteJSON 201 (VMap d))"
    "gget d ''token'' = Some (VStr token)" "sv_tick s1 = 3" "sv_nodes s1 = sv_nodes transfer_state"
    "\<exists>evs n. sv_store s1 = lobby_store\<lparr>transferGrants := gput gempty (TransferGrantHash token) g, nextAuditID := n, auditEvents := evs\<rparr>"
    "tg_PlayerID g = sample_p" "tg_PassportID g = sample_q" "tg_ServerID g = ''lobby''" "tg_ProtocolName g = ''Notch''"
    "TrimSpace token = token" "TrimSpace (tg_UUID g) = tg_UUID g" "token \<noteq> []"
proof -
  obtain player passport where id: "transferGrantIdentity sample_env (gate_node ''limbo_portal'') lobby_transfer transfer_state = Inr (player, passport)"
    and pl: "pl_ID player = sample_p" "\<not> pl_Locked player" "pp_ID passport = sample_q" "pl_ProtocolName player = ''Notch''"
    and uuid: "length (pl_UUID player) = 16"
    using transfer_identity [of "gate_node ''limbo_portal''"] by auto
  let ?t = "DownstreamTargetFromServer plain_unicode lobby"
  have node: "requireNode sample_env node_request transfer_state = Inr (gate_node ''limbo_portal'')"
    by (rule node_admitted) (simp_all add: transfer_state_def sample_server_def)
  have store: "sv_store transfer_state = lobby_store" "sv_tick transfer_state = 0" "sv_draw transfer_state = 0"
    by (simp_all add: transfer_state_def)
  have ban: "ActiveBanFor lobby_store x y z = None" for x y z
    by (simp add: lobby_store_def ActiveBanFor_def sample_store_empty gvals_def split: option.split)
  have req: "TrimSpace (ct_ServerID lobby_transfer) = ''lobby''" "TrimSpace (ct_PlayerID lobby_transfer) = sample_p"
    "normalizeClientIPValue (ct_RemoteIP lobby_transfer) = []" "ct_ProtocolVersion lobby_transfer = 0" by code_simp+
  have protocol: "validateDownstreamProtocol ?t 0 = None" by (simp add: validateDownstreamProtocol_def Let_def)
  obtain primary where primary: "GetPrimaryProfileForPassport lobby_store sample_q = Inr primary" "pf_ID primary = sample_p"
    using transfer_state_primary by (auto split: sum.splits)
  have promote: "promoteGrantProfilePrimary sample_env node_request (gate_node ''limbo_portal'') passport player ip s = s"
    if "sv_store s = lobby_store" for ip s
    using primary pl by (simp add: promoteGrantProfilePrimary_def that)
  have target: "resolveDownstreamTarget sample_env n (ct_ServerID lobby_transfer) (ct_Slug lobby_transfer) (ct_RequestedHost lobby_transfer) lobby_store
      = Inr (lobby, ?t)" for n unfolding lobby_store_def by (rule lobby_target)
  obtain token where token: "NewOpaqueToken 32 (Some (replicate 32 0)) = Inr token" by (simp add: NewOpaqueToken_def)
  define g where "g = \<lparr>tg_ID = HashToken ''transfer-grant-id'' token, tg_PlayerID = sample_p, tg_PassportID = sample_q, tg_ServerID = ds_ID lobby,
     tg_PortalNodeID = ''node-1'', tg_PortalSource = portalGrantSource (gate_node ''limbo_portal'') (ct_Source lobby_transfer),
     tg_RemoteIP = ct_RemoteIP lobby_transfer, tg_GateNodeID = [], tg_TokenHash = TransferGrantHash token, tg_UUID = UUID_String (pl_UUID player),
     tg_ProtocolName = ''Notch'', tg_TargetHost = dg_TransferHost ?t, tg_TargetPort = dg_TransferPort ?t, tg_CreatedAt = 101,
     tg_ExpiresAt = 101 + grant_ttl ?t (ct_TTLSeconds lobby_transfer) * Second, tg_ConsumedAt = None\<rparr>"
  have new: "NewTransferGrant sample_p sample_q (ds_ID lobby) ''node-1'' (portalGrantSource (gate_node ''limbo_portal'') (ct_Source lobby_transfer))
      (ct_RemoteIP lobby_transfer) (UUID_String (pl_UUID player)) ''Notch'' (dg_TransferHost ?t) (dg_TransferPort ?t)
      (grant_ttl ?t (ct_TTLSeconds lobby_transfer) * Second) 101 (Some (replicate 32 0)) = Inr (g, token)"
    using token by (simp add: NewTransferGrant_def g_def TransferGrantHash_def)
  have grants: "transferGrants lobby_store = gempty" by (simp add: lobby_store_def sample_store_empty)
  define details where "details = mk_map
    [(''server_id'', VStr (ds_ID lobby)), (''source'', VStr (portalGrantSource (gate_node ''limbo_portal'') (ct_Source lobby_transfer))),
     (''source_kind'', VStr ''portal''), (''target_host'', VStr (dg_TransferHost ?t)), (''target_port'', VInt (dg_TransferPort ?t)),
     (''protocol'', VInt 0), (''passport_id'', VStr sample_q), (''protocol_name'', VStr ''Notch''),
     (''expires_at'', VTime (tg_ExpiresAt g)), (''remote_ip'', VStr (ct_RemoteIP lobby_transfer))]"
  have event: "TrimSpace ''transfer_grant.create'' = ''transfer_grant.create''" by code_simp
  let ?s = "auditWithClientIP sample_env node_request (ct_RemoteIP lobby_transfer) ''node'' ''node-1'' ''player'' sample_p
    ''transfer_grant.create'' details (on_store (SaveTransferGrant g) (transfer_state\<lparr>sv_tick := Suc (Suc 0), sv_draw := Suc 0\<rparr>))"
  show thesis
  proof (rule that)
    show "handleNodeCreateTransferGrant sample_env node_request (Some lobby_transfer) transfer_state = (?s, WriteJSON 201 (VMap (mk_map
        [(''grant'', transferGrantData g), (''token'', VStr token), (''target'', VMap (DownstreamTargetData ?t)), (''player'', playerData player)])))"
      by (simp add: handleNodeCreateTransferGrant_def with_node_def node decode_body_def writeNodeTransferGrant_def Let_def
        req target store gate_sample_target protocol grant_for_player_def id pl activeBanForPassportProfile_def Now_def ban issue_grant_def
        promote Rand_def new details_def event)
    show "\<exists>evs n. sv_store ?s = lobby_store\<lparr>transferGrants := gput gempty (TransferGrantHash token) g, nextAuditID := n, auditEvents := evs\<rparr>"
      by (simp add: auditWithClientIP_def Now_def AppendAuditEvent_def SaveTransferGrant_def grants store Let_def g_def) (intro exI, rule HOL.refl)
    have "token = Base64RawURL (replicate 32 0)" using token by (simp add: NewOpaqueToken_def)
    moreover have "TrimSpace (Base64RawURL (replicate 32 0)) = Base64RawURL (replicate 32 0)" "Base64RawURL (replicate 32 0) \<noteq> []"
      by code_simp+
    ultimately show "TrimSpace token = token" "token \<noteq> []" by simp_all
    show "TrimSpace (tg_UUID g) = tg_UUID g" using uuid by (simp add: g_def TrimSpace_solid solid_UUID_String)
  qed (simp_all add: store g_def lobby_def)
qed


lemma transfer_arrives_witness:
  "\<exists>s1 req. status_of (snd (handleNodeConsumeTransferGrant sample_env node_request (Some req) s1)) = 200 \<and>
     s1 = fst (handleNodeCreateTransferGrant sample_env node_request (Some lobby_transfer) transfer_state)"
proof (rule transfer_issued)
  fix s1 d token g
  assume h: "handleNodeCreateTransferGrant sample_env node_request (Some lobby_transfer) transfer_state = (s1, WriteJSON 201 (VMap d))"
    and d: "gget d ''token'' = Some (VStr token)" and s1: "sv_tick s1 = 3" "sv_nodes s1 = sv_nodes transfer_state"
    "\<exists>evs n. sv_store s1 = lobby_store\<lparr>transferGrants := gput gempty (TransferGrantHash token) g, nextAuditID := n, auditEvents := evs\<rparr>"
    and g: "tg_PlayerID g = sample_p" "tg_PassportID g = sample_q" "tg_ServerID g = ''lobby''" "tg_ProtocolName g = ''Notch''"
    and trim: "TrimSpace token = token" "TrimSpace (tg_UUID g) = tg_UUID g"
  from s1(3) obtain evs n where st: "sv_store s1 =
      lobby_store\<lparr>transferGrants := gput gempty (TransferGrantHash token) g, nextAuditID := n, auditEvents := evs\<rparr>" by blast
  define req where "req = \<lparr>cs_Token = token, cs_TokenHash = [], cs_ServerID = ''lobby'', cs_UUID = tg_UUID g, cs_ProtocolName = ''Notch'',
     cs_Source = [], cs_RemoteIP = []\<rparr>"
  have reqs: "cs_Token req = token" "cs_TokenHash req = []" "cs_UUID req = tg_UUID g" "cs_ProtocolName req = ''Notch''"
    and grant: "gget (transferGrants (sv_store s1)) (TransferGrantHash token) = Some g"
    by (simp_all add: req_def st)
  obtain p b where p: "GetProfileByID lobby_store sample_p = Inr p" "pf_Status p \<noteq> ProfileStatusLocked"
    "GetProfilePassportBinding lobby_store sample_p sample_q = Inr b" "pp_Status (bi_Passport b) \<noteq> PassportStatusLocked"
    using transfer_state_identity by auto
  have node: "requireNode sample_env node_request s1 = Inr (gate_node ''limbo_portal'')"
    by (rule node_admitted) (simp_all add: s1 transfer_state_def sample_server_def)
  have lobby_id: "TrimSpace ''lobby'' = ''lobby''" "TrimSpace sample_q = sample_q" "TrimSpace ''Notch'' = ''Notch''" by code_simp+
  have gate: "gate_server (gate_node ''limbo_portal'') req = ''lobby''" by (simp add: gate_server_def req_def lobby_id)
  have same: "GetDownstreamServer (sv_store s1) i = GetDownstreamServer lobby_store i" "GetProfileByID (sv_store s1) i = GetProfileByID lobby_store i"
    "GetProfilePassportBinding (sv_store s1) i j = GetProfilePassportBinding lobby_store i j"
    "ActiveBanFor (sv_store s1) i j t = None" "ListProfilePresences (sv_store s1) i = []" for i j t
    by (simp_all add: st lobby_store_def GetDownstreamServer_def GetProfileByID_def GetProfilePassportBinding_def ActiveBanFor_def
        ListProfilePresences_def sample_store_empty gvals_def split: option.split)
  have "status_of (snd (handleNodeConsumeTransferGrant sample_env node_request (Some req) s1)) = 200"
  proof (rule transfer_arrives [OF h d _ _ node])
    show "GetDownstreamServer (sv_store s1) (gate_server (gate_node ''limbo_portal'') req) = Inr lobby"
      unfolding gate same lobby_store_def by (rule lobby_target)
    show "passportForTransferGrant (sv_store s1) g = Inr (bi_Passport b)"
      using p(3) by (simp add: passportForTransferGrant_def Let_def g lobby_id same)
    show "portalGrantSourceAllowed (en_uc sample_env) g (dg_AllowedPortalSources (DownstreamTargetFromServer (en_uc sample_env) lobby))"
      by (simp add: gate_sample_target portalGrantSourceAllowed_def)
  qed (use p in \<open>simp_all add: gate reqs grant trim lobby_id g same gate_sample_target activePresencesForProfileServer_def s1
      transfer_state_def, simp_all add: lobby_def\<close>)
  with h show ?thesis by (intro exI [of _ s1] exI [of _ req]) simp
qed

end
