(* ===== verification/ServerInvariant.thy ===== *)
theory ServerInvariant
  imports ServerIssue
begin

text \<open>
  What holds in every state the server can reach, whatever its handlers were asked and whatever the
  rest of the program did between them.
\<close>

subsection \<open>A reachable state\<close>

lemma unsavedI:
  "store_step uc m m' \<Longrightarrow> passportsByID m' \<noteq> passportsByID m \<or> downstreamServers m' \<noteq> downstreamServers m \<Longrightarrow> unsaved_step uc m m'"
  by (auto simp: unsaved_step_def SaveTransferGrant_def SavePortalLink_def)

lemma sample_server_step:
  assumes "unsaved_step plain_unicode m m'" shows "server_step sample_env (sample_server md m) (sample_server md m')"
proof -
  have eq: "sample_server md m' = (sample_server md m)\<lparr>sv_store := m', sv_nodes := sv_nodes (sample_server md m), sv_mojang := None,
      sv_tick := 0, sv_draw := 0\<rparr>" by (simp add: sample_server_def)
  show ?thesis by (subst eq, rule by_others) (simp_all add: assms)
qed

lemma transfer_state_reachable: "server_reachable sample_env transfer_state"
proof -
  have passports: "passportsByID sample_store \<noteq> gempty"
  proof
    assume "passportsByID sample_store = gempty"
    then have "gvals (passportsByID sample_store) = []" by (simp add: gvals_def)
    moreover have "gvals (passportsByID sample_store) \<noteq> []" by code_simp
    ultimately show False by simp
  qed
  have servers: "downstreamServers lobby_store \<noteq> downstreamServers sample_store"
  proof -
    have "gget (downstreamServers lobby_store) ''lobby'' = Some lobby" "gget (downstreamServers sample_store) ''lobby'' = None"
      by (simp_all add: lobby_store_def sample_store_empty)
    then show ?thesis by auto
  qed
  have "store_step plain_unicode NewMemory sample_store"
  proof -
    have "length sample_uuid = 16" "uuid_version sample_uuid \<noteq> 8" by code_simp+
    then show ?thesis unfolding sample_store_def by (intro by_identity do_UpsertPremiumPassportProfile)
  qed
  with passports have one: "unsaved_step plain_unicode NewMemory sample_store"
    by (intro unsavedI) (simp_all add: NewMemory_def)
  have "store_step plain_unicode sample_store
      (fst (UpsertDownstreamServer plain_unicode (lobby\<lparr>ds_PortalConfig := gempty\<rparr>) None 6 sample_store))"
    by (rule by_table, rule do_UpsertDownstreamServer)
  with servers have two: "unsaved_step plain_unicode sample_store lobby_store"
    unfolding lobby_store_saved by (intro unsavedI) simp_all
  have "server_reachable sample_env (sample_server ''limbo_portal'' NewMemory)" by (rule start) simp
  from next_state [OF next_state [OF this sample_server_step [OF one]] sample_server_step [OF two]]
  show ?thesis by (simp add: transfer_state_def)
qed

lemma transfer_issued_reachable:
  obtains s token g where "server_reachable sample_env s" "gget (transferGrants (sv_store s)) (TransferGrantHash token) = Some g"
proof (rule transfer_issued)
  fix s1 d token g
  assume h: "handleNodeCreateTransferGrant sample_env node_request (Some lobby_transfer) transfer_state = (s1, WriteJSON 201 (VMap d))"
    and s1: "\<exists>evs n. sv_store s1 = lobby_store\<lparr>transferGrants := gput gempty (TransferGrantHash token) g, nextAuditID := n, auditEvents := evs\<rparr>"
  from next_state [OF transfer_state_reachable by_request [OF on_CreateTransferGrant [of sample_env transfer_state node_request "Some lobby_transfer"]]]
  have "server_reachable sample_env s1" by (simp add: h)
  moreover from s1 have "gget (transferGrants (sv_store s1)) (TransferGrantHash token) = Some g" by auto
  ultimately show thesis by (rule that)
qed

subsection \<open>Properties\<close>

text \<open>
  C6: In every reachable state of the server the invariants of the store hold: links, primaries and
  name indexes agree, a profile has at most one open presence on a server, audit events are numbered
  in order, and administrators are distinct.
\<close>

theorem server_invariant:
  assumes "server_reachable en s"
  shows "identity_inv (en_uc en) {} (sv_store s) \<and> presences_ok (sv_store s) \<and> audit_ok (sv_store s) \<and>
    admins_ok (en_uc en) (sv_store s)"
  using server_reachable_ok [OF assms] by (simp add: store_inv_def)

lemma server_invariant_witness: "presences_ok (sv_store transfer_state) \<and> identity_inv plain_unicode {} (sv_store transfer_state)"
  using server_invariant [OF transfer_state_reachable] by simp

text \<open>
  C7: Every token the server stores is well formed: a grant is kept under its own hash, lives 5 to 300
  seconds, has a host and a port to transfer to and was used before it ran out; a portal link is
  kept under its own hash, lives an hour at most, is for a premium or an offline passport, and has a
  time of use or of revocation exactly when its status says so.
\<close>

theorem server_tokens_typed:
  assumes "server_reachable en s"
  shows "(gget (transferGrants (sv_store s)) h = Some g \<longrightarrow>
      tg_TokenHash g = h \<and> 5 * Second \<le> tg_ExpiresAt g - tg_CreatedAt g \<and> tg_ExpiresAt g - tg_CreatedAt g \<le> 300 * Second \<and>
      tg_TargetHost g \<noteq> [] \<and> 0 < tg_TargetPort g \<and> tg_TargetPort g \<le> 65535 \<and>
      (case tg_ConsumedAt g of None \<Rightarrow> True | Some t \<Rightarrow> t < tg_ExpiresAt g)) \<and>
    (gget (portalLinksByToken (sv_store s)) h' = Some l \<longrightarrow>
      li_TokenHash l = h' \<and> 0 < li_ExpiresAt l - li_CreatedAt l \<and> li_ExpiresAt l - li_CreatedAt l \<le> 3600 * Second \<and>
      li_Kind l \<in> {''premium'', ''offline''} \<and> (li_Status l = PortalLinkUsed \<longleftrightarrow> li_UsedAt l \<noteq> None) \<and>
      (li_Status l = PortalLinkRevoked \<longleftrightarrow> li_RevokedAt l \<noteq> None) \<and>
      (case li_UsedAt l of None \<Rightarrow> True | Some t \<Rightarrow> t < li_ExpiresAt l))"
  using server_reachable_ok [OF assms] unfolding tokens_ok_def grant_wf_def link_wf_def by blast

lemma server_tokens_typed_witness:
  "\<exists>s h g. server_reachable sample_env s \<and> gget (transferGrants (sv_store s)) h = Some g \<and> tg_TokenHash g = h \<and>
     tg_ExpiresAt g - tg_CreatedAt g \<le> 300 * Second"
proof (rule transfer_issued_reachable)
  fix s token g
  assume "server_reachable sample_env s" "gget (transferGrants (sv_store s)) (TransferGrantHash token) = Some g"
  then show ?thesis using server_tokens_typed [of sample_env s "TransferGrantHash token" g] by blast
qed

end
