(* ===== verification/ServerGuards.thy ===== *)
theory ServerGuards
  imports ServerInvariant
begin

text \<open>
  What administrators and bans can rely on: a ban shuts the gate, the private recovery key is handed
  out once, a password is reset only with the permission for it; and where the code falls short: a
  long ban overflows, and locking an account asks for no permission at all.
\<close>

subsection \<open>Bans\<close>

lemma enqueue_frame:
  assumes "foldl (enqueue_action en typ lifetime reason now) (s, k) ps = (s', n)"
  shows "bansByID (sv_store s') = bansByID (sv_store s) \<and> presencesByID (sv_store s') = presencesByID (sv_store s) \<and>
    profilesByID (sv_store s') = profilesByID (sv_store s) \<and> passportsByID (sv_store s') = passportsByID (sv_store s) \<and>
    transferGrants (sv_store s') = transferGrants (sv_store s) \<and> sv_nodes s' = sv_nodes s"
  using assms
proof (induction ps arbitrary: s k)
  case (Cons p ps)
  obtain s1 k1 where one: "enqueue_action en typ lifetime reason now (s, k) p = (s1, k1)" by force
  with Cons.prems have "foldl (enqueue_action en typ lifetime reason now) (s1, k1) ps = (s', n)" by simp
  from Cons.IH [OF this] one show ?case
    by (auto simp: enqueue_action_def Now_def in_store_def EnqueueNodeAction_def Let_def split: if_splits prod.splits sum.splits)
qed simp

lemma EndProfilePresences_frame:
  "bansByID (fst (EndProfilePresences i reason t m)) = bansByID m" "profilesByID (fst (EndProfilePresences i reason t m)) = profilesByID m"
  "transferGrants (fst (EndProfilePresences i reason t m)) = transferGrants m"
  "ListProfilePresences (fst (EndProfilePresences i reason t m)) i = []"
  by (auto simp: EndProfilePresences_def endPresencesLocked_def ListProfilePresences_def gvals_grange_set filter_empty_conv
      end_presence_def split: prod.splits if_splits)

text \<open>What a ban by a node leaves behind.\<close>

lemma node_ban_ok:
  assumes "handleNodeCreateProfileBan en r (Some req) s = (s', a)" and ok: "status_of a = 201"
  obtains player b n expiry s1 where "requireNode en r s = Inr n" "playerFromNodeBanRequest en (sv_store s) req = Inr player"
    "parseBanExpiry en (nb_ExpiresAt req) (nb_ExpiresInSeconds req) s = (s1, Inr expiry)"
    "gget (bansByID (sv_store s')) (ba_ID b) = Some b" "ba_Scope b = BanScopeProfile" "ba_TargetID b = pl_ID player"
    "ba_ExpiresAt b = expiry" "ba_RevokedAt b = None" "ListProfilePresences (sv_store s') (pl_ID player) = []"
    "profilesByID (sv_store s') = profilesByID (sv_store s)" "transferGrants (sv_store s') = transferGrants (sv_store s)"
proof -
  note f = assms(1) [unfolded handleNodeCreateProfileBan_def with_node_def decode_body_def option.case]
  from f ok obtain n where n: "requireNode en r s = Inr n"
    by (auto simp: requireNode_def Let_def split: sum.splits if_splits option.splits)
  note f = f [unfolded n sum.case]
  have "playerFromNodeBanRequest en (sv_store s) req = Inl e \<Longrightarrow> er_Status e \<noteq> 201" for e
    by (auto simp: playerFromNodeBanRequest_def Let_def split: if_splits sum.splits)
  with f ok obtain player where p: "playerFromNodeBanRequest en (sv_store s) req = Inr player" by (auto split: sum.splits)
  note f = f [unfolded p sum.case]
  obtain s1 x where e: "parseBanExpiry en (nb_ExpiresAt req) (nb_ExpiresInSeconds req) s = (s1, x)" by force
  have st1: "sv_store s1 = sv_store s" and "x = Inl e \<Longrightarrow> er_Status e \<noteq> 201" for e
    using e by (auto simp: parseBanExpiry_def Let_def Now_def split: if_splits option.splits)
  with f ok e obtain expiry where x: "x = Inr expiry"
    by (auto simp: banFromNodeRequest_def Let_def split: if_splits sum.splits)
  define ban where "ban = \<lparr>ba_ID = [], ba_Scope = BanScopeProfile, ba_TargetID = pl_ID player, ba_Reason = TrimSpace (nb_Reason req),
    ba_CreatedBy = no_ID n, ba_CreatedAt = en_clock en (sv_tick s1), ba_ExpiresAt = expiry, ba_RevokedBy = [], ba_RevokedAt = None,
    ba_RevokeReason = []\<rparr>"
  from f ok e x have b: "banFromNodeRequest en req BanScopeProfile (pl_ID player) (no_ID n) s = (s1\<lparr>sv_tick := sv_tick s1 + 1\<rparr>, Inr ban)"
    by (auto simp: banFromNodeRequest_def Let_def Now_def ban_def split: if_splits)
  note f = f [unfolded b sum.case prod.case Now_def]
  obtain m b where cb: "CreateBan ban (en_clock en (sv_tick s1 + 1)) (sv_store s1) = (m, b)" by force
  define s2 where "s2 = s1\<lparr>sv_store := m, sv_tick := Suc (Suc (Suc (sv_tick s1)))\<rparr>"
  obtain s3 queued where q: "enqueueDisconnectActions en (ListProfilePresences m (pl_ID player)) (''profile banned: '' @ ba_Reason b)
      (en_clock en (sv_tick s1 + 2)) s2 = (s3, queued)" by force
  from cb have m: "bansByID m = gput (bansByID (sv_store s)) (ba_ID b) b" "profilesByID m = profilesByID (sv_store s)"
      "transferGrants m = transferGrants (sv_store s)"
    and bb: "ba_Scope b = BanScopeProfile" "ba_TargetID b = pl_ID player" "ba_ExpiresAt b = expiry" "ba_RevokedAt b = None"
    by (auto simp: CreateBan_def ban_def Let_def st1)
  from enqueue_frame [OF q [unfolded enqueueDisconnectActions_def]]
  have s3: "bansByID (sv_store s3) = bansByID m" "profilesByID (sv_store s3) = profilesByID m"
    "transferGrants (sv_store s3) = transferGrants m" by (simp_all add: s2_def)
  obtain m4 ended where en: "EndProfilePresences (pl_ID player) ''profile banned'' (en_clock en (Suc (Suc (sv_tick s1)))) (sv_store s3) = (m4, ended)"
    by force
  from f cb q en have "bansByID (sv_store s') = bansByID m4" "profilesByID (sv_store s') = profilesByID m4"
    "presencesByID (sv_store s') = presencesByID m4" "transferGrants (sv_store s') = transferGrants m4"
    by (auto simp: in_store_def s2_def audit_def split: prod.splits)
  with s3 m EndProfilePresences_frame [of "pl_ID player" "''profile banned''" "en_clock en (Suc (Suc (sv_tick s1)))" "sv_store s3"]
  have "bansByID (sv_store s') = bansByID m" "profilesByID (sv_store s') = profilesByID (sv_store s)"
    "ListProfilePresences (sv_store s') (pl_ID player) = []" "transferGrants (sv_store s') = transferGrants (sv_store s)"
    by (simp_all add: ListProfilePresences_def en)
  with that [OF n p _ _ bb] e x m show thesis by simp
qed

text \<open>A profile under a ban that never runs out and was not revoked.\<close>

lemma banned_refused:
  assumes "server_reachable en s" and b: "gget (bansByID (sv_store s)) (ba_ID b) = Some b" "ba_Scope b = BanScopeProfile"
      "ba_ExpiresAt b = None" "ba_RevokedAt b = None"
    and "gget (transferGrants (sv_store s)) (consume_hash c) = Some g" and "tg_PlayerID g = ba_TargetID b"
  shows "status_of (snd (handleNodeConsumeTransferGrant en r (Some c) s)) \<noteq> 200"
proof
  assume ok: "status_of (snd (handleNodeConsumeTransferGrant en r (Some c) s)) = 200"
  from b have active: "banActive b t" for t by (simp add: banActive_def)
  have ids: "ids_ok (sv_store s)"
    using server_reachable_ok [OF assms(1)] by (simp add: store_inv_def identity_inv_def tables_ok_def)
  show False
  proof (rule consume_ok [OF surjective_pairing ok])
    fix n server g' m
    assume con: "ConsumeTransferGrant (en_uc en) (consume_hash c) (gate_args en n server c (en_clock en (sv_tick s))) (sv_store s) = (m, Inr g')"
      and admit: "admit_player en r n c server (DownstreamTargetFromServer (en_uc en) server) g' (s\<lparr>sv_tick := sv_tick s + 1, sv_store := m\<rparr>)
        = (fst (handleNodeConsumeTransferGrant en r (Some c) s), snd (handleNodeConsumeTransferGrant en r (Some c) s))"
    from con assms(6,7) have g': "tg_PlayerID g' = ba_TargetID b"
      and m: "bansByID m = bansByID (sv_store s)" "profilesByID m = profilesByID (sv_store s)"
      by (auto simp: ConsumeTransferGrant_Inr)
    show False
    proof (rule admit_player_ok [OF admit ok])
      fix p q
      assume "GetProfileByID (sv_store (s\<lparr>sv_tick := sv_tick s + 1, sv_store := m\<rparr>)) (tg_PlayerID g') = Inr p"
        and ban: "ActiveBanFor (sv_store (s\<lparr>sv_tick := sv_tick s + 1, sv_store := m\<rparr>)) (pp_ID q) (pf_ID p)
          (en_clock en (sv_tick (s\<lparr>sv_tick := sv_tick s + 1, sv_store := m\<rparr>))) = None"
      with ids g' m have "pf_ID p = ba_TargetID b" by (auto simp: GetProfileByID_def ids_ok_def split: option.splits)
      with ban b active m show False by (auto simp: ActiveBanFor_None)
    qed
  qed
qed

text \<open>
  C8: A permanent ban of a profile by a node ends all its presences and is stored, and while the ban is
  stored as it is, in whatever reachable state of the server, no grant made out to the profile
  opens the gate of any server.
\<close>

theorem ban_shuts_gate:
  assumes "handleNodeCreateProfileBan en r (Some req) s = (s', a)" and "status_of a = 201"
    and "TrimSpace (nb_ExpiresAt req) = []" and "nb_ExpiresInSeconds req \<le> 0"
    and "playerFromNodeBanRequest en (sv_store s) req = Inr player"
  shows "ListProfilePresences (sv_store s') (pl_ID player) = [] \<and>
    (\<exists>b. gget (bansByID (sv_store s')) (ba_ID b) = Some b \<and> ba_TargetID b = pl_ID player \<and>
      (\<forall>s'' c g r'. server_reachable en s'' \<and> gget (bansByID (sv_store s'')) (ba_ID b) = Some b \<and>
         gget (transferGrants (sv_store s'')) (consume_hash c) = Some g \<and> tg_PlayerID g = pl_ID player \<longrightarrow>
         status_of (snd (handleNodeConsumeTransferGrant en r' (Some c) s'')) \<noteq> 200))"
proof (rule node_ban_ok [OF assms(1,2)])
  fix player' b n expiry s1
  assume p: "playerFromNodeBanRequest en (sv_store s) req = Inr player'"
    and e: "parseBanExpiry en (nb_ExpiresAt req) (nb_ExpiresInSeconds req) s = (s1, Inr expiry)"
    and b: "gget (bansByID (sv_store s')) (ba_ID b) = Some b" "ba_Scope b = BanScopeProfile" "ba_TargetID b = pl_ID player'"
      "ba_ExpiresAt b = expiry" "ba_RevokedAt b = None" and none: "ListProfilePresences (sv_store s') (pl_ID player') = []"
  from p assms(5) have player: "player' = player" by simp
  from e assms(3,4) have "expiry = None" by (simp add: parseBanExpiry_def)
  with b none player show ?thesis using banned_refused [of en _ b] by auto
qed

lemma wrap64_high:
  assumes "2 ^ 63 \<le> x" and "x < 2 ^ 64" shows "wrap64 x = x - 2 ^ 64"
proof -
  have "(x + 2 ^ 63) mod 2 ^ 64 = (x - 2 ^ 63 + 2 ^ 64) mod 2 ^ 64" by (simp add: algebra_simps)
  also have "\<dots> = x - 2 ^ 63" using assms unfolding mod_add_self2 by (intro mod_pos_pos_trivial) simp_all
  finally show ?thesis by (simp add: wrap64_def)
qed

text \<open>
  C35: A ban of more than 292 years (and up to twice that) overflows: it is stored and answered as
  created and ends the player's presences, but is over before it began and never active.
\<close>

theorem ban_overflow:
  assumes "requireNode en r s = Inr n" and "playerFromNodeBanRequest en (sv_store s) req = Inr player"
    and "TrimSpace (nb_Reason req) \<noteq> []" and "length (TrimSpace (nb_Reason req)) \<le> 500"
    and "TrimSpace (nb_ExpiresAt req) = []" and "9223372037 \<le> nb_ExpiresInSeconds req" and "nb_ExpiresInSeconds req \<le> 18446744073"
  shows "status_of (snd (handleNodeCreateProfileBan en r (Some req) s)) = 201 \<and>
    ListProfilePresences (sv_store (fst (handleNodeCreateProfileBan en r (Some req) s))) (pl_ID player) = [] \<and>
    (\<exists>b. gget (bansByID (sv_store (fst (handleNodeCreateProfileBan en r (Some req) s)))) (ba_ID b) = Some b \<and>
       ba_TargetID b = pl_ID player \<and> (\<forall>t. en_clock en (sv_tick s) \<le> t \<longrightarrow> \<not> banActive b t))"
proof -
  let ?answer = "handleNodeCreateProfileBan en r (Some req) s"
  have ok: "status_of (snd ?answer) = 201"
    using assms by (auto simp: handleNodeCreateProfileBan_def with_node_def decode_body_def banFromNodeRequest_def parseBanExpiry_def
        Let_def Now_def in_store_def ban_answer_def split: prod.splits)
  show ?thesis
  proof (rule node_ban_ok [OF surjective_pairing ok])
    fix player' b n expiry s1
    assume p: "playerFromNodeBanRequest en (sv_store s) req = Inr player'"
      and e: "parseBanExpiry en (nb_ExpiresAt req) (nb_ExpiresInSeconds req) s = (s1, Inr expiry)"
      and b: "gget (bansByID (sv_store (fst ?answer))) (ba_ID b) = Some b" "ba_TargetID b = pl_ID player'" "ba_ExpiresAt b = expiry"
      and none: "ListProfilePresences (sv_store (fst ?answer)) (pl_ID player') = []"
    from e assms(5-7) have "expiry = Some (en_clock en (sv_tick s) + wrap64 (nb_ExpiresInSeconds req * Second))"
      by (auto simp: parseBanExpiry_def Now_def Let_def)
    moreover have "wrap64 (nb_ExpiresInSeconds req * Second) < 0" using assms(6,7) by (simp add: wrap64_high)
    ultimately have "\<not> banActive b t" if "en_clock en (sv_tick s) \<le> t" for t using that by (simp add: banActive_def b)
    with ok b p none assms(2) show ?thesis by auto
  qed
qed

subsection \<open>The recovery key\<close>

lemma recovery_of_map_saved:
  "recovery_of_map (map_of_recovery st) = Inr st \<or> recovery_of_map (map_of_recovery st) = Inl (ErrLib ''json'')"
  by (auto simp: recovery_of_map_def map_of_recovery_def json_str_def json_int_def)

lemma ensured_key:
  assumes "ensurePasswordRecoveryKey en s = (s', Inr st)"
    and "\<And>i public private fingerprint bits. en_genkey en i = Inr (public, private, fingerprint, bits) \<Longrightarrow>
      TrimSpace public \<noteq> [] \<and> TrimSpace fingerprint \<noteq> []"
  shows "TrimSpace (rk_PublicKeyPEM st) \<noteq> [] \<and> TrimSpace (rk_Fingerprint st) \<noteq> []"
proof -
  have "newPasswordRecoveryKeyState en s1 = (s2, Inr st1) \<Longrightarrow> TrimSpace (rk_PublicKeyPEM st1) \<noteq> [] \<and> TrimSpace (rk_Fingerprint st1) \<noteq> []"
    for s1 s2 st1
    using assms(2) by (auto simp: newPasswordRecoveryKeyState_def Now_def split: sum.splits)
  with assms(1) show ?thesis
    by (auto simp: ensurePasswordRecoveryKey_def Let_def split: sum.splits if_splits prod.splits)
qed

text \<open>Once a key without its private part is stored, every download is refused.\<close>

lemma no_private_key:
  assumes "gget (systemSettings (sv_store s)) ''password_recovery_key'' = Some (map_of_recovery st)" and "rk_PrivateKeyPEM st = []"
    and "TrimSpace (rk_PublicKeyPEM st) \<noteq> []" and "TrimSpace (rk_Fingerprint st) \<noteq> []"
  shows "status_of (snd (handleAdminDownloadPasswordRecoveryPrivateKey en r s)) \<noteq> 200"
proof -
  have key: "TrimSpace ''password_recovery_key'' = ''password_recovery_key''" by code_simp
  have ensured: "ensurePasswordRecoveryKey en s1 = (s1, Inr st) \<or> (\<exists>e. ensurePasswordRecoveryKey en s1 = (s1, Inl e))"
    if "sv_store s1 = sv_store s" for s1
    using recovery_of_map_saved [of st] assms
    by (auto simp: ensurePasswordRecoveryKey_def loadPasswordRecoveryKey_def GetSystemSetting_def key that Let_def)
  obtain s1 x where adm: "requireAdmin en r True s = (s1, x)" by force
  then have "sv_store s1 = sv_store s" by (auto simp: requireAdmin_def dest: requireSession_passports)
  from ensured [OF this] adm assms(2) show ?thesis
    by (auto simp: handleAdminDownloadPasswordRecoveryPrivateKey_def with_admin_def requireAdmin_def requireSession_def Let_def Now_def
        TrimSpace_Nil split: sum.splits if_splits)
qed

text \<open>
  C13: The private recovery key is handed out once: as long as the record a download left in the
  settings is not replaced, no further download is answered with success, provided that generated
  keys have a public part and a fingerprint.
\<close>

theorem private_key_once:
  assumes "handleAdminDownloadPasswordRecoveryPrivateKey en r s = (s', a)" and "status_of a = 200"
    and "\<And>i public private fingerprint bits. en_genkey en i = Inr (public, private, fingerprint, bits) \<Longrightarrow>
      TrimSpace public \<noteq> [] \<and> TrimSpace fingerprint \<noteq> []"
    and "gget (systemSettings (sv_store s'')) ''password_recovery_key'' = gget (systemSettings (sv_store s')) ''password_recovery_key''"
  shows "status_of (snd (handleAdminDownloadPasswordRecoveryPrivateKey en r' s'')) \<noteq> 200"
proof -
  have key: "TrimSpace ''password_recovery_key'' = ''password_recovery_key''" by code_simp
  note f = assms(1) [unfolded handleAdminDownloadPasswordRecoveryPrivateKey_def with_admin_def Let_def]
  obtain s1 x where adm: "requireAdmin en r True s = (s1, x)" by force
  with f assms(2) obtain session where x: "x = Inr session"
    by (auto simp: requireAdmin_def requireSession_def Let_def Now_def split: sum.splits if_splits)
  note f = f [unfolded adm x prod.case sum.case]
  obtain s2 y where ens: "ensurePasswordRecoveryKey en s1 = (s2, y)" by force
  with f assms(2) obtain st where y: "y = Inr st" by (auto simp: refuse_def split: sum.splits)
  note f = f [unfolded ens y prod.case sum.case Now_def]
  define st' where "st' = st\<lparr>rk_PrivateKeyPEM := [], rk_DownloadedAt := rfc3339 (en_clock en (sv_tick s2))\<rparr>"
  from f assms(2) have "systemSettings (sv_store s') = gput (systemSettings (sv_store s2)) ''password_recovery_key'' (map_of_recovery st')"
    by (auto simp: refuse_def savePasswordRecoveryKey_def in_store_def SetSystemSetting_def key Let_def st'_def audit_def split: if_splits)
  with assms(4) have "gget (systemSettings (sv_store s'')) ''password_recovery_key'' = Some (map_of_recovery st')" by simp
  from no_private_key [OF this] ensured_key [OF ens [unfolded y] assms(3)] show ?thesis by (simp add: st'_def)
qed

subsection \<open>Permissions\<close>

text \<open>The session an administrator's request rests on.\<close>

definition admin_session :: "env \<Rightarrow> request \<Rightarrow> Server \<Rightarrow> Session \<Rightarrow> bool" where
  "admin_session en r s session \<longleftrightarrow> rq_AdminSession r \<noteq> [] \<and>
     GetSession (sv_store s) (HashToken ''session'' (rq_AdminSession r)) = Inr session \<and> se_Kind session = SessionAdmin \<and>
     \<not> Session_Expired session (en_clock en (sv_tick s)) \<and> Session_VerifyCSRF (en_uc en) session (rq_CSRF r)"

lemma requireAdmin_Inr:
  "requireAdmin en r True s = (s', Inr session) \<longleftrightarrow> admin_session en r s session \<and> s' = s\<lparr>sv_tick := sv_tick s + 1\<rparr>"
  by (auto simp: requireAdmin_def requireSession_def admin_session_def Let_def Now_def split: sum.splits if_splits)

lemma requireAdminPermission_Inr:
  "requireAdminPermission en r True permission s = (s', Inr session) \<longleftrightarrow> admin_session en r s session \<and>
     s' = s\<lparr>sv_tick := sv_tick s + 1\<rparr> \<and>
     (\<exists>perms. session_permissions en (se_SubjectID session) s' = Some perms \<and> HasPermission (en_uc en) perms permission)"
proof -
  obtain s1 x where adm: "requireAdmin en r True s = (s1, x)" by force
  show ?thesis
  proof (cases x)
    case (Inl e)
    then have "\<not> admin_session en r s session"
      using requireAdmin_Inr [of en r s "s\<lparr>sv_tick := sv_tick s + 1\<rparr>" session] adm by simp
    then show ?thesis by (simp add: requireAdminPermission_def adm Inl)
  next
    case (Inr session')
    with adm have s1: "admin_session en r s session'" "s1 = s\<lparr>sv_tick := sv_tick s + 1\<rparr>" by (simp_all add: requireAdmin_Inr)
    moreover from s1 have "admin_session en r s session \<Longrightarrow> session = session'" by (auto simp: admin_session_def)
    ultimately show ?thesis by (auto simp: requireAdminPermission_def adm Inr split: option.splits if_splits)
  qed
qed

lemma requireAdminPermission_store: "sv_store (fst (requireAdminPermission en r csrf permission s)) = sv_store s"
  by (auto simp: requireAdminPermission_def requireAdmin_def dest!: requireSession_passports split: prod.splits sum.splits)


text \<open>
  C36: Locking an account asks for no permission: an administrator who was disabled, deleted or never
  granted anything, and is refused as such when resetting a password, still locks any passport
  while the session lasts, although the catalogue of permissions has one for it.
\<close>

theorem lock_needs_no_permission:
  assumes "admin_session en r s session" and "gget (passportsByID (sv_store s)) i = Some q"
    and "\<And>perms. session_permissions en (se_SubjectID session) (s\<lparr>sv_tick := sv_tick s + 1\<rparr>) = Some perms \<Longrightarrow>
      \<not> HasPermission (en_uc en) perms ''players.password.reset''"
  shows "''players.lock'' \<in> set catalogKeys \<and>
    status_of (snd (handleAdminResetOfflinePassword j en r body s)) \<in> {401, 403} \<and>
    status_of (snd (handleAdminUpdatePassport i en r (Some \<lparr>up_Status = PassportStatusLocked\<rparr>) s)) = 200 \<and>
    map_option pp_Status (gget (passportsByID (sv_store (fst
      (handleAdminUpdatePassport i en r (Some \<lparr>up_Status = PassportStatusLocked\<rparr>) s)))) i) = Some PassportStatusLocked"
proof -
  have adm: "requireAdmin en r True s = (s\<lparr>sv_tick := sv_tick s + 1\<rparr>, Inr session)" using assms(1) by (simp add: requireAdmin_Inr)
  have "''players.lock'' \<in> set catalogKeys" by code_simp
  moreover have "status_of (snd (handleAdminResetOfflinePassword j en r body s)) \<in> {401, 403}"
    using assms(3) by (auto simp: handleAdminResetOfflinePassword_def with_permission_def requireAdminPermission_def adm split: option.splits)
  moreover have "TrimSpace PassportStatusLocked = PassportStatusLocked" "PassportStatusLocked \<noteq> PassportStatusDeleted" by code_simp+
  then have "status_of (snd (handleAdminUpdatePassport i en r (Some \<lparr>up_Status = PassportStatusLocked\<rparr>) s)) = 200 \<and>
    map_option pp_Status (gget (passportsByID (sv_store (fst
      (handleAdminUpdatePassport i en r (Some \<lparr>up_Status = PassportStatusLocked\<rparr>) s)))) i) = Some PassportStatusLocked"
    using assms(2) by (simp add: handleAdminUpdatePassport_def with_admin_def adm decode_body_def Let_def Now_def in_store_def
        SetPassportStatus_def admin_audit_def audit_def links_only_fields [OF refreshPassport_frame])
  ultimately show ?thesis by blast
qed

subsection \<open>Witnesses\<close>

text \<open>A session of an administrator, and the requests made with it.\<close>

definition staff_session :: "string \<Rightarrow> Session" where
  "staff_session subject = \<lparr>se_ID = HashToken ''session'' ''cookie'', se_Kind = SessionAdmin, se_SubjectID = subject,
     se_SelectedProfileID = [], se_CSRFToken = HashToken ''csrf'' ''c'', se_CreatedAt = 1, se_ExpiresAt = 1000\<rparr>"

definition staff_request :: request where
  "staff_request = node_request\<lparr>rq_AdminSession := ''cookie'', rq_CSRF := ''c''\<rparr>"

definition with_staff :: "string \<Rightarrow> Server \<Rightarrow> Server" where
  "with_staff subject s = s\<lparr>sv_store := (sv_store s)\<lparr>sessionsByID := gput gempty (HashToken ''session'' ''cookie'') (staff_session subject)\<rparr>\<rparr>"

lemma staff_admin: "sv_tick s = 0 \<Longrightarrow> admin_session sample_env staff_request (with_staff subject s) (staff_session subject)"
  by (simp add: admin_session_def staff_request_def with_staff_def GetSession_def staff_session_def Session_Expired_def
      Session_VerifyCSRF_def ConstantTimeTokenEqual_HashToken)

lemma lock_needs_no_permission_witness:
  "status_of (snd (handleAdminResetOfflinePassword sample_q sample_env staff_request None (with_staff ''gone'' transfer_state))) \<in> {401, 403} \<and>
   status_of (snd (handleAdminUpdatePassport sample_q sample_env staff_request (Some \<lparr>up_Status = PassportStatusLocked\<rparr>)
     (with_staff ''gone'' transfer_state))) = 200"
proof -
  have "adminUsers sample_store = gempty" by (rule no_entries, code_simp)
  then have "session_permissions sample_env (se_SubjectID (staff_session ''gone'')) (with_staff ''gone'' transfer_state\<lparr>sv_tick := t\<rparr>) = None" for t
    by (simp add: session_permissions_def staff_session_def GetAdminUser_def with_staff_def transfer_state_def lobby_store_def)
  moreover have "gget (passportsByID sample_store) sample_q \<noteq> None" by code_simp
  then have "\<exists>q. gget (passportsByID (sv_store (with_staff ''gone'' transfer_state))) sample_q = Some q"
    by (simp add: with_staff_def transfer_state_def lobby_store_def)
  moreover have "admin_session sample_env staff_request (with_staff ''gone'' transfer_state) (staff_session ''gone'')"
    by (rule staff_admin) (simp add: transfer_state_def)
  ultimately show ?thesis
    using lock_needs_no_permission [of sample_env staff_request "with_staff ''gone'' transfer_state" "staff_session ''gone''" sample_q _ sample_q None]
    by fastforce
qed

lemma sample_genkey: "en_genkey sample_env i = Inr (''public'', ''private'', ''key'', 2048)"
  by (simp add: sample_env_def)

lemma no_settings: "systemSettings (sv_store (with_staff subject (sample_server md NewMemory))) = gempty"
  by (simp add: with_staff_def NewMemory_def)

lemma private_key_once_witness:
  "status_of (snd (handleAdminDownloadPasswordRecoveryPrivateKey sample_env staff_request
     (fst (handleAdminDownloadPasswordRecoveryPrivateKey sample_env staff_request (with_staff ''a'' (sample_server [] NewMemory)))))) \<noteq> 200"
proof -
  let ?s = "with_staff ''a'' (sample_server [] NewMemory)"
  have key: "TrimSpace ''password_recovery_key'' = ''password_recovery_key''" "TrimSpace ''private'' \<noteq> []" "TrimSpace ''public'' \<noteq> []"
    "TrimSpace ''key'' \<noteq> []" by code_simp+
  have "admin_session sample_env staff_request ?s (staff_session ''a'')" by (rule staff_admin) simp
  then have "requireAdmin sample_env staff_request True ?s = (?s\<lparr>sv_tick := sv_tick ?s + 1\<rparr>, Inr (staff_session ''a''))"
    by (simp only: requireAdmin_Inr simp_thms)
  then have "status_of (snd (handleAdminDownloadPasswordRecoveryPrivateKey sample_env staff_request ?s)) = 200"
    by (simp add: handleAdminDownloadPasswordRecoveryPrivateKey_def with_admin_def ensurePasswordRecoveryKey_def loadPasswordRecoveryKey_def
        GetSystemSetting_def no_settings newPasswordRecoveryKeyState_def Now_def savePasswordRecoveryKey_def in_store_def
        SetSystemSetting_def key Let_def sample_genkey)
  moreover have "en_genkey sample_env i = Inr (public, secret, fp, bits) \<Longrightarrow> TrimSpace public \<noteq> [] \<and> TrimSpace fp \<noteq> []"
    for i public secret fp bits using key by (auto simp: sample_genkey)
  ultimately show ?thesis by (rule private_key_once [OF surjective_pairing _ _ HOL.refl])
qed

text \<open>The ban of the player of \<open>sample_store\<close> by the gate node.\<close>

definition sample_ban :: "int \<Rightarrow> nodeBanRequest" where
  "sample_ban seconds = \<lparr>nb_ProfileID = sample_p, nb_PassportID = [], nb_Username = [], nb_Reason = ''griefing'', nb_ExpiresAt = [],
     nb_ExpiresInSeconds = seconds\<rparr>"

lemma sample_ban_simps [simp]: "nb_ExpiresAt (sample_ban k) = []" "nb_ExpiresInSeconds (sample_ban k) = k"
  by (simp_all add: sample_ban_def)

lemma sample_ban_reason: "TrimSpace (nb_Reason (sample_ban k)) = ''griefing''"
proof -
  have "TrimSpace ''griefing'' = ''griefing''" by code_simp
  then show ?thesis by (simp add: sample_ban_def)
qed

lemma lobby_player: "\<exists>player. pl_ID player = sample_p \<and> gget (playersByID lobby_store) sample_p = Some player"
proof -
  have "case gget (playersByID sample_store) sample_p of None \<Rightarrow> False | Some player \<Rightarrow> pl_ID player = sample_p" by code_simp
  moreover have "playersByID lobby_store = playersByID sample_store" by (simp add: lobby_store_def)
  ultimately show ?thesis by (auto split: option.splits)
qed

lemma sample_ban_player:
  assumes "gget (playersByID m) sample_p = Some player" shows "playerFromNodeBanRequest sample_env m (sample_ban k) = Inr player"
proof -
  have "TrimSpace sample_p = sample_p" by code_simp
  with assms show ?thesis by (simp add: playerFromNodeBanRequest_def sample_ban_def GetPlayerByID_def)
qed

lemma ban_overflow_witness:
  "status_of (snd (handleNodeCreateProfileBan sample_env node_request (Some (sample_ban 9223372037)) transfer_state)) = 201"
proof -
  obtain player where "gget (playersByID (sv_store transfer_state)) sample_p = Some player"
    using lobby_player by (auto simp: transfer_state_def)
  from sample_ban_player [OF this]
  have p: "playerFromNodeBanRequest sample_env (sv_store transfer_state) (sample_ban 9223372037) = Inr player" .
  have node: "requireNode sample_env node_request transfer_state = Inr (gate_node ''limbo_portal'')"
    by (rule node_admitted) (simp_all add: transfer_state_def sample_server_def)
  have "TrimSpace [] = []" by code_simp
  with ban_overflow [OF node p] show ?thesis by (simp add: sample_ban_reason)
qed

lemma ban_shuts_gate_witness:
  "\<exists>s g token c. gget (transferGrants (sv_store s)) (TransferGrantHash token) = Some g \<and> consume_hash c = TransferGrantHash token \<and>
     status_of (snd (handleNodeCreateProfileBan sample_env node_request (Some (sample_ban 0)) s)) = 201 \<and>
     status_of (snd (handleNodeConsumeTransferGrant sample_env node_request (Some c)
       (fst (handleNodeCreateProfileBan sample_env node_request (Some (sample_ban 0)) s)))) \<noteq> 200"
proof (rule transfer_issued)
  fix s d token g
  assume h: "handleNodeCreateTransferGrant sample_env node_request (Some lobby_transfer) transfer_state = (s, WriteJSON 201 (VMap d))"
    and s: "sv_nodes s = sv_nodes transfer_state"
      "\<exists>evs n. sv_store s = lobby_store\<lparr>transferGrants := gput gempty (TransferGrantHash token) g, nextAuditID := n, auditEvents := evs\<rparr>"
    and g: "tg_PlayerID g = sample_p" and trim: "TrimSpace token = token" "token \<noteq> []"
  have reach: "server_reachable sample_env s"
    using next_state [OF transfer_state_reachable by_request [OF on_CreateTransferGrant [of sample_env transfer_state node_request "Some lobby_transfer"]]]
    by (simp add: h)
  obtain player where pl: "pl_ID player = sample_p" "gget (playersByID lobby_store) sample_p = Some player" using lobby_player by blast
  with s(2) have "gget (playersByID (sv_store s)) sample_p = Some player" by auto
  from sample_ban_player [OF this] have p: "playerFromNodeBanRequest sample_env (sv_store s) (sample_ban 0) = Inr player" .
  have node: "requireNode sample_env node_request s = Inr (gate_node ''limbo_portal'')"
    by (rule node_admitted) (simp_all add: s(1) transfer_state_def sample_server_def)
  let ?ban = "handleNodeCreateProfileBan sample_env node_request (Some (sample_ban 0)) s"
  have none: "TrimSpace [] = []" by code_simp
  have ok: "status_of (snd ?ban) = 201"
    using node p none by (auto simp: handleNodeCreateProfileBan_def with_node_def decode_body_def banFromNodeRequest_def parseBanExpiry_def
        Let_def Now_def in_store_def ban_answer_def sample_ban_reason split: prod.splits)
  obtain grants: "transferGrants (sv_store (fst ?ban)) = transferGrants (sv_store s)"
    by (rule node_ban_ok [OF surjective_pairing ok])
  define c where "c = gate_request\<lparr>cs_TokenHash := [], cs_Token := token\<rparr>"
  have hash: "consume_hash c = TransferGrantHash token"
    by (simp add: c_def consume_hash_def gate_request_def trim none)
  have grant: "gget (transferGrants (sv_store s)) (TransferGrantHash token) = Some g" using s(2) by auto
  have "status_of (snd (handleNodeConsumeTransferGrant sample_env node_request (Some c) (fst ?ban))) \<noteq> 200"
  proof -
    have "server_reachable sample_env (fst ?ban)" by (rule next_state [OF reach by_request [OF on_CreateProfileBan]])
    moreover have "gget (transferGrants (sv_store (fst ?ban))) (consume_hash c) = Some g" using grant grants hash by simp
    ultimately show ?thesis
      using ban_shuts_gate [OF surjective_pairing ok _ _ p] g pl(1) none by auto
  qed
  with grant hash ok show ?thesis by blast
qed


end
