(* ===== verification/ServerPortalLaws.thy ===== *)
theory ServerPortalLaws
  imports ServerGuards
begin

text \<open>
  What the portal promises: a one-time link signs in once, a password signs in exactly the accounts it
  should, and what a player can do to its own profiles.
\<close>

subsection \<open>Links\<close>

lemma audit_store:
  "sessionsByID (sv_store (audit en r a i t j e d s)) = sessionsByID (sv_store s)"
  "portalLinksByToken (sv_store (audit en r a i t j e d s)) = portalLinksByToken (sv_store s)"
  "credentialsByPlayer (sv_store (audit en r a i t j e d s)) = credentialsByPlayer (sv_store s)"
  "profilesByID (sv_store (audit en r a i t j e d s)) = profilesByID (sv_store s)"
  "adminUsers (sv_store (audit en r a i t j e d s)) = adminUsers (sv_store s)"
  "adminSecurity (sv_store (audit en r a i t j e d s)) = adminSecurity (sv_store s)"
  by (simp_all add: audit_def auditWithClientIP_def on_store_def AppendAuditEvent_def Now_def Let_def)

lemma link_login_ok:
  assumes "handlePortalLinkLogin en r (Some req) s = (s', a)" and "status_of a = 200"
  obtains link passport profile m l where
    "MarkPortalLinkUsed (link_key (ll_Token req)) (en_clock en (sv_tick s)) (sv_store s) = (m, Inr l)"
    "link_signed_in en r link passport profile (en_clock en (sv_tick s)) (s\<lparr>sv_tick := sv_tick s + 1, sv_store := m\<rparr>) = (s', a)"
  using assms
  by (auto simp: handlePortalLinkLogin_def decode_body_def Let_def Now_def in_store_def refuse_def portalLinkUseError_def NewError_def
      split: sum.splits if_splits prod.splits)

lemma dead_link_refused:
  assumes "link_dead (sv_store s) (link_key (ll_Token req))"
  shows "status_of (snd (handlePortalLinkLogin en r (Some req) s)) \<noteq> 200 \<and>
    sessionsByID (sv_store (fst (handlePortalLinkLogin en r (Some req) s))) = sessionsByID (sv_store s)"
proof -
  have "\<exists>e. MarkPortalLinkUsed (link_key (ll_Token req)) t (sv_store s) = (sv_store s, Inl e)" for t
  proof (cases "MarkPortalLinkUsed (link_key (ll_Token req)) t (sv_store s)")
    case (Pair m x)
    with dead_refused(2) [OF assms, of t] obtain e where "x = Inl e" by (cases x) (auto simp: is_ok_def)
    with Pair show ?thesis by (auto dest: MarkPortalLinkUsed_Inl)
  qed
  then obtain err where e: "\<And>t. MarkPortalLinkUsed (link_key (ll_Token req)) t (sv_store s) = (sv_store s, Inl (err t))" by metis
  show ?thesis
    by (auto simp: handlePortalLinkLogin_def decode_body_def Let_def Now_def in_store_def e refuse_def portalLinkUseError_def
        NewError_def audit_store split: sum.splits)
qed

text \<open>
  C9: Once a portal link has signed a player in, no request with the same token is answered with
  success and none opens a session, in any run of the whole server, unless a later draw of the
  random generator gives the same token again.
\<close>

theorem portal_link_signs_in_once:
  assumes "handlePortalLinkLogin en r (Some req) s = (s', a)" and "status_of a = 200"
    and "(server_step en)\<^sup>*\<^sup>* s' s''" and "link_key (ll_Token req') = link_key (ll_Token req)"
  shows "status_of (snd (handlePortalLinkLogin en r' (Some req') s'')) \<noteq> 200 \<and>
      sessionsByID (sv_store (fst (handlePortalLinkLogin en r' (Some req') s''))) = sessionsByID (sv_store s'') \<or>
    link_key (ll_Token req) \<in> drawn en (sv_draw s) (sv_draw s'')"
proof (rule link_login_ok [OF assms(1,2)])
  fix link passport profile m l
  let ?h = "link_key (ll_Token req)" and ?s1 = "s\<lparr>sv_tick := sv_tick s + 1, sv_store := m\<rparr>"
  assume c: "MarkPortalLinkUsed ?h (en_clock en (sv_tick s)) (sv_store s) = (m, Inr l)"
    and enter: "link_signed_in en r link passport profile (en_clock en (sv_tick s)) ?s1 = (s', a)"
  from c have d1: "link_dead (sv_store ?s1) ?h" by (auto simp: MarkPortalLinkUsed_Inr link_dead_def)
  have sv: "served en ?s1 s'"
    using run_portal_parts(6) [OF served_refl, of en ?s1 r link passport profile "en_clock en (sv_tick s)"] enter
    by (simp add: runs_def)
  note run = server_run_dead [OF assms(3)]
  from sv have le: "sv_draw s \<le> sv_draw s'" by (simp add: served_def)
  have "drawn en (sv_draw s) (sv_draw s') \<subseteq> drawn en (sv_draw s) (sv_draw s'')"
    "drawn en (sv_draw s') (sv_draw s'') \<subseteq> drawn en (sv_draw s) (sv_draw s'')"
    using le run by (simp_all add: drawn_mono)
  then have "link_dead (sv_store s'') ?h" if "?h \<notin> drawn en (sv_draw s) (sv_draw s'')"
    using that sv d1 run by (auto simp: served_def dead_kept_def)
  with dead_link_refused [of s'' req' en r'] assms(4) show ?thesis by auto
qed

subsection \<open>Passwords\<close>

lemma signed_in_code:
  "portal_signed_in en r req passport s = (s', a) \<Longrightarrow> error_code a \<noteq> ''auth.account_locked'' \<and> error_code a \<noteq> ''auth.invalid_credentials''"
  by (auto simp: portal_signed_in_def open_session_def session_answer_def Let_def Now_def refuse_def NewError_def
      split: sum.splits prod.splits)

lemma sign_in_failed_code:
  "portal_sign_in_failed en r req passport s = (s', a) \<Longrightarrow> error_code a = ''auth.invalid_credentials'' \<and>
   sessionsByID (sv_store s') = sessionsByID (sv_store s) \<and> credentialsByPlayer (sv_store s') =
     credentialsByPlayer (fst (RecordPassportLoginFailure (pp_ID passport) (en_clock en (sv_tick s)) (sv_store s)))"
  by (auto simp: portal_sign_in_failed_def Let_def Now_def refuse_def NewError_def in_store_def audit_store
      RecordPassportLoginFailure_def RecordOfflineLoginFailure_def split: prod.splits sum.splits option.splits if_splits)


subsection \<open>Profiles\<close>

text \<open>
  C38: A player undoes the lock an administrator put on one of its profiles: restoring a profile sets it
  active whatever its status was.
\<close>

theorem restore_lifts_lock:
  assumes "requirePlayer en r True s = (s1, Inr session)" and "portalOwnedProfile (sv_store s1) session i = Inr (passport, target)"
    and "gget (profilesByID (sv_store s1)) (pf_ID target) = Some target" and "pf_Status target = ProfileStatusLocked"
  shows "status_of (snd (handlePortalRestoreProfile i en r s)) = 200 \<and>
    map_option pf_Status (gget (profilesByID (sv_store (fst (handlePortalRestoreProfile i en r s)))) (pf_ID target)) = Some ProfileStatusActive"
proof -
  have "profilesByID (fst (refreshProfilePlayerLocked p m)) = profilesByID m" for p m
    by (rule links_only_fields [OF refresh_fields(1)])
  then show ?thesis
    using assms(1-3) by (simp add: handlePortalRestoreProfile_def with_player_def Now_def in_store_def SetProfileStatus_def Let_def
        audit_store writePortalSessionData_def)
qed

subsection \<open>Witnesses\<close>

text \<open>The premium player of \<open>sample_store\<close> with a link and a session, and its profile locked.\<close>

definition sample_link :: PortalLink where
  "sample_link = \<lparr>li_ID = ''l'', li_Kind = ''premium'', li_PlayerID = sample_q, li_SuggestedProfileID = sample_p, li_ServerID = [],
     li_IssuedByNodeID = [], li_TokenHash = HashToken ''portal-link'' ''t'', li_Status = PortalLinkActive, li_CreatedAt = 90,
     li_ExpiresAt = 900, li_UsedAt = None, li_RevokedAt = None\<rparr>"

definition link_state :: Server where
  "link_state = sample_server ''limbo_portal'' (SavePortalLink sample_link sample_store)"

definition link_request :: portalLinkLoginRequest where "link_request = \<lparr>ll_Token = ''t''\<rparr>"

lemma ok_conj:
  assumes "case x of Inl _ \<Rightarrow> False | Inr q \<Rightarrow> P q" "case x of Inl _ \<Rightarrow> False | Inr q \<Rightarrow> Q q"
  shows "\<exists>q. x = Inr q \<and> P q \<and> Q q"
  using assms by (cases x) auto

lemma sample_passport_active: "\<exists>q. GetPassportByID sample_store sample_q = Inr q \<and> pp_ID q = sample_q \<and>
    (pp_Status q = PassportStatusActive \<and> pp_Kind q = PassportKindPremium)"
  by (rule ok_conj) code_simp+

lemma sample_profile_active: "\<exists>p. GetProfileByID sample_store sample_p = Inr p \<and> pf_ID p = sample_p \<and> pf_Status p = ProfileStatusActive"
  by (rule ok_conj) code_simp+

lemma sample_player_bound: "\<exists>b. GetProfilePassportBinding sample_store sample_p sample_q = Inr b"
  using gate_sample_player by blast

lemma session_answer_status: "status_of (session_answer m n passport profile player session t c) = n"
  by (simp only: session_answer_def status_of.simps)

lemma open_session_ok:
  assumes "\<And>i. en_rand en i \<noteq> None" and "\<And>session t c s. P (k session t c s)"
  shows "P (open_session en i j now s k)"
proof -
  from assms(1) obtain a b where "en_rand en (sv_draw s) = Some a" "en_rand en (sv_draw s + 1) = Some b" by blast
  then show ?thesis by (simp add: open_session_def Rand_def NewSession_def NewOpaqueToken_def Let_def assms(2))
qed

text \<open>Whoever holds a usable link is signed in.\<close>

lemma link_signs_in:
  assumes "GetPortalLink (sv_store s) (link_key (ll_Token req)) = Inr link" "now = en_clock en (sv_tick s)"
    "PortalLink_Verify (en_uc en) link (ll_Token req) now = PortalLinkVerifyOK"
    "GetPassportByID (sv_store s) (li_PlayerID link) = Inr passport" "pp_Status passport = PassportStatusActive"
    "portalLinkKind passport = li_Kind link" "portalLinkProfile (sv_store s) (pp_ID passport) (li_SuggestedProfileID link) = Inr profile"
    "MarkPortalLinkUsed (link_key (ll_Token req)) now (sv_store s) = (m, Inr l)" "\<And>i. en_rand en i \<noteq> None"
  shows "status_of (snd (handlePortalLinkLogin en r (Some req) s)) = 200"
proof -
  have "status_of (snd (link_signed_in en r link passport profile now s2)) = 200" for s2
    unfolding link_signed_in_def
    by (rule open_session_ok [where en = en]) (simp_all only: assms(9) not_False_eq_True session_answer_status snd_conv Let_def)
  with assms(1-8) show ?thesis
    by (simp add: handlePortalLinkLogin_def decode_body_def Let_def Now_def in_store_def)
qed

lemma sample_trims: "TrimSpace ''t'' = ''t''" "TrimSpace sample_p = sample_p" "sample_p \<noteq> []"
  by code_simp+

lemma sample_link_fields:
  "li_PlayerID sample_link = sample_q" "li_SuggestedProfileID sample_link = sample_p" "li_Kind sample_link = ''premium''"
  "li_Status sample_link = PortalLinkActive" "li_ExpiresAt sample_link = 900" "li_TokenHash sample_link = HashToken ''portal-link'' ''t''"
  by (simp_all add: sample_link_def)

lemma link_state_store:
  "sv_store link_state = sample_store\<lparr>portalLinksByToken := gput (portalLinksByToken sample_store) (HashToken ''portal-link'' ''t'') sample_link\<rparr>"
  unfolding link_state_def sample_server_simps SavePortalLink_def sample_link_fields ..

lemma link_state_links: "gget (portalLinksByToken (sv_store link_state)) (link_key ''t'') = Some sample_link"
  unfolding link_state_store link_key_def sample_trims by simp

lemma link_state_identity:
  "GetPassportByID (sv_store link_state) i = GetPassportByID sample_store i"
  "GetProfileByID (sv_store link_state) i = GetProfileByID sample_store i"
  "GetProfilePassportBinding (sv_store link_state) i j = GetProfilePassportBinding sample_store i j"
  unfolding link_state_store by (simp_all add: GetPassportByID_def GetProfileByID_def GetProfilePassportBinding_def split: option.split)

lemma bound_active_Inr:
  "GetProfileByID m i = Inr p \<Longrightarrow> pf_ID p = i \<Longrightarrow> pf_Status p = ProfileStatusActive \<Longrightarrow>
   GetProfilePassportBinding m i j = Inr b \<Longrightarrow> TrimSpace i = i \<Longrightarrow> i \<noteq> [] \<Longrightarrow> portalLinkProfile m j i = Inr p"
  by (simp add: portalLinkProfile_def bound_active_def Let_def)

lemma link_state_mark:
  "\<exists>m. MarkPortalLinkUsed (link_key ''t'') 100 (sv_store link_state) = (m, Inr (sample_link\<lparr>li_Status := PortalLinkUsed, li_UsedAt := Some 100\<rparr>))"
  unfolding MarkPortalLinkUsed_Inr using link_state_links sample_link_fields(4,5) by simp

lemma link_opens: "status_of (snd (handlePortalLinkLogin sample_env node_request (Some link_request) link_state)) = 200"
proof -
  obtain q where q: "GetPassportByID sample_store sample_q = Inr q" "pp_ID q = sample_q"
    "pp_Status q = PassportStatusActive" "pp_Kind q = PassportKindPremium"
    using sample_passport_active by (elim exE conjE) (rule that)
  obtain p where p: "GetProfileByID sample_store sample_p = Inr p" "pf_ID p = sample_p" "pf_Status p = ProfileStatusActive"
    using sample_profile_active by (elim exE conjE) (rule that)
  obtain b where b: "GetProfilePassportBinding sample_store sample_p sample_q = Inr b" using sample_player_bound by (elim exE) (rule that)
  obtain m where mark: "MarkPortalLinkUsed (link_key ''t'') 100 (sv_store link_state) =
      (m, Inr (sample_link\<lparr>li_Status := PortalLinkUsed, li_UsedAt := Some 100\<rparr>))" using link_state_mark by (elim exE) (rule that)
  have token: "ll_Token link_request = ''t''" by (simp add: link_request_def)
  show ?thesis
  proof (rule link_signs_in)
    show "GetPortalLink (sv_store link_state) (link_key (ll_Token link_request)) = Inr sample_link"
      unfolding token GetPortalLink_def link_state_links by simp
    show "100 = en_clock sample_env (sv_tick link_state)" unfolding link_state_def by simp
    show "PortalLink_Verify (en_uc sample_env) sample_link (ll_Token link_request) 100 = PortalLinkVerifyOK"
      unfolding token PortalLink_Verify_def sample_link_fields ConstantTimeTokenEqual_HashToken by simp
    show "GetPassportByID (sv_store link_state) (li_PlayerID sample_link) = Inr q"
      unfolding sample_link_fields link_state_identity by (rule q)
    show "pp_Status q = PassportStatusActive" by (rule q)
    show "portalLinkKind q = li_Kind sample_link" unfolding portalLinkKind_def sample_link_fields using q(4) by simp
    show "portalLinkProfile (sv_store link_state) (pp_ID q) (li_SuggestedProfileID sample_link) = Inr p"
      unfolding sample_link_fields q(2)
      by (rule bound_active_Inr [OF _ p(2,3) _ sample_trims(2,3)]) (simp_all only: link_state_identity p(1) b)
    show "MarkPortalLinkUsed (link_key (ll_Token link_request)) 100 (sv_store link_state) =
        (m, Inr (sample_link\<lparr>li_Status := PortalLinkUsed, li_UsedAt := Some 100\<rparr>))"
      unfolding token by (rule mark)
  qed simp
qed

lemma portal_link_signs_in_once_witness:
  "(\<exists>s' a. handlePortalLinkLogin sample_env node_request (Some link_request) link_state = (s', a) \<and>
     (status_of (snd (handlePortalLinkLogin sample_env node_request (Some link_request) s')) \<noteq> 200 \<or>
      link_key ''t'' \<in> drawn sample_env 0 (sv_draw s')))"
proof -
  obtain s' a where run: "handlePortalLinkLogin sample_env node_request (Some link_request) link_state = (s', a)" by fastforce
  with link_opens have "status_of a = 200" by simp
  note once = portal_link_signs_in_once [OF run this rtranclp.rtrancl_refl HOL.refl]
  have "ll_Token link_request = ''t''" "sv_draw link_state = 0" by (simp_all add: link_request_def link_state_def)
  with once [of node_request] run show ?thesis by auto
qed

definition portal_request :: "string \<Rightarrow> portalLoginRequest" where
  "portal_request password = \<lparr>lg_Username = ''Alex'', lg_Password = password, lg_ServerSlug = []\<rparr>"


text \<open>The player with a session, its profile locked by an administrator.\<close>

definition player_session :: Session where
  "player_session = \<lparr>se_ID = HashToken ''session'' ''cookie'', se_Kind = SessionPlayer, se_SubjectID = sample_q,
     se_SelectedProfileID = sample_p, se_CSRFToken = HashToken ''csrf'' ''c'', se_CreatedAt = 1, se_ExpiresAt = 1000\<rparr>"

definition player_request :: request where
  "player_request = node_request\<lparr>rq_PlayerSession := ''cookie'', rq_CSRF := ''c''\<rparr>"

definition locked_store :: memory where
  "locked_store = fst (SetProfileStatus sample_p ProfileStatusLocked 50 sample_store)"

definition locked_state :: Server where
  "locked_state = sample_server ''limbo_portal'' (SaveSession player_session locked_store)"

lemma locked_player:
  "\<exists>q. GetPassportByID locked_store sample_q = Inr q \<and> pp_ID q = sample_q \<and> pp_Status q = PassportStatusActive"
  by (rule ok_conj) code_simp+

lemma locked_profile:
  "\<exists>p. GetProfileByID locked_store sample_p = Inr p \<and> pf_ID p = sample_p \<and> pf_Status p = ProfileStatusLocked"
  by (rule ok_conj) code_simp+

lemma locked_bound:
  "\<exists>b. GetProfilePassportBinding locked_store sample_p sample_q = Inr b \<and> True \<and> True"
  by (rule ok_conj) code_simp+

lemma locked_state_signed_in:
  "requirePlayer sample_env player_request True locked_state = (locked_state\<lparr>sv_tick := 1\<rparr>, Inr player_session)"
proof -
  have "GetSession (sv_store locked_state) (HashToken ''session'' ''cookie'') = Inr player_session"
    by (simp add: locked_state_def SaveSession_def GetSession_def player_session_def)
  moreover have "rq_PlayerSession player_request = ''cookie''" "rq_CSRF player_request = ''c''" "sv_tick locked_state = 0"
    by (simp_all add: player_request_def locked_state_def)
  ultimately show ?thesis
    by (simp add: requirePlayer_def requireSession_def Let_def Now_def)
      (simp add: player_session_def Session_Expired_def Session_VerifyCSRF_def ConstantTimeTokenEqual_HashToken)
qed

lemma locked_state_store:
  "GetPassportByID (sv_store (locked_state\<lparr>sv_tick := t\<rparr>)) i = GetPassportByID locked_store i"
  "GetProfileByID (sv_store (locked_state\<lparr>sv_tick := t\<rparr>)) i = GetProfileByID locked_store i"
  "GetProfilePassportBinding (sv_store (locked_state\<lparr>sv_tick := t\<rparr>)) i j = GetProfilePassportBinding locked_store i j"
  "profilesByID (sv_store (locked_state\<lparr>sv_tick := t\<rparr>)) = profilesByID locked_store"
  by (simp_all add: locked_state_def SaveSession_def GetPassportByID_def GetProfileByID_def GetProfilePassportBinding_def
      split: option.split)

lemma portalOwnedProfile_Inr:
  "GetPassportByID m (se_SubjectID session) = Inr q \<Longrightarrow> pp_Status q = PassportStatusActive \<Longrightarrow> GetProfileByID m i = Inr p \<Longrightarrow>
   TrimSpace i = i \<Longrightarrow> GetProfilePassportBinding m (pf_ID p) (pp_ID q) = Inr b \<Longrightarrow> portalOwnedProfile m session i = Inr (q, p)"
  by (simp add: portalOwnedProfile_def)

lemma restore_lifts_lock_witness:
  "status_of (snd (handlePortalRestoreProfile sample_p sample_env player_request locked_state)) = 200"
proof -
  let ?m = "sv_store (locked_state\<lparr>sv_tick := 1\<rparr>)"
  obtain q where q: "GetPassportByID locked_store sample_q = Inr q" "pp_ID q = sample_q" "pp_Status q = PassportStatusActive"
    using locked_player by (elim exE conjE) (rule that)
  obtain p where p: "GetProfileByID locked_store sample_p = Inr p" "pf_ID p = sample_p" "pf_Status p = ProfileStatusLocked"
    using locked_profile by (elim exE conjE) (rule that)
  obtain b where b: "GetProfilePassportBinding locked_store sample_p sample_q = Inr b" using locked_bound by (elim exE conjE) (rule that)
  have subject: "se_SubjectID player_session = sample_q" by (simp only: player_session_def Session.select_convs)
  have "gget (profilesByID locked_store) sample_p = Some p" using p(1) by (simp add: GetProfileByID_def split: option.splits)
  then have stored: "gget (profilesByID ?m) (pf_ID p) = Some p" unfolding p(2) locked_state_store .
  have "portalOwnedProfile ?m player_session sample_p = Inr (q, p)"
    by (rule portalOwnedProfile_Inr [OF _ q(3) _ sample_trims(2)]) (simp_all only: subject locked_state_store q(1,2) p(1,2) b)
  from restore_lifts_lock [OF locked_state_signed_in this stored p(3)] show ?thesis ..
qed

end
