(* ===== verification/ServerStaffLaws.thy ===== *)
theory ServerStaffLaws
  imports ServerPortalLaws
begin

text \<open>
  What the administration promises: a second factor cannot be skipped, and no one but an owner makes an
  owner or changes one.
\<close>

subsection \<open>The second factor\<close>

lemma audit_sessions:
  "sessionsByID (sv_store (staff_audit en r i ty j e ds s)) = sessionsByID (sv_store s)"
  "adminSecurity (sv_store (staff_audit en r i ty j e ds s)) = adminSecurity (sv_store s)"
  "adminUsers (sv_store (staff_audit en r i ty j e ds s)) = adminUsers (sv_store s)"
  "adminProfiles (sv_store (staff_audit en r i ty j e ds s)) = adminProfiles (sv_store s)"
  "adminPasskeys (sv_store (staff_audit en r i ty j e ds s)) = adminPasskeys (sv_store s)"
  "adminRoles (sv_store (staff_audit en r i ty j e ds s)) = adminRoles (sv_store s)"
  by (simp_all add: staff_audit_def audit_def auditWithClientIP_def on_store_def AppendAuditEvent_def Now_def Let_def)

definition second_factor_spared :: "memory \<Rightarrow> request \<Rightarrow> string \<Rightarrow> time \<Rightarrow> bool" where
  "second_factor_spared m r subject now \<longleftrightarrow>
     adminMFAMethods m subject (GetAdminSecurity m subject) = [] \<or>
     as_MFARequirement (GetAdminSecurity m subject) \<noteq> ''always'' \<and> trusted_device m r subject now"

lemma maybeStartAdminMFA_None:
  "maybeStartAdminMFA en r subject user s = (s', None) \<Longrightarrow> second_factor_spared (sv_store s) r subject (en_clock en (sv_tick s))"
  by (auto simp: maybeStartAdminMFA_def second_factor_spared_def Let_def Now_def in_store_def
      split: if_splits prod.splits bool.splits)

lemma maybeStartAdminMFA_Some:
  "maybeStartAdminMFA en r subject user s = (s', Some a) \<Longrightarrow> sessionsByID (sv_store s') = sessionsByID (sv_store s)"
  by (auto simp: maybeStartAdminMFA_def Let_def Now_def in_store_def SavePendingAdminMFA_def audit_sessions
      split: if_splits prod.splits bool.splits)

text \<open>
  C11: A sign-in of an administrator opens a session only for the right password, and only when no second
  factor is set up, or when it is asked on new devices only and the request names a device the
  administrator trusts.  A one-time code opens one only against an unexpired challenge and the code of the
  administrator who was challenged.
\<close>

theorem second_factor_enforced:
  shows "(sessionsByID (sv_store (fst (handleAdminLogin en r body s))) \<noteq> sessionsByID (sv_store s) \<longrightarrow>
      (\<exists>req subject user. body = Some req \<and> login_subject en req s = Some (Inr (subject, user)) \<and>
         second_factor_spared (sv_store s) r subject (en_clock en (sv_tick s)))) \<and>
    (sessionsByID (sv_store (fst (handleAdminMFATOTP en r body' s))) \<noteq> sessionsByID (sv_store s) \<longrightarrow>
      (\<exists>req pending. body' = Some req \<and> GetPendingAdminMFA (sv_store s) (rq_AdminMFA r) = Inr pending \<and>
         en_clock en (sv_tick s) \<le> am_ExpiresAt pending \<and> as_TOTPEnabled (GetAdminSecurity (sv_store s) (am_AdminID pending)) \<and>
         VerifyTOTP (en_uc en) (as_TOTPSecret (GetAdminSecurity (sv_store s) (am_AdminID pending))) (mt_Code req)
           (en_clock en (sv_tick s + 1))))"
proof (intro conjI impI)
  assume new: "sessionsByID (sv_store (fst (handleAdminLogin en r body s))) \<noteq> sessionsByID (sv_store s)"
  then obtain req subject user where body: "body = Some req" and who: "login_subject en req s = Some (Inr (subject, user))"
    by (auto simp: handleAdminLogin_def decode_body_def split: option.splits sum.splits)
  obtain s1 x where m: "maybeStartAdminMFA en r subject user s = (s1, x)" by fastforce
  with new maybeStartAdminMFA_Some [of en r subject user s s1] have "x = None"
    by (cases x) (auto simp: body who handleAdminLogin_def decode_body_def split: if_splits)
  with m have "second_factor_spared (sv_store s) r subject (en_clock en (sv_tick s))" by (simp add: maybeStartAdminMFA_None)
  with body who show "\<exists>req subject user. body = Some req \<and> login_subject en req s = Some (Inr (subject, user)) \<and>
      second_factor_spared (sv_store s) r subject (en_clock en (sv_tick s))" by blast
next
  assume "sessionsByID (sv_store (fst (handleAdminMFATOTP en r body' s))) \<noteq> sessionsByID (sv_store s)"
  then show "\<exists>req pending. body' = Some req \<and> GetPendingAdminMFA (sv_store s) (rq_AdminMFA r) = Inr pending \<and>
      en_clock en (sv_tick s) \<le> am_ExpiresAt pending \<and> as_TOTPEnabled (GetAdminSecurity (sv_store s) (am_AdminID pending)) \<and>
      VerifyTOTP (en_uc en) (as_TOTPSecret (GetAdminSecurity (sv_store s) (am_AdminID pending))) (mt_Code req)
        (en_clock en (sv_tick s + 1))"
    by (auto simp: handleAdminMFATOTP_def decode_body_def pendingAdminMFA_def Let_def Now_def
        split: option.splits sum.splits if_splits)
qed

subsection \<open>Owners\<close>

text \<open>What the store keeps of each owner.\<close>

definition owner_accounts ::
  "memory \<Rightarrow> string \<Rightarrow> (AdminUser option \<times> AdminProfile option \<times> AdminSecurity option \<times> AdminPasskey set) option" where
  "owner_accounts m i =
     (if adminTargetIsOwner m i
      then Some (gget (adminUsers m) i, gget (adminProfiles m) i, gget (adminSecurity m) i, set (ListAdminPasskeys m i))
      else None)"

lemma owner_accounts_frame:
  assumes "adminUsers m' = adminUsers m" "adminProfiles m' = adminProfiles m" "adminSecurity m' = adminSecurity m"
    "adminPasskeys m' = adminPasskeys m"
  shows "owner_accounts m' = owner_accounts m"
  by (rule ext) (simp add: owner_accounts_def adminTargetIsOwner_def GetAdminUser_def ListAdminPasskeys_def assms)

lemma owner_accounts_audit [simp]: "owner_accounts (sv_store (staff_audit en r i ty j e ds s)) = owner_accounts (sv_store s)"
  by (rule owner_accounts_frame) (simp_all add: audit_sessions)

lemma adminTargetIsOwner_iff:
  "adminTargetIsOwner m i \<longleftrightarrow> i = bootstrap \<or> (\<exists>u. gget (adminUsers m) i = Some u \<and> au_Role u = ''owner'')"
  by (auto simp: adminTargetIsOwner_def GetAdminUser_def split: option.split)

text \<open>A row of a user who is no owner before or after.\<close>

lemma owner_accounts_put_user:
  assumes "adminUsers m' = gput (adminUsers m) i u" "au_Role u \<noteq> ''owner''" "\<not> adminTargetIsOwner m i"
    "adminProfiles m' = adminProfiles m" "adminSecurity m' = adminSecurity m" "adminPasskeys m' = adminPasskeys m"
  shows "owner_accounts m' = owner_accounts m"
proof
  fix j show "owner_accounts m' j = owner_accounts m j"
    using assms by (cases "j = i") (auto simp: owner_accounts_def adminTargetIsOwner_iff ListAdminPasskeys_def)
qed

lemma new_admin_unknown:
  assumes "admins_ok uc m" shows "\<not> adminTargetIsOwner m (''admin-'' @ Itoa (nextID m + 1))"
proof -
  have "gget (adminUsers m) (''admin-'' @ Itoa (nextID m + 1)) = None"
  proof (rule ccontr)
    assume "gget (adminUsers m) (''admin-'' @ Itoa (nextID m + 1)) \<noteq> None"
    then obtain u where "gget (adminUsers m) (''admin-'' @ Itoa (nextID m + 1)) = Some u" by blast
    with assms obtain n where "''admin-'' @ Itoa (nextID m + 1) = ''admin-'' @ Itoa n" "0 \<le> n" "n \<le> nextID m"
      unfolding admins_ok_def by blast
    then show False by (simp only: same_append_eq) (simp add: Itoa_inject_nonneg)
  qed
  then show ?thesis by (simp add: adminTargetIsOwner_iff)
qed

lemma owner_accounts_CreateAdminUser:
  assumes "admins_ok uc m" and "au_Role u \<noteq> ''owner''"
  shows "owner_accounts (fst (CreateAdminUser uc u now m)) = owner_accounts m"
proof (cases "gfind (admin_clash uc (au_Username u) (au_Email u)) (adminUsers m)")
  case None
  let ?u = "u\<lparr>au_ID := ''admin-'' @ Itoa (nextID m + 1), au_CreatedAt := now, au_UpdatedAt := now,
      au_Status := (if au_Status u = [] then ''active'' else au_Status u)\<rparr>"
  show ?thesis
    by (rule owner_accounts_put_user [where u = ?u, OF _ _ new_admin_unknown [OF assms(1)]])
      (simp_all add: None CreateAdminUser_def Let_def assms(2))
qed (simp add: CreateAdminUser_def)

lemma owner_accounts_profile:
  assumes "\<not> adminTargetIsOwner m (af_AdminID p)"
  shows "owner_accounts (fst (UpsertAdminProfile p t m)) = owner_accounts m"
proof
  fix j show "owner_accounts (fst (UpsertAdminProfile p t m)) j = owner_accounts m j"
    using assms by (cases "j = af_AdminID p")
      (auto simp: owner_accounts_def adminTargetIsOwner_iff ListAdminPasskeys_def UpsertAdminProfile_def Let_def split: option.split)
qed

lemma owner_accounts_security:
  assumes "\<not> adminTargetIsOwner m (as_AdminID x)"
  shows "owner_accounts (fst (UpsertAdminSecurity x t m)) = owner_accounts m"
proof
  fix j show "owner_accounts (fst (UpsertAdminSecurity x t m)) j = owner_accounts m j"
    using assms by (cases "j = as_AdminID x")
      (auto simp: owner_accounts_def adminTargetIsOwner_iff ListAdminPasskeys_def UpsertAdminSecurity_def Let_def split: option.split)
qed

lemma owner_accounts_passkey:
  assumes "\<not> adminTargetIsOwner m i"
  shows "owner_accounts (fst (DeleteAdminPasskey i key m)) = owner_accounts m"
proof
  fix j
  have "set (ListAdminPasskeys (fst (DeleteAdminPasskey i key m)) j) = set (ListAdminPasskeys m j)" if "j \<noteq> i"
    using that by (auto simp: DeleteAdminPasskey_def ListAdminPasskeys_def split: option.split if_splits) (metis option.inject)
  then show "owner_accounts (fst (DeleteAdminPasskey i key m)) j = owner_accounts m j"
    using assms by (cases "j = i") (auto simp: owner_accounts_def adminTargetIsOwner_iff DeleteAdminPasskey_def split: option.split)
qed

lemma owners_step:
  "UpsertAdminSecurity x t m = (m', y) \<Longrightarrow> \<not> adminTargetIsOwner m (as_AdminID x) \<Longrightarrow> owner_accounts m' = owner_accounts m"
  "DeleteAdminPasskey i key m = (m', z) \<Longrightarrow> \<not> adminTargetIsOwner m i \<Longrightarrow> owner_accounts m' = owner_accounts m"
  using owner_accounts_security [of m x t] owner_accounts_passkey [of m i key] by simp_all

lemma owners_with_permission:
  assumes "\<And>session s1. admin_session en r s session \<Longrightarrow> sv_store s1 = sv_store s \<Longrightarrow>
    owner_accounts (sv_store (fst (k session s1))) = owner_accounts (sv_store s)"
  shows "owner_accounts (sv_store (fst (with_permission en r permission s k))) = owner_accounts (sv_store s)"
proof (cases "requireAdminPermission en r True permission s")
  case (Pair s1 x)
  with requireAdminPermission_store [of en r True permission s] have same: "sv_store s1 = sv_store s" by simp
  show ?thesis
  proof (cases x)
    case (Inr session)
    with Pair have "admin_session en r s session" by (simp add: requireAdminPermission_Inr)
    with assms same show ?thesis by (simp add: with_permission_def Pair Inr)
  qed (simp add: with_permission_def Pair same)
qed

definition owner_session :: "env \<Rightarrow> request \<Rightarrow> Server \<Rightarrow> bool" where
  "owner_session en r s \<longleftrightarrow> (\<exists>session. admin_session en r s session \<and> adminTargetIsOwner (sv_store s) (se_SubjectID session))"

lemma owners_create_admin_user:
  assumes ok: "admins_ok (en_uc en) (sv_store s)" and "given_role (en_uc en) (uq_Role req) \<noteq> ''owner''"
  shows "owner_accounts (sv_store (fst (create_admin_user en r session req s))) = owner_accounts (sv_store s)"
proof -
  have "owner_accounts (sv_store s') = owner_accounts (sv_store s)"
    if "in_store (CreateAdminUser (en_uc en) u now) s1 = (s', x)" "sv_store s1 = sv_store s"
      "au_Role u = given_role (en_uc en) (uq_Role req)" for u now s1 s' x
    using that owner_accounts_CreateAdminUser [of "en_uc en" "sv_store s" u now] assms
    by (auto simp: in_store_def split: prod.splits)
  note step = this
  show ?thesis
    by (auto simp: create_admin_user_def Rand_def Now_def Let_def dest!: step split: option.split sum.split prod.splits)
qed

lemma owners_UpdateAdminUser:
  assumes ok: "admins_ok uc m" and up: "UpdateAdminUser uc u now m = (m', x)" and "gget (adminUsers m) (au_ID u) = Some old"
    and "au_Role old \<noteq> ''owner''" "au_Role u \<noteq> ''owner''" "au_ID u \<noteq> bootstrap"
  shows "owner_accounts m' = owner_accounts m" "adminProfiles m' = adminProfiles m"
    "x = Inr u' \<Longrightarrow> au_ID u' = au_ID u \<and> \<not> adminTargetIsOwner m' (au_ID u)"
proof -
  have id: "au_ID old = au_ID u" using ok assms(3) by (simp add: admins_ok_def)
  have no: "\<not> adminTargetIsOwner m (au_ID u)" using assms(3,4,6) by (simp add: adminTargetIsOwner_iff)
  let ?u = "old\<lparr>au_Username := au_Username u, au_Email := au_Email u, au_Role := au_Role u, au_Status := au_Status u, au_UpdatedAt := now\<rparr>"
  have "m' = m \<and> (\<exists>e. x = Inl e) \<or> m' = m\<lparr>adminUsers := gput (adminUsers m) (au_ID u) ?u\<rparr> \<and> x = Inr (?u\<lparr>au_PasswordHash := []\<rparr>)"
    using up assms(3) by (auto simp: UpdateAdminUser_def Let_def split: if_splits)
  moreover have "owner_accounts (m\<lparr>adminUsers := gput (adminUsers m) (au_ID u) ?u\<rparr>) = owner_accounts m"
    by (rule owner_accounts_put_user [where u = ?u, OF _ _ no]) (simp_all add: assms(5))
  ultimately show "owner_accounts m' = owner_accounts m" "adminProfiles m' = adminProfiles m"
    "x = Inr u' \<Longrightarrow> au_ID u' = au_ID u \<and> \<not> adminTargetIsOwner m' (au_ID u)"
    by (auto simp: id adminTargetIsOwner_iff assms(5,6))
qed

text \<open>The profile of an administrator is kept under its identifier, in every reachable state of the server.\<close>

definition profiles_keyed :: "memory \<Rightarrow> bool" where
  "profiles_keyed m \<longleftrightarrow> (\<forall>i p. gget (adminProfiles m) i = Some p \<longrightarrow> af_AdminID p = i)"

lemma ack_profiles: "adminProfiles (fst (AckNodeActions n ids t m)) = adminProfiles m"
proof -
  have "adminProfiles (fst (foldl (ack_step i t) mc xs)) = adminProfiles (fst mc)" for i mc xs
    by (induction xs arbitrary: mc) (auto simp: ack_step_def split: prod.split option.split)
  then show ?thesis by (simp add: AckNodeActions_def)
qed

lemma record_step_profiles: "record_step uc m m' \<Longrightarrow> adminProfiles m' = adminProfiles m"
  by (erule record_step.cases)
    (simp_all add: UpsertPresence_def EndPresence_def EndProfilePresences_def EndPassportPresences_def endPresencesLocked_def
      AppendAuditEvent_def CreateAdminUser_def UpdateAdminUserProfile_def UpdateAdminUser_def UpdateAdminUserPassword_def
      Let_def split: option.split)

lemma table_step_profiles:
  "table_step uc m m' \<Longrightarrow> adminProfiles m' = adminProfiles m \<or> (\<exists>p t. m' = fst (UpsertAdminProfile p t m))"
  by (erule table_step.cases; hypsubst)
    ((rule disjI2, rule exI, rule exI, rule HOL.refl)
      | (rule disjI1, simp add: table_writers ack_profiles SaveTransferGrant_def SavePortalLink_def MarkPortalLinkUsed_def
        RevokePortalLink_def ConsumeTransferGrant_def Let_def split: option.split sum.split; fail))+

lemma profiles_keyed_Upsert: "profiles_keyed m \<Longrightarrow> profiles_keyed (fst (UpsertAdminProfile p t m))"
  by (auto simp: profiles_keyed_def UpsertAdminProfile_def Let_def split: option.split)

lemma store_step_profiles:
  assumes "store_step uc m m'" and ok: "profiles_keyed m" shows "profiles_keyed m'"
  using assms(1)
proof cases
  case by_identity
  then have "adminProfiles m' = adminProfiles m" using identity_step_aside [of uc m m'] by (simp add: aside_def)
  with ok show ?thesis by (simp add: profiles_keyed_def)
next
  case by_table
  from table_step_profiles [OF this] ok show ?thesis
    by (auto simp: profiles_keyed_Upsert) (simp add: profiles_keyed_def)
next
  case by_record
  then have "adminProfiles m' = adminProfiles m" by (rule record_step_profiles)
  with ok show ?thesis by (simp add: profiles_keyed_def)
next
  case by_reorder
  with ok show ?thesis by (simp add: profiles_keyed_def reordered_def same_map_def)
qed

lemma server_reachable_profiles: "server_reachable en s \<Longrightarrow> profiles_keyed (sv_store s)"
proof (induction rule: server_reachable.induct)
  case (start s)
  show ?case by (simp add: start profiles_keyed_def NewMemory_def)
next
  case (next_state s s')
  from server_step_tokens [OF next_state.hyps(2)] have "(store_step (en_uc en))\<^sup>*\<^sup>* (sv_store s) (sv_store s')" by simp
  then show ?case using next_state.IH by (induction rule: rtranclp_induct) (auto intro: store_step_profiles)
qed

lemma owners_save_admin_profile:
  assumes "profiles_keyed (sv_store s)" and "\<not> adminTargetIsOwner (sv_store s) i"
    and k: "\<And>s. owner_accounts (sv_store (fst (k s))) = owner_accounts (sv_store s)"
  shows "owner_accounts (sv_store (fst (save_admin_profile en i name email s k))) = owner_accounts (sv_store s)"
proof -
  define p where "p = (case GetAdminProfile (sv_store s) i of
      Inl _ \<Rightarrow> \<lparr>af_AdminID = i, af_Username = [], af_Email = [], af_AvatarURL = [], af_CreatedAt = 0, af_UpdatedAt = 0\<rparr>
    | Inr p \<Rightarrow> p\<lparr>af_CreatedAt := 0, af_UpdatedAt := 0\<rparr>)\<lparr>af_Username := name, af_Email := email\<rparr>"
  have "af_AdminID p = i"
    using assms(1) by (auto simp: p_def GetAdminProfile_def profiles_keyed_def split: option.split)
  then have "owner_accounts (fst (UpsertAdminProfile p t (sv_store s))) = owner_accounts (sv_store s)" for t
    using assms(2) by (intro owner_accounts_profile) simp
  then show ?thesis
    by (auto simp: save_admin_profile_def Let_def Now_def in_store_def k p_def [symmetric] split: prod.split sum.split)
      (metis fst_conv)+
qed

lemma owners_update_admin_user:
  assumes ok: "admins_ok (en_uc en) (sv_store s)" "profiles_keyed (sv_store s)"
    and no: "\<not> adminTargetIsOwner (sv_store s) (se_SubjectID session)" and "i \<noteq> bootstrap"
  shows "owner_accounts (sv_store (fst (update_admin_user en r session i req s))) = owner_accounts (sv_store s)"
proof -
  let ?uc = "en_uc en"
  let ?u = "\<lparr>au_ID = i, au_Username = TrimSpace (uq_Username req), au_Email = TrimSpace (uq_Email req), au_PasswordHash = [],
    au_Role = given_role ?uc (uq_Role req), au_Status = given_status ?uc (uq_Status req), au_CreatedAt = 0, au_UpdatedAt = 0\<rparr>"
  obtain m x where up: "UpdateAdminUser ?uc ?u (en_clock en (sv_tick s)) (sv_store s) = (m, x)" by fastforce
  have go: "owner_accounts m = owner_accounts (sv_store s) \<and> (\<forall>u'. x = Inr u' \<longrightarrow>
      (\<forall>k. (\<forall>s. owner_accounts (sv_store (fst (k s))) = owner_accounts (sv_store s)) \<longrightarrow>
        owner_accounts (sv_store (fst (save_admin_profile en (au_ID u') (au_Username u') (au_Email u')
          (s\<lparr>sv_tick := Suc (sv_tick s), sv_store := m\<rparr>) k))) = owner_accounts (sv_store s)))"
    if "gget (adminUsers (sv_store s)) i = Some old" "au_Role old \<noteq> ''owner''" "given_role ?uc (uq_Role req) \<noteq> ''owner''" for old
  proof -
    note eff = owners_UpdateAdminUser [OF ok(1) up, of old]
    from that eff(1,2) assms(4) have m: "owner_accounts m = owner_accounts (sv_store s)" "profiles_keyed m"
      using ok(2) by (simp_all add: profiles_keyed_def)
    moreover have "owner_accounts (sv_store (fst (save_admin_profile en (au_ID u') (au_Username u') (au_Email u')
          (s\<lparr>sv_tick := Suc (sv_tick s), sv_store := m\<rparr>) k))) = owner_accounts m"
      if "x = Inr u'" "\<forall>s. owner_accounts (sv_store (fst (k s))) = owner_accounts (sv_store s)" for u' k
      using owners_save_admin_profile [of "s\<lparr>sv_tick := Suc (sv_tick s), sv_store := m\<rparr>" "au_ID u'" k]
        eff(3) [of u'] \<open>gget _ i = Some old\<close> \<open>au_Role old \<noteq> _\<close> \<open>given_role _ _ \<noteq> _\<close> assms(4) that m by simp
    ultimately show ?thesis by simp
  qed
  show ?thesis
    unfolding update_admin_user_def Let_def GetAdminUser_def Now_def in_store_def
    using no go by (cases "gget (adminUsers (sv_store s)) i") (auto simp: up Now_def in_store_def split: sum.split)
qed

text \<open>
  C12: No request to create or change a user, its one-time codes or its passkeys that does not come with the
  session of an owner makes an owner, or changes what the store keeps of one.
\<close>

theorem owners_protected:
  assumes "server_reachable en s" and "\<not> owner_session en r s"
    and "p \<in> {handleAdminCreateUser en r body s, handleAdminUpdateUser i en r body s,
      handleAdminDisableUserTOTP i en r s, handleAdminDeleteUserPasskey i j en r s}"
  shows "owner_accounts (sv_store (fst p)) = owner_accounts (sv_store s)"
proof -
  have ok: "admins_ok (en_uc en) (sv_store s)" using server_reachable_ok [OF assms(1)] by (simp add: store_inv_def)
  note keyed = server_reachable_profiles [OF assms(1)]
  have no: "\<not> adminTargetIsOwner (sv_store s1) (se_SubjectID session)"
    if "admin_session en r s session" "sv_store s1 = sv_store s" for session s1
    using that assms(2) by (auto simp: owner_session_def)
  from assms(3) consider "p = handleAdminCreateUser en r body s" | "p = handleAdminUpdateUser i en r body s"
    | "p = handleAdminDisableUserTOTP i en r s" | "p = handleAdminDeleteUserPasskey i j en r s" by blast
  then show ?thesis
  proof cases
    case 1
    show ?thesis
      unfolding 1 handleAdminCreateUser_def
      by (rule owners_with_permission)
        (use ok in \<open>auto simp: decode_body_def Let_def no owners_create_admin_user split: option.split\<close>)
  next
    case 2
    show ?thesis
      unfolding 2 handleAdminUpdateUser_def
      by (rule owners_with_permission)
        (use ok keyed in \<open>auto simp: decode_body_def Let_def no update_bootstrap_def owners_update_admin_user split: option.split\<close>)
  next
    case 3
    show ?thesis
      unfolding 3 handleAdminDisableUserTOTP_def with_target_def
      by (rule owners_with_permission) (auto simp: Let_def no save_security_def Now_def in_store_def owner_accounts_security
          split: prod.split sum.split dest: owners_step)
  next
    case 4
    show ?thesis
      unfolding 4 handleAdminDeleteUserPasskey_def with_target_def
      by (rule owners_with_permission) (auto simp: Let_def no in_store_def split: prod.split sum.split dest: owners_step)
  qed
qed

subsection \<open>Roles\<close>

lemma merged_role:
  assumes "\<forall>q\<in>set rs. ro_ID q = i \<longrightarrow> q = x" and "x \<in> set rs" and "ro_ID x = i"
  shows "\<exists>y. gget (foldl (merge_role uc) byID rs) i = Some y \<and> ro_Permissions y = NormalizePermissions uc (ro_Permissions x)"
  using assms
proof (induction rs rule: rev_induct)
  case (snoc q rs)
  show ?case
  proof (cases "ro_ID q = i")
    case True
    with snoc.prems(1) have "q = x" by simp
    with True show ?thesis by (auto simp: merge_role_def Let_def split: option.split)
  next
    case False
    with snoc.prems have "x \<in> set rs" "\<forall>q\<in>set rs. ro_ID q = i \<longrightarrow> q = x" by auto
    from snoc.IH [OF this(2,1) snoc.prems(3)] False show ?thesis by (auto simp: merge_role_def Let_def split: option.split)
  qed
qed simp

lemma find_only:
  assumes "\<And>z. z \<in> set xs \<and> P z \<longleftrightarrow> z = y" shows "List.find P xs = Some y"
proof (cases "List.find P xs")
  case None
  with assms [of y] show ?thesis by (auto simp: find_None_iff)
next
  case (Some z)
  then have "z \<in> set xs \<and> P z" by (auto simp: find_Some_iff)
  with assms Some show ?thesis by simp
qed

text \<open>A stored role is listed with its permissions, normalized.\<close>

lemma findAdminRole_stored:
  assumes ok: "roles_ok (sv_store s)" and x: "gget (adminRoles (sv_store s)) i = Some x" and i: "RoleID (en_uc en) i = i"
  shows "\<exists>y. findAdminRole en i s = Some y \<and> ro_Permissions y = NormalizePermissions (en_uc en) (ro_Permissions x)"
proof -
  let ?now = "snd (Now en s)" and ?uc = "en_uc en"
  let ?d = "default_role_map ?now" and ?rs = "gvals (adminRoles (sv_store s))"
  let ?merged = "foldl (merge_role ?uc) ?d ?rs"
  have d: "\<forall>i r. gget ?d i = Some r \<longrightarrow> ro_ID r = i"
    by (simp add: default_role_map_def DefaultRoles_def)
  have "\<forall>r\<in>set ?rs. ro_ID r \<noteq> ''owner''" using ok by (auto simp: roles_ok_def)
  from merge_roles_owner [OF this d, of ?uc] have keyed: "gget ?merged j = Some r \<Longrightarrow> ro_ID r = j" for j r by blast
  have "\<forall>q\<in>set ?rs. ro_ID q = i \<longrightarrow> q = x" "x \<in> set ?rs" "ro_ID x = i" using ok x by (auto simp: roles_ok_def)
  from merged_role [OF this, of ?uc ?d] obtain y
    where y: "gget ?merged i = Some y" "ro_Permissions y = NormalizePermissions ?uc (ro_Permissions x)" by blast
  let ?list = "sort_by (\<lambda>a b. ro_ID a < ro_ID b) (gvals ?merged)"
  have list: "z \<in> set ?list \<and> ro_ID z = i \<longleftrightarrow> z = y" for z using y(1) keyed by auto
  then have "List.find (\<lambda>role. ro_ID role = i) ?list = Some y"
    by (rule find_only)
  with y(2) show ?thesis by (auto simp: findAdminRole_def i ListAdminRoles_def MergeDefaultRoles_def)
qed

lemma star_normalized: "NormalizePermissions uc [''*''] = [''*'']"
proof -
  have "clean uc ''*'' = ''*''" by (simp add: clean_def ToLower_ascii) code_simp
  then show ?thesis by (simp add: NormalizePermissions_def)
qed

lemma star_grants: "HasPermission uc [''*''] p"
proof -
  have "clean uc ''*'' = ''*''" by (simp add: clean_def ToLower_ascii) code_simp
  then show ?thesis by (simp add: HasPermission_iff grants_def)
qed

lemma DefaultRole_system: "DefaultRole now i = Some base \<Longrightarrow> i \<noteq> ''owner'' \<Longrightarrow> \<not> ro_System base"
  by (auto simp: DefaultRole_def DefaultRoles_def split: if_splits)

lemma UpsertAdminRole_stored:
  assumes "ro_ID x \<noteq> ''owner''"
  obtains y where "UpsertAdminRole uc x now now' m = (m\<lparr>adminRoles := gput (adminRoles m) (ro_ID x) y\<rparr>, Inr y)"
    "ro_Permissions y = NormalizePermissions uc (ro_Permissions x)" "ro_ID y = ro_ID x"
proof -
  obtain x' where b: "(case DefaultRole now' (ro_ID x) of None \<Rightarrow> Inr x
      | Some base \<Rightarrow> if ro_System base then Inl (Err ''system role cannot be modified'')
          else Inr (x\<lparr>ro_Name := (if ro_Name x = [] then ro_Name base else ro_Name x),
            ro_Description := (if ro_Description x = [] then ro_Description base else ro_Description x)\<rparr>)) = Inr x'"
    "ro_ID x' = ro_ID x" "ro_Permissions x' = ro_Permissions x"
    using DefaultRole_system [of now' "ro_ID x"] assms by (cases "DefaultRole now' (ro_ID x)") auto
  define z where "z = (case gget (adminRoles m) (ro_ID x') of None \<Rightarrow> x'
    | Some existing \<Rightarrow> if \<not> IsZero (ro_CreatedAt existing) then x'\<lparr>ro_CreatedAt := ro_CreatedAt existing\<rparr> else x')"
  have z: "ro_ID z = ro_ID x" "ro_Permissions z = ro_Permissions x"
    by (simp_all add: z_def b(2,3) split: option.split)
  let ?w = "if IsZero (ro_CreatedAt z) then z\<lparr>ro_CreatedAt := now\<rparr> else z"
  have w: "ro_ID ?w = ro_ID x" "ro_Permissions ?w = ro_Permissions x" by (simp_all add: z)
  let ?y = "?w\<lparr>ro_UpdatedAt := now, ro_System := False, ro_Permissions := NormalizePermissions uc (ro_Permissions ?w)\<rparr>"
  have "UpsertAdminRole uc x now now' m = (m\<lparr>adminRoles := gput (adminRoles m) (ro_ID ?y) ?y\<rparr>, Inr ?y)"
    unfolding UpsertAdminRole_def b(1) z_def [symmetric] Let_def sum.case ..
  moreover have "ro_ID ?y = ro_ID x" "ro_Permissions ?y = NormalizePermissions uc (ro_Permissions x)" using w by simp_all
  ultimately show thesis using that [of ?y] by (simp del: if_split)
qed

text \<open>
  C37: The permission to write roles is the permission to do anything: an administrator who has it,
  and whose own role is not the owner's, gives the role the star, and has every permission from then on.
\<close>

theorem role_writer_gains_all:
  assumes "admin_session en r s session" and "se_SubjectID session \<noteq> bootstrap"
    and "gget (adminUsers (sv_store s)) (se_SubjectID session) = Some user"
    and "session_permissions en (se_SubjectID session) (s\<lparr>sv_tick := sv_tick s + 1\<rparr>) = Some perms"
    and "HasPermission (en_uc en) perms ''admin.roles.write''" and "roles_ok (sv_store s)"
    and "findAdminRole en (au_Role user) (s\<lparr>sv_tick := sv_tick s + 1\<rparr>) = Some role" and "\<not> ro_System role"
    and "RoleID (en_uc en) (au_Role user) = au_Role user" and "au_Role user \<noteq> ''owner''" and "rr_Permissions req = [''*'']"
  shows "\<exists>perms'. session_permissions en (se_SubjectID session)
      (fst (handleAdminUpdateRole (au_Role user) en r (Some req) s)) = Some perms' \<and> (\<forall>p. HasPermission (en_uc en) perms' p)"
proof -
  let ?uc = "en_uc en" and ?s1 = "s\<lparr>sv_tick := sv_tick s + 1\<rparr>" and ?rid = "au_Role user"
  define s' where "s' = fst (handleAdminUpdateRole ?rid en r (Some req) s)"
  have "requireAdminPermission en r True ''admin.roles.write'' s = (?s1, Inr session)"
    using assms(1,4,5) by (simp add: requireAdminPermission_Inr)
  moreover have "ro_ID role = ?rid"
    using assms(7,9) by (auto simp: findAdminRole_def Let_def find_Some_iff)
  ultimately obtain x s2 y where save: "fst (save_role en r session ''admin.role.update'' 200 x ?s1) = s'"
      "ro_ID x = ?rid" "ro_Permissions x = [''*'']"
    using assms(7-9,11) by (fastforce simp: s'_def handleAdminUpdateRole_def with_permission_def decode_body_def Let_def star_normalized)
  obtain y where "UpsertAdminRole ?uc x (en_clock en (sv_tick s + 2)) (en_clock en (sv_tick s + 1)) (sv_store s) =
      ((sv_store s)\<lparr>adminRoles := gput (adminRoles (sv_store s)) ?rid y\<rparr>, Inr y)"
    and y: "ro_Permissions y = [''*'']" "ro_ID y = ?rid"
    using UpsertAdminRole_stored [of x ?uc] save(2,3) assms(10) star_normalized by metis
  with save(1) have store: "adminRoles (sv_store s') = gput (adminRoles (sv_store s)) ?rid y" "adminUsers (sv_store s') = adminUsers (sv_store s)"
    by (auto simp: save_role_def Now_def in_store_def audit_sessions numeral_2_eq_2)
  have "roles_ok (sv_store s')" using assms(6,10) y(2) by (simp add: roles_ok_def store)
  from findAdminRole_stored [OF this _ assms(9)] obtain z where "findAdminRole en ?rid s' = Some z" "ro_Permissions z = [''*'']"
    by (auto simp: store y star_normalized)
  moreover have "au_Status user = ''active''"
    using assms(2-4) by (auto simp: session_permissions_def GetAdminUser_def split: if_splits)
  ultimately have "session_permissions en (se_SubjectID session) s' = Some [''*'']"
    using assms(2,3) by (simp add: session_permissions_def GetAdminUser_def store)
  with star_grants show ?thesis by (auto simp: s'_def)
qed

subsection \<open>Witnesses\<close>

definition root_request :: adminLoginRequest where
  "root_request = \<lparr>ag_Username = ''root'', ag_Email = [], ag_Password = ''secret''\<rparr>"

definition empty_state :: Server where "empty_state = sample_server ''limbo_portal'' NewMemory"

lemma root_subject: "login_subject sample_env root_request empty_state = Some (Inr (bootstrap, adminData sample_env NewMemory))"
proof -
  have "TrimSpace ''root'' = ''root''" "EqualFold plain_unicode ''root'' ''root''"
    "TrimSpace ''bootstrap_admin_auth'' = ''bootstrap_admin_auth''" by code_simp+
  moreover have "gget (systemSettings NewMemory) ''bootstrap_admin_auth'' = None" by (simp add: NewMemory_def)
  ultimately show ?thesis
    by (simp add: login_subject_def login_identifier_def root_request_def verifyAdminPassword_def adminConfigured_def empty_state_def
        adminIdentifierMatches_def bootstrapAdminPasswordHash_def GetSystemSetting_def)
      (simp add: sample_env_def)
qed

lemma root_spared: "maybeStartAdminMFA sample_env node_request bootstrap user empty_state = (empty_state, None)"
proof -
  have "adminMFAMethods NewMemory bootstrap (GetAdminSecurity NewMemory bootstrap) = []"
    by (simp add: adminMFAMethods_def GetAdminSecurity_def defaultAdminSecurity_def ListAdminPasskeys_def NewMemory_def
        gvals_def empty.rep_eq)
  then show ?thesis by (simp add: maybeStartAdminMFA_def empty_state_def)
qed

lemma session_saved:
  "\<exists>x. new_admin_session sample_env i now s = (on_store (SaveSession (fst x)) (s\<lparr>sv_draw := sv_draw s + 2\<rparr>), Inr x)"
  by (auto simp: new_admin_session_def Rand_def NewSession_def NewOpaqueToken_def numeral_2_eq_2)

lemma root_signed_in:
  "sessionsByID (sv_store (fst (handleAdminLogin sample_env node_request (Some root_request) empty_state))) \<noteq> sessionsByID (sv_store empty_state)"
proof -
  have "login_identifier root_request \<noteq> []" by code_simp
  moreover obtain x where "new_admin_session sample_env bootstrap (en_clock sample_env (sv_tick empty_state)) (empty_state\<lparr>sv_tick := Suc (sv_tick empty_state)\<rparr>) =
      (on_store (SaveSession (fst x)) (empty_state\<lparr>sv_tick := Suc (sv_tick empty_state), sv_draw := sv_draw empty_state + 2\<rparr>), Inr x)"
    using session_saved [of bootstrap "en_clock sample_env (sv_tick empty_state)" "empty_state\<lparr>sv_tick := Suc (sv_tick empty_state)\<rparr>"] by auto
  ultimately have "sessionsByID (sv_store (fst (handleAdminLogin sample_env node_request (Some root_request) empty_state))) =
      gput (sessionsByID (sv_store empty_state)) (se_ID (fst x)) (fst x)"
    by (cases x) (auto simp: handleAdminLogin_def decode_body_def root_subject root_spared Now_def audit_sessions on_store_def SaveSession_def)
  moreover have "gget (sessionsByID (sv_store empty_state)) h = None" for h by (simp add: empty_state_def NewMemory_def)
  ultimately show ?thesis by (metis gget_gput option.distinct(1))
qed

lemma second_factor_enforced_witness: "second_factor_spared (sv_store empty_state) node_request bootstrap 100"
proof -
  have "sv_tick empty_state = 0" by (simp add: empty_state_def)
  with second_factor_enforced [of sample_env node_request "Some root_request" empty_state None] root_signed_in root_subject
  show ?thesis by auto
qed

text \<open>A helper whose role grants the writing of users and roles, with a session.\<close>

definition helper_role :: role where
  "helper_role = \<lparr>ro_ID = ''staff'', ro_Name = ''Staff'', ro_Description = [], ro_Permissions = [''admin.roles.write'', ''admin.users.write''],
     ro_System = False, ro_CreatedAt = 2, ro_UpdatedAt = 2\<rparr>"

definition helper_user :: AdminUser where
  "helper_user = \<lparr>au_ID = [], au_Username = ''helper'', au_Email = [], au_PasswordHash = [], au_Role = ''staff'', au_Status = ''active'',
     au_CreatedAt = 0, au_UpdatedAt = 0\<rparr>"

definition helper_store :: memory where
  "helper_store = fst (UpsertAdminRole plain_unicode helper_role 2 2 (fst (CreateAdminUser plain_unicode helper_user 1 NewMemory)))"

definition helper_state :: Server where
  "helper_state = sample_server ''limbo_portal'' (SaveSession (staff_session ''admin-1'') helper_store)"

lemma some_case: "(case x of None \<Rightarrow> False | Some q \<Rightarrow> P q) \<Longrightarrow> \<exists>q. x = Some q \<and> P q"
  by (cases x) auto

lemma helper_row: "\<exists>u. gget (adminUsers helper_store) ''admin-1'' = Some u \<and> au_Role u = ''staff'' \<and> au_Status u = ''active''"
  by (rule some_case) code_simp

lemma helper_listed: "\<exists>r. List.find (\<lambda>role. ro_ID role = ''staff'') (ListAdminRoles plain_unicode 101 helper_store) = Some r \<and>
    \<not> ro_System r \<and> HasPermission plain_unicode (ro_Permissions r) ''admin.roles.write''"
  by (rule some_case) code_simp

lemma helper_store_rest:
  "adminProfiles helper_store = gempty" "sessionsByID helper_store = gempty" "roles_ok helper_store"
proof -
  have created: "adminProfiles (fst (CreateAdminUser uc u t m)) = adminProfiles m" "sessionsByID (fst (CreateAdminUser uc u t m)) = sessionsByID m"
    "adminRoles (fst (CreateAdminUser uc u t m)) = adminRoles m" for uc u t m
    by (simp_all add: CreateAdminUser_def Let_def)
  have "adminProfiles (fst (UpsertAdminRole uc r t t' m)) = adminProfiles m"
    "sessionsByID (fst (UpsertAdminRole uc r t t' m)) = sessionsByID m" for uc r t t' m
    by (simp_all add: UpsertAdminRole_def Let_def split: option.split sum.split)
  with created show "adminProfiles helper_store = gempty" "sessionsByID helper_store = gempty"
    by (simp_all add: helper_store_def NewMemory_def)
  have "roles_ok (fst (CreateAdminUser plain_unicode helper_user 1 NewMemory))"
    by (simp add: roles_ok_def created) (simp add: NewMemory_def)
  then show "roles_ok helper_store" unfolding helper_store_def by (rule roles_ok_Upsert)
qed

lemma helper_state_store:
  "adminUsers (sv_store helper_state) = adminUsers helper_store" "adminRoles (sv_store helper_state) = adminRoles helper_store"
  "adminProfiles (sv_store helper_state) = adminProfiles helper_store"
  by (simp_all add: helper_state_def SaveSession_def)

lemma helper_session: "admin_session sample_env staff_request helper_state (staff_session ''admin-1'')"
proof -
  have eq: "helper_state = with_staff ''admin-1'' (sample_server ''limbo_portal'' helper_store)"
    by (simp add: helper_state_def with_staff_def SaveSession_def helper_store_rest sample_server_def) (simp add: staff_session_def)
  show ?thesis unfolding eq by (rule staff_admin) simp
qed

lemma unsavedI':
  "store_step uc m m' \<Longrightarrow> adminUsers m' \<noteq> adminUsers m \<or> adminRoles m' \<noteq> adminRoles m \<or> sessionsByID m' \<noteq> sessionsByID m \<Longrightarrow>
   unsaved_step uc m m'"
  by (auto simp: unsaved_step_def SaveTransferGrant_def SavePortalLink_def)

lemma helper_reachable: "server_reachable sample_env helper_state"
proof -
  let ?one = "fst (CreateAdminUser plain_unicode helper_user 1 NewMemory)"
  obtain u where u: "gget (adminUsers helper_store) ''admin-1'' = Some u" using helper_row by blast
  obtain y where r: "UpsertAdminRole plain_unicode helper_role 2 2 ?one = (?one\<lparr>adminRoles := gput (adminRoles ?one) (ro_ID helper_role) y\<rparr>, Inr y)"
    by (rule UpsertAdminRole_stored [of helper_role]) (simp_all add: helper_role_def)
  then have two: "helper_store = ?one\<lparr>adminRoles := gput (adminRoles ?one) (ro_ID helper_role) y\<rparr>" by (simp add: helper_store_def)
  have "adminUsers ?one \<noteq> adminUsers NewMemory"
  proof
    assume "adminUsers ?one = adminUsers NewMemory"
    then have "gget (adminUsers helper_store) ''admin-1'' = None" unfolding two by (simp add: NewMemory_def)
    with u show False by simp
  qed
  then have 1: "unsaved_step plain_unicode NewMemory ?one"
    by (intro unsavedI' by_record do_CreateAdminUser) simp
  have "gget (adminRoles ?one) i = None" for i by (simp add: CreateAdminUser_def NewMemory_def Let_def)
  moreover have "gget (adminRoles helper_store) (ro_ID helper_role) = Some y" by (simp add: two)
  ultimately have "adminRoles helper_store \<noteq> adminRoles ?one" by (metis option.distinct(1))
  then have 2: "unsaved_step plain_unicode ?one helper_store"
    unfolding helper_store_def by (intro unsavedI' by_table do_UpsertAdminRole) simp
  have "gget (sessionsByID (sv_store helper_state)) (se_ID (staff_session ''admin-1'')) = Some (staff_session ''admin-1'')"
    "gget (sessionsByID helper_store) h = None" for h
    by (simp_all add: helper_state_def SaveSession_def helper_store_rest)
  then have "sessionsByID (sv_store helper_state) \<noteq> sessionsByID helper_store" by (metis option.distinct(1))
  then have 3: "unsaved_step plain_unicode helper_store (sv_store helper_state)"
    by (intro unsavedI') (simp_all add: helper_state_def by_table do_SaveSession)
  have "server_reachable sample_env (sample_server ''limbo_portal'' NewMemory)" by (rule start) simp
  from next_state [OF next_state [OF next_state [OF this sample_server_step [OF 1]] sample_server_step [OF 2]] sample_server_step [OF 3]]
  show ?thesis by (simp add: helper_state_def)
qed

lemma owners_protected_witness:
  "owner_accounts (sv_store (fst (handleAdminCreateUser sample_env staff_request
     (Some \<lparr>uq_Username = ''mine'', uq_Email = [], uq_Password = ''a good password'', uq_Role = ''owner'', uq_Status = []\<rparr>) helper_state))) =
   owner_accounts (sv_store helper_state)"
proof -
  have "\<not> owner_session sample_env staff_request helper_state"
  proof
    assume "owner_session sample_env staff_request helper_state"
    then obtain session where "admin_session sample_env staff_request helper_state session"
      "adminTargetIsOwner (sv_store helper_state) (se_SubjectID session)" by (auto simp: owner_session_def)
    moreover from this(1) helper_session have "session = staff_session ''admin-1''" by (simp add: admin_session_def)
    ultimately show False using helper_row by (auto simp: adminTargetIsOwner_iff helper_state_store staff_session_def)
  qed
  then show ?thesis by (rule owners_protected [OF helper_reachable _ insertI1])
qed

lemma role_writer_gains_all_witness:
  "\<exists>perms. session_permissions sample_env ''admin-1'' (fst (handleAdminUpdateRole ''staff'' sample_env staff_request
     (Some \<lparr>rr_RoleID = [], rr_ID = [], rr_Alias = [], rr_Name = [], rr_Description = [], rr_Permissions = [''*'']\<rparr>) helper_state)) = Some perms \<and>
     HasPermission plain_unicode perms ''admin.users.write''"
proof -
  obtain u where u: "gget (adminUsers helper_store) ''admin-1'' = Some u" "au_Role u = ''staff''" "au_Status u = ''active''"
    using helper_row by blast
  obtain r where r: "List.find (\<lambda>role. ro_ID role = ''staff'') (ListAdminRoles plain_unicode 101 helper_store) = Some r"
    "\<not> ro_System r" "HasPermission plain_unicode (ro_Permissions r) ''admin.roles.write''" using helper_listed by blast
  let ?s1 = "helper_state\<lparr>sv_tick := sv_tick helper_state + 1\<rparr>"
  have staff: "RoleID plain_unicode ''staff'' = ''staff''" by code_simp
  have found: "findAdminRole sample_env ''staff'' ?s1 = Some r"
    using r(1) by (simp add: findAdminRole_def staff ListAdminRoles_def helper_state_store) (simp add: helper_state_def)
  have subject: "se_SubjectID (staff_session ''admin-1'') = ''admin-1''" by (simp add: staff_session_def)
  have perms: "session_permissions sample_env ''admin-1'' ?s1 = Some (ro_Permissions r)"
    by (simp add: session_permissions_def GetAdminUser_def helper_state_store u found [simplified])
  have "roles_ok (sv_store helper_state)" using helper_store_rest(3) by (simp add: roles_ok_def helper_state_store)
  let ?req = "\<lparr>rr_RoleID = [], rr_ID = [], rr_Alias = [], rr_Name = [], rr_Description = [], rr_Permissions = [''*'']\<rparr>"
  have "gget (adminUsers (sv_store helper_state)) ''admin-1'' = Some u" by (simp add: helper_state_store u)
  from role_writer_gains_all [OF helper_session, unfolded subject, OF _ this perms _ \<open>roles_ok (sv_store helper_state)\<close>, of r ?req]
  show ?thesis using u r(2,3) found staff by auto
qed

end
