(* ===== verification/Spec2Isabelle.thy ===== *)
theory Spec2Isabelle
  imports Prelude GoText GoCrypto GoCodec Identity Auth AuthSecrets Wire Rbac MojangPool StoreTypes StoreIdentity StorePlayers
    StoreAccess StoreTokens StoreModeration Downstream StoreCatalog StoreAdmin NodeRegistry RateLimit StoreInv StoreReach StoreDelete StoreFrames StoreSystem StoreSamples StoreRoster
    GoTime MojangSession Skins ServerBase ServerViews ServerNode ServerLogin ServerPresence ServerTransfer ServerProfiles ServerAdmin
    ServerPortal ServerTokens ServerStaff ServerUsers ServerMail ServerRuns ServerPortalRuns ServerSystem ServerSamples ServerLaws ServerGate
    ServerIssue ServerInvariant ServerGuards ServerPortalLaws ServerStaffLaws
begin

text \<open>
  Authman is the account service of a Minecraft network: it registers offline players, takes over
  premium ones from Mojang, lets a player own several profiles, and hands players over to the
  servers of the network with one-time tokens.  This development models its core, written in Go
  under \<^verbatim>\<open>core/internal\<close>, and the parts of the limbo server (\<^verbatim>\<open>limbo\<close>) that stand between the network
  and that core.

  \<^bold>\<open>Parts and theories.\<close>
  \<^item> \<open>Prelude\<close>, \<open>GoText\<close>, \<open>GoCrypto\<close>, \<open>GoCodec\<close>: the vocabulary (results with errors as values, Go maps as
    finite maps whose order of iteration is open, the clock, values of type \<^verbatim>\<open>any\<close>) and what the
    program uses of Go's standard library: UTF-8, trimming, case folding, decimal and hexadecimal
    numbers, SHA-256, SHA-1, HMAC, base64, base32, URL escapes.
  \<^item> \<open>Identity\<close> (\<^verbatim>\<open>identity/\<close>): UUIDs, user names, passports, profiles and the player view.
  \<^item> \<open>Auth\<close> and \<open>AuthSecrets\<close> (\<^verbatim>\<open>auth/\<close>): tokens, sessions, portal links, transfer grants; password hashes
    and one-time codes.
  \<^item> \<open>Rbac\<close> (\<^verbatim>\<open>rbac/rbac.go\<close>), \<open>MojangPool\<close> (\<^verbatim>\<open>mojang/routes.go\<close>), \<open>NodeRegistry\<close> (\<^verbatim>\<open>node/registry.go\<close>),
    \<open>Downstream\<close> (\<^verbatim>\<open>store/downstream.go\<close>): permissions and roles, the weighted rotation over upstream
    routes, the nodes of the network, the configuration of its servers.
  \<^item> The in-memory store (\<^verbatim>\<open>store/memory.go\<close>, \<^verbatim>\<open>store/store.go\<close>, \<^verbatim>\<open>store/passport_only.go\<close>): \<open>StoreTypes\<close> its
    record \<open>memory\<close>, one field per map of \<^verbatim>\<open>Memory\<close>; \<open>StoreIdentity\<close> the helpers that run under its lock;
    \<open>StorePlayers\<close> passports and profiles; \<open>StoreAccess\<close> passwords, lock-out and look-ups; \<open>StoreTokens\<close>
    sessions and one-time tokens; \<open>StoreModeration\<close> presences, node actions, bans and the audit log;
    \<open>StoreCatalog\<close> the catalogue tables; \<open>StoreAdmin\<close> administrators and their roles.
  \<^item> \<open>MojangSession\<close> (\<^verbatim>\<open>mojang/session.go\<close>, \<^verbatim>\<open>yggdrasil/\<close>): session checks and profile look-ups with their
    cache.  \<open>Skins\<close> (\<^verbatim>\<open>skin/skin.go\<close>, \<^verbatim>\<open>server/profile_skins.go\<close>): which textures a profile has.
    \<open>GoTime\<close>: \<^verbatim>\<open>time.Parse\<close> and \<^verbatim>\<open>time.ParseDuration\<close>.
  \<^item> The HTTP handlers (\<^verbatim>\<open>server/\<close>): \<open>ServerBase\<close> requests, answers, the record \<open>Server\<close> of the store, the
    registry, the session verifier and the counters of clock readings and random draws; \<open>ServerViews\<close>
    what several handlers share; \<open>ServerNode\<close> and \<open>ServerLogin\<close> sign-in at the nodes; \<open>ServerPresence\<close> presences,
    node actions and bans; \<open>ServerTransfer\<close> grants and the gate that consumes them; \<open>ServerProfiles\<close>
    profiles and portal links; \<open>ServerAdmin\<close> sessions, permissions and the administration of players;
    \<open>ServerPortal\<close> (\<^verbatim>\<open>portal.go\<close>, \<^verbatim>\<open>portal_links.go\<close>) what players do at the portal; \<open>ServerTokens\<close>
    (\<^verbatim>\<open>external_tokens.go\<close>, \<^verbatim>\<open>listing.go\<close>) the tokens of the external API; \<open>ServerStaff\<close>, \<open>ServerUsers\<close> and
    \<open>ServerMail\<close> (\<^verbatim>\<open>admin.go\<close>, \<^verbatim>\<open>admin_mfa.go\<close>, \<^verbatim>\<open>admin_smtp.go\<close>) how administrators sign in, their accounts,
    roles and passwords, and mail.
  \<^item> \<open>Wire\<close> (\<^verbatim>\<open>limbo/internal/protocol/wire\<close>) and \<open>RateLimit\<close> (\<^verbatim>\<open>limbo/rate_limit.go\<close>): the byte formats of the
    Minecraft protocol and the limiter in front of it.

  \<^bold>\<open>How the model reads.\<close>
  A Go method on \<^verbatim>\<open>*Memory\<close> or \<^verbatim>\<open>*Registry\<close> is a function that takes the state last and returns the new
  state with its result, errors included; a method that only reads takes the state first.  Every
  method holds the mutex from its first access to its last, so it is one atomic step, but for those
  that take it twice: they are modelled as their critical sections (\<open>Heartbeat\<close> of the registry).
  A clock reading and the bytes of \<^verbatim>\<open>crypto/rand\<close> are arguments, \<open>None\<close> when the source of randomness
  failed.  A panic is the outer \<open>None\<close> of a result.  Field names carry a prefix of two letters for
  their struct.  Strings are sequences of bytes, machine integers are words or integers with the
  wrap-around written out.  Code outside the repository is an argument: \<^verbatim>\<open>argon2.IDKey\<close>, the network
  behind the route pool, the Unicode tables above ASCII, RSA, the address databases, the mail server.  A handler takes
  the environment \<open>env\<close>, the request, the decoded body (\<open>None\<close> when it is refused) and the state.

  \<^bold>\<open>What is shown.\<close>
  \<open>StoreInv\<close>, \<open>StoreReach\<close> and \<open>StoreDelete\<close> prove that every operation keeps the identity invariant:
  links and their reverse index agree, a passport with profiles has exactly one primary, name
  indexes point where they should.  \<open>StoreFrames\<close> says what each operation leaves alone.
  \<open>StoreSystem\<close> puts all writers into one step relation with reachable states, where maps may be
  reordered between steps, and proves the invariants of every table by rule induction.  \<open>StoreRoster\<close>
  states an abstract specification of the links, which the operations refine.  \<open>ServerRuns\<close> and
  \<open>ServerPortalRuns\<close> show that every handler is a sequence of these steps, and \<open>ServerSystem\<close> makes the handlers the steps of a
  system with its reachable states, so that the invariants of the store hold of the whole server.
  \<open>ServerLaws\<close> and \<open>ServerGate\<close> prove what the handlers promise: who is let in by the gate of a server and
  that a grant lets in once in any run, who may sign in and that guessing is stopped.  \<open>ServerIssue\<close> says
  when a grant is issued and that it opens the gate it was issued for; \<open>ServerInvariant\<close> states the
  invariants of the reachable states of the server; \<open>ServerGuards\<close> shows that a ban shuts the gate, that
  the private recovery key is handed out once and that resetting a password takes the permission for
  it.  \<open>ServerPortalLaws\<close> says who may sign in at the portal and that a link signs in once;
  \<open>ServerStaffLaws\<close> that a second factor cannot be skipped and that no one but an owner makes or
  changes an owner.  \<open>StoreSamples\<close> and \<open>ServerSamples\<close> hold the concrete states the witnesses use.  The properties of
  the other theories are functional: round trips of the wire format, of UUIDs and of password
  hashes; exactness of the permission check, of user names, of grants and of one-time codes; fairness and
  progress of the route pool; the bound of the rate limiter and, for requests in
  order of time, its independence of other addresses; the life of a node's token;
  bounds of the MiniMessage line limit.  Six properties and some lemmas show what
  the code does and surely should not (\<open>Heartbeat_resurrects\<close>, \<open>DeletePassport_unindexes_namesake\<close>,
  \<open>ban_overflow\<close>, \<open>lock_needs_no_permission\<close>, \<open>role_writer_gains_all\<close>, \<open>restore_lifts_lock\<close>,
  \<open>FactoryReset_keeps_auth_cache\<close>, \<open>ExtendBan_untrimmed\<close>, \<open>ListPassportsPage_overflow\<close>,
  \<open>Register_second_node\<close>, \<open>admin_identifier_ambiguous\<close>).

  \<^bold>\<open>Interfaces.\<close>
  \<open>codec\<close> (a reader and a writer of the wire format), \<open>byte_text\<close> (an encoding and its decoder),
  \<open>one_shot\<close> (a token that can be used once) and \<open>keyed_table\<close> with \<open>dated_table\<close> (tables of records) are
  locales; the theories that provide the operations interpret them.

  \<^bold>\<open>Hypotheses.\<close>
  The rules that create passports assume what the program relies on: no two names met so far hash
  to the same identifier (\<open>collision_free\<close>), and Mojang's UUIDs are 16 bytes of another version than the
  program's own (\<open>foreign_uuid\<close>, \<open>free_name\<close>, \<open>free_registration\<close> state the same of a request).  Argon2 is assumed to return a key of the length it is asked for.

  \<^bold>\<open>Termination.\<close>
  No definition uses fuel.  Loops over maps and slices are structural recursions; \<open>ReadVarIntLoop\<close>,
  \<open>WriteVarInt\<close>, \<open>TrimRightSpace\<close> and \<open>break_offsets\<close> have a measure.

  \<^bold>\<open>Not modelled.\<close>
  The PostgreSQL store, whose logic is SQL run by the database; of \<^verbatim>\<open>core/internal/server\<close> the handlers
  for the catalogue, blueprints, runtimes, uploads, overviews and most listings, the WebAuthn
  ceremonies, an administrator's own profile and picture, the pushes over WebSockets, the address
  databases and log lines; recovery keys (RSA and X.509); the
  drawing of skins; the connection handling, worlds and dialogs of the limbo server; generated
  protocol tables and the tools that generate them.  Handlers run one at a time in the model, while
  any operation of the store may run between two of them; the goroutines and timers that call the
  modelled operations are not modelled.
\<close>

subsection \<open>The store\<close>

text \<open>
  C17: In every reachable state of the store, whatever order its maps are visited in, the links
  and their reverse index agree, every link joins an existing profile and an existing passport, a
  passport with profiles has exactly one primary, and the player view holds exactly the profiles
  that have a link.
\<close>

theorem links_consistent:
  assumes "store_reachable uc m"
  shows "(\<forall>p q. (link_of m p q \<noteq> None) = (gget2 (profilesByPassport m) q p \<noteq> None)) \<and>
    (\<forall>p q. link_of m p q \<noteq> None \<longrightarrow> gget (profilesByID m) p \<noteq> None \<and> gget (passportsByID m) q \<noteq> None) \<and>
    (\<forall>q. (\<exists>p. link_of m p q \<noteq> None) \<longrightarrow> (\<exists>!p. is_primary m p q)) \<and>
    (\<forall>p. (gget (playersByID m) p \<noteq> None) = (\<exists>q. link_of m p q \<noteq> None))"
proof (intro conjI allI impI)
  note ok = identity_invD(1) [OF store_invD(1) [OF store_reachable_inv [OF assms]]]
  show "(link_of m p q \<noteq> None) = (gget2 (profilesByPassport m) q p \<noteq> None)" for p q
    using tables_okD(2) [OF ok] unfolding link_sym_def by blast
  show "gget (profilesByID m) p \<noteq> None" "gget (passportsByID m) q \<noteq> None" if "link_of m p q \<noteq> None" for p q
    using tables_okD(5) [OF ok] that unfolding link_targets_def by blast+
  show "\<exists>!p. is_primary m p q" if "\<exists>p. link_of m p q \<noteq> None" for q
    using tables_okD(6,7) [OF ok] that unfolding one_primary_def has_primary_def by blast
  show "(gget (playersByID m) p \<noteq> None) = (\<exists>q. link_of m p q \<noteq> None)" for p
    using tables_okD(9) [OF ok] unfolding players_ok_def by blast
qed

lemma links_consistent_witness:
  "link_of sample_store sample_p sample_q \<noteq> None \<and> (\<exists>!p. is_primary sample_store p sample_q)"
proof -
  have "link_of sample_store sample_p sample_q \<noteq> None" by code_simp
  with links_consistent [OF sample_reachable] show ?thesis by blast
qed

text \<open>
  C18: In every reachable state an offline account is identified by its name: the identifier of an
  offline passport is the hash of its normalized name, no two have the same one, whatever the name
  index holds under a name is the offline passport of that name, the offline index holds
  exactly the primary profiles of offline passports under their names, and only offline passports
  have a password.  The name index may lack an account, as the last property of this theory shows.
\<close>

theorem offline_names_consistent:
  assumes "store_reachable uc m"
  shows "(\<forall>q n. offline_passport m q n \<longrightarrow> q = UUID_String (OfflinePassportUUID uc n)) \<and>
    (\<forall>q q' n. offline_passport m q n \<longrightarrow> offline_passport m q' n \<longrightarrow> q = q') \<and>
    (\<forall>n q. gget (passportByUsername m) n = Some q \<longrightarrow> offline_passport m q n) \<and>
    (\<forall>n p. (gget (offlineByNormalized m) n = Some p) = (\<exists>q. offline_passport m q n \<and> is_primary m p q)) \<and>
    (\<forall>q. gget (credentialsByPlayer m) q \<noteq> None \<longrightarrow> (\<exists>n. offline_passport m q n))"
proof (intro conjI allI impI)
  note inv = store_invD(1) [OF store_reachable_inv [OF assms]]
  note names = identity_invD(2) [OF inv]
  show "q = UUID_String (OfflinePassportUUID uc n)" if "offline_passport m q n" for q n
    using names that unfolding names_ok_def by blast
  show "q = q'" if "offline_passport m q n" "offline_passport m q' n" for q q' n
    by (rule offline_passport_unique [OF names that])
  show "offline_passport m q n" if "gget (passportByUsername m) n = Some q" for n q
    using names that unfolding names_ok_def by blast
  show "(gget (offlineByNormalized m) n = Some p) = (\<exists>q. offline_passport m q n \<and> is_primary m p q)" for n p
    using identity_invD(3) [OF inv] unfolding offline_ok_def by blast
  show "\<exists>n. offline_passport m q n" if "gget (credentialsByPlayer m) q \<noteq> None" for q
    using identity_invD(4) [OF inv] that unfolding credentials_ok_def by blast
qed

lemma offline_names_consistent_witness:
  "{q. offline_passport sample_twins q ''notch''} = {notch_q}"
  using offline_names_consistent [OF sample_twins_reachable] sample_twins_offline by blast

text \<open>
  In every reachable state the primary profile of a passport is the linked profile whose link
  is marked primary, in whatever order the maps are visited; there is none only when the passport
  has no profile.
\<close>

theorem GetPrimaryProfileForPassport_correct:
  assumes "store_reachable uc m"
  shows "(GetPrimaryProfileForPassport m q = Inr pf) =
      (is_primary m (pf_ID pf) q \<and> gget (profilesByID m) (pf_ID pf) = Some pf) \<and>
    (is_ok (GetPrimaryProfileForPassport m q) = (\<exists>p. link_of m p q \<noteq> None))"
proof -
  note ok = identity_invD(1) [OF store_invD(1) [OF store_reachable_inv [OF assms]]]
  have "is_ok (GetPrimaryProfileForPassport m q) = (\<exists>p. link_of m p q \<noteq> None)"
    unfolding GetPrimaryProfileForPassport_def by (subst primaryProfile_ok [OF ok]) blast
  moreover have "(GetPrimaryProfileForPassport m q = Inr pf) =
      (is_primary m (pf_ID pf) q \<and> gget (profilesByID m) (pf_ID pf) = Some pf)"
    unfolding GetPrimaryProfileForPassport_def by (rule primaryProfile_Inr_iff [OF ok])
  ultimately show ?thesis by blast
qed

lemma GetPrimaryProfileForPassport_correct_witness:
  "is_ok (GetPrimaryProfileForPassport sample_store sample_q)"
proof -
  have "link_of sample_store sample_p sample_q \<noteq> None" by code_simp
  with GetPrimaryProfileForPassport_correct [OF sample_reachable] show ?thesis by blast
qed

text \<open>
  C21: Deleting an existing passport in a reachable state succeeds and takes it out of every table that
  is indexed by passports or whose rows are about one; profiles that belonged to no other passport go
  with it.  All other passports, profiles (also one that was created from the passport and says so),
  links and passwords stay as they were, and so does the name index but for the entry of the name of
  the deleted passport, which may be that of another one.
\<close>

theorem DeletePassport_erases:
  assumes "store_reachable uc m" and "gget (passportsByID m) (TrimSpace i) = Some pp"
  shows "snd (DeletePassport i m) = Inr pp \<and> passport_erased (TrimSpace i) (fst (DeletePassport i m)) \<and>
    store_reachable uc (fst (DeletePassport i m)) \<and>
    (\<forall>q. gget (passportsByID (fst (DeletePassport i m))) q = (if q = TrimSpace i then None else gget (passportsByID m) q)) \<and>
    (\<forall>p. gget (profilesByID (fst (DeletePassport i m))) p =
       (if link_of m p (TrimSpace i) \<noteq> None \<and> (\<forall>q. q = TrimSpace i \<or> link_of m p q = None) then None
        else gget (profilesByID m) p)) \<and>
    (\<forall>p q. (link_of (fst (DeletePassport i m)) p q \<noteq> None) = (q \<noteq> TrimSpace i \<and> link_of m p q \<noteq> None)) \<and>
    (\<forall>q. gget (credentialsByPlayer (fst (DeletePassport i m))) q =
       (if q = TrimSpace i then None else gget (credentialsByPlayer m) q)) \<and>
    (\<forall>n. gget (passportByUsername (fst (DeletePassport i m))) n =
       (if n = pp_UsernameNormalized pp then None else gget (passportByUsername m) n))"
proof -
  note inv = store_invD(1) [OF store_reachable_inv [OF assms(1)]]
  obtain m' where m': "DeletePassport i m = (purge_passport (TrimSpace i) pp m', Inr pp)"
    "identity_inv uc {TrimSpace i} m'" "passportsByID m' = passportsByID m"
    "\<And>p' q'. link_of m' p' q' \<noteq> None \<longleftrightarrow> q' \<noteq> TrimSpace i \<and> link_of m p' q' \<noteq> None"
    "\<And>p. gget (profilesByID m') p = (if link_of m p (TrimSpace i) \<noteq> None \<and>
       (\<forall>q'. q' \<noteq> TrimSpace i \<longrightarrow> link_of m p q' = None) then None else gget (profilesByID m) p)"
    by (rule DeletePassport_eq [OF inv assms(2)]) (rule that; assumption)
  have here: "gget (passportsByID m') (TrimSpace i) = Some pp" using m'(3) assms(2) by simp
  have no: "link_of m' p (TrimSpace i) = None" for p using m'(4) by blast
  have names: "names_ok uc (purge_passport (TrimSpace i) pp m')"
    using identity_invD(2) [OF identity_inv_purge [OF m'(2) here no]] .
  have "gget (passportByUsername (purge_passport (TrimSpace i) pp m')) n \<noteq> Some (TrimSpace i)" for n
  proof
    assume "gget (passportByUsername (purge_passport (TrimSpace i) pp m')) n = Some (TrimSpace i)"
    with names have "offline_passport (purge_passport (TrimSpace i) pp m') (TrimSpace i) n"
      unfolding names_ok_def by blast
    then show False by (simp add: offline_passport_def purge_fields)
  qed
  with no have "passport_erased (TrimSpace i) (purge_passport (TrimSpace i) pp m')" by (rule purge_erased)
  moreover have "store_reachable uc (fst (DeletePassport i m))"
    by (rule store_reachable.step [OF assms(1)], rule by_identity, rule do_DeletePassport)
  moreover have "(link_of m' p q \<noteq> None) = (q \<noteq> TrimSpace i \<and> link_of m p q \<noteq> None)" for p q by (rule m'(4))
  ultimately show ?thesis
    using DeletePassport_accounts [OF assms(2) m'(1)]
    by (simp add: m'(1,3) purge_fields m'(5) imp_conv_disj del: not_None_eq)
qed

lemma DeletePassport_erases_witness:
  "passport_erased sample_q (fst (DeletePassport sample_q sample_store))"
proof -
  have t: "TrimSpace sample_q = sample_q" by code_simp
  have "gget (passportsByID sample_store) sample_q \<noteq> None" by code_simp
  then obtain pp where "gget (passportsByID sample_store) (TrimSpace sample_q) = Some pp" unfolding t by blast
  from DeletePassport_erases [OF sample_reachable this] show ?thesis unfolding t by blast
qed

text \<open>
  C22: Deleting an existing profile in a reachable state succeeds and leaves no table referring to
  it, neither as a profile, player, link, session selection, grant, ban, action nor presence, but
  for the portal links, which stay as they were and may go on suggesting it.  Passports and the links
  of other profiles stay.
\<close>

theorem DeleteProfile_erases:
  assumes "store_reachable uc m" and "gget (profilesByID m) (TrimSpace i) = Some pf"
  shows "snd (DeleteProfile i m) = Inr pf \<and> profile_erased (TrimSpace i) (fst (DeleteProfile i m)) \<and>
    store_reachable uc (fst (DeleteProfile i m)) \<and>
    passportsByID (fst (DeleteProfile i m)) = passportsByID m \<and>
    portalLinksByToken (fst (DeleteProfile i m)) = portalLinksByToken m \<and>
    (\<forall>p q. (link_of (fst (DeleteProfile i m)) p q \<noteq> None) = (p \<noteq> TrimSpace i \<and> link_of m p q \<noteq> None))"
proof -
  note inv = store_invD(1) [OF store_reachable_inv [OF assms(1)]]
  obtain m' r where r: "deleteProfileLocked (TrimSpace i) True m = (m', r)"
    by (cases "deleteProfileLocked (TrimSpace i) True m")
  note d = deleteProfile_linked [OF inv assms(2) disjI1 [OF TrueI] r]
  have "store_reachable uc (fst (DeleteProfile i m))"
    by (rule store_reachable.step [OF assms(1)], rule by_identity, rule do_DeleteProfile)
  then show ?thesis
    using d(1,3,5) deleteProfile_erased [OF inv assms(2) r] deleteProfile_accounts(3) [of "TrimSpace i" True m]
    unfolding DeleteProfile_def r by simp
qed

lemma DeleteProfile_erases_witness:
  "profile_erased sample_p (fst (DeleteProfile sample_p sample_store))"
proof -
  have t: "TrimSpace sample_p = sample_p" by code_simp
  have "gget (profilesByID sample_store) sample_p \<noteq> None" by code_simp
  then obtain pf where "gget (profilesByID sample_store) (TrimSpace sample_p) = Some pf" unfolding t by blast
  from DeleteProfile_erases [OF sample_reachable this] show ?thesis unfolding t by blast
qed

text \<open>
  C40: Deleting a premium passport whose name, up to case, is that of an offline account erases the
  offline account's entry in the name index: the account is no longer found by its name although
  its passport is still stored, and the name can be registered again, which overwrites the
  account's password.
\<close>

theorem DeletePassport_unindexes_namesake:
  assumes "store_reachable uc m" and premium: "gget (passportsByID m) (TrimSpace i) = Some pp" "pp_Kind pp = PassportKindPremium"
    and offline: "offline_passport m q n" "pp_UsernameNormalized pp = n"
    and name: "NormalizeOfflineName uc raw = Inr nm" "on_Normalized nm = n"
  shows "GetPassportByUsername uc (fst (DeletePassport i m)) raw = Inl (NotFound ''passport not found'') \<and>
    gget (passportsByID (fst (DeletePassport i m))) q = gget (passportsByID m) q \<and>
    is_ok (snd (CreateOfflinePassport uc raw h e k t (fst (DeletePassport i m)))) \<and>
    gget (credentialsByPlayer (fst (CreateOfflinePassport uc raw h e k t (fst (DeletePassport i m))))) q =
      Some (new_credential q h e k)"
proof -
  note inv = store_invD(1) [OF store_reachable_inv [OF assms(1)]]
  obtain m' where m': "DeletePassport i m = (purge_passport (TrimSpace i) pp m', Inr pp)"
    "passportsByID m' = passportsByID m"
    by (rule DeletePassport_eq [OF inv premium(1)]) (rule that; assumption)
  let ?m = "purge_passport (TrimSpace i) pp m'"
  have idx: "gget (passportByUsername ?m) n = None" using offline(2) by (simp add: purge_fields)
  have q: "q = UUID_String (OfflinePassportUUID uc n)"
    using identity_invD(2) [OF inv] offline(1) unfolding names_ok_def by blast
  have "q \<noteq> TrimSpace i" using offline(1) premium by (auto simp: offline_passport_def)
  then have same: "gget (passportsByID ?m) q = gget (passportsByID m) q" by (simp add: purge_fields m'(2))
  have "GetPassportByUsername uc ?m raw = Inl (NotFound ''passport not found'')"
    by (simp add: GetPassportByUsername_def name idx)
  with same show ?thesis
    by (simp add: m'(1) CreateOfflinePassport_def NewOfflinePassport_def name idx Let_def q)
qed

lemma DeletePassport_unindexes_namesake_witness:
  "GetPassportByUsername plain_unicode (fst (DeletePassport sample_q sample_twins)) ''notch'' = Inl (NotFound ''passport not found'')"
proof -
  have t: "TrimSpace sample_q = sample_q" by code_simp
  have "(case gget (passportsByID sample_store) sample_q of None \<Rightarrow> False
      | Some pp \<Rightarrow> pp_Kind pp = PassportKindPremium \<and> pp_UsernameNormalized pp = ''notch'')" by code_simp
  then obtain pp where pp: "gget (passportsByID sample_store) sample_q = Some pp" "pp_Kind pp = PassportKindPremium"
    "pp_UsernameNormalized pp = ''notch''" by (auto split: option.splits)
  have ids: "notch_q \<noteq> sample_q"
  proof
    have u: "sample_q = UUID_String sample_uuid" "length sample_uuid = 16" "uuid_version sample_uuid = 4" by code_simp+
    assume "notch_q = sample_q"
    then have "OfflinePassportUUID plain_unicode ''notch'' = sample_uuid"
      unfolding u(1) using UUID_String_inject u(2) length_OfflinePassportUUID by blast
    with version_OfflinePassportUUID [of plain_unicode "''notch''"] u(3) show False by simp
  qed
  have "gget (passportsByID sample_twins) (TrimSpace sample_q) = Some pp"
    unfolding t by (rule sample_twins_passports) (simp add: ids pp(1))
  from DeletePassport_unindexes_namesake [OF sample_twins_reachable this pp(2) sample_twins_offline pp(3) notch_name]
  show ?thesis by simp
qed

text \<open>
  A factory reset keeps the portal authentication cache: an address that was remembered for a
  passport is still accepted for that passport's identifier, although no passport is left.
\<close>

theorem FactoryReset_keeps_auth_cache:
  assumes "gget (portalAuthCache m) (portalAuthCacheKey q ip) = Some c" "now < ac_ExpiresAt c"
    and "TrimSpace q = q" "q \<noteq> []" "TrimSpace ip = ip" "ip \<noteq> []"
  shows "snd (UsePortalAuthCache q ip now (FactoryResetPlayerData m)) = Some (c\<lparr>ac_LastUsedAt := now\<rparr>) \<and>
    gget (passportsByID (FactoryResetPlayerData m)) q = None"
  using assms by (simp add: UsePortalAuthCache_def FactoryResetPlayerData_def Let_def)

lemma FactoryReset_keeps_auth_cache_witness:
  "snd (UsePortalAuthCache sample_q ''1.2.3.4'' 20 (FactoryResetPlayerData
     (fst (RememberPortalAuthCache sample_q ''1.2.3.4'' 100 10 sample_store)))) \<noteq> None"
proof -
  let ?m = "fst (RememberPortalAuthCache sample_q ''1.2.3.4'' 100 10 sample_store)"
  have t: "TrimSpace sample_q = sample_q" "TrimSpace ''1.2.3.4'' = ''1.2.3.4''" by code_simp+
  have "(case gget (portalAuthCache ?m) (portalAuthCacheKey sample_q ''1.2.3.4'') of None \<Rightarrow> False | Some c \<Rightarrow> 20 < ac_ExpiresAt c)"
    by code_simp
  then obtain c where "gget (portalAuthCache ?m) (portalAuthCacheKey sample_q ''1.2.3.4'') = Some c" "20 < ac_ExpiresAt c"
    by (auto split: option.splits)
  from FactoryReset_keeps_auth_cache [OF this t(1) _ t(2)] show ?thesis by simp
qed

subsection \<open>Registration\<close>

lemma registration_stores:
  assumes inv: "identity_inv uc {} m" and free: "collision_free uc m (ToLower uc raw)"
    and r: "CreateOfflinePassportProfile uc raw pname h e k t1 t2 t3 rnd m = (m', Inr pp)"
  obtains n where "NormalizeOfflineName uc raw = Inr n"
    "gget (passportByUsername m') (on_Normalized n) = Some (pp_ID (lk_Passport pp))"
    "gget (passportsByID m') (pp_ID (lk_Passport pp)) = Some (lk_Passport pp)"
    "gget (profilesByID m') (pf_ID (lk_Profile pp)) = Some (lk_Profile pp)"
    "is_primary m' (pf_ID (lk_Profile pp)) (pp_ID (lk_Passport pp))"
    "gget (credentialsByPlayer m') (pp_ID (lk_Passport pp)) = Some (new_credential (pp_ID (lk_Passport pp)) h e k)"
proof -
  from r obtain n q pname' pf where n: "NormalizeOfflineName uc raw = Inr n" and q: "NewOfflinePassport uc raw t1 = Inr q"
    and pf: "NewOfflineProfile uc pname' (pp_ID q) rnd t2 = Inr pf"
    and st: "m' = (fst (storePassportProfileLocked uc t3 q pf True m))\<lparr>credentialsByPlayer :=
        gput (credentialsByPlayer (fst (storePassportProfileLocked uc t3 q pf True m))) (pp_ID q) (new_credential (pp_ID q) h e k)\<rparr>"
      "pp = snd (storePassportProfileLocked uc t3 q pf True m)"
    by (auto simp: CreateOfflinePassportProfile_def Let_def split: sum.splits prod.splits if_splits)
  note nq = NewOfflinePassport_Inr [OF q]
  let ?q = "q\<lparr>pp_SkinSource := NormalizePassportSkinSource uc (pp_Kind q) (pp_SkinSource q)\<rparr>"
  define m1 where "m1 = m\<lparr>passportsByID := gput (passportsByID m) (pp_ID ?q) ?q,
      passportByUsername := gput (passportByUsername m) (pp_UsernameNormalized q) (pp_ID ?q)\<rparr>"
  define m2 where "m2 = m1\<lparr>profilesByID := gput (profilesByID m1) (pf_ID pf) pf\<rparr>"
  have "identity_inv uc {} m1"
    unfolding m1_def by (rule identity_inv_add_offline [OF inv]) (use nq free in simp_all)
  moreover have "pf_ID pf \<noteq> []" using NewOfflineProfile_Inr [OF pf] by auto
  ultimately have ok: "tables_ok {} m2"
    unfolding m2_def by (intro identity_invD(1) [OF identity_inv_put_profile])
  obtain m3 x where m3: "linkProfileLocked t3 ?q pf True m2 = (m3, x)" by (cases "linkProfileLocked t3 ?q pf True m2")
  have store: "storePassportProfileLocked uc t3 q pf True m = (m3, x)"
    using nq m3 by (simp add: storePassportProfileLocked_def Let_def m2_def m1_def)
  have here: "gget (profilesByID m2) (pf_ID pf) = Some pf" by (simp add: m2_def)
  note l = linkProfileLocked_eq [OF ok here m3]
  note f = links_only_fields [OF l(4)]
  have "link_of m3 (pf_ID pf) (pp_ID q) = Some (new_link t3 m2 (pf_ID pf) (pp_ID q) True)" unfolding l(5) by simp
  then have prim: "is_primary m3 (pf_ID pf) (pp_ID q)" by (simp add: is_primary_def new_link_def becomes_primary_def)
  have m': "m' = m3\<lparr>credentialsByPlayer := gput (credentialsByPlayer m3) (pp_ID q) (new_credential (pp_ID q) h e k)\<rparr>"
    and pp: "lk_Passport pp = ?q" "lk_Profile pp = pf"
    using st store l(2,3) by simp_all
  have norm: "on_Normalized n = pp_UsernameNormalized q" using on_Normalized_offline [OF n] nq by simp
  show thesis
    by (rule that [OF n]) (use prim in \<open>simp_all add: m' pp f m2_def m1_def norm is_primary_def\<close>)
qed

text \<open>
  C20: After a registration in a reachable state the account is found by its name in any letter
  case, with its password and with the new profile as its primary one, and the name cannot be
  registered a second time.
\<close>

theorem registration_findable:
  assumes "store_reachable uc m" and free: "collision_free uc m (ToLower uc raw)"
    and r: "CreateOfflinePassportProfile uc raw pname h e k t1 t2 t3 rnd m = (m', Inr pp)"
    and same: "NormalizeOfflineName uc raw' = Inr n'" "map lower_char raw' = map lower_char raw"
  shows "GetPassportByUsername uc m' raw' = Inr (lk_Passport pp) \<and>
    GetPassportCredential uc m' m' raw' =
      Inr (lk_Passport pp, passportCredentialFromOffline (new_credential (pp_ID (lk_Passport pp)) h e k)) \<and>
    GetPrimaryProfileForPassport m' (pp_ID (lk_Passport pp)) = Inr (lk_Profile pp) \<and>
    CreateOfflinePassportProfile uc raw' pname' h' e' k' t1' t2' t3' rnd' m' = (m', Inl (Err ''offline passport already exists''))"
proof -
  note inv = store_invD(1) [OF store_reachable_inv [OF assms(1)]]
  obtain n where n: "NormalizeOfflineName uc raw = Inr n"
    "gget (passportByUsername m') (on_Normalized n) = Some (pp_ID (lk_Passport pp))"
    "gget (passportsByID m') (pp_ID (lk_Passport pp)) = Some (lk_Passport pp)"
    "gget (profilesByID m') (pf_ID (lk_Profile pp)) = Some (lk_Profile pp)"
    "is_primary m' (pf_ID (lk_Profile pp)) (pp_ID (lk_Passport pp))"
    "gget (credentialsByPlayer m') (pp_ID (lk_Passport pp)) = Some (new_credential (pp_ID (lk_Passport pp)) h e k)"
    by (rule registration_stores [OF inv free r])
  have "on_Normalized n' = on_Normalized n" using same n(1) by (auto simp: NormalizeOfflineName_Inr)
  note idx = n(2) [folded this]
  have get: "GetPassportByUsername uc m' raw' = Inr (lk_Passport pp)"
    by (simp add: GetPassportByUsername_def same(1) idx passport_at_def n(3))
  have "identity_inv uc {} m'" using identity_inv_CreateOfflinePassportProfile [OF inv free, of pname h e k t1 t2 t3 rnd] r by simp
  from primaryProfile_Inr_iff [OF identity_invD(1) [OF this]] n(4,5)
  have "GetPrimaryProfileForPassport m' (pp_ID (lk_Passport pp)) = Inr (lk_Profile pp)"
    by (simp add: GetPrimaryProfileForPassport_def)
  with get show ?thesis
    by (simp add: GetPassportCredential_def n(6) CreateOfflinePassportProfile_def same(1) idx Let_def)
qed

lemma registration_findable_witness:
  "is_ok (snd (CreateOfflinePassportProfile plain_unicode ''notch'' [] ''h'' [] [] 1 2 3 (Some []) sample_store)) \<and>
   is_ok (GetPassportByUsername plain_unicode
     (fst (CreateOfflinePassportProfile plain_unicode ''notch'' [] ''h'' [] [] 1 2 3 (Some []) sample_store)) ''NOTCH'')"
proof -
  let ?r = "CreateOfflinePassportProfile plain_unicode ''notch'' [] ''h'' [] [] 1 2 3 (Some []) sample_store"
  have n: "NormalizeOfflineName plain_unicode ''notch'' = Inr \<lparr>on_Raw = ''notch'', on_Normalized = ''notch'', on_Protocol = ''notch''\<rparr>"
    "NormalizeOfflineName plain_unicode ''NOTCH'' = Inr \<lparr>on_Raw = ''NOTCH'', on_Normalized = ''notch'', on_Protocol = ''NOTCH''\<rparr>"
    "NormalizeProtocolName plain_unicode ''notch'' = Inr \<lparr>on_Raw = ''notch'', on_Normalized = ''notch'', on_Protocol = ''notch''\<rparr>"
    "gget (passportByUsername sample_store) ''notch'' = None" "map lower_char ''NOTCH'' = map lower_char ''notch''"
    "TrimSpace [] = []"
    by code_simp+
  have ok: "is_ok (snd ?r)"
    by (simp add: CreateOfflinePassportProfile_def n NewOfflinePassport_def NewOfflineProfile_def RandomProfileUUID_def Let_def
        split: prod.split)
  then obtain m' pp where r: "?r = (m', Inr pp)" by (cases ?r) (auto simp: is_ok_iff)
  from registration_findable [OF sample_reachable sample_free r n(2,5)] r show ?thesis by simp
qed

subsection \<open>Presences, the audit log and administrators\<close>

text \<open>
  In every reachable state a profile has at most one active presence on a server.
\<close>

theorem one_active_presence:
  assumes "store_reachable uc m"
  shows "card {i. case gget (presencesByID m) i of None \<Rightarrow> False
      | Some x \<Rightarrow> pc_EndedAt x = None \<and> pc_ProfileID x = p \<and> pc_ServerID x = s} \<le> 1"
proof -
  note ok = store_invD(2) [OF store_reachable_inv [OF assms]]
  let ?S = "{i. case gget (presencesByID m) i of None \<Rightarrow> False
      | Some x \<Rightarrow> pc_EndedAt x = None \<and> pc_ProfileID x = p \<and> pc_ServerID x = s}"
  have "?S \<subseteq> {i. gget (presencesByID m) i \<noteq> None}" by (auto split: option.splits)
  then have "finite ?S" by (rule finite_subset) (rule finite_gget)
  moreover have "i = j" if ij: "i \<in> ?S" "j \<in> ?S" for i j
  proof -
    obtain x y where x: "gget (presencesByID m) i = Some x" "gget (presencesByID m) j = Some y"
      "pc_EndedAt x = None" "active_on (pc_ProfileID x) (pc_ServerID x) y"
      using ij by (auto simp: active_on_def split: option.splits)
    with ok show ?thesis unfolding presences_ok_def by metis
  qed
  ultimately show ?thesis by (simp add: card_le_Suc0_iff_eq)
qed

lemma one_active_presence_witness:
  "card {i. case gget (presencesByID sample_store) i of None \<Rightarrow> False
      | Some x \<Rightarrow> pc_EndedAt x = None \<and> pc_ProfileID x = sample_p \<and> pc_ServerID x = ''s''} \<le> 1"
  by (rule one_active_presence [OF sample_reachable])

text \<open>
  In every reachable state the identifiers of the audit events are distinct, and every event
  of the log is the one its identifier finds.
\<close>

theorem audit_events_found:
  assumes "store_reachable uc m"
  shows "distinct (map ev_ID (auditEvents m)) \<and>
    list_all (\<lambda>e. GetAuditEvent m (ev_ID e) = Inr e) (auditEvents m)"
proof -
  obtain ns where ns: "map ev_ID (auditEvents m) = map (\<lambda>n. ''audit-'' @ Itoa n) ns" "sorted_wrt (<) ns" "\<forall>n\<in>set ns. 0 \<le> n"
    using store_invD(3) [OF store_reachable_inv [OF assms]] unfolding audit_ok_def by blast
  have "inj_on (\<lambda>n. ''audit-'' @ Itoa n) (set ns)" using ns(3) by (auto intro!: inj_onI simp: Itoa_inject_nonneg)
  moreover have "distinct ns" using ns(2) by (simp add: strict_sorted_iff)
  ultimately have d: "distinct (map ev_ID (auditEvents m))" unfolding ns(1) by (simp add: distinct_map)
  have "GetAuditEvent m (ev_ID e) = Inr e" if "e \<in> set (auditEvents m)" for e
  proof (cases "List.find (\<lambda>x. ev_ID x = ev_ID e) (auditEvents m)")
    case None
    with that show ?thesis by (auto simp: find_None_iff)
  next
    case (Some x)
    with find_Some_in [OF Some] that d show ?thesis by (auto simp: GetAuditEvent_def distinct_map inj_on_def)
  qed
  with d show ?thesis by (simp add: list_all_iff)
qed

lemma audit_events_found_witness:
  "distinct (map ev_ID (auditEvents sample_store))"
  using audit_events_found [OF sample_reachable] by blast

subsection \<open>One-time tokens and the owner role\<close>

text \<open>
  C24: A consumed transfer grant is never accepted again and a used portal link is never used
  again, whatever the store does in between, as long as nothing is saved under the same hash.
\<close>

theorem one_time_for_ever:
  assumes "unsaved_run uc h m m'"
  shows "(is_ok (snd (ConsumeTransferGrant uc h a m0)) \<and> m = fst (ConsumeTransferGrant uc h a m0) \<longrightarrow>
      \<not> is_ok (snd (ConsumeTransferGrant uc h b m'))) \<and>
    (is_ok (snd (MarkPortalLinkUsed h t m1)) \<and> m = fst (MarkPortalLinkUsed h t m1) \<longrightarrow>
      \<not> is_ok (snd (MarkPortalLinkUsed h t' m')))"
proof (intro conjI impI)
  assume c: "is_ok (snd (ConsumeTransferGrant uc h a m0)) \<and> m = fst (ConsumeTransferGrant uc h a m0)"
  then obtain g where "ConsumeTransferGrant uc h a m0 = (m, Inr g)"
    by (cases "ConsumeTransferGrant uc h a m0") (auto simp: is_ok_iff)
  then have "grant_dead m h" by (auto simp: ConsumeTransferGrant_Inr grant_dead_def)
  with unsaved_run_dead [OF assms] have "grant_dead m' h" by blast
  then show "\<not> is_ok (snd (ConsumeTransferGrant uc h b m'))" by (rule dead_refused(1))
next
  assume c: "is_ok (snd (MarkPortalLinkUsed h t m1)) \<and> m = fst (MarkPortalLinkUsed h t m1)"
  then obtain l where "MarkPortalLinkUsed h t m1 = (m, Inr l)"
    by (cases "MarkPortalLinkUsed h t m1") (auto simp: is_ok_iff)
  then have "link_dead m h" by (auto simp: MarkPortalLinkUsed_Inr link_dead_def)
  with unsaved_run_dead [OF assms] have "link_dead m' h" by blast
  then show "\<not> is_ok (snd (MarkPortalLinkUsed h t' m'))" by (rule dead_refused(2))
qed

lemma one_time_for_ever_witness:
  "let l = fst (projr (NewPortalLink ''register'' sample_q ''s'' 60 100 (Some [1, 2, 3])));
       m = SavePortalLink l sample_store; m' = fst (MarkPortalLinkUsed (li_TokenHash l) 110 m)
   in is_ok (snd (MarkPortalLinkUsed (li_TokenHash l) 110 m)) \<and>
     \<not> is_ok (snd (MarkPortalLinkUsed (li_TokenHash l) 120 (fst (DeleteProfile sample_p m'))))"
proof -
  obtain l token where l: "NewPortalLink ''register'' sample_q ''s'' 60 100 (Some [1, 2, 3]) = Inr (l, token)"
    by (simp add: NewPortalLink_def NewOpaqueToken_def)
  let ?m = "SavePortalLink l sample_store" and ?h = "li_TokenHash l"
  let ?m' = "fst (MarkPortalLinkUsed ?h 110 ?m)"
  have ok: "is_ok (snd (MarkPortalLinkUsed ?h 110 ?m))"
    using l by (auto simp: NewPortalLink_def MarkPortalLinkUsed_def SavePortalLink_def Let_def split: sum.splits)
  have stay: "store_step plain_unicode ?m' (fst (DeleteProfile sample_p ?m'))" by (rule by_identity, rule do_DeleteProfile)
  have drop: "gget (profilesByID (fst (DeleteProfile sample_p ?m'))) sample_p = None"
    "gget (profilesByID ?m') sample_p \<noteq> None"
  proof -
    have f: "profilesByID ?m' = profilesByID sample_store"
      by (simp add: MarkPortalLinkUsed_def SavePortalLink_def Let_def split: option.split)
    have t: "TrimSpace sample_p = sample_p" by code_simp
    show s: "gget (profilesByID ?m') sample_p \<noteq> None" unfolding f by code_simp
    have "store_reachable plain_unicode ?m'"
      by (rule store_reachable.step [OF store_reachable.step [OF sample_reachable by_table] by_table])
        (rule do_SavePortalLink, rule do_MarkPortalLinkUsed)
    note inv = store_invD(1) [OF store_reachable_inv [OF this]]
    from s obtain pf where pf: "gget (profilesByID ?m') sample_p = Some pf" by blast
    obtain m2 r where r: "deleteProfileLocked sample_p True ?m' = (m2, r)" by (cases "deleteProfileLocked sample_p True ?m'")
    from deleteProfile_erased [OF inv pf r] show "gget (profilesByID (fst (DeleteProfile sample_p ?m'))) sample_p = None"
      by (simp add: DeleteProfile_def t r profile_erased_def)
  qed
  have "fst (DeleteProfile sample_p ?m') \<noteq> SaveTransferGrant g ?m'" "fst (DeleteProfile sample_p ?m') \<noteq> SavePortalLink l' ?m'" for g l'
    using drop by (auto simp: SaveTransferGrant_def SavePortalLink_def)
  then have "unsaved_run plain_unicode ?h ?m' (fst (DeleteProfile sample_p ?m'))"
    by (intro unsaved_run.step [OF unsaved_run.refl stay]) blast+
  from one_time_for_ever [OF this, of "undefined" ?m undefined 110 ?m 120] ok l show ?thesis by (simp add: Let_def)
qed

text \<open>
  C27: In every reachable state the owner role is listed exactly once, with the permissions it is
  defined with; no stored role replaces, changes or removes it.
\<close>

theorem owner_role_immutable:
  assumes "store_reachable uc m"
  shows "(r \<in> set (ListAdminRoles uc now m) \<and> ro_ID r = ''owner'') = (DefaultRole now ''owner'' = Some r) \<and>
    snd (UpsertAdminRole uc (x\<lparr>ro_ID := ''owner''\<rparr>) now now' m) = Inl (Err ''system role cannot be modified'') \<and>
    snd (DeleteAdminRole uc ''owner'' now m) = Inl (Err ''system role cannot be deleted'')"
proof (intro conjI)
  show "(r \<in> set (ListAdminRoles uc now m) \<and> ro_ID r = ''owner'') = (DefaultRole now ''owner'' = Some r)"
    by (rule ListAdminRoles_owner [OF store_reachable_roles [OF assms]])
  show "snd (UpsertAdminRole uc (x\<lparr>ro_ID := ''owner''\<rparr>) now now' m) = Inl (Err ''system role cannot be modified'')"
    using DefaultRole_owner [of now'] by (auto simp: UpsertAdminRole_def)
  have "ascii ''owner''" "map lower_char ''owner'' = ''owner''" "TrimSpace ''owner'' = ''owner''" by code_simp+
  then have "ToLower uc ''owner'' = ''owner''" by (simp add: ToLower_ascii)
  moreover have "concat (map EncodeRune (filter role_rune (runes ''owner''))) = ''owner''" by code_simp
  ultimately have "RoleID uc ''owner'' = ''owner''" using \<open>TrimSpace _ = _\<close> by (simp add: RoleID_def)
  with DefaultRole_owner [of now] show "snd (DeleteAdminRole uc ''owner'' now m) = Inl (Err ''system role cannot be deleted'')"
    by (auto simp: DeleteAdminRole_def Let_def)
qed

lemma owner_role_immutable_witness:
  "\<exists>r\<in>set (ListAdminRoles plain_unicode 7 sample_store). ro_ID r = ''owner'' \<and> ro_Permissions r = [''*'']"
proof -
  have "\<exists>r. DefaultRole 7 ''owner'' = Some r \<and> ro_Permissions r = [''*'']" by (simp add: DefaultRole_def DefaultRoles_def)
  then show ?thesis using owner_role_immutable [OF sample_reachable, THEN conjunct1] by blast
qed

text \<open>Two administrators, the name of one being the address of the other.\<close>

definition sample_admin :: "string \<Rightarrow> string \<Rightarrow> AdminUser" where
  "sample_admin name email = \<lparr>au_ID = [], au_Username = name, au_Email = email, au_PasswordHash = [], au_Role = ''owner'',
    au_Status = [], au_CreatedAt = 0, au_UpdatedAt = 0\<rparr>"

definition sample_admins :: memory where
  "sample_admins = fst (CreateAdminUser plain_unicode (sample_admin ''a@b'' []) 2
     (fst (CreateAdminUser plain_unicode (sample_admin ''ann'' ''a@b'') 1 NewMemory)))"

lemma sample_admins_reachable: "store_reachable plain_unicode sample_admins"
  unfolding sample_admins_def
  by (rule store_reachable.step [OF store_reachable.step [OF store_reachable.init by_record] by_record])
    (rule do_CreateAdminUser)+

text \<open>
  In every reachable state two administrators never have the same name, nor the same e-mail
  address unless it is empty, up to case; every administrator is found by identifier.
\<close>

theorem admins_distinct:
  assumes "store_reachable uc m" and "GetAdminUser m i = Inr u" and "GetAdminUser m j = Inr v" and "i \<noteq> j"
  shows "\<not> EqualFold uc (au_Username u) (au_Username v) \<and>
    \<not> (au_Email u \<noteq> [] \<and> EqualFold uc (au_Email u) (au_Email v)) \<and> au_ID u = i"
proof -
  note ok = store_invD(4) [OF store_reachable_inv [OF assms(1)]]
  have u: "gget (adminUsers m) i = Some u" "gget (adminUsers m) j = Some v"
    using assms(2,3) by (auto simp: GetAdminUser_def split: option.splits)
  then have "\<not> admin_clash uc (au_Username v) (au_Email v) u" "au_ID u = i"
    using ok assms(4) unfolding admins_ok_def by blast+
  moreover have "EqualFold uc (au_Email u) (au_Email v) \<Longrightarrow> au_Email u \<noteq> [] \<Longrightarrow> au_Email v \<noteq> []"
    by (metis EqualFold_Nil)
  ultimately show ?thesis by (auto simp: admin_clash_iff)
qed

lemma admins_distinct_witness:
  "case (GetAdminUser sample_admins ''admin-1'', GetAdminUser sample_admins ''admin-2'') of
     (Inr u, Inr v) \<Rightarrow> \<not> EqualFold plain_unicode (au_Username u) (au_Username v) | _ \<Rightarrow> False"
proof -
  have "is_ok (GetAdminUser sample_admins ''admin-1'')" "is_ok (GetAdminUser sample_admins ''admin-2'')" by code_simp+
  then obtain u v where u: "GetAdminUser sample_admins ''admin-1'' = Inr u" "GetAdminUser sample_admins ''admin-2'' = Inr v"
    by (auto simp: is_ok_iff)
  from admins_distinct [OF sample_admins_reachable u] u show ?thesis by simp
qed

lemma reordered_admins:
  assumes "gget (adminUsers m) k = Some u"
  shows "reordered m (m\<lparr>adminUsers := gput (gdel (adminUsers m) k) k u\<rparr>)"
proof -
  have "gget (adminUsers m) = gget (gput (gdel (adminUsers m) k) k u)"
    using assms by (intro ext) auto
  then show ?thesis by (simp add: reordered_def same_map_def)
qed

text \<open>
  The name of one administrator may be the e-mail address of another: then the identifier
  given at login selects either of them, depending on the order the table is visited in.
\<close>

theorem admin_identifier_ambiguous:
  "\<exists>m m' u v. store_reachable plain_unicode m \<and> reordered m m' \<and> au_ID u \<noteq> au_ID v \<and>
     FindAdminUserByIdentifier plain_unicode m ''a@b'' = Inr u \<and>
     FindAdminUserByIdentifier plain_unicode m' ''a@b'' = Inr v"
proof -
  have "(case gget (adminUsers sample_admins) ''admin-1'' of None \<Rightarrow> False | Some u \<Rightarrow>
      (case (FindAdminUserByIdentifier plain_unicode sample_admins ''a@b'',
         FindAdminUserByIdentifier plain_unicode (sample_admins\<lparr>adminUsers := gput (gdel (adminUsers sample_admins) ''admin-1'') ''admin-1'' u\<rparr>) ''a@b'') of
         (Inr u', Inr v) \<Rightarrow> au_ID u' \<noteq> au_ID v | _ \<Rightarrow> False))"
    by code_simp
  then obtain u u' v where u: "gget (adminUsers sample_admins) ''admin-1'' = Some u" and "au_ID u' \<noteq> au_ID v"
    "FindAdminUserByIdentifier plain_unicode sample_admins ''a@b'' = Inr u'"
    "FindAdminUserByIdentifier plain_unicode (sample_admins\<lparr>adminUsers := gput (gdel (adminUsers sample_admins) ''admin-1'') ''admin-1'' u\<rparr>) ''a@b'' = Inr v"
    by (auto split: option.splits sum.splits)
  with reordered_admins [OF u] sample_admins_reachable show ?thesis by blast
qed

text \<open>
  C19: In every reachable state the operations on links implement the rosters.  Binding makes the
  profile join the roster of the passport; unbinding makes it leave, which succeeds exactly for a
  member, and when it was the head the member that joined first takes over; unbinding a profile
  makes it leave every roster it is in.  No other roster changes, and a refusal changes none.
\<close>

theorem roster_refinement:
  assumes "store_reachable uc m"
  shows "(\<forall>m' pp. BindProfileToPassport p q primary now m = (m', Inr pp) \<longrightarrow>
      roster_of m' = (roster_of m)(q := joins p now primary (roster_of m q))) \<and>
    (is_ok (snd (UnbindProfileFromPassport p q m)) \<longleftrightarrow> ro_members (roster_of m (TrimSpace q)) (TrimSpace p) \<noteq> None) \<and>
    (\<forall>m'. UnbindProfileFromPassport p q m = (m', Inr ()) \<longrightarrow>
      leaves (TrimSpace p) (roster_of m (TrimSpace q)) (roster_of m' (TrimSpace q)) \<and>
      (\<forall>q'. q' \<noteq> TrimSpace q \<longrightarrow> roster_of m' q' = roster_of m q')) \<and>
    (\<forall>m'. UnbindProfile p m = (m', Inr ()) \<longrightarrow>
      (\<forall>q. if ro_members (roster_of m q) (TrimSpace p) \<noteq> None
           then leaves (TrimSpace p) (roster_of m q) (roster_of m' q) else roster_of m' q = roster_of m q)) \<and>
    (\<forall>m' e. BindProfileToPassport p q primary now m = (m', Inl e) \<or> UnbindProfileFromPassport p q m = (m', Inl e) \<or>
      UnbindProfile p m = (m', Inl e) \<longrightarrow> roster_of m' = roster_of m)"
proof (intro conjI allI impI)
  note inv = store_invD(1) [OF store_reachable_inv [OF assms]]
  note ok = identity_invD(1) [OF inv]
  let ?p = "TrimSpace p" and ?q = "TrimSpace q"
  show "roster_of m' = (roster_of m)(q := joins p now primary (roster_of m q))"
    if b: "BindProfileToPassport p q primary now m = (m', Inr pp)" for m' pp
  proof -
    have ok': "tables_ok {} m'"
      using identity_invD(1) [OF identity_inv_BindProfileToPassport [OF inv, of p q primary now]] b by simp
    from b obtain passport profile where "gget (passportsByID m) q = Some passport" "gget (profilesByID m) p = Some profile"
      "linkProfileLocked now passport profile primary m = (m', pp)"
      by (auto simp: BindProfileToPassport_def split: option.splits if_splits prod.splits)
    moreover from this have "pp_ID passport = q" "pf_ID profile = p"
      using tables_okD(8) [OF ok] by (simp_all add: ids_ok_def)
    ultimately show ?thesis
      using roster_link [OF ok, of passport profile profile now primary m' pp "{}"] ok' by (auto simp: fun_eq_iff)
  qed
  show "is_ok (snd (UnbindProfileFromPassport p q m)) \<longleftrightarrow> ro_members (roster_of m ?q) ?p \<noteq> None"
    unfolding UnbindProfileFromPassport_def unlinkProfileLocked_def
    by (simp add: Let_def split: option.split)
  show "leaves ?p (roster_of m ?q) (roster_of m' ?q)" "q' \<noteq> ?q \<Longrightarrow> roster_of m' q' = roster_of m q'"
    if u: "UnbindProfileFromPassport p q m = (m', Inr ())" for m' q'
  proof -
    have l: "link_of m ?p ?q \<noteq> None" and r: "unlinkProfileLocked ?p ?q True m = (m', Inr ())"
      using u unlinkProfileLocked_missing [of m ?p ?q True] by (auto simp: UnbindProfileFromPassport_def simp del: not_None_eq)
    have ok': "tables_ok {} m'"
      using identity_invD(1) [OF identity_inv_Unbind(1) [OF inv, of p q]] u by simp
    show "leaves ?p (roster_of m ?q) (roster_of m' ?q)" "q' \<noteq> ?q \<Longrightarrow> roster_of m' q' = roster_of m q'"
      by (rule roster_unlink [OF ok _ l r ok']; simp)+
  qed
  show "if ro_members (roster_of m q) ?p \<noteq> None
        then leaves ?p (roster_of m q) (roster_of m' q) else roster_of m' q = roster_of m q"
    if u: "UnbindProfile p m = (m', Inr ())" for m' q
    using u roster_unlink_all [OF inv, of "gkeys (links_of m ?p)" ?p m' "Inr ()" q]
    by (auto simp: UnbindProfile_def Let_def gget2_ginner split: if_splits)
  show "roster_of m' = roster_of m"
    if "BindProfileToPassport p q primary now m = (m', Inl e) \<or> UnbindProfileFromPassport p q m = (m', Inl e) \<or>
      UnbindProfile p m = (m', Inl e)" for m' e
    using that
  proof (elim disjE)
    assume u: "UnbindProfile p m = (m', Inl e)"
    then show ?thesis
      using unlink_all_linked [OF inv, of True "gkeys (links_of m ?p)" ?p m' "Inl e"]
      by (auto simp: UnbindProfile_def Let_def gget2_ginner split: if_splits)
  qed (auto simp: BindProfileToPassport_def UnbindProfileFromPassport_def unlinkProfileLocked_def Let_def
      split: option.splits if_splits prod.splits)
qed

text \<open>A second profile in the roster of the sample passport.\<close>

definition sample_pair :: memory where
  "sample_pair = fst (BindProfileToPassport ''09090909-0909-4909-8909-090909090909'' sample_q False 9
     (fst (CreateProfile zero_Profile (Some (replicate 16 9)) 4 sample_store)))"

lemma sample_pair_reachable: "store_reachable plain_unicode sample_pair"
  unfolding sample_pair_def
  by (rule store_reachable.step [OF store_reachable.step [OF sample_reachable by_identity [OF do_CreateProfile]]
      by_identity [OF do_BindProfileToPassport]])

lemma roster_refinement_witness:
  "ro_head (roster_of sample_pair sample_q) = Some sample_p \<and>
   ro_head (roster_of (fst (UnbindProfileFromPassport sample_p sample_q sample_pair)) sample_q) \<noteq> None"
proof -
  obtain m' x where u: "UnbindProfileFromPassport sample_p sample_q sample_pair = (m', x)" by fastforce
  have t: "TrimSpace sample_p = sample_p" "TrimSpace sample_q = sample_q"
    "is_ok (snd (UnbindProfileFromPassport sample_p sample_q sample_pair))"
    "ro_members (roster_of sample_pair sample_q) ''09090909-0909-4909-8909-090909090909'' = Some 9"
    "ro_head (roster_of sample_pair sample_q) = Some sample_p" by code_simp+
  with u have x: "UnbindProfileFromPassport sample_p sample_q sample_pair = (m', Inr ())" by (cases x) auto
  with roster_refinement [OF sample_pair_reachable, of sample_p sample_q] t
  have "leaves sample_p (roster_of sample_pair sample_q) (roster_of m' sample_q)" by auto
  with t have "succeeds (ro_members (roster_of m' sample_q)) (ro_head (roster_of m' sample_q))"
    "ro_members (roster_of m' sample_q) ''09090909-0909-4909-8909-090909090909'' = Some 9"
    by (auto simp: leaves_def)
  with t x show ?thesis by (auto simp: succeeds_def split: option.splits)
qed

end
